(* ===== verification/Mds_Prelude.thy ===== *)
theory Mds_Prelude
  imports Main "HOL-Library.Word"
begin

text \<open>
  Shared vocabulary of the development: the fixed-width integer types of
  \<^verbatim>\<open>src/src/types.h\<close>, the calls a component makes into the rest of the
  emulator, and the lemmas on words and lists that the component theories use.

  Unsigned integers of the C++ code are words: \<open>+\<close>, \<open>-\<close> and \<open>*\<close> wrap around as
  \<^verbatim>\<open>u8\<close>, \<^verbatim>\<open>u16\<close>, \<^verbatim>\<open>u32\<close> and \<^verbatim>\<open>u64\<close> do. A shift \<open>x << n\<close> is \<open>push_bit n x\<close> and
  \<open>x >> n\<close> is \<open>drop_bit n x\<close>.
\<close>

unbundle bit_operations_syntax

type_synonym u8 = "8 word"
type_synonym u16 = "16 word"
type_synonym u32 = "32 word"
type_synonym u64 = "64 word"

text \<open>Facts that unfold a component's operations, and the facts that its invariant is kept.\<close>

named_theorems ops "definitions of operations"
named_theorems inv_ops "operations keep the invariant"

subsection \<open>Words\<close>

lemma unat_plus_small:
  fixes a b :: "'a::len word"
  assumes "unat a + unat b < 2 ^ LENGTH('a)"
  shows "unat (a + b) = unat a + unat b"
  using assms by (simp add: unat_word_ariths)

lemma unat_Suc_small:
  fixes a b :: "'a::len word"
  assumes "a < b"
  shows "unat (a + 1) = Suc (unat a)"
proof -
  have "unat a < unat b" using assms by (simp add: word_less_nat_alt)
  moreover have "unat b < 2 ^ LENGTH('a)" by simp
  ultimately have "Suc (unat a) < 2 ^ LENGTH('a)" by linarith
  then show ?thesis by (simp add: unat_word_ariths)
qed

lemma unat_minus_small:
  fixes a b :: "'a::len word"
  assumes "b \<le> a"
  shows "unat (a - b) = unat a - unat b"
  using assms by (simp add: unat_sub)

lemma unat_u32_less: "unat x < 4294967296" for x :: u32
  using unsigned_less [of x] by simp

lemma unat_u16_less: "unat x < 65536" for x :: u16
  using unsigned_less [of x] by simp

lemma unat_u8_less: "unat x < 256" for x :: u8
  using unsigned_less [of x] by simp

text \<open>A conversion keeps a value that fits the target type.\<close>

lemma unat_ucast_small:
  fixes x :: "'a::len word"
  assumes "unat x < 2 ^ LENGTH('b::len)"
  shows "unat (ucast x :: 'b word) = unat x"
  using assms by (simp add: unsigned_ucast_eq take_bit_nat_eq_self)

lemma unat_of_nat_u32: "n < 4294967296 \<Longrightarrow> unat (of_nat n :: u32) = n"
  by (simp add: unat_of_nat)

lemma word_neq_0_unat: "(a \<noteq> 0) = (0 < unat a)" for a :: "'a::len word"
  by (simp add: unat_gt_0)

lemma unat_and_mask: "unat (x AND mask n) = unat x mod 2 ^ n" for x :: "'a::len word"
proof -
  have "unat (x AND mask n) = unat (take_bit n x)" by (simp add: take_bit_eq_mask)
  also have "\<dots> = take_bit n (unat x)" by (rule unsigned_take_bit_eq)
  also have "\<dots> = unat x mod 2 ^ n" by (rule take_bit_eq_mod)
  finally show ?thesis .
qed

lemma unat_shr: "unat (drop_bit n x) = unat x div 2 ^ n" for x :: "'a::len word"
  by (metis unat_drop_bit_eq drop_bit_eq_div)

lemma unat_push_small:
  fixes x :: "'a::len word"
  assumes "unat x * 2 ^ n < 2 ^ LENGTH('a)"
  shows "unat (push_bit n x) = unat x * 2 ^ n"
  using assms by (subst unsigned_push_bit_eq) (simp add: push_bit_eq_mult take_bit_nat_eq_self)

lemma and_NOT_mask_drop: "drop_bit n (x AND NOT (mask n)) = drop_bit n x" for x :: "'a::len word"
  by (rule bit_word_eqI) (auto simp: bit_simps dest: bit_imp_le_length)

text \<open>Words are equal when they agree on the bits they have.\<close>

lemma word_eq_bits: "(\<And>n. n < LENGTH('a) \<Longrightarrow> bit a n = bit b n) \<Longrightarrow> a = b" for a b :: "'a::len word"
  by (rule bit_word_eqI)

end
