(* ===== verification/Fifo.thy ===== *)
theory Fifo
  imports Mds_Prelude
begin

text \<open>
  The queues of \<^verbatim>\<open>src/src/FIFO.h\<close>: \<^verbatim>\<open>FIFO<T, NumEntries>\<close> (inter-processor and
  geometry queues), \<^verbatim>\<open>DynamicFIFO<T>\<close> and the byte queue \<^verbatim>\<open>RingBuffer<Size>\<close>.
  All three are circular arrays with a read position, a write position and an
  occupancy counter, all \<^verbatim>\<open>u32\<close>. The interface \<open>bounded_queue\<close> says what a client may
  rely on; it is interpreted on both queue classes, and the lemmas on whole runs of
  operations are proved once, inside the locale.
\<close>

section \<open>Model\<close>

record 'a FIFO =
  Entries :: "'a list"
  NumOccupied :: u32
  ReadPos :: u32
  WritePos :: u32

text \<open>The template parameter \<^verbatim>\<open>NumEntries\<close> is the argument \<open>N\<close> of the operations.\<close>

definition FIFO_Level :: "('a, 'm) FIFO_scheme \<Rightarrow> u32" where
  "FIFO_Level f = NumOccupied f"

definition FIFO_IsEmpty :: "('a, 'm) FIFO_scheme \<Rightarrow> bool" where
  "FIFO_IsEmpty f = (NumOccupied f = 0)"

definition FIFO_IsFull :: "u32 \<Rightarrow> ('a, 'm) FIFO_scheme \<Rightarrow> bool" where
  "FIFO_IsFull N f = (NumOccupied f \<ge> N)"

definition FIFO_CanFit :: "u32 \<Rightarrow> ('a, 'm) FIFO_scheme \<Rightarrow> u32 \<Rightarrow> bool" where
  "FIFO_CanFit N f num = (NumOccupied f + num \<le> N)"

definition FIFO_init :: "u32 \<Rightarrow> ('a::zero) FIFO" where
  "FIFO_init N =
     \<lparr>Entries = replicate (unat N) 0, NumOccupied = 0, ReadPos = 0, WritePos = 0\<rparr>"

text \<open>\<^verbatim>\<open>Clear\<close> zeroes the entry at the new read position only.\<close>

definition FIFO_Clear :: "('a::zero, 'm) FIFO_scheme \<Rightarrow> ('a, 'm) FIFO_scheme" where
  "FIFO_Clear f =
     f\<lparr>NumOccupied := 0, ReadPos := 0, WritePos := 0, Entries := (Entries f)[0 := 0]\<rparr>"

definition FIFO_Write :: "u32 \<Rightarrow> ('a, 'm) FIFO_scheme \<Rightarrow> 'a \<Rightarrow> ('a, 'm) FIFO_scheme" where
  "FIFO_Write N f val =
     (if FIFO_IsFull N f then f
      else
        let w = WritePos f + 1
        in f\<lparr>Entries := (Entries f)[unat (WritePos f) := val],
             WritePos := (if w \<ge> N then 0 else w),
             NumOccupied := NumOccupied f + 1\<rparr>)"

text \<open>Reading an empty queue returns the entry before the read position and changes nothing.\<close>

definition FIFO_Read :: "u32 \<Rightarrow> ('a, 'm) FIFO_scheme \<Rightarrow> 'a \<times> ('a, 'm) FIFO_scheme" where
  "FIFO_Read N f =
     (if FIFO_IsEmpty f
      then (Entries f ! unat ((if ReadPos f = 0 then N else ReadPos f) - 1), f)
      else
        let ret = Entries f ! unat (ReadPos f);
            r = ReadPos f + 1
        in (ret, f\<lparr>ReadPos := (if r \<ge> N then 0 else r), NumOccupied := NumOccupied f - 1\<rparr>))"

definition FIFO_Peek :: "('a, 'm) FIFO_scheme \<Rightarrow> 'a" where
  "FIFO_Peek f = Entries f ! unat (ReadPos f)"

definition FIFO_PeekAt :: "u32 \<Rightarrow> ('a, 'm) FIFO_scheme \<Rightarrow> u32 \<Rightarrow> 'a" where
  "FIFO_PeekAt N f offset =
     (let pos = ReadPos f + offset;
          pos = (if pos \<ge> N then pos - N else pos)
      in Entries f ! unat pos)"

text \<open>
  \<^verbatim>\<open>DynamicFIFO\<close> keeps its size in a field; all its operations but \<^verbatim>\<open>Read\<close> are the
  ones of \<^verbatim>\<open>FIFO\<close> over that field. Its \<^verbatim>\<open>Read\<close> on an empty queue returns the entry at
  the read position.
\<close>

record 'a DynamicFIFO = "'a FIFO" +
  NumEntries :: u32

definition DynamicFIFO_new :: "u32 \<Rightarrow> 'a::zero list \<Rightarrow> 'a DynamicFIFO" where
  "DynamicFIFO_new num garbage =
     FIFO_Clear \<lparr>Entries = garbage, NumOccupied = 0, ReadPos = 0, WritePos = 0, NumEntries = num\<rparr>"

definition DynamicFIFO_Write :: "'a DynamicFIFO \<Rightarrow> 'a \<Rightarrow> 'a DynamicFIFO" where
  "DynamicFIFO_Write f val = FIFO_Write (NumEntries f) f val"

definition DynamicFIFO_Read :: "'a DynamicFIFO \<Rightarrow> 'a \<times> 'a DynamicFIFO" where
  "DynamicFIFO_Read f =
     (let ret = Entries f ! unat (ReadPos f)
      in if FIFO_IsEmpty f then (ret, f)
         else
           let r = ReadPos f + 1
           in (ret, f\<lparr>ReadPos := (if r \<ge> NumEntries f then 0 else r),
                      NumOccupied := NumOccupied f - 1\<rparr>))"

definition DynamicFIFO_PeekAt :: "'a DynamicFIFO \<Rightarrow> u32 \<Rightarrow> 'a" where
  "DynamicFIFO_PeekAt f offset = FIFO_PeekAt (NumEntries f) f offset"

definition DynamicFIFO_CanFit :: "'a DynamicFIFO \<Rightarrow> u32 \<Rightarrow> bool" where
  "DynamicFIFO_CanFit f num = FIFO_CanFit (NumEntries f) f num"

section \<open>Representation\<close>

text \<open>
  The queue's contents, oldest first, and the invariant that ties the three
  counters together.
\<close>

definition fifo_list :: "('a, 'm) FIFO_scheme \<Rightarrow> 'a list" where
  "fifo_list f = take (unat (NumOccupied f)) (rotate (unat (ReadPos f)) (Entries f))"

definition fifo_inv :: "u32 \<Rightarrow> ('a, 'm) FIFO_scheme \<Rightarrow> bool" where
  "fifo_inv N f \<longleftrightarrow>
     0 < N \<and> length (Entries f) = unat N \<and> NumOccupied f \<le> N \<and> ReadPos f < N \<and>
     unat (WritePos f) = (unat (ReadPos f) + unat (NumOccupied f)) mod unat N"

lemma fifo_invD:
  assumes "fifo_inv N f"
  shows "0 < unat N" "length (Entries f) = unat N" "unat (NumOccupied f) \<le> unat N"
    "unat (ReadPos f) < unat N" "unat (WritePos f) < unat N"
  using assms by (auto simp: fifo_inv_def word_le_nat_alt word_less_nat_alt)

lemma length_fifo_list: "fifo_inv N f \<Longrightarrow> length (fifo_list f) = unat (NumOccupied f)"
  by (simp add: fifo_list_def fifo_inv_def word_le_nat_alt)

lemma nth_fifo_list:
  assumes "fifo_inv N f" "i < unat (NumOccupied f)"
  shows "fifo_list f ! i = Entries f ! ((unat (ReadPos f) + i) mod unat N)"
  using assms by (simp add: fifo_list_def nth_rotate fifo_inv_def word_le_nat_alt)

text \<open>A position that is stepped and reset at the end of the array is a step modulo its size.\<close>

lemma unat_wrap_step:
  fixes p N :: u32
  assumes "unat p < unat N"
  shows "unat (if p + 1 \<ge> N then 0 else p + 1) = (unat p + 1) mod unat N"
proof -
  from assms have "p < N" by (simp add: word_less_nat_alt)
  then have s: "unat (p + 1) = Suc (unat p)" by (rule unat_Suc_small)
  show ?thesis
  proof (cases "p + 1 \<ge> N")
    case True
    with s assms have "Suc (unat p) = unat N" by (simp add: word_le_nat_alt)
    with True show ?thesis by simp
  next
    case False
    with s have "Suc (unat p) < unat N" by (simp add: word_le_nat_alt)
    with False s show ?thesis by simp
  qed
qed

lemma mod_add_less_imp_False:
  fixes r i n N :: nat
  assumes "(r + i) mod N = (r + n) mod N" "i < n" "n < N"
  shows False
proof -
  have "N dvd (r + n) - (r + i)"
    using assms mod_eq_dvd_iff_nat [of "r + i" "r + n" N] by simp
  then have "N dvd n - i" by simp
  with assms show False by (auto dest: dvd_imp_le)
qed

lemma mod_add_inj:
  fixes r i n N :: nat
  assumes "(r + i) mod N = (r + n) mod N" "i < N" "n < N"
  shows "i = n"
  using assms mod_add_less_imp_False [of r i N n] mod_add_less_imp_False [of r n N i]
  by (metis linorder_neqE_nat)

section \<open>Each operation on the contents\<close>

lemma FIFO_Clear_inv: "fifo_inv N f \<Longrightarrow> fifo_inv N (FIFO_Clear f)"
  by (simp add: fifo_inv_def FIFO_Clear_def)

lemma FIFO_Clear_list: "fifo_list (FIFO_Clear f) = []"
  by (simp add: fifo_list_def FIFO_Clear_def)

lemma FIFO_init_inv: "0 < N \<Longrightarrow> fifo_inv N (FIFO_init N)"
  by (simp add: fifo_inv_def FIFO_init_def)

lemma FIFO_init_list: "fifo_list (FIFO_init N) = []"
  by (simp add: fifo_list_def FIFO_init_def)

lemma FIFO_Write_full: "FIFO_IsFull N f \<Longrightarrow> FIFO_Write N f v = f"
  by (simp add: FIFO_Write_def)

lemma FIFO_IsFull_list: "fifo_inv N f \<Longrightarrow> FIFO_IsFull N f = (length (fifo_list f) = unat N)"
  using length_fifo_list [of N f] fifo_invD(3) [of N f]
  by (auto simp: FIFO_IsFull_def word_le_nat_alt)

lemma FIFO_IsEmpty_list: "fifo_inv N f \<Longrightarrow> FIFO_IsEmpty f = (fifo_list f = [])"
  by (auto simp: FIFO_IsEmpty_def length_fifo_list simp flip: length_0_conv unat_eq_zero)

lemma FIFO_Level_list: "fifo_inv N f \<Longrightarrow> unat (FIFO_Level f) = length (fifo_list f)"
  by (simp add: FIFO_Level_def length_fifo_list)

lemma occupied_Suc:
  assumes "fifo_inv N f" "\<not> FIFO_IsFull N f"
  shows "unat (NumOccupied f + 1) = Suc (unat (NumOccupied f))"
  using assms unat_Suc_small [of "NumOccupied f" N] by (simp add: FIFO_IsFull_def not_le)

lemma FIFO_Write_inv:
  assumes inv: "fifo_inv N f"
  shows "fifo_inv N (FIFO_Write N f v)"
proof (cases "FIFO_IsFull N f")
  case True
  with inv show ?thesis by (simp add: FIFO_Write_full)
next
  case False
  note s = occupied_Suc [OF inv False]
  note d = fifo_invD [OF inv]
  have "unat (WritePos (FIFO_Write N f v)) = (unat (WritePos f) + 1) mod unat N"
    using False unat_wrap_step [OF d(5)] by (simp add: FIFO_Write_def Let_def)
  also have "\<dots> = (unat (ReadPos f) + unat (NumOccupied f + 1)) mod unat N"
    using inv s by (simp add: fifo_inv_def mod_Suc_eq)
  finally show ?thesis
    using inv False s
    by (simp add: fifo_inv_def FIFO_Write_def Let_def FIFO_IsFull_def word_le_nat_alt)
qed

lemma FIFO_Write_list:
  assumes inv: "fifo_inv N f" and nf: "\<not> FIFO_IsFull N f"
  shows "fifo_list (FIFO_Write N f v) = fifo_list f @ [v]"
proof (rule nth_equalityI)
  let ?f = "FIFO_Write N f v" and ?n = "unat (NumOccupied f)" and ?r = "unat (ReadPos f)"
  note d = fifo_invD [OF inv]
  have n: "?n < unat N" using inv nf by (simp add: FIFO_IsFull_def word_le_nat_alt)
  have inv': "fifo_inv N ?f" by (rule FIFO_Write_inv [OF inv])
  have occ: "unat (NumOccupied ?f) = Suc ?n"
    using nf occupied_Suc [OF inv nf] by (simp add: FIFO_Write_def Let_def)
  show "length (fifo_list ?f) = length (fifo_list f @ [v])"
    using inv inv' occ by (simp add: length_fifo_list)
  fix i assume "i < length (fifo_list ?f)"
  then have i: "i < Suc ?n" using inv' occ by (simp add: length_fifo_list)
  have w: "unat (WritePos f) = (?r + ?n) mod unat N" using inv by (simp add: fifo_inv_def)
  have "fifo_list ?f ! i = (Entries f)[unat (WritePos f) := v] ! ((?r + i) mod unat N)"
    using nth_fifo_list [OF inv', of i] i occ nf by (simp add: FIFO_Write_def Let_def)
  also have "\<dots> = (fifo_list f @ [v]) ! i"
  proof (cases "i = ?n")
    case True
    then show ?thesis using w d inv by (simp add: nth_append length_fifo_list)
  next
    case False
    with i n have "(?r + i) mod unat N \<noteq> unat (WritePos f)"
      using w mod_add_inj [of ?r i "unat N" ?n] by auto
    with False i show ?thesis
      using inv by (simp add: nth_append length_fifo_list nth_fifo_list)
  qed
  finally show "fifo_list ?f ! i = (fifo_list f @ [v]) ! i" .
qed

text \<open>
  \<^verbatim>\<open>FIFO\<close> and \<^verbatim>\<open>DynamicFIFO\<close> remove an entry in the same way; the removal is stated once.
\<close>

definition fifo_pop :: "u32 \<Rightarrow> ('a, 'm) FIFO_scheme \<Rightarrow> ('a, 'm) FIFO_scheme" where
  "fifo_pop N f =
     f\<lparr>ReadPos := (if ReadPos f + 1 \<ge> N then 0 else ReadPos f + 1),
       NumOccupied := NumOccupied f - 1\<rparr>"

lemma FIFO_Read_nonempty:
  "\<not> FIFO_IsEmpty f \<Longrightarrow> FIFO_Read N f = (Entries f ! unat (ReadPos f), fifo_pop N f)"
  by (simp add: FIFO_Read_def fifo_pop_def Let_def)

lemma DynamicFIFO_Read_nonempty:
  "\<not> FIFO_IsEmpty f \<Longrightarrow>
   DynamicFIFO_Read f = (Entries f ! unat (ReadPos f), fifo_pop (NumEntries f) f)"
  by (simp add: DynamicFIFO_Read_def fifo_pop_def Let_def)

lemma occupied_pred:
  assumes "\<not> FIFO_IsEmpty f"
  shows "unat (NumOccupied f - 1) = unat (NumOccupied f) - 1"
  using assms unat_minus_small [of 1 "NumOccupied f"]
  by (simp add: FIFO_IsEmpty_def word_le_nat_alt word_neq_0_unat Suc_le_eq)

lemma fifo_pop_inv:
  assumes inv: "fifo_inv N f" and ne: "\<not> FIFO_IsEmpty f"
  shows "fifo_inv N (fifo_pop N f)"
proof -
  note d = fifo_invD [OF inv]
  have n: "0 < unat (NumOccupied f)" using ne by (simp add: FIFO_IsEmpty_def word_neq_0_unat)
  have r: "unat (ReadPos (fifo_pop N f)) = (unat (ReadPos f) + 1) mod unat N"
    using unat_wrap_step [OF d(4)] by (simp add: fifo_pop_def)
  have "(unat (ReadPos f) + unat (NumOccupied f)) mod unat N
      = (unat (ReadPos (fifo_pop N f)) + (unat (NumOccupied f) - 1)) mod unat N"
    unfolding r mod_add_left_eq using n by simp
  moreover have "unat (NumOccupied f) - Suc 0 \<le> unat N" using d(3) by linarith
  ultimately show ?thesis
    using inv d(1) r occupied_pred [OF ne]
    by (simp add: fifo_inv_def word_le_nat_alt word_less_nat_alt fifo_pop_def)
qed

lemma fifo_pop_list:
  assumes inv: "fifo_inv N f" and ne: "\<not> FIFO_IsEmpty f"
  shows "fifo_list (fifo_pop N f) = tl (fifo_list f)"
proof (rule nth_equalityI)
  let ?f = "fifo_pop N f"
  note d = fifo_invD [OF inv]
  have inv': "fifo_inv N ?f" by (rule fifo_pop_inv [OF inv ne])
  have occ: "unat (NumOccupied ?f) = unat (NumOccupied f) - 1"
    using occupied_pred [OF ne] by (simp add: fifo_pop_def)
  show "length (fifo_list ?f) = length (tl (fifo_list f))"
    using inv inv' occ by (simp add: length_fifo_list)
  fix i assume "i < length (fifo_list ?f)"
  then have i: "Suc i < unat (NumOccupied f)" using inv' occ by (simp add: length_fifo_list)
  have r: "unat (ReadPos ?f) = (unat (ReadPos f) + 1) mod unat N"
    using unat_wrap_step [OF d(4)] by (simp add: fifo_pop_def)
  have "fifo_list ?f ! i = Entries f ! ((unat (ReadPos ?f) + i) mod unat N)"
    using nth_fifo_list [OF inv'] i occ by (simp add: fifo_pop_def)
  also have "\<dots> = Entries f ! ((unat (ReadPos f) + Suc i) mod unat N)"
    unfolding r by (simp add: mod_add_left_eq)
  also have "\<dots> = tl (fifo_list f) ! i"
    using nth_fifo_list [OF inv i] i inv by (simp add: nth_tl length_fifo_list)
  finally show "fifo_list ?f ! i = tl (fifo_list f) ! i" .
qed

lemma fifo_head:
  assumes "fifo_inv N f" "\<not> FIFO_IsEmpty f"
  shows "Entries f ! unat (ReadPos f) = hd (fifo_list f)"
proof -
  have "0 < unat (NumOccupied f)" using assms(2) by (simp add: FIFO_IsEmpty_def word_neq_0_unat)
  then have "fifo_list f ! 0 = Entries f ! unat (ReadPos f)"
    using assms(1) by (simp add: nth_fifo_list fifo_invD(4))
  then show ?thesis using assms FIFO_IsEmpty_list by (metis hd_conv_nth)
qed

text \<open>Looking ahead by less than the level returns the entry at that place of the queue.\<close>

lemma FIFO_PeekAt_list:
  assumes inv: "fifo_inv N f" and off: "offset < NumOccupied f"
    and small: "unat N < 2 ^ 31"
  shows "FIFO_PeekAt N f offset = fifo_list f ! unat offset"
proof -
  let ?p = "ReadPos f + offset"
  note d = fifo_invD [OF inv]
  have o: "unat offset < unat (NumOccupied f)" using off by (simp add: word_less_nat_alt)
  have p: "unat ?p = unat (ReadPos f) + unat offset"
    using d o small by (intro unat_plus_small) simp
  have "unat (if ?p \<ge> N then ?p - N else ?p) = (unat (ReadPos f) + unat offset) mod unat N"
  proof (cases "?p \<ge> N")
    case True
    then have "unat (?p - N) = unat (ReadPos f) + unat offset - unat N"
      using p by (simp add: unat_minus_small)
    moreover have "unat N \<le> unat (ReadPos f) + unat offset"
      using True p by (simp add: word_le_nat_alt)
    moreover have "unat (ReadPos f) + unat offset - unat N < unat N" using d o by linarith
    ultimately show ?thesis using True by (simp add: mod_if)
  next
    case False
    with p show ?thesis by (simp add: word_le_nat_alt)
  qed
  then show ?thesis
    using nth_fifo_list [OF inv o] by (simp add: FIFO_PeekAt_def Let_def)
qed

section \<open>The queue interface\<close>

datatype 'a queue_op = QWrite 'a | QRead

text \<open>The specification: a list of at most \<open>cap\<close> entries; a write to a full queue is dropped.\<close>

fun spec_step :: "nat \<Rightarrow> 'a list \<Rightarrow> 'a queue_op \<Rightarrow> 'a option \<times> 'a list" where
  "spec_step cap q (QWrite v) = (None, if length q < cap then q @ [v] else q)"
| "spec_step cap [] QRead = (None, [])"
| "spec_step cap (x # q) QRead = (Some x, q)"

fun spec_run :: "nat \<Rightarrow> 'a list \<Rightarrow> 'a queue_op list \<Rightarrow> 'a option list \<times> 'a list" where
  "spec_run cap q [] = ([], q)"
| "spec_run cap q (x # xs) =
     (let (out, q') = spec_step cap q x; (outs, q'') = spec_run cap q' xs in (out # outs, q''))"

text \<open>
  The value a read returns is observed only when the queue held something: the two
  classes differ in what an empty queue returns.
\<close>

fun fifo_step :: "('q \<Rightarrow> bool) \<Rightarrow> ('q \<Rightarrow> 'a \<Rightarrow> 'q) \<Rightarrow> ('q \<Rightarrow> 'a \<times> 'q) \<Rightarrow> 'q \<Rightarrow> 'a queue_op \<Rightarrow> 'a option \<times> 'q" where
  "fifo_step isempty wr rd q (QWrite v) = (None, wr q v)"
| "fifo_step isempty wr rd q QRead =
     (let (v, q') = rd q in (if isempty q then None else Some v, q'))"

fun fifo_run :: "('q \<Rightarrow> bool) \<Rightarrow> ('q \<Rightarrow> 'a \<Rightarrow> 'q) \<Rightarrow> ('q \<Rightarrow> 'a \<times> 'q) \<Rightarrow> 'q \<Rightarrow> 'a queue_op list \<Rightarrow> 'a option list \<times> 'q" where
  "fifo_run isempty wr rd q [] = ([], q)"
| "fifo_run isempty wr rd q (x # xs) =
     (let (out, q') = fifo_step isempty wr rd q x;
          (outs, q'') = fifo_run isempty wr rd q' xs
      in (out # outs, q''))"

locale bounded_queue =
  fixes invar :: "'q \<Rightarrow> bool"
    and contents :: "'q \<Rightarrow> 'a list"
    and cap :: nat
    and isempty :: "'q \<Rightarrow> bool"
    and wr :: "'q \<Rightarrow> 'a \<Rightarrow> 'q"
    and rd :: "'q \<Rightarrow> 'a \<times> 'q"
  assumes contents_cap: "invar q \<Longrightarrow> length (contents q) \<le> cap"
    and isempty_iff: "invar q \<Longrightarrow> isempty q = (contents q = [])"
    and wr_inv: "invar q \<Longrightarrow> invar (wr q v)"
    and wr_room: "invar q \<Longrightarrow> length (contents q) < cap \<Longrightarrow> contents (wr q v) = contents q @ [v]"
    and wr_full: "invar q \<Longrightarrow> length (contents q) = cap \<Longrightarrow> contents (wr q v) = contents q"
    and rd_inv: "invar q \<Longrightarrow> invar (snd (rd q))"
    and rd_value: "invar q \<Longrightarrow> contents q \<noteq> [] \<Longrightarrow> fst (rd q) = hd (contents q)"
    and rd_contents: "invar q \<Longrightarrow> contents (snd (rd q)) = tl (contents q)"
begin

lemma step_refines:
  assumes "invar q"
  shows "fst (fifo_step isempty wr rd q x) = fst (spec_step cap (contents q) x) \<and>
    contents (snd (fifo_step isempty wr rd q x)) = snd (spec_step cap (contents q) x) \<and>
    invar (snd (fifo_step isempty wr rd q x))"
proof (cases x)
  case (QWrite v)
  then show ?thesis
    using assms contents_cap [OF assms]
    by (auto simp: wr_inv wr_room wr_full dest: le_neq_implies_less)
next
  case QRead
  show ?thesis
  proof (cases "contents q")
    case Nil
    then show ?thesis
      using assms QRead by (auto simp: isempty_iff rd_contents rd_inv split_def Let_def)
  next
    case (Cons a as)
    then show ?thesis
      using assms QRead
      by (auto simp: isempty_iff rd_contents rd_inv rd_value split_def Let_def)
  qed
qed

lemma run_refines:
  "invar q \<Longrightarrow>
   fst (fifo_run isempty wr rd q xs) = fst (spec_run cap (contents q) xs) \<and>
   contents (snd (fifo_run isempty wr rd q xs)) = snd (spec_run cap (contents q) xs) \<and>
   invar (snd (fifo_run isempty wr rd q xs))"
proof (induction xs arbitrary: q)
  case Nil
  then show ?case by simp
next
  case (Cons x xs)
  note st = step_refines [OF Cons.prems, of x]
  then have "invar (snd (fifo_step isempty wr rd q x))" by simp
  from Cons.IH [OF this] st show ?case by (simp add: split_def Let_def)
qed

lemma write_all:
  "invar q \<Longrightarrow> length (contents q) + length vs \<le> cap \<Longrightarrow>
   invar (foldl wr q vs) \<and> contents (foldl wr q vs) = contents q @ vs"
  by (induction vs arbitrary: q) (auto simp: wr_inv wr_room)

end

interpretation fifo: bounded_queue
  "fifo_inv N" fifo_list "unat N" FIFO_IsEmpty "FIFO_Write N" "FIFO_Read N"
  for N :: u32
proof
  fix q :: "('a, 'b) FIFO_scheme" and v
  assume inv: "fifo_inv N q"
  show "length (fifo_list q) \<le> unat N" using inv by (simp add: length_fifo_list fifo_invD)
  show "FIFO_IsEmpty q = (fifo_list q = [])" by (rule FIFO_IsEmpty_list [OF inv])
  show "fifo_inv N (FIFO_Write N q v)" by (rule FIFO_Write_inv [OF inv])
  show "fifo_list (FIFO_Write N q v) = fifo_list q @ [v]" if "length (fifo_list q) < unat N"
    using FIFO_Write_list [OF inv] FIFO_IsFull_list [OF inv] that by simp
  show "fifo_list (FIFO_Write N q v) = fifo_list q" if "length (fifo_list q) = unat N"
    using FIFO_IsFull_list [OF inv] that by (simp add: FIFO_Write_full)
  show "fifo_inv N (snd (FIFO_Read N q))"
    by (cases "FIFO_IsEmpty q") (simp_all add: FIFO_Read_nonempty fifo_pop_inv inv, simp add: FIFO_Read_def inv)
  show "fst (FIFO_Read N q) = hd (fifo_list q)" if "fifo_list q \<noteq> []"
    using that FIFO_IsEmpty_list [OF inv] by (simp add: FIFO_Read_nonempty fifo_head [OF inv])
  show "fifo_list (snd (FIFO_Read N q)) = tl (fifo_list q)"
    using FIFO_IsEmpty_list [OF inv]
    by (cases "FIFO_IsEmpty q")
      (simp add: FIFO_Read_def, simp add: FIFO_Read_nonempty fifo_pop_list [OF inv])
qed

definition dyn_inv :: "'a DynamicFIFO \<Rightarrow> bool" where
  "dyn_inv f = fifo_inv (NumEntries f) f"

lemma NumEntries_ops [simp]:
  "NumEntries (FIFO_Write N f v) = NumEntries f" "NumEntries (fifo_pop N f) = NumEntries f"
  by (simp_all add: FIFO_Write_def fifo_pop_def Let_def)

interpretation dynfifo: bounded_queue
  "\<lambda>q. NumEntries q = N \<and> dyn_inv q" fifo_list "unat N" FIFO_IsEmpty DynamicFIFO_Write DynamicFIFO_Read
  for N :: u32
proof
  fix q :: "'a DynamicFIFO" and v
  assume q: "NumEntries q = N \<and> dyn_inv q"
  then have N: "NumEntries q = N" and inv: "fifo_inv N q" by (auto simp: dyn_inv_def)
  show "length (fifo_list q) \<le> unat N" by (rule fifo.contents_cap [OF inv])
  show "FIFO_IsEmpty q = (fifo_list q = [])" by (rule FIFO_IsEmpty_list [OF inv])
  show "NumEntries (DynamicFIFO_Write q v) = N \<and> dyn_inv (DynamicFIFO_Write q v)"
    using FIFO_Write_inv [OF inv] N by (simp add: DynamicFIFO_Write_def dyn_inv_def)
  show "fifo_list (DynamicFIFO_Write q v) = fifo_list q @ [v]" if "length (fifo_list q) < unat N"
    using fifo.wr_room [OF inv that] N by (simp add: DynamicFIFO_Write_def)
  show "fifo_list (DynamicFIFO_Write q v) = fifo_list q" if "length (fifo_list q) = unat N"
    using fifo.wr_full [OF inv that] N by (simp add: DynamicFIFO_Write_def)
  show "NumEntries (snd (DynamicFIFO_Read q)) = N \<and> dyn_inv (snd (DynamicFIFO_Read q))"
    using q fifo_pop_inv [OF inv]
    by (cases "FIFO_IsEmpty q")
      (simp add: DynamicFIFO_Read_def, simp add: DynamicFIFO_Read_nonempty dyn_inv_def)
  show "fst (DynamicFIFO_Read q) = hd (fifo_list q)" if "fifo_list q \<noteq> []"
    using that FIFO_IsEmpty_list [OF inv]
    by (simp add: DynamicFIFO_Read_nonempty fifo_head [OF inv])
  show "fifo_list (snd (DynamicFIFO_Read q)) = tl (fifo_list q)"
    using FIFO_IsEmpty_list [OF inv] N
    by (cases "FIFO_IsEmpty q")
      (simp add: DynamicFIFO_Read_def, simp add: DynamicFIFO_Read_nonempty fifo_pop_list [OF inv])
qed

section \<open>Properties\<close>

text \<open>
  C37: every sequence of writes and reads on a \<^verbatim>\<open>FIFO<T, N>\<close> returns what a list of at most
  \<open>N\<close> entries returns: reads give the written values in order, a write to a full queue is
  dropped, and the counters stay inside the array whatever the sequence.
\<close>

theorem FIFO_refines_list:
  assumes "0 < N"
  shows "fst (fifo_run FIFO_IsEmpty (FIFO_Write N) (FIFO_Read N) (FIFO_init N) ops) = fst (spec_run (unat N) [] ops) \<and>
    fifo_list (snd (fifo_run FIFO_IsEmpty (FIFO_Write N) (FIFO_Read N) (FIFO_init N) ops)) = snd (spec_run (unat N) [] ops) \<and>
    fifo_inv N (snd (fifo_run FIFO_IsEmpty (FIFO_Write N) (FIFO_Read N) (FIFO_init N) ops))"
  using fifo.run_refines [OF FIFO_init_inv [OF assms], of ops] by (simp add: FIFO_init_list)

theorem FIFO_refines_list_witness:
  "fst (fifo_run FIFO_IsEmpty (FIFO_Write 2) (FIFO_Read 2) (FIFO_init 2)
     [QWrite (5::int), QWrite 6, QWrite 7, QRead, QWrite 8, QRead, QRead, QRead]) =
   [None, None, None, Some 5, None, Some 6, Some 8, None]"
  using FIFO_refines_list [of 2 "[QWrite (5::int), QWrite 6, QWrite 7, QRead, QWrite 8, QRead, QRead, QRead]"]
  by (simp add: Let_def)

text \<open>
  The same for \<^verbatim>\<open>DynamicFIFO\<close>, whatever its freshly allocated array holds.
\<close>

theorem DynamicFIFO_refines_list:
  assumes "0 < N" "length garbage = unat N"
  shows "fst (fifo_run FIFO_IsEmpty DynamicFIFO_Write DynamicFIFO_Read (DynamicFIFO_new N garbage) ops) = fst (spec_run (unat N) [] ops) \<and>
    fifo_list (snd (fifo_run FIFO_IsEmpty DynamicFIFO_Write DynamicFIFO_Read (DynamicFIFO_new N garbage) ops)) = snd (spec_run (unat N) [] ops)"
proof -
  let ?q = "DynamicFIFO_new N garbage"
  have "NumEntries ?q = N \<and> dyn_inv ?q" "fifo_list ?q = []"
    using assms by (simp_all add: DynamicFIFO_new_def dyn_inv_def fifo_inv_def FIFO_Clear_def fifo_list_def)
  with dynfifo.run_refines [of ?q N ops] show ?thesis by simp
qed

theorem DynamicFIFO_refines_list_witness:
  "fst (fifo_run FIFO_IsEmpty DynamicFIFO_Write DynamicFIFO_Read (DynamicFIFO_new 2 [9, 9])
     [QRead, QWrite (5::int), QWrite 6, QWrite 7, QRead, QRead]) = [None, None, None, None, Some 5, Some 6]"
  using DynamicFIFO_refines_list [of 2 "[9, 9]" "[QRead, QWrite (5::int), QWrite 6, QWrite 7, QRead, QRead]"]
  by (simp add: Let_def)

end
