(* ===== verification/Ring_Buffer.thy ===== *)
theory Ring_Buffer
  imports Fifo
begin

text \<open>
  \<^verbatim>\<open>RingBuffer<Size>\<close> of \<^verbatim>\<open>src/src/FIFO.h\<close>: a byte queue whose entries are written and
  read in blocks, each with at most two \<^verbatim>\<open>memcpy\<close> calls. The lemmas show that a block
  write appends, a block read removes and returns the oldest bytes, and that looking
  ahead returns the bytes at the given offset.
\<close>

section \<open>Model\<close>

record RingBuffer =
  RBuffer :: "u8 list"
  RNumOccupied :: u32
  RReadPos :: u32
  RWritePos :: u32

text \<open>\<^verbatim>\<open>memcpy(&buf[pos], xs, n)\<close> for a block that lies inside the buffer.\<close>

definition blit :: "'a list \<Rightarrow> nat \<Rightarrow> 'a list \<Rightarrow> 'a list" where
  "blit buf pos xs = take pos buf @ xs @ drop (pos + length xs) buf"

text \<open>\<^verbatim>\<open>memcpy(data, &buf[pos], n)\<close>.\<close>

definition block :: "nat \<Rightarrow> nat \<Rightarrow> 'a list \<Rightarrow> 'a list" where
  "block pos n buf = take n (drop pos buf)"

definition RingBuffer_Clear :: "u32 \<Rightarrow> RingBuffer \<Rightarrow> RingBuffer" where
  "RingBuffer_Clear Size rb =
     rb\<lparr>RNumOccupied := 0, RReadPos := 0, RWritePos := 0, RBuffer := replicate (unat Size) 0\<rparr>"

definition RingBuffer_CanFit :: "u32 \<Rightarrow> RingBuffer \<Rightarrow> u32 \<Rightarrow> bool" where
  "RingBuffer_CanFit Size rb num = (RNumOccupied rb + num \<le> Size)"

definition RingBuffer_Write :: "u32 \<Rightarrow> RingBuffer \<Rightarrow> u8 list \<Rightarrow> u32 \<Rightarrow> bool \<times> RingBuffer" where
  "RingBuffer_Write Size rb data len =
     (if \<not> RingBuffer_CanFit Size rb len then (False, rb)
      else
        let rb1 =
          (if RWritePos rb + len \<ge> Size
           then
             let part1 = Size - RWritePos rb;
                 b1 = blit (RBuffer rb) (unat (RWritePos rb)) (take (unat part1) data);
                 b2 = (if len > part1 then blit b1 0 (block (unat part1) (unat (len - part1)) data) else b1)
             in rb\<lparr>RBuffer := b2, RWritePos := len - part1\<rparr>
           else
             rb\<lparr>RBuffer := blit (RBuffer rb) (unat (RWritePos rb)) (take (unat len) data),
                RWritePos := RWritePos rb + len\<rparr>)
        in (True, rb1\<lparr>RNumOccupied := RNumOccupied rb1 + len\<rparr>))"

text \<open>The bytes copied out of the buffer from position \<open>readpos\<close> on, as \<^verbatim>\<open>Read\<close> and \<^verbatim>\<open>Peek\<close> do.\<close>

definition ring_copy :: "u32 \<Rightarrow> RingBuffer \<Rightarrow> u32 \<Rightarrow> u32 \<Rightarrow> u8 list" where
  "ring_copy Size rb readpos len =
     (if readpos + len \<ge> Size
      then
        let part1 = Size - readpos
        in block (unat readpos) (unat part1) (RBuffer rb) @
           (if len > part1 then block 0 (unat (len - part1)) (RBuffer rb) else [])
      else block (unat readpos) (unat len) (RBuffer rb))"

definition RingBuffer_Read :: "u32 \<Rightarrow> RingBuffer \<Rightarrow> u32 \<Rightarrow> u8 list option \<times> RingBuffer" where
  "RingBuffer_Read Size rb len =
     (if RNumOccupied rb < len then (None, rb)
      else
        let readpos = RReadPos rb;
            r = (if readpos + len \<ge> Size then len - (Size - readpos) else readpos + len)
        in (Some (ring_copy Size rb readpos len),
            rb\<lparr>RReadPos := r, RNumOccupied := RNumOccupied rb - len\<rparr>))"

definition RingBuffer_Peek :: "u32 \<Rightarrow> RingBuffer \<Rightarrow> u32 \<Rightarrow> u32 \<Rightarrow> u8 list option" where
  "RingBuffer_Peek Size rb offset len =
     (if RNumOccupied rb < len then None
      else
        let readpos = RReadPos rb + offset;
            readpos = (if readpos \<ge> Size then readpos - Size else readpos)
        in Some (ring_copy Size rb readpos len))"

definition RingBuffer_Skip :: "u32 \<Rightarrow> RingBuffer \<Rightarrow> u32 \<Rightarrow> bool \<times> RingBuffer" where
  "RingBuffer_Skip Size rb len =
     (if RNumOccupied rb < len then (False, rb)
      else
        let r = RReadPos rb + len
        in (True, rb\<lparr>RReadPos := (if r \<ge> Size then r - Size else r),
                     RNumOccupied := RNumOccupied rb - len\<rparr>))"

section \<open>Blocks of a circular array\<close>

lemma length_blit: "pos + length xs \<le> length buf \<Longrightarrow> length (blit buf pos xs) = length buf"
  by (simp add: blit_def)

lemma nth_blit:
  assumes "pos + length xs \<le> length buf" "j < length buf"
  shows "blit buf pos xs ! j = (if pos \<le> j \<and> j < pos + length xs then xs ! (j - pos) else buf ! j)"
  using assms by (auto simp: blit_def nth_append min_def)

lemma nth_block: "pos + n \<le> length buf \<Longrightarrow> j < n \<Longrightarrow> block pos n buf ! j = buf ! (pos + j)"
  by (simp add: block_def)

lemma length_block: "pos + n \<le> length buf \<Longrightarrow> length (block pos n buf) = n"
  by (simp add: block_def)

text \<open>A block written at \<open>w\<close> that wraps around at \<open>N\<close>, as a function on lists.\<close>

definition wrap_blit :: "nat \<Rightarrow> 'a list \<Rightarrow> nat \<Rightarrow> 'a list \<Rightarrow> 'a list" where
  "wrap_blit N buf w xs =
     (if w + length xs \<ge> N
      then blit (blit buf w (take (N - w) xs)) 0 (drop (N - w) xs)
      else blit buf w xs)"

lemma length_blit_head:
  "length buf = N \<Longrightarrow> w < N \<Longrightarrow> length (blit buf w (take (N - w) xs)) = N"
  by (rule trans [OF length_blit]) auto

lemma length_wrap_blit:
  assumes "length buf = N" "w < N" "length xs \<le> N"
  shows "length (wrap_blit N buf w xs) = N"
  using assms length_blit_head [of buf N w xs] by (auto simp: wrap_blit_def length_blit)

lemma nth_wrap_blit:
  assumes N: "length buf = N" and w: "w < N" and xs: "length xs \<le> N" and i: "i < N"
  shows "wrap_blit N buf w xs ! ((w + i) mod N) =
    (if i < length xs then xs ! i else buf ! ((w + i) mod N))"
proof -
  let ?j = "(w + i) mod N" and ?b = "blit buf w (take (N - w) xs)"
  have j: "?j = (if w + i < N then w + i else w + i - N)" "?j < N"
    using w i by (auto simp: mod_if)
  have b1: "?b ! ?j = (if w \<le> ?j \<and> ?j < w + min (length xs) (N - w) then xs ! (?j - w) else buf ! ?j)"
    using N w j(2) by (subst nth_blit) auto
  have b2: "blit ?b 0 (drop (N - w) xs) ! ?j =
      (if ?j < length xs - (N - w) then xs ! (?j + (N - w)) else ?b ! ?j)"
    if "w + length xs \<ge> N"
    using that w xs j(2) length_blit_head [OF N w, of xs] by (subst nth_blit) (auto simp: add.commute)
  have b3: "blit buf w xs ! ?j = (if w \<le> ?j \<and> ?j < w + length xs then xs ! (?j - w) else buf ! ?j)"
    if "\<not> w + length xs \<ge> N"
    using that N j(2) by (subst nth_blit) auto
  show ?thesis
  proof (cases "w + length xs \<ge> N")
    case True
    then have "wrap_blit N buf w xs ! ?j =
      (if ?j < length xs - (N - w) then xs ! (?j + (N - w))
       else if w \<le> ?j \<and> ?j < w + min (length xs) (N - w) then xs ! (?j - w) else buf ! ?j)"
      by (simp only: wrap_blit_def if_True b1 b2)
    then show ?thesis using True w xs i unfolding j(1) by (auto split: if_splits)
  next
    case False
    then have "wrap_blit N buf w xs ! ?j =
      (if w \<le> ?j \<and> ?j < w + length xs then xs ! (?j - w) else buf ! ?j)"
      using b3 by (simp add: wrap_blit_def)
    then show ?thesis using False w xs i unfolding j(1) by (auto split: if_splits)
  qed
qed

text \<open>The bytes from \<open>r\<close> on, wrapping around.\<close>

lemma wrap_block:
  assumes N: "length buf = N" and r: "r < N" and n: "n \<le> N"
  shows "(if r + n \<ge> N then block r (N - r) buf @ block 0 (n - (N - r)) buf else block r n buf)
       = map (\<lambda>i. buf ! ((r + i) mod N)) [0..<n]"
proof (rule nth_equalityI)
  show "length (if r + n \<ge> N then block r (N - r) buf @ block 0 (n - (N - r)) buf else block r n buf)
    = length (map (\<lambda>i. buf ! ((r + i) mod N)) [0..<n])"
    using N r n by (auto simp: block_def)
next
  fix i
  assume "i < length (if r + n \<ge> N then block r (N - r) buf @ block 0 (n - (N - r)) buf else block r n buf)"
  then have i: "i < n" using N r n by (auto simp: block_def split: if_splits)
  then have "(r + i) mod N = (if r + i < N then r + i else r + i - N)"
    using r n by (auto simp: mod_if)
  with i show "(if r + n \<ge> N then block r (N - r) buf @ block 0 (n - (N - r)) buf else block r n buf) ! i
    = map (\<lambda>i. buf ! ((r + i) mod N)) [0..<n] ! i"
    using N r n by (auto simp: block_def nth_append add.commute)
qed

section \<open>Representation\<close>

text \<open>
  \<open>ring_inv\<close> bounds the size by \<open>2 ^ 31\<close>, so that the sum of a position and a length
  that fits does not wrap around; the program's only instance has 32768 bytes.
\<close>

definition ring_list :: "RingBuffer \<Rightarrow> u8 list" where
  "ring_list rb =
     map (\<lambda>i. RBuffer rb ! ((unat (RReadPos rb) + i) mod length (RBuffer rb)))
       [0..<unat (RNumOccupied rb)]"

definition ring_inv :: "u32 \<Rightarrow> RingBuffer \<Rightarrow> bool" where
  "ring_inv Size rb \<longleftrightarrow>
     0 < unat Size \<and> unat Size < 2 ^ 31 \<and> length (RBuffer rb) = unat Size \<and>
     unat (RNumOccupied rb) \<le> unat Size \<and> unat (RReadPos rb) < unat Size \<and>
     unat (RWritePos rb) = (unat (RReadPos rb) + unat (RNumOccupied rb)) mod unat Size"

lemma length_ring_list [simp]: "length (ring_list rb) = unat (RNumOccupied rb)"
  by (simp add: ring_list_def)

lemma nth_ring_list:
  "i < unat (RNumOccupied rb) \<Longrightarrow>
   ring_list rb ! i = RBuffer rb ! ((unat (RReadPos rb) + i) mod length (RBuffer rb))"
  by (simp add: ring_list_def)

lemma RingBuffer_Clear_inv:
  "0 < unat Size \<Longrightarrow> unat Size < 2 ^ 31 \<Longrightarrow>
   ring_inv Size (RingBuffer_Clear Size rb) \<and> ring_list (RingBuffer_Clear Size rb) = []"
  by (simp add: ring_inv_def RingBuffer_Clear_def ring_list_def)

text \<open>The positions after a step of \<open>len\<close>, in both ways the code writes it.\<close>

lemma unat_ring_pos:
  fixes p len Size :: u32
  assumes "unat p < unat Size" "unat len \<le> unat Size" "unat Size < 2 ^ 31"
  shows "unat (p + len) = unat p + unat len"
    and "unat (if p + len \<ge> Size then len - (Size - p) else p + len) = (unat p + unat len) mod unat Size"
    and "unat (if p + len \<ge> Size then p + len - Size else p + len) = (unat p + unat len) mod unat Size"
proof -
  show s: "unat (p + len) = unat p + unat len"
    using assms by (intro unat_plus_small) simp
  have m: "(unat p + unat len) mod unat Size =
      (if p + len \<ge> Size then unat p + unat len - unat Size else unat p + unat len)"
    using s assms by (auto simp: word_le_nat_alt mod_if)
  have sp: "unat (Size - p) = unat Size - unat p"
    using assms by (simp add: unat_minus_small word_le_nat_alt)
  show "unat (if p + len \<ge> Size then p + len - Size else p + len) = (unat p + unat len) mod unat Size"
    using m s by (simp add: unat_minus_small)
  show "unat (if p + len \<ge> Size then len - (Size - p) else p + len) = (unat p + unat len) mod unat Size"
  proof (cases "p + len \<ge> Size")
    case True
    then have "Size - p \<le> len" using s sp assms by (simp add: word_le_nat_alt)
    then have "unat (len - (Size - p)) = unat len - (unat Size - unat p)"
      using sp by (simp add: unat_minus_small)
    with True m assms s show ?thesis by (simp add: word_le_nat_alt)
  next
    case False
    with m s show ?thesis by simp
  qed
qed

lemma ring_copy_map:
  assumes "unat p < unat Size" "unat len \<le> unat Size" "unat Size < 2 ^ 31"
    and "length (RBuffer rb) = unat Size"
  shows "ring_copy Size rb p len =
    map (\<lambda>i. RBuffer rb ! ((unat p + i) mod unat Size)) [0..<unat len]"
proof -
  have s: "unat (p + len) = unat p + unat len" by (rule unat_ring_pos(1) [OF assms(1-3)])
  have sp: "unat (Size - p) = unat Size - unat p"
    using assms by (simp add: unat_minus_small word_le_nat_alt)
  have "(if len > Size - p then block 0 (unat (len - (Size - p))) (RBuffer rb) else [])
      = block 0 (unat len - (unat Size - unat p)) (RBuffer rb)"
    using sp by (auto simp: word_less_nat_alt unat_minus_small word_le_nat_alt block_def)
  then show ?thesis
    using wrap_block [OF assms(4,1,2)] s sp
    by (auto simp: ring_copy_def Let_def word_le_nat_alt split: if_splits)
qed

section \<open>Block operations on the contents\<close>

lemma RingBuffer_Read_ok:
  assumes inv: "ring_inv Size rb" and len: "unat len \<le> unat (RNumOccupied rb)"
  obtains rb' where "RingBuffer_Read Size rb len = (Some (take (unat len) (ring_list rb)), rb')"
    and "ring_inv Size rb'" and "ring_list rb' = drop (unat len) (ring_list rb)"
proof
  let ?rb' = "snd (RingBuffer_Read Size rb len)"
  have ok: "\<not> RNumOccupied rb < len" using len by (simp add: word_less_nat_alt)
  have b: "unat (RReadPos rb) < unat Size" "unat len \<le> unat Size" "unat Size < 2 ^ 31"
    and L: "length (RBuffer rb) = unat Size"
    using inv len by (auto simp: ring_inv_def)
  have copy: "ring_copy Size rb (RReadPos rb) len = take (unat len) (ring_list rb)"
    using ring_copy_map [OF b L] len L by (simp add: ring_list_def take_map)
  have r: "unat (RReadPos ?rb') = (unat (RReadPos rb) + unat len) mod unat Size"
    using ok unat_ring_pos(2) [OF b] by (simp add: RingBuffer_Read_def Let_def)
  have n: "unat (RNumOccupied ?rb') = unat (RNumOccupied rb) - unat len"
    using ok len by (simp add: RingBuffer_Read_def Let_def unat_minus_small word_le_nat_alt)
  have rest: "RBuffer ?rb' = RBuffer rb" "RWritePos ?rb' = RWritePos rb"
    using ok by (simp_all add: RingBuffer_Read_def Let_def)
  show "RingBuffer_Read Size rb len = (Some (take (unat len) (ring_list rb)), ?rb')"
    using ok copy by (simp add: RingBuffer_Read_def Let_def)
  have "(unat (RReadPos ?rb') + unat (RNumOccupied ?rb')) mod unat Size
      = (unat (RReadPos rb) + unat (RNumOccupied rb)) mod unat Size"
    unfolding r n mod_add_left_eq using len by simp
  then show "ring_inv Size ?rb'"
    using inv r n rest by (auto simp: ring_inv_def)
  show "ring_list ?rb' = drop (unat len) (ring_list rb)"
    by (rule nth_equalityI) (simp_all add: n nth_ring_list rest r L mod_add_left_eq add.assoc)
qed

lemma RingBuffer_Write_buffer:
  assumes w: "unat (RWritePos rb) < unat Size" and len: "unat len \<le> unat Size"
    and S: "unat Size < 2 ^ 31" and data: "length data = unat len"
    and fit: "RingBuffer_CanFit Size rb len"
  shows "RBuffer (snd (RingBuffer_Write Size rb data len)) =
    wrap_blit (unat Size) (RBuffer rb) (unat (RWritePos rb)) data"
proof -
  note p = unat_ring_pos(1) [OF w len S]
  have sp: "unat (Size - RWritePos rb) = unat Size - unat (RWritePos rb)"
    using w by (simp add: unat_minus_small word_le_nat_alt)
  have d: "block (unat (Size - RWritePos rb)) (unat (len - (Size - RWritePos rb))) data
      = drop (unat Size - unat (RWritePos rb)) data" if "len > Size - RWritePos rb"
    using that sp data by (simp add: block_def unat_minus_small less_imp_le)
  have e: "drop (unat Size - unat (RWritePos rb)) data = []" if "\<not> len > Size - RWritePos rb"
    using that sp data by (simp add: word_less_nat_alt)
  have n: "blit buf 0 [] = buf" for buf :: "u8 list" by (simp add: blit_def)
  show ?thesis
    using fit p sp d e data n
    by (simp add: RingBuffer_Write_def Let_def wrap_blit_def word_le_nat_alt)
qed

lemma RingBuffer_Write_ok:
  assumes inv: "ring_inv Size rb" and data: "length data = unat len"
    and fit: "unat (RNumOccupied rb) + unat len \<le> unat Size"
  obtains rb' where "RingBuffer_Write Size rb data len = (True, rb')"
    and "ring_inv Size rb'" and "ring_list rb' = ring_list rb @ data"
proof
  let ?rb' = "snd (RingBuffer_Write Size rb data len)" and ?N = "unat Size"
  let ?w = "unat (RWritePos rb)" and ?r = "unat (RReadPos rb)" and ?n = "unat (RNumOccupied rb)"
  have S: "?N < 2 ^ 31" and L: "length (RBuffer rb) = ?N" and w: "?w < ?N"
    and wr: "?w = (?r + ?n) mod ?N" and N0: "0 < ?N" and len: "unat len \<le> ?N"
    using inv fit by (auto simp: ring_inv_def)
  have nl: "unat (RNumOccupied rb + len) = ?n + unat len"
    using fit S by (intro unat_plus_small) simp
  have cf: "RingBuffer_CanFit Size rb len"
    using nl fit by (simp add: RingBuffer_CanFit_def word_le_nat_alt)
  have n: "unat (RNumOccupied ?rb') = ?n + unat len"
    using cf nl by (simp add: RingBuffer_Write_def Let_def)
  have rd: "RReadPos ?rb' = RReadPos rb"
    using cf by (simp add: RingBuffer_Write_def Let_def)
  have wp: "unat (RWritePos ?rb') = (?w + unat len) mod ?N"
    using cf unat_ring_pos(2) [OF w len S] by (simp add: RingBuffer_Write_def Let_def split: if_splits)
  note buf = RingBuffer_Write_buffer [OF w len S data cf]
  have L': "length (RBuffer ?rb') = ?N"
    unfolding buf using L w len data by (simp add: length_wrap_blit)
  show "RingBuffer_Write Size rb data len = (True, ?rb')"
    using cf by (simp add: RingBuffer_Write_def Let_def)
  show "ring_inv Size ?rb'"
    using inv n rd wp L' wr fit by (simp add: ring_inv_def mod_add_left_eq add.assoc)
  show "ring_list ?rb' = ring_list rb @ data"
  proof (rule nth_equalityI)
    show "length (ring_list ?rb') = length (ring_list rb @ data)" using n data by simp
    fix i assume "i < length (ring_list ?rb')"
    then have i: "i < ?n + unat len" using n by simp
    have "ring_list ?rb' ! i = wrap_blit ?N (RBuffer rb) ?w data ! ((?r + i) mod ?N)"
      using i n rd L' buf by (simp add: nth_ring_list)
    also have "\<dots> = (ring_list rb @ data) ! i"
    proof (cases "i < ?n")
      case True
      have k: "?N - ?n + i < ?N" "\<not> ?N - ?n + i < length data"
        using True fit data by linarith+
      have e: "(?r + i) mod ?N = (?w + (?N - ?n + i)) mod ?N"
        using True fit unfolding wr mod_add_left_eq
        by (simp add: add.left_commute [of "unat (RReadPos rb)"])
      have "wrap_blit ?N (RBuffer rb) ?w data ! ((?r + i) mod ?N) = RBuffer rb ! ((?r + i) mod ?N)"
        using nth_wrap_blit [OF L w _ k(1), of data] k(2) data len unfolding e by simp
      with True L show ?thesis by (simp add: nth_append nth_ring_list)
    next
      case False
      have k: "i - ?n < ?N" "i - ?n < length data"
        using False i fit data by linarith+
      have e: "(?r + i) mod ?N = (?w + (i - ?n)) mod ?N"
        using False unfolding wr mod_add_left_eq by simp
      have "wrap_blit ?N (RBuffer rb) ?w data ! ((?r + i) mod ?N) = data ! (i - ?n)"
        using nth_wrap_blit [OF L w _ k(1), of data] k(2) data len unfolding e by simp
      with False show ?thesis by (simp add: nth_append)
    qed
    finally show "ring_list ?rb' ! i = (ring_list rb @ data) ! i" .
  qed
qed

lemma RingBuffer_Peek_ok:
  assumes inv: "ring_inv Size rb" and len: "unat offset + unat len \<le> unat (RNumOccupied rb)"
  shows "RingBuffer_Peek Size rb offset len = Some (block (unat offset) (unat len) (ring_list rb))"
proof -
  let ?p = "if RReadPos rb + offset \<ge> Size then RReadPos rb + offset - Size else RReadPos rb + offset"
  have b: "unat (RReadPos rb) < unat Size" "unat offset \<le> unat Size" "unat Size < 2 ^ 31"
    and L: "length (RBuffer rb) = unat Size" and l: "unat len \<le> unat Size" and N0: "0 < unat Size"
    using inv len by (auto simp: ring_inv_def)
  have p: "unat ?p = (unat (RReadPos rb) + unat offset) mod unat Size"
    by (rule unat_ring_pos(3) [OF b])
  then have "unat ?p < unat Size" using N0 by simp
  from ring_copy_map [OF this l b(3) L]
  have "ring_copy Size rb ?p len = block (unat offset) (unat len) (ring_list rb)"
    using len L unfolding p by (intro nth_equalityI)
      (auto simp: block_def nth_ring_list mod_add_left_eq add.assoc)
  moreover have "\<not> RNumOccupied rb < len" using len by (simp add: word_less_nat_alt)
  ultimately show ?thesis by (simp add: RingBuffer_Peek_def Let_def)
qed

lemma RingBuffer_Skip_Read:
  assumes inv: "ring_inv Size rb" and len: "unat len \<le> unat (RNumOccupied rb)"
  shows "snd (RingBuffer_Skip Size rb len) = snd (RingBuffer_Read Size rb len)"
proof -
  have b: "unat (RReadPos rb) < unat Size" "unat len \<le> unat Size" "unat Size < 2 ^ 31"
    using inv len by (auto simp: ring_inv_def)
  have "(if RReadPos rb + len \<ge> Size then RReadPos rb + len - Size else RReadPos rb + len)
      = (if RReadPos rb + len \<ge> Size then len - (Size - RReadPos rb) else RReadPos rb + len)"
    by (simp add: algebra_simps)
  then show ?thesis by (simp add: RingBuffer_Skip_def RingBuffer_Read_def Let_def)
qed

section \<open>The byte queue interface\<close>

text \<open>
  What a client of the byte queue relies on. Lengths are \<^verbatim>\<open>u32\<close>; a read or a skip of more
  than the contents is refused and changes nothing.
\<close>

locale byte_queue =
  fixes invar :: "'q \<Rightarrow> bool"
    and contents :: "'q \<Rightarrow> 'b list"
    and cap :: u32
    and canfit :: "'q \<Rightarrow> u32 \<Rightarrow> bool"
    and wr :: "'q \<Rightarrow> 'b list \<Rightarrow> u32 \<Rightarrow> bool \<times> 'q"
    and rd :: "'q \<Rightarrow> u32 \<Rightarrow> 'b list option \<times> 'q"
    and skip :: "'q \<Rightarrow> u32 \<Rightarrow> bool \<times> 'q"
  assumes contents_cap: "invar q \<Longrightarrow> length (contents q) \<le> unat cap"
    and canfit_iff: "invar q \<Longrightarrow> len \<le> cap \<Longrightarrow> canfit q len = (length (contents q) + unat len \<le> unat cap)"
    and wr_fits: "invar q \<Longrightarrow> length xs = unat len \<Longrightarrow> length (contents q) + unat len \<le> unat cap \<Longrightarrow>
      fst (wr q xs len) \<and> invar (snd (wr q xs len)) \<and> contents (snd (wr q xs len)) = contents q @ xs"
    and rd_enough: "invar q \<Longrightarrow> unat len \<le> length (contents q) \<Longrightarrow>
      fst (rd q len) = Some (take (unat len) (contents q)) \<and> invar (snd (rd q len)) \<and>
      contents (snd (rd q len)) = drop (unat len) (contents q)"
    and rd_short: "length (contents q) < unat len \<Longrightarrow> rd q len = (None, q)"
    and skip_rd: "invar q \<Longrightarrow> unat len \<le> length (contents q) \<Longrightarrow> snd (skip q len) = snd (rd q len)"
begin

lemma rd_prefix:
  assumes "invar q" "contents q = xs @ ys" "unat len = length xs"
  obtains q' where "rd q len = (Some xs, q')" "invar q'" "contents q' = ys"
  using rd_enough [OF assms(1), of len] assms(2,3) by (cases "rd q len") auto

lemma skip_prefix:
  assumes "invar q" "contents q = xs @ ys" "unat len = length xs"
  shows "invar (snd (skip q len))" and "contents (snd (skip q len)) = ys"
  using rd_enough [OF assms(1), of len] skip_rd [OF assms(1), of len] assms(2,3) by auto

lemma wr_then_rd:
  assumes "invar q" "contents q = []" "length xs = unat len" "unat len \<le> unat cap"
  shows "fst (rd (snd (wr q xs len)) len) = Some xs"
proof -
  have "invar (snd (wr q xs len))" "contents (snd (wr q xs len)) = xs @ []"
    using wr_fits [OF assms(1,3)] assms(2,4) by auto
  from rd_prefix [OF this, of len] assms(3) show ?thesis by (metis fst_conv)
qed

text \<open>
  A sequence of blocks that fits is appended block by block; a block of length zero is
  not written.
\<close>

lemma wr_opt:
  assumes "invar q" "length (contents q) + length xs \<le> unat cap"
  defines "q' \<equiv> (if xs \<noteq> [] then snd (wr q xs (of_nat (length xs))) else q)"
  shows "invar q'" and "contents q' = contents q @ xs"
proof -
  have "length xs < 2 ^ 32" using assms(2) unat_u32_less [of cap] by simp
  then have "length xs = unat (of_nat (length xs) :: u32)" by (simp add: unat_of_nat_u32)
  from wr_fits [OF assms(1) this] this assms(2) assms(1)
  show "invar q'" and "contents q' = contents q @ xs" by (auto simp: q'_def)
qed

end

interpretation ring: byte_queue
  "ring_inv Size" ring_list Size "RingBuffer_CanFit Size" "RingBuffer_Write Size" "RingBuffer_Read Size" "RingBuffer_Skip Size"
  for Size :: u32
proof
  fix q len and xs :: "u8 list"
  assume inv: "ring_inv Size q"
  show "length (ring_list q) \<le> unat Size" using inv by (simp add: ring_inv_def)
  show "RingBuffer_CanFit Size q len = (length (ring_list q) + unat len \<le> unat Size)" if "len \<le> Size"
  proof -
    have "unat (RNumOccupied q + len) = unat (RNumOccupied q) + unat len"
      using inv that by (intro unat_plus_small) (auto simp: ring_inv_def word_le_nat_alt)
    then show ?thesis by (simp add: RingBuffer_CanFit_def word_le_nat_alt)
  qed
  show "fst (RingBuffer_Write Size q xs len) \<and> ring_inv Size (snd (RingBuffer_Write Size q xs len)) \<and>
      ring_list (snd (RingBuffer_Write Size q xs len)) = ring_list q @ xs"
    if "length xs = unat len" "length (ring_list q) + unat len \<le> unat Size"
    using RingBuffer_Write_ok [OF inv that(1)] that(2) by (metis fst_conv length_ring_list snd_conv)
  show "fst (RingBuffer_Read Size q len) = Some (take (unat len) (ring_list q)) \<and>
      ring_inv Size (snd (RingBuffer_Read Size q len)) \<and>
      ring_list (snd (RingBuffer_Read Size q len)) = drop (unat len) (ring_list q)"
    if "unat len \<le> length (ring_list q)"
    using RingBuffer_Read_ok [OF inv] that by (metis fst_conv length_ring_list snd_conv)
  show "snd (RingBuffer_Skip Size q len) = snd (RingBuffer_Read Size q len)"
    if "unat len \<le> length (ring_list q)"
    using RingBuffer_Skip_Read [OF inv] that by simp
next
  fix q and len :: u32
  assume "length (ring_list q) < unat len"
  then show "RingBuffer_Read Size q len = (None, q)"
    by (simp add: RingBuffer_Read_def word_less_nat_alt)
qed

end
