(* ===== verification/Packet_Dispatcher.thy ===== *)
theory Packet_Dispatcher
  imports Ring_Buffer
begin

text \<open>
  \<^verbatim>\<open>src/src/net/PacketDispatcher.cpp\<close>: up to sixteen emulator instances exchange packets
  through one byte queue each, a \<^verbatim>\<open>RingBuffer<0x8000>\<close>. A packet is stored as a header of
  four little-endian words followed by its two parts; when a queue has no room the oldest
  packets are discarded. The dispatcher is shown to implement one list of packets per
  instance. The mutex serialises the calls, so each operation is one step.

  A null queue pointer, an index outside the array and a header read that leaves the
  local variable uninitialised are undefined in C++; an operation that meets one returns
  \<open>None\<close>.
\<close>

section \<open>Model\<close>

record PacketHeader =
  magic :: u32
  senderID :: u32
  headerLength :: u32
  dataLength :: u32

definition kPacketMagic :: u32 where
  "kPacketMagic = 0x4B504C4D"

text \<open>The object representation of the header: four little-endian 32-bit words.\<close>

definition enc32 :: "u32 \<Rightarrow> u8 list" where
  "enc32 x = [ucast x, ucast (drop_bit 8 x), ucast (drop_bit 16 x), ucast (drop_bit 24 x)]"

definition dec32 :: "u8 list \<Rightarrow> u32" where
  "dec32 bs =
     ucast (bs ! 0) OR push_bit 8 (ucast (bs ! 1)) OR push_bit 16 (ucast (bs ! 2)) OR
     push_bit 24 (ucast (bs ! 3))"

definition header_bytes :: "PacketHeader \<Rightarrow> u8 list" where
  "header_bytes h = enc32 (magic h) @ enc32 (senderID h) @ enc32 (headerLength h) @ enc32 (dataLength h)"

definition header_of :: "u8 list \<Rightarrow> PacketHeader" where
  "header_of bs =
     \<lparr>magic = dec32 (take 4 bs), senderID = dec32 (take 4 (drop 4 bs)),
      headerLength = dec32 (take 4 (drop 8 bs)), dataLength = dec32 (take 4 (drop 12 bs))\<rparr>"

definition queue_size :: u32 where
  "queue_size = 0x8000"

record PacketDispatcher =
  instanceMask :: u16
  packetQueues :: "RingBuffer option list"

definition PacketDispatcher_new :: PacketDispatcher where
  "PacketDispatcher_new = \<lparr>instanceMask = 0, packetQueues = replicate 16 None\<rparr>"

text \<open>\<^verbatim>\<open>RingBuffer\<close> is value-initialised by \<^verbatim>\<open>make_unique\<close>.\<close>

definition new_queue :: RingBuffer where
  "new_queue =
     \<lparr>RBuffer = replicate (unat queue_size) 0, RNumOccupied = 0, RReadPos = 0, RWritePos = 0\<rparr>"

definition registerInstance :: "nat \<Rightarrow> PacketDispatcher \<Rightarrow> PacketDispatcher option" where
  "registerInstance inst d =
     (if inst < 16
      then Some (d\<lparr>instanceMask := instanceMask d OR push_bit inst 1,
                   packetQueues := (packetQueues d)[inst := Some new_queue]\<rparr>)
      else None)"

definition unregisterInstance :: "nat \<Rightarrow> PacketDispatcher \<Rightarrow> PacketDispatcher option" where
  "unregisterInstance inst d =
     (if inst < 16
      then Some (d\<lparr>instanceMask := instanceMask d AND NOT (push_bit inst 1),
                   packetQueues := (packetQueues d)[inst := None]\<rparr>)
      else None)"

text \<open>A loop over the instances whose bit is set in \<open>m\<close>, in the order of their numbers.\<close>

fun for_instances ::
  "u16 \<Rightarrow> (RingBuffer \<Rightarrow> RingBuffer option) \<Rightarrow> nat list \<Rightarrow> RingBuffer option list \<Rightarrow> RingBuffer option list option"
  where
  "for_instances m f [] qs = Some qs"
| "for_instances m f (i # ks) qs =
     (if \<not> bit m i then for_instances m f ks qs
      else
        case qs ! i of
          None \<Rightarrow> None
        | Some q \<Rightarrow>
            (case f q of None \<Rightarrow> None | Some q' \<Rightarrow> for_instances m f ks (qs[i := Some q'])))"

definition clear :: "PacketDispatcher \<Rightarrow> PacketDispatcher option" where
  "clear d =
     map_option (\<lambda>qs. d\<lparr>packetQueues := qs\<rparr>)
       (for_instances (instanceMask d) (\<lambda>q. Some (RingBuffer_Clear queue_size q)) [0..<16]
          (packetQueues d))"

text \<open>The loop that discards old packets.\<close>

partial_function (option) make_room :: "u32 \<Rightarrow> RingBuffer \<Rightarrow> RingBuffer option" where
  "make_room totallen q =
     (if RingBuffer_CanFit queue_size q totallen then Some q
      else
        case RingBuffer_Read queue_size q 16 of
          (None, q1) \<Rightarrow> None
        | (Some bs, q1) \<Rightarrow>
            let tmp = header_of bs
            in make_room totallen (snd (RingBuffer_Skip queue_size q1 (headerLength tmp + dataLength tmp))))"

declare make_room.simps [code]

definition write_packet :: "PacketHeader \<Rightarrow> u8 list \<Rightarrow> u8 list \<Rightarrow> RingBuffer \<Rightarrow> RingBuffer" where
  "write_packet phdr header data q =
     (let q1 = snd (RingBuffer_Write queue_size q (header_bytes phdr) 16);
          q2 = (if header \<noteq> [] then snd (RingBuffer_Write queue_size q1 header (of_nat (length header))) else q1)
      in if data \<noteq> [] then snd (RingBuffer_Write queue_size q2 data (of_nat (length data))) else q2)"

text \<open>
  A buffer argument is its bytes, \<open>None\<close> the null pointer; its length argument is the
  number of bytes.
\<close>

definition buf_bytes :: "u8 list option \<Rightarrow> u8 list" where
  "buf_bytes b = (case b of None \<Rightarrow> [] | Some bs \<Rightarrow> bs)"

definition send_mask :: "int \<Rightarrow> u16 \<Rightarrow> PacketDispatcher \<Rightarrow> u16" where
  "send_mask sender recv_mask d =
     (let m = recv_mask AND instanceMask d
      in if sender < 16 then m AND NOT (push_bit (nat sender) 1) else m)"

definition sendPacket ::
  "u8 list option \<Rightarrow> u8 list option \<Rightarrow> int \<Rightarrow> u16 \<Rightarrow> PacketDispatcher \<Rightarrow> PacketDispatcher option" where
  "sendPacket header data sender recv_mask d =
     (let h = buf_bytes header; b = buf_bytes data
      in if h = [] \<and> b = [] then Some d
         else if 16 + length h + length b \<ge> 0x8000 then Some d
         else if sender < 0 \<or> sender > 16 then Some d
         else
           let m = send_mask sender recv_mask d
           in if m = 0 then Some d
              else
                let phdr = \<lparr>magic = kPacketMagic, senderID = of_int sender,
                            headerLength = of_nat (length h), dataLength = of_nat (length b)\<rparr>;
                    totallen = of_nat (16 + length h + length b)
                in map_option (\<lambda>qs. d\<lparr>packetQueues := qs\<rparr>)
                     (for_instances m
                        (\<lambda>q. map_option (write_packet phdr h b) (make_room totallen q))
                        [0..<16] (packetQueues d)))"

text \<open>
  What \<^verbatim>\<open>recvPacket\<close> stores for one part: the length (when it is not zero) and the bytes
  (when the caller gave a buffer).
\<close>

record recv_out =
  part_len :: "u32 option"
  part_bytes :: "u8 list option"

definition recv_part :: "bool \<Rightarrow> u32 \<Rightarrow> RingBuffer \<Rightarrow> recv_out \<times> RingBuffer" where
  "recv_part wanted len q =
     (if len \<noteq> 0
      then
        (if wanted
         then (let (bs, q') = RingBuffer_Read queue_size q len in (\<lparr>part_len = Some len, part_bytes = bs\<rparr>, q'))
         else (\<lparr>part_len = Some len, part_bytes = None\<rparr>, snd (RingBuffer_Skip queue_size q len)))
      else (\<lparr>part_len = None, part_bytes = None\<rparr>, q))"

text \<open>
  The result \<open>Inl ()\<close> is \<^verbatim>\<open>return false\<close>, \<open>Inr\<close> the two parts of a \<^verbatim>\<open>return true\<close>. The
  flags say whether the caller passed a buffer for the header and for the data.
\<close>

definition recvPacket ::
  "bool \<Rightarrow> bool \<Rightarrow> int \<Rightarrow> PacketDispatcher \<Rightarrow> ((unit + recv_out \<times> recv_out) \<times> PacketDispatcher) option" where
  "recvPacket wanth wantd receiver d =
     (if \<not> wanth \<and> \<not> wantd then Some (Inl (), d)
      else if receiver < 0 \<or> receiver > 15 then Some (Inl (), d)
      else
        case packetQueues d ! nat receiver of
          None \<Rightarrow> None
        | Some q \<Rightarrow>
            let put = (\<lambda>q'. d\<lparr>packetQueues := (packetQueues d)[nat receiver := Some q']\<rparr>)
            in (case RingBuffer_Read queue_size q 16 of
                  (None, q1) \<Rightarrow> Some (Inl (), put q1)
                | (Some bs, q1) \<Rightarrow>
                    let phdr = header_of bs
                    in if magic phdr \<noteq> kPacketMagic then Some (Inl (), put q1)
                       else
                         let (hp, q2) = recv_part wanth (headerLength phdr) q1;
                             (dp, q3) = recv_part wantd (dataLength phdr) q2
                         in Some (Inr (hp, dp), put q3)))"

section \<open>Packets of a queue\<close>

lemma dec32_enc32: "dec32 (enc32 x) = x"
  apply (rule bit_word_eqI)
  subgoal for n by (cases "n < 8"; cases "n < 16"; cases "n < 24") (auto simp: dec32_def enc32_def bit_simps)
  done

lemma length_enc32 [simp]: "length (enc32 x) = 4"
  by (simp add: enc32_def)

lemma header_of_bytes: "header_of (header_bytes h) = h"
  by (simp add: header_of_def header_bytes_def dec32_enc32)

lemma length_header_bytes [simp]: "length (header_bytes h) = 16"
  by (simp add: header_bytes_def)

record packet =
  sent_by :: u32
  pk_header :: "u8 list"
  pk_data :: "u8 list"

definition pk_hdr :: "packet \<Rightarrow> PacketHeader" where
  "pk_hdr p =
     \<lparr>magic = kPacketMagic, senderID = sent_by p, headerLength = of_nat (length (pk_header p)),
      dataLength = of_nat (length (pk_data p))\<rparr>"

definition packet_bytes :: "packet \<Rightarrow> u8 list" where
  "packet_bytes p = header_bytes (pk_hdr p) @ pk_header p @ pk_data p"

definition packet_size :: "packet \<Rightarrow> nat" where
  "packet_size p = 16 + length (pk_header p) + length (pk_data p)"

definition queue_ok :: "RingBuffer \<Rightarrow> packet list \<Rightarrow> bool" where
  "queue_ok q ps \<longleftrightarrow>
     ring_inv queue_size q \<and> ring_list q = concat (map packet_bytes ps) \<and>
     (\<forall>p \<in> set ps. packet_size p < 0x8000)"

lemma length_packet_bytes: "length (packet_bytes p) = packet_size p"
  by (simp add: packet_bytes_def packet_size_def)

lemma unat_queue_size: "unat queue_size = 0x8000"
  by (simp add: queue_size_def)

lemma pk_lengths:
  assumes "packet_size p < 0x8000"
  shows "unat (headerLength (pk_hdr p)) = length (pk_header p)"
    "unat (dataLength (pk_hdr p)) = length (pk_data p)"
    "unat (headerLength (pk_hdr p) + dataLength (pk_hdr p)) = length (pk_header p @ pk_data p)"
proof -
  have b: "length (pk_header p) < 0x8000" "length (pk_data p) < 0x8000"
    and s: "length (pk_header p) + length (pk_data p) < 0x8000"
    using assms by (auto simp: packet_size_def)
  show h: "unat (headerLength (pk_hdr p)) = length (pk_header p)"
    and d: "unat (dataLength (pk_hdr p)) = length (pk_data p)"
    using b by (simp_all add: pk_hdr_def unat_of_nat_u32)
  show "unat (headerLength (pk_hdr p) + dataLength (pk_hdr p)) = length (pk_header p @ pk_data p)"
    using s h d by (subst unat_plus_small) auto
qed

text \<open>Reading a header and skipping its two parts removes exactly the oldest packet.\<close>

lemma read_oldest:
  assumes "queue_ok q (p # ps)"
  obtains q1 where "RingBuffer_Read queue_size q 16 = (Some (header_bytes (pk_hdr p)), q1)"
    "ring_inv queue_size q1" "ring_list q1 = pk_header p @ pk_data p @ concat (map packet_bytes ps)"
proof -
  have "ring_inv queue_size q"
    "ring_list q = header_bytes (pk_hdr p) @ (pk_header p @ pk_data p @ concat (map packet_bytes ps))"
    using assms by (simp_all add: queue_ok_def packet_bytes_def)
  from ring.rd_prefix [OF this, of 16] that show ?thesis by auto
qed

section \<open>Making room\<close>

text \<open>The oldest packets are dropped, one at a time, until \<open>n\<close> more bytes fit.\<close>

fun room :: "nat \<Rightarrow> packet list \<Rightarrow> packet list" where
  "room n [] = []"
| "room n (p # ps) =
     (if n + sum_list (map packet_size (p # ps)) \<le> 0x8000 then p # ps else room n ps)"

lemma room_suffix: "\<exists>dropped. ps = dropped @ room n ps"
proof (induction ps)
  case (Cons p ps)
  then obtain d where "ps = d @ room n ps" by blast
  then show ?case by (cases "n + sum_list (map packet_size (p # ps)) \<le> 0x8000") (auto intro: exI [of _ "p # d"])
qed simp

lemma room_fits: "n \<le> 0x8000 \<Longrightarrow> n + sum_list (map packet_size (room n ps)) \<le> 0x8000"
  by (induction ps) auto

lemma length_concat_packets: "length (concat (map packet_bytes ps)) = sum_list (map packet_size ps)"
  by (simp add: length_concat o_def length_packet_bytes)

lemma CanFit_packets:
  assumes "queue_ok q ps" "unat n \<le> 0x8000"
  shows "RingBuffer_CanFit queue_size q n = (unat n + sum_list (map packet_size ps) \<le> 0x8000)"
proof -
  have "n \<le> queue_size" using assms(2) by (simp add: word_le_nat_alt unat_queue_size)
  moreover have "length (ring_list q) = sum_list (map packet_size ps)"
    using assms(1) length_concat_packets [of ps] by (simp only: queue_ok_def)
  ultimately show ?thesis
    using ring.canfit_iff [of queue_size q n] assms(1) by (simp add: queue_ok_def unat_queue_size add.commute)
qed

lemma make_room_ok:
  assumes "queue_ok q ps" "unat n \<le> 0x8000"
  shows "\<exists>q'. make_room n q = Some q' \<and> queue_ok q' (room (unat n) ps)"
  using assms
proof (induction ps arbitrary: q)
  case Nil
  then show ?case using CanFit_packets [OF Nil] by (subst make_room.simps) simp
next
  case (Cons p ps)
  note fit = CanFit_packets [OF Cons.prems]
  show ?case
  proof (cases "RingBuffer_CanFit queue_size q n")
    case True
    with fit Cons.prems show ?thesis by (subst make_room.simps) simp
  next
    case False
    obtain q1 where q1: "RingBuffer_Read queue_size q 16 = (Some (header_bytes (pk_hdr p)), q1)"
      "ring_inv queue_size q1" "ring_list q1 = (pk_header p @ pk_data p) @ concat (map packet_bytes ps)"
      using read_oldest [OF Cons.prems(1)] by auto
    let ?n = "headerLength (pk_hdr p) + dataLength (pk_hdr p)"
    have "unat ?n = length (pk_header p @ pk_data p)"
      using Cons.prems(1) by (intro pk_lengths) (simp add: queue_ok_def)
    note sk = ring.skip_prefix [OF q1(2,3) this]
    have "queue_ok (snd (RingBuffer_Skip queue_size q1 ?n)) ps"
      using sk Cons.prems(1) by (simp add: queue_ok_def)
    from Cons.IH [OF this Cons.prems(2)] False fit q1(1) show ?thesis
      by (subst make_room.simps) (simp add: header_of_bytes Let_def)
  qed
qed

lemma write_packet_ok:
  assumes q: "queue_ok q ps" and p: "packet_size p < 0x8000"
    and fit: "packet_size p + sum_list (map packet_size ps) \<le> 0x8000"
  shows "queue_ok (write_packet (pk_hdr p) (pk_header p) (pk_data p) q) (ps @ [p])"
proof -
  let ?q1 = "snd (RingBuffer_Write queue_size q (header_bytes (pk_hdr p)) 16)"
  have inv: "ring_inv queue_size q" and L: "length (ring_list q) = sum_list (map packet_size ps)"
    using q length_concat_packets [of ps] by (simp_all only: queue_ok_def)
  have len: "length (ring_list q) + packet_size p \<le> unat queue_size"
    using fit by (simp only: L unat_queue_size)
  have w1: "ring_inv queue_size ?q1" "ring_list ?q1 = ring_list q @ header_bytes (pk_hdr p)"
    using ring.wr_fits [OF inv, of "header_bytes (pk_hdr p)" 16] len by (simp_all add: packet_size_def)
  define q2 where "q2 = (if pk_header p \<noteq> [] then snd (RingBuffer_Write queue_size ?q1 (pk_header p) (of_nat (length (pk_header p)))) else ?q1)"
  have l1: "length (ring_list ?q1) + length (pk_header p) \<le> unat queue_size"
    unfolding w1(2) using len by (simp add: packet_size_def)
  note w2 = ring.wr_opt [OF w1(1) l1, folded q2_def]
  have l2: "length (ring_list q2) + length (pk_data p) \<le> unat queue_size"
    unfolding w2(2) w1(2) using len by (simp add: packet_size_def)
  note w3 = ring.wr_opt [OF w2(1) l2]
  have e: "write_packet (pk_hdr p) (pk_header p) (pk_data p) q =
      (if pk_data p \<noteq> [] then snd (RingBuffer_Write queue_size q2 (pk_data p) (of_nat (length (pk_data p)))) else q2)"
    by (simp add: write_packet_def q2_def Let_def)
  show ?thesis
    unfolding queue_ok_def e using w3 w2(2) w1(2) q p by (auto simp: queue_ok_def packet_bytes_def)
qed

section \<open>The dispatcher\<close>

text \<open>
  The abstract dispatcher: a queue of packets for each registered instance. \<open>disp_rel\<close>
  relates the two; it is the invariant of every operation.
\<close>

type_synonym abs_dispatcher = "nat \<Rightarrow> packet list option"

definition inst_rel :: "u16 \<Rightarrow> RingBuffer option list \<Rightarrow> nat \<Rightarrow> packet list option \<Rightarrow> bool" where
  "inst_rel m qs i a =
     (case a of None \<Rightarrow> \<not> bit m i \<and> qs ! i = None
      | Some ps \<Rightarrow> bit m i \<and> (\<exists>q. qs ! i = Some q \<and> queue_ok q ps))"

definition disp_rel :: "PacketDispatcher \<Rightarrow> abs_dispatcher \<Rightarrow> bool" where
  "disp_rel d A \<longleftrightarrow>
     length (packetQueues d) = 16 \<and> (\<forall>i<16. inst_rel (instanceMask d) (packetQueues d) i (A i))"

lemma for_instances_ok:
  assumes "distinct ks" "set ks \<subseteq> {..<length qs}"
    and "\<And>k. k \<in> set ks \<Longrightarrow> bit m k \<Longrightarrow> \<exists>q q'. qs ! k = Some q \<and> f q = Some q' \<and> R k q'"
  shows "\<exists>qs'. for_instances m f ks qs = Some qs' \<and> length qs' = length qs \<and>
    (\<forall>k. k \<in> set ks \<and> bit m k \<longrightarrow> (\<exists>q'. qs' ! k = Some q' \<and> R k q')) \<and>
    (\<forall>k. \<not> (k \<in> set ks \<and> bit m k) \<longrightarrow> qs' ! k = qs ! k)"
  using assms
proof (induction ks arbitrary: qs)
  case (Cons k ks)
  show ?case
  proof (cases "bit m k")
    case False
    from Cons.IH [of qs] Cons.prems have "\<exists>qs'. for_instances m f ks qs = Some qs' \<and> length qs' = length qs \<and>
      (\<forall>k. k \<in> set ks \<and> bit m k \<longrightarrow> (\<exists>q'. qs' ! k = Some q' \<and> R k q')) \<and>
      (\<forall>k. \<not> (k \<in> set ks \<and> bit m k) \<longrightarrow> qs' ! k = qs ! k)" by auto
    with False show ?thesis by auto
  next
    case True
    with Cons.prems(3) [of k] obtain q q' where q: "qs ! k = Some q" "f q = Some q'" "R k q'" by auto
    let ?qs = "qs[k := Some q']"
    have "\<exists>qs'. for_instances m f ks ?qs = Some qs' \<and> length qs' = length ?qs \<and>
      (\<forall>k. k \<in> set ks \<and> bit m k \<longrightarrow> (\<exists>q'. qs' ! k = Some q' \<and> R k q')) \<and>
      (\<forall>k. \<not> (k \<in> set ks \<and> bit m k) \<longrightarrow> qs' ! k = ?qs ! k)"
    proof (rule Cons.IH)
      fix j assume j: "j \<in> set ks" "bit m j"
      with Cons.prems(1) have "j \<noteq> k" by auto
      with j Cons.prems(3) [of j] show "\<exists>q q'. ?qs ! j = Some q \<and> f q = Some q' \<and> R j q'" by simp
    qed (use Cons.prems in auto)
    then obtain qs' where qs': "for_instances m f ks ?qs = Some qs'" "length qs' = length ?qs"
      "\<And>j. j \<in> set ks \<Longrightarrow> bit m j \<Longrightarrow> \<exists>q'. qs' ! j = Some q' \<and> R j q'"
      "\<And>j. \<not> (j \<in> set ks \<and> bit m j) \<Longrightarrow> qs' ! j = ?qs ! j" by blast
    have "qs' ! k = Some q'" using qs'(4) [of k] Cons.prems(1,2) by auto
    moreover have "qs' ! j = qs ! j" if "\<not> (j \<in> set (k # ks) \<and> bit m j)" for j
      using that True qs'(4) [of j] by (cases "j = k") auto
    moreover have "for_instances m f (k # ks) qs = Some qs'" using True q qs'(1) by simp
    ultimately show ?thesis using qs'(2,3) q(3) by (intro exI [of _ qs']) auto
  qed
qed simp

lemma bit_send_mask:
  "0 \<le> sender \<Longrightarrow> i < 16 \<Longrightarrow>
   bit (send_mask sender recv_mask d) i \<longleftrightarrow> bit recv_mask i \<and> bit (instanceMask d) i \<and> int i \<noteq> sender"
  by (auto simp: send_mask_def Let_def bit_simps)

text \<open>What sending does to the abstract queues.\<close>

definition spec_send :: "packet \<Rightarrow> u16 \<Rightarrow> abs_dispatcher \<Rightarrow> abs_dispatcher" where
  "spec_send p recv_mask A =
     (\<lambda>i. if bit recv_mask i \<and> of_nat i \<noteq> sent_by p
          then map_option (\<lambda>ps. room (packet_size p) ps @ [p]) (A i) else A i)"

lemma of_nat_sender: "0 \<le> s \<Longrightarrow> s \<le> 16 \<Longrightarrow> i < 16 \<Longrightarrow> (of_nat i = (of_int s :: u32)) = (int i = s)"
proof -
  assume "0 \<le> s" "s \<le> 16" "i < 16"
  then have "uint (of_int s :: u32) = s" "uint (of_nat i :: u32) = int i"
    by (simp_all add: uint_word_of_int_eq take_bit_int_eq_self unsigned_of_nat take_bit_nat_eq_self)
  then show ?thesis by (metis word_uint_eqI)
qed

lemma queue_ok_new: "queue_ok new_queue []"
  by (simp add: queue_ok_def new_queue_def ring_inv_def ring_list_def queue_size_def)

lemma disp_rel_new: "disp_rel PacketDispatcher_new (\<lambda>i. None)"
  by (simp add: disp_rel_def inst_rel_def PacketDispatcher_new_def)

lemma registerInstance_ok:
  assumes "disp_rel d A" "k < 16"
  shows "\<exists>d'. registerInstance k d = Some d' \<and> disp_rel d' (A(k := Some []))"
  using assms queue_ok_new
  by (auto simp: registerInstance_def disp_rel_def inst_rel_def bit_simps split: option.splits)

lemma unregisterInstance_ok:
  assumes "disp_rel d A" "k < 16"
  shows "\<exists>d'. unregisterInstance k d = Some d' \<and> disp_rel d' (A(k := None))"
  using assms
  by (auto simp: unregisterInstance_def disp_rel_def inst_rel_def bit_simps split: option.splits)

lemma disp_relD:
  assumes "disp_rel d A" "i < 16"
  shows "bit (instanceMask d) i \<longleftrightarrow> A i \<noteq> None" "A i = None \<Longrightarrow> packetQueues d ! i = None"
    "A i = Some ps \<Longrightarrow> \<exists>q. packetQueues d ! i = Some q \<and> queue_ok q ps"
  using assms by (auto simp: disp_rel_def inst_rel_def split: option.splits)

text \<open>A loop over the instances that takes each queue from \<open>A i\<close> to \<open>B i\<close>.\<close>

lemma for_instances_rel:
  assumes d: "disp_rel d A"
    and m: "\<And>i. i < 16 \<Longrightarrow> bit m i \<Longrightarrow> bit (instanceMask d) i"
    and f: "\<And>i q ps. i < 16 \<Longrightarrow> bit m i \<Longrightarrow> A i = Some ps \<Longrightarrow> queue_ok q ps \<Longrightarrow>
      \<exists>q' ps'. f q = Some q' \<and> B i = Some ps' \<and> queue_ok q' ps'"
    and same: "\<And>i. i < 16 \<Longrightarrow> \<not> bit m i \<Longrightarrow> B i = A i"
  shows "\<exists>qs'. for_instances m f [0..<16] (packetQueues d) = Some qs' \<and> disp_rel (d\<lparr>packetQueues := qs'\<rparr>) B"
proof -
  let ?R = "\<lambda>k q'. \<exists>ps'. B k = Some ps' \<and> queue_ok q' ps'"
  have len: "length (packetQueues d) = 16" using d by (simp add: disp_rel_def)
  have step: "\<exists>q q'. packetQueues d ! k = Some q \<and> f q = Some q' \<and> ?R k q'"
    if k': "k \<in> set [0..<16]" and b: "bit m k" for k
  proof -
    have k: "k < 16" using k' by simp
    obtain ps where ps: "A k = Some ps" using disp_relD(1) [OF d k] m [OF k b] by auto
    obtain q where q: "packetQueues d ! k = Some q" "queue_ok q ps" using disp_relD(3) [OF d k ps] by auto
    from f [OF k b ps q(2)] q(1) show ?thesis by auto
  qed
  have "\<exists>qs'. for_instances m f [0..<16] (packetQueues d) = Some qs' \<and> length qs' = length (packetQueues d) \<and>
      (\<forall>k. k \<in> set [0..<16] \<and> bit m k \<longrightarrow> (\<exists>q'. qs' ! k = Some q' \<and> ?R k q')) \<and>
      (\<forall>k. \<not> (k \<in> set [0..<16] \<and> bit m k) \<longrightarrow> qs' ! k = packetQueues d ! k)"
    by (rule for_instances_ok [OF _ _ step]) (auto simp: len)
  then obtain qs' where qs': "for_instances m f [0..<16] (packetQueues d) = Some qs'" "length qs' = 16"
    "\<And>k. k < 16 \<Longrightarrow> bit m k \<Longrightarrow> \<exists>q'. qs' ! k = Some q' \<and> ?R k q'"
    "\<And>k. \<not> (k < 16 \<and> bit m k) \<Longrightarrow> qs' ! k = packetQueues d ! k"
    by (auto simp: len)
  have "inst_rel (instanceMask d) qs' i (B i)" if i: "i < 16" for i
  proof (cases "bit m i")
    case True
    with qs'(3) [OF i True] m [OF i True] show ?thesis by (auto simp: inst_rel_def)
  next
    case False
    have "inst_rel (instanceMask d) (packetQueues d) i (A i)" using d i by (simp add: disp_rel_def)
    with qs'(4) [of i] same [OF i False] False show ?thesis by (simp add: inst_rel_def split: option.splits)
  qed
  with qs'(1,2) show ?thesis by (auto simp: disp_rel_def)
qed

lemma clear_ok:
  assumes "disp_rel d A"
  shows "\<exists>d'. clear d = Some d' \<and> disp_rel d' (\<lambda>i. map_option (\<lambda>ps. []) (A i))"
proof -
  have c: "queue_ok (RingBuffer_Clear queue_size q) []" for q
    using RingBuffer_Clear_inv [of queue_size q] by (simp add: queue_ok_def unat_queue_size)
  have "\<exists>qs'. for_instances (instanceMask d) (\<lambda>q. Some (RingBuffer_Clear queue_size q)) [0..<16] (packetQueues d) = Some qs' \<and>
    disp_rel (d\<lparr>packetQueues := qs'\<rparr>) (\<lambda>i. map_option (\<lambda>ps. []) (A i))"
    using c disp_relD(1) [OF assms] by (intro for_instances_rel [OF assms]) auto
  then show ?thesis by (auto simp: clear_def)
qed

lemma sendPacket_ok:
  assumes d: "disp_rel d A" and s: "0 \<le> sender" "sender \<le> 16"
    and p: "p = \<lparr>sent_by = of_int sender, pk_header = buf_bytes h, pk_data = buf_bytes b\<rparr>"
    and ne: "\<not> (buf_bytes h = [] \<and> buf_bytes b = [])" and size: "packet_size p < 0x8000"
  shows "\<exists>d'. sendPacket h b sender recv_mask d = Some d' \<and> disp_rel d' (spec_send p recv_mask A)"
proof -
  let ?m = "send_mask sender recv_mask d" and ?n = "of_nat (packet_size p) :: u32"
  let ?f = "\<lambda>q. map_option (write_packet (pk_hdr p) (pk_header p) (pk_data p)) (make_room ?n q)"
  have n: "unat ?n = packet_size p" using size by (simp add: unat_of_nat_u32)
  have sb: "sent_by p = of_int sender" by (simp add: p)
  have bits: "bit ?m i \<longleftrightarrow> bit recv_mask i \<and> A i \<noteq> None \<and> of_nat i \<noteq> sent_by p" if "i < 16" for i
    using bit_send_mask [OF s(1) that, of recv_mask d] disp_relD(1) [OF d that] of_nat_sender [OF s that]
    unfolding sb by auto
  have "\<exists>qs'. for_instances ?m ?f [0..<16] (packetQueues d) = Some qs' \<and>
      disp_rel (d\<lparr>packetQueues := qs'\<rparr>) (spec_send p recv_mask A)"
  proof (rule for_instances_rel [OF d])
    show "bit (instanceMask d) i" if "i < 16" "bit ?m i" for i
      using that bits disp_relD(1) [OF d] by auto
    show "spec_send p recv_mask A i = A i" if "i < 16" "\<not> bit ?m i" for i
      using that bits by (auto simp: spec_send_def)
    fix i q ps assume i: "i < 16" "bit ?m i" "A i = Some ps" "queue_ok q ps"
    obtain q1 where q1: "make_room ?n q = Some q1" "queue_ok q1 (room (packet_size p) ps)"
      using make_room_ok [OF i(4), of ?n] n size by auto
    have "packet_size p + sum_list (map packet_size (room (packet_size p) ps)) \<le> 0x8000"
      using size by (intro room_fits) simp
    from write_packet_ok [OF q1(2) size this] q1(1) i bits
    show "\<exists>q' ps'. ?f q = Some q' \<and> spec_send p recv_mask A i = Some ps' \<and> queue_ok q' ps'"
      by (simp add: spec_send_def)
  qed
  moreover have "disp_rel d (spec_send p recv_mask A)" if "?m = 0"
  proof -
    have "spec_send p recv_mask A i = A i" if "i < 16" for i
      using that \<open>?m = 0\<close> bits [OF that] by (auto simp: spec_send_def)
    with d show ?thesis by (simp add: disp_rel_def)
  qed
  ultimately show ?thesis
    using s ne size unfolding sendPacket_def Let_def
    by (auto simp: p pk_hdr_def packet_size_def add.assoc)
qed

text \<open>What a receive stores for one part of a packet.\<close>

definition spec_part :: "bool \<Rightarrow> u8 list \<Rightarrow> recv_out" where
  "spec_part wanted bs =
     \<lparr>part_len = (if bs = [] then None else Some (of_nat (length bs))),
      part_bytes = (if bs \<noteq> [] \<and> wanted then Some bs else None)\<rparr>"

lemma recv_part_ok:
  assumes q: "ring_inv queue_size q" "ring_list q = xs @ ys" and len: "unat len = length xs"
  obtains q' where "recv_part wanted len q = (spec_part wanted xs, q')" "ring_inv queue_size q'" "ring_list q' = ys"
proof -
  have z: "len = 0 \<longleftrightarrow> xs = []" using len by (metis length_0_conv unat_eq_zero)
  have l: "len = of_nat (length xs)" by (simp flip: len)
  obtain q1 where q1: "RingBuffer_Read queue_size q len = (Some xs, q1)" "ring_inv queue_size q1" "ring_list q1 = ys"
    using ring.rd_prefix [OF q len] by auto
  note sk = ring.skip_prefix [OF q len]
  consider (empty) "xs = []" | (read) "xs \<noteq> []" wanted | (skip) "xs \<noteq> []" "\<not> wanted" by auto
  then show ?thesis
  proof cases
    case empty
    then show ?thesis using that [of q] q z by (simp add: recv_part_def spec_part_def)
  next
    case read
    then show ?thesis using that [of q1] q1 z l by (simp add: recv_part_def spec_part_def)
  next
    case skip
    then show ?thesis using that [OF _ sk] z l by (simp add: recv_part_def spec_part_def)
  qed
qed

lemma recvPacket_ok:
  assumes d: "disp_rel d A" and r: "0 \<le> r" "r \<le> 15" and want: "wanth \<or> wantd"
    and A: "A (nat r) = Some ps"
  shows "ps = [] \<Longrightarrow> \<exists>d'. recvPacket wanth wantd r d = Some (Inl (), d') \<and> disp_rel d' A"
    and "ps = p # ps' \<Longrightarrow> \<exists>d'. recvPacket wanth wantd r d =
      Some (Inr (spec_part wanth (pk_header p), spec_part wantd (pk_data p)), d') \<and>
      disp_rel d' (A(nat r := Some ps'))"
proof -
  have k: "nat r < 16" using r by simp
  obtain q where q: "packetQueues d ! nat r = Some q" "queue_ok q ps" using disp_relD(3) [OF d k A] by auto
  have put: "disp_rel (d\<lparr>packetQueues := (packetQueues d)[nat r := Some q']\<rparr>) (A(nat r := Some ps'))"
    if "queue_ok q' ps'" for q' ps'
    using that d k disp_relD(1) [OF d k] A by (auto simp: disp_rel_def inst_rel_def nth_list_update split: option.splits)
  {
    assume "ps = []"
    then have "RingBuffer_Read queue_size q 16 = (None, q)"
      using q(2) by (intro ring.rd_short) (simp add: queue_ok_def)
    moreover have "A(nat r := Some ps) = A" using A by auto
    ultimately show "\<exists>d'. recvPacket wanth wantd r d = Some (Inl (), d') \<and> disp_rel d' A"
      using put [OF q(2)] q(1) r want by (auto simp: recvPacket_def Let_def)
  next
    assume ps: "ps = p # ps'"
    obtain q1 where q1: "RingBuffer_Read queue_size q 16 = (Some (header_bytes (pk_hdr p)), q1)"
      "ring_inv queue_size q1" "ring_list q1 = pk_header p @ pk_data p @ concat (map packet_bytes ps')"
      using read_oldest q(2) unfolding ps by metis
    have "packet_size p < 0x8000" using q(2) ps by (simp add: queue_ok_def)
    note len = pk_lengths [OF this]
    obtain q2 where q2: "recv_part wanth (headerLength (pk_hdr p)) q1 = (spec_part wanth (pk_header p), q2)"
      "ring_inv queue_size q2" "ring_list q2 = pk_data p @ concat (map packet_bytes ps')"
      using recv_part_ok [OF q1(2,3) len(1)] by metis
    obtain q3 where q3: "recv_part wantd (dataLength (pk_hdr p)) q2 = (spec_part wantd (pk_data p), q3)"
      "ring_inv queue_size q3" "ring_list q3 = concat (map packet_bytes ps')"
      using recv_part_ok [OF q2(2,3) len(2)] by metis
    have "queue_ok q3 ps'" using q3 q(2) ps by (simp add: queue_ok_def)
    moreover have "magic (pk_hdr p) = kPacketMagic" by (simp add: pk_hdr_def)
    ultimately show "\<exists>d'. recvPacket wanth wantd r d =
      Some (Inr (spec_part wanth (pk_header p), spec_part wantd (pk_data p)), d') \<and> disp_rel d' (A(nat r := Some ps'))"
      using put [of q3 ps'] q(1) q1(1) q2(1) q3(1) r want by (simp add: recvPacket_def header_of_bytes Let_def)
  }
qed

section \<open>Sequences of operations\<close>

datatype disp_op = Register nat | Unregister nat | Clear
  | Send "u8 list option" "u8 list option" int u16 | Recv bool bool int

type_synonym recv_result = "unit + recv_out \<times> recv_out"

fun disp_step :: "disp_op \<Rightarrow> PacketDispatcher \<Rightarrow> (recv_result option \<times> PacketDispatcher) option" where
  "disp_step (Register i) d = map_option (Pair None) (registerInstance i d)"
| "disp_step (Unregister i) d = map_option (Pair None) (unregisterInstance i d)"
| "disp_step Clear d = map_option (Pair None) (clear d)"
| "disp_step (Send h b s m) d = map_option (Pair None) (sendPacket h b s m d)"
| "disp_step (Recv wh wd r) d = map_option (\<lambda>(out, d'). (Some out, d')) (recvPacket wh wd r d)"

text \<open>
  The specification of one operation. It is \<open>None\<close> where the caller breaks the contract:
  an instance number that does not exist, or a receive for an instance that is not
  registered.
\<close>

fun spec_disp :: "disp_op \<Rightarrow> abs_dispatcher \<Rightarrow> (recv_result option \<times> abs_dispatcher) option" where
  "spec_disp (Register i) A = (if i < 16 then Some (None, A(i := Some [])) else None)"
| "spec_disp (Unregister i) A = (if i < 16 then Some (None, A(i := None)) else None)"
| "spec_disp Clear A = Some (None, \<lambda>i. map_option (\<lambda>ps. []) (A i))"
| "spec_disp (Send h b s m) A =
     (let p = \<lparr>sent_by = of_int s, pk_header = buf_bytes h, pk_data = buf_bytes b\<rparr>
      in Some (None,
           if packet_size p = 16 \<or> packet_size p \<ge> 0x8000 \<or> s < 0 \<or> s > 16 then A else spec_send p m A))"
| "spec_disp (Recv wh wd r) A =
     (if (\<not> wh \<and> \<not> wd) \<or> r < 0 \<or> r > 15 then Some (Some (Inl ()), A)
      else
        case A (nat r) of
          None \<Rightarrow> None
        | Some [] \<Rightarrow> Some (Some (Inl ()), A)
        | Some (p # ps) \<Rightarrow>
            Some (Some (Inr (spec_part wh (pk_header p), spec_part wd (pk_data p))), A(nat r := Some ps)))"

fun run_ops :: "('o \<Rightarrow> 's \<Rightarrow> ('r \<times> 's) option) \<Rightarrow> 'o list \<Rightarrow> 's \<Rightarrow> ('r list \<times> 's) option" where
  "run_ops step [] s = Some ([], s)"
| "run_ops step (x # xs) s =
     (case step x s of
        None \<Rightarrow> None
      | Some (r, s') \<Rightarrow> map_option (\<lambda>(rs, s''). (r # rs, s'')) (run_ops step xs s'))"

lemma disp_step_ok:
  assumes d: "disp_rel d A" and sp: "spec_disp x A = Some (r, A')"
  shows "\<exists>d'. disp_step x d = Some (r, d') \<and> disp_rel d' A'"
proof (cases x)
  case (Register i)
  then show ?thesis using sp registerInstance_ok [OF d, of i] by (auto split: if_splits)
next
  case (Unregister i)
  then show ?thesis using sp unregisterInstance_ok [OF d, of i] by (auto split: if_splits)
next
  case Clear
  then show ?thesis using sp clear_ok [OF d] by auto
next
  case (Send h b s m)
  define p where "p = \<lparr>sent_by = of_int s, pk_header = buf_bytes h, pk_data = buf_bytes b\<rparr>"
  have e: "packet_size p = 16 \<longleftrightarrow> buf_bytes h = [] \<and> buf_bytes b = []"
    "packet_size p = 16 + length (buf_bytes h) + length (buf_bytes b)"
    by (auto simp: p_def packet_size_def)
  show ?thesis
  proof (cases "packet_size p = 16 \<or> packet_size p \<ge> 0x8000 \<or> s < 0 \<or> s > 16")
    case True
    then have "sendPacket h b s m d = Some d" unfolding e by (auto simp: sendPacket_def Let_def)
    with True sp Send d show ?thesis by (auto simp: p_def [symmetric] Let_def)
  next
    case False
    then have "\<exists>d'. sendPacket h b s m d = Some d' \<and> disp_rel d' (spec_send p m A)"
      using e(1) by (intro sendPacket_ok [OF d _ _ p_def]) auto
    with False sp Send show ?thesis by (auto simp: p_def [symmetric] Let_def)
  qed
next
  case (Recv wh wd q)
  show ?thesis
  proof (cases "(\<not> wh \<and> \<not> wd) \<or> q < 0 \<or> q > 15")
    case True
    then show ?thesis using sp Recv d by (auto simp: recvPacket_def)
  next
    case False
    with sp Recv obtain ps where ps: "A (nat q) = Some ps" by (auto split: option.splits)
    from False have f: "0 \<le> q" "q \<le> 15" "wh \<or> wd" by auto
    show ?thesis
      using recvPacket_ok [OF d f ps] False sp Recv ps by (cases ps) auto
  qed
qed

lemma disp_run_ok:
  "disp_rel d A \<Longrightarrow> run_ops spec_disp xs A = Some (rs, A') \<Longrightarrow>
   \<exists>d'. run_ops disp_step xs d = Some (rs, d') \<and> disp_rel d' A'"
proof (induction xs arbitrary: d A rs)
  case (Cons x xs)
  from Cons.prems(2) obtain r A1 rs1 where s: "spec_disp x A = Some (r, A1)"
    "run_ops spec_disp xs A1 = Some (rs1, A')" "rs = r # rs1"
    by (auto split: option.splits)
  obtain d1 where d1: "disp_step x d = Some (r, d1)" "disp_rel d1 A1"
    using disp_step_ok [OF Cons.prems(1) s(1)] by auto
  from Cons.IH [OF d1(2) s(2)] d1(1) s(3) show ?case by auto
qed simp

section \<open>Properties\<close>

text \<open>
  C22: the packet dispatcher implements one list of packets per instance. Every sequence
  of registrations, clears, sends and receives that the specification accepts is carried
  out by the code without meeting undefined behaviour (in particular the discard loop
  ends), and each receive returns exactly what the specification returns: the oldest
  packet still queued for that instance, in order, with the packets that a later send had
  to discard for room removed from the front.
\<close>

theorem PacketDispatcher_refines:
  assumes "run_ops spec_disp ops (\<lambda>i. None) = Some (results, A)"
  shows "\<exists>d. run_ops disp_step ops PacketDispatcher_new = Some (results, d) \<and> disp_rel d A"
  by (rule disp_run_ok [OF disp_rel_new assms])

theorem PacketDispatcher_refines_witness:
  "\<exists>d. run_ops disp_step [Register 0, Register 3, Send (Some [1, 2]) None 0 0xFFFF, Recv True True 3]
      PacketDispatcher_new =
    Some ([None, None, None,
           Some (Inr (\<lparr>part_len = Some 2, part_bytes = Some [1, 2]\<rparr>, \<lparr>part_len = None, part_bytes = None\<rparr>))], d)"
proof -
  have "\<exists>A. run_ops spec_disp [Register 0, Register 3, Send (Some [1, 2]) None 0 0xFFFF, Recv True True 3] (\<lambda>i. None) =
    Some ([None, None, None,
           Some (Inr (\<lparr>part_len = Some 2, part_bytes = Some [1, 2]\<rparr>, \<lparr>part_len = None, part_bytes = None\<rparr>))], A)"
    by (simp add: spec_send_def spec_part_def packet_size_def buf_bytes_def Let_def)
  then show ?thesis using PacketDispatcher_refines by blast
qed

end
