(* ===== verification/Bit_Field.thy ===== *)
theory Bit_Field
  imports Mds_Prelude
begin

text \<open>
  \<^verbatim>\<open>NonStupidBitField<Size>\<close> of \<^verbatim>\<open>src/src/NonStupidBitfield.h\<close>: the bit sets that track
  which parts of video memory have changed, stored as 64-bit words. The theory models
  every operation of the class, its iterator included, and relates them to the set of
  bit numbers that the field stands for.

  A left shift of a 64-bit value by 64 or more is undefined in C++; \<open>shl64\<close> returns
  \<open>None\<close> for it, and so does an operation that would execute it.
\<close>

section \<open>Model\<close>

type_synonym bitfield = "u64 list"

definition ones64 :: u64 where
  "ones64 = 0xFFFFFFFFFFFFFFFF"

definition shl64 :: "u64 \<Rightarrow> u32 \<Rightarrow> u64 option" where
  "shl64 x n = (if n < 64 then Some (push_bit (unat n) x) else None)"

definition GetRangedBitMask :: "u32 \<Rightarrow> u32 \<Rightarrow> u32 \<Rightarrow> u64 option" where
  "GetRangedBitMask idx startBit bitsCount =
     (let startEntry = drop_bit 6 startBit;
          entriesCount = drop_bit 6 (startBit + bitsCount + 0x3F) - startEntry
      in if entriesCount > 1 then
           (if idx = startEntry then shl64 ones64 (startBit AND 0x3F)
            else if (startBit + bitsCount) AND 0x3F \<noteq> 0 \<and> unat idx = unat startEntry + unat entriesCount - 1
            then map_option (NOT) (shl64 ones64 ((startBit + bitsCount) AND 0x3F))
            else Some ones64)
         else if idx = startEntry then
           (if bitsCount = 64 then Some ones64
            else Option.bind (shl64 1 bitsCount) (\<lambda>m. shl64 (m - 1) (startBit AND 0x3F)))
         else Some 0)"

definition DataLength :: "u32 \<Rightarrow> u32" where
  "DataLength Size = drop_bit 6 (Size + 0x3F)"

definition BF_Clear :: "u32 \<Rightarrow> bitfield" where
  "BF_Clear Size = replicate (unat (DataLength Size)) 0"

text \<open>\<^verbatim>\<open>operator[]\<close>, reading and (through \<^verbatim>\<open>Ref\<close>) writing one bit.\<close>

definition BF_get :: "bitfield \<Rightarrow> u32 \<Rightarrow> bool" where
  "BF_get d idx = (d ! unat (drop_bit 6 idx) AND push_bit (unat (idx AND 0x3F)) 1 \<noteq> 0)"

definition BF_set :: "bitfield \<Rightarrow> u32 \<Rightarrow> bool \<Rightarrow> bitfield" where
  "BF_set d idx b =
     (let i = unat (drop_bit 6 idx); s = unat (idx AND 0x3F);
          d1 = d[i := d ! i AND NOT (push_bit s 1)]
      in d1[i := d1 ! i OR push_bit s (if b then 1 else 0)])"

definition SetRange :: "bitfield \<Rightarrow> u32 \<Rightarrow> u32 \<Rightarrow> bitfield option" where
  "SetRange d startBit bitsCount =
     (let startEntry = drop_bit 6 startBit;
          entriesCount = drop_bit 6 ((startBit + bitsCount + 0x3F) AND NOT 0x3F) - startEntry;
          s = unat startEntry;
          last = unat startEntry + unat entriesCount - 1
      in if entriesCount > 1 then
           Option.bind (shl64 ones64 (startBit AND 0x3F)) (\<lambda>m.
             let d1 = d[s := d ! s OR m]
             in Option.bind
                  (if (startBit + bitsCount) AND 0x3F \<noteq> 0
                   then map_option (\<lambda>m2. d1[last := d1 ! last OR NOT m2])
                          (shl64 ones64 ((startBit + bitsCount) AND 0x3F))
                   else Some (d1[last := ones64]))
                  (\<lambda>d2. Some (fold (\<lambda>i dd. dd[i := ones64]) [s + 1..<last] d2)))
         else
           Option.bind (shl64 1 bitsCount) (\<lambda>m1.
             map_option (\<lambda>m. d[s := d ! s OR m]) (shl64 (m1 - 1) (startBit AND 0x3F))))"

definition BF_range :: "u32 \<Rightarrow> u32 \<Rightarrow> u32 \<Rightarrow> bitfield option" where
  "BF_range Size startBit bitsCount =
     (let d = BF_Clear Size
      in if bitsCount = 0 then Some d else SetRange d startBit bitsCount)"

text \<open>\<^verbatim>\<open>__builtin_ctzll\<close> and \<^verbatim>\<open>63 - __builtin_clzll\<close> of a value that is not zero.\<close>

definition ctz :: "'a::len word \<Rightarrow> nat" where
  "ctz w = length (takeWhile (\<lambda>n. \<not> bit w n) [0..<LENGTH('a)])"

definition msb_index :: "'a::len word \<Rightarrow> nat" where
  "msb_index w = LENGTH('a) - 1 - length (takeWhile (\<lambda>n. \<not> bit w n) (rev [0..<LENGTH('a)]))"

fun BF_Min_from :: "nat \<Rightarrow> bitfield \<Rightarrow> int" where
  "BF_Min_from i [] = -1"
| "BF_Min_from i (w # ws) = (if w \<noteq> 0 then int (i * 64 + ctz w) else BF_Min_from (Suc i) ws)"

definition BF_Min :: "bitfield \<Rightarrow> int" where
  "BF_Min d = BF_Min_from 0 d"

fun BF_Max_from :: "bitfield \<Rightarrow> int" where
  "BF_Max_from [] = -1"
| "BF_Max_from (w # ws) = (if w \<noteq> 0 then int (length ws * 64 + msb_index w) else BF_Max_from ws)"

text \<open>The loop runs from the last entry to the first, so it is a recursion on the reversed list.\<close>

definition BF_Max :: "bitfield \<Rightarrow> int" where
  "BF_Max d = BF_Max_from (rev d)"

definition BF_or :: "bitfield \<Rightarrow> bitfield \<Rightarrow> bitfield" where
  "BF_or d e = map2 (OR) d e"

definition BF_and :: "bitfield \<Rightarrow> bitfield \<Rightarrow> bitfield" where
  "BF_and d e = map2 (AND) d e"

definition BF_bool :: "u32 \<Rightarrow> bitfield \<Rightarrow> bool" where
  "BF_bool Size d =
     ((\<exists>w \<in> set (butlast d). w \<noteq> 0) \<or>
      last d AND (if Size AND 0x3F \<noteq> 0 then NOT (push_bit (unat (Size AND 0x3F)) ones64) else ones64) \<noteq> 0)"

record bf_iterator =
  DataIdx :: u32
  BitIdx :: u32
  RemainingBits :: u64

definition iter_end :: "u32 \<Rightarrow> bf_iterator" where
  "iter_end Size = \<lparr>DataIdx = DataLength Size, BitIdx = 0, RemainingBits = 0\<rparr>"

text \<open>The index of the first entry from \<open>i\<close> on that satisfies \<open>P\<close>.\<close>

fun find_entry :: "(nat \<Rightarrow> u64 \<Rightarrow> bool) \<Rightarrow> nat \<Rightarrow> u64 list \<Rightarrow> nat option" where
  "find_entry P i [] = None"
| "find_entry P i (w # ws) = (if P i w then Some i else find_entry P (Suc i) ws)"

definition BF_Begin :: "u32 \<Rightarrow> bitfield \<Rightarrow> bf_iterator" where
  "BF_Begin Size d =
     (case find_entry (\<lambda>i w. w \<noteq> 0 \<and> of_nat (ctz w) + of_nat i * 64 < Size) 0 d of
        None \<Rightarrow> iter_end Size
      | Some i \<Rightarrow> \<lparr>DataIdx = of_nat i, BitIdx = of_nat (ctz (d ! i)),
                   RemainingBits = d ! i AND NOT (push_bit (ctz (d ! i)) 1)\<rparr>)"

text \<open>\<^verbatim>\<open>Next\<close>: the next bit of the current entry, or the first bit of a later one.\<close>

definition BF_Next :: "u32 \<Rightarrow> bitfield \<Rightarrow> bf_iterator \<Rightarrow> bf_iterator" where
  "BF_Next Size d it =
     (let found =
        (if RemainingBits it = 0
         then
           (case find_entry (\<lambda>i w. w \<noteq> 0) (unat (DataIdx it) + 1) (drop (unat (DataIdx it) + 1) d) of
              None \<Rightarrow> None
            | Some i \<Rightarrow> Some (it\<lparr>DataIdx := of_nat i, RemainingBits := d ! i\<rparr>))
         else Some it)
      in case found of
           None \<Rightarrow> it\<lparr>DataIdx := DataLength Size\<rparr>
         | Some it' \<Rightarrow>
             let b = ctz (RemainingBits it');
                 it2 = it'\<lparr>BitIdx := of_nat b,
                           RemainingBits := RemainingBits it' AND NOT (push_bit b 1)\<rparr>
             in if Size AND 0x3F \<noteq> 0 \<and> BitIdx it2 \<ge> Size then it2\<lparr>DataIdx := DataLength Size\<rparr> else it2)"

definition iter_value :: "bf_iterator \<Rightarrow> u32" where
  "iter_value it = DataIdx it * 64 + BitIdx it"

text \<open>
  The range-based loop over a field: the values of the iterator until it equals the end,
  which compares the entry index only. One unit of fuel is one iteration.
\<close>

fun iter_collect :: "nat \<Rightarrow> u32 \<Rightarrow> bitfield \<Rightarrow> bf_iterator \<Rightarrow> u32 list option" where
  "iter_collect 0 Size d it = None"
| "iter_collect (Suc n) Size d it =
     (if DataIdx it = DataLength Size then Some []
      else map_option ((#) (iter_value it)) (iter_collect n Size d (BF_Next Size d it)))"

section \<open>Bits of a field\<close>

definition bf_bits :: "bitfield \<Rightarrow> nat set" where
  "bf_bits d = {i. i < 64 * length d \<and> bit (d ! (i div 64)) (i mod 64)}"

lemma unat_and_3F: "unat (x AND 0x3F) = unat x mod 64" for x :: u32
  using unat_and_mask [of x 6] by (simp add: mask_eq_exp_minus_1)

lemma unat_shr_6: "unat (drop_bit 6 x) = unat x div 64" for x :: u32
  by (simp add: unat_shr)

lemma unat_shr_6_align: "unat (drop_bit 6 (x AND NOT 0x3F)) = unat x div 64" for x :: u32
  using and_NOT_mask_drop [of 6 x] by (simp add: mask_eq_exp_minus_1 unat_shr_6)

lemma bit_ones64 [simp]: "bit ones64 n \<longleftrightarrow> n < 64"
proof -
  have m: "ones64 = mask 64" by (simp add: ones64_def mask_eq_exp_minus_1)
  show ?thesis unfolding m bit_mask_iff by simp
qed

lemma bit_shl_ones [simp]: "bit (push_bit n ones64) j \<longleftrightarrow> n \<le> j \<and> j < 64"
  by (auto simp: bit_push_bit_iff)

lemma bit_shl_mask: "bit (push_bit n (2 ^ c - 1 :: u64)) j \<longleftrightarrow> n \<le> j \<and> j < n + c \<and> j < 64"
proof -
  have m: "2 ^ c - 1 = (mask c :: u64)" by (simp add: mask_eq_exp_minus_1)
  show ?thesis unfolding m by (auto simp: bit_push_bit_iff bit_mask_iff)
qed

lemma shl64_small: "unat n < 64 \<Longrightarrow> shl64 x n = Some (push_bit (unat n) x)"
  by (simp add: shl64_def word_less_nat_alt)

lemma shl64_mod: "shl64 x (n AND 0x3F) = Some (push_bit (unat n mod 64) x)"
  by (simp add: shl64_small unat_and_3F)

text \<open>The word of the field that covers entry \<open>k\<close> of the range from \<open>S\<close> up to \<open>E\<close>.\<close>

definition covers :: "nat \<Rightarrow> nat \<Rightarrow> nat \<Rightarrow> u64 \<Rightarrow> bool" where
  "covers S E k m \<longleftrightarrow> (\<forall>j<64. bit m j \<longleftrightarrow> S \<le> 64 * k + j \<and> 64 * k + j < E)"

lemma covers_unique: "covers S E k m \<Longrightarrow> covers S E k m' \<Longrightarrow> m = m'"
  by (rule word_eq_bits) (simp add: covers_def)

lemma covers_bits:
  assumes "length d' = length d" and "\<And>k. k < length d \<Longrightarrow> \<exists>m. covers S E k m \<and> d' ! k = d ! k OR m"
    and "E \<le> 64 * length d"
  shows "bf_bits d' = bf_bits d \<union> {S..<E}"
proof (rule set_eqI)
  fix i
  show "i \<in> bf_bits d' \<longleftrightarrow> i \<in> bf_bits d \<union> {S..<E}"
  proof (cases "i < 64 * length d")
    case True
    then have "i div 64 < length d" by (simp add: less_mult_imp_div_less mult.commute)
    with assms(2) obtain m where m: "covers S E (i div 64) m" "d' ! (i div 64) = d ! (i div 64) OR m"
      by blast
    have "bit m (i mod 64) \<longleftrightarrow> S \<le> i \<and> i < E" using m(1) by (simp add: covers_def)
    with True assms(1) m(2) show ?thesis by (simp add: bf_bits_def bit_or_iff)
  next
    case False
    with assms show ?thesis by (auto simp: bf_bits_def)
  qed
qed

lemma fold_fill:
  "fold (\<lambda>i dd. dd[i := v]) [a..<b] d = map (\<lambda>k. if a \<le> k \<and> k < b then v else d ! k) [0..<length d]"
proof (induction b)
  case 0
  show ?case by (rule nth_equalityI) auto
next
  case (Suc b)
  show ?case
  proof (cases "a \<le> b")
    case True
    then show ?thesis
      by (auto simp: Suc nth_list_update less_Suc_eq intro!: nth_equalityI split: if_splits)
  next
    case False
    then show ?thesis by (auto intro!: nth_equalityI)
  qed
qed

text \<open>Rounding up to whole entries.\<close>

lemma ceil64: "(E + 63) div 64 = E div 64 + (if E mod 64 = 0 then 0 else 1)" for E :: nat
proof -
  have "E + 63 = (E mod 64 + 63) + 64 * (E div 64)" by simp
  then have "(E + 63) div 64 = E div 64 + (E mod 64 + 63) div 64" by (metis div_mult_self2 add.commute zero_neq_numeral)
  moreover have "(E mod 64 + 63) div 64 = (if E mod 64 = 0 then 0 else 1)"
  proof (cases "E mod 64 = 0")
    case False
    then have "64 \<le> E mod 64 + 63" "E mod 64 + 63 < 2 * 64" using mod_less_divisor [of 64 E] by linarith+
    then show ?thesis using False by (simp add: div_nat_eqI)
  qed simp
  ultimately show ?thesis by simp
qed

text \<open>The three kinds of entries a range touches.\<close>

lemma covers_first:
  assumes "64 * (S div 64) + 64 \<le> E"
  shows "covers S E (S div 64) (push_bit (S mod 64) ones64)"
  unfolding covers_def
proof (intro allI impI)
  fix j :: nat assume j: "j < 64"
  have "S = 64 * (S div 64) + S mod 64" by simp
  then have "S \<le> 64 * (S div 64) + j \<longleftrightarrow> S mod 64 \<le> j" by linarith
  with j assms show "bit (push_bit (S mod 64) ones64) j \<longleftrightarrow> S \<le> 64 * (S div 64) + j \<and> 64 * (S div 64) + j < E"
    by simp
qed

lemma covers_last:
  assumes "S \<le> 64 * (E div 64)"
  shows "covers S E (E div 64) (NOT (push_bit (E mod 64) ones64))"
  unfolding covers_def
proof (intro allI impI)
  fix j :: nat assume j: "j < 64"
  have "E = 64 * (E div 64) + E mod 64" by simp
  then have "64 * (E div 64) + j < E \<longleftrightarrow> j < E mod 64" by linarith
  with j assms show "bit (NOT (push_bit (E mod 64) ones64)) j \<longleftrightarrow> S \<le> 64 * (E div 64) + j \<and> 64 * (E div 64) + j < E"
    by (auto simp: bit_not_iff)
qed

lemma covers_full: "S \<le> 64 * k \<Longrightarrow> 64 * k + 64 \<le> E \<Longrightarrow> covers S E k ones64"
  by (auto simp: covers_def)

lemma covers_single: "covers S (S + C) (S div 64) (push_bit (S mod 64) (push_bit C 1 - 1))"
  unfolding covers_def
proof (intro allI impI)
  fix j :: nat assume j: "j < 64"
  have "S = 64 * (S div 64) + S mod 64" by simp
  then have "S \<le> 64 * (S div 64) + j \<longleftrightarrow> S mod 64 \<le> j"
    and "64 * (S div 64) + j < S + C \<longleftrightarrow> j < S mod 64 + C" by linarith+
  with j show "bit (push_bit (S mod 64) (push_bit C 1 - 1 :: u64)) j \<longleftrightarrow>
      S \<le> 64 * (S div 64) + j \<and> 64 * (S div 64) + j < S + C"
    by (auto simp: bit_shl_mask)
qed

lemma covers_none: "64 * k + 64 \<le> S \<or> E \<le> 64 * k \<Longrightarrow> covers S E k 0"
  by (auto simp: covers_def)

section \<open>Setting a range\<close>

text \<open>The 32-bit arithmetic of the entry numbers, for a range that does not wrap around.\<close>

lemma range_entries:
  fixes startBit bitsCount :: u32
  assumes "unat startBit + unat bitsCount + 63 < 2 ^ 32"
  defines "S \<equiv> unat startBit" and "E \<equiv> unat startBit + unat bitsCount"
  shows "unat (startBit + bitsCount) = E"
    and "unat (drop_bit 6 (startBit + bitsCount + 0x3F)) = (E + 63) div 64"
    and "unat (drop_bit 6 (startBit + bitsCount + 0x3F) - drop_bit 6 startBit) = (E + 63) div 64 - S div 64"
proof -
  show e: "unat (startBit + bitsCount) = E"
    using assms by (simp add: unat_plus_small)
  then have e63: "unat (startBit + bitsCount + 0x3F) = E + 63"
    using assms by (simp add: unat_plus_small)
  then show d: "unat (drop_bit 6 (startBit + bitsCount + 0x3F)) = (E + 63) div 64"
    by (simp only: unat_shr_6)
  have "S div 64 \<le> (E + 63) div 64" by (rule div_le_mono) (simp add: S_def E_def)
  then have "drop_bit 6 startBit \<le> drop_bit 6 (startBit + bitsCount + 0x3F)"
    using d by (simp add: word_le_nat_alt unat_shr_6 S_def)
  then show "unat (drop_bit 6 (startBit + bitsCount + 0x3F) - drop_bit 6 startBit) = (E + 63) div 64 - S div 64"
    using d by (simp add: unat_minus_small unat_shr_6 S_def)
qed

lemma drop_6_align: "drop_bit 6 (x AND NOT 0x3F) = drop_bit 6 x" for x :: u32
  using and_NOT_mask_drop [of 6 x] by (simp add: mask_eq_exp_minus_1)

text \<open>The last entry of a range of more than one entry; the sum is computed in 64 bits.\<close>

lemma range_last:
  fixes startBit bitsCount :: u32
  assumes ov: "unat startBit + unat bitsCount + 63 < 2 ^ 32"
  defines "n \<equiv> drop_bit 6 (startBit + bitsCount + 0x3F) - drop_bit 6 startBit"
  assumes n: "n > 1"
  shows "unat (drop_bit 6 startBit) + unat n - 1 = (unat startBit + unat bitsCount + 63) div 64 - 1"
proof -
  have "1 < (unat startBit + unat bitsCount + 63) div 64 - unat startBit div 64"
    using n range_entries(3) [OF ov] by (simp add: n_def word_less_nat_alt)
  then show ?thesis using range_entries(3) [OF ov] by (simp add: n_def unat_shr_6)
qed

lemma SetRange_many:
  assumes ov: "unat startBit + unat bitsCount + 63 < 2 ^ 32"
    and len: "unat startBit + unat bitsCount \<le> 64 * length d"
    and many: "(unat startBit + unat bitsCount + 63) div 64 - unat startBit div 64 > 1"
  obtains d' where "SetRange d startBit bitsCount = Some d'" "length d' = length d"
    "bf_bits d' = bf_bits d \<union> {unat startBit..<unat startBit + unat bitsCount}"
proof -
  define S E where "S = unat startBit" and "E = unat startBit + unat bitsCount"
  define L where "L = (E + 63) div 64 - 1"
  define d1 where "d1 = d[S div 64 := d ! (S div 64) OR push_bit (S mod 64) ones64]"
  define d2 where "d2 = (if E mod 64 \<noteq> 0 then d1[L := d1 ! L OR NOT (push_bit (E mod 64) ones64)]
    else d1[L := ones64])"
  define d' where "d' = fold (\<lambda>i dd. dd[i := ones64]) [S div 64 + 1..<L] d2"
  let ?n = "drop_bit 6 (startBit + bitsCount + 0x3F) - drop_bit 6 startBit"
  have n1: "?n > 1" using range_entries(3) [OF ov] many by (simp add: word_less_nat_alt)
  have r: "SetRange d startBit bitsCount = Some d'"
    using n1 range_last [OF ov n1] range_entries(1) [OF ov]
    unfolding SetRange_def drop_6_align
    by (simp add: Let_def shl64_mod unat_shr_6 d'_def d2_def d1_def L_def
        S_def E_def unat_and_3F flip: unat_eq_zero)
  have len': "length d' = length d" by (simp add: d'_def fold_fill d2_def d1_def)
  have SL: "S div 64 < L" "L < length d"
    using many len by (auto simp: L_def S_def E_def)
  have nth: "d' ! k = (if S div 64 < k \<and> k < L then ones64
      else if k = L then (if E mod 64 \<noteq> 0 then d ! k OR NOT (push_bit (E mod 64) ones64) else ones64)
      else if k = S div 64 then d ! k OR push_bit (S mod 64) ones64 else d ! k)" if "k < length d" for k
    using that SL by (auto simp: d'_def fold_fill d2_def d1_def nth_list_update)
  have one: "x OR ones64 = ones64" for x
    by (rule word_eq_bits) (simp add: bit_or_iff)
  have "\<exists>m. covers S E k m \<and> d' ! k = d ! k OR m" if k: "k < length d" for k
  proof -
    consider (mid) "S div 64 < k" "k < L" | (last) "k = L" | (first) "k = S div 64" | (out) "k < S div 64 \<or> L < k"
      by linarith
    then show ?thesis
    proof cases
      case mid
      then have "S \<le> 64 * k" "64 * k + 64 \<le> E" by (auto simp: L_def)
      then show ?thesis using mid nth [OF k] one by (metis covers_full)
    next
      case last
      show ?thesis
      proof (cases "E mod 64 = 0")
        case True
        then have "64 * L + 64 = E" using SL by (auto simp: L_def)
        moreover have "S \<le> 64 * L" using SL by (simp add: div_less_iff_less_mult)
        ultimately have "covers S E L ones64" by (intro covers_full) auto
        with True last nth [OF k] SL one show ?thesis by auto
      next
        case False
        then have LE: "L = E div 64" by (simp add: L_def ceil64)
        have "S \<le> 64 * L" using SL by (simp add: div_less_iff_less_mult)
        then have "covers S E L (NOT (push_bit (E mod 64) ones64))" unfolding LE by (rule covers_last)
        with False last nth [OF k] SL show ?thesis by auto
      qed
    next
      case first
      have "64 * (S div 64) + 64 \<le> E" using SL by (auto simp: L_def)
      from covers_first [OF this] show ?thesis using first nth [OF k] SL by auto
    next
      case out
      then have "64 * k + 64 \<le> S \<or> E \<le> 64 * k" by (auto simp: L_def)
      then show ?thesis using out nth [OF k] SL covers_none by (intro exI [of _ 0]) auto
    qed
  qed
  from covers_bits [OF len' this] len have "bf_bits d' = bf_bits d \<union> {S..<E}" by (simp add: E_def)
  with r len' that show ?thesis by (simp add: S_def E_def)
qed

lemma SetRange_one:
  assumes ov: "unat startBit + unat bitsCount + 63 < 2 ^ 32"
    and len: "unat startBit + unat bitsCount \<le> 64 * length d"
    and few: "(unat startBit + unat bitsCount + 63) div 64 - unat startBit div 64 \<le> 1"
    and c: "0 < unat bitsCount" "unat bitsCount \<noteq> 64"
  obtains d' where "SetRange d startBit bitsCount = Some d'" "length d' = length d"
    "bf_bits d' = bf_bits d \<union> {unat startBit..<unat startBit + unat bitsCount}"
proof -
  define S C where "S = unat startBit" and "C = unat bitsCount"
  define d' where "d' = d[S div 64 := d ! (S div 64) OR push_bit (S mod 64) (push_bit C 1 - 1)]"
  let ?n = "drop_bit 6 (startBit + bitsCount + 0x3F) - drop_bit 6 startBit"
  have n1: "\<not> ?n > 1" using range_entries(3) [OF ov] few by (simp add: word_less_nat_alt)
  have C64: "C < 64" using few c unfolding C_def by linarith
  have r: "SetRange d startBit bitsCount = Some d'"
    using n1 C64 unfolding SetRange_def drop_6_align
    by (simp add: Let_def shl64_small shl64_mod unat_shr_6 d'_def S_def C_def)
  have in1: "S + C \<le> 64 * (S div 64) + 64" using few c unfolding S_def C_def by linarith
  have Sd: "S div 64 < length d" using len c by (auto simp: S_def C_def)
  have "\<exists>m. covers S (S + C) k m \<and> d' ! k = d ! k OR m" if k: "k < length d" for k
  proof (cases "k = S div 64")
    case True
    then show ?thesis using covers_single [of S C] k by (auto simp: d'_def)
  next
    case False
    then have "64 * k + 64 \<le> S \<or> S + C \<le> 64 * k" using in1 by linarith
    with False show ?thesis using covers_none by (intro exI [of _ 0]) (auto simp: d'_def)
  qed
  from covers_bits [OF _ this] len have "bf_bits d' = bf_bits d \<union> {S..<S + C}"
    by (simp add: S_def C_def d'_def)
  with r that show ?thesis by (simp add: S_def C_def d'_def)
qed

lemma SetRange_ok:
  assumes "unat startBit + unat bitsCount + 63 < 2 ^ 32"
    and "unat startBit + unat bitsCount \<le> 64 * length d"
    and "0 < unat bitsCount" "\<not> (unat bitsCount = 64 \<and> unat startBit mod 64 = 0)"
  obtains d' where "SetRange d startBit bitsCount = Some d'" "length d' = length d"
    "bf_bits d' = bf_bits d \<union> {unat startBit..<unat startBit + unat bitsCount}"
proof (cases "(unat startBit + unat bitsCount + 63) div 64 - unat startBit div 64 > 1")
  case True
  with assms show ?thesis using SetRange_many that by blast
next
  case False
  then have few: "(unat startBit + unat bitsCount + 63) div 64 - unat startBit div 64 \<le> 1" by simp
  have "unat bitsCount \<noteq> 64"
    using few assms(4) by (auto simp: ceil64)
  with few assms show ?thesis using SetRange_one that by blast
qed

text \<open>An aligned range of exactly 64 bits shifts a 64-bit value by 64.\<close>

lemma SetRange_64_undefined:
  assumes "unat startBit mod 64 = 0" "bitsCount = 64" "unat startBit + 127 < 2 ^ 32"
  shows "SetRange d startBit bitsCount = None"
proof -
  have ov: "unat startBit + unat (64 :: u32) + 63 < 2 ^ 32" using assms by simp
  have "(unat startBit + 64 + 63) div 64 - unat startBit div 64 \<le> 1" using assms(1) by (auto simp: ceil64)
  then have "\<not> drop_bit 6 (startBit + 64 + 0x3F) - drop_bit 6 startBit > 1"
    using range_entries(3) [OF ov] by (simp add: word_less_nat_alt)
  then show ?thesis
    unfolding SetRange_def drop_6_align assms(2) by (simp add: Let_def shl64_def)
qed

lemma GetRangedBitMask_covers:
  fixes idx startBit bitsCount :: u32
  assumes ov: "unat startBit + unat bitsCount + 63 < 2 ^ 32" and c: "0 < unat bitsCount"
    and lo: "unat startBit div 64 \<le> unat idx"
    and hi: "unat idx < (unat startBit + unat bitsCount + 63) div 64"
  obtains m where "GetRangedBitMask idx startBit bitsCount = Some m"
    "covers (unat startBit) (unat startBit + unat bitsCount) (unat idx) m"
proof -
  define S E where "S = unat startBit" and "E = unat startBit + unat bitsCount"
  let ?n = "drop_bit 6 (startBit + bitsCount + 0x3F) - drop_bit 6 startBit"
  have first: "idx = drop_bit 6 startBit \<longleftrightarrow> unat idx = S div 64"
    by (simp add: S_def unat_shr_6 flip: unat_shr_6 word_unat_eq_iff)
  show ?thesis
  proof (cases "?n > 1")
    case True
    have many: "(E + 63) div 64 - S div 64 > 1"
      using True range_entries(3) [OF ov] by (simp add: word_less_nat_alt S_def E_def)
    have lastc: "unat idx = unat (drop_bit 6 startBit) + unat ?n - 1 \<longleftrightarrow> unat idx = (E + 63) div 64 - 1"
      using range_last [OF ov True] by (simp add: E_def)
    have e0: "(startBit + bitsCount) AND 0x3F \<noteq> 0 \<longleftrightarrow> E mod 64 \<noteq> 0"
      using range_entries(1) [OF ov] by (simp add: E_def unat_and_3F flip: unat_eq_zero)
    have e1: "shl64 ones64 ((startBit + bitsCount) AND 0x3F) = Some (push_bit (E mod 64) ones64)"
      using range_entries(1) [OF ov] by (simp add: shl64_mod E_def)
    have g: "GetRangedBitMask idx startBit bitsCount =
      (if unat idx = S div 64 then Some (push_bit (S mod 64) ones64)
       else if E mod 64 \<noteq> 0 \<and> unat idx = (E + 63) div 64 - 1 then Some (NOT (push_bit (E mod 64) ones64))
       else Some ones64)"
      unfolding GetRangedBitMask_def Let_def using True first lastc e0 e1
      by (simp add: shl64_mod S_def)
    consider (first) "unat idx = S div 64"
      | (last) "unat idx \<noteq> S div 64" "E mod 64 \<noteq> 0" "unat idx = (E + 63) div 64 - 1"
      | (mid) "unat idx \<noteq> S div 64" "\<not> (E mod 64 \<noteq> 0 \<and> unat idx = (E + 63) div 64 - 1)" by blast
    then show ?thesis
    proof cases
      case first
      have "64 * (S div 64) + 64 \<le> E" using many by linarith
      from that [OF _ covers_first [OF this, folded first, unfolded S_def E_def]] g first show ?thesis
        by (simp add: S_def)
    next
      case last
      have i: "unat idx = E div 64" using last(2,3) by (simp add: ceil64)
      have "S \<le> 64 * (E div 64)" using i last(1) lo unfolding S_def by linarith
      from that [OF _ covers_last [OF this, folded i, unfolded S_def E_def]] g last show ?thesis
        by (simp add: E_def)
    next
      case mid
      have "S \<le> 64 * unat idx" using mid(1) lo unfolding S_def by linarith
      moreover have "64 * unat idx + 64 \<le> E"
        using mid(2) hi mult_div_mod_eq [of 64 E] unfolding E_def [symmetric] ceil64
        by (auto split: if_splits)
      ultimately have "covers S E (unat idx) ones64" by (rule covers_full)
      moreover have "GetRangedBitMask idx startBit bitsCount = Some ones64"
        using g mid by (simp only: if_False)
      ultimately show ?thesis using that by (simp only: S_def E_def)
    qed
  next
    case False
    have few: "(E + 63) div 64 - S div 64 \<le> 1"
      using False range_entries(3) [OF ov] by (simp add: word_less_nat_alt S_def E_def)
    then have i: "unat idx = S div 64" using lo hi by (simp add: S_def E_def)
    show ?thesis
    proof (cases "bitsCount = 64")
      case True
      then have ES: "E = S + 64" by (simp add: E_def S_def)
      then have "E div 64 = S div 64 + 1" "E mod 64 = S mod 64" by simp_all
      with few ceil64 [of E] have "S mod 64 = 0" by (auto split: if_splits)
      then have "covers S E (unat idx) ones64"
        using True i by (intro covers_full) (auto simp: E_def S_def)
      with that True False first i show ?thesis by (simp add: GetRangedBitMask_def Let_def S_def E_def)
    next
      case F: False
      then have "unat bitsCount \<noteq> 64" using word_unat_eq_iff [of bitsCount 64] by simp
      then have "unat bitsCount < 64" using few unfolding E_def S_def by linarith
      then have "GetRangedBitMask idx startBit bitsCount = Some (push_bit (S mod 64) (push_bit (unat bitsCount) 1 - 1))"
        using False F first i by (simp add: GetRangedBitMask_def Let_def shl64_small shl64_mod S_def)
      with that covers_single [of S "unat bitsCount"] i show ?thesis by (simp add: S_def)
    qed
  qed
qed

section \<open>Single bits\<close>

lemma and_bit_neq_0: "w AND push_bit n 1 \<noteq> 0 \<longleftrightarrow> bit w n" for w :: "'a::len word"
  by (metis and_exp_eq_0_iff_not_bit push_bit_eq_mult mult_1)

lemma BF_get_iff:
  assumes "unat idx < 64 * length d"
  shows "BF_get d idx \<longleftrightarrow> unat idx \<in> bf_bits d"
proof -
  have "BF_get d idx \<longleftrightarrow> bit (d ! (unat idx div 64)) (unat idx mod 64)"
    unfolding BF_get_def and_bit_neq_0 by (simp only: unat_shr_6 unat_and_3F)
  with assms show ?thesis by (simp add: bf_bits_def)
qed

lemma BF_set_bits:
  assumes "unat idx < 64 * length d"
  shows "bf_bits (BF_set d idx b) = (if b then insert (unat idx) (bf_bits d) else bf_bits d - {unat idx})"
proof -
  let ?k = "unat idx div 64" and ?s = "unat idx mod 64"
  have k: "?k < length d" using assms by (simp add: less_mult_imp_div_less mult.commute)
  have "BF_set d idx b = d[?k := (d ! ?k AND NOT (push_bit ?s 1)) OR push_bit ?s (if b then 1 else 0)]"
    using k unfolding BF_set_def Let_def unat_shr_6 unat_and_3F by simp
  moreover have "bit ((w AND NOT (push_bit ?s 1)) OR push_bit ?s (if b then 1 else 0)) j
      \<longleftrightarrow> (if j = ?s then b else bit w j)" if "j < 64" for w :: u64 and j
    using that by (auto simp: bit_simps)
  ultimately have "i \<in> bf_bits (BF_set d idx b) \<longleftrightarrow> i < 64 * length d \<and>
      (if i div 64 = ?k \<and> i mod 64 = ?s then b else i \<in> bf_bits d)" for i
    using k by (auto simp: bf_bits_def nth_list_update)
  moreover have "i div 64 = ?k \<and> i mod 64 = ?s \<longleftrightarrow> i = unat idx" for i
    by (metis mult_div_mod_eq)
  ultimately show ?thesis using assms by (auto simp: bf_bits_def)
qed

lemma BF_or_bits:
  "length d = length e \<Longrightarrow> bf_bits (BF_or d e) = bf_bits d \<union> bf_bits e"
  by (auto simp: bf_bits_def BF_or_def bit_or_iff less_mult_imp_div_less mult.commute)

lemma BF_and_bits:
  "length d = length e \<Longrightarrow> bf_bits (BF_and d e) = bf_bits d \<inter> bf_bits e"
  by (auto simp: bf_bits_def BF_and_def bit_and_iff less_mult_imp_div_less mult.commute)

section \<open>Lowest and highest bit of a word\<close>

lemma ctz_props:
  fixes w :: "'a::len word"
  assumes "w \<noteq> 0"
  shows "bit w (ctz w)" "j < ctz w \<Longrightarrow> \<not> bit w j" "ctz w < LENGTH('a)"
proof -
  let ?P = "\<lambda>n. \<not> bit w n" and ?xs = "[0..<LENGTH('a)]"
  from assms obtain n where n: "bit w n" "n < LENGTH('a)"
    by (metis bit_eq_iff bit_0_eq bit_imp_le_length bot_apply bot_bool_def)
  have "takeWhile ?P ?xs \<noteq> ?xs"
    using n by (auto simp: takeWhile_eq_all_conv)
  then have lt: "ctz w < LENGTH('a)"
    unfolding ctz_def by (metis length_takeWhile_le length_upt minus_nat.diff_0 le_neq_implies_less takeWhile_eq_take take_all_iff order_refl)
  then show "ctz w < LENGTH('a)" .
  show "bit w (ctz w)"
    using nth_length_takeWhile [of ?P ?xs] lt by (simp add: ctz_def)
  show "\<not> bit w j" if "j < ctz w"
    using that lt takeWhile_nth [of j ?P ?xs] set_takeWhileD [of j ?P ?xs] nth_mem [of j "takeWhile ?P ?xs"]
    by (simp add: ctz_def)
qed

definition wbits :: "u64 \<Rightarrow> nat list" where
  "wbits w = filter (bit w) [0..<64]"

lemma wbits_Nil_iff: "wbits w = [] \<longleftrightarrow> w = 0"
  by (auto simp: wbits_def filter_empty_conv intro: word_eq_bits)

lemma wbits_ctz:
  assumes "w \<noteq> 0"
  shows "wbits w = ctz w # wbits (w AND NOT (push_bit (ctz w) 1))"
proof -
  let ?c = "ctz w" and ?v = "w AND NOT (push_bit (ctz w) 1)"
  note c = ctz_props [OF assms]
  have split: "[0..<64] = [0..<?c] @ ?c # [Suc ?c..<64]"
    using c(3) upt_add_eq_append [of 0 ?c "64 - ?c"] by (simp add: upt_conv_Cons)
  have v: "bit ?v j \<longleftrightarrow> bit w j \<and> j \<noteq> ?c" for j
    by (auto simp: bit_simps dest: bit_imp_le_length)
  have "filter (bit w) [0..<?c] = []" "filter (bit ?v) [0..<?c] = []"
    using c(2) v by (auto simp: filter_empty_conv)
  moreover have "filter (bit ?v) [Suc ?c..<64] = filter (bit w) [Suc ?c..<64]"
    by (rule filter_cong [OF refl]) (auto simp only: v set_upt atLeastLessThan_iff)
  moreover have "wbits x = filter (bit x) [0..<?c] @ filter (bit x) (?c # [Suc ?c..<64])" for x
    unfolding wbits_def filter_append [symmetric] split [symmetric] ..
  ultimately show ?thesis using c(1) v [of ?c] by simp
qed

section \<open>Iterating over the bits\<close>

definition entry_bits :: "bitfield \<Rightarrow> nat \<Rightarrow> nat list" where
  "entry_bits d k = map ((+) (64 * k)) (wbits (d ! k))"

text \<open>The bits an iterator has still to visit after its current one.\<close>

definition iter_rest :: "bitfield \<Rightarrow> bf_iterator \<Rightarrow> nat list" where
  "iter_rest d it =
     map ((+) (64 * unat (DataIdx it))) (wbits (RemainingBits it)) @
     concat (map (entry_bits d) [Suc (unat (DataIdx it))..<length d])"

lemma find_entry_Some:
  "find_entry P i ws = Some k \<Longrightarrow>
   i \<le> k \<and> k < i + length ws \<and> P k (ws ! (k - i)) \<and> (\<forall>j. i \<le> j \<and> j < k \<longrightarrow> \<not> P j (ws ! (j - i)))"
proof (induction P i ws rule: find_entry.induct)
  case (2 P i w ws)
  then show ?case
    by (auto split: if_splits simp: nth_Cons' Suc_diff_Suc)
qed simp

lemma find_entry_None:
  "find_entry P i ws = None \<Longrightarrow> k < length ws \<Longrightarrow> \<not> P (i + k) (ws ! k)"
proof (induction P i ws arbitrary: k rule: find_entry.induct)
  case (2 P i w ws)
  show ?case
  proof (cases k)
    case 0
    with 2 show ?thesis by (auto split: if_splits)
  next
    case (Suc k')
    with 2 have "\<not> P (Suc i + k') (ws ! k')" by (auto split: if_splits)
    with Suc show ?thesis by simp
  qed
qed simp

text \<open>Skipping empty entries does not change the bits that follow.\<close>

lemma concat_skip:
  assumes "i \<le> k" "k < n" "\<And>j. i \<le> j \<Longrightarrow> j < k \<Longrightarrow> f j = []"
  shows "concat (map f [i..<n]) = f k @ concat (map f [Suc k..<n])"
proof -
  have "[i..<n] = [i..<k] @ k # [Suc k..<n]"
    using assms upt_add_eq_append [of i k "n - k"] by (simp add: upt_conv_Cons)
  moreover have "concat (map f [i..<k]) = []" using assms(3) by simp
  ultimately show ?thesis by simp
qed

lemma skip_to_entry:
  assumes "find_entry (\<lambda>i w. w \<noteq> 0) i (drop i d) = Some k"
  shows "k < length d" "d ! k \<noteq> 0"
    "concat (map (entry_bits d) [i..<length d]) = entry_bits d k @ concat (map (entry_bits d) [Suc k..<length d])"
proof -
  note f = find_entry_Some [OF assms]
  have il: "i \<le> length d"
  proof (rule ccontr)
    assume "\<not> i \<le> length d"
    with assms show False by simp
  qed
  with f show k: "k < length d" by simp
  from f il show "d ! k \<noteq> 0" by (metis (no_types, lifting) le_add_diff_inverse nth_drop)
  have z: "d ! j = 0" if "i \<le> j" "j < k" for j
    using f that il k by (metis (no_types, lifting) le_add_diff_inverse nth_drop)
  show "concat (map (entry_bits d) [i..<length d]) = entry_bits d k @ concat (map (entry_bits d) [Suc k..<length d])"
    using f k z by (intro concat_skip) (auto simp: entry_bits_def wbits_def)
qed

lemma skip_none:
  assumes "find_entry (\<lambda>i w. w \<noteq> 0) i (drop i d) = None"
  shows "concat (map (entry_bits d) [i..<length d]) = []"
proof -
  have "d ! j = 0" if "i \<le> j" "j < length d" for j
    using find_entry_None [OF assms, of "j - i"] that by simp
  then show ?thesis by (auto simp: entry_bits_def wbits_def)
qed

text \<open>
  What one \<^verbatim>\<open>Next\<close> does, for a field whose size is a whole number of entries: it moves to
  the first of the remaining bits, or to the end.
\<close>

lemma BF_Next_step:
  assumes size: "Size AND 0x3F = 0" "length d = unat (DataLength Size)"
    and it: "unat (DataIdx it) < length d"
  shows "iter_rest d it = [] \<Longrightarrow> DataIdx (BF_Next Size d it) = DataLength Size"
    and "iter_rest d it = b # bs \<Longrightarrow>
      unat (DataIdx (BF_Next Size d it)) < length d \<and> iter_rest d (BF_Next Size d it) = bs \<and>
      unat (DataIdx (BF_Next Size d it)) * 64 + unat (BitIdx (BF_Next Size d it)) = b"
proof -
  have small: "unat (of_nat (ctz w) :: u32) = ctz w" if "w \<noteq> 0" for w :: u64
    using ctz_props(3) [OF that] by (simp add: unat_of_nat)
  have sm: "unat (of_nat k :: u32) = k" if "k < length d" for k
    using that size(2) unat_u32_less [of "DataLength Size"] by (simp add: unat_of_nat)
  let ?f = "find_entry (\<lambda>i w. w \<noteq> 0) (Suc (unat (DataIdx it))) (drop (Suc (unat (DataIdx it))) d)"
  consider (cur) "RemainingBits it \<noteq> 0" | (later) k where "RemainingBits it = 0" "?f = Some k"
    | (over) "RemainingBits it = 0" "?f = None" by (cases ?f) auto
  then have "(iter_rest d it = [] \<longrightarrow> DataIdx (BF_Next Size d it) = DataLength Size) \<and>
    (\<forall>b bs. iter_rest d it = b # bs \<longrightarrow>
      unat (DataIdx (BF_Next Size d it)) < length d \<and> iter_rest d (BF_Next Size d it) = bs \<and>
      unat (DataIdx (BF_Next Size d it)) * 64 + unat (BitIdx (BF_Next Size d it)) = b)"
  proof cases
    case cur
    then show ?thesis
      using it size small by (simp add: BF_Next_def Let_def iter_rest_def wbits_ctz mult.commute)
  next
    case later
    note k = skip_to_entry [OF later(2)]
    have "wbits (0::u64) = []" by (simp add: wbits_Nil_iff)
    then show ?thesis
      using later k size sm small
      by (simp add: BF_Next_def Let_def iter_rest_def wbits_ctz entry_bits_def mult.commute)
  next
    case over
    have "wbits (0::u64) = []" by (simp add: wbits_Nil_iff)
    then have "iter_rest d it = []"
      unfolding iter_rest_def skip_none [OF over(2)] using over by simp
    then show ?thesis using over by (simp add: BF_Next_def Let_def)
  qed
  then show "iter_rest d it = [] \<Longrightarrow> DataIdx (BF_Next Size d it) = DataLength Size"
    and "iter_rest d it = b # bs \<Longrightarrow>
      unat (DataIdx (BF_Next Size d it)) < length d \<and> iter_rest d (BF_Next Size d it) = bs \<and>
      unat (DataIdx (BF_Next Size d it)) * 64 + unat (BitIdx (BF_Next Size d it)) = b" by blast+
qed

lemma iter_collect_rest:
  assumes size: "Size AND 0x3F = 0" "length d = unat (DataLength Size)"
  shows "unat (DataIdx it) < length d \<Longrightarrow> length (iter_rest d it) + 2 \<le> n \<Longrightarrow>
    \<exists>vs. iter_collect n Size d it = Some vs \<and>
      vs = iter_value it # map of_nat (iter_rest d it)"
proof (induction "iter_rest d it" arbitrary: it n)
  case Nil
  then obtain m where n: "n = Suc (Suc m)" by (metis add_2_eq_Suc' le_Suc_ex add.commute add_Suc_right)
  have ne: "DataIdx it \<noteq> DataLength Size" using Nil.prems size by auto
  have "DataIdx (BF_Next Size d it) = DataLength Size"
    using BF_Next_step(1) [OF size Nil.prems(1)] Nil.hyps by simp
  with ne n show ?case using Nil.hyps [symmetric] by simp
next
  case (Cons b bs)
  then obtain m where n: "n = Suc m" by (cases n) auto
  let ?it = "BF_Next Size d it"
  have ne: "DataIdx it \<noteq> DataLength Size" using Cons.prems size by auto
  note st = BF_Next_step(2) [OF size Cons.prems(1) Cons.hyps(2) [symmetric]]
  have "length (iter_rest d ?it) + 2 \<le> m" using Cons.prems n st Cons.hyps(2) [symmetric] by simp
  then obtain vs where vs: "iter_collect m Size d ?it = Some vs" "vs = iter_value ?it # map of_nat bs"
    using Cons.hyps(1) [of ?it m] st by auto
  have "iter_value ?it = of_nat b"
    using st by (simp add: iter_value_def flip: of_nat_mult of_nat_add) 
      (metis of_nat_add of_nat_mult of_nat_numeral of_nat_unat ucast_id)
  with vs ne n Cons.hyps(2) [symmetric] show ?case by simp
qed

text \<open>All bits of a field in ascending order.\<close>

definition field_bits :: "bitfield \<Rightarrow> nat list" where
  "field_bits d = filter (\<lambda>i. bit (d ! (i div 64)) (i mod 64)) [0..<64 * length d]"

lemma entry_bits_filter:
  "entry_bits d k = filter (\<lambda>i. bit (d ! (i div 64)) (i mod 64)) [64 * k..<64 * k + 64]"
proof -
  have "[64 * k..<64 * k + 64] = map ((+) (64 * k)) [0..<64]"
    using map_add_upt [of "64 * k" 64] by (simp add: add.commute [of _ "64 * k"])
  then show ?thesis
    by (simp only: entry_bits_def wbits_def filter_map o_def)
      (rule arg_cong [where f = "map _"], rule filter_cong, auto)
qed

lemma concat_entry_bits:
  "concat (map (entry_bits d) [0..<n]) = filter (\<lambda>i. bit (d ! (i div 64)) (i mod 64)) [0..<64 * n]"
proof (induction n)
  case (Suc n)
  have "[0..<64 * Suc n] = [0..<64 * n] @ [64 * n..<64 * n + 64]"
    using upt_add_eq_append [of 0 "64 * n" 64] by (simp add: add.commute)
  then show ?case using Suc by (simp add: entry_bits_filter)
qed simp

lemma BF_Begin_rest:
  assumes size: "Size AND 0x3F = 0" "length d = unat (DataLength Size)" "unat Size = 64 * length d"
  shows "field_bits d = [] \<Longrightarrow> DataIdx (BF_Begin Size d) = DataLength Size"
    and "field_bits d = b # bs \<Longrightarrow>
      unat (DataIdx (BF_Begin Size d)) < length d \<and> iter_rest d (BF_Begin Size d) = bs \<and>
      iter_value (BF_Begin Size d) = of_nat b"
proof -
  let ?P = "\<lambda>i w. w \<noteq> 0 \<and> of_nat (ctz w) + of_nat i * 64 < Size"
  have P: "?P i w = (w \<noteq> 0)" if "i < length d" for i and w :: u64
  proof (cases "w = 0")
    case False
    from ctz_props(3) [OF this] have c: "ctz w + i * 64 < unat Size" using that size(3) by simp
    then have "unat (of_nat (ctz w + i * 64) :: u32) = ctz w + i * 64"
      using unat_u32_less [of Size] by (intro unat_of_nat_u32) linarith
    with c False show ?thesis by (simp add: word_less_nat_alt)
  qed simp
  have fe: "find_entry ?P i (drop i d) = find_entry (\<lambda>i w. w \<noteq> 0) i (drop i d)" for i
  proof (induction "length d - i" arbitrary: i)
    case (Suc n)
    then have "drop i d = d ! i # drop (Suc i) d" by (simp add: Cons_nth_drop_Suc)
    with Suc P [of i] show ?case by simp
  qed simp
  have f0: "find_entry ?P 0 d = find_entry (\<lambda>i w. w \<noteq> 0) 0 (drop 0 d)" using fe [of 0] by simp
  have bits: "field_bits d = concat (map (entry_bits d) [0..<length d])"
    by (simp add: field_bits_def concat_entry_bits)
  have "(field_bits d = [] \<longrightarrow> DataIdx (BF_Begin Size d) = DataLength Size) \<and>
    (\<forall>b bs. field_bits d = b # bs \<longrightarrow>
      unat (DataIdx (BF_Begin Size d)) < length d \<and> iter_rest d (BF_Begin Size d) = bs \<and>
      iter_value (BF_Begin Size d) = of_nat b)"
  proof (cases "find_entry (\<lambda>i w. w \<noteq> 0) 0 (drop 0 d)")
    case None
    then have "field_bits d = []" using skip_none [OF None] unfolding bits by simp
    then show ?thesis using None f0 by (simp add: BF_Begin_def iter_end_def)
  next
    case (Some k)
    note k = skip_to_entry [OF Some]
    have "unat (of_nat k :: u32) = k"
      using k(1) size(2) unat_u32_less [of "DataLength Size"] by (simp add: unat_of_nat)
    then show ?thesis
      using Some f0 k bits
      by (auto simp: BF_Begin_def iter_rest_def entry_bits_def wbits_ctz iter_value_def)
  qed
  then show "field_bits d = [] \<Longrightarrow> DataIdx (BF_Begin Size d) = DataLength Size"
    and "field_bits d = b # bs \<Longrightarrow>
      unat (DataIdx (BF_Begin Size d)) < length d \<and> iter_rest d (BF_Begin Size d) = bs \<and>
      iter_value (BF_Begin Size d) = of_nat b" by blast+
qed

lemma iterate_all:
  assumes size: "Size AND 0x3F = 0" "length d = unat (DataLength Size)" "unat Size = 64 * length d"
    and n: "length (field_bits d) + 1 \<le> n"
  shows "iter_collect n Size d (BF_Begin Size d) = Some (map of_nat (field_bits d))"
proof (cases "field_bits d")
  case Nil
  with n obtain m where "n = Suc m" by (cases n) auto
  with BF_Begin_rest(1) [OF size Nil] Nil show ?thesis by simp
next
  case (Cons b bs)
  note st = BF_Begin_rest(2) [OF size Cons]
  then have "length (iter_rest d (BF_Begin Size d)) + 2 \<le> n" using n Cons by simp
  with iter_collect_rest [OF size(1,2), of "BF_Begin Size d" n] st Cons show ?thesis by auto
qed

lemma set_field_bits: "set (field_bits d) = bf_bits d"
  by (auto simp: field_bits_def bf_bits_def)

lemma sorted_field_bits: "sorted (field_bits d) \<and> distinct (field_bits d)"
  by (simp add: field_bits_def sorted_wrt_filter)

section \<open>Lowest and highest bit of a field\<close>

lemma BF_Min_from_spec:
  "BF_Min_from i d =
     (case concat (map (\<lambda>k. map ((+) (64 * (i + k))) (wbits (d ! k))) [0..<length d]) of
        [] \<Rightarrow> -1 | b # _ \<Rightarrow> int b)"
proof (induction i d rule: BF_Min_from.induct)
  case (2 i w ws)
  have e: "[0..<length (w # ws)] = 0 # map Suc [0..<length ws]" by (simp add: upt_conv_Cons map_Suc_upt del: upt_Suc)
  show ?case
  proof (cases "w = 0")
    case True
    then show ?thesis using 2 unfolding e by (simp add: o_def wbits_def add.left_commute [of 64])
  next
    case False
    then show ?thesis unfolding e by (simp add: wbits_ctz [OF False] mult.commute)
  qed
qed simp

lemma BF_Min_spec: "BF_Min d = (case field_bits d of [] \<Rightarrow> -1 | b # _ \<Rightarrow> int b)"
proof -
  have "field_bits d = concat (map (\<lambda>k. map ((+) (64 * (0 + k))) (wbits (d ! k))) [0..<length d])"
    unfolding field_bits_def concat_entry_bits [symmetric] by (simp add: entry_bits_def [abs_def])
  then show ?thesis by (simp only: BF_Min_def BF_Min_from_spec)
qed

lemma msb_index_props:
  fixes w :: "'a::len word"
  assumes "w \<noteq> 0"
  shows "bit w (msb_index w)" "msb_index w < j \<Longrightarrow> \<not> bit w j"
proof -
  let ?P = "\<lambda>n. \<not> bit w n" and ?L = "LENGTH('a)"
  let ?t = "length (takeWhile ?P (rev [0..<?L]))"
  from assms obtain n where n: "bit w n" "n < ?L"
    by (metis bit_eq_iff bit_0_eq bit_imp_le_length bot_apply bot_bool_def)
  then have lt: "?t < length (rev [0..<?L])"
    by (metis (mono_tags, lifting) atLeastLessThan_iff le0 length_takeWhile_le le_neq_implies_less set_rev set_upt
        takeWhile_eq_all_conv takeWhile_eq_take take_all)
  have r: "rev [0..<?L] ! i = ?L - 1 - i" if "i < ?L" for i using that by (simp add: rev_nth)
  show "bit w (msb_index w)"
    using nth_length_takeWhile [OF lt] lt r by (simp add: msb_index_def)
  show "\<not> bit w j" if j: "msb_index w < j"
  proof (cases "j < ?L")
    case True
    define i where "i = ?L - 1 - j"
    have i: "i < ?t" "i < ?L" "j = ?L - 1 - i" using j True lt by (auto simp: i_def msb_index_def)
    have "takeWhile ?P (rev [0..<?L]) ! i \<in> set (takeWhile ?P (rev [0..<?L]))"
      using i(1) by (rule nth_mem)
    then have "?P (takeWhile ?P (rev [0..<?L]) ! i)" by (rule set_takeWhileD [THEN conjunct2])
    then show ?thesis using i r by (simp add: takeWhile_nth)
  next
    case False
    then show ?thesis by (meson bit_imp_le_length not_less)
  qed
qed

lemma BF_Max_from_spec:
  "(BF_Max_from (rev d) = -1 \<and> bf_bits d = {}) \<or>
   (\<exists>m. BF_Max_from (rev d) = int m \<and> m \<in> bf_bits d \<and> (\<forall>i \<in> bf_bits d. i \<le> m))"
proof (induction d rule: rev_induct)
  case Nil
  then show ?case by (simp add: bf_bits_def)
next
  case (snoc w d)
  have mem: "i \<in> bf_bits (d @ [w]) \<longleftrightarrow> i \<in> bf_bits d \<or> (64 * length d \<le> i \<and> bit w (i - 64 * length d))" for i
  proof (cases "i < 64 * length d")
    case True
    then show ?thesis by (auto simp: bf_bits_def nth_append less_mult_imp_div_less mult.commute)
  next
    case False
    then obtain j where j: "i = 64 * length d + j" using le_Suc_ex not_less by blast
    show ?thesis
    proof (cases "j < 64")
      case True
      then show ?thesis by (simp add: j bf_bits_def nth_append div_mult_self4)
    next
      case F: False
      then show ?thesis using bit_imp_le_length [of w j] by (auto simp: j bf_bits_def)
    qed
  qed
  show ?case
  proof (cases "w = 0")
    case True
    then have "bf_bits (d @ [w]) = bf_bits d" using mem by auto
    with snoc True show ?thesis by simp
  next
    case False
    note p = msb_index_props [OF False]
    have "length d * 64 + msb_index w \<in> bf_bits (d @ [w])" using p(1) mem by (simp add: mult.commute)
    moreover have "i \<le> length d * 64 + msb_index w" if "i \<in> bf_bits (d @ [w])" for i
    proof (rule ccontr)
      assume "\<not> i \<le> length d * 64 + msb_index w"
      then have "i \<notin> bf_bits d" "msb_index w < i - 64 * length d" by (auto simp: bf_bits_def)
      then show False using that p(2) [of "i - 64 * length d"] mem [of i] by auto
    qed
    ultimately show ?thesis using False
      by (intro disjI2 exI [of _ "length d * 64 + msb_index w"]) auto
  qed
qed

section \<open>Properties\<close>

text \<open>
  \<^verbatim>\<open>SetRange\<close> sets exactly the bits of its range and leaves the others, over any number of
  64-bit entries; the one excluded range is an aligned one of exactly 64 bits, where the
  code shifts by 64.
\<close>

theorem SetRange_sets_range:
  assumes "unat startBit + unat bitsCount + 63 < 2 ^ 32"
    and "unat startBit + unat bitsCount \<le> 64 * length d"
    and "0 < unat bitsCount" "\<not> (unat bitsCount = 64 \<and> unat startBit mod 64 = 0)"
  shows "\<exists>d'. SetRange d startBit bitsCount = Some d' \<and> length d' = length d \<and>
    bf_bits d' = bf_bits d \<union> {unat startBit..<unat startBit + unat bitsCount}"
  using SetRange_ok [OF assms] by metis

theorem SetRange_sets_range_witness:
  "\<exists>d'. SetRange [0, 0, 0] 60 70 = Some d' \<and> length d' = length [0, 0, 0 :: u64] \<and> bf_bits d' = bf_bits [0, 0, 0] \<union> {60..<130}"
  using SetRange_sets_range [of 60 70 "[0, 0, 0]"] by simp

text \<open>
  The range-based loop over a field whose size is a multiple of 64 visits every set bit
  once, in ascending order, and ends; \<open>n\<close> bounds the number of iterations.
\<close>

theorem BitField_iteration:
  assumes "Size AND 0x3F = 0" "length d = unat (DataLength Size)" "unat Size = 64 * length d"
    and "card (bf_bits d) + 1 \<le> n"
  shows "iter_collect n Size d (BF_Begin Size d) = Some (map of_nat (sorted_list_of_set (bf_bits d)))"
proof -
  have f: "field_bits d = sorted_list_of_set (bf_bits d)"
    using sorted_field_bits [of d] set_field_bits [of d]
    by (metis sorted_list_of_set.idem_if_sorted_distinct)
  then have "length (field_bits d) + 1 \<le> n" using assms(4) by (simp add: bf_bits_def)
  from iterate_all [OF assms(1-3) this] f show ?thesis by simp
qed

theorem BitField_iteration_witness:
  "iter_collect 4 128 [1, 6] (BF_Begin 128 [1, 6]) = Some (map of_nat (sorted_list_of_set (bf_bits [1, 6])))"
proof (rule BitField_iteration)
  have b: "bf_bits [1, 6] = set (field_bits [1, 6])" by (simp add: set_field_bits)
  have "field_bits [1, 6] = [0, 65, 66]" by code_simp
  then show "card (bf_bits [1, 6]) + 1 \<le> 4" unfolding b by simp
qed (simp_all add: DataLength_def)

text \<open>
  \<^verbatim>\<open>Min\<close> and \<^verbatim>\<open>Max\<close> return the lowest and the highest set bit, and -1 for an empty field.
\<close>

theorem BitField_Min_Max:
  "(if bf_bits d = {} then BF_Min d = -1 \<and> BF_Max d = -1
    else BF_Min d = int (Min (bf_bits d)) \<and> BF_Max d = int (Max (bf_bits d)))"
proof (cases "field_bits d")
  case Nil
  then have "bf_bits d = {}" by (simp flip: set_field_bits)
  with Nil BF_Max_from_spec [of d] show ?thesis by (auto simp: BF_Min_spec BF_Max_def)
next
  case (Cons b bs)
  have fin: "finite (bf_bits d)" by (simp add: bf_bits_def)
  have set: "bf_bits d = set (b # bs)" using Cons by (simp flip: set_field_bits)
  have "sorted (b # bs)" using sorted_field_bits [of d] Cons by simp
  then have "Min (bf_bits d) = b" unfolding set by (intro Min_eqI) auto
  moreover obtain m where m: "BF_Max_from (rev d) = int m" "m \<in> bf_bits d" "\<forall>i \<in> bf_bits d. i \<le> m"
    using BF_Max_from_spec [of d] set by auto
  then have "Max (bf_bits d) = m" using fin by (intro Max_eqI) auto
  ultimately show ?thesis using Cons m(1) set by (simp add: BF_Min_spec BF_Max_def)
qed

end
