(* ===== verification/Crc32.thy ===== *)
theory Crc32
  imports Mds_Prelude
begin

text \<open>
  The checksum of \<^verbatim>\<open>src/src/CRC32.cpp\<close>, which identifies the BIOS images: the table is
  built with the polynomial in its usual bit order and reflected, and the data loop
  consumes one byte per table look-up. The theory proves the table-driven loop equal to
  the reflected bit-serial definition of CRC-32.
\<close>

section \<open>Model\<close>

text \<open>\<^verbatim>\<open>_reflect\<close>: for \<open>i = 1\<close> up to \<open>ch\<close>, the lowest bit of \<open>refl\<close> goes to bit \<open>ch - i\<close>.\<close>

fun reflect_loop :: "nat \<Rightarrow> nat \<Rightarrow> nat \<Rightarrow> u32 \<Rightarrow> u32 \<Rightarrow> u32" where
  "reflect_loop 0 i ch r val = val"
| "reflect_loop (Suc n) i ch r val =
     reflect_loop n (Suc i) ch (drop_bit 1 r)
       (if r AND 1 \<noteq> 0 then val OR push_bit (ch - i) 1 else val)"

definition reflect :: "u32 \<Rightarrow> nat \<Rightarrow> u32" where
  "reflect r ch = reflect_loop ch 1 ch r 0"

definition polynomial :: u32 where
  "polynomial = 0x04C11DB7"

definition crc_shift :: "u32 \<Rightarrow> u32" where
  "crc_shift c = push_bit 1 c XOR (if c AND push_bit 31 1 \<noteq> 0 then polynomial else 0)"

definition Crc32Table :: "nat \<Rightarrow> u32" where
  "Crc32Table i = reflect ((crc_shift ^^ 8) (push_bit 24 (reflect (of_nat i) 8))) 32"

text \<open>One iteration of the data loop; a null \<^verbatim>\<open>data\<close> pointer acts like a block of zeros.\<close>

definition crc_byte :: "u32 \<Rightarrow> u8 \<Rightarrow> u32" where
  "crc_byte crc b = drop_bit 8 crc XOR Crc32Table (unat ((crc AND 0xFF) XOR ucast b))"

fun crc_null :: "nat \<Rightarrow> u32 \<Rightarrow> u32" where
  "crc_null 0 crc = crc"
| "crc_null (Suc len) crc = crc_null len (drop_bit 8 crc XOR Crc32Table (unat (crc AND 0xFF)))"

definition CRC32 :: "u8 list option \<Rightarrow> nat \<Rightarrow> u32 \<Rightarrow> u32" where
  "CRC32 data len start =
     (let crc = start XOR 0xFFFFFFFF
      in (case data of
            Some bytes \<Rightarrow> foldl crc_byte crc (take len bytes)
          | None \<Rightarrow> crc_null len crc) XOR 0xFFFFFFFF)"

section \<open>Reflection reverses the low bits\<close>

lemma bit_reflect_loop:
  "n + i = Suc ch \<Longrightarrow> 1 \<le> i \<Longrightarrow> ch \<le> 32 \<Longrightarrow>
   bit (reflect_loop n i ch r v) k \<longleftrightarrow>
     bit v k \<or> (k < n \<and> bit r (n - 1 - k))"
proof (induction n arbitrary: i r v)
  case (Suc n)
  have ch: "ch - i = n" using Suc.prems by simp
  have o: "r AND 1 \<noteq> 0 \<longleftrightarrow> bit r 0"
    by (metis and_exp_eq_0_iff_not_bit power_0)
  have ih: "bit (reflect_loop (Suc n) i ch r v) k \<longleftrightarrow>
      bit (if bit r 0 then v OR push_bit n 1 else v) k \<or> (k < n \<and> bit (drop_bit 1 r) (n - 1 - k))"
    unfolding reflect_loop.simps ch o using Suc.prems by (intro Suc.IH) simp_all
  have d: "bit (drop_bit 1 r) (n - 1 - k) \<longleftrightarrow> bit r (n - k)" if "k < n"
    using that by (simp add: bit_drop_bit_eq Suc_diff_Suc)
  have n: "bit (push_bit n (1::u32)) k \<longleftrightarrow> k = n"
    using Suc.prems by (auto simp: bit_exp_iff)
  have v: "bit (if bit r 0 then v OR push_bit n 1 else v) k \<longleftrightarrow> bit v k \<or> (k = n \<and> bit r 0)"
    using n by (auto simp only: bit_or_iff split: if_splits)
  show ?case unfolding ih v using d by (auto simp: less_Suc_eq)
qed simp

lemma bit_reflect: "ch \<le> 32 \<Longrightarrow> bit (reflect r ch) k \<longleftrightarrow> k < ch \<and> bit r (ch - 1 - k)"
  unfolding reflect_def by (subst bit_reflect_loop) auto

definition rpolynomial :: u32 where
  "rpolynomial = 0xEDB88320"

lemma reflect_polynomial: "reflect polynomial 32 = rpolynomial"
  by code_simp

section \<open>The reflected shift register\<close>

definition rshift :: "u32 \<Rightarrow> u32" where
  "rshift c = drop_bit 1 c XOR (if bit c 0 then rpolynomial else 0)"

lemma reflect_xor: "reflect (a XOR b) 32 = reflect a 32 XOR reflect b 32"
  by (rule bit_word_eqI) (auto simp: bit_reflect bit_xor_iff)

lemma reflect_zero: "reflect 0 32 = 0"
  by (rule bit_word_eqI) (simp add: bit_reflect)

lemma reflect_shift: "reflect (push_bit 1 c) 32 = drop_bit 1 (reflect c 32)"
proof (rule bit_word_eqI)
  fix n assume n: "n < LENGTH(32)"
  have "bit (reflect (push_bit 1 c) 32) n \<longleftrightarrow> 1 \<le> 31 - n \<and> bit c (31 - n - 1)"
    using n unfolding bit_reflect [OF order_refl] bit_push_bit_iff by auto
  then show "bit (reflect (push_bit 1 c) 32) n = bit (drop_bit 1 (reflect c 32)) n"
    using n by (auto simp: bit_drop_bit_eq bit_reflect)
qed

lemma reflect_crc_shift: "reflect (crc_shift c) 32 = rshift (reflect c 32)"
proof -
  have "c AND push_bit 31 1 \<noteq> 0 \<longleftrightarrow> bit c 31"
    by (metis and_exp_eq_0_iff_not_bit push_bit_eq_mult mult_1)
  moreover have "bit (reflect c 32) 0 \<longleftrightarrow> bit c 31" by (simp add: bit_reflect)
  ultimately show ?thesis
    unfolding crc_shift_def rshift_def reflect_xor reflect_shift
    by (simp only: reflect_polynomial reflect_zero split: if_split) simp
qed

lemma reflect_crc_shifts: "reflect ((crc_shift ^^ n) c) 32 = (rshift ^^ n) (reflect c 32)"
  by (induction n) (simp_all add: reflect_crc_shift)

lemma reflect_index:
  assumes "i < 256"
  shows "reflect (push_bit 24 (reflect (of_nat i) 8)) 32 = of_nat i"
proof (rule bit_word_eqI)
  fix k assume "k < LENGTH(32)"
  have hi: "\<not> bit (of_nat i :: u32) k" if "8 \<le> k"
  proof -
    have "i < 2 ^ k" using assms power_increasing [OF that, of "2::nat"] by simp
    then have "\<not> bit i k" by (simp add: bit_iff_odd)
    then show ?thesis by (simp add: bit_of_nat_iff)
  qed
  have "bit (reflect (push_bit 24 (reflect (of_nat i) 8)) 32) k \<longleftrightarrow> k < 8 \<and> bit (of_nat i :: u32) k"
    using \<open>k < LENGTH(32)\<close> unfolding bit_reflect [OF order_refl] bit_push_bit_iff
    by (cases "k < 8") (auto simp: bit_reflect)
  then show "bit (reflect (push_bit 24 (reflect (of_nat i) 8)) 32) k = bit (of_nat i :: u32) k"
    using hi by (auto simp: not_less)
qed

lemma Crc32Table_eq: "i < 256 \<Longrightarrow> Crc32Table i = (rshift ^^ 8) (of_nat i)"
  by (simp only: Crc32Table_def reflect_crc_shifts reflect_index)

section \<open>A byte at a time is eight bits at a time\<close>

lemma rshift_xor: "rshift (a XOR b) = rshift a XOR rshift b"
  by (rule bit_word_eqI) (auto simp: rshift_def bit_simps)

lemma rshifts_xor: "(rshift ^^ n) (a XOR b) = (rshift ^^ n) a XOR (rshift ^^ n) b"
  by (induction n) (simp_all add: rshift_xor)

lemma rshifts_high:
  "(\<And>k. k < n \<Longrightarrow> \<not> bit x k) \<Longrightarrow> (rshift ^^ n) x = drop_bit n x"
proof (induction n arbitrary: x)
  case (Suc n)
  have "rshift x = drop_bit 1 x" using Suc.prems [of 0] by (simp add: rshift_def)
  moreover have "(rshift ^^ n) (drop_bit 1 x) = drop_bit n (drop_bit 1 x)"
    using Suc.prems by (intro Suc.IH) (simp add: bit_drop_bit_eq)
  ultimately show ?case
    by (simp add: funpow_swap1)
qed simp

lemma crc_byte_eq: "crc_byte crc b = (rshift ^^ 8) (crc XOR ucast b)"
proof -
  let ?x = "crc XOR ucast b" and ?i = "(crc AND 0xFF) XOR ucast b"
  have m: "(0xFF :: u32) = mask 8" by (simp add: mask_eq_exp_minus_1)
  have lo: "?x AND 0xFF = ?i"
    unfolding m by (rule bit_word_eqI) (auto simp: bit_simps dest: bit_imp_le_length)
  have i: "unat ?i < 256"
    using unat_and_mask [of ?x 8] unfolding lo [unfolded m] m by simp
  have split: "?x = (?x AND NOT 0xFF) XOR ?i"
    unfolding lo [symmetric] by (rule bit_word_eqI) (auto simp: bit_simps)
  have "(rshift ^^ 8) (?x AND NOT 0xFF) = drop_bit 8 (?x AND NOT 0xFF)"
    unfolding m by (rule rshifts_high) (auto simp: bit_simps)
  also have "\<dots> = drop_bit 8 crc"
    unfolding m by (rule bit_word_eqI) (auto simp: bit_simps dest: bit_imp_le_length)
  finally have "(rshift ^^ 8) ?x = drop_bit 8 crc XOR (rshift ^^ 8) ?i"
    by (subst split) (simp only: rshifts_xor)
  then show ?thesis using Crc32Table_eq [OF i] by (simp add: crc_byte_def)
qed

text \<open>The bit-serial definition: bits of the data enter the register lowest bit first.\<close>

definition crc_bit :: "u32 \<Rightarrow> bool \<Rightarrow> u32" where
  "crc_bit c b = drop_bit 1 c XOR (if bit c 0 \<noteq> b then rpolynomial else 0)"

definition byte_bits :: "u8 \<Rightarrow> bool list" where
  "byte_bits b = map (bit b) [0..<8]"

lemma crc_bits_rshifts:
  "foldl crc_bit c (map (bit b) [0..<n]) XOR drop_bit n (ucast b) = (rshift ^^ n) (c XOR ucast (b :: u8))"
proof (induction n)
  case (Suc n)
  let ?x = "foldl crc_bit c (map (bit b) [0..<n])" and ?y = "drop_bit n (ucast b :: u32)"
  have y0: "bit ?y 0 \<longleftrightarrow> bit b n"
    by (auto simp: bit_drop_bit_eq bit_ucast_iff dest: bit_imp_le_length)
  have d: "drop_bit (Suc n) (ucast b :: u32) = drop_bit 1 ?y" by simp
  have "crc_bit ?x (bit b n) XOR drop_bit 1 ?y = rshift (?x XOR ?y)"
    using y0 unfolding crc_bit_def rshift_def by (intro bit_word_eqI) (auto simp: bit_simps)
  then show ?case unfolding d using Suc by simp
qed simp

lemma crc_byte_serial: "crc_byte crc b = foldl crc_bit crc (byte_bits b)"
proof -
  have "drop_bit 8 (ucast b :: u32) = 0"
    by (rule bit_word_eqI) (auto simp: bit_simps dest: bit_imp_le_length)
  then show ?thesis
    using crc_bits_rshifts [of crc b 8] by (simp add: crc_byte_eq byte_bits_def)
qed

lemma crc_bytes_serial: "foldl crc_byte crc bs = foldl crc_bit crc (concat (map byte_bits bs))"
  by (induction bs arbitrary: crc) (simp_all add: crc_byte_serial)

lemma crc_null_zeros: "crc_null n crc = foldl crc_byte crc (replicate n 0)"
  by (induction n arbitrary: crc) (simp_all add: crc_byte_def)

section \<open>Properties\<close>

text \<open>
  C38: the table-driven checksum is the reflected bit-serial CRC-32: the bits of the data,
  lowest bit of each byte first, are shifted through the register one at a time.
\<close>

theorem CRC32_bit_serial:
  "CRC32 (Some bytes) (length bytes) start =
     foldl crc_bit (start XOR 0xFFFFFFFF) (concat (map byte_bits bytes)) XOR 0xFFFFFFFF"
  by (simp add: CRC32_def crc_bytes_serial)

text \<open>
  Passing the checksum of a first block as the start value for a second gives the
  checksum of both blocks together, and a null data pointer gives the checksum of that many
  zero bytes.
\<close>

theorem CRC32_chain:
  "CRC32 (Some ys) (length ys) (CRC32 (Some xs) (length xs) start) =
     CRC32 (Some (xs @ ys)) (length xs + length ys) start \<and>
   CRC32 None n start = CRC32 (Some (replicate n 0)) n start"
  by (simp add: CRC32_def crc_null_zeros xor.assoc)

end
