(* ===== verification/Tiny_Vector.thy ===== *)
theory Tiny_Vector
  imports Mds_Prelude "HOL-Library.Multiset"
begin

text \<open>
  \<^verbatim>\<open>TinyVector<T>\<close> of \<^verbatim>\<open>src/src/TinyVector.h\<close>, the growable array in which the recompiler
  keeps the blocks of a page. \<^verbatim>\<open>Capacity\<close> and \<^verbatim>\<open>Length\<close> are 16-bit; a failed \<^verbatim>\<open>assert\<close> is
  the result \<open>None\<close>. The allocated block is a list of \<open>Capacity\<close> cells; cells that
  \<^verbatim>\<open>new T[n]\<close> leaves uninitialised come from the argument \<open>fresh\<close>.
\<close>

section \<open>Model\<close>

record 'a TinyVector =
  Data :: "'a list"
  Capacity :: u16
  Length :: u16

definition TV_empty :: "'a TinyVector" where
  "TV_empty = \<lparr>Data = [], Capacity = 0, Length = 0\<rparr>"

definition MakeCapacity :: "'a list \<Rightarrow> 'a TinyVector \<Rightarrow> u32 \<Rightarrow> 'a TinyVector option" where
  "MakeCapacity fresh v capacity =
     (if capacity \<le> 0xFFFF \<and> capacity > ucast (Capacity v)
      then Some (v\<lparr>Data := take (unat (Length v)) (Data v) @ drop (unat (Length v)) (take (unat capacity) fresh),
                   Capacity := ucast capacity\<rparr>)
      else None)"

definition TV_SetLength :: "'a list \<Rightarrow> 'a TinyVector \<Rightarrow> u16 \<Rightarrow> 'a TinyVector option" where
  "TV_SetLength fresh v len =
     map_option (\<lambda>v'. v'\<lparr>Length := len\<rparr>)
       (if Capacity v < len then MakeCapacity fresh v (ucast len) else Some v)"

definition TV_Clear :: "'a TinyVector \<Rightarrow> 'a TinyVector" where
  "TV_Clear v = v\<lparr>Length := 0\<rparr>"

text \<open>
  \<^verbatim>\<open>Length + 1\<close> and \<^verbatim>\<open>((Capacity + 4) * 3) / 2\<close> are computed in \<^verbatim>\<open>int\<close>, so they do not wrap at
  16 bits; the new capacity is converted to \<^verbatim>\<open>u32\<close>.
\<close>

definition TV_Add :: "'a list \<Rightarrow> 'a TinyVector \<Rightarrow> 'a \<Rightarrow> 'a TinyVector option" where
  "TV_Add fresh v element =
     (if unat (Length v) + 1 \<le> 0xFFFF
      then
        map_option (\<lambda>v'. v'\<lparr>Data := (Data v')[unat (Length v') := element], Length := Length v' + 1\<rparr>)
          (if unat (Length v) + 1 > unat (Capacity v)
           then MakeCapacity fresh v (of_nat ((unat (Capacity v) + 4) * 3 div 2))
           else Some v)
      else None)"

definition TV_Remove :: "'a TinyVector \<Rightarrow> int \<Rightarrow> 'a TinyVector option" where
  "TV_Remove v index =
     (if Length v > 0 \<and> 0 \<le> index \<and> index < int (unat (Length v))
      then
        let len = Length v - 1
        in Some (v\<lparr>Length := len, Data := (Data v)[nat index := Data v ! unat len]\<rparr>)
      else None)"

fun find_loop :: "'a \<Rightarrow> nat \<Rightarrow> 'a list \<Rightarrow> int" where
  "find_loop needle i [] = -1"
| "find_loop needle i (x # xs) = (if x = needle then int i else find_loop needle (Suc i) xs)"

definition TV_Find :: "'a TinyVector \<Rightarrow> 'a \<Rightarrow> int" where
  "TV_Find v needle = find_loop needle 0 (take (unat (Length v)) (Data v))"

definition TV_RemoveByValue :: "'a TinyVector \<Rightarrow> 'a \<Rightarrow> bool \<times> 'a TinyVector option" where
  "TV_RemoveByValue v needle =
     (let i = TV_Find v needle in if i = -1 then (False, Some v) else (True, TV_Remove v i))"

section \<open>Elements\<close>

definition tv_inv :: "'a TinyVector \<Rightarrow> bool" where
  "tv_inv v \<longleftrightarrow> length (Data v) = unat (Capacity v) \<and> Length v \<le> Capacity v"

definition tv_list :: "'a TinyVector \<Rightarrow> 'a list" where
  "tv_list v = take (unat (Length v)) (Data v)"

lemma tv_invD: "tv_inv v \<Longrightarrow> unat (Length v) \<le> length (Data v) \<and> length (Data v) = unat (Capacity v)"
  by (auto simp: tv_inv_def word_le_nat_alt)

lemma length_tv_list: "tv_inv v \<Longrightarrow> length (tv_list v) = unat (Length v)"
  by (auto simp: tv_list_def dest: tv_invD)

lemma MakeCapacity_list:
  assumes inv: "tv_inv v" and cap: "unat (Capacity v) < unat capacity" "unat capacity \<le> 0xFFFF"
    and fresh: "unat capacity \<le> length fresh"
  obtains v' where "MakeCapacity fresh v capacity = Some v'" "tv_inv v'" "tv_list v' = tv_list v"
    "Length v' = Length v" "unat (Capacity v') = unat capacity"
proof -
  have c: "unat (ucast (Capacity v) :: u32) = unat (Capacity v)"
    using unat_u16_less [of "Capacity v"] by (intro unat_ucast_small) simp
  have u: "unat (ucast capacity :: u16) = unat capacity"
    using cap by (intro unat_ucast_small) simp
  define v' where "v' = v\<lparr>Data := take (unat (Length v)) (Data v) @ drop (unat (Length v)) (take (unat capacity) fresh),
    Capacity := ucast capacity\<rparr>"
  have "MakeCapacity fresh v capacity = Some v'"
    using cap c by (simp add: MakeCapacity_def v'_def word_less_nat_alt word_le_nat_alt)
  moreover have "tv_inv v'" "tv_list v' = tv_list v"
    using tv_invD [OF inv] cap u fresh
    by (auto simp: tv_inv_def tv_list_def v'_def word_le_nat_alt min_def)
  ultimately show ?thesis using that [of v'] u by (simp add: v'_def)
qed

text \<open>Storing an element in a vector that has room for it.\<close>

lemma store_room:
  assumes inv: "tv_inv v" and room: "unat (Length v) < unat (Capacity v)"
    and v': "v' = v\<lparr>Data := (Data v)[unat (Length v) := e], Length := Length v + 1\<rparr>"
  shows "tv_inv v' \<and> tv_list v' = tv_list v @ [e]"
proof -
  have l: "unat (Length v + 1) = Suc (unat (Length v))"
    using room unat_Suc_small [of "Length v" "Capacity v"] by (simp add: word_less_nat_alt)
  show ?thesis
    using tv_invD [OF inv] room l
    by (simp add: v' tv_inv_def tv_list_def word_le_nat_alt take_Suc_conv_app_nth)
qed

lemma TV_Add_list:
  assumes inv: "tv_inv v" and room: "unat (Length v) < unat (Capacity v) \<or> unat (Capacity v) \<le> 43686"
    and fresh: "0xFFFF \<le> length fresh"
  obtains v' where "TV_Add fresh v e = Some v'" "tv_inv v'" "tv_list v' = tv_list v @ [e]"
proof (cases "unat (Length v) < unat (Capacity v)")
  case True
  have "unat (Capacity v) \<le> 0xFFFF" using unat_u16_less [of "Capacity v"] by simp
  with True have "TV_Add fresh v e = Some (v\<lparr>Data := (Data v)[unat (Length v) := e], Length := Length v + 1\<rparr>)"
    by (simp add: TV_Add_def)
  with store_room [OF inv True refl] that show ?thesis by metis
next
  case False
  let ?c = "of_nat ((unat (Capacity v) + 4) * 3 div 2) :: u32"
  have cap: "unat (Capacity v) \<le> 43686" "unat (Length v) \<le> 43686"
    using room False tv_invD [OF inv] by auto
  have c: "unat ?c = (unat (Capacity v) + 4) * 3 div 2"
    using cap by (intro unat_of_nat_u32) presburger
  have bounds: "unat (Capacity v) < unat ?c" "unat ?c \<le> 0xFFFF" "unat ?c \<le> length fresh"
    unfolding c using cap fresh by presburger+
  obtain v1 where v1: "MakeCapacity fresh v ?c = Some v1" "tv_inv v1" "tv_list v1 = tv_list v"
    "Length v1 = Length v" "unat (Capacity v1) = unat ?c"
    using MakeCapacity_list [OF inv bounds] by metis
  have "unat (Length v1) < unat (Capacity v1)"
    using v1(4,5) bounds False tv_invD [OF inv] by simp
  from store_room [OF v1(2) this refl, of e] v1 that False cap show ?thesis
    by (simp add: TV_Add_def)
qed

lemma TV_Remove_mset:
  assumes inv: "tv_inv v" and i: "0 \<le> index" "index < int (unat (Length v))"
  obtains v' where "TV_Remove v index = Some v'" "tv_inv v'"
    "mset (tv_list v') = mset (tv_list v) - {#tv_list v ! nat index#}"
    "length (tv_list v') = length (tv_list v) - 1"
proof -
  let ?n = "unat (Length v)" and ?i = "nat index"
  define v' where "v' = v\<lparr>Length := Length v - 1, Data := (Data v)[?i := Data v ! (?n - 1)]\<rparr>"
  have n: "0 < ?n" "?i < ?n" using i by linarith+
  have len: "unat (Length v - 1) = ?n - 1"
    using n unat_minus_small [of 1 "Length v"] by (simp add: word_le_nat_alt Suc_le_eq)
  have "TV_Remove v index = Some v'"
    using i n len by (simp add: TV_Remove_def v'_def Let_def word_less_nat_alt)
  moreover have inv': "tv_inv v'"
    using tv_invD [OF inv] len n by (auto simp: tv_inv_def v'_def word_le_nat_alt)
  moreover have split: "tv_list v = take (?n - 1) (Data v) @ [Data v ! (?n - 1)]"
    using n tv_invD [OF inv] unfolding tv_list_def
    by (metis Suc_pred' le_less_trans lessI less_le_trans take_Suc_conv_app_nth order_refl)
  have l: "tv_list v' = (take (?n - 1) (Data v))[?i := Data v ! (?n - 1)]"
    using len by (simp add: tv_list_def v'_def take_update_swap)
  have "mset (tv_list v') = mset (tv_list v) - {#tv_list v ! ?i#}"
  proof (cases "?i < ?n - 1")
    case True
    let ?t = "take (?n - 1) (Data v)" and ?x = "Data v ! (?n - 1)"
    have t: "?i < length ?t" using True tv_invD [OF inv] by auto
    have "mset (?t[?i := ?x]) = {#?x#} + (mset ?t - {#?t ! ?i#})"
      using t by (simp add: mset_update)
    also have "\<dots> = {#?x#} + mset ?t - {#?t ! ?i#}"
      using t nth_mem_mset [OF t] by (simp only: diff_union_single_conv)
    finally show ?thesis unfolding l split using t by (simp add: nth_append)
  next
    case False
    then have "?i = ?n - 1" using n by linarith
    then show ?thesis
      using tv_invD [OF inv] unfolding l split by (simp add: nth_append min_def list_update_beyond)
  qed
  moreover have "length (tv_list v') = length (tv_list v) - 1"
    using inv' inv len by (simp add: length_tv_list v'_def)
  ultimately show ?thesis using that by blast
qed

lemma find_loop_spec:
  "(find_loop x i xs = -1 \<and> x \<notin> set xs) \<or>
   (\<exists>k<length xs. find_loop x i xs = int (i + k) \<and> xs ! k = x \<and> x \<notin> set (take k xs))"
proof (induction x i xs rule: find_loop.induct)
  case (2 needle i x xs)
  show ?case
  proof (cases "x = needle")
    case True
    then show ?thesis by (intro disjI2 exI [of _ 0]) simp
  next
    case False
    from 2 [OF False] show ?thesis
    proof
      assume "\<exists>k<length xs. find_loop needle (Suc i) xs = int (Suc i + k) \<and> xs ! k = needle \<and> needle \<notin> set (take k xs)"
      then obtain k where "k < length xs" "find_loop needle (Suc i) xs = int (Suc i + k)" "xs ! k = needle"
        "needle \<notin> set (take k xs)" by blast
      with False show ?thesis by (intro disjI2 exI [of _ "Suc k"]) auto
    qed (use False in auto)
  qed
qed simp

lemma TV_RemoveByValue_mset:
  assumes inv: "tv_inv v"
  shows "x \<notin> set (tv_list v) \<Longrightarrow> TV_RemoveByValue v x = (False, Some v)"
    and "x \<in> set (tv_list v) \<Longrightarrow> \<exists>v'. TV_RemoveByValue v x = (True, Some v') \<and> tv_inv v' \<and>
      mset (tv_list v') = mset (tv_list v) - {#x#}"
proof -
  note f = find_loop_spec [of x 0 "tv_list v"]
  have F: "TV_Find v x = find_loop x 0 (tv_list v)" by (simp add: TV_Find_def tv_list_def)
  show "TV_RemoveByValue v x = (False, Some v)" if "x \<notin> set (tv_list v)"
    using f that F by (auto simp: TV_RemoveByValue_def)
  show "\<exists>v'. TV_RemoveByValue v x = (True, Some v') \<and> tv_inv v' \<and>
      mset (tv_list v') = mset (tv_list v) - {#x#}" if x: "x \<in> set (tv_list v)"
  proof -
    obtain k where k: "k < length (tv_list v)" "TV_Find v x = int k" "tv_list v ! k = x"
      using f x F by auto
    have "int k < int (unat (Length v))"
      using k(1) unfolding length_tv_list [OF inv] by (simp only: of_nat_less_iff)
    from TV_Remove_mset [OF inv _ this] k show ?thesis by (auto simp: TV_RemoveByValue_def)
  qed
qed

section \<open>Sequences of operations\<close>

datatype 'a tv_op = VAdd 'a | VRemove 'a

fun tv_step :: "'a list \<Rightarrow> 'a TinyVector \<Rightarrow> 'a tv_op \<Rightarrow> 'a TinyVector option" where
  "tv_step fresh v (VAdd x) = TV_Add fresh v x"
| "tv_step fresh v (VRemove x) = snd (TV_RemoveByValue v x)"

fun tv_run :: "'a list \<Rightarrow> 'a TinyVector \<Rightarrow> 'a tv_op list \<Rightarrow> 'a TinyVector option" where
  "tv_run fresh v [] = Some v"
| "tv_run fresh v (x # xs) = Option.bind (tv_step fresh v x) (\<lambda>v'. tv_run fresh v' xs)"

fun bag_step :: "'a multiset \<Rightarrow> 'a tv_op \<Rightarrow> 'a multiset" where
  "bag_step b (VAdd x) = add_mset x b"
| "bag_step b (VRemove x) = b - {#x#}"

lemma tv_step_bag:
  assumes inv: "tv_inv v" and len: "length (tv_list v) \<le> 43686" and fresh: "0xFFFF \<le> length fresh"
  shows "\<exists>v'. tv_step fresh v x = Some v' \<and> tv_inv v' \<and> mset (tv_list v') = bag_step (mset (tv_list v)) x"
proof (cases x)
  case (VAdd e)
  have "unat (Length v) < unat (Capacity v) \<or> unat (Capacity v) \<le> 43686"
    using len tv_invD [OF inv] by (auto simp: length_tv_list [OF inv])
  from TV_Add_list [OF inv this fresh] VAdd show ?thesis by (metis bag_step.simps(1) mset.simps(2) mset_append add_mset_add_single mset_single_iff_right tv_step.simps(1))
next
  case (VRemove e)
  show ?thesis
  proof (cases "e \<in> set (tv_list v)")
    case True
    with TV_RemoveByValue_mset(2) [OF inv] VRemove show ?thesis by fastforce
  next
    case False
    with TV_RemoveByValue_mset(1) [OF inv] VRemove inv show ?thesis by (simp add: diff_single_trivial)
  qed
qed

lemma tv_run_bag:
  "tv_inv v \<Longrightarrow> length (tv_list v) + length xs \<le> 43687 \<Longrightarrow> 0xFFFF \<le> length fresh \<Longrightarrow>
   \<exists>v'. tv_run fresh v xs = Some v' \<and> tv_inv v' \<and> mset (tv_list v') = foldl bag_step (mset (tv_list v)) xs"
proof (induction xs arbitrary: v)
  case (Cons x xs)
  obtain v1 where v1: "tv_step fresh v x = Some v1" "tv_inv v1" "mset (tv_list v1) = bag_step (mset (tv_list v)) x"
    using tv_step_bag [OF Cons.prems(1) _ Cons.prems(3), of x] Cons.prems(2) by auto
  have "size (bag_step (mset (tv_list v)) x) \<le> Suc (length (tv_list v))"
    by (cases x) (auto intro: le_SucI diff_size_le_size_Diff order.trans [OF size_mset_mono [OF diff_subset_eq_self]])
  then have "length (tv_list v1) \<le> Suc (length (tv_list v))" using v1(3) by (metis size_mset)
  with Cons.prems Cons.IH [OF v1(2)] v1 show ?case by simp
qed simp

section \<open>Properties\<close>

text \<open>
  C39: an empty vector under any sequence of at most 43687 additions and removals by value
  never fails an assertion and holds the multiset of elements that were added and not
  removed. The bound is the largest for which every growth step \<^verbatim>\<open>((Capacity + 4) * 3) / 2\<close>
  still fits the 16-bit capacity.
\<close>

theorem TinyVector_bag:
  assumes "length ops \<le> 43687" and "0xFFFF \<le> length fresh"
  shows "\<exists>v. tv_run fresh TV_empty ops = Some v \<and> mset (tv_list v) = foldl bag_step {#} ops"
proof -
  have "tv_inv (TV_empty :: 'a TinyVector)" "tv_list (TV_empty :: 'a TinyVector) = []"
    by (simp_all add: tv_inv_def tv_list_def TV_empty_def)
  with tv_run_bag [of TV_empty ops fresh] assms show ?thesis by auto
qed

theorem TinyVector_bag_witness:
  "\<exists>v. tv_run (replicate 0xFFFF 0) TV_empty [VAdd (7::nat), VAdd 8, VRemove 7] = Some v \<and>
     mset (tv_list v) = {#8#}"
  using TinyVector_bag [of "[VAdd (7::nat), VAdd 8, VRemove 7]" "replicate 0xFFFF 0"] by simp

end
