(* ===== verification/Nds_Calls.thy ===== *)
theory Nds_Calls
  imports Mds_Prelude
begin

text \<open>
  The calls a peripheral makes into the console object: raising an interrupt,
  scheduling an event, handing the date to the host, stopping a processor. A component
  records them, in order, in a list; the theory \<open>Nds_Core\<close> gives their effect on the console.
  The numbers are the enumerations of \<^verbatim>\<open>src/src/NDS.h\<close>.
\<close>

datatype nds_call =
    SetIRQ_call u32 u32
  | ClearIRQ_call u32 u32
  | ScheduleEvent_call u32 bool int u32 u32
  | CancelEvent_call u32
  | WriteDateTime_call int int int int int int
  | StopCPU_call u32 u32
  | ResumeCPU_call u32 u32
  | CheckDMAs_call u32 u32
  | StopDMAs_call u32 u32
  | GXFIFOStall_call
  | GXFIFOUnstall_call

definition Event_RTC :: u32 where "Event_RTC = 3"

definition IRQ_RTC :: u32 where "IRQ_RTC = 7"

end
