(* ===== verification/Rtc.thy ===== *)
theory Rtc
  imports Nds_Calls
begin

text \<open>
  The real-time clock chip, \<^verbatim>\<open>src/src/RTC.cpp\<close>: its registers, the calendar that counts
  BCD digits, the alarm and periodic interrupts, the 32768 Hz timer and the bit-serial
  command interface of the \<^verbatim>\<open>RTC\<close> I/O register. Calls into the console are appended to
  \<open>Calls\<close>; log messages have no effect and are left out. \<^verbatim>\<open>NDS.RCnt\<close> and
  \<^verbatim>\<open>NDS.ConsoleType\<close> are read from the environment record.
\<close>

section \<open>State\<close>

record StateData =
  StatusReg1 :: u8
  StatusReg2 :: u8
  DateTime :: "u8 list"
  Alarm1 :: "u8 list"
  Alarm2 :: "u8 list"
  ClockAdjust :: u8
  FreeReg :: u8
  IRQFlag :: u8
  MinuteCount :: u32
  FOUT1 :: u8
  FOUT2 :: u8
  AlarmDate1 :: "u8 list"
  AlarmDate2 :: "u8 list"

record rtc =
  IO :: u16
  Input :: u8
  InputBit :: u32
  InputPos :: u32
  Output :: "u8 list"
  OutputBit :: u32
  OutputPos :: u32
  CurCmd :: u8
  State :: StateData
  TimerError :: int
  ClockCount :: u32
  Calls :: "nds_call list"

record rtc_env =
  RCnt :: u16
  ConsoleType :: int

definition call :: "nds_call \<Rightarrow> rtc \<Rightarrow> rtc" where
  "call c r = r\<lparr>Calls := Calls r @ [c]\<rparr>"

definition upd_state :: "(StateData \<Rightarrow> StateData) \<Rightarrow> rtc \<Rightarrow> rtc" where
  "upd_state f r = r\<lparr>State := f (State r)\<rparr>"

definition set_dt :: "nat \<Rightarrow> u8 \<Rightarrow> StateData \<Rightarrow> StateData" where
  "set_dt i v s = s\<lparr>DateTime := (DateTime s)[i := v]\<rparr>"

section \<open>BCD arithmetic\<close>

definition BCD :: "u8 \<Rightarrow> u8" where
  "BCD v = (v mod 10) OR push_bit 4 (v div 10)"

definition FromBCD :: "u8 \<Rightarrow> u8" where
  "FromBCD v = (v AND 0xF) + drop_bit 4 v * 10"

definition BCDIncrement :: "u8 \<Rightarrow> u8" where
  "BCDIncrement v =
     (let v1 = v + 1;
          v2 = (if (v1 AND 0x0F) \<ge> 0x0A then v1 + 0x06 else v1)
      in if (v2 AND 0xF0) \<ge> 0xA0 then v2 + 0x60 else v2)"

definition BCDSanitize :: "u8 \<Rightarrow> u8 \<Rightarrow> u8 \<Rightarrow> u8" where
  "BCDSanitize v vmin vmax =
     (if v < vmin \<or> v > vmax then vmin
      else if (v AND 0x0F) \<ge> 0x0A then vmin
      else if (v AND 0xF0) \<ge> 0xA0 then vmin
      else v)"

section \<open>Interrupts\<close>

definition RTC_SetIRQ :: "rtc_env \<Rightarrow> u8 \<Rightarrow> rtc \<Rightarrow> rtc" where
  "RTC_SetIRQ e irq r =
     (let oldstat = IRQFlag (State r);
          r1 = upd_state (\<lambda>s. s\<lparr>IRQFlag := IRQFlag s OR irq, StatusReg1 := StatusReg1 s OR irq\<rparr>) r
      in if oldstat AND 0x30 = 0 \<and> IRQFlag (State r1) AND 0x30 \<noteq> 0
         then (if RCnt e AND 0xC100 = 0x8100 then call (SetIRQ_call 1 IRQ_RTC) r1 else r1)
         else r1)"

definition RTC_ClearIRQ :: "u8 \<Rightarrow> rtc \<Rightarrow> rtc" where
  "RTC_ClearIRQ irq r = upd_state (\<lambda>s. s\<lparr>IRQFlag := IRQFlag s AND NOT irq\<rparr>) r"

text \<open>The frequency mask of the steady interrupt, from the five low bits of \<^verbatim>\<open>Alarm1[2]\<close>.\<close>

definition freq_mask :: "u8 \<Rightarrow> u32" where
  "freq_mask a =
     (if bit a 0 then 0x4000 else 0) OR (if bit a 1 then 0x2000 else 0) OR
     (if bit a 2 then 0x1000 else 0) OR (if bit a 3 then 0x0800 else 0) OR
     (if bit a 4 then 0x0400 else 0)"

text \<open>The alarm condition: every enabled field of the alarm equals the current one.\<close>

definition alarm_cond :: "rtc_env \<Rightarrow> u8 list \<Rightarrow> u8 list \<Rightarrow> u8 list \<Rightarrow> bool" where
  "alarm_cond e dt alarm adate \<longleftrightarrow>
     (bit (alarm ! 0) 7 \<longrightarrow> alarm ! 0 AND 0x07 = dt ! 3) \<and>
     (bit (alarm ! 1) 7 \<longrightarrow> alarm ! 1 AND 0x7F = dt ! 4) \<and>
     (bit (alarm ! 2) 7 \<longrightarrow> alarm ! 2 AND 0x7F = dt ! 5) \<and>
     (ConsoleType e = 1 \<longrightarrow>
        (bit (adate ! 1) 6 \<longrightarrow> adate ! 0 = dt ! 0) \<and>
        (bit (adate ! 1) 7 \<longrightarrow> adate ! 1 AND 0x1F = dt ! 1) \<and>
        (bit (adate ! 2) 7 \<longrightarrow> adate ! 2 AND 0x3F = dt ! 2))"

text \<open>\<^verbatim>\<open>type\<close> is 0 for a minute carry, 1 for the periodic clock, 2 for a status register write.\<close>

definition ProcessIRQ_INT1 :: "rtc_env \<Rightarrow> nat \<Rightarrow> rtc \<Rightarrow> rtc" where
  "ProcessIRQ_INT1 e type r =
     (let s = State r; m = StatusReg2 s AND 0x0F
      in if m = 0 then (if type = 2 then RTC_ClearIRQ 0x10 r else r)
         else if m = 1 \<or> m = 5 then
           (if (type = 1 \<and> ClockCount r AND 0x3FF = 0) \<or> type = 2
            then
              let mask = freq_mask (Alarm1 s ! 2)
              in if mask \<noteq> 0 \<and> ClockCount r AND mask \<noteq> mask then RTC_SetIRQ e 0x10 r
                 else RTC_ClearIRQ 0x10 r
            else r)
         else if m = 2 \<or> m = 6 then
           (if type = 0 \<or> (type = 2 \<and> IRQFlag s AND 0x01 \<noteq> 0) then RTC_SetIRQ e 0x10 r else r)
         else if m = 3 then
           (if type = 0 \<or> (type = 2 \<and> IRQFlag s AND 0x01 \<noteq> 0) then RTC_SetIRQ e 0x10 r
            else if type = 1 \<and> DateTime s ! 6 = 0x30 \<and> ClockCount r AND 0x7FFF = 0 then RTC_ClearIRQ 0x10 r
            else r)
         else if m = 7 then
           (if type = 0 \<or> (type = 2 \<and> IRQFlag s AND 0x01 \<noteq> 0) then RTC_SetIRQ e 0x10 r
            else if type = 1 \<and> DateTime s ! 6 = 0x00 \<and> ClockCount r AND 0x7FFF = 256 then RTC_ClearIRQ 0x10 r
            else r)
         else if m = 4 then
           (if type = 0
            then (if alarm_cond e (DateTime s) (Alarm1 s) (AlarmDate1 s) then RTC_SetIRQ e 0x10 r
                  else RTC_ClearIRQ 0x10 r)
            else r)
         else (if type = 1 then RTC_ClearIRQ 0x10 (RTC_SetIRQ e 0x10 r) else r))"

definition ProcessIRQ_INT2 :: "rtc_env \<Rightarrow> nat \<Rightarrow> rtc \<Rightarrow> rtc" where
  "ProcessIRQ_INT2 e type r =
     (let s = State r
      in if StatusReg2 s AND 0x40 \<noteq> 0 then
           (if type = 0
            then (if alarm_cond e (DateTime s) (Alarm2 s) (AlarmDate2 s) then RTC_SetIRQ e 0x20 r
                  else RTC_ClearIRQ 0x20 r)
            else r)
         else (if type = 2 then RTC_ClearIRQ 0x20 r else r))"

definition ProcessIRQ :: "rtc_env \<Rightarrow> nat \<Rightarrow> rtc \<Rightarrow> rtc" where
  "ProcessIRQ e type r = ProcessIRQ_INT2 e type (ProcessIRQ_INT1 e type r)"

section \<open>Calendar\<close>

definition DaysInMonth :: "StateData \<Rightarrow> u8" where
  "DaysInMonth s =
     (let m = DateTime s ! 1
      in if m \<in> {0x01, 0x03, 0x05, 0x07, 0x08, 0x10, 0x12} then 0x31
         else if m \<in> {0x04, 0x06, 0x09, 0x11} then 0x30
         else if m = 0x02 then
           (let y = (uint (DateTime s ! 0) AND 0xF) + drop_bit 4 (uint (DateTime s ! 0)) * 10
            in if y AND 3 = 0 then 0x29 else 0x28)
         else 0)"

definition CountYear :: "StateData \<Rightarrow> StateData" where
  "CountYear s = set_dt 0 (BCDIncrement (DateTime s ! 0)) s"

definition CountMonth :: "StateData \<Rightarrow> StateData" where
  "CountMonth s =
     (let s1 = set_dt 1 (BCDIncrement (DateTime s ! 1)) s
      in if DateTime s1 ! 1 > 0x12 then CountYear (set_dt 1 1 s1) else s1)"

definition CheckEndOfMonth :: "StateData \<Rightarrow> StateData" where
  "CheckEndOfMonth s =
     (if DateTime s ! 2 > DaysInMonth s then CountMonth (set_dt 2 1 s) else s)"

definition CountDay :: "StateData \<Rightarrow> StateData" where
  "CountDay s =
     (let s1 = set_dt 3 (DateTime s ! 3 + 1) s;
          s2 = (if DateTime s1 ! 3 \<ge> 7 then set_dt 3 0 s1 else s1);
          s3 = set_dt 2 (BCDIncrement (DateTime s2 ! 2)) s2
      in CheckEndOfMonth s3)"

definition CountHour :: "StateData \<Rightarrow> StateData" where
  "CountHour s =
     (let hour = BCDIncrement (DateTime s ! 4 AND 0x3F);
          pm = DateTime s ! 4 AND 0x40
      in if StatusReg1 s AND 0x02 \<noteq> 0 then
           (let (hour', s') = (if hour \<ge> 0x24 then (0, CountDay s) else (hour, s));
                pm' = (if hour' \<ge> 0x12 then 0x40 else 0)
            in set_dt 4 (hour' OR pm') s')
         else
           (if hour \<ge> 0x12
            then set_dt 4 (0 OR (pm XOR 0x40)) (if pm \<noteq> 0 then CountDay s else s)
            else set_dt 4 (hour OR pm) s))"

definition CountMinute :: "rtc_env \<Rightarrow> rtc \<Rightarrow> rtc" where
  "CountMinute e r =
     (let r1 = upd_state (\<lambda>s. s\<lparr>MinuteCount := MinuteCount s + 1\<rparr>) r;
          r2 = upd_state (\<lambda>s. set_dt 5 (BCDIncrement (DateTime s ! 5)) s) r1;
          r3 = (if DateTime (State r2) ! 5 \<ge> 0x60
                then upd_state (\<lambda>s. CountHour (set_dt 5 0 s)) r2 else r2);
          r4 = upd_state (\<lambda>s. s\<lparr>IRQFlag := IRQFlag s OR 0x01\<rparr>) r3
      in ProcessIRQ e 0 r4)"

definition CountSecond :: "rtc_env \<Rightarrow> rtc \<Rightarrow> rtc" where
  "CountSecond e r =
     (let r1 = upd_state (\<lambda>s. set_dt 6 (BCDIncrement (DateTime s ! 6)) s) r
      in if DateTime (State r1) ! 6 \<ge> 0x60 then CountMinute e (upd_state (set_dt 6 0) r1) else r1)"

section \<open>Timer\<close>

text \<open>
  The delay in cycles of the 33513982 Hz system clock; the remainder of the division by
  32768 is carried to the next call. All values stay far below \<open>2 ^ 31\<close>.
\<close>

definition ScheduleTimer :: "bool \<Rightarrow> rtc \<Rightarrow> rtc" where
  "ScheduleTimer first r =
     (let err = (if first then 0 else TimerError r);
          sysclock = 33513982 + err;
          delay = sysclock div 32768
      in call (ScheduleEvent_call Event_RTC (\<not> first) delay 0 0)
           (r\<lparr>TimerError := sysclock mod 32768\<rparr>))"

definition ClockTimer :: "rtc_env \<Rightarrow> rtc \<Rightarrow> rtc" where
  "ClockTimer e r =
     (let r1 = r\<lparr>ClockCount := ClockCount r + 1\<rparr>;
          r2 = (if ClockCount r1 AND 0x7FFF = 0 then CountSecond e r1
                else if ClockCount r1 AND 0x7FFF = 4
                then upd_state (\<lambda>s. s\<lparr>IRQFlag := IRQFlag s AND NOT 0x01\<rparr>) r1
                else r1)
      in ScheduleTimer False (ProcessIRQ e 1 r2))"

section \<open>Reset and the host's date\<close>

definition ResetState :: "StateData \<Rightarrow> StateData" where
  "ResetState s =
     \<lparr>StatusReg1 = 0, StatusReg2 = 0, DateTime = [0, 1, 1, 0, 0, 0, 0],
      Alarm1 = [0, 0, 0], Alarm2 = [0, 0, 0], ClockAdjust = 0, FreeReg = 0, IRQFlag = 0,
      MinuteCount = 0, FOUT1 = 0, FOUT2 = 0, AlarmDate1 = [0, 0, 0], AlarmDate2 = [0, 0, 0]\<rparr>"

text \<open>The constructor resets the registers and marks the power-off bit; \<open>r\<close> is the raw memory.\<close>

definition RTC_new :: "rtc \<Rightarrow> rtc" where
  "RTC_new r = upd_state (\<lambda>s. (ResetState s)\<lparr>StatusReg1 := 0x80 OR 0x02\<rparr>) r"

definition RTC_Reset :: "rtc \<Rightarrow> rtc" where
  "RTC_Reset r =
     ScheduleTimer True
       (r\<lparr>Input := 0, InputBit := 0, InputPos := 0, Output := replicate 8 0, OutputPos := 0,
          CurCmd := 0, ClockCount := 0\<rparr>)"

definition GetDateTime :: "StateData \<Rightarrow> int \<times> int \<times> int \<times> int \<times> int \<times> int" where
  "GetDateTime s =
     (let dt = DateTime s;
          hour = uint (FromBCD (dt ! 4 AND 0x3F))
      in (uint (FromBCD (dt ! 0)) + 2000,
          uint (FromBCD (dt ! 1 AND 0x3F)),
          uint (FromBCD (dt ! 2 AND 0x3F)),
          (if StatusReg1 s AND 0x02 = 0 \<and> dt ! 4 AND 0x40 \<noteq> 0 then hour + 12 else hour),
          uint (FromBCD (dt ! 5 AND 0x7F)),
          uint (FromBCD (dt ! 6 AND 0x7F))))"

text \<open>C's remainder: the sign of the dividend.\<close>

definition crem :: "int \<Rightarrow> int \<Rightarrow> int" where
  "crem a b = sgn a * (\<bar>a\<bar> mod \<bar>b\<bar>)"

definition monthdays :: "int \<Rightarrow> int list" where
  "monthdays year = [0, 31, (if year AND 3 = 0 then 29 else 28), 31, 30, 31, 30, 31, 31, 30, 31, 30, 31]"

definition SetDateTime :: "int \<Rightarrow> int \<Rightarrow> int \<Rightarrow> int \<Rightarrow> int \<Rightarrow> int \<Rightarrow> StateData \<Rightarrow> StateData" where
  "SetDateTime year month day hour minute second s =
     (let year = crem year 100; year = (if year < 0 then 0 else year);
          md = monthdays year;
          month = (if month < 1 \<or> month > 12 then 1 else month);
          day = (if day < 1 \<or> day > md ! nat month then 1 else day);
          hour = (if hour < 0 \<or> hour > 23 then 0 else hour);
          minute = (if minute < 0 \<or> minute > 59 then 0 else minute);
          second = (if second < 0 \<or> second > 59 then 0 else second);
          numdays = year * 365 + (year + 3) div 4;
          numdays = numdays + sum_list (take (nat month - 1) (tl md));
          numdays = numdays + (day - 1);
          dayofweek = (6 + numdays) mod 7;
          pm = (if hour \<ge> 12 then 0x40 else 0);
          hour = (if StatusReg1 s AND 0x02 = 0 \<and> pm \<noteq> 0 then hour - 12 else hour)
      in s\<lparr>DateTime :=
             [BCD (of_int year), BCD (of_int month), BCD (of_int day), of_int dayofweek,
              BCD (of_int hour) OR pm, BCD (of_int minute), BCD (of_int second)],
           StatusReg1 := StatusReg1 s AND NOT 0x80\<rparr>)"

definition WriteDateTime :: "u32 \<Rightarrow> u8 \<Rightarrow> StateData \<Rightarrow> StateData" where
  "WriteDateTime num v s =
     (if num = 1 then set_dt 0 (BCDSanitize v 0x00 0x99) s
      else if num = 2 then set_dt 1 (BCDSanitize (v AND 0x1F) 0x01 0x12) s
      else if num = 3 then CheckEndOfMonth (set_dt 2 (BCDSanitize (v AND 0x3F) 0x01 0x31) s)
      else if num = 4 then set_dt 3 (BCDSanitize (v AND 0x07) 0x00 0x06) s
      else if num = 5 then
        (let hour = v AND 0x3F; pm = v AND 0x40
         in if StatusReg1 s AND 0x02 \<noteq> 0
            then (let hour = BCDSanitize hour 0x00 0x23
                  in set_dt 4 (hour OR (if hour \<ge> 0x12 then 0x40 else 0)) s)
            else set_dt 4 (BCDSanitize hour 0x00 0x11 OR pm) s)
      else if num = 6 then set_dt 5 (BCDSanitize (v AND 0x7F) 0x00 0x59) s
      else if num = 7 then set_dt 6 (BCDSanitize (v AND 0x7F) 0x00 0x59) s
      else s)"

text \<open>\<^verbatim>\<open>SetState\<close> copies the new state in, then passes each date byte through \<^verbatim>\<open>WriteDateTime\<close>.\<close>

definition SetState :: "StateData \<Rightarrow> rtc \<Rightarrow> rtc" where
  "SetState st r =
     r\<lparr>State := foldl (\<lambda>s i. WriteDateTime (of_nat (i + 1)) (DateTime s ! i) s) st [0..<7]\<rparr>"

definition SaveDateTime :: "rtc \<Rightarrow> rtc" where
  "SaveDateTime r =
     (let (y, m, d, h, i, s) = GetDateTime (State r) in call (WriteDateTime_call y m d h i s) r)"

section \<open>Commands\<close>

text \<open>\<^verbatim>\<open>memcpy(Output, src, n)\<close>.\<close>

definition put_output :: "u8 list \<Rightarrow> rtc \<Rightarrow> rtc" where
  "put_output bs r = r\<lparr>Output := bs @ drop (length bs) (Output r)\<rparr>"

definition CmdRead :: "rtc_env \<Rightarrow> rtc \<Rightarrow> rtc" where
  "CmdRead e r =
     (let s = State r; c = CurCmd r AND 0x70
      in if CurCmd r AND 0x0F = 0x06 then
           (if c = 0x00 then upd_state (\<lambda>s. s\<lparr>StatusReg1 := StatusReg1 s AND 0x0F\<rparr>) (put_output [StatusReg1 s] r)
            else if c = 0x40 then put_output [StatusReg2 s] r
            else if c = 0x20 then put_output (take 7 (DateTime s)) r
            else if c = 0x60 then put_output (take 3 (drop 4 (DateTime s))) r
            else if c = 0x10 then
              (if StatusReg2 s AND 0x04 \<noteq> 0 then put_output (take 3 (Alarm1 s)) r
               else put_output [Alarm1 s ! 2] r)
            else if c = 0x50 then put_output (take 3 (Alarm2 s)) r
            else if c = 0x30 then put_output [ClockAdjust s] r
            else put_output [FreeReg s] r)
         else if CurCmd r AND 0x0F = 0x0E then
           (if ConsoleType e \<noteq> 1 then r
            else if c = 0x00 then
              put_output [ucast (drop_bit 16 (MinuteCount s) AND 0xFF), ucast (drop_bit 8 (MinuteCount s) AND 0xFF),
                ucast (MinuteCount s AND 0xFF)] r
            else if c = 0x40 then put_output [FOUT1 s] r
            else if c = 0x20 then put_output [FOUT2 s] r
            else if c = 0x10 then put_output (take 3 (AlarmDate1 s)) r
            else if c = 0x50 then put_output (take 3 (AlarmDate2 s)) r
            else r)
         else r)"

text \<open>A write to status register 1: reset, then the conversion of the hour when the mode changes.\<close>

definition WriteStatus1 :: "u8 \<Rightarrow> StateData \<Rightarrow> StateData" where
  "WriteStatus1 v s0 =
     (let oldval = StatusReg1 s0;
          s1 = (if v AND 0x01 \<noteq> 0 then ResetState s0 else s0);
          s = s1\<lparr>StatusReg1 := (StatusReg1 s1 AND 0xF0) OR (v AND 0x0E)\<rparr>
      in if (StatusReg1 s XOR oldval) AND 0x02 \<noteq> 0 then
           (let hour = DateTime s ! 4 AND 0x3F; pm = DateTime s ! 4 AND 0x40
            in if StatusReg1 s AND 0x02 \<noteq> 0 then
                 (let hour =
                    (if pm \<noteq> 0
                     then (let h = hour + 0x12 in if (h AND 0x0F) \<ge> 0x0A then h + 0x06 else h)
                     else hour)
                  in set_dt 4 (BCDSanitize hour 0x00 0x23 OR pm) s)
               else
                 (let (hour, pm) =
                    (if hour \<ge> 0x12
                     then (let h = hour - 0x12 in (if (h AND 0x0F) \<ge> 0x0A then h - 0x06 else h, 0x40))
                     else (hour, 0))
                  in set_dt 4 (BCDSanitize hour 0x00 0x11 OR pm) s))
         else s)"

definition CmdWrite :: "rtc_env \<Rightarrow> u8 \<Rightarrow> rtc \<Rightarrow> rtc" where
  "CmdWrite e v r =
     (let c = CurCmd r AND 0x70; pos = InputPos r; i = unat (InputPos r - 1)
      in if CurCmd r AND 0x0F = 0x06 then
           (if c = 0x00 then (if pos = 1 then upd_state (WriteStatus1 v) r else r)
            else if c = 0x40 then
              (if pos = 1 then ProcessIRQ e 2 (upd_state (\<lambda>s. s\<lparr>StatusReg2 := v\<rparr>) r) else r)
            else if c = 0x20 then
              (let r1 = (if pos \<le> 7 then upd_state (WriteDateTime pos v) r else r)
               in if pos = 7 then SaveDateTime r1 else r1)
            else if c = 0x60 then
              (let r1 = (if pos \<le> 3 then upd_state (WriteDateTime (pos + 4) v) r else r)
               in if pos = 3 then SaveDateTime r1 else r1)
            else if c = 0x10 then
              (if StatusReg2 (State r) AND 0x04 \<noteq> 0
               then (if pos \<le> 3 then upd_state (\<lambda>s. s\<lparr>Alarm1 := (Alarm1 s)[i := v]\<rparr>) r else r)
               else (if pos = 1 then upd_state (\<lambda>s. s\<lparr>Alarm1 := (Alarm1 s)[2 := v]\<rparr>) r else r))
            else if c = 0x50 then
              (if pos \<le> 3 then upd_state (\<lambda>s. s\<lparr>Alarm2 := (Alarm2 s)[i := v]\<rparr>) r else r)
            else if c = 0x30 then (if pos = 1 then upd_state (\<lambda>s. s\<lparr>ClockAdjust := v\<rparr>) r else r)
            else (if pos = 1 then upd_state (\<lambda>s. s\<lparr>FreeReg := v\<rparr>) r else r))
         else if CurCmd r AND 0x0F = 0x0E then
           (if ConsoleType e \<noteq> 1 then r
            else if c = 0x40 then (if pos = 1 then upd_state (\<lambda>s. s\<lparr>FOUT1 := v\<rparr>) r else r)
            else if c = 0x20 then (if pos = 1 then upd_state (\<lambda>s. s\<lparr>FOUT2 := v\<rparr>) r else r)
            else if c = 0x10 then
              (if pos \<le> 3 then upd_state (\<lambda>s. s\<lparr>AlarmDate1 := (AlarmDate1 s)[i := v]\<rparr>) r else r)
            else if c = 0x50 then
              (if pos \<le> 3 then upd_state (\<lambda>s. s\<lparr>AlarmDate2 := (AlarmDate2 s)[i := v]\<rparr>) r else r)
            else r)
         else r)"

definition rev1 :: "u8 list" where
  "rev1 = [0x06, 0x86, 0x46, 0xC6, 0x26, 0xA6, 0x66, 0xE6, 0x16, 0x96, 0x56, 0xD6, 0x36, 0xB6, 0x76, 0xF6]"

definition rev2 :: "u8 list" where
  "rev2 = [0x0E, 0x8E, 0x4E, 0xCE, 0x2E, 0xAE, 0x6E, 0xEE, 0x1E, 0x9E, 0x5E, 0xDE, 0x3E, 0xBE, 0x7E, 0xFE]"

text \<open>The first byte of a transfer is the command; it may come in either bit order.\<close>

definition decode_cmd :: "rtc_env \<Rightarrow> u8 \<Rightarrow> u8" where
  "decode_cmd e v =
     (let c = (if v AND 0xF0 = 0x60 then rev1 ! unat (v AND 0xF) else v)
      in if ConsoleType e = 1 \<and> c AND 0xF0 = 0x70 \<and> c AND 0xFE \<noteq> 0x76 then rev2 ! unat (c AND 0xF)
         else c)"

definition ByteIn :: "rtc_env \<Rightarrow> u8 \<Rightarrow> rtc \<Rightarrow> rtc" where
  "ByteIn e v r =
     (if InputPos r = 0
      then
        (let r1 = r\<lparr>CurCmd := decode_cmd e v\<rparr>
         in if CurCmd r1 AND 0x80 \<noteq> 0 then CmdRead e r1 else r1)
      else CmdWrite e v r)"

definition RTC_Read :: "rtc \<Rightarrow> u16" where
  "RTC_Read r = IO r"

definition bit_in :: "rtc_env \<Rightarrow> bool \<Rightarrow> rtc \<Rightarrow> rtc" where
  "bit_in e b r =
     (let r1 = (if b then r\<lparr>Input := Input r OR push_bit (unat (InputBit r)) 1\<rparr> else r);
          r2 = r1\<lparr>InputBit := InputBit r1 + 1\<rparr>
      in if InputBit r2 \<ge> 8
         then
           (let r3 = ByteIn e (Input r2) (r2\<lparr>InputBit := 0\<rparr>)
            in r3\<lparr>Input := 0, InputPos := InputPos r3 + 1\<rparr>)
         else r2)"

definition bit_out :: "rtc \<Rightarrow> rtc" where
  "bit_out r =
     (let b = bit (Output r ! unat (OutputPos r)) (unat (OutputBit r));
          r1 = r\<lparr>IO := (if b then IO r OR 0x0001 else IO r AND 0xFFFE), OutputBit := OutputBit r + 1\<rparr>
      in if OutputBit r1 \<ge> 8
         then r1\<lparr>OutputBit := 0, OutputPos := (if OutputPos r1 < 7 then OutputPos r1 + 1 else OutputPos r1)\<rparr>
         else r1)"

definition RTC_Write :: "rtc_env \<Rightarrow> u16 \<Rightarrow> bool \<Rightarrow> rtc \<Rightarrow> rtc" where
  "RTC_Write e v0 byte r =
     (let v = (if byte then v0 OR (IO r AND 0xFF00) else v0);
          r1 =
            (if v AND 0x0004 \<noteq> 0 then
               (if IO r AND 0x0004 = 0
                then r\<lparr>Input := 0, InputBit := 0, InputPos := 0, Output := replicate 8 0,
                       OutputBit := 0, OutputPos := 0\<rparr>
                else if v AND 0x0002 = 0
                then (if v AND 0x0010 \<noteq> 0 then bit_in e (v AND 0x0001 \<noteq> 0) r else bit_out r)
                else r)
             else r)
      in r1\<lparr>IO := (if v AND 0x0010 \<noteq> 0 then v else (IO r1 AND 0x0001) OR (v AND 0xFFFE))\<rparr>)"

end
