(* ===== verification/Rtc_Bcd.thy ===== *)
theory Rtc_Bcd
  imports Rtc
begin

text \<open>
  Arithmetic facts on the BCD operations of \<^verbatim>\<open>src/src/RTC.cpp\<close>: on the BCD codes of the
  numbers below 100, \<^verbatim>\<open>BCDIncrement\<close> is the successor modulo 100, comparison of codes is
  comparison of numbers, and \<^verbatim>\<open>BCDSanitize\<close> returns the code of a number in its range.
\<close>

section \<open>Nibbles\<close>

lemma u8_nibbles:
  fixes v :: u8
  shows "unat (v AND 0xF) = unat v mod 16" and "unat (v AND 0xF0) = unat v div 16 * 16"
    and "unat (drop_bit 4 v) = unat v div 16"
proof -
  show "unat (v AND 0xF) = unat v mod 16"
    using unat_and_mask [of v 4] by (simp add: mask_eq_exp_minus_1)
  show d: "unat (drop_bit 4 v) = unat v div 16" by (simp add: unat_shr)
  have m: "(0xF0::u8) = NOT (mask 4)" by (simp add: mask_eq_exp_minus_1)
  have "v AND 0xF0 = push_bit 4 (drop_bit 4 v)"
    unfolding m by (rule bit_word_eqI) (auto simp: bit_simps)
  then have "v AND 0xF0 = drop_bit 4 v * 16" by (simp add: push_bit_eq_mult)
  moreover have "unat (drop_bit 4 v) * 16 < 256" unfolding d using unat_u8_less [of v] by linarith
  ultimately show "unat (v AND 0xF0) = unat v div 16 * 16" using d by (simp add: unat_word_ariths)
qed

lemma unat_of_nat_u8: "n < 256 \<Longrightarrow> unat (of_nat n :: u8) = n"
  by (simp add: unat_of_nat)

lemma low_bits: "unat x < 2 ^ n \<Longrightarrow> n \<le> k \<Longrightarrow> \<not> bit x k" for x :: "'a::len word"
  by (metis bit_take_bit_iff not_less take_bit_nat_eq_self unsigned_take_bit_eq word_unat_eq_iff)

section \<open>Codes of numbers below 100\<close>

definition bcd :: "nat \<Rightarrow> u8" where
  "bcd n = BCD (of_nat n)"

lemma unat_bcd:
  assumes "n < 100"
  shows "unat (bcd n) = n mod 10 + 16 * (n div 10)"
proof -
  let ?l = "of_nat n mod 10 :: u8" and ?h = "of_nat n div 10 :: u8"
  have n: "unat (of_nat n :: u8) = n" using assms by (simp add: unat_of_nat_u8)
  have lo: "unat ?l = n mod 10" using n by (simp add: unat_mod)
  have hi: "unat ?h = n div 10" using n by (simp add: unat_div)
  have "n div 10 * 16 < 256" using assms by linarith
  then have h16: "unat (push_bit 4 ?h) = 16 * (n div 10)"
    using hi by (simp add: unat_word_ariths push_bit_eq_mult)
  have "\<not> bit ?l k \<or> \<not> bit (push_bit 4 ?h) k" for k
    using low_bits [of ?l 4 k] lo unfolding bit_push_bit_iff by auto
  then have "?l OR push_bit 4 ?h = ?l + push_bit 4 ?h" by (rule disjunctive_add [symmetric])
  then show ?thesis using lo h16 assms by (simp add: bcd_def BCD_def unat_word_ariths)
qed

lemma unat_bcd': "n < 100 \<Longrightarrow> unat (bcd n) = n + 6 * (n div 10)"
  by (simp add: unat_bcd)

lemma bcd_less_iff:
  assumes "m < 100" "n < 100"
  shows "bcd m < bcd n \<longleftrightarrow> m < n"
proof (cases m n rule: linorder_cases)
  case less
  then have "m div 10 \<le> n div 10" by (intro div_le_mono) simp
  with less assms show ?thesis by (simp add: word_less_nat_alt unat_bcd')
next
  case greater
  then have "n div 10 \<le> m div 10" by (intro div_le_mono) simp
  with greater assms show ?thesis by (simp add: word_less_nat_alt unat_bcd')
qed simp

lemma bcd_le_iff: "m < 100 \<Longrightarrow> n < 100 \<Longrightarrow> bcd m \<le> bcd n \<longleftrightarrow> m \<le> n"
  using bcd_less_iff [of n m] by (simp add: not_less [symmetric])

lemma bcd_eq_iff: "m < 100 \<Longrightarrow> n < 100 \<Longrightarrow> bcd m = bcd n \<longleftrightarrow> m = n"
  using bcd_le_iff [of m n] bcd_le_iff [of n m] by auto

lemma unat_FromBCD: "unat (FromBCD v) = unat v mod 16 + unat v div 16 * 10"
proof -
  have "unat v div 16 \<le> 15" using unat_u8_less [of v] by linarith
  moreover have "unat v mod 16 \<le> 15" by simp
  ultimately have "unat v mod 16 + unat v div 16 * 10 < 256" by linarith
  moreover have "unat v div 16 * 10 < 256" using \<open>unat v div 16 \<le> 15\<close> by linarith
  ultimately show ?thesis
    by (simp add: FromBCD_def unat_word_ariths u8_nibbles)
qed

lemma FromBCD_bcd: "n < 100 \<Longrightarrow> unat (FromBCD (bcd n)) = n"
  by (simp add: unat_FromBCD unat_bcd)

lemma bcd_FromBCD:
  assumes "unat v mod 16 < 10" "unat v div 16 < 10"
  shows "v = bcd (unat (FromBCD v))" "unat (FromBCD v) < 100"
proof -
  have f: "unat (FromBCD v) = unat v mod 16 + unat v div 16 * 10" by (rule unat_FromBCD)
  show l: "unat (FromBCD v) < 100" unfolding f using assms by linarith
  have "unat (bcd (unat (FromBCD v))) = unat v mod 16 + 16 * (unat v div 16)"
    using unat_bcd [OF l] assms unfolding f by simp
  also have "\<dots> = unat v" by simp
  finally show "v = bcd (unat (FromBCD v))" by (simp add: word_unat_eq_iff)
qed

lemma BCDIncrement_bcd:
  assumes "n < 100"
  shows "BCDIncrement (bcd n) = bcd (Suc n mod 100)"
proof -
  let ?v = "bcd n" and ?l = "n mod 10" and ?h = "n div 10"
  have v: "unat ?v = ?l + 16 * ?h" by (rule unat_bcd [OF assms])
  have b: "?l < 10" "?h < 10" using assms by auto
  have v1: "unat (?v + 1) = Suc ?l + 16 * ?h"
    using v b by (simp add: unat_word_ariths)
  have c1: "(?v + 1) AND 0x0F \<ge> 0x0A \<longleftrightarrow> ?l = 9"
    using b by (auto simp: word_le_nat_alt u8_nibbles v1)
  define v2 where "v2 = (if (?v + 1) AND 0x0F \<ge> 0x0A then ?v + 1 + 0x06 else ?v + 1)"
  have v2: "unat v2 = (if ?l = 9 then 16 * Suc ?h else Suc ?l + 16 * ?h)"
    using b v v1 c1 by (simp add: v2_def unat_word_ariths)
  have c2: "v2 AND 0xF0 \<ge> 0xA0 \<longleftrightarrow> n = 99"
  proof (cases "?l = 9")
    case True
    have "n = 10 * ?h + ?l" by simp
    with True b have "9 \<le> ?h \<longleftrightarrow> n = 99" by linarith
    with True show ?thesis by (simp add: word_le_nat_alt u8_nibbles v2)
  next
    case False
    then have "(Suc ?l + 16 * ?h) div 16 = ?h" using b by simp
    moreover from False have "n \<noteq> 99" by auto
    ultimately show ?thesis using False b(2) by (simp add: word_le_nat_alt u8_nibbles v2)
  qed
  have r: "BCDIncrement ?v = (if n = 99 then v2 + 0x60 else v2)"
    using c2 by (simp add: BCDIncrement_def v2_def Let_def)
  have "unat (BCDIncrement ?v) = unat (bcd (Suc n mod 100))"
  proof (cases "n = 99")
    case True
    then show ?thesis using r v2 by (simp add: unat_word_ariths unat_bcd)
  next
    case False
    with assms have "Suc n < 100" by simp
    then have "unat (bcd (Suc n)) = Suc n mod 10 + 16 * (Suc n div 10)" by (rule unat_bcd)
    moreover have "Suc n mod 10 + 16 * (Suc n div 10) = (if ?l = 9 then 16 * Suc ?h else Suc ?l + 16 * ?h)"
      by (auto simp: mod_Suc div_Suc)
    ultimately show ?thesis using r v2 False \<open>Suc n < 100\<close> by simp
  qed
  then show ?thesis by (simp add: word_unat_eq_iff)
qed

lemma BCDSanitize_range:
  assumes "vmin = bcd lo" "vmax = bcd hi" "lo \<le> hi" "hi < 100"
  shows "\<exists>n. lo \<le> n \<and> n \<le> hi \<and> BCDSanitize v vmin vmax = bcd n"
proof (cases "v < vmin \<or> v > vmax \<or> (v AND 0x0F) \<ge> 0x0A \<or> (v AND 0xF0) \<ge> 0xA0")
  case True
  then have "BCDSanitize v vmin vmax = vmin" by (auto simp: BCDSanitize_def)
  with assms show ?thesis by auto
next
  case False
  then have r: "BCDSanitize v vmin vmax = v" by (auto simp: BCDSanitize_def)
  from False have "unat v mod 16 < 10" "unat v div 16 < 10"
    by (auto simp: word_le_nat_alt u8_nibbles)
  note n = bcd_FromBCD [OF this]
  let ?n = "unat (FromBCD v)"
  have "bcd lo \<le> bcd ?n" "bcd ?n \<le> bcd hi" using False assms(1,2) n(1) by auto
  then have "lo \<le> ?n \<and> ?n \<le> hi" using assms(3,4) n(2) by (simp add: bcd_le_iff)
  with r n(1) show ?thesis by auto
qed

text \<open>A code in range passes unchanged.\<close>

lemma BCDSanitize_bcd:
  assumes "lo \<le> n" "n \<le> hi" "hi < 100"
  shows "BCDSanitize (bcd n) (bcd lo) (bcd hi) = bcd n"
proof -
  have n: "n < 100" "lo < 100" using assms by auto
  have "\<not> bcd n < bcd lo" "\<not> bcd n > bcd hi"
    using assms n by (simp_all add: bcd_less_iff)
  moreover have "\<not> bcd n AND 0x0F \<ge> 0x0A" "\<not> bcd n AND 0xF0 \<ge> 0xA0"
    using n by (auto simp: word_le_nat_alt u8_nibbles unat_bcd)
  ultimately show ?thesis by (simp add: BCDSanitize_def)
qed

end
