(* ===== verification/Rtc_Count.thy ===== *)
theory Rtc_Count
  imports Rtc_Calendar
begin

text \<open>
  The counting operations of \<^verbatim>\<open>src/src/RTC.cpp\<close> compute the successor functions of
  \<open>Rtc_Calendar\<close> on the BCD registers, in the 24-hour and in the 12-hour mode, and the
  32768 Hz timer advances the date by one second every 32768 ticks without drift.
\<close>

section \<open>Registers of a date\<close>

definition h24 :: "StateData \<Rightarrow> bool" where
  "h24 s \<longleftrightarrow> StatusReg1 s AND 0x02 \<noteq> 0"

definition hourcode :: "bool \<Rightarrow> nat \<Rightarrow> u8" where
  "hourcode mode24 h = bcd (if mode24 then h else h mod 12) OR (if h \<ge> 12 then 0x40 else 0)"

definition encode :: "bool \<Rightarrow> caldate \<Rightarrow> u8 list" where
  "encode mode24 a =
     [bcd (Yr a), bcd (Mon a), bcd (Dom a), of_nat (Dow a), hourcode mode24 (Hr a), bcd (Mn a), bcd (Sc a)]"

definition holds_date :: "StateData \<Rightarrow> caldate \<Rightarrow> bool" where
  "holds_date s a \<longleftrightarrow> DateTime s = encode (h24 s) a"

lemma bcd_literals:
  "bcd 0 = 0" "bcd 1 = 1" "bcd (Suc 0) = 1" "bcd 2 = 2" "bcd 3 = 3" "bcd 4 = 4" "bcd 5 = 5" "bcd 6 = 6" "bcd 7 = 7"
  "bcd 8 = 8" "bcd 9 = 9" "bcd 10 = 0x10" "bcd 11 = 0x11" "bcd 12 = 0x12" "bcd 23 = 0x23" "bcd 24 = 0x24"
  "bcd 28 = 0x28" "bcd 29 = 0x29" "bcd 30 = 0x30" "bcd 31 = 0x31" "bcd 59 = 0x59" "bcd 60 = 0x60" "bcd 99 = 0x99"
  by (simp_all add: word_unat_eq_iff unat_bcd)

lemma bcd_Suc: "n < 99 \<Longrightarrow> BCDIncrement (bcd n) = bcd (Suc n)"
  by (simp add: BCDIncrement_bcd)

lemma bcd_gt_lit: "n < 100 \<Longrightarrow> bcd n > 0x12 \<longleftrightarrow> n > 12" and bcd_ge_lit:
  "n < 100 \<Longrightarrow> bcd n \<ge> 0x12 \<longleftrightarrow> n \<ge> 12" "n < 100 \<Longrightarrow> bcd n \<ge> 0x24 \<longleftrightarrow> n \<ge> 24"
  "n < 100 \<Longrightarrow> bcd n \<ge> 0x60 \<longleftrightarrow> n \<ge> 60"
  by (simp_all add: bcd_less_iff bcd_le_iff flip: bcd_literals)

lemma split_pm:
  fixes x p :: u8
  assumes "unat x < 64" "p = 0 \<or> p = 0x40"
  shows "(x OR p) AND 0x3F = x" "(x OR p) AND 0x40 = p"
proof -
  have m: "(0x3F::u8) = mask 6" "(0x40::u8) = push_bit 6 1" by (simp_all add: mask_eq_exp_minus_1)
  have hi: "bit x k \<Longrightarrow> k < 6" for k using assms(1) low_bits [of x 6 k] by fastforce
  have p: "p = 0 \<or> p = push_bit 6 1" using assms(2) by simp
  show "(x OR p) AND 0x3F = x"
    using p hi unfolding m by (intro bit_word_eqI) (auto simp: bit_simps simp del: push_bit_of_1)
  show "(x OR p) AND 0x40 = p"
    using p hi hi [of 6] unfolding m by (intro bit_word_eqI) (auto simp: bit_simps simp del: push_bit_of_1)
qed

lemma unat_bcd_less_64: "n < 40 \<Longrightarrow> unat (bcd n) < 64"
  using unat_bcd [of n] div_less_iff_less_mult [of 10 n 4] by simp

lemma hourcode_parts:
  assumes "h < 24"
  shows "hourcode b h AND 0x3F = bcd (if b then h else h mod 12)"
    "hourcode b h AND 0x40 = (if h \<ge> 12 then 0x40 else 0)"
  using split_pm [of "bcd (if b then h else h mod 12)" "if h \<ge> 12 then 0x40 else 0"] assms
    unat_bcd_less_64 [of "if b then h else h mod 12"]
  by (auto simp: hourcode_def split: if_splits)

section \<open>Days, months and years\<close>

lemma set_dt_simps [simp]:
  "DateTime (set_dt i v s) = (DateTime s)[i := v]" "StatusReg1 (set_dt i v s) = StatusReg1 s"
  by (simp_all add: set_dt_def)

lemma leap_code: "y < 100 \<Longrightarrow> ((uint (bcd y) AND 0xF) + drop_bit 4 (uint (bcd y)) * 10) AND 3 = 0 \<longleftrightarrow> y mod 4 = 0"
proof -
  assume y: "y < 100"
  have u: "uint (bcd y) = int (unat (bcd y))" by simp
  have m: "int n AND 0xF = int (n mod 16)" "int n AND 3 = int (n mod 4)" for n
    using take_bit_eq_mask [of 4 "int n"] take_bit_eq_mask [of 2 "int n"]
    by (simp_all add: mask_eq_exp_minus_1 take_bit_eq_mod zmod_int)
  have d: "drop_bit 4 (int n) = int (n div 16)" for n by (simp add: drop_bit_eq_div zdiv_int)
  have "(uint (bcd y) AND 0xF) + drop_bit 4 (uint (bcd y)) * 10 = int (unat (bcd y) mod 16 + unat (bcd y) div 16 * 10)"
    unfolding u m d by simp
  also have "\<dots> = int y" using y by (simp add: unat_bcd)
  finally show ?thesis by (simp add: m)
qed

lemma DaysInMonth_code:
  assumes "DateTime s ! 0 = bcd (Yr a)" "DateTime s ! 1 = bcd (Mon a)" "valid a"
  shows "DaysInMonth s = bcd (mlen (Yr a) (Mon a))"
proof -
  have y: "Yr a < 100" and m: "1 \<le> Mon a" "Mon a \<le> 12" using assms(3) by (auto simp: valid_def)
  note lc = leap_code [OF y, folded assms(1)]
  have "Mon a \<in> {1, 2, 3, 4, 5, 6, 7, 8, 9, 10, 11, 12}" using m by (rule month_cases)
  then show ?thesis
    using assms(2) lc
    by (elim insertE emptyE) (simp_all add: DaysInMonth_def mlen_def bcd_literals Let_def)
qed

text \<open>Counting a day: only the first four registers change.\<close>

lemma CountDay_date:
  assumes v: "valid a" and dt: "DateTime s = [bcd (Yr a), bcd (Mon a), bcd (Dom a), of_nat (Dow a), h, mi, se]"
  shows "DateTime (CountDay s) =
      [bcd (Yr (next_day a)), bcd (Mon (next_day a)), bcd (Dom (next_day a)), of_nat (Dow (next_day a)), h, mi, se]"
    and "StatusReg1 (CountDay s) = StatusReg1 s"
proof -
  note p = v [unfolded valid_def]
  have dow: "(if of_nat (Dow a) + 1 \<ge> (7::u8) then 0 else of_nat (Dow a) + 1) = of_nat (Suc (Dow a) mod 7)"
  proof -
    have "Dow a \<in> {0, 1, 2, 3, 4, 5, 6}" using p by auto
    then show ?thesis by (elim insertE emptyE) (simp_all add: word_le_nat_alt)
  qed
  have dom: "BCDIncrement (bcd (Dom a)) = bcd (Suc (Dom a))" using p by (intro bcd_Suc) auto
  define s3 where "s3 = set_dt 2 (bcd (Suc (Dom a))) (set_dt 3 (of_nat (Suc (Dow a) mod 7)) s)"
  have c: "DateTime (CountDay s) = DateTime (CheckEndOfMonth s3)"
    "StatusReg1 (CountDay s) = StatusReg1 (CheckEndOfMonth s3)"
    using dow dom dt
    by (auto simp: CountDay_def Let_def s3_def CheckEndOfMonth_def DaysInMonth_def CountMonth_def CountYear_def split: if_splits)
  have d3: "DateTime s3 = [bcd (Yr a), bcd (Mon a), bcd (Suc (Dom a)), of_nat (Suc (Dow a) mod 7), h, mi, se]"
    using dt by (simp add: s3_def)
  have days: "DaysInMonth s3 = bcd (mlen (Yr a) (Mon a))"
    using d3 v by (intro DaysInMonth_code) auto
  have gt: "DateTime s3 ! 2 > DaysInMonth s3 \<longleftrightarrow> Suc (Dom a) > mlen (Yr a) (Mon a)"
    unfolding days using p mlen_bounds(2) [of "Yr a" "Mon a"] d3 by (simp add: bcd_less_iff)
  have mon: "BCDIncrement (bcd (Mon a)) = bcd (Suc (Mon a))" "bcd (Suc (Mon a)) > 0x12 \<longleftrightarrow> Mon a = 12"
    using p bcd_gt_lit(1) [of "Suc (Mon a)"] by (auto intro: bcd_Suc)
  have yr: "BCDIncrement (bcd (Yr a)) = bcd (Suc (Yr a) mod 100)" using p by (intro BCDIncrement_bcd) auto
  show "DateTime (CountDay s) =
      [bcd (Yr (next_day a)), bcd (Mon (next_day a)), bcd (Dom (next_day a)), of_nat (Dow (next_day a)), h, mi, se]"
    unfolding c CheckEndOfMonth_def gt
    using d3 mon yr by (simp add: next_day_def next_month_def CountMonth_def CountYear_def Let_def bcd_literals)
  show "StatusReg1 (CountDay s) = StatusReg1 s"
    unfolding c by (simp add: s3_def CheckEndOfMonth_def CountMonth_def CountYear_def Let_def)
qed

section \<open>Hours, minutes and seconds\<close>

lemma next_day_time [simp]: "Hr (next_day a) = Hr a" "Mn (next_day a) = Mn a" "Sc (next_day a) = Sc a"
  by (simp_all add: next_day_def next_month_def Let_def)

lemma next_day_Hr: "next_day (a\<lparr>Hr := h\<rparr>) = (next_day a)\<lparr>Hr := h\<rparr>"
  by (simp add: next_day_def next_month_def Let_def)

lemma encode_upd:
  "encode b (a\<lparr>Hr := h\<rparr>) = (encode b a)[4 := hourcode b h]"
  "encode b (a\<lparr>Mn := i\<rparr>) = (encode b a)[5 := bcd i]"
  "encode b (a\<lparr>Sc := j\<rparr>) = (encode b a)[6 := bcd j]"
  by (simp_all add: encode_def)

lemma encode_nth:
  "encode b a ! 4 = hourcode b (Hr a)" "encode b a ! 5 = bcd (Mn a)" "encode b a ! 6 = bcd (Sc a)"
  by (simp_all add: encode_def)

lemma h24_set_dt [simp]: "h24 (set_dt i v s) = h24 s"
  by (simp add: h24_def)

lemma CountDay_holds:
  assumes "valid a" "holds_date s a"
  shows "holds_date (CountDay s) (next_day a)" "h24 (CountDay s) = h24 s"
proof -
  have d: "DateTime s = [bcd (Yr a), bcd (Mon a), bcd (Dom a), of_nat (Dow a), hourcode (h24 s) (Hr a), bcd (Mn a), bcd (Sc a)]"
    using assms(2) by (simp add: holds_date_def encode_def)
  note c = CountDay_date [OF assms(1) d]
  show h: "h24 (CountDay s) = h24 s" using c(2) by (simp add: h24_def)
  show "holds_date (CountDay s) (next_day a)"
    unfolding holds_date_def h using c(1) by (simp add: encode_def)
qed

lemma hour_12_cases:
  assumes "h < 24"
  shows "bcd (Suc (h mod 12)) \<ge> 0x12 \<longleftrightarrow> h = 11 \<or> h = 23" "BCDIncrement (bcd (h mod 12)) = bcd (Suc (h mod 12))"
proof -
  have "h mod 12 < 12" by simp
  then show "BCDIncrement (bcd (h mod 12)) = bcd (Suc (h mod 12))" by (intro bcd_Suc) linarith
  have "Suc (h mod 12) \<ge> 12 \<longleftrightarrow> h = 11 \<or> h = 23" using assms by presburger
  then show "bcd (Suc (h mod 12)) \<ge> 0x12 \<longleftrightarrow> h = 11 \<or> h = 23"
    using bcd_ge_lit(1) [of "Suc (h mod 12)"] \<open>h mod 12 < 12\<close> by simp
qed

lemma CountHour_holds:
  assumes v: "valid a" and s: "holds_date s a"
  shows "holds_date (CountHour s) (next_hour a)" and "h24 (CountHour s) = h24 s"
proof -
  have h: "Hr a < 24" using v by (auto simp: valid_def)
  have d4: "DateTime s ! 4 = hourcode (h24 s) (Hr a)" using s by (simp add: holds_date_def encode_nth)
  note hp = hourcode_parts [OF h, of "h24 s", folded d4]
  note cd = CountDay_holds [OF v s]
  have new: "holds_date (set_dt 4 (hourcode (h24 s') x) s') (b\<lparr>Hr := x\<rparr>)" if "holds_date s' b" for s' b x
    using that by (simp add: holds_date_def encode_upd)
  have "holds_date (CountHour s) (next_hour a) \<and> h24 (CountHour s) = h24 s"
  proof (cases "h24 s")
    case True
    have inc: "BCDIncrement (bcd (Hr a)) = bcd (Suc (Hr a))" using h by (intro bcd_Suc) simp
    have c: "CountHour s = (if Hr a = 23 then set_dt 4 (hourcode True 0) (CountDay s)
        else set_dt 4 (hourcode True (Suc (Hr a))) s)"
    proof -
      have g: "bcd (Suc (Hr a)) \<ge> 0x24 \<longleftrightarrow> Hr a = 23" "bcd (Suc (Hr a)) \<ge> 0x12 \<longleftrightarrow> 12 \<le> Suc (Hr a)"
        using h bcd_ge_lit(1,2) [of "Suc (Hr a)"] by auto
      have t: "StatusReg1 s AND 0x02 \<noteq> 0" using True by (simp add: h24_def)
      have inc': "BCDIncrement (DateTime s ! 4 AND 0x3F) = bcd (Suc (Hr a))" using hp(1) True inc by simp
      show ?thesis
        unfolding CountHour_def inc' Let_def if_P [OF t] g
        by (simp add: hourcode_def bcd_literals g(2))
    qed
    show ?thesis
      using new [OF cd(1), of 0] new [OF s, of "Suc (Hr a)"] True cd(2)
      by (simp add: c next_hour_def next_day_Hr)
  next
    case False
    note c12 = hour_12_cases [OF h]
    have c: "CountHour s = (if Hr a = 23 then set_dt 4 (hourcode False 0) (CountDay s)
        else set_dt 4 (hourcode False (Suc (Hr a))) s)"
    proof -
      have m: "Hr a \<noteq> 11 \<Longrightarrow> Hr a \<noteq> 23 \<Longrightarrow> Suc (Hr a) mod 12 = Suc (Hr a mod 12) \<and> (12 \<le> Suc (Hr a) \<longleftrightarrow> 12 \<le> Hr a)"
        using h by (cases "Hr a < 12") (auto simp: mod_if)
      consider "Hr a = 11" | "Hr a = 23" | "Hr a \<noteq> 11" "Hr a \<noteq> 23" by blast
      then show ?thesis
        using False h hp c12 m
        by cases (auto simp: CountHour_def h24_def hourcode_def Let_def bcd_literals)
    qed
    show ?thesis
      using new [OF cd(1), of 0] new [OF s, of "Suc (Hr a)"] False cd(2)
      by (simp add: c next_hour_def next_day_Hr)
  qed
  then show "holds_date (CountHour s) (next_hour a)" "h24 (CountHour s) = h24 s" by auto
qed

section \<open>Interrupts leave the date alone\<close>

text \<open>The cycles by which the calls so far have scheduled the clock event.\<close>

fun timer_delay :: "nds_call list \<Rightarrow> int" where
  "timer_delay [] = 0"
| "timer_delay (ScheduleEvent_call ev periodic delay f p # cs) = delay + timer_delay cs"
| "timer_delay (_ # cs) = timer_delay cs"

lemma timer_delay_append: "timer_delay (xs @ ys) = timer_delay xs + timer_delay ys"
  by (induction xs rule: timer_delay.induct) auto

definition same_clock :: "rtc \<Rightarrow> rtc \<Rightarrow> bool" where
  "same_clock r' r \<longleftrightarrow>
     DateTime (State r') = DateTime (State r) \<and> h24 (State r') = h24 (State r) \<and>
     ClockCount r' = ClockCount r \<and> TimerError r' = TimerError r \<and>
     timer_delay (Calls r') = timer_delay (Calls r)"

lemma h24_bit: "h24 s \<longleftrightarrow> bit (StatusReg1 s) 1"
proof -
  have "StatusReg1 s AND 2 ^ 1 = 0 \<longleftrightarrow> \<not> bit (StatusReg1 s) 1" by (rule and_exp_eq_0_iff_not_bit)
  then show ?thesis by (simp add: h24_def)
qed

lemma call_simps [simp]:
  "State (call c r) = State r" "ClockCount (call c r) = ClockCount r" "TimerError (call c r) = TimerError r"
  "Calls (call c r) = Calls r @ [c]"
  by (simp_all add: call_def)

lemma upd_state_simps [simp]:
  "State (upd_state f r) = f (State r)" "ClockCount (upd_state f r) = ClockCount r"
  "TimerError (upd_state f r) = TimerError r"
  "Calls (upd_state f r) = Calls r"
  by (simp_all add: upd_state_def)

lemma RTC_IRQ_same:
  "irq = 0x10 \<or> irq = 0x20 \<Longrightarrow> same_clock (RTC_SetIRQ e irq r) r" "same_clock (RTC_ClearIRQ irq r) r"
  by (auto simp: same_clock_def RTC_SetIRQ_def RTC_ClearIRQ_def Let_def h24_bit bit_simps timer_delay_append)

lemma same_clock_refl: "same_clock r r"
  by (simp add: same_clock_def)

lemma same_clock_trans: "same_clock r2 r1 \<Longrightarrow> same_clock r1 r \<Longrightarrow> same_clock r2 r"
  by (simp add: same_clock_def)

lemma same_clock_if: "same_clock a r \<Longrightarrow> same_clock b r \<Longrightarrow> same_clock (if c then a else b) r"
  by simp

lemma ProcessIRQ_same: "same_clock (ProcessIRQ e t r) r"
proof -
  note irq = RTC_IRQ_same(1) [OF disjI1 [OF refl]] RTC_IRQ_same(1) [OF disjI2 [OF refl]] RTC_IRQ_same(2) same_clock_refl
  have "same_clock (ProcessIRQ_INT1 e t r) r" for r
    unfolding ProcessIRQ_INT1_def Let_def
    by (rule same_clock_if irq | rule same_clock_trans [OF RTC_IRQ_same(2)])+
  moreover have "same_clock (ProcessIRQ_INT2 e t r) r" for r
    unfolding ProcessIRQ_INT2_def Let_def by (rule same_clock_if irq)+
  ultimately show ?thesis unfolding ProcessIRQ_def by (blast intro: same_clock_trans)
qed

lemma holds_same: "same_clock r' r \<Longrightarrow> holds_date (State r') a = holds_date (State r) a"
  by (simp add: same_clock_def holds_date_def)

lemma holds_date_cong: "DateTime s' = DateTime s \<Longrightarrow> StatusReg1 s' = StatusReg1 s \<Longrightarrow> holds_date s' a = holds_date s a"
  by (simp add: holds_date_def h24_def)

lemma holds_set:
  assumes "holds_date s a"
  shows "holds_date (set_dt 5 (bcd i) s) (a\<lparr>Mn := i\<rparr>)" "holds_date (set_dt 6 (bcd i) s) (a\<lparr>Sc := i\<rparr>)"
  using assms by (simp_all add: holds_date_def encode_upd)

lemma CountMinute_holds:
  assumes v: "valid a" and s: "holds_date (State r) a"
  shows "holds_date (State (CountMinute e r)) (next_minute a)" and "ClockCount (CountMinute e r) = ClockCount r"
proof -
  let ?i = "Suc (Mn a)"
  have m: "Mn a < 60" using v by (auto simp: valid_def)
  define s1 where "s1 = (State r)\<lparr>MinuteCount := MinuteCount (State r) + 1\<rparr>"
  have s1: "holds_date s1 a" using s by (simp add: holds_date_def h24_def s1_def)
  have inc: "BCDIncrement (DateTime s1 ! 5) = bcd ?i"
    using s1 m by (simp add: holds_date_def encode_nth bcd_Suc)
  have len: "length (DateTime s1) = 7" using s1 by (simp add: holds_date_def encode_def)
  have ge: "bcd ?i \<ge> 0x60 \<longleftrightarrow> Mn a = 59" using m bcd_ge_lit(3) [of ?i] by auto
  have vi: "valid (a\<lparr>Mn := 0\<rparr>)" using v by (simp add: valid_def)
  have z: "holds_date (set_dt 5 0 (set_dt 5 (bcd ?i) s1)) (a\<lparr>Mn := 0\<rparr>)"
    using holds_set(1) [OF holds_set(1) [OF s1], of 0 ?i] by (simp add: bcd_literals)
  define s3 where "s3 = (if Mn a = 59 then CountHour (set_dt 5 0 (set_dt 5 (bcd ?i) s1)) else set_dt 5 (bcd ?i) s1)"
  have s3: "holds_date s3 (next_minute a)"
    using CountHour_holds(1) [OF vi z] holds_set(1) [OF s1, of ?i] by (cases "Mn a = 59") (simp_all add: s3_def next_minute_def)
  let ?r4 = "upd_state (\<lambda>s. s\<lparr>IRQFlag := IRQFlag s OR 0x01\<rparr>) (upd_state (\<lambda>s. s3) r)"
  have c: "State (CountMinute e r) = State (ProcessIRQ e 0 ?r4)" "ClockCount (CountMinute e r) = ClockCount (ProcessIRQ e 0 ?r4)"
  proof -
    have "upd_state (\<lambda>s. s\<lparr>MinuteCount := MinuteCount s + 1\<rparr>) r = upd_state (\<lambda>s. s1) r"
      by (simp add: upd_state_def s1_def)
    then have "CountMinute e r = ProcessIRQ e 0 ?r4"
      using inc ge len by (simp add: CountMinute_def Let_def s3_def upd_state_def)
    then show "State (CountMinute e r) = State (ProcessIRQ e 0 ?r4)"
      "ClockCount (CountMinute e r) = ClockCount (ProcessIRQ e 0 ?r4)" by simp_all
  qed
  have "holds_date (State ?r4) (next_minute a)" using s3 by (simp add: holds_date_def h24_def)
  then show "holds_date (State (CountMinute e r)) (next_minute a)"
    unfolding c using holds_same [OF ProcessIRQ_same] by blast
  show "ClockCount (CountMinute e r) = ClockCount r"
    unfolding c using ProcessIRQ_same [of e 0 ?r4] by (simp add: same_clock_def)
qed

lemma CountSecond_holds:
  assumes v: "valid a" and s: "holds_date (State r) a"
  shows "holds_date (State (CountSecond e r)) (next_second a)" and "ClockCount (CountSecond e r) = ClockCount r"
proof -
  let ?i = "Suc (Sc a)" and ?s = "State r"
  have m: "Sc a < 60" using v by (auto simp: valid_def)
  have inc: "BCDIncrement (DateTime ?s ! 6) = bcd ?i" using s m by (simp add: holds_date_def encode_nth bcd_Suc)
  have len: "length (DateTime ?s) = 7" using s by (simp add: holds_date_def encode_def)
  have ge: "bcd ?i \<ge> 0x60 \<longleftrightarrow> Sc a = 59" using m bcd_ge_lit(3) [of ?i] by auto
  have v0: "valid (a\<lparr>Sc := 0\<rparr>)" using v by (simp add: valid_def)
  let ?r0 = "upd_state (set_dt 6 0) (upd_state (set_dt 6 (bcd ?i)) r)"
  have z: "holds_date (State ?r0) (a\<lparr>Sc := 0\<rparr>)"
    using holds_set(2) [OF holds_set(2) [OF s], of 0 ?i] by (simp add: bcd_literals)
  have c: "CountSecond e r = (if Sc a = 59 then CountMinute e ?r0 else upd_state (set_dt 6 (bcd ?i)) r)"
    using inc ge len by (simp add: CountSecond_def Let_def upd_state_def)
  show "holds_date (State (CountSecond e r)) (next_second a)"
    using CountMinute_holds(1) [OF v0 z] holds_set(2) [OF s, of ?i] by (cases "Sc a = 59") (simp_all add: c next_second_def)
  show "ClockCount (CountSecond e r) = ClockCount r"
    using CountMinute_holds(2) [OF v0 z] by (cases "Sc a = 59") (simp_all add: c)
qed

lemma proper_valid: "proper a \<Longrightarrow> valid a"
  by (simp add: proper_def)

section \<open>A second is a second\<close>

lemma day_number_cong:
  "day_number (a\<lparr>Hr := h\<rparr>) = day_number a" "day_number (a\<lparr>Mn := i\<rparr>) = day_number a"
  "day_number (a\<lparr>Sc := i\<rparr>) = day_number a"
  by (simp_all add: day_number_def)

lemma proper_time:
  "h < 24 \<Longrightarrow> proper a \<Longrightarrow> proper (a\<lparr>Hr := h\<rparr>)" "i < 60 \<Longrightarrow> proper a \<Longrightarrow> proper (a\<lparr>Mn := i\<rparr>)"
  "i < 60 \<Longrightarrow> proper a \<Longrightarrow> proper (a\<lparr>Sc := i\<rparr>)"
  by (simp_all add: proper_def valid_def)

text \<open>Advancing the fine digit of a mixed-radix number, with the carry taken modulo \<open>n\<close>.\<close>

lemma radix_step:
  fixes x y n k :: nat
  assumes "x < n" "y < k"
  shows "(if y = k - 1 then (Suc x mod n) * k else x * k + Suc y) = Suc (x * k + y) mod (n * k)"
proof (cases "y = k - 1")
  case True
  with assms have e: "Suc (x * k + y) = Suc x * k" by simp
  show ?thesis unfolding e using True by (simp add: mult_mod_left)
next
  case False
  with assms have "Suc y < k" by simp
  then have "x * k + Suc y < Suc x * k" by simp
  also have "\<dots> \<le> n * k" using assms by (intro mult_le_mono) auto
  finally show ?thesis using False by simp
qed

definition hour_number :: "caldate \<Rightarrow> nat" where
  "hour_number a = day_number a * 24 + Hr a"

definition minute_number :: "caldate \<Rightarrow> nat" where
  "minute_number a = hour_number a * 60 + Mn a"

lemma second_number_minute: "second_number a = minute_number a * 60 + Sc a"
  by (simp add: second_number_def minute_number_def hour_number_def)

lemma next_hour_number:
  assumes "proper a"
  shows "hour_number (next_hour a) = Suc (hour_number a) mod (century * 24)" "hour_number a < century * 24"
    "proper (next_hour a)"
proof -
  have h: "Hr a < 24" using assms by (simp add: proper_def valid_def)
  note d = day_number_next [OF assms]
  show "hour_number (next_hour a) = Suc (hour_number a) mod (century * 24)"
    using radix_step [OF d(2) h] d(1) by (simp add: hour_number_def next_hour_def next_day_Hr day_number_cong split: if_splits)
  show "hour_number a < century * 24" using d(2) h by (simp add: hour_number_def)
  show "proper (next_hour a)"
    using d(3) h assms by (auto simp: next_hour_def next_day_Hr intro!: proper_time)
qed

lemma hour_number_cong: "hour_number (a\<lparr>Mn := i\<rparr>) = hour_number a" "minute_number (a\<lparr>Sc := i\<rparr>) = minute_number a"
  by (simp_all add: hour_number_def minute_number_def day_number_cong)

lemma next_hour_Mn: "next_hour (a\<lparr>Mn := i\<rparr>) = (next_hour a)\<lparr>Mn := i\<rparr>" "Mn (next_hour a) = Mn a" "Sc (next_hour a) = Sc a"
  by (simp_all add: next_hour_def next_day_def next_month_def Let_def)

lemma next_minute_number:
  assumes "proper a"
  shows "minute_number (next_minute a) = Suc (minute_number a) mod (century * 24 * 60)"
    "minute_number a < century * 24 * 60" "proper (next_minute a)"
proof -
  have m: "Mn a < 60" using assms by (simp add: proper_def valid_def)
  note h = next_hour_number [OF assms]
  show "minute_number (next_minute a) = Suc (minute_number a) mod (century * 24 * 60)"
    using radix_step [OF h(2) m] h(1) by (simp add: minute_number_def next_minute_def next_hour_Mn hour_number_cong split: if_splits)
  show "minute_number a < century * 24 * 60" using h(2) m by (simp add: minute_number_def)
  show "proper (next_minute a)"
    using h(3) m assms by (auto simp: next_minute_def next_hour_Mn intro!: proper_time)
qed

lemma next_minute_Sc: "next_minute (a\<lparr>Sc := i\<rparr>) = (next_minute a)\<lparr>Sc := i\<rparr>" "Sc (next_minute a) = Sc a"
  by (simp_all add: next_minute_def next_hour_def next_day_def next_month_def Let_def)

lemma next_second_number:
  assumes "proper a"
  shows "second_number (next_second a) = Suc (second_number a) mod (century * 86400)" "proper (next_second a)"
proof -
  have s: "Sc a < 60" using assms by (simp add: proper_def valid_def)
  note m = next_minute_number [OF assms]
  show "second_number (next_second a) = Suc (second_number a) mod (century * 86400)"
    using radix_step [OF m(2) s] m(1)
    by (simp add: second_number_minute next_second_def next_minute_Sc hour_number_cong mult.commute [of century] split: if_splits)
  show "proper (next_second a)"
    using m(3) s assms by (auto simp: next_second_def next_minute_Sc intro!: proper_time)
qed

section \<open>The 32768 Hz timer\<close>

lemma ScheduleTimer_same:
  "State (ScheduleTimer f r) = State r" "ClockCount (ScheduleTimer f r) = ClockCount r"
  by (simp_all add: ScheduleTimer_def Let_def)

lemma unat_and_7FFF: "unat (x AND 0x7FFF) = unat x mod 32768" for x :: u32
  using unat_and_mask [of x 15] by (simp add: mask_eq_exp_minus_1)

definition subsecond :: "rtc \<Rightarrow> nat" where
  "subsecond r = unat (ClockCount r AND 0x7FFF)"

lemma subsecond_Suc: "unat ((c + 1) AND 0x7FFF) = Suc (unat (c AND 0x7FFF)) mod 32768" for c :: u32
proof -
  have "unat (c + 1) mod 32768 = Suc (unat c) mod 2 ^ 32 mod 32768" by (simp add: unat_word_ariths)
  also have "\<dots> = Suc (unat c) mod 32768" by (simp add: mod_mod_cancel)
  finally show ?thesis by (simp add: unat_and_7FFF mod_Suc_eq)
qed

text \<open>One tick: the date moves only when the sub-second count wraps.\<close>

lemma ClockTimer_holds:
  assumes v: "valid a" and s: "holds_date (State r) a"
  shows "subsecond (ClockTimer e r) = Suc (subsecond r) mod 32768"
    and "holds_date (State (ClockTimer e r)) (if Suc (subsecond r) = 32768 then next_second a else a)"
proof -
  define r1 where "r1 = r\<lparr>ClockCount := ClockCount r + 1\<rparr>"
  define r2 where "r2 = (if ClockCount r1 AND 0x7FFF = 0 then CountSecond e r1
                else if ClockCount r1 AND 0x7FFF = 4
                then upd_state (\<lambda>s. s\<lparr>IRQFlag := IRQFlag s AND NOT 0x01\<rparr>) r1 else r1)"
  have c: "ClockTimer e r = ScheduleTimer False (ProcessIRQ e 1 r2)"
    by (simp add: ClockTimer_def r1_def r2_def Let_def)
  have s1: "holds_date (State r1) a" using s by (simp add: r1_def)
  note cs = CountSecond_holds [OF v s1]
  have cc: "ClockCount r2 = ClockCount r + 1" using cs(2) by (simp add: r2_def r1_def)
  have z: "ClockCount r1 AND 0x7FFF = 0 \<longleftrightarrow> Suc (subsecond r) = 32768"
  proof -
    have "ClockCount r1 AND 0x7FFF = 0 \<longleftrightarrow> Suc (subsecond r) mod 32768 = 0"
      using subsecond_Suc [of "ClockCount r"] unfolding r1_def subsecond_def by (simp flip: unat_eq_zero)
    moreover have "subsecond r < 32768" unfolding subsecond_def unat_and_7FFF by simp
    ultimately show ?thesis by (auto simp: mod_Suc split: if_splits)
  qed
  have "holds_date (State r2) (if Suc (subsecond r) = 32768 then next_second a else a)"
    using cs(1) s1 z by (simp add: r2_def holds_date_def h24_def)
  then show "holds_date (State (ClockTimer e r)) (if Suc (subsecond r) = 32768 then next_second a else a)"
    unfolding c ScheduleTimer_same using holds_same [OF ProcessIRQ_same] by blast
  have "ClockCount (ClockTimer e r) = ClockCount r + 1"
    unfolding c ScheduleTimer_same using ProcessIRQ_same [of e 1 r2] cc by (simp add: same_clock_def)
  then show "subsecond (ClockTimer e r) = Suc (subsecond r) mod 32768"
    by (simp add: subsecond_def subsecond_Suc)
qed

lemma ClockTimer_ticks:
  assumes "proper a" "holds_date (State r) a"
  shows "proper ((next_second ^^ ((subsecond r + n) div 32768)) a) \<and>
    subsecond ((ClockTimer e ^^ n) r) = (subsecond r + n) mod 32768 \<and>
    holds_date (State ((ClockTimer e ^^ n) r)) ((next_second ^^ ((subsecond r + n) div 32768)) a)"
proof (induction n)
  case 0
  have "subsecond r < 32768" unfolding subsecond_def unat_and_7FFF by simp
  with assms show ?case by simp
next
  case (Suc n)
  let ?k = "(subsecond r + n) div 32768" and ?r = "(ClockTimer e ^^ n) r"
  have p: "proper ((next_second ^^ ?k) a)" and h: "holds_date (State ?r) ((next_second ^^ ?k) a)"
    and sub: "subsecond ?r = (subsecond r + n) mod 32768" using Suc by auto
  note t = ClockTimer_holds [OF proper_valid [OF p] h, of e]
  show ?case
  proof (cases "Suc ((subsecond r + n) mod 32768) = 32768")
    case True
    then have "Suc (subsecond r + n) div 32768 = Suc ?k" "Suc (subsecond r + n) mod 32768 = 0"
      by (simp_all add: div_Suc mod_Suc)
    with True t sub next_second_number(2) [OF p] show ?thesis by simp
  next
    case False
    then have "Suc (subsecond r + n) div 32768 = ?k" "Suc (subsecond r + n) mod 32768 = Suc ((subsecond r + n) mod 32768)"
      by (simp_all add: div_Suc mod_Suc)
    with False t sub p show ?thesis by (simp add: mod_Suc_eq)
  qed
qed

lemma next_seconds_number:
  "proper a \<Longrightarrow> proper ((next_second ^^ n) a) \<and>
   second_number ((next_second ^^ n) a) = (second_number a + n) mod (century * 86400)"
proof (induction n)
  case 0
  then have "Sc a < 60" by (simp add: proper_def valid_def)
  with next_minute_number(2) [OF 0] have "second_number a < century * 86400"
    by (simp add: second_number_minute)
  with 0 show ?case by simp
next
  case (Suc n)
  then show ?case by (simp add: next_second_number mod_Suc_eq)
qed

section \<open>No drift\<close>

lemma CountSecond_timer:
  "TimerError (CountSecond e r) = TimerError r" "timer_delay (Calls (CountSecond e r)) = timer_delay (Calls r)"
proof -
  have m: "TimerError (CountMinute e r) = TimerError r \<and> timer_delay (Calls (CountMinute e r)) = timer_delay (Calls r)" for r
    unfolding CountMinute_def Let_def using ProcessIRQ_same [of e 0] by (simp add: same_clock_def)
  show "TimerError (CountSecond e r) = TimerError r" "timer_delay (Calls (CountSecond e r)) = timer_delay (Calls r)"
    using m by (simp_all add: CountSecond_def Let_def)
qed

text \<open>What every schedule of the timer keeps: cycles scheduled so far and the carried remainder.\<close>

definition timer_total :: "rtc \<Rightarrow> int" where
  "timer_total r = 32768 * timer_delay (Calls r) + TimerError r"

lemma ScheduleTimer_total:
  "timer_total (ScheduleTimer first r) =
     33513982 + (if first then 32768 * timer_delay (Calls r) else timer_total r)"
  by (simp add: timer_total_def ScheduleTimer_def Let_def timer_delay_append)

lemma ScheduleTimer_error: "0 \<le> TimerError (ScheduleTimer first r) \<and> TimerError (ScheduleTimer first r) < 32768"
  by (simp add: ScheduleTimer_def Let_def)

lemma ClockTimer_total: "timer_total (ClockTimer e r) = 33513982 + timer_total r"
proof -
  define r2 where "r2 = (let r1 = r\<lparr>ClockCount := ClockCount r + 1\<rparr> in
      if ClockCount r1 AND 0x7FFF = 0 then CountSecond e r1
      else if ClockCount r1 AND 0x7FFF = 4
      then upd_state (\<lambda>s. s\<lparr>IRQFlag := IRQFlag s AND NOT 0x01\<rparr>) r1 else r1)"
  have c: "ClockTimer e r = ScheduleTimer False (ProcessIRQ e 1 r2)"
    by (simp add: ClockTimer_def r2_def Let_def)
  have "timer_total r2 = timer_total r"
    using CountSecond_timer [of e "r\<lparr>ClockCount := ClockCount r + 1\<rparr>"] by (simp add: r2_def timer_total_def Let_def)
  moreover have "timer_total (ProcessIRQ e 1 r2) = timer_total r2"
    using ProcessIRQ_same [of e 1 r2] by (simp add: timer_total_def same_clock_def)
  ultimately show ?thesis unfolding c by (simp add: ScheduleTimer_total)
qed

lemma ClockTimers_total: "timer_total ((ClockTimer e ^^ n) r) = int n * 33513982 + timer_total r"
  by (induction n) (simp_all add: ClockTimer_total algebra_simps)

section \<open>Properties\<close>

text \<open>
  C8: the clock keeps time. From any existing date, \<open>32768 * n\<close> ticks of the 32768 Hz timer
  leave a date that exists and lies exactly \<open>n\<close> seconds later, through minute, hour, day,
  month and leap-year carries, in both hour modes; after 31 December 2099 the count
  returns to 1 January 2000.
\<close>

theorem RTC_keeps_time:
  assumes "proper a" "holds_date (State r) a" "subsecond r = 0"
  shows "\<exists>b. proper b \<and> holds_date (State ((ClockTimer e ^^ (32768 * n)) r)) b \<and>
    second_number b = (second_number a + n) mod (century * 86400)"
  using ClockTimer_ticks [OF assms(1,2), of "32768 * n" e] next_seconds_number [OF assms(1), of n] assms(3)
  by auto

definition leap_eve :: caldate where
  "leap_eve = \<lparr>Yr = 24, Mon = 2, Dom = 28, Dow = 3, Hr = 23, Mn = 59, Sc = 59\<rparr>"

definition leap_eve_rtc :: rtc where
  "leap_eve_rtc =
     \<lparr>IO = 0, Input = 0, InputBit = 0, InputPos = 0, Output = replicate 8 0, OutputBit = 0, OutputPos = 0,
      CurCmd = 0, State = (ResetState undefined)\<lparr>DateTime := encode False leap_eve\<rparr>, TimerError = 0,
      ClockCount = 0, Calls = []\<rparr>"

theorem RTC_keeps_time_witness:
  "\<exists>b. proper b \<and> holds_date (State ((ClockTimer \<lparr>RCnt = 0, ConsoleType = 0\<rparr> ^^ (32768 * 2)) leap_eve_rtc)) b \<and>
    second_number b = (second_number leap_eve + 2) mod (century * 86400)"
  by (rule RTC_keeps_time)
    (simp_all add: leap_eve_rtc_def leap_eve_def proper_def valid_def mlen_def holds_date_def h24_def ResetState_def subsecond_def)

text \<open>
  The timer does not drift. After a reset and \<open>n\<close> ticks the delays requested from the
  scheduler add up to \<open>(n + 1) * 33513982 / 32768\<close> cycles rounded down: the remainder of
  each division is carried, never lost, and stays below one tick's unit.
\<close>

theorem RTC_no_drift:
  "timer_delay (Calls ((ClockTimer e ^^ n) (RTC_Reset (r\<lparr>Calls := []\<rparr>)))) = int (n + 1) * 33513982 div 32768"
proof -
  let ?r = "(ClockTimer e ^^ n) (RTC_Reset (r\<lparr>Calls := []\<rparr>))"
  have "timer_total ?r = int (n + 1) * 33513982"
    unfolding ClockTimers_total by (simp add: RTC_Reset_def ScheduleTimer_total algebra_simps)
  moreover have "0 \<le> TimerError ?r \<and> TimerError ?r < 32768"
    by (cases n) (simp_all add: RTC_Reset_def ClockTimer_def Let_def ScheduleTimer_error)
  ultimately show ?thesis unfolding timer_total_def by linarith
qed

end
