(* ===== verification/Rtc_State.thy ===== *)
theory Rtc_State
  imports Rtc_Count
begin

text \<open>
  The invariant of the clock registers of \<^verbatim>\<open>src/src/RTC.cpp\<close>: whatever the program writes
  through the serial interface, the date registers hold the code of a date whose fields
  are in range. Every operation keeps it; \<^verbatim>\<open>SetState\<close> and \<^verbatim>\<open>SetDateTime\<close> establish it from
  any input.
\<close>

section \<open>The invariant\<close>

definition wf_date :: "StateData \<Rightarrow> bool" where
  "wf_date s \<longleftrightarrow> (\<exists>a. valid a \<and> holds_date s a)"

lemma wf_dateI: "valid a \<Longrightarrow> holds_date s a \<Longrightarrow> wf_date s"
  by (auto simp: wf_date_def)

lemma wf_date_cong: "DateTime s' = DateTime s \<Longrightarrow> h24 s' = h24 s \<Longrightarrow> wf_date s' = wf_date s"
  by (simp add: wf_date_def holds_date_def)

lemma valid_next_month: "valid a \<Longrightarrow> valid (next_month a)"
  by (auto simp: valid_def next_month_def)

lemma valid_next_day: "valid a \<Longrightarrow> valid (next_day a)"
  using mlen_bounds(2) [of "Yr a" "Mon a"]
  by (auto simp: valid_def next_day_def next_month_def Let_def)

lemma valid_next_hour: "valid a \<Longrightarrow> valid (next_hour a)"
  using valid_next_day [of "a\<lparr>Hr := 0\<rparr>"] by (auto simp: next_hour_def valid_def)

lemma valid_next_minute: "valid a \<Longrightarrow> valid (next_minute a)"
  using valid_next_hour [of "a\<lparr>Mn := 0\<rparr>"] by (auto simp: next_minute_def valid_def)

lemma valid_next_second: "valid a \<Longrightarrow> valid (next_second a)"
  using valid_next_minute [of "a\<lparr>Sc := 0\<rparr>"] by (auto simp: next_second_def valid_def)

lemma ClockTimer_wf: "wf_date (State r) \<Longrightarrow> wf_date (State (ClockTimer e r))"
proof -
  assume "wf_date (State r)"
  then obtain a where a: "valid a" "holds_date (State r) a" by (auto simp: wf_date_def)
  from wf_dateI [OF _ ClockTimer_holds(2) [OF a]] a(1) valid_next_second [OF a(1)] show ?thesis by simp
qed

section \<open>Writing one register\<close>

lemma holds_upd:
  assumes "holds_date s a"
  shows "holds_date (set_dt 0 (bcd i) s) (a\<lparr>Yr := i\<rparr>)" "holds_date (set_dt (Suc 0) (bcd i) s) (a\<lparr>Mon := i\<rparr>)"
    "holds_date (set_dt 2 (bcd i) s) (a\<lparr>Dom := i\<rparr>)" "holds_date (set_dt 3 (of_nat i) s) (a\<lparr>Dow := i\<rparr>)"
    "holds_date (set_dt 4 (hourcode (h24 s) i) s) (a\<lparr>Hr := i\<rparr>)"
    "holds_date (set_dt 5 (bcd i) s) (a\<lparr>Mn := i\<rparr>)" "holds_date (set_dt 6 (bcd i) s) (a\<lparr>Sc := i\<rparr>)"
  using assms by (simp_all add: holds_date_def encode_def)

lemma sanitize_cases:
  "\<exists>n\<le>99. BCDSanitize v 0 0x99 = bcd n" "\<exists>n. 1 \<le> n \<and> n \<le> 12 \<and> BCDSanitize v 1 0x12 = bcd n"
  "\<exists>n. 1 \<le> n \<and> n \<le> 31 \<and> BCDSanitize v 1 0x31 = bcd n" "\<exists>n\<le>6. BCDSanitize v 0 6 = of_nat n"
  "\<exists>n\<le>23. BCDSanitize v 0 0x23 = bcd n" "\<exists>n\<le>11. BCDSanitize v 0 0x11 = bcd n"
  "\<exists>n\<le>59. BCDSanitize v 0 0x59 = bcd n"
proof -
  note r = BCDSanitize_range [of _ 0 _ _ v, unfolded bcd_literals(1)]
  show "\<exists>n\<le>99. BCDSanitize v 0 0x99 = bcd n" using r [of 0 "0x99" 99] by (auto simp: bcd_literals)
  show "\<exists>n\<le>23. BCDSanitize v 0 0x23 = bcd n" using r [of 0 "0x23" 23] by (auto simp: bcd_literals)
  show "\<exists>n\<le>11. BCDSanitize v 0 0x11 = bcd n" using r [of 0 "0x11" 11] by (auto simp: bcd_literals)
  show "\<exists>n\<le>59. BCDSanitize v 0 0x59 = bcd n" using r [of 0 "0x59" 59] by (auto simp: bcd_literals)
  show "\<exists>n. 1 \<le> n \<and> n \<le> 12 \<and> BCDSanitize v 1 0x12 = bcd n"
    using BCDSanitize_range [of 1 1 "0x12" 12 v] by (auto simp: bcd_literals)
  show "\<exists>n. 1 \<le> n \<and> n \<le> 31 \<and> BCDSanitize v 1 0x31 = bcd n"
    using BCDSanitize_range [of 1 1 "0x31" 31 v] by (auto simp: bcd_literals)
  show "\<exists>n\<le>6. BCDSanitize v 0 6 = of_nat n"
  proof -
    have "unat (BCDSanitize v 0 6) \<le> 6" by (auto simp: BCDSanitize_def word_less_nat_alt)
    then show ?thesis by (intro exI [of _ "unat (BCDSanitize v 0 6)"]) simp
  qed
qed

lemma CheckEndOfMonth_wf:
  assumes "valid a" "holds_date s a"
  shows "wf_date (CheckEndOfMonth s)"
proof -
  have d: "DateTime s = encode (h24 s) a" using assms(2) by (simp add: holds_date_def)
  have m: "Mon a < 99" "BCDIncrement (bcd (Yr a)) = bcd (Suc (Yr a) mod 100)"
    "bcd (Suc (Mon a)) > 0x12 \<longleftrightarrow> Mon a = 12" "BCDIncrement (bcd (Mon a)) = bcd (Suc (Mon a))"
    using assms(1) bcd_gt_lit(1) [of "Suc (Mon a)"] by (auto simp: valid_def intro: BCDIncrement_bcd bcd_Suc)
  have "holds_date (CountMonth (set_dt 2 1 s)) (next_month (a\<lparr>Dom := 1\<rparr>))"
    using d m by (simp add: holds_date_def encode_def CountMonth_def CountYear_def next_month_def Let_def bcd_literals h24_def)
  moreover have "valid (next_month (a\<lparr>Dom := 1\<rparr>))"
    using assms(1) by (intro valid_next_month) (simp add: valid_def)
  ultimately show ?thesis using assms by (auto simp: CheckEndOfMonth_def intro: wf_dateI)
qed

lemma hour_write:
  fixes v :: u8
  shows "\<exists>h<24. (let hour = BCDSanitize w 0x00 0x23 in hour OR (if hour \<ge> 0x12 then 0x40 else 0)) = hourcode True h"
    and "\<exists>h<24. BCDSanitize w 0x00 0x11 OR (v AND 0x40) = hourcode False h"
proof -
  obtain n where "n \<le> 23" "BCDSanitize w 0 0x23 = bcd n" using sanitize_cases(5) by blast
  then show "\<exists>h<24. (let hour = BCDSanitize w 0x00 0x23 in hour OR (if hour \<ge> 0x12 then 0x40 else 0)) = hourcode True h"
    using bcd_ge_lit(1) [of n] by (intro exI [of _ n]) (simp add: hourcode_def Let_def)
  obtain n where n: "n \<le> 11" "BCDSanitize w 0 0x11 = bcd n" using sanitize_cases(6) by blast
  have m: "(0x40::u8) = push_bit 6 1" by simp
  have "v AND 0x40 = (if bit v 6 then 0x40 else 0)"
    unfolding m by (rule bit_word_eqI) (auto simp: bit_simps simp del: push_bit_of_1)
  then have pm: "v AND 0x40 = 0 \<or> v AND 0x40 = 0x40" by simp
  have "(n + 12) mod 12 = n" "n mod 12 = n" using n(1) by auto
  with pm n show "\<exists>h<24. BCDSanitize w 0x00 0x11 OR (v AND 0x40) = hourcode False h"
    by (elim disjE) (intro exI [of _ n], simp add: hourcode_def, intro exI [of _ "n + 12"], simp add: hourcode_def)
qed

lemma WriteDateTime_wf:
  assumes "wf_date s"
  shows "wf_date (WriteDateTime num v s)"
proof -
  obtain a where a: "valid a" "holds_date s a" using assms by (auto simp: wf_date_def)
  note u = holds_upd [OF a(2)]
  consider "num = 1" | "num = 2" | "num = 3" | "num = 4" | "num = 5" | "num = 6" | "num = 7"
    | (other) "num \<notin> {1, 2, 3, 4, 5, 6, 7}" by auto
  then show ?thesis
  proof cases
    case 1
    obtain n where "n \<le> 99" "BCDSanitize v 0 0x99 = bcd n" using sanitize_cases(1) by blast
    with 1 a(1) show ?thesis using wf_dateI [OF _ u(1) [of n]] by (simp add: WriteDateTime_def valid_def)
  next
    case 2
    obtain n where "1 \<le> n" "n \<le> 12" "BCDSanitize (v AND 0x1F) 1 0x12 = bcd n" using sanitize_cases(2) by blast
    with 2 a(1) show ?thesis using wf_dateI [OF _ u(2) [of n]] by (simp add: WriteDateTime_def valid_def)
  next
    case 3
    obtain n where n: "1 \<le> n" "n \<le> 31" "BCDSanitize (v AND 0x3F) 1 0x31 = bcd n" using sanitize_cases(3) by blast
    then have "valid (a\<lparr>Dom := n\<rparr>)" using a(1) by (simp add: valid_def)
    from CheckEndOfMonth_wf [OF this u(3)] 3 n show ?thesis by (simp add: WriteDateTime_def)
  next
    case 4
    obtain n where "n \<le> 6" "BCDSanitize (v AND 7) 0 6 = of_nat n" using sanitize_cases(4) by blast
    with 4 a(1) show ?thesis using wf_dateI [OF _ u(4) [of n]] by (simp add: WriteDateTime_def valid_def)
  next
    case 5
    obtain h where h: "h < 24" "DateTime (WriteDateTime num v s) = (DateTime s)[4 := hourcode (h24 s) h]"
      using hour_write(1) [of "v AND 0x3F"] hour_write(2) [of "v AND 0x3F" v] 5
      by (cases "h24 s") (auto simp: WriteDateTime_def h24_def Let_def)
    have "StatusReg1 (WriteDateTime num v s) = StatusReg1 s" using 5 by (simp add: WriteDateTime_def Let_def)
    with h a have "holds_date (WriteDateTime num v s) (a\<lparr>Hr := h\<rparr>)"
      by (simp add: holds_date_def encode_upd h24_def)
    with h(1) a(1) show ?thesis by (intro wf_dateI) (auto simp: valid_def)
  next
    case 6
    obtain n where "n \<le> 59" "BCDSanitize (v AND 0x7F) 0 0x59 = bcd n" using sanitize_cases(7) by blast
    with 6 a(1) show ?thesis using wf_dateI [OF _ u(6) [of n]] by (simp add: WriteDateTime_def valid_def)
  next
    case 7
    obtain n where "n \<le> 59" "BCDSanitize (v AND 0x7F) 0 0x59 = bcd n" using sanitize_cases(7) by blast
    with 7 a(1) show ?thesis using wf_dateI [OF _ u(7) [of n]] by (simp add: WriteDateTime_def valid_def)
  next
    case other
    with assms show ?thesis by (simp add: WriteDateTime_def)
  qed
qed

section \<open>Loading a state\<close>

lemma CheckEndOfMonth_codes:
  assumes "y < 100" "1 \<le> m" "m \<le> 12" "1 \<le> d" "d \<le> 31"
    and "DateTime s = [bcd y, bcd m, bcd d, x3, x4, x5, x6]"
  shows "\<exists>y' m' d'. y' < 100 \<and> 1 \<le> m' \<and> m' \<le> 12 \<and> 1 \<le> d' \<and> d' \<le> 31 \<and>
    DateTime (CheckEndOfMonth s) = [bcd y', bcd m', bcd d', x3, x4, x5, x6] \<and>
    StatusReg1 (CheckEndOfMonth s) = StatusReg1 s"
proof -
  have i: "BCDIncrement (bcd y) = bcd (Suc y mod 100)" "BCDIncrement (bcd m) = bcd (Suc m)"
    "bcd (Suc m) > 0x12 \<longleftrightarrow> m = 12"
    using assms bcd_gt_lit(1) [of "Suc m"] by (auto intro: BCDIncrement_bcd bcd_Suc)
  consider "\<not> DateTime s ! 2 > DaysInMonth s" | "DateTime s ! 2 > DaysInMonth s" "m = 12"
    | "DateTime s ! 2 > DaysInMonth s" "m \<noteq> 12" by blast
  then show ?thesis
  proof cases
    case 1
    then show ?thesis using assms by (intro exI [of _ y] exI [of _ m] exI [of _ d]) (simp add: CheckEndOfMonth_def)
  next
    case 2
    then show ?thesis using assms i
      by (intro exI [of _ "Suc y mod 100"] exI [of _ 1] exI [of _ 1])
        (simp add: CheckEndOfMonth_def CountMonth_def CountYear_def Let_def bcd_literals)
  next
    case 3
    then show ?thesis using assms i
      by (intro exI [of _ y] exI [of _ "Suc m"] exI [of _ 1])
        (simp add: CheckEndOfMonth_def CountMonth_def CountYear_def Let_def bcd_literals)
  qed
qed

lemma SetState_wf:
  assumes "length (DateTime st) = 7"
  shows "wf_date (State (SetState st r))"
proof -
  obtain x0 x1 x2 x3 x4 x5 x6 where d: "DateTime st = [x0, x1, x2, x3, x4, x5, x6]"
    using assms by (auto simp: length_Suc_conv eval_nat_numeral)
  obtain y where y: "y \<le> 99" "BCDSanitize x0 0 0x99 = bcd y" using sanitize_cases(1) by blast
  obtain m where m: "1 \<le> m" "m \<le> 12" "BCDSanitize (x1 AND 0x1F) 1 0x12 = bcd m" using sanitize_cases(2) by blast
  obtain n where n: "1 \<le> n" "n \<le> 31" "BCDSanitize (x2 AND 0x3F) 1 0x31 = bcd n" using sanitize_cases(3) by blast
  obtain w where w: "w \<le> 6" "BCDSanitize (x3 AND 7) 0 6 = of_nat w" using sanitize_cases(4) by blast
  obtain i where i: "i \<le> 59" "BCDSanitize (x5 AND 0x7F) 0 0x59 = bcd i" using sanitize_cases(7) by blast
  obtain j where j: "j \<le> 59" "BCDSanitize (x6 AND 0x7F) 0 0x59 = bcd j" using sanitize_cases(7) by blast
  let ?s = "set_dt 2 (bcd n) (set_dt 1 (bcd m) (set_dt 0 (bcd y) st))"
  obtain y' m' d' where c: "y' < 100" "1 \<le> m'" "m' \<le> 12" "1 \<le> d'" "d' \<le> 31"
    "DateTime (CheckEndOfMonth ?s) = [bcd y', bcd m', bcd d', x3, x4, x5, x6]"
    "StatusReg1 (CheckEndOfMonth ?s) = StatusReg1 st"
    using CheckEndOfMonth_codes [of y m n ?s x3 x4 x5 x6] y m n d by auto
  let ?s4 = "set_dt 3 (of_nat w) (CheckEndOfMonth ?s)"
  have h4: "h24 ?s4 = h24 st" using c(7) by (simp add: h24_def)
  obtain h where h: "h < 24" "DateTime (WriteDateTime 5 x4 ?s4) = (DateTime ?s4)[4 := hourcode (h24 st) h]"
    "StatusReg1 (WriteDateTime 5 x4 ?s4) = StatusReg1 st"
    using hour_write(1) [of "x4 AND 0x3F"] hour_write(2) [of "x4 AND 0x3F" x4] h4 c(7)
    by (cases "h24 st") (auto simp: WriteDateTime_def h24_def Let_def)
  have f: "foldl (\<lambda>s i. WriteDateTime (of_nat (i + 1)) (DateTime s ! i) s) st [0..<7] =
      set_dt 6 (bcd j) (set_dt 5 (bcd i) (WriteDateTime 5 x4 ?s4))"
  proof -
    have u: "[0..<7] = [0, 1, 2, 3, 4, 5, 6 :: nat]" by (simp add: upt_conv_Cons)
    have s1: "WriteDateTime 1 x0 st = set_dt 0 (bcd y) st" using y by (simp add: WriteDateTime_def)
    have s2: "WriteDateTime 2 x1 s = set_dt 1 (bcd m) s" for s using m by (simp add: WriteDateTime_def)
    have s3: "WriteDateTime 3 x2 s = CheckEndOfMonth (set_dt 2 (bcd n) s)" for s using n by (simp add: WriteDateTime_def)
    have s4: "WriteDateTime 4 x3 s = set_dt 3 (of_nat w) s" for s using w by (simp add: WriteDateTime_def)
    have s6: "WriteDateTime 6 x5 s = set_dt 5 (bcd i) s" for s using i by (simp add: WriteDateTime_def)
    have s7: "WriteDateTime 7 x6 s = set_dt 6 (bcd j) s" for s using j by (simp add: WriteDateTime_def)
    show ?thesis unfolding u using d c(6) h(2) s1 s2 s3 s4 s6 s7 by simp
  qed
  let ?a = "\<lparr>Yr = y', Mon = m', Dom = d', Dow = w, Hr = h, Mn = i, Sc = j\<rparr>"
  have "holds_date (State (SetState st r)) ?a"
    unfolding SetState_def f using h c(6) by (simp add: holds_date_def encode_def h24_def)
  moreover have "valid ?a" using c h w i j by (simp add: valid_def)
  ultimately show ?thesis by (rule wf_dateI [rotated])
qed

section \<open>Status register 1\<close>

text \<open>The conversion between the hour modes, for the 24 hours.\<close>

lemma hour_convert:
  assumes "h < 24"
  shows "BCDSanitize (if 12 \<le> h then (let x = bcd (h mod 12) + 0x12 in if (x AND 0x0F) \<ge> 0x0A then x + 0x06 else x)
           else bcd (h mod 12)) 0 0x23 = bcd h"
    and "h \<ge> 12 \<Longrightarrow> BCDSanitize (let x = bcd h - 0x12 in if (x AND 0x0F) \<ge> 0x0A then x - 0x06 else x) 0 0x11 = bcd (h mod 12)"
    and "h < 12 \<Longrightarrow> BCDSanitize (bcd h) 0 0x11 = bcd (h mod 12)"
proof -
  have c: "h \<in> {0, 1, 2, 3, 4, 5, 6, 7, 8, 9, 10, 11, 12, 13, 14, 15, 16, 17, 18, 19, 20, 21, 22, 23}"
    using assms unfolding insert_iff empty_iff by arith
  have u8: "\<not> (10::u8) \<le> 1" by (simp add: word_le_nat_alt)
  show "BCDSanitize (if 12 \<le> h then (let x = bcd (h mod 12) + 0x12 in if (x AND 0x0F) \<ge> 0x0A then x + 0x06 else x)
           else bcd (h mod 12)) 0 0x23 = bcd h"
    using c by (elim insertE emptyE) (simp_all add: bcd_def BCD_def BCDSanitize_def Let_def u8)
  show "BCDSanitize (let x = bcd h - 0x12 in if (x AND 0x0F) \<ge> 0x0A then x - 0x06 else x) 0 0x11 = bcd (h mod 12)"
    if "h \<ge> 12"
    using c that by (elim insertE emptyE) (simp_all add: bcd_def BCD_def BCDSanitize_def Let_def u8)
  show "BCDSanitize (bcd h) 0 0x11 = bcd (h mod 12)" if "h < 12"
    using that BCDSanitize_bcd [of 0 h 11] by (simp add: bcd_literals)
qed

text \<open>
  Switching between the 12-hour and the 24-hour mode, with the reset bit clear, keeps the
  date and the time of day.
\<close>

lemma WriteStatus1_hour:
  assumes "h < 24" "DateTime s ! 4 = hourcode (h24 s) h" "length (DateTime s) = 7"
    and "s' = s\<lparr>StatusReg1 := x\<rparr>" "h24 s' \<noteq> h24 s"
  shows "(let hour = DateTime s' ! 4 AND 0x3F; pm = DateTime s' ! 4 AND 0x40
          in if StatusReg1 s' AND 0x02 \<noteq> 0 then
               (let hour =
                  (if pm \<noteq> 0
                   then (let h = hour + 0x12 in if (h AND 0x0F) \<ge> 0x0A then h + 0x06 else h)
                   else hour)
                in set_dt 4 (BCDSanitize hour 0x00 0x23 OR pm) s')
             else
               (let (hour, pm) =
                  (if hour \<ge> 0x12
                   then (let h = hour - 0x12 in (if (h AND 0x0F) \<ge> 0x0A then h - 0x06 else h, 0x40))
                   else (hour, 0))
                in set_dt 4 (BCDSanitize hour 0x00 0x11 OR pm) s')) =
     set_dt 4 (hourcode (h24 s') h) s'"
proof -
  note hp = hourcode_parts [OF assms(1), of "h24 s", folded assms(2)]
  note cv = hour_convert [OF assms(1)]
  have dt: "DateTime s' = DateTime s" by (simp add: assms(4))
  show ?thesis
  proof (cases "h24 s'")
    case True
    then have t: "StatusReg1 s' AND 0x02 \<noteq> 0" "\<not> h24 s" using assms(5) by (auto simp: h24_def)
    show ?thesis
      unfolding dt hp Let_def if_P [OF t(1)] using cv(1) t(2) True
      by (cases "12 \<le> h") (simp_all add: hourcode_def Let_def split: if_splits)
  next
    case False
    then have t: "\<not> StatusReg1 s' AND 0x02 \<noteq> 0" "h24 s" using assms(5) by (auto simp: h24_def)
    have ge: "bcd h \<ge> 0x12 \<longleftrightarrow> 12 \<le> h" using assms(1) bcd_ge_lit(1) [of h] by simp
    show ?thesis
      unfolding dt hp Let_def if_not_P [OF t(1)] using cv(2,3) t(2) False ge
      by (cases "12 \<le> h") (simp_all add: hourcode_def Let_def split: if_splits)
  qed
qed

lemma h24_xor:
  "(StatusReg1 s XOR x) AND 0x02 \<noteq> 0 \<longleftrightarrow> h24 s \<noteq> (x AND 0x02 \<noteq> 0)"
proof -
  have t: "y AND 2 \<noteq> 0 \<longleftrightarrow> bit y 1" for y :: u8
    using and_exp_eq_0_iff_not_bit [of y 1] by simp
  show ?thesis unfolding h24_def t by (simp add: bit_simps)
qed

lemma WriteStatus1_holds:
  assumes a: "valid a" "holds_date s a" and v: "v AND 0x01 = 0"
  shows "holds_date (WriteStatus1 v s) a"
proof -
  define s' where "s' = s\<lparr>StatusReg1 := (StatusReg1 s AND 0xF0) OR (v AND 0x0E)\<rparr>"
  have w: "WriteStatus1 v s = (if h24 s' \<noteq> h24 s then set_dt 4 (hourcode (h24 s') (Hr a)) s' else s')"
  proof (cases "h24 s' = h24 s")
    case True
    then have "\<not> (StatusReg1 s' XOR StatusReg1 s) AND 0x02 \<noteq> 0" using h24_xor [of s' "StatusReg1 s"] by (simp add: h24_def)
    with True v show ?thesis by (simp add: WriteStatus1_def Let_def s'_def)
  next
    case False
    then have x: "(StatusReg1 s' XOR StatusReg1 s) AND 0x02 \<noteq> 0" using h24_xor [of s' "StatusReg1 s"] by (auto simp: h24_def)
    have "Hr a < 24" "DateTime s ! 4 = hourcode (h24 s) (Hr a)" "length (DateTime s) = 7"
      using a by (auto simp: valid_def holds_date_def encode_def)
    note hour = WriteStatus1_hour [OF this s'_def False]
    have "WriteStatus1 v s = set_dt 4 (hourcode (h24 s') (Hr a)) s'"
      unfolding WriteStatus1_def using v
      by (simp only: Let_def simp_thms if_False s'_def [symmetric] if_P [OF x] hour [unfolded Let_def])
    with False show ?thesis by simp
  qed
  have d: "DateTime s' = encode (h24 s) a" using a(2) by (simp add: s'_def holds_date_def)
  show ?thesis
  proof (cases "h24 s' = h24 s")
    case True
    with w d show ?thesis by (simp add: holds_date_def)
  next
    case False
    have "(encode (h24 s) a)[4 := hourcode (h24 s') (Hr a)] = encode (h24 s') a" by (simp add: encode_def)
    with False w d show ?thesis by (simp add: holds_date_def)
  qed
qed

lemma WriteStatus1_reset:
  assumes "v AND 0x01 \<noteq> 0"
  shows "holds_date (WriteStatus1 v s) \<lparr>Yr = 0, Mon = 1, Dom = 1, Dow = 0, Hr = 0, Mn = 0, Sc = 0\<rparr>"
proof -
  define s' where "s' = (ResetState s)\<lparr>StatusReg1 := (StatusReg1 (ResetState s) AND 0xF0) OR (v AND 0x0E)\<rparr>"
  have d: "DateTime s' = [0, 1, 1, 0, 0, 0, 0]" by (simp add: s'_def ResetState_def)
  have z: "BCDSanitize 0 0 x = 0" for x by (simp add: BCDSanitize_def)
  have le: "\<not> (0x12::u8) \<le> 0" by simp
  have "DateTime (WriteStatus1 v s) = [0, 1, 1, 0, 0, 0, 0] \<and> StatusReg1 (WriteStatus1 v s) = StatusReg1 s'"
    using assms d z le by (simp add: WriteStatus1_def Let_def s'_def [symmetric])
  then show ?thesis by (simp add: holds_date_def encode_def hourcode_def bcd_literals)
qed

lemma WriteStatus1_wf: "wf_date s \<Longrightarrow> wf_date (WriteStatus1 v s)"
proof (cases "v AND 0x01 = 0")
  case True
  then show "wf_date s \<Longrightarrow> wf_date (WriteStatus1 v s)" using WriteStatus1_holds unfolding wf_date_def by blast
next
  case False
  then show ?thesis by (intro wf_dateI [OF _ WriteStatus1_reset]) (simp_all add: valid_def)
qed

section \<open>The command interface\<close>

text \<open>The register-only updates that do not touch the date.\<close>

lemma wf_same: "same_clock r' r \<Longrightarrow> wf_date (State r') = wf_date (State r)"
  by (rule wf_date_cong) (simp_all add: same_clock_def)

lemma SaveDateTime_State: "State (SaveDateTime r) = State r"
  by (simp add: SaveDateTime_def split: prod.split)

lemma wf_fields:
  "wf_date (s\<lparr>StatusReg2 := v\<rparr>) = wf_date s" "wf_date (s\<lparr>Alarm1 := l\<rparr>) = wf_date s"
  "wf_date (s\<lparr>Alarm2 := l\<rparr>) = wf_date s" "wf_date (s\<lparr>ClockAdjust := v\<rparr>) = wf_date s"
  "wf_date (s\<lparr>FreeReg := v\<rparr>) = wf_date s" "wf_date (s\<lparr>FOUT1 := v\<rparr>) = wf_date s"
  "wf_date (s\<lparr>FOUT2 := v\<rparr>) = wf_date s" "wf_date (s\<lparr>AlarmDate1 := l\<rparr>) = wf_date s"
  "wf_date (s\<lparr>AlarmDate2 := l\<rparr>) = wf_date s"
  by (simp_all add: wf_date_def holds_date_def h24_def)

lemma CmdWrite_wf:
  assumes "wf_date (State r)"
  shows "wf_date (State (CmdWrite e v r))"
proof -
  have if1: "wf_date (State a) \<Longrightarrow> wf_date (State b) \<Longrightarrow> wf_date (State (if c then a else b))" for a b c by simp
  have p: "wf_date (State (ProcessIRQ e t r)) = wf_date (State r)" for t r by (rule wf_same [OF ProcessIRQ_same])
  show ?thesis
    unfolding CmdWrite_def Let_def
    by (intro if1) (simp_all add: p SaveDateTime_State wf_fields WriteStatus1_wf WriteDateTime_wf assms)
qed

lemma put_output_State: "State (put_output bs r) = State r"
  by (simp add: put_output_def)

lemma CmdRead_state: "DateTime (State (CmdRead e r)) = DateTime (State r) \<and> h24 (State (CmdRead e r)) = h24 (State r)"
  by (simp add: CmdRead_def Let_def put_output_State h24_bit bit_simps)

lemma ByteIn_wf: "wf_date (State r) \<Longrightarrow> wf_date (State (ByteIn e v r))"
proof -
  assume w: "wf_date (State r)"
  have "wf_date (State (CmdRead e r')) = wf_date (State r')" for r'
    using CmdRead_state [of e r'] by (intro wf_date_cong) auto
  with w show ?thesis by (simp add: ByteIn_def Let_def CmdWrite_wf)
qed

lemma RTC_Write_wf: "wf_date (State r) \<Longrightarrow> wf_date (State (RTC_Write e v byte r))"
proof -
  assume w: "wf_date (State r)"
  have "wf_date (State (bit_in e b r))" for b
    using w ByteIn_wf by (simp add: bit_in_def Let_def)
  moreover have "State (bit_out r) = State r" by (simp add: bit_out_def Let_def)
  ultimately show ?thesis using w by (simp add: RTC_Write_def Let_def)
qed

section \<open>Setting and reading the date from the host\<close>

lemma BCD_of_int: "0 \<le> n \<Longrightarrow> BCD (of_int n) = bcd (nat n)"
  by (simp add: bcd_def)

lemma BCD_of_nat: "BCD (of_nat n) = bcd n"
  by (simp add: bcd_def)

lemma monthdays_sum:
  assumes "1 \<le> m" "m \<le> 12"
  shows "sum_list (take (m - 1) (tl (monthdays (int y)))) = int (\<Sum>k \<leftarrow> [1..<m]. mlen y k)"
    and "monthdays (int y) ! m = int (mlen y m)"
proof -
  have l: "int y AND 3 = 0 \<longleftrightarrow> y mod 4 = 0"
  proof -
    have "int y AND 3 = int (y mod 4)"
      using take_bit_eq_mask [of 2 "int y"] by (simp add: mask_eq_exp_minus_1 take_bit_eq_mod zmod_int)
    then show ?thesis by simp
  qed
  have c: "m \<in> {1, 2, 3, 4, 5, 6, 7, 8, 9, 10, 11, 12}" using assms by (rule month_cases)
  show "sum_list (take (m - 1) (tl (monthdays (int y)))) = int (\<Sum>k \<leftarrow> [1..<m]. mlen y k)"
    using c l by (elim insertE emptyE) (simp_all add: monthdays_def mlen_def upt_conv_Cons)
  show "monthdays (int y) ! m = int (mlen y m)"
    using c l by (elim insertE emptyE) (simp_all add: monthdays_def mlen_def)
qed

text \<open>1 January 2000 was a Saturday, day 6 of the week.\<close>

definition weekday :: "caldate \<Rightarrow> nat" where
  "weekday a = (6 + day_number a) mod 7"

lemma SetDateTime_holds:
  assumes p: "proper a"
  shows "holds_date (SetDateTime (2000 + int (Yr a)) (int (Mon a)) (int (Dom a)) (int (Hr a)) (int (Mn a)) (int (Sc a)) s)
    (a\<lparr>Dow := weekday a\<rparr>)"
proof -
  let ?y = "int (Yr a)" and ?s = "SetDateTime (2000 + int (Yr a)) (int (Mon a)) (int (Dom a)) (int (Hr a)) (int (Mn a)) (int (Sc a)) s"
  note v = p [unfolded proper_def valid_def]
  have m: "1 \<le> Mon a" "Mon a \<le> 12" using v by auto
  note ms = monthdays_sum [OF m, of "Yr a"]
  have "(?y + 20 * 100) mod 100 = ?y" unfolding mod_mult_self1 using v by simp
  then have y: "crem (2000 + ?y) 100 = ?y" by (simp add: crem_def add.commute)
  have nd: "?y * 365 + (?y + 3) div 4 + sum_list (take (nat (int (Mon a)) - 1) (tl (monthdays ?y))) + (int (Dom a) - 1)
      = int (day_number a)"
    using ms(1) v by (simp add: day_number_def)
  have h12: "h24 ?s = h24 s"
    by (simp add: SetDateTime_def Let_def h24_bit bit_simps)
  have "(6 + int (day_number a)) mod 7 = int (weekday a)" by (simp add: weekday_def zmod_int)
  moreover have "5 + (?y * 365 + (?y + 3) div 4 + sum_list (take (Mon a - Suc 0) (tl (monthdays ?y))) + int (Dom a))
      = 6 + int (day_number a)"
    using nd by simp
  ultimately have dow: "of_int ((5 + (?y * 365 + (?y + 3) div 4 + sum_list (take (Mon a - Suc 0) (tl (monthdays ?y))) +
      int (Dom a))) mod 7) = (of_nat (weekday a) :: u8)" by (metis of_int_of_nat_eq)
  have hm: "Hr a \<ge> 12 \<Longrightarrow> nat (int (Hr a) - 12) = Hr a mod 12" "Hr a < 12 \<Longrightarrow> Hr a mod 12 = Hr a"
    using v by (auto simp: mod_if)
  have hour: "BCD (of_int (if StatusReg1 s AND 0x02 = 0 \<and> (if int (Hr a) \<ge> 12 then 0x40 else 0) \<noteq> (0::u8) then int (Hr a) - 12 else int (Hr a)))
      OR (if int (Hr a) \<ge> 12 then 0x40 else 0) = hourcode (h24 s) (Hr a)"
    using hm by (cases "12 \<le> Hr a") (auto simp: hourcode_def h24_def BCD_of_int BCD_of_nat)
  have "DateTime ?s = [BCD (of_int ?y), BCD (of_int (int (Mon a))), BCD (of_int (int (Dom a))), of_nat (weekday a),
      hourcode (h24 s) (Hr a), BCD (of_int (int (Mn a))), BCD (of_int (int (Sc a)))]"
    using v m y dow hour ms(2) by (simp add: SetDateTime_def Let_def)
  then show ?thesis unfolding holds_date_def h12 by (simp add: encode_def BCD_of_nat)
qed

lemma GetDateTime_holds:
  assumes v: "valid a" and s: "holds_date s a"
  shows "GetDateTime s =
    (int (Yr a) + 2000, int (Mon a), int (Dom a), int (Hr a), int (Mn a), int (Sc a))"
proof -
  note b = v [unfolded valid_def]
  have d: "DateTime s = encode (h24 s) a" using s by (simp add: holds_date_def)
  have m6: "bcd n AND 0x3F = bcd n" if "n < 40" for n
    using split_pm(1) [of "bcd n" 0] unat_bcd_less_64 [OF that] by simp
  have m7: "bcd n AND 0x7F = bcd n" if "n < 60" for n
  proof -
    have "n div 10 < 6" "n mod 10 < 10" using that by auto
    then have "unat (bcd n) < 2 ^ 7" using that by (simp add: unat_bcd)
    then have "bit (bcd n) k \<Longrightarrow> k < 7" for k using low_bits [of "bcd n" 7 k] by fastforce
    moreover have m: "(0x7F::u8) = mask 7" by (simp add: mask_eq_exp_minus_1)
    ultimately show ?thesis unfolding m by (intro bit_word_eqI) (auto simp: bit_simps)
  qed
  have f: "uint (FromBCD (bcd n)) = int n" if "n < 100" for n
    using FromBCD_bcd [OF that] by (metis uint_nat)
  have h: "Hr a < 24" using b by simp
  note hp = hourcode_parts [OF h]
  have pm: "(if StatusReg1 s AND 0x02 = 0 \<and> hourcode (h24 s) (Hr a) AND 0x40 \<noteq> 0
      then uint (FromBCD (hourcode (h24 s) (Hr a) AND 0x3F)) + 12 else uint (FromBCD (hourcode (h24 s) (Hr a) AND 0x3F))) = int (Hr a)"
    unfolding hp using h f by (auto simp: h24_def mod_if)
  show ?thesis
    using b f m6 m7 pm by (simp add: GetDateTime_def d encode_def Let_def split: if_splits)
qed

section \<open>Properties\<close>

text \<open>
  C32: the date registers always hold a date. From any loaded state, every sequence of
  serial writes and timer ticks leaves them the code of a year 0 to 99, a month 1 to 12, a
  day 1 to 31, a weekday 0 to 6 and a time of day, in the current hour mode.
\<close>

datatype rtc_op = Tick | Serial u16 bool

fun rtc_step :: "rtc_env \<Rightarrow> rtc_op \<Rightarrow> rtc \<Rightarrow> rtc" where
  "rtc_step e Tick r = ClockTimer e r"
| "rtc_step e (Serial v byte) r = RTC_Write e v byte r"

theorem RTC_date_invariant:
  assumes "length (DateTime st) = 7"
  shows "wf_date (State (fold (rtc_step e) ops (SetState st r)))"
proof -
  have "wf_date (State r) \<Longrightarrow> wf_date (State (fold (rtc_step e) ops r))" for r
  proof (induction ops arbitrary: r)
    case (Cons x xs)
    then show ?case by (cases x) (simp_all add: ClockTimer_wf RTC_Write_wf)
  qed simp
  then show ?thesis using SetState_wf [OF assms] by blast
qed

theorem RTC_date_invariant_witness:
  "wf_date (State (fold (rtc_step \<lparr>RCnt = 0, ConsoleType = 0\<rparr>) [Serial 0x14 False, Tick]
     (SetState ((ResetState undefined)\<lparr>DateTime := [0xFF, 0xFF, 0x3F, 9, 0x77, 0x7F, 0x60]\<rparr>) leap_eve_rtc)))"
  by (rule RTC_date_invariant) simp

text \<open>
  Switching between the 12-hour and the 24-hour mode through status register 1 keeps the
  date and the time of day; only a write with the reset bit set changes them, to midnight of
  1 January 2000.
\<close>

theorem RTC_mode_switch_keeps_time:
  assumes "valid a" "holds_date s a"
  shows "holds_date (WriteStatus1 v s)
    (if v AND 0x01 = 0 then a else \<lparr>Yr = 0, Mon = 1, Dom = 1, Dow = 0, Hr = 0, Mn = 0, Sc = 0\<rparr>)"
  using WriteStatus1_holds [OF assms] WriteStatus1_reset by simp

theorem RTC_mode_switch_keeps_time_witness:
  "holds_date (WriteStatus1 0x02 (State leap_eve_rtc)) leap_eve"
  using RTC_mode_switch_keeps_time [of leap_eve "State leap_eve_rtc" "0x02"]
  by (simp add: leap_eve_rtc_def leap_eve_def valid_def holds_date_def h24_def ResetState_def)

text \<open>
  The date the host sets is the date the host reads, in both hour modes, and the
  registers then also hold the right day of the week.
\<close>

theorem RTC_set_get_date:
  fixes s :: StateData
  assumes "proper a"
  defines "s' \<equiv> SetDateTime (2000 + int (Yr a)) (int (Mon a)) (int (Dom a)) (int (Hr a)) (int (Mn a)) (int (Sc a)) s"
  shows "GetDateTime s' = (int (Yr a) + 2000, int (Mon a), int (Dom a), int (Hr a), int (Mn a), int (Sc a)) \<and>
    unat (DateTime s' ! 3) = (6 + day_number a) mod 7"
proof -
  let ?a = "a\<lparr>Dow := weekday a\<rparr>"
  have h: "holds_date s' ?a" unfolding s'_def by (rule SetDateTime_holds [OF assms(1)])
  have w: "weekday a < 7" by (simp add: weekday_def)
  then have "valid ?a" using assms(1) by (simp add: proper_def valid_def)
  moreover have "DateTime s' ! 3 = of_nat (weekday a)" using h by (simp add: holds_date_def encode_def)
  moreover have "unat (of_nat (weekday a) :: u8) = weekday a" using w by (simp add: unat_of_nat)
  ultimately show ?thesis using GetDateTime_holds [OF _ h] by (simp add: weekday_def)
qed

theorem RTC_set_get_date_witness:
  "GetDateTime (SetDateTime 2024 2 28 23 59 59 (State leap_eve_rtc)) = (2024, 2, 28, 23, 59, 59)"
  using RTC_set_get_date [of leap_eve "State leap_eve_rtc"]
  by (simp add: leap_eve_def proper_def valid_def mlen_def)

end
