(* ===== verification/Rtc_Serial.thy ===== *)
theory Rtc_Serial
  imports Rtc_State
begin

text \<open>
  The serial protocol of the clock chip, from the side of the processor that drives the
  \<^verbatim>\<open>RTC\<close> register: select the chip, clock a command byte in, clock the answer out. The theory
  composes \<^verbatim>\<open>RTC::Write\<close> and \<^verbatim>\<open>RTC::Read\<close> of \<^verbatim>\<open>src/src/RTC.cpp\<close> the way a program does and shows
  what the program sees.
\<close>

section \<open>The driver\<close>

definition rtc_select :: "rtc_env \<Rightarrow> rtc \<Rightarrow> rtc" where
  "rtc_select e r = RTC_Write e 0x06 False (RTC_Write e 0x00 False r)"

definition send_bit :: "rtc_env \<Rightarrow> rtc \<Rightarrow> bool \<Rightarrow> rtc" where
  "send_bit e r b =
     RTC_Write e (if b then 0x17 else 0x16) False (RTC_Write e (if b then 0x15 else 0x14) False r)"

definition send_byte :: "rtc_env \<Rightarrow> u8 \<Rightarrow> rtc \<Rightarrow> rtc" where
  "send_byte e v r = foldl (send_bit e) r (map (bit v) [0..<8])"

definition recv_bit :: "rtc_env \<Rightarrow> rtc \<Rightarrow> bool \<times> rtc" where
  "recv_bit e r = (let r1 = RTC_Write e 0x04 False r in (bit (RTC_Read r1) 0, RTC_Write e 0x06 False r1))"

fun recv_bits :: "rtc_env \<Rightarrow> nat \<Rightarrow> rtc \<Rightarrow> bool list \<times> rtc" where
  "recv_bits e 0 r = ([], r)"
| "recv_bits e (Suc n) r = (let (b, r1) = recv_bit e r; (bs, r2) = recv_bits e n r1 in (b # bs, r2))"

section \<open>Sending\<close>

lemma RTC_Write_cs_low: "IO (RTC_Write e 0 False r) AND 4 = 0" "State (RTC_Write e 0 False r) = State r"
  by (simp_all add: RTC_Write_def Let_def and.assoc)

definition selected :: "rtc \<Rightarrow> bool" where
  "selected r \<longleftrightarrow> IO r AND 4 \<noteq> 0"

lemma rtc_select_state:
  "selected (rtc_select e r)" "Input (rtc_select e r) = 0" "InputBit (rtc_select e r) = 0"
  "InputPos (rtc_select e r) = 0" "Output (rtc_select e r) = replicate 8 0" "OutputBit (rtc_select e r) = 0"
  "OutputPos (rtc_select e r) = 0" "State (rtc_select e r) = State r"
proof -
  let ?r = "RTC_Write e 0 False r"
  have s: "rtc_select e r = (let r1 = ?r\<lparr>Input := 0, InputBit := 0, InputPos := 0, Output := replicate 8 0,
      OutputBit := 0, OutputPos := 0\<rparr> in r1\<lparr>IO := (IO r1 AND 1) OR 6\<rparr>)"
    using RTC_Write_cs_low(1) [of e r] by (simp add: rtc_select_def RTC_Write_def [of e 6] Let_def)
  have "((x AND 1) OR 6) AND 4 \<noteq> 0" for x :: u16
  proof -
    have "bit ((x AND 1) OR 6) 2" by (simp add: bit_simps)
    then show ?thesis using and_exp_eq_0_iff_not_bit [of "(x AND 1) OR 6" 2] by simp
  qed
  then show "selected (rtc_select e r)" by (simp add: selected_def s Let_def)
qed (simp_all add: rtc_select_def RTC_Write_def [of e 6] RTC_Write_cs_low Let_def)

text \<open>One bit in: a falling clock edge shifts the bit in, the rising edge does nothing.\<close>

lemma send_bit_eq:
  assumes "selected r"
  shows "send_bit e r b = (bit_in e b r)\<lparr>IO := (if b then 0x17 else 0x16)\<rparr>" "selected (send_bit e r b)"
proof -
  have s: "IO r AND 4 \<noteq> 0" using assms by (simp add: selected_def)
  have w: "RTC_Write e (if b then 0x15 else 0x14) False r = (bit_in e b r)\<lparr>IO := (if b then 0x15 else 0x14)\<rparr>"
    using s by (cases b) (simp_all add: RTC_Write_def Let_def)
  show "send_bit e r b = (bit_in e b r)\<lparr>IO := (if b then 0x17 else 0x16)\<rparr>"
    unfolding send_bit_def w by (cases b) (simp_all add: RTC_Write_def Let_def)
  then show "selected (send_bit e r b)" by (simp add: selected_def)
qed

lemma send_bits_partial:
  assumes "selected r" "Input r = 0" "InputBit r = 0" "k < 8"
  shows "\<exists>io. foldl (send_bit e) r (map (bit v) [0..<k]) = r\<lparr>Input := take_bit k v, InputBit := of_nat k, IO := io\<rparr> \<and>
    io AND 4 \<noteq> 0"
  using assms(4)
proof (induction k)
  case 0
  with assms show ?case by (intro exI [of _ "IO r"]) (simp add: selected_def)
next
  case (Suc k)
  then obtain io where io: "foldl (send_bit e) r (map (bit v) [0..<k]) = r\<lparr>Input := take_bit k v, InputBit := of_nat k, IO := io\<rparr>"
    "io AND 4 \<noteq> 0" by auto
  let ?r = "r\<lparr>Input := take_bit k v, InputBit := of_nat k, IO := io\<rparr>"
  have sel: "selected ?r" using io(2) by (simp add: selected_def)
  have ub: "unat (of_nat k :: u32) = k" "unat (of_nat k + 1 :: u32) = Suc k"
    using Suc.prems by (simp_all add: unat_of_nat unat_word_ariths)
  have lt: "\<not> (8::u32) \<le> of_nat k + 1" using ub(2) Suc.prems by (simp add: word_le_nat_alt)
  have t: "take_bit (Suc k) v = (if bit v k then take_bit k v OR push_bit k 1 else take_bit k v)"
    by (rule bit_word_eqI) (auto simp: bit_simps less_Suc_eq simp del: push_bit_of_1)
  have "send_bit e ?r (bit v k) = r\<lparr>Input := take_bit (Suc k) v, InputBit := of_nat (Suc k), IO := (if bit v k then 0x17 else 0x16)\<rparr>"
    unfolding send_bit_eq(1) [OF sel] using lt ub(1) by (simp add: bit_in_def Let_def t add.commute)
  with io(1) show ?case by (intro exI [of _ "if bit v k then 0x17 else 0x16"]) simp
qed

lemma send_byte_eq:
  assumes "selected r" "Input r = 0" "InputBit r = 0"
  shows "\<exists>io io'. io' AND 4 \<noteq> 0 \<and> send_byte e v r =
    (let r3 = ByteIn e v (r\<lparr>Input := v, InputBit := 0, IO := io\<rparr>) in r3\<lparr>Input := 0, InputPos := InputPos r3 + 1, IO := io'\<rparr>)"
proof -
  obtain io where io: "foldl (send_bit e) r (map (bit v) [0..<7]) = r\<lparr>Input := take_bit 7 v, InputBit := 7, IO := io\<rparr>"
    "io AND 4 \<noteq> 0" using send_bits_partial [OF assms, of 7 e v] by auto
  let ?r = "r\<lparr>Input := take_bit 7 v, InputBit := 7, IO := io\<rparr>"
  have sel: "selected ?r" using io(2) by (simp add: selected_def)
  have v: "(if bit v 7 then take_bit 7 v OR push_bit 7 1 else take_bit 7 v) = v"
  proof (rule bit_word_eqI)
    fix n assume "n < LENGTH(8)"
    then consider "n < 7" | "n = 7" by fastforce
    then show "bit (if bit v 7 then take_bit 7 v OR push_bit 7 1 else take_bit 7 v) n = bit v n"
      by cases (auto simp: bit_simps simp del: push_bit_of_1)
  qed
  have up: "[0..<8] = [0..<7] @ [7 :: nat]" by (simp add: upt_conv_Cons)
  have "send_byte e v r = send_bit e ?r (bit v 7)" by (simp add: send_byte_def up io(1))
  also have "\<dots> = (bit_in e (bit v 7) ?r)\<lparr>IO := (if bit v 7 then 0x17 else 0x16)\<rparr>" by (rule send_bit_eq(1) [OF sel])
  also have "bit_in e (bit v 7) ?r = (let r3 = ByteIn e v (r\<lparr>Input := v, InputBit := 0, IO := io\<rparr>) in r3\<lparr>Input := 0, InputPos := InputPos r3 + 1\<rparr>)"
    using v by (cases r; cases "bit v 7") (simp_all add: bit_in_def Let_def)
  finally have e: "send_byte e v r = (let r3 = ByteIn e v (r\<lparr>Input := v, InputBit := 0, IO := io\<rparr>) in
      r3\<lparr>Input := 0, InputPos := InputPos r3 + 1, IO := (if bit v 7 then 0x17 else 0x16)\<rparr>)"
    by (simp add: Let_def)
  show ?thesis
    by (intro exI [of _ io] exI [of _ "if bit v 7 then 0x17 else 0x16"]) (simp add: e)
qed

section \<open>Receiving\<close>

text \<open>The position of the next bit to come out, and what one bit out does to it.\<close>

definition out_at :: "rtc \<Rightarrow> nat \<Rightarrow> bool" where
  "out_at r k \<longleftrightarrow> selected r \<and> unat (OutputPos r) = k div 8 \<and> unat (OutputBit r) = k mod 8"

lemma recv_bit_eq:
  assumes "out_at r k" "k < 63"
  shows "fst (recv_bit e r) = bit (Output r ! (k div 8)) (k mod 8)"
    and "out_at (snd (recv_bit e r)) (Suc k)" and "Output (snd (recv_bit e r)) = Output r"
proof -
  let ?b = "bit (Output r ! (k div 8)) (k mod 8)"
  have s: "IO r AND 4 \<noteq> 0" and p: "unat (OutputPos r) = k div 8" "unat (OutputBit r) = k mod 8"
    using assms(1) by (auto simp: out_at_def selected_def)
  define r1 where "r1 = bit_out r"
  have w: "RTC_Write e 4 False r = r1\<lparr>IO := (IO r1 AND 1) OR 4\<rparr>"
    using s by (simp add: RTC_Write_def Let_def r1_def)
  have io: "bit (IO r1) 0 = ?b" using p by (simp add: r1_def bit_out_def Let_def bit_simps)
  have four: "((x AND 1) OR 4) AND 4 \<noteq> 0" "((((x AND 1) OR 4) AND 1) OR 6) AND 4 \<noteq> 0" for x :: u16
  proof -
    have "bit ((x AND 1) OR 4) 2" "bit ((((x AND 1) OR 4) AND 1) OR 6) 2" by (simp_all add: bit_simps)
    then show "((x AND 1) OR 4) AND 4 \<noteq> 0" "((((x AND 1) OR 4) AND 1) OR 6) AND 4 \<noteq> 0"
      using and_exp_eq_0_iff_not_bit [of _ 2] by (metis num_double numeral_times_numeral power2_eq_square)+
  qed
  have w2: "snd (recv_bit e r) = r1\<lparr>IO := (((IO r1 AND 1) OR 4) AND 1) OR 6\<rparr>"
    unfolding recv_bit_def w using four(1) by (simp add: RTC_Write_def Let_def)
  show "fst (recv_bit e r) = ?b"
    unfolding recv_bit_def w using io by (simp add: RTC_Read_def Let_def bit_simps)
  show "Output (snd (recv_bit e r)) = Output r" unfolding w2 by (simp add: r1_def bit_out_def Let_def)
  have ob: "unat (OutputBit r + 1) = Suc (k mod 8)" using p(2) by (simp add: unat_word_ariths)
  have ge: "OutputBit r + 1 \<ge> 8 \<longleftrightarrow> k mod 8 = 7" using ob by (auto simp: word_le_nat_alt)
  have k7: "k mod 8 = 7 \<Longrightarrow> k div 8 < 7" using assms(2) by presburger
  have op: "k mod 8 = 7 \<Longrightarrow> OutputPos r < 7 \<and> unat (OutputPos r + 1) = Suc (k div 8)"
    using p(1) k7 by (simp add: word_less_nat_alt unat_word_ariths)
  have d: "Suc k div 8 = (if k mod 8 = 7 then Suc (k div 8) else k div 8)" "Suc k mod 8 = (if k mod 8 = 7 then 0 else Suc (k mod 8))"
    by (auto simp: div_Suc mod_Suc)
  show "out_at (snd (recv_bit e r)) (Suc k)"
    unfolding out_at_def w2 d using four(2) ge op ob p
    by (simp add: selected_def r1_def bit_out_def Let_def)
qed

lemma recv_bits_eq:
  "out_at r k \<Longrightarrow> k + n \<le> 63 \<Longrightarrow>
   fst (recv_bits e n r) = map (\<lambda>j. bit (Output r ! (j div 8)) (j mod 8)) [k..<k + n]"
proof (induction n arbitrary: r k)
  case (Suc n)
  note b = recv_bit_eq [OF Suc.prems(1), of e]
  have "fst (recv_bits e n (snd (recv_bit e r))) = map (\<lambda>j. bit (Output r ! (j div 8)) (j mod 8)) [Suc k..<Suc k + n]"
    using Suc.IH [of "snd (recv_bit e r)" "Suc k"] b Suc.prems by simp
  moreover have "[k..<k + Suc n] = k # [Suc k..<Suc k + n]" by (simp add: upt_conv_Cons)
  ultimately show ?case using b(1) Suc.prems by (simp add: split_def Let_def)
qed simp

lemma bits_of_bytes:
  "map (\<lambda>j. bit (xs ! (j div 8)) (j mod 8)) [0..<8 * length xs] = concat (map (\<lambda>b. map (bit b) [0..<8]) xs)"
proof (induction xs rule: rev_induct)
  case (snoc x xs)
  have "[0..<8 * length (xs @ [x])] = [0..<8 * length xs] @ map (\<lambda>i. i + 8 * length xs) [0..<8]"
    using upt_add_eq_append [of 0 "8 * length xs" 8] map_add_upt [of "8 * length xs" 8] by (simp add: add.commute)
  moreover have "map (\<lambda>j. bit ((xs @ [x]) ! (j div 8)) (j mod 8)) [0..<8 * length xs] =
      map (\<lambda>j. bit (xs ! (j div 8)) (j mod 8)) [0..<8 * length xs]"
    by (rule map_cong) (auto simp: nth_append less_mult_imp_div_less mult.commute)
  moreover have "map (\<lambda>j. bit ((xs @ [x]) ! (j div 8)) (j mod 8)) (map (\<lambda>i. i + 8 * length xs) [0..<8]) = map (bit x) [0..<8]"
    by (simp add: o_def nth_append)
  ultimately show ?case using snoc by simp
qed simp

section \<open>Properties\<close>

text \<open>
  C36: a program that selects the chip, clocks in the command byte \<open>0xA6\<close> (or the same
  command in the other bit order, \<open>0x65\<close>) and clocks out 56 bits reads the seven date and
  time registers, lowest bit of each first.
\<close>

theorem RTC_serial_read_date:
  assumes len: "length (DateTime (State r)) = 7" and c: "c = 0xA6 \<or> c = 0x65"
  shows "fst (recv_bits e 56 (send_byte e c (rtc_select e r))) =
    concat (map (\<lambda>b. map (bit b) [0..<8]) (DateTime (State r)))"
proof -
  let ?r = "rtc_select e r"
  note sel = rtc_select_state [of e r]
  obtain io io' where io: "io' AND 4 \<noteq> 0" "send_byte e c ?r =
    (let r3 = ByteIn e c (?r\<lparr>Input := c, InputBit := 0, IO := io\<rparr>) in r3\<lparr>Input := 0, InputPos := InputPos r3 + 1, IO := io'\<rparr>)"
    using send_byte_eq [OF sel(1-3)] by blast
  have d: "decode_cmd e c = 0xA6" using c by (auto simp: decode_cmd_def rev1_def Let_def)
  have b: "ByteIn e c (?r\<lparr>Input := c, InputBit := 0, IO := io\<rparr>) =
      put_output (take 7 (DateTime (State r))) (?r\<lparr>Input := c, InputBit := 0, IO := io, CurCmd := 0xA6\<rparr>)"
    using sel d by (simp add: ByteIn_def Let_def CmdRead_def)
  let ?q = "send_byte e c ?r"
  have out: "Output ?q = DateTime (State r) @ [0]"
    unfolding io(2) b using sel len by (simp add: put_output_def Let_def)
  have "out_at ?q 0"
    unfolding io(2) b out_at_def selected_def using io(1) sel by (simp add: put_output_def Let_def)
  then have "fst (recv_bits e 56 ?q) = map (\<lambda>j. bit ((DateTime (State r) @ [0]) ! (j div 8)) (j mod 8)) [0..<8 * length (DateTime (State r))]"
    using recv_bits_eq [of ?q 0 56 e] out len by simp
  also have "\<dots> = map (\<lambda>j. bit (DateTime (State r) ! (j div 8)) (j mod 8)) [0..<8 * length (DateTime (State r))]"
    by (rule map_cong) (auto simp: nth_append less_mult_imp_div_less mult.commute)
  finally show ?thesis by (simp add: bits_of_bytes)
qed

theorem RTC_serial_read_date_witness:
  "fst (recv_bits \<lparr>RCnt = 0, ConsoleType = 0\<rparr> 56 (send_byte \<lparr>RCnt = 0, ConsoleType = 0\<rparr> 0x65
     (rtc_select \<lparr>RCnt = 0, ConsoleType = 0\<rparr> leap_eve_rtc))) =
   concat (map (\<lambda>b. map (bit b) [0..<8]) (DateTime (State leap_eve_rtc)))"
  by (rule RTC_serial_read_date) (simp_all add: leap_eve_rtc_def encode_def)

end
