(* ===== verification/Vram.thy ===== *)
theory Vram
  imports Bit_Field
begin

text \<open>
  The video memory of \<^verbatim>\<open>src/src/GPU.cpp\<close> and \<^verbatim>\<open>src/src/GPU.h\<close>: nine banks, A to I, that the
  control registers \<^verbatim>\<open>VRAMCNT\<close> map into the address spaces of the graphics engines. For
  each space the code keeps, per block, the set of banks mapped there (\<^verbatim>\<open>VRAMMap_*\<close>) and,
  where exactly one bank is mapped, a pointer into it (\<^verbatim>\<open>VRAMPtr_*\<close>).
\<close>

section \<open>State\<close>

text \<open>The suffixes of the \<^verbatim>\<open>VRAMMap_*\<close> arrays.\<close>

datatype vregion = LCDC | ABG | AOBJ | BBG | BOBJ | ABGExtPal | AOBJExtPal | BBGExtPal | BOBJExtPal
  | Texture | TexPal | ARM7

text \<open>
  A pointer into a bank is the number of the bank and an offset. \<^verbatim>\<open>VRAMMap_LCDC\<close>,
  \<^verbatim>\<open>VRAMMap_AOBJExtPal\<close> and \<^verbatim>\<open>VRAMMap_BOBJExtPal\<close> are single words: arrays of length one
  here. \<open>InvalidatedWVRAM\<close> lists the calls of \<^verbatim>\<open>ARMJIT::CheckAndInvalidateWVRAM\<close>.
\<close>

record gpu =
  VRAMCNT :: "u8 list"
  VRAMSTAT :: u8
  VRAM :: "nat \<Rightarrow> nat \<Rightarrow> u8"
  VRAMMap :: "vregion \<Rightarrow> u32 list"
  VRAMPtr :: "vregion \<Rightarrow> (nat \<times> u32) option list"
  VRAMDirty :: "bitfield list"
  InvalidatedWVRAM :: "nat list"

definition VRAMMask :: "nat \<Rightarrow> u32" where
  "VRAMMask num = [0x1FFFF, 0x1FFFF, 0x1FFFF, 0x1FFFF, 0xFFFF, 0x3FFF, 0x3FFF, 0x7FFF, 0x3FFF] ! num"

definition VRAMDirtyGranularity :: u32 where
  "VRAMDirtyGranularity = 512"

text \<open>The number of blocks of each space.\<close>

definition blocks :: "vregion \<Rightarrow> nat" where
  "blocks r =
     (case r of LCDC \<Rightarrow> 1 | ABG \<Rightarrow> 0x20 | AOBJ \<Rightarrow> 0x10 | BBG \<Rightarrow> 8 | BOBJ \<Rightarrow> 8 | ABGExtPal \<Rightarrow> 4
      | AOBJExtPal \<Rightarrow> 1 | BBGExtPal \<Rightarrow> 4 | BOBJExtPal \<Rightarrow> 1 | Texture \<Rightarrow> 4 | TexPal \<Rightarrow> 8 | ARM7 \<Rightarrow> 2)"

definition has_ptr :: "vregion \<Rightarrow> bool" where
  "has_ptr r \<longleftrightarrow> r = ABG \<or> r = AOBJ \<or> r = BBG \<or> r = BOBJ"

text \<open>The part of \<^verbatim>\<open>GPU::Reset\<close> that concerns video memory.\<close>

definition VRAM_Reset :: gpu where
  "VRAM_Reset =
     \<lparr>VRAMCNT = replicate 9 0, VRAMSTAT = 0, VRAM = (\<lambda>bank ofs. 0),
      VRAMMap = (\<lambda>r. replicate (blocks r) 0), VRAMPtr = (\<lambda>r. replicate (blocks r) None),
      VRAMDirty = replicate 9 (BF_Clear 256), InvalidatedWVRAM = []\<rparr>"

section \<open>Mapping\<close>

definition GetUniqueBankPtr :: "u32 \<Rightarrow> u32 \<Rightarrow> (nat \<times> u32) option" where
  "GetUniqueBankPtr msk offset =
     (if msk = 0 \<or> msk AND (msk - 1) \<noteq> 0 then None
      else let num = ctz msk in Some (num, offset AND VRAMMask num))"

text \<open>\<^verbatim>\<open>VRAMMap_r[i] |= bankmask\<close> and \<^verbatim>\<open>VRAMMap_r[i] &= ~bankmask\<close>.\<close>

definition map_or :: "vregion \<Rightarrow> u32 \<Rightarrow> nat \<Rightarrow> gpu \<Rightarrow> gpu" where
  "map_or r bankmask i g =
     g\<lparr>VRAMMap := (VRAMMap g)(r := (VRAMMap g r)[i := VRAMMap g r ! i OR bankmask])\<rparr>"

definition map_clear :: "vregion \<Rightarrow> u32 \<Rightarrow> nat \<Rightarrow> gpu \<Rightarrow> gpu" where
  "map_clear r bankmask i g =
     g\<lparr>VRAMMap := (VRAMMap g)(r := (VRAMMap g r)[i := VRAMMap g r ! i AND NOT bankmask])\<rparr>"

text \<open>\<^verbatim>\<open>VRAMPtr_r[i] = GetUniqueBankPtr(VRAMMap_r[i], i << 14)\<close>.\<close>

definition set_ptr :: "vregion \<Rightarrow> nat \<Rightarrow> gpu \<Rightarrow> gpu" where
  "set_ptr r i g =
     g\<lparr>VRAMPtr := (VRAMPtr g)(r := (VRAMPtr g r)[i := GetUniqueBankPtr (VRAMMap g r ! i) (push_bit 14 (of_nat i))])\<rparr>"

text \<open>The four macros; the base and the number of blocks come first.\<close>

definition MAP_RANGE :: "vregion \<Rightarrow> nat \<Rightarrow> nat \<Rightarrow> u32 \<Rightarrow> gpu \<Rightarrow> gpu" where
  "MAP_RANGE r base n bankmask g = fold (\<lambda>i. map_or r bankmask (base + i)) [0..<n] g"

definition UNMAP_RANGE :: "vregion \<Rightarrow> nat \<Rightarrow> nat \<Rightarrow> u32 \<Rightarrow> gpu \<Rightarrow> gpu" where
  "UNMAP_RANGE r base n bankmask g = fold (\<lambda>i. map_clear r bankmask (base + i)) [0..<n] g"

definition MAP_RANGE_PTR :: "vregion \<Rightarrow> nat \<Rightarrow> nat \<Rightarrow> u32 \<Rightarrow> gpu \<Rightarrow> gpu" where
  "MAP_RANGE_PTR r base n bankmask g =
     fold (\<lambda>i g. set_ptr r (base + i) (map_or r bankmask (base + i) g)) [0..<n] g"

definition UNMAP_RANGE_PTR :: "vregion \<Rightarrow> nat \<Rightarrow> nat \<Rightarrow> u32 \<Rightarrow> gpu \<Rightarrow> gpu" where
  "UNMAP_RANGE_PTR r base n bankmask g =
     fold (\<lambda>i g. set_ptr r (base + i) (map_clear r bankmask (base + i) g)) [0..<n] g"

text \<open>Banks F, G, H and I list their blocks one by one: first the maps, then the pointers.\<close>

definition map_list_ptr :: "vregion \<Rightarrow> nat list \<Rightarrow> u32 \<Rightarrow> gpu \<Rightarrow> gpu" where
  "map_list_ptr r bs bankmask g = fold (set_ptr r) bs (fold (map_or r bankmask) bs g)"

definition unmap_list_ptr :: "vregion \<Rightarrow> nat list \<Rightarrow> u32 \<Rightarrow> gpu \<Rightarrow> gpu" where
  "unmap_list_ptr r bs bankmask g = fold (set_ptr r) bs (fold (map_clear r bankmask) bs g)"

definition set_cnt :: "nat \<Rightarrow> u8 \<Rightarrow> gpu \<Rightarrow> gpu" where
  "set_cnt bank cnt g = g\<lparr>VRAMCNT := (VRAMCNT g)[bank := cnt]\<rparr>"

text \<open>The offset field of a control register, masked.\<close>

definition cnt_ofs :: "u8 \<Rightarrow> u8 \<Rightarrow> nat" where
  "cnt_ofs msk cnt = unat (drop_bit 3 cnt AND msk)"

definition MapVRAM_AB :: "nat \<Rightarrow> u8 \<Rightarrow> gpu \<Rightarrow> gpu" where
  "MapVRAM_AB bank cnt0 g =
     (let cnt = cnt0 AND 0x9B; oldcnt = VRAMCNT g ! bank; g0 = set_cnt bank cnt g
      in if oldcnt = cnt then g0
         else
           let oldofs = cnt_ofs 0x3 oldcnt; ofs = cnt_ofs 0x3 cnt; bankmask = push_bit bank 1;
               g1 =
                 (if oldcnt AND 0x80 \<noteq> 0 then
                    (if oldcnt AND 0x3 = 0 then map_clear LCDC bankmask 0 g0
                     else if oldcnt AND 0x3 = 1 then UNMAP_RANGE_PTR ABG (oldofs * 8) 8 bankmask g0
                     else if oldcnt AND 0x3 = 2 then UNMAP_RANGE_PTR AOBJ ((oldofs mod 2) * 8) 8 bankmask g0
                     else map_clear Texture bankmask oldofs g0)
                  else g0)
           in if cnt AND 0x80 \<noteq> 0 then
                (if cnt AND 0x3 = 0 then map_or LCDC bankmask 0 g1
                 else if cnt AND 0x3 = 1 then MAP_RANGE_PTR ABG (ofs * 8) 8 bankmask g1
                 else if cnt AND 0x3 = 2 then MAP_RANGE_PTR AOBJ ((ofs mod 2) * 8) 8 bankmask g1
                 else map_or Texture bankmask ofs g1)
              else g1)"

definition MapVRAM_CD :: "nat \<Rightarrow> u8 \<Rightarrow> gpu \<Rightarrow> gpu" where
  "MapVRAM_CD bank cnt0 g =
     (let cnt = cnt0 AND 0x9F; oldcnt = VRAMCNT g ! bank;
          g0 = (set_cnt bank cnt g)\<lparr>VRAMSTAT := VRAMSTAT g AND NOT (push_bit (bank - 2) 1)\<rparr>
      in if oldcnt = cnt then g0
         else
           let oldofs = cnt_ofs 0x7 oldcnt; ofs = cnt_ofs 0x7 cnt; bankmask = push_bit bank 1;
               g1 =
                 (if oldcnt AND 0x80 \<noteq> 0 then
                    (if oldcnt AND 0x7 = 0 then map_clear LCDC bankmask 0 g0
                     else if oldcnt AND 0x7 = 1 then UNMAP_RANGE_PTR ABG (oldofs * 8) 8 bankmask g0
                     else if oldcnt AND 0x7 = 2 then map_clear ARM7 bankmask (oldofs mod 2) g0
                     else if oldcnt AND 0x7 = 3 then map_clear Texture bankmask oldofs g0
                     else if oldcnt AND 0x7 = 4 then
                       (if bank = 2 then UNMAP_RANGE_PTR BBG 0 8 bankmask g0
                        else UNMAP_RANGE_PTR BOBJ 0 8 bankmask g0)
                     else g0)
                  else g0)
           in if cnt AND 0x80 \<noteq> 0 then
                (if cnt AND 0x7 = 0 then map_or LCDC bankmask 0 g1
                 else if cnt AND 0x7 = 1 then MAP_RANGE_PTR ABG (ofs * 8) 8 bankmask g1
                 else if cnt AND 0x7 = 2 then
                   (let g2 = map_or ARM7 bankmask (ofs mod 2) g1
                    in g2\<lparr>VRAMDirty := (VRAMDirty g2)[bank := replicate (length (VRAMDirty g2 ! bank)) ones64],
                          VRAMSTAT := VRAMSTAT g2 OR push_bit (bank - 2) 1,
                          InvalidatedWVRAM := InvalidatedWVRAM g2 @ [ofs mod 2]\<rparr>)
                 else if cnt AND 0x7 = 3 then map_or Texture bankmask ofs g1
                 else if cnt AND 0x7 = 4 then
                   (if bank = 2 then MAP_RANGE_PTR BBG 0 8 bankmask g1
                    else MAP_RANGE_PTR BOBJ 0 8 bankmask g1)
                 else g1)
              else g1)"

definition MapVRAM_E :: "nat \<Rightarrow> u8 \<Rightarrow> gpu \<Rightarrow> gpu" where
  "MapVRAM_E bank cnt0 g =
     (let cnt = cnt0 AND 0x87; oldcnt = VRAMCNT g ! bank; g0 = set_cnt bank cnt g
      in if oldcnt = cnt then g0
         else
           let bankmask = push_bit bank 1;
               g1 =
                 (if oldcnt AND 0x80 \<noteq> 0 then
                    (if oldcnt AND 0x7 = 0 then map_clear LCDC bankmask 0 g0
                     else if oldcnt AND 0x7 = 1 then UNMAP_RANGE_PTR ABG 0 4 bankmask g0
                     else if oldcnt AND 0x7 = 2 then UNMAP_RANGE_PTR AOBJ 0 4 bankmask g0
                     else if oldcnt AND 0x7 = 3 then UNMAP_RANGE TexPal 0 4 bankmask g0
                     else if oldcnt AND 0x7 = 4 then UNMAP_RANGE ABGExtPal 0 4 bankmask g0
                     else g0)
                  else g0)
           in if cnt AND 0x80 \<noteq> 0 then
                (if cnt AND 0x7 = 0 then map_or LCDC bankmask 0 g1
                 else if cnt AND 0x7 = 1 then MAP_RANGE_PTR ABG 0 4 bankmask g1
                 else if cnt AND 0x7 = 2 then MAP_RANGE_PTR AOBJ 0 4 bankmask g1
                 else if cnt AND 0x7 = 3 then MAP_RANGE TexPal 0 4 bankmask g1
                 else if cnt AND 0x7 = 4 then MAP_RANGE ABGExtPal 0 4 bankmask g1
                 else g1)
              else g1)"

text \<open>\<^verbatim>\<open>(ofs & 0x1) + ((ofs & 0x2) << 1)\<close>.\<close>

definition fg_base :: "nat \<Rightarrow> nat" where
  "fg_base ofs = ofs mod 2 + (ofs div 2 mod 2) * 4"

definition MapVRAM_FG :: "nat \<Rightarrow> u8 \<Rightarrow> gpu \<Rightarrow> gpu" where
  "MapVRAM_FG bank cnt0 g =
     (let cnt = cnt0 AND 0x9F; oldcnt = VRAMCNT g ! bank; g0 = set_cnt bank cnt g
      in if oldcnt = cnt then g0
         else
           let oldofs = cnt_ofs 0x7 oldcnt; ofs = cnt_ofs 0x7 cnt; bankmask = push_bit bank 1;
               g1 =
                 (if oldcnt AND 0x80 \<noteq> 0 then
                    (if oldcnt AND 0x7 = 0 then map_clear LCDC bankmask 0 g0
                     else if oldcnt AND 0x7 = 1 then
                       unmap_list_ptr ABG [fg_base oldofs, fg_base oldofs + 2] bankmask g0
                     else if oldcnt AND 0x7 = 2 then
                       unmap_list_ptr AOBJ [fg_base oldofs, fg_base oldofs + 2] bankmask g0
                     else if oldcnt AND 0x7 = 3 then map_clear TexPal bankmask (fg_base oldofs) g0
                     else if oldcnt AND 0x7 = 4 then
                       map_clear ABGExtPal bankmask ((oldofs mod 2) * 2 + 1)
                         (map_clear ABGExtPal bankmask ((oldofs mod 2) * 2) g0)
                     else if oldcnt AND 0x7 = 5 then map_clear AOBJExtPal bankmask 0 g0
                     else g0)
                  else g0)
           in if cnt AND 0x80 \<noteq> 0 then
                (if cnt AND 0x7 = 0 then map_or LCDC bankmask 0 g1
                 else if cnt AND 0x7 = 1 then map_list_ptr ABG [fg_base ofs, fg_base ofs + 2] bankmask g1
                 else if cnt AND 0x7 = 2 then map_list_ptr AOBJ [fg_base ofs, fg_base ofs + 2] bankmask g1
                 else if cnt AND 0x7 = 3 then map_or TexPal bankmask (fg_base ofs) g1
                 else if cnt AND 0x7 = 4 then
                   map_or ABGExtPal bankmask ((ofs mod 2) * 2 + 1) (map_or ABGExtPal bankmask ((ofs mod 2) * 2) g1)
                 else if cnt AND 0x7 = 5 then map_or AOBJExtPal bankmask 0 g1
                 else g1)
              else g1)"

definition MapVRAM_H :: "nat \<Rightarrow> u8 \<Rightarrow> gpu \<Rightarrow> gpu" where
  "MapVRAM_H bank cnt0 g =
     (let cnt = cnt0 AND 0x83; oldcnt = VRAMCNT g ! bank; g0 = set_cnt bank cnt g
      in if oldcnt = cnt then g0
         else
           let bankmask = push_bit bank 1;
               g1 =
                 (if oldcnt AND 0x80 \<noteq> 0 then
                    (if oldcnt AND 0x3 = 0 then map_clear LCDC bankmask 0 g0
                     else if oldcnt AND 0x3 = 1 then unmap_list_ptr BBG [0, 1, 4, 5] bankmask g0
                     else if oldcnt AND 0x3 = 2 then UNMAP_RANGE BBGExtPal 0 4 bankmask g0
                     else g0)
                  else g0)
           in if cnt AND 0x80 \<noteq> 0 then
                (if cnt AND 0x3 = 0 then map_or LCDC bankmask 0 g1
                 else if cnt AND 0x3 = 1 then map_list_ptr BBG [0, 1, 4, 5] bankmask g1
                 else if cnt AND 0x3 = 2 then MAP_RANGE BBGExtPal 0 4 bankmask g1
                 else g1)
              else g1)"

definition MapVRAM_I :: "nat \<Rightarrow> u8 \<Rightarrow> gpu \<Rightarrow> gpu" where
  "MapVRAM_I bank cnt0 g =
     (let cnt = cnt0 AND 0x83; oldcnt = VRAMCNT g ! bank; g0 = set_cnt bank cnt g
      in if oldcnt = cnt then g0
         else
           let bankmask = push_bit bank 1;
               g1 =
                 (if oldcnt AND 0x80 \<noteq> 0 then
                    (if oldcnt AND 0x3 = 0 then map_clear LCDC bankmask 0 g0
                     else if oldcnt AND 0x3 = 1 then unmap_list_ptr BBG [2, 3, 6, 7] bankmask g0
                     else if oldcnt AND 0x3 = 2 then UNMAP_RANGE_PTR BOBJ 0 8 bankmask g0
                     else map_clear BOBJExtPal bankmask 0 g0)
                  else g0)
           in if cnt AND 0x80 \<noteq> 0 then
                (if cnt AND 0x3 = 0 then map_or LCDC bankmask 0 g1
                 else if cnt AND 0x3 = 1 then map_list_ptr BBG [2, 3, 6, 7] bankmask g1
                 else if cnt AND 0x3 = 2 then MAP_RANGE_PTR BOBJ 0 8 bankmask g1
                 else map_or BOBJExtPal bankmask 0 g1)
              else g1)"

text \<open>The writes of the nine control registers, \<^verbatim>\<open>0x04000240\<close> to \<^verbatim>\<open>0x04000249\<close>, in \<^verbatim>\<open>NDS::ARM9IOWrite8\<close>.\<close>

definition WriteVRAMCNT :: "nat \<Rightarrow> u8 \<Rightarrow> gpu \<Rightarrow> gpu" where
  "WriteVRAMCNT bank v g =
     (if bank = 0 \<or> bank = 1 then MapVRAM_AB bank v g
      else if bank = 2 \<or> bank = 3 then MapVRAM_CD bank v g
      else if bank = 4 then MapVRAM_E bank v g
      else if bank = 5 \<or> bank = 6 then MapVRAM_FG bank v g
      else if bank = 7 then MapVRAM_H bank v g
      else if bank = 8 then MapVRAM_I bank v g
      else g)"

end
