(* ===== verification/Vram_Map.thy ===== *)
theory Vram_Map
  imports Vram
begin

text \<open>
  The mapping tables of \<^verbatim>\<open>src/src/GPU.cpp\<close> are a function of the control registers: after
  any sequence of register writes, a bank is in the entry of a block exactly when its
  current control value places it there, and every pointer is the one that
  \<^verbatim>\<open>GetUniqueBankPtr\<close> gives for the current entry.
\<close>

section \<open>Where a bank goes\<close>

definition field :: "u8 \<Rightarrow> nat" where
  "field cnt = unat (drop_bit 3 cnt AND 0x3)"

text \<open>The blocks at which a control value places a bank.\<close>

definition place_AB :: "u8 \<Rightarrow> (vregion \<times> nat) set" where
  "place_AB cnt =
     (if cnt AND 0x80 \<noteq> 0 then
        (if cnt AND 3 = 0 then {LCDC} \<times> {0}
         else if cnt AND 3 = 1 then {ABG} \<times> {field cnt * 8..<field cnt * 8 + 8}
         else if cnt AND 3 = 2 then {AOBJ} \<times> {(field cnt mod 2) * 8..<(field cnt mod 2) * 8 + 8}
         else {Texture} \<times> {field cnt})
      else {})"

definition place_CD :: "nat \<Rightarrow> u8 \<Rightarrow> (vregion \<times> nat) set" where
  "place_CD bank cnt =
     (if cnt AND 0x80 \<noteq> 0 then
        (if cnt AND 7 = 0 then {LCDC} \<times> {0}
         else if cnt AND 7 = 1 then {ABG} \<times> {field cnt * 8..<field cnt * 8 + 8}
         else if cnt AND 7 = 2 then {ARM7} \<times> {field cnt mod 2}
         else if cnt AND 7 = 3 then {Texture} \<times> {field cnt}
         else if cnt AND 7 = 4 then (if bank = 2 then {BBG} \<times> {0..<0 + 8} else {BOBJ} \<times> {0..<0 + 8})
         else {})
      else {})"

definition place_E :: "u8 \<Rightarrow> (vregion \<times> nat) set" where
  "place_E cnt =
     (if cnt AND 0x80 \<noteq> 0 then
        (if cnt AND 7 = 0 then {LCDC} \<times> {0}
         else if cnt AND 7 = 1 then {ABG} \<times> {0..<0 + 4}
         else if cnt AND 7 = 2 then {AOBJ} \<times> {0..<0 + 4}
         else if cnt AND 7 = 3 then {TexPal} \<times> {0..<0 + 4}
         else if cnt AND 7 = 4 then {ABGExtPal} \<times> {0..<0 + 4}
         else {})
      else {})"

definition place_FG :: "u8 \<Rightarrow> (vregion \<times> nat) set" where
  "place_FG cnt =
     (if cnt AND 0x80 \<noteq> 0 then
        (if cnt AND 7 = 0 then {LCDC} \<times> {0}
         else if cnt AND 7 = 1 then {ABG} \<times> set [fg_base (field cnt), fg_base (field cnt) + 2]
         else if cnt AND 7 = 2 then {AOBJ} \<times> set [fg_base (field cnt), fg_base (field cnt) + 2]
         else if cnt AND 7 = 3 then {TexPal} \<times> {fg_base (field cnt)}
         else if cnt AND 7 = 4 then {ABGExtPal} \<times> {(field cnt mod 2) * 2, (field cnt mod 2) * 2 + 1}
         else if cnt AND 7 = 5 then {AOBJExtPal} \<times> {0}
         else {})
      else {})"

definition place_H :: "u8 \<Rightarrow> (vregion \<times> nat) set" where
  "place_H cnt =
     (if cnt AND 0x80 \<noteq> 0 then
        (if cnt AND 3 = 0 then {LCDC} \<times> {0}
         else if cnt AND 3 = 1 then {BBG} \<times> set [0, 1, 4, 5]
         else if cnt AND 3 = 2 then {BBGExtPal} \<times> {0..<0 + 4}
         else {})
      else {})"

definition place_I :: "u8 \<Rightarrow> (vregion \<times> nat) set" where
  "place_I cnt =
     (if cnt AND 0x80 \<noteq> 0 then
        (if cnt AND 3 = 0 then {LCDC} \<times> {0}
         else if cnt AND 3 = 1 then {BBG} \<times> set [2, 3, 6, 7]
         else if cnt AND 3 = 2 then {BOBJ} \<times> {0..<0 + 8}
         else {BOBJExtPal} \<times> {0})
      else {})"

definition place :: "nat \<Rightarrow> u8 \<Rightarrow> (vregion \<times> nat) set" where
  "place bank cnt =
     (if bank = 0 \<or> bank = 1 then place_AB cnt else if bank = 2 \<or> bank = 3 then place_CD bank cnt
      else if bank = 4 then place_E cnt else if bank = 5 \<or> bank = 6 then place_FG cnt
      else if bank = 7 then place_H cnt else if bank = 8 then place_I cnt else {})"

definition cnt_mask :: "nat \<Rightarrow> u8" where
  "cnt_mask bank = [0x9B, 0x9B, 0x9F, 0x9F, 0x87, 0x9F, 0x9F, 0x83, 0x83] ! bank"

section \<open>Consistency of the tables\<close>

text \<open>
  \<open>tables g P D\<close>: the entries hold the banks \<open>P r i\<close>, and the pointers are right except for
  the blocks in \<open>D\<close>.
\<close>

type_synonym occupancy = "vregion \<Rightarrow> nat \<Rightarrow> nat set"

definition tables :: "gpu \<Rightarrow> occupancy \<Rightarrow> (vregion \<times> nat) set \<Rightarrow> bool" where
  "tables g P D \<longleftrightarrow>
     (\<forall>r. length (VRAMMap g r) = blocks r \<and> length (VRAMPtr g r) = blocks r) \<and>
     (\<forall>r i b. i < blocks r \<longrightarrow> (bit (VRAMMap g r ! i) b \<longleftrightarrow> b \<in> P r i)) \<and>
     (\<forall>r i. i < blocks r \<and> has_ptr r \<and> (r, i) \<notin> D \<longrightarrow>
        VRAMPtr g r ! i = GetUniqueBankPtr (VRAMMap g r ! i) (push_bit 14 (of_nat i)))"

definition addP :: "nat \<Rightarrow> (vregion \<times> nat) set \<Rightarrow> occupancy \<Rightarrow> occupancy" where
  "addP b S P = (\<lambda>r i. if (r, i) \<in> S then insert b (P r i) else P r i)"

definition delP :: "nat \<Rightarrow> (vregion \<times> nat) set \<Rightarrow> occupancy \<Rightarrow> occupancy" where
  "delP b S P = (\<lambda>r i. if (r, i) \<in> S then P r i - {b} else P r i)"

lemma addP_Un: "addP b T (addP b S P) = addP b (S \<union> T) P"
  and delP_Un: "delP b T (delP b S P) = delP b (S \<union> T) P"
  and addP_empty: "addP b {} P = P" and delP_empty: "delP b {} P = P"
  by (auto simp: addP_def delP_def fun_eq_iff)

lemma tables_map_or:
  assumes "tables g P D" "i < blocks r" "b < 32"
  shows "tables (map_or r (push_bit b 1) i g) (addP b {(r, i)} P) (insert (r, i) D)"
  using assms unfolding tables_def
  by (auto simp: map_or_def addP_def bit_simps nth_list_update simp del: push_bit_of_1)

lemma tables_map_clear:
  assumes "tables g P D" "i < blocks r" "b < 32"
  shows "tables (map_clear r (push_bit b 1) i g) (delP b {(r, i)} P) (insert (r, i) D)"
proof -
  have "ba < 32" if "ba \<in> P r i" for ba
    using assms(1,2) that bit_imp_le_length [of "VRAMMap g r ! i" ba] by (auto simp: tables_def)
  then show ?thesis
    using assms unfolding tables_def
    by (auto simp: map_clear_def delP_def bit_simps nth_list_update simp del: push_bit_of_1)
qed

lemma tables_set_ptr:
  assumes "tables g P D" "i < blocks r"
  shows "tables (set_ptr r i g) P (D - {(r, i)})"
  using assms unfolding tables_def by (auto simp: set_ptr_def nth_list_update)

text \<open>Blocks of a space without pointers never matter for \<open>D\<close>.\<close>

lemma tables_no_ptr:
  assumes "tables g P D" "\<And>r i. (r, i) \<in> D \<Longrightarrow> (r, i) \<in> D' \<or> \<not> has_ptr r"
  shows "tables g P D'"
  using assms unfolding tables_def by blast

lemma tables_cong:
  "tables g P D \<Longrightarrow> VRAMMap g' = VRAMMap g \<Longrightarrow> VRAMPtr g' = VRAMPtr g \<Longrightarrow> tables g' P D"
  by (simp add: tables_def)

section \<open>The macros\<close>

lemma tables_fold_or:
  assumes "b < 32" "set bs \<subseteq> {..<blocks r}"
  shows "tables g P D \<Longrightarrow> tables (fold (map_or r (push_bit b 1)) bs g) (addP b ({r} \<times> set bs) P) (D \<union> {r} \<times> set bs)"
  using assms(2)
proof (induction bs arbitrary: g P D)
  case (Cons x xs)
  have "tables (fold (map_or r (push_bit b 1)) xs (map_or r (push_bit b 1) x g))
      (addP b ({r} \<times> set xs) (addP b {(r, x)} P)) (insert (r, x) D \<union> {r} \<times> set xs)"
    using Cons.prems by (intro Cons.IH tables_map_or assms(1)) auto
  moreover have "{(r, x)} \<union> {r} \<times> set xs = {r} \<times> set (x # xs)" by auto
  moreover have "insert (r, x) D \<union> {r} \<times> set xs = D \<union> {r} \<times> set (x # xs)" by auto
  ultimately show ?case by (simp add: addP_Un)
qed (simp add: addP_empty)

lemma tables_fold_clear:
  assumes "b < 32" "set bs \<subseteq> {..<blocks r}"
  shows "tables g P D \<Longrightarrow> tables (fold (map_clear r (push_bit b 1)) bs g) (delP b ({r} \<times> set bs) P) (D \<union> {r} \<times> set bs)"
  using assms(2)
proof (induction bs arbitrary: g P D)
  case (Cons x xs)
  have "tables (fold (map_clear r (push_bit b 1)) xs (map_clear r (push_bit b 1) x g))
      (delP b ({r} \<times> set xs) (delP b {(r, x)} P)) (insert (r, x) D \<union> {r} \<times> set xs)"
    using Cons.prems by (intro Cons.IH tables_map_clear assms(1)) auto
  moreover have "{(r, x)} \<union> {r} \<times> set xs = {r} \<times> set (x # xs)" by auto
  moreover have "insert (r, x) D \<union> {r} \<times> set xs = D \<union> {r} \<times> set (x # xs)" by auto
  ultimately show ?case by (simp add: delP_Un)
qed (simp add: delP_empty)

lemma tables_fold_ptr:
  "set bs \<subseteq> {..<blocks r} \<Longrightarrow> tables g P D \<Longrightarrow> tables (fold (set_ptr r) bs g) P (D - {r} \<times> set bs)"
proof (induction bs arbitrary: g D)
  case (Cons x xs)
  have "tables (fold (set_ptr r) xs (set_ptr r x g)) P (D - {(r, x)} - {r} \<times> set xs)"
    using Cons.prems by (intro Cons.IH tables_set_ptr) auto
  moreover have "D - {(r, x)} - {r} \<times> set xs = D - {r} \<times> set (x # xs)" by auto
  ultimately show ?case by simp
qed simp

text \<open>A macro updates its blocks and leaves every pointer right.\<close>

definition op_sets :: "gpu \<Rightarrow> gpu \<Rightarrow> bool" where
  "op_sets g' g \<longleftrightarrow> VRAMCNT g' = VRAMCNT g \<and> VRAM g' = VRAM g"

lemma op_sets_prims: "op_sets (map_or r m i g) g" "op_sets (map_clear r m i g) g" "op_sets (set_ptr r i g) g"
  by (simp_all add: op_sets_def map_or_def map_clear_def set_ptr_def)

lemma op_sets_fold: "(\<And>x g. op_sets (f x g) g) \<Longrightarrow> op_sets (fold f xs g) g"
  by (induction xs arbitrary: g) (auto simp: op_sets_def)

lemma op_sets_trans: "op_sets g2 g1 \<Longrightarrow> op_sets g1 g \<Longrightarrow> op_sets g2 g"
  by (simp add: op_sets_def)

lemma op_sets_refl: "op_sets g g"
  by (simp add: op_sets_def)

lemmas op_sets_macros =
  op_sets_prims op_sets_fold [OF op_sets_trans [OF op_sets_prims(3) op_sets_prims(1)]]
  op_sets_fold [OF op_sets_trans [OF op_sets_prims(3) op_sets_prims(2)]]
  op_sets_fold [OF op_sets_prims(1)] op_sets_fold [OF op_sets_prims(2)] op_sets_fold [OF op_sets_prims(3)]

lemma range_fold: "fold (\<lambda>i. f (base + i)) [0..<n] g = fold f [base..<base + n] g"
proof -
  have "fold (\<lambda>i. f (base + i)) [0..<n] g = fold f (map (\<lambda>i. i + base) [0..<n]) g"
    by (simp add: fold_map o_def add.commute)
  then show ?thesis by (simp only: map_add_upt add.commute)
qed

lemma range_sub: "base + n \<le> k \<Longrightarrow> set [base..<base + n] \<subseteq> {..<k}"
  by auto

lemma tables_ptr_or:
  assumes "b < 32" "set bs \<subseteq> {..<blocks r}"
  shows "tables g P {} \<Longrightarrow> tables (fold (\<lambda>i g. set_ptr r i (map_or r (push_bit b 1) i g)) bs g) (addP b ({r} \<times> set bs) P) {}"
  using assms(2)
proof (induction bs arbitrary: g P)
  case (Cons x xs)
  have "tables (set_ptr r x (map_or r (push_bit b 1) x g)) (addP b {(r, x)} P) (insert (r, x) {} - {(r, x)})"
    using Cons.prems by (intro tables_set_ptr tables_map_or assms(1)) auto
  then have "tables (fold (\<lambda>i g. set_ptr r i (map_or r (push_bit b 1) i g)) xs (set_ptr r x (map_or r (push_bit b 1) x g)))
      (addP b ({r} \<times> set xs) (addP b {(r, x)} P)) {}"
    using Cons.prems by (intro Cons.IH) auto
  moreover have "{(r, x)} \<union> {r} \<times> set xs = {r} \<times> set (x # xs)" by auto
  ultimately show ?case by (simp add: addP_Un)
qed (simp add: addP_empty)

lemma tables_ptr_clear:
  assumes "b < 32" "set bs \<subseteq> {..<blocks r}"
  shows "tables g P {} \<Longrightarrow> tables (fold (\<lambda>i g. set_ptr r i (map_clear r (push_bit b 1) i g)) bs g) (delP b ({r} \<times> set bs) P) {}"
  using assms(2)
proof (induction bs arbitrary: g P)
  case (Cons x xs)
  have "tables (set_ptr r x (map_clear r (push_bit b 1) x g)) (delP b {(r, x)} P) (insert (r, x) {} - {(r, x)})"
    using Cons.prems by (intro tables_set_ptr tables_map_clear assms(1)) auto
  then have "tables (fold (\<lambda>i g. set_ptr r i (map_clear r (push_bit b 1) i g)) xs (set_ptr r x (map_clear r (push_bit b 1) x g)))
      (delP b ({r} \<times> set xs) (delP b {(r, x)} P)) {}"
    using Cons.prems by (intro Cons.IH) auto
  moreover have "{(r, x)} \<union> {r} \<times> set xs = {r} \<times> set (x # xs)" by auto
  ultimately show ?case by (simp add: delP_Un)
qed (simp add: delP_empty)

text \<open>The eight ways the code maps and unmaps, on consistent tables.\<close>

lemma macro_or:
  assumes "tables g P {}" "b < 32"
  shows "base + n \<le> blocks r \<Longrightarrow> tables (MAP_RANGE_PTR r base n (push_bit b 1) g) (addP b ({r} \<times> {base..<base + n}) P) {}"
    and "base + n \<le> blocks r \<Longrightarrow> \<not> has_ptr r \<Longrightarrow>
      tables (MAP_RANGE r base n (push_bit b 1) g) (addP b ({r} \<times> {base..<base + n}) P) {}"
    and "set bs \<subseteq> {..<blocks r} \<Longrightarrow> tables (map_list_ptr r bs (push_bit b 1) g) (addP b ({r} \<times> set bs) P) {}"
    and "i < blocks r \<Longrightarrow> \<not> has_ptr r \<Longrightarrow> tables (map_or r (push_bit b 1) i g) (addP b ({r} \<times> {i}) P) {}"
proof -
  show "tables (MAP_RANGE_PTR r base n (push_bit b 1) g) (addP b ({r} \<times> {base..<base + n}) P) {}"
    if "base + n \<le> blocks r"
    using tables_ptr_or [OF assms(2) range_sub [OF that] assms(1)]
    unfolding MAP_RANGE_PTR_def range_fold [of "\<lambda>i g. set_ptr r i (map_or r (push_bit b 1) i g)"] by simp
  show "tables (MAP_RANGE r base n (push_bit b 1) g) (addP b ({r} \<times> {base..<base + n}) P) {}"
    if "base + n \<le> blocks r" "\<not> has_ptr r"
    using tables_no_ptr [OF tables_fold_or [OF assms(2) range_sub [OF that(1)] assms(1)], of "{}"] that(2)
    unfolding MAP_RANGE_def range_fold by auto
  show "tables (map_list_ptr r bs (push_bit b 1) g) (addP b ({r} \<times> set bs) P) {}" if "set bs \<subseteq> {..<blocks r}"
    using tables_fold_ptr [OF that tables_fold_or [OF assms(2) that assms(1)]] by (simp add: map_list_ptr_def)
  show "tables (map_or r (push_bit b 1) i g) (addP b ({r} \<times> {i}) P) {}" if "i < blocks r" "\<not> has_ptr r"
    using tables_no_ptr [OF tables_map_or [OF assms(1) that(1) assms(2)], of "{}"] that(2) by simp
qed

lemma macro_clear:
  assumes "tables g P {}" "b < 32"
  shows "base + n \<le> blocks r \<Longrightarrow> tables (UNMAP_RANGE_PTR r base n (push_bit b 1) g) (delP b ({r} \<times> {base..<base + n}) P) {}"
    and "base + n \<le> blocks r \<Longrightarrow> \<not> has_ptr r \<Longrightarrow>
      tables (UNMAP_RANGE r base n (push_bit b 1) g) (delP b ({r} \<times> {base..<base + n}) P) {}"
    and "set bs \<subseteq> {..<blocks r} \<Longrightarrow> tables (unmap_list_ptr r bs (push_bit b 1) g) (delP b ({r} \<times> set bs) P) {}"
    and "i < blocks r \<Longrightarrow> \<not> has_ptr r \<Longrightarrow> tables (map_clear r (push_bit b 1) i g) (delP b ({r} \<times> {i}) P) {}"
proof -
  show "tables (UNMAP_RANGE_PTR r base n (push_bit b 1) g) (delP b ({r} \<times> {base..<base + n}) P) {}"
    if "base + n \<le> blocks r"
    using tables_ptr_clear [OF assms(2) range_sub [OF that] assms(1)]
    unfolding UNMAP_RANGE_PTR_def range_fold [of "\<lambda>i g. set_ptr r i (map_clear r (push_bit b 1) i g)"] by simp
  show "tables (UNMAP_RANGE r base n (push_bit b 1) g) (delP b ({r} \<times> {base..<base + n}) P) {}"
    if "base + n \<le> blocks r" "\<not> has_ptr r"
    using tables_no_ptr [OF tables_fold_clear [OF assms(2) range_sub [OF that(1)] assms(1)], of "{}"] that(2)
    unfolding UNMAP_RANGE_def range_fold by auto
  show "tables (unmap_list_ptr r bs (push_bit b 1) g) (delP b ({r} \<times> set bs) P) {}" if "set bs \<subseteq> {..<blocks r}"
    using tables_fold_ptr [OF that tables_fold_clear [OF assms(2) that assms(1)]] by (simp add: unmap_list_ptr_def)
  show "tables (map_clear r (push_bit b 1) i g) (delP b ({r} \<times> {i}) P) {}" if "i < blocks r" "\<not> has_ptr r"
    using tables_no_ptr [OF tables_map_clear [OF assms(1) that(1) assms(2)], of "{}"] that(2) by simp
qed

section \<open>The register writes\<close>

text \<open>What the control registers prescribe.\<close>

definition prescribed :: "u8 list \<Rightarrow> occupancy" where
  "prescribed cnts = (\<lambda>r i. {b. b < 9 \<and> (r, i) \<in> place b (cnts ! b)})"

lemma prescribed_upd:
  assumes "bank < 9" "length cnts = 9"
  shows "addP bank (place bank cnt) (delP bank (place bank (cnts ! bank)) (prescribed cnts)) = prescribed (cnts[bank := cnt])"
  using assms by (auto simp: fun_eq_iff addP_def delP_def prescribed_def nth_list_update split: if_splits)

definition vram_inv :: "gpu \<Rightarrow> bool" where
  "vram_inv g \<longleftrightarrow>
     length (VRAMCNT g) = 9 \<and> (\<forall>b<9. VRAMCNT g ! b AND cnt_mask b = VRAMCNT g ! b) \<and>
     tables g (prescribed (VRAMCNT g)) {}"

lemma field_le: "field cnt \<le> 3"
proof -
  have "unat (drop_bit 3 cnt AND mask 2) = unat (drop_bit 3 cnt) mod 4"
    using unat_and_mask [of "drop_bit 3 cnt" 2] by simp
  then show ?thesis by (simp add: field_def mask_eq_exp_minus_1)
qed

text \<open>The offset field of a masked value has two bits.\<close>

lemma cnt_ofs_field:
  "cnt_ofs 0x3 cnt = field cnt" "cnt AND 0x9F = cnt \<Longrightarrow> cnt_ofs 0x7 cnt = field cnt"
proof -
  show "cnt_ofs 0x3 cnt = field cnt" by (simp add: cnt_ofs_def field_def)
  assume a: "cnt AND 0x9F = cnt"
  have "drop_bit 3 (cnt AND 0x9F) AND 7 = drop_bit 3 (cnt AND 0x9F) AND (3::u8)"
  proof (rule bit_word_eqI)
    fix n assume "n < LENGTH(8)"
    then have "n \<in> {0, 1, 2, 3, 4, 5, 6, 7}" by auto
    then show "bit (drop_bit 3 (cnt AND 0x9F) AND 7) n = bit (drop_bit 3 (cnt AND 0x9F) AND (3::u8)) n"
      by (elim insertE emptyE) (simp_all add: bit_simps)
  qed
  then show "cnt_ofs 0x7 cnt = field cnt" unfolding a by (simp add: cnt_ofs_def field_def)
qed

lemma fg_base_le: "fg_base (field cnt) + 2 < 8"
proof -
  have "field cnt \<in> {0, 1, 2, 3}" using field_le [of cnt] by auto
  then show ?thesis by (elim insertE emptyE) (simp_all add: fg_base_def)
qed

lemma no_ptr: "\<not> has_ptr LCDC" "\<not> has_ptr Texture" "\<not> has_ptr TexPal" "\<not> has_ptr ABGExtPal" "\<not> has_ptr AOBJExtPal"
  "\<not> has_ptr BBGExtPal" "\<not> has_ptr BOBJExtPal" "\<not> has_ptr ARM7"
  by (simp_all add: has_ptr_def)

text \<open>The code and the table of places branch on the same conditions.\<close>

lemma stage_del:
  "(c \<Longrightarrow> tables x (delP b S P) {}) \<Longrightarrow> (\<not> c \<Longrightarrow> tables y (delP b T P) {}) \<Longrightarrow>
   tables (if c then x else y) (delP b (if c then S else T) P) {}"
  by simp

lemma stage_add:
  "(c \<Longrightarrow> tables x (addP b S P) {}) \<Longrightarrow> (\<not> c \<Longrightarrow> tables y (addP b T P) {}) \<Longrightarrow>
   tables (if c then x else y) (addP b (if c then S else T) P) {}"
  by simp

lemma tables_none: "tables g P {} \<Longrightarrow> tables g (delP b {} P) {}" "tables g P {} \<Longrightarrow> tables g (addP b {} P) {}"
  by (simp_all add: addP_empty delP_empty)

lemma macro_two:
  assumes "tables g P {}" "b < 32" "i < blocks r" "j < blocks r" "\<not> has_ptr r"
  shows "tables (map_clear r (push_bit b 1) j (map_clear r (push_bit b 1) i g)) (delP b ({r} \<times> {i, j}) P) {}"
    and "tables (map_or r (push_bit b 1) j (map_or r (push_bit b 1) i g)) (addP b ({r} \<times> {i, j}) P) {}"
proof -
  have e: "{r} \<times> {i} \<union> {r} \<times> {j} = {r} \<times> {i, j}" by auto
  show "tables (map_clear r (push_bit b 1) j (map_clear r (push_bit b 1) i g)) (delP b ({r} \<times> {i, j}) P) {}"
    using macro_clear(4) [OF macro_clear(4) [OF assms(1,2,3,5)] assms(2,4,5)] by (simp only: delP_Un e)
  show "tables (map_or r (push_bit b 1) j (map_or r (push_bit b 1) i g)) (addP b ({r} \<times> {i, j}) P) {}"
    using macro_or(4) [OF macro_or(4) [OF assms(1,2,3,5)] assms(2,4,5)] by (simp only: addP_Un e)
qed

lemma block_bounds:
  "field cnt * 8 + 8 \<le> blocks ABG" "(field cnt mod 2) * 8 + 8 \<le> blocks AOBJ" "field cnt < blocks Texture"
  "field cnt mod 2 < blocks ARM7" "0 < blocks r" "fg_base (field cnt) < blocks TexPal"
  "(field cnt mod 2) * 2 < blocks ABGExtPal" "(field cnt mod 2) * 2 + 1 < blocks ABGExtPal"
  "set [fg_base (field cnt), fg_base (field cnt) + 2] \<subseteq> {..<blocks ABG}"
  "set [fg_base (field cnt), fg_base (field cnt) + 2] \<subseteq> {..<blocks AOBJ}"
  "set [0, 1, 4, 5] \<subseteq> {..<blocks BBG}" "set [2, 3, 6, 7] \<subseteq> {..<blocks BBG}"
  "0 + 8 \<le> blocks BBG" "0 + 8 \<le> blocks BOBJ" "0 + 4 \<le> blocks ABG" "0 + 4 \<le> blocks AOBJ" "0 + 4 \<le> blocks TexPal"
  "0 + 4 \<le> blocks ABGExtPal" "0 + 4 \<le> blocks BBGExtPal"
proof -
  note f = field_le [of cnt] fg_base_le [of cnt]
  have m: "field cnt mod 2 < 2" by simp
  show "(field cnt mod 2) * 8 + 8 \<le> blocks AOBJ" "(field cnt mod 2) * 2 < blocks ABGExtPal"
    "(field cnt mod 2) * 2 + 1 < blocks ABGExtPal"
    using m by (simp_all add: blocks_def del: mod_less_divisor)
  show "0 < blocks r" by (cases r) (simp_all add: blocks_def)
qed (use field_le [of cnt] fg_base_le [of cnt] in \<open>auto simp: blocks_def\<close>)

lemma MapVRAM_AB_tables:
  assumes t: "tables g P {}" and b: "bank < 32" and ne: "VRAMCNT g ! bank \<noteq> c AND 0x9B"
  shows "tables (MapVRAM_AB bank c g) (addP bank (place_AB (c AND 0x9B)) (delP bank (place_AB (VRAMCNT g ! bank)) P)) {}"
proof -
  have t0: "tables (set_cnt bank (c AND 0x9B) g) P {}" by (rule tables_cong [OF t]) (simp_all add: set_cnt_def)
  note del = macro_clear [OF t0 b] tables_none(1) [OF t0]
  show ?thesis
    unfolding MapVRAM_AB_def Let_def cnt_ofs_field(1) if_not_P [OF ne] place_AB_def
    by (rule stage_add stage_del macro_or(1,4) tables_none(2) del no_ptr block_bounds b)+
qed

lemma tables_misc: "tables g P D \<Longrightarrow> tables (g\<lparr>VRAMDirty := d, VRAMSTAT := s, InvalidatedWVRAM := w\<rparr>) P D"
  by (rule tables_cong) simp_all

lemma MapVRAM_CD_tables:
  assumes t: "tables g P {}" and b: "bank < 32" and ne: "VRAMCNT g ! bank \<noteq> c AND 0x9F"
    and old: "VRAMCNT g ! bank AND 0x9F = VRAMCNT g ! bank"
  shows "tables (MapVRAM_CD bank c g) (addP bank (place_CD bank (c AND 0x9F)) (delP bank (place_CD bank (VRAMCNT g ! bank)) P)) {}"
proof -
  have t0: "tables ((set_cnt bank (c AND 0x9F) g)\<lparr>VRAMSTAT := s\<rparr>) P {}" for s
    by (rule tables_cong [OF t]) (simp_all add: set_cnt_def)
  have c2: "cnt_ofs 0x7 (c AND 0x9F) = field (c AND 0x9F)" by (rule cnt_ofs_field) (simp add: and.assoc)
  note del = macro_clear [OF t0 b] tables_none(1) [OF t0]
  show ?thesis
    unfolding MapVRAM_CD_def Let_def cnt_ofs_field(2) [OF old] c2 if_not_P [OF ne] place_CD_def
    by (rule stage_add stage_del tables_misc macro_or(1,4) tables_none(2) del no_ptr block_bounds b)+
qed

lemma MapVRAM_E_tables:
  assumes t: "tables g P {}" and b: "bank < 32" and ne: "VRAMCNT g ! bank \<noteq> c AND 0x87"
  shows "tables (MapVRAM_E bank c g) (addP bank (place_E (c AND 0x87)) (delP bank (place_E (VRAMCNT g ! bank)) P)) {}"
proof -
  have t0: "tables (set_cnt bank (c AND 0x87) g) P {}" by (rule tables_cong [OF t]) (simp_all add: set_cnt_def)
  note del = macro_clear [OF t0 b] tables_none(1) [OF t0]
  show ?thesis
    unfolding MapVRAM_E_def Let_def if_not_P [OF ne] place_E_def
    by (rule stage_add stage_del macro_or(1,2,4) tables_none(2) del no_ptr block_bounds b)+
qed

lemma MapVRAM_FG_tables:
  assumes t: "tables g P {}" and b: "bank < 32" and ne: "VRAMCNT g ! bank \<noteq> c AND 0x9F"
    and old: "VRAMCNT g ! bank AND 0x9F = VRAMCNT g ! bank"
  shows "tables (MapVRAM_FG bank c g) (addP bank (place_FG (c AND 0x9F)) (delP bank (place_FG (VRAMCNT g ! bank)) P)) {}"
proof -
  have t0: "tables (set_cnt bank (c AND 0x9F) g) P {}" by (rule tables_cong [OF t]) (simp_all add: set_cnt_def)
  have c2: "cnt_ofs 0x7 (c AND 0x9F) = field (c AND 0x9F)" by (rule cnt_ofs_field) (simp add: and.assoc)
  note del = macro_clear(3,4) [OF t0 b] tables_none(1) [OF t0] macro_two(1) [OF t0 b]
  show ?thesis
    unfolding MapVRAM_FG_def Let_def cnt_ofs_field(2) [OF old] c2 if_not_P [OF ne] place_FG_def
    by (rule stage_add stage_del macro_two(2) macro_or(3,4) tables_none(2) del no_ptr block_bounds b)+
qed

lemma MapVRAM_H_tables:
  assumes t: "tables g P {}" and b: "bank < 32" and ne: "VRAMCNT g ! bank \<noteq> c AND 0x83"
  shows "tables (MapVRAM_H bank c g) (addP bank (place_H (c AND 0x83)) (delP bank (place_H (VRAMCNT g ! bank)) P)) {}"
proof -
  have t0: "tables (set_cnt bank (c AND 0x83) g) P {}" by (rule tables_cong [OF t]) (simp_all add: set_cnt_def)
  note del = macro_clear [OF t0 b] tables_none(1) [OF t0]
  show ?thesis
    unfolding MapVRAM_H_def Let_def if_not_P [OF ne] place_H_def
    by (rule stage_add stage_del macro_or(2,3,4) tables_none(2) del no_ptr block_bounds b)+
qed

lemma MapVRAM_I_tables:
  assumes t: "tables g P {}" and b: "bank < 32" and ne: "VRAMCNT g ! bank \<noteq> c AND 0x83"
  shows "tables (MapVRAM_I bank c g) (addP bank (place_I (c AND 0x83)) (delP bank (place_I (VRAMCNT g ! bank)) P)) {}"
proof -
  have t0: "tables (set_cnt bank (c AND 0x83) g) P {}" by (rule tables_cong [OF t]) (simp_all add: set_cnt_def)
  note del = macro_clear [OF t0 b] tables_none(1) [OF t0]
  show ?thesis
    unfolding MapVRAM_I_def Let_def if_not_P [OF ne] place_I_def
    by (rule stage_add stage_del macro_or(1,3,4) tables_none(2) del no_ptr block_bounds b)+
qed

text \<open>A write of a control register stores its masked value and leaves the memory alone.\<close>

lemma op_sets_ranges:
  "op_sets (MAP_RANGE r x n m g) g" "op_sets (UNMAP_RANGE r x n m g) g" "op_sets (MAP_RANGE_PTR r x n m g) g"
  "op_sets (UNMAP_RANGE_PTR r x n m g) g" "op_sets (map_list_ptr r bs m g) g" "op_sets (unmap_list_ptr r bs m g) g"
  by (simp_all add: MAP_RANGE_def UNMAP_RANGE_def MAP_RANGE_PTR_def UNMAP_RANGE_PTR_def map_list_ptr_def unmap_list_ptr_def
      op_sets_macros op_sets_trans [OF op_sets_macros(8) op_sets_macros(6)] op_sets_trans [OF op_sets_macros(8) op_sets_macros(7)])

lemmas op_sets_simps = op_sets_ranges [unfolded op_sets_def] op_sets_prims [unfolded op_sets_def]

lemma WriteVRAMCNT_fields:
  assumes "bank < 9"
  shows "VRAMCNT (WriteVRAMCNT bank v g) = (VRAMCNT g)[bank := v AND cnt_mask bank]" "VRAM (WriteVRAMCNT bank v g) = VRAM g"
proof -
  have "bank \<in> {0, 1, 2, 3, 4, 5, 6, 7, 8}" using assms by auto
  then have "VRAMCNT (WriteVRAMCNT bank v g) = (VRAMCNT g)[bank := v AND cnt_mask bank] \<and> VRAM (WriteVRAMCNT bank v g) = VRAM g"
    by (elim insertE emptyE)
      (simp_all add: WriteVRAMCNT_def cnt_mask_def MapVRAM_AB_def MapVRAM_CD_def MapVRAM_E_def MapVRAM_FG_def
        MapVRAM_H_def MapVRAM_I_def Let_def set_cnt_def op_sets_simps)
  then show "VRAMCNT (WriteVRAMCNT bank v g) = (VRAMCNT g)[bank := v AND cnt_mask bank]" "VRAM (WriteVRAMCNT bank v g) = VRAM g"
    by auto
qed

text \<open>Writing the value a register already holds changes no table.\<close>

lemma WriteVRAMCNT_same:
  assumes "tables g P {}" "bank < 9" "VRAMCNT g ! bank = v AND cnt_mask bank"
  shows "tables (WriteVRAMCNT bank v g) P {}"
proof -
  have "bank \<in> {0, 1, 2, 3, 4, 5, 6, 7, 8}" using assms(2) by auto
  then have "VRAMMap (WriteVRAMCNT bank v g) = VRAMMap g \<and> VRAMPtr (WriteVRAMCNT bank v g) = VRAMPtr g"
    using assms(3)
    by (elim insertE emptyE)
      (simp_all add: WriteVRAMCNT_def cnt_mask_def MapVRAM_AB_def MapVRAM_CD_def MapVRAM_E_def MapVRAM_FG_def
        MapVRAM_H_def MapVRAM_I_def Let_def set_cnt_def)
  with assms(1) show ?thesis by (auto intro: tables_cong)
qed

lemma WriteVRAMCNT_changed:
  assumes t: "tables g P {}" and b: "bank < 9" and ne: "VRAMCNT g ! bank \<noteq> v AND cnt_mask bank"
    and old: "VRAMCNT g ! bank AND cnt_mask bank = VRAMCNT g ! bank"
  shows "tables (WriteVRAMCNT bank v g) (addP bank (place bank (v AND cnt_mask bank)) (delP bank (place bank (VRAMCNT g ! bank)) P)) {}"
proof -
  have "bank \<in> {0, 1, 2, 3, 4, 5, 6, 7, 8}" using b by auto
  then show ?thesis
    using ne old
    by (elim insertE emptyE)
      (simp_all add: WriteVRAMCNT_def cnt_mask_def place_def MapVRAM_AB_tables [OF t] MapVRAM_CD_tables [OF t]
        MapVRAM_E_tables [OF t] MapVRAM_FG_tables [OF t] MapVRAM_H_tables [OF t] MapVRAM_I_tables [OF t])
qed

lemma vram_inv_reset: "vram_inv VRAM_Reset"
proof -
  have "place b 0 = {}" for b
    by (simp add: place_def place_AB_def place_CD_def place_E_def place_FG_def place_H_def place_I_def)
  then have "prescribed (replicate 9 0) r i = {}" for r i by (auto simp: prescribed_def)
  then show ?thesis by (simp add: vram_inv_def tables_def VRAM_Reset_def GetUniqueBankPtr_def)
qed

lemma WriteVRAMCNT_inv:
  assumes inv: "vram_inv g" and b: "bank < 9"
  shows "vram_inv (WriteVRAMCNT bank v g)"
proof -
  let ?c = "v AND cnt_mask bank"
  have len: "length (VRAMCNT g) = 9" and masked: "\<And>b. b < 9 \<Longrightarrow> VRAMCNT g ! b AND cnt_mask b = VRAMCNT g ! b"
    and t: "tables g (prescribed (VRAMCNT g)) {}"
    using inv by (auto simp: vram_inv_def)
  have "tables (WriteVRAMCNT bank v g) (prescribed ((VRAMCNT g)[bank := ?c])) {}"
  proof (cases "VRAMCNT g ! bank = ?c")
    case True
    then have "(VRAMCNT g)[bank := ?c] = VRAMCNT g" by (metis list_update_id)
    with WriteVRAMCNT_same [OF t b True] show ?thesis by simp
  next
    case False
    from WriteVRAMCNT_changed [OF t b False masked [OF b]] show ?thesis
      by (simp only: prescribed_upd [OF b len])
  qed
  with len masked b show ?thesis
    by (auto simp: vram_inv_def WriteVRAMCNT_fields nth_list_update and.assoc)
qed

section \<open>Properties\<close>

text \<open>
  C1: after any sequence of control register writes from reset, the mapping tables are the
  ones the current register values prescribe: a bank is in the entry of a block exactly when
  its register places it there (nothing is left behind by a remapping and nothing is lost),
  and every pointer is the unique bank of its entry, or null.
\<close>

theorem VRAM_maps_follow_registers:
  assumes "\<forall>(bank, v) \<in> set ws. bank < 9"
  defines "g \<equiv> fold (\<lambda>(bank, v). WriteVRAMCNT bank v) ws VRAM_Reset"
  shows "length (VRAMCNT g) = 9 \<and>
    (\<forall>r i b. i < blocks r \<longrightarrow> (bit (VRAMMap g r ! i) b \<longleftrightarrow> b < 9 \<and> (r, i) \<in> place b (VRAMCNT g ! b))) \<and>
    (\<forall>r i. i < blocks r \<and> has_ptr r \<longrightarrow>
       VRAMPtr g r ! i = GetUniqueBankPtr (VRAMMap g r ! i) (push_bit 14 (of_nat i)))"
proof -
  have "vram_inv h \<Longrightarrow> vram_inv (fold (\<lambda>(bank, v). WriteVRAMCNT bank v) ws h)" for h
    using assms(1)
  proof (induction ws arbitrary: h)
    case (Cons w ws)
    obtain bank v where w: "w = (bank, v)" by (cases w)
    have "vram_inv (WriteVRAMCNT bank v h)" using Cons.prems w by (intro WriteVRAMCNT_inv) auto
    with Cons.IH Cons.prems w show ?case by simp
  qed simp
  then have "vram_inv g" unfolding g_def using vram_inv_reset by blast
  then show ?thesis by (auto simp: vram_inv_def tables_def prescribed_def)
qed

theorem VRAM_maps_follow_registers_witness:
  "bit (VRAMMap (fold (\<lambda>(bank, v). WriteVRAMCNT bank v) [(0, 0x81), (2, 0x84), (0, 0x8B)] VRAM_Reset) Texture ! 1) 0"
proof -
  let ?ws = "[(0, 0x81), (2, 0x84), (0, 0x8B)] :: (nat \<times> u8) list"
  let ?g = "fold (\<lambda>(bank, v). WriteVRAMCNT bank v) ?ws VRAM_Reset"
  have "VRAMCNT ?g ! 0 = 0x8B"
    by (simp add: WriteVRAMCNT_fields cnt_mask_def VRAM_Reset_def)
  moreover have "(Texture, 1) \<in> place 0 0x8B" by (simp add: place_def place_AB_def field_def)
  moreover have "(1::nat) < blocks Texture" by (simp add: blocks_def)
  ultimately show ?thesis using VRAM_maps_follow_registers [of ?ws] by auto
qed

end
