(* ===== verification/Vram_Access.thy ===== *)
theory Vram_Access
  imports Vram_Map
begin

text \<open>
  Reading and writing video memory, the access templates of \<^verbatim>\<open>src/src/GPU.h\<close>. The template
  parameter \<^verbatim>\<open>T\<close> is the word type of the result; the callers align addresses to its size,
  so an access stays inside its bank. Overlapping banks are read as the OR of their
  contents and all written. Where one bank alone is mapped the code reads through its
  pointer; the theory shows that this gives the same value.
\<close>

section \<open>Memory\<close>

definition ld :: "(nat \<Rightarrow> u8) \<Rightarrow> nat \<Rightarrow> 'a::len word" where
  "ld m a = foldl (\<lambda>acc i. acc OR push_bit (8 * i) (ucast (m (a + i)))) 0 [0..<LENGTH('a) div 8]"

definition st :: "(nat \<Rightarrow> u8) \<Rightarrow> nat \<Rightarrow> 'a::len word \<Rightarrow> nat \<Rightarrow> u8" where
  "st m a v = (\<lambda>k. if a \<le> k \<and> k < a + LENGTH('a) div 8 then ucast (drop_bit (8 * (k - a)) v) else m k)"

section \<open>Reads\<close>

text \<open>
  \<^verbatim>\<open>if (mask & (1 << k)) ret |= *(T*)&VRAM[bank][addr & m]\<close> for each line \<open>(k, bank, m)\<close>
  of the list.
\<close>

definition read_banks :: "(nat \<times> nat \<times> u32) list \<Rightarrow> u32 \<Rightarrow> u32 \<Rightarrow> gpu \<Rightarrow> 'a::len word" where
  "read_banks ls msk addr g =
     foldl (\<lambda>ret (k, bank, m). if bit msk k then ret OR ld (VRAM g bank) (unat (addr AND m)) else ret) 0 ls"

definition ReadVRAM_ABG :: "u32 \<Rightarrow> gpu \<Rightarrow> 'a::len word" where
  "ReadVRAM_ABG addr g =
     (let i = unat (drop_bit 14 addr AND 0x1F)
      in case VRAMPtr g ABG ! i of
           Some (bank, ofs) \<Rightarrow> ld (VRAM g bank) (unat ofs + unat (addr AND 0x3FFF))
         | None \<Rightarrow>
             read_banks [(0, 0, 0x1FFFF), (1, 1, 0x1FFFF), (2, 2, 0x1FFFF), (3, 3, 0x1FFFF), (4, 4, 0xFFFF),
                (5, 5, 0x3FFF), (6, 6, 0x3FFF)] (VRAMMap g ABG ! i) addr g)"

definition ReadVRAM_AOBJ :: "u32 \<Rightarrow> gpu \<Rightarrow> 'a::len word" where
  "ReadVRAM_AOBJ addr g =
     (let i = unat (drop_bit 14 addr AND 0xF)
      in case VRAMPtr g AOBJ ! i of
           Some (bank, ofs) \<Rightarrow> ld (VRAM g bank) (unat ofs + unat (addr AND 0x3FFF))
         | None \<Rightarrow>
             read_banks [(0, 0, 0x1FFFF), (1, 1, 0x1FFFF), (4, 4, 0xFFFF), (5, 5, 0x3FFF), (6, 6, 0x3FFF)]
               (VRAMMap g AOBJ ! i) addr g)"

definition ReadVRAM_BBG :: "u32 \<Rightarrow> gpu \<Rightarrow> 'a::len word" where
  "ReadVRAM_BBG addr g =
     (let i = unat (drop_bit 14 addr AND 0x7)
      in case VRAMPtr g BBG ! i of
           Some (bank, ofs) \<Rightarrow> ld (VRAM g bank) (unat ofs + unat (addr AND 0x3FFF))
         | None \<Rightarrow> read_banks [(2, 2, 0x1FFFF), (7, 7, 0x7FFF), (8, 8, 0x3FFF)] (VRAMMap g BBG ! i) addr g)"

definition ReadVRAM_BOBJ :: "u32 \<Rightarrow> gpu \<Rightarrow> 'a::len word" where
  "ReadVRAM_BOBJ addr g =
     (let i = unat (drop_bit 14 addr AND 0x7)
      in case VRAMPtr g BOBJ ! i of
           Some (bank, ofs) \<Rightarrow> ld (VRAM g bank) (unat ofs + unat (addr AND 0x3FFF))
         | None \<Rightarrow> read_banks [(3, 3, 0x1FFFF), (8, 8, 0x3FFF)] (VRAMMap g BOBJ ! i) addr g)"

definition ReadVRAM_ARM7 :: "u32 \<Rightarrow> gpu \<Rightarrow> 'a::len word" where
  "ReadVRAM_ARM7 addr g =
     read_banks [(2, 2, 0x1FFFF), (3, 3, 0x1FFFF)] (VRAMMap g ARM7 ! unat (drop_bit 17 addr AND 0x1)) addr g"

definition ReadVRAM_BG :: "u32 \<Rightarrow> gpu \<Rightarrow> 'a::len word" where
  "ReadVRAM_BG addr g =
     (if addr AND 0xFFE00000 = 0x06000000 then ReadVRAM_ABG addr g else ReadVRAM_BBG addr g)"

definition ReadVRAM_OBJ :: "u32 \<Rightarrow> gpu \<Rightarrow> 'a::len word" where
  "ReadVRAM_OBJ addr g =
     (if addr AND 0xFFE00000 = 0x06400000 then ReadVRAM_AOBJ addr g else ReadVRAM_BOBJ addr g)"

definition ReadVRAM_Texture :: "u32 \<Rightarrow> gpu \<Rightarrow> 'a::len word" where
  "ReadVRAM_Texture addr g =
     read_banks [(0, 0, 0x1FFFF), (1, 1, 0x1FFFF), (2, 2, 0x1FFFF), (3, 3, 0x1FFFF)]
       (VRAMMap g Texture ! unat (drop_bit 17 addr AND 0x3)) addr g"

definition ReadVRAM_TexPal :: "u32 \<Rightarrow> gpu \<Rightarrow> 'a::len word" where
  "ReadVRAM_TexPal addr g =
     read_banks [(4, 4, 0xFFFF), (5, 5, 0x3FFF), (6, 6, 0x3FFF)]
       (VRAMMap g TexPal ! unat (drop_bit 14 addr AND 0x7)) addr g"

definition ReadVRAM_ABGExtPal :: "u32 \<Rightarrow> gpu \<Rightarrow> 'a::len word" where
  "ReadVRAM_ABGExtPal addr g =
     read_banks [(4, 4, 0x7FFF), (5, 5, 0x3FFF), (6, 6, 0x3FFF)]
       (VRAMMap g ABGExtPal ! unat (drop_bit 13 addr AND 0x3)) addr g"

definition ReadVRAM_BBGExtPal :: "u32 \<Rightarrow> gpu \<Rightarrow> 'a::len word" where
  "ReadVRAM_BBGExtPal addr g =
     read_banks [(7, 7, 0x7FFF)] (VRAMMap g BBGExtPal ! unat (drop_bit 13 addr AND 0x3)) addr g"

text \<open>The code tests bits 4 and 5 for the banks F and G, whose numbers are 5 and 6.\<close>

definition ReadVRAM_AOBJExtPal :: "u32 \<Rightarrow> gpu \<Rightarrow> 'a::len word" where
  "ReadVRAM_AOBJExtPal addr g =
     read_banks [(4, 5, 0x1FFF), (5, 6, 0x1FFF)] (VRAMMap g AOBJExtPal ! 0) addr g"

definition ReadVRAM_BOBJExtPal :: "u32 \<Rightarrow> gpu \<Rightarrow> 'a::len word" where
  "ReadVRAM_BOBJExtPal addr g = read_banks [(8, 8, 0x1FFF)] (VRAMMap g BOBJExtPal ! 0) addr g"

text \<open>The \<^verbatim>\<open>switch\<close> of the LCDC space: the bank and the mask of the offset.\<close>

definition lcdc_bank :: "u32 \<Rightarrow> (nat \<times> u32) option" where
  "lcdc_bank addr =
     (let a = addr AND 0xFF8FC000
      in if a \<in> {0x06800000, 0x06804000, 0x06808000, 0x0680C000, 0x06810000, 0x06814000, 0x06818000, 0x0681C000}
         then Some (0, 0x1FFFF)
         else if a \<in> {0x06820000, 0x06824000, 0x06828000, 0x0682C000, 0x06830000, 0x06834000, 0x06838000, 0x0683C000}
         then Some (1, 0x1FFFF)
         else if a \<in> {0x06840000, 0x06844000, 0x06848000, 0x0684C000, 0x06850000, 0x06854000, 0x06858000, 0x0685C000}
         then Some (2, 0x1FFFF)
         else if a \<in> {0x06860000, 0x06864000, 0x06868000, 0x0686C000, 0x06870000, 0x06874000, 0x06878000, 0x0687C000}
         then Some (3, 0x1FFFF)
         else if a \<in> {0x06880000, 0x06884000, 0x06888000, 0x0688C000} then Some (4, 0xFFFF)
         else if a = 0x06890000 then Some (5, 0x3FFF)
         else if a = 0x06894000 then Some (6, 0x3FFF)
         else if a \<in> {0x06898000, 0x0689C000} then Some (7, 0x7FFF)
         else if a = 0x068A0000 then Some (8, 0x3FFF)
         else None)"

definition ReadVRAM_LCDC :: "u32 \<Rightarrow> gpu \<Rightarrow> 'a::len word" where
  "ReadVRAM_LCDC addr g =
     (case lcdc_bank addr of
        None \<Rightarrow> 0
      | Some (bank, m) \<Rightarrow> if bit (VRAMMap g LCDC ! 0) bank then ld (VRAM g bank) (unat (addr AND m)) else 0)"

section \<open>Writes\<close>

definition store_bank :: "nat \<Rightarrow> u32 \<Rightarrow> 'a::len word \<Rightarrow> gpu \<Rightarrow> gpu" where
  "store_bank bank a v g = g\<lparr>VRAM := (VRAM g)(bank := st (VRAM g bank) (unat a) v)\<rparr>"

definition mark_dirty :: "nat \<Rightarrow> u32 \<Rightarrow> gpu \<Rightarrow> gpu" where
  "mark_dirty bank a g =
     g\<lparr>VRAMDirty := (VRAMDirty g)[bank := BF_set (VRAMDirty g ! bank) (a div VRAMDirtyGranularity) True]\<rparr>"

text \<open>One line \<open>(bank, m)\<close> for each \<^verbatim>\<open>if (mask & (1 << bank))\<close> of the code.\<close>

definition write_banks :: "(nat \<times> u32) list \<Rightarrow> u32 \<Rightarrow> u32 \<Rightarrow> 'a::len word \<Rightarrow> gpu \<Rightarrow> gpu" where
  "write_banks ls msk addr v g =
     foldl (\<lambda>g (bank, m). if bit msk bank then store_bank bank (addr AND m) v (mark_dirty bank (addr AND m) g) else g) g ls"

definition WriteVRAM_ABG :: "u32 \<Rightarrow> 'a::len word \<Rightarrow> gpu \<Rightarrow> gpu" where
  "WriteVRAM_ABG addr v g =
     write_banks [(0, 0x1FFFF), (1, 0x1FFFF), (2, 0x1FFFF), (3, 0x1FFFF), (4, 0xFFFF), (5, 0x3FFF), (6, 0x3FFF)]
       (VRAMMap g ABG ! unat (drop_bit 14 addr AND 0x1F)) addr v g"

definition WriteVRAM_AOBJ :: "u32 \<Rightarrow> 'a::len word \<Rightarrow> gpu \<Rightarrow> gpu" where
  "WriteVRAM_AOBJ addr v g =
     write_banks [(0, 0x1FFFF), (1, 0x1FFFF), (4, 0xFFFF), (5, 0x3FFF), (6, 0x3FFF)]
       (VRAMMap g AOBJ ! unat (drop_bit 14 addr AND 0xF)) addr v g"

definition WriteVRAM_BBG :: "u32 \<Rightarrow> 'a::len word \<Rightarrow> gpu \<Rightarrow> gpu" where
  "WriteVRAM_BBG addr v g =
     write_banks [(2, 0x1FFFF), (7, 0x7FFF), (8, 0x3FFF)] (VRAMMap g BBG ! unat (drop_bit 14 addr AND 0x7)) addr v g"

definition WriteVRAM_BOBJ :: "u32 \<Rightarrow> 'a::len word \<Rightarrow> gpu \<Rightarrow> gpu" where
  "WriteVRAM_BOBJ addr v g =
     write_banks [(3, 0x1FFFF), (8, 0x3FFF)] (VRAMMap g BOBJ ! unat (drop_bit 14 addr AND 0x7)) addr v g"

text \<open>The ARM7 view writes without marking the bank dirty: it was marked whole when it was mapped.\<close>

definition WriteVRAM_ARM7 :: "u32 \<Rightarrow> 'a::len word \<Rightarrow> gpu \<Rightarrow> gpu" where
  "WriteVRAM_ARM7 addr v g =
     (let msk = VRAMMap g ARM7 ! unat (drop_bit 17 addr AND 0x1);
          g1 = (if bit msk 2 then store_bank 2 (addr AND 0x1FFFF) v g else g)
      in if bit msk 3 then store_bank 3 (addr AND 0x1FFFF) v g1 else g1)"

definition WriteVRAM_LCDC :: "u32 \<Rightarrow> 'a::len word \<Rightarrow> gpu \<Rightarrow> gpu" where
  "WriteVRAM_LCDC addr v g =
     (case lcdc_bank addr of
        None \<Rightarrow> g
      | Some (bank, m) \<Rightarrow>
          if bit (VRAMMap g LCDC ! 0) bank then mark_dirty bank (addr AND m) (store_bank bank (addr AND m) v g) else g)"

section \<open>Loads and stores\<close>

lemma bit_ld:
  assumes "8 dvd LENGTH('a::len)"
  shows "bit (ld m a :: 'a word) n \<longleftrightarrow> n < LENGTH('a) \<and> bit (m (a + n div 8)) (n mod 8)"
proof -
  have f: "bit (foldl (\<lambda>acc i. acc OR push_bit (8 * i) (ucast (m (a + i)))) acc xs :: 'a word) n \<longleftrightarrow>
      bit acc n \<or> n < LENGTH('a) \<and> (\<exists>i \<in> set xs. 8 * i \<le> n \<and> bit (m (a + i)) (n - 8 * i))" for acc xs
    by (induction xs arbitrary: acc) (auto simp: bit_simps)
  have one: "8 * i \<le> n \<and> bit (m (a + i)) (n - 8 * i) \<longleftrightarrow> i = n div 8 \<and> bit (m (a + i)) (n mod 8)" for i
  proof
    assume l: "8 * i \<le> n \<and> bit (m (a + i)) (n - 8 * i)"
    then have "n - 8 * i < 8" using bit_imp_le_length [of "m (a + i)" "n - 8 * i"] by simp
    with l have "i = n div 8" by linarith
    moreover from this have "n - 8 * i = n mod 8" by (simp add: minus_mult_div_eq_mod)
    ultimately show "i = n div 8 \<and> bit (m (a + i)) (n mod 8)" using l by simp
  next
    assume "i = n div 8 \<and> bit (m (a + i)) (n mod 8)"
    then show "8 * i \<le> n \<and> bit (m (a + i)) (n - 8 * i)" by (auto simp: minus_mult_div_eq_mod)
  qed
  have "n < LENGTH('a) \<Longrightarrow> n div 8 < LENGTH('a) div 8" using assms by (auto simp: div_less_iff_less_mult)
  then show ?thesis unfolding ld_def f by (auto simp: one)
qed

lemma ld_st:
  assumes "8 dvd LENGTH('a::len)"
  shows "ld (st m a v) a = (v :: 'a word)"
proof (rule bit_word_eqI)
  fix n assume n: "n < LENGTH('a)"
  have "n div 8 < LENGTH('a) div 8" using n assms by (auto simp: div_less_iff_less_mult)
  then show "bit (ld (st m a v) a :: 'a word) n = bit v n"
    using n unfolding bit_ld [OF assms] by (auto simp: st_def bit_simps)
qed

lemma bit_read_banks:
  "bit (read_banks ls msk addr g :: 'a::len word) n \<longleftrightarrow>
   (\<exists>(k, bank, m) \<in> set ls. bit msk k \<and> bit (ld (VRAM g bank) (unat (addr AND m)) :: 'a word) n)"
proof -
  have "bit (foldl (\<lambda>ret (k, bank, m). if bit msk k then ret OR ld (VRAM g bank) (unat (addr AND m)) else ret) a ls :: 'a word) n \<longleftrightarrow>
     bit a n \<or> (\<exists>(k, bank, m) \<in> set ls. bit msk k \<and> bit (ld (VRAM g bank) (unat (addr AND m)) :: 'a word) n)" for a
    by (induction ls arbitrary: a) (auto simp: bit_or_iff split: if_splits)
  then show ?thesis by (simp add: read_banks_def)
qed

section \<open>The pointer of a block\<close>

text \<open>Subtracting one clears the lowest bit, sets the ones below it and keeps the ones above.\<close>

lemma bit_pred_above:
  fixes w :: u32
  assumes "w \<noteq> 0" "k > ctz w"
  shows "bit (w - 1) k = bit w k"
proof -
  let ?c = "ctz w" and ?r = "w AND NOT (push_bit (ctz w) 1)"
  note c = ctz_props [OF assms(1)]
  have r: "bit ?r n \<longleftrightarrow> bit w n \<and> n \<noteq> ?c" for n
    by (auto simp: bit_simps simp del: push_bit_of_1 dest: bit_imp_le_length)
  have "w = ?r OR push_bit ?c 1"
    using c(1,3) by (intro bit_word_eqI) (auto simp: r bit_or_iff bit_push_bit_iff bit_1_iff simp del: push_bit_of_1)
  moreover have "?r OR push_bit ?c 1 = ?r + push_bit ?c 1"
    by (rule disjunctive_add [symmetric]) (auto simp: r bit_push_bit_iff bit_1_iff simp del: push_bit_of_1)
  ultimately have "w - 1 = ?r + mask ?c" by (simp add: mask_eq_exp_minus_1 push_bit_eq_mult)
  also have "\<dots> = ?r OR mask ?c"
    using c(2) by (intro disjunctive_add) (auto simp: r bit_mask_iff simp del: push_bit_of_1)
  finally have e: "w - 1 = ?r OR mask ?c" .
  show ?thesis unfolding e using assms(2) by (auto simp: bit_or_iff r bit_mask_iff simp del: push_bit_of_1)
qed

lemma unique_bank:
  assumes "GetUniqueBankPtr msk ofs = Some (num, o')"
  shows "bit msk k \<longleftrightarrow> k = num" "o' = ofs AND VRAMMask num"
proof -
  from assms have m: "msk \<noteq> 0" "msk AND (msk - 1) = 0" "num = ctz msk" "o' = ofs AND VRAMMask num"
    by (auto simp: GetUniqueBankPtr_def Let_def split: if_splits)
  show "o' = ofs AND VRAMMask num" by (rule m(4))
  note c = ctz_props [OF m(1)]
  have "\<not> bit msk k" if "k > ctz msk" for k
    using m(2) bit_pred_above [OF m(1) that] by (metis bit_0_eq bit_and_iff bot_apply bot_bool_def)
  then show "bit msk k \<longleftrightarrow> k = num" using c m(3) by (metis linorder_neqE_nat)
qed

text \<open>
  The offset of a block in its bank plus the offset in the block is the address masked to
  the bank, for every bank: a block number taken from the address keeps all the bits the
  mask can keep.
\<close>

lemma bank_masks:
  assumes "num < 9"
  shows "\<exists>n. VRAMMask num = mask n \<and> 14 \<le> n \<and> n \<le> 17"
proof -
  have "num \<in> {0, 1, 2, 3, 4, 5, 6, 7, 8}" using assms by auto
  moreover have "(0x1FFFF :: u32) = mask 17" "(0xFFFF :: u32) = mask 16" "(0x7FFF :: u32) = mask 15" "(0x3FFF :: u32) = mask 14"
    by (simp_all add: mask_eq_exp_minus_1)
  ultimately show ?thesis
    by (elim insertE emptyE) (simp_all add: VRAMMask_def, (rule exI, rule conjI, assumption, simp)+)
qed

lemma bank_offset:
  assumes "num < 9" "3 \<le> w"
  shows "unat ((push_bit 14 (of_nat (unat (drop_bit 14 addr AND mask w))) :: u32) AND VRAMMask num) + unat (addr AND 0x3FFF)
    = unat (addr AND VRAMMask num)"
proof -
  obtain n where n: "VRAMMask num = mask n" "14 \<le> n" "n \<le> 17" using bank_masks [OF assms(1)] by blast
  let ?hi = "push_bit 14 (drop_bit 14 addr AND mask w) AND mask n :: u32" and ?lo = "addr AND mask 14 :: u32"
  have bits: "bit ?hi k \<longleftrightarrow> 14 \<le> k \<and> k < n \<and> bit addr k" "bit ?lo k \<longleftrightarrow> k < 14 \<and> bit addr k" for k
    using n(3) assms(2) by (auto simp: bit_simps dest: bit_imp_le_length)
  have "?hi OR ?lo = addr AND mask n"
    using n(2) by (intro bit_word_eqI) (simp only: bit_or_iff bits, auto simp: bit_and_iff bit_mask_iff)
  moreover have "?hi + ?lo = ?hi OR ?lo" by (rule disjunctive_add) (simp only: bits, auto)
  moreover have "unat (?hi + ?lo) = unat ?hi + unat ?lo"
  proof (rule unat_plus_small)
    have "unat ?hi < 2 ^ n" "unat ?lo < 2 ^ 14" by (simp_all only: unat_and_mask) simp_all
    moreover have "(2::nat) ^ n \<le> 2 ^ 17" using n(3) by (rule power_increasing) simp
    ultimately show "unat ?hi + unat ?lo < 2 ^ LENGTH(32)" by simp
  qed
  moreover have "(0x3FFF :: u32) = mask 14" by (simp add: mask_eq_exp_minus_1)
  ultimately show ?thesis by (simp add: n(1))
qed

section \<open>What a read returns\<close>

text \<open>
  The specification: the OR of the mapped banks, each at the address masked to its size.
  \<open>i\<close> is the number of the block.
\<close>

definition or_of_banks :: "gpu \<Rightarrow> vregion \<Rightarrow> nat \<Rightarrow> u32 \<Rightarrow> 'a::len word \<Rightarrow> bool" where
  "or_of_banks g r i addr v \<longleftrightarrow>
     (\<forall>n. bit v n \<longleftrightarrow>
        (\<exists>b<9. (r, i) \<in> place b (VRAMCNT g ! b) \<and> bit (ld (VRAM g b) (unat (addr AND VRAMMask b)) :: 'a word) n))"

lemma map_bit_place:
  "vram_inv g \<Longrightarrow> i < blocks r \<Longrightarrow> bit (VRAMMap g r ! i) b \<longleftrightarrow> b < 9 \<and> (r, i) \<in> place b (VRAMCNT g ! b)"
  by (simp add: vram_inv_def tables_def prescribed_def)

text \<open>Reading line by line, when the lines cover the banks that can be mapped.\<close>

lemma read_banks_or:
  assumes inv: "vram_inv g" and i: "i < blocks r"
    and lines: "\<And>k bank m. (k, bank, m) \<in> set ls \<Longrightarrow> bank = k \<and> m = VRAMMask k"
    and all: "\<And>b. b < 9 \<Longrightarrow> (r, i) \<in> place b (VRAMCNT g ! b) \<Longrightarrow> \<exists>bank m. (b, bank, m) \<in> set ls"
  shows "or_of_banks g r i addr (read_banks ls (VRAMMap g r ! i) addr g :: 'a::len word)"
  unfolding or_of_banks_def bit_read_banks
proof (intro allI iffI)
  fix n
  assume "\<exists>(k, bank, m)\<in>set ls. bit (VRAMMap g r ! i) k \<and> bit (ld (VRAM g bank) (unat (addr AND m)) :: 'a word) n"
  then show "\<exists>b<9. (r, i) \<in> place b (VRAMCNT g ! b) \<and> bit (ld (VRAM g b) (unat (addr AND VRAMMask b)) :: 'a word) n"
    using lines map_bit_place [OF inv i] by blast
next
  fix n
  assume "\<exists>b<9. (r, i) \<in> place b (VRAMCNT g ! b) \<and> bit (ld (VRAM g b) (unat (addr AND VRAMMask b)) :: 'a word) n"
  then obtain b where b: "b < 9" "(r, i) \<in> place b (VRAMCNT g ! b)" "bit (ld (VRAM g b) (unat (addr AND VRAMMask b)) :: 'a word) n" by blast
  obtain bank m where l: "(b, bank, m) \<in> set ls" using all [OF b(1,2)] by blast
  with lines [OF l] b map_bit_place [OF inv i]
  show "\<exists>(k, bank, m)\<in>set ls. bit (VRAMMap g r ! i) k \<and> bit (ld (VRAM g bank) (unat (addr AND m)) :: 'a word) n" by blast
qed

text \<open>Reading through the pointer of a block.\<close>

lemma read_ptr_or:
  assumes inv: "vram_inv g" and i: "i < blocks r" "has_ptr r"
    and ptr: "VRAMPtr g r ! i = Some (bank, ofs)"
    and blk: "i = unat (drop_bit 14 addr AND mask w)" "3 \<le> w"
  shows "or_of_banks g r i addr (ld (VRAM g bank) (unat ofs + unat (addr AND 0x3FFF)))"
proof -
  have "GetUniqueBankPtr (VRAMMap g r ! i) (push_bit 14 (of_nat i)) = Some (bank, ofs)"
    using inv i ptr by (auto simp: vram_inv_def tables_def)
  note u = unique_bank [OF this]
  have only: "b < 9 \<and> (r, i) \<in> place b (VRAMCNT g ! b) \<longleftrightarrow> b = bank" for b
    using map_bit_place [OF inv i(1), of b] u(1) [of b] by simp
  then have "bank < 9" by blast
  from bank_offset [OF this blk(2), of addr, folded blk(1)] u(2)
  have "unat ofs + unat (addr AND 0x3FFF) = unat (addr AND VRAMMask bank)" by simp
  with only show ?thesis unfolding or_of_banks_def by metis
qed

lemma block_numbers:
  fixes addr :: u32
  shows "drop_bit 14 addr AND 0x1F = drop_bit 14 addr AND mask 5" "drop_bit 14 addr AND 0xF = drop_bit 14 addr AND mask 4"
    "drop_bit 14 addr AND 0x7 = drop_bit 14 addr AND mask 3"
  by (simp_all add: mask_eq_exp_minus_1)

lemma block_less:
  fixes addr :: u32
  shows "unat (drop_bit 14 addr AND 0x1F) < blocks ABG" "unat (drop_bit 14 addr AND 0xF) < blocks AOBJ"
    "unat (drop_bit 14 addr AND 0x7) < blocks BBG" "unat (drop_bit 14 addr AND 0x7) < blocks BOBJ"
    "unat (drop_bit 14 addr AND 0x7) < blocks TexPal"
  unfolding block_numbers unat_and_mask by (simp_all add: blocks_def)

lemma block_less_17:
  fixes addr :: u32
  shows "unat (drop_bit 17 addr AND 0x3) < blocks Texture" "unat (drop_bit 17 addr AND 0x1) < blocks ARM7"
proof -
  have "drop_bit 17 addr AND 0x3 = drop_bit 17 addr AND mask 2" "drop_bit 17 addr AND 0x1 = drop_bit 17 addr AND mask 1"
    by (simp_all add: mask_eq_exp_minus_1)
  then show "unat (drop_bit 17 addr AND 0x3) < blocks Texture" "unat (drop_bit 17 addr AND 0x1) < blocks ARM7"
    by (simp_all only: unat_and_mask) (simp_all add: blocks_def)
qed

text \<open>The banks that can be placed in each space.\<close>

lemma place_banks:
  "(ABG, i) \<in> place b c \<Longrightarrow> b \<in> {0, 1, 2, 3, 4, 5, 6}" "(AOBJ, i) \<in> place b c \<Longrightarrow> b \<in> {0, 1, 4, 5, 6}"
  "(BBG, i) \<in> place b c \<Longrightarrow> b \<in> {2, 7, 8}" "(BOBJ, i) \<in> place b c \<Longrightarrow> b \<in> {3, 8}"
  "(ARM7, i) \<in> place b c \<Longrightarrow> b \<in> {2, 3}" "(Texture, i) \<in> place b c \<Longrightarrow> b \<in> {0, 1, 2, 3}"
  "(TexPal, i) \<in> place b c \<Longrightarrow> b \<in> {4, 5, 6}"
  by (auto simp: place_def place_AB_def place_CD_def place_E_def place_FG_def place_H_def place_I_def split: if_splits)

lemma VRAMMask_values: "VRAMMask 0 = 0x1FFFF" "VRAMMask (Suc 0) = 0x1FFFF" "VRAMMask 1 = 0x1FFFF" "VRAMMask 2 = 0x1FFFF" "VRAMMask 3 = 0x1FFFF"
  "VRAMMask 4 = 0xFFFF" "VRAMMask 5 = 0x3FFF" "VRAMMask 6 = 0x3FFF" "VRAMMask 7 = 0x7FFF" "VRAMMask 8 = 0x3FFF"
  by (simp_all add: VRAMMask_def)

lemma ReadVRAM_ptr_spaces:
  assumes inv: "vram_inv g"
  shows "or_of_banks g ABG (unat (drop_bit 14 addr AND 0x1F)) addr (ReadVRAM_ABG addr g :: 'a::len word)"
    and "or_of_banks g AOBJ (unat (drop_bit 14 addr AND 0xF)) addr (ReadVRAM_AOBJ addr g :: 'a::len word)"
    and "or_of_banks g BBG (unat (drop_bit 14 addr AND 0x7)) addr (ReadVRAM_BBG addr g :: 'a::len word)"
    and "or_of_banks g BOBJ (unat (drop_bit 14 addr AND 0x7)) addr (ReadVRAM_BOBJ addr g :: 'a::len word)"
proof -
  note ptr = read_ptr_or [OF inv block_less(1) [of addr], where w = 5 and addr = addr]
    read_ptr_or [OF inv block_less(2) [of addr], where w = 4 and addr = addr]
    read_ptr_or [OF inv block_less(3) [of addr], where w = 3 and addr = addr]
    read_ptr_or [OF inv block_less(4) [of addr], where w = 3 and addr = addr]
  note slow = read_banks_or [OF inv]
  show "or_of_banks g ABG (unat (drop_bit 14 addr AND 0x1F)) addr (ReadVRAM_ABG addr g :: 'a word)"
  proof (cases "VRAMPtr g ABG ! unat (drop_bit 14 addr AND 0x1F)")
    case None
    then show ?thesis unfolding ReadVRAM_ABG_def Let_def
      by (simp, intro slow block_less) (auto simp: VRAMMask_values dest: place_banks(1))
  next
    case (Some q)
    then show ?thesis using ptr(1) [of "fst q" "snd q"]
      by (cases q) (simp add: ReadVRAM_ABG_def Let_def has_ptr_def block_numbers)
  qed
  show "or_of_banks g AOBJ (unat (drop_bit 14 addr AND 0xF)) addr (ReadVRAM_AOBJ addr g :: 'a word)"
  proof (cases "VRAMPtr g AOBJ ! unat (drop_bit 14 addr AND 0xF)")
    case None
    then show ?thesis unfolding ReadVRAM_AOBJ_def Let_def
      by (simp, intro slow block_less) (auto simp: VRAMMask_values dest: place_banks(2))
  next
    case (Some q)
    then show ?thesis using ptr(2) [of "fst q" "snd q"]
      by (cases q) (simp add: ReadVRAM_AOBJ_def Let_def has_ptr_def block_numbers)
  qed
  show "or_of_banks g BBG (unat (drop_bit 14 addr AND 0x7)) addr (ReadVRAM_BBG addr g :: 'a word)"
  proof (cases "VRAMPtr g BBG ! unat (drop_bit 14 addr AND 0x7)")
    case None
    then show ?thesis unfolding ReadVRAM_BBG_def Let_def
      by (simp, intro slow block_less) (auto simp: VRAMMask_values dest: place_banks(3))
  next
    case (Some q)
    then show ?thesis using ptr(3) [of "fst q" "snd q"]
      by (cases q) (simp add: ReadVRAM_BBG_def Let_def has_ptr_def block_numbers)
  qed
  show "or_of_banks g BOBJ (unat (drop_bit 14 addr AND 0x7)) addr (ReadVRAM_BOBJ addr g :: 'a word)"
  proof (cases "VRAMPtr g BOBJ ! unat (drop_bit 14 addr AND 0x7)")
    case None
    then show ?thesis unfolding ReadVRAM_BOBJ_def Let_def
      by (simp, intro slow block_less) (auto simp: VRAMMask_values dest: place_banks(4))
  next
    case (Some q)
    then show ?thesis using ptr(4) [of "fst q" "snd q"]
      by (cases q) (simp add: ReadVRAM_BOBJ_def Let_def has_ptr_def block_numbers)
  qed
qed

lemma ReadVRAM_plain_spaces:
  assumes inv: "vram_inv g"
  shows "or_of_banks g ARM7 (unat (drop_bit 17 addr AND 0x1)) addr (ReadVRAM_ARM7 addr g :: 'a::len word)"
    and "or_of_banks g Texture (unat (drop_bit 17 addr AND 0x3)) addr (ReadVRAM_Texture addr g :: 'a::len word)"
    and "or_of_banks g TexPal (unat (drop_bit 14 addr AND 0x7)) addr (ReadVRAM_TexPal addr g :: 'a::len word)"
  unfolding ReadVRAM_ARM7_def ReadVRAM_Texture_def ReadVRAM_TexPal_def
  by (intro read_banks_or [OF inv] block_less block_less_17;
      auto simp: VRAMMask_values dest: place_banks(5,6,7))+

section \<open>What a write does\<close>

lemma write_banks_fields:
  "VRAMMap (write_banks ls msk addr v g) = VRAMMap g" "VRAMPtr (write_banks ls msk addr v g) = VRAMPtr g"
  "VRAMCNT (write_banks ls msk addr v g) = VRAMCNT g"
proof -
  have "VRAMMap (write_banks ls msk addr v g) = VRAMMap g \<and> VRAMPtr (write_banks ls msk addr v g) = VRAMPtr g \<and>
      VRAMCNT (write_banks ls msk addr v g) = VRAMCNT g"
    unfolding write_banks_def
    by (induction ls arbitrary: g) (auto simp: store_bank_def mark_dirty_def split: prod.splits)
  then show "VRAMMap (write_banks ls msk addr v g) = VRAMMap g" "VRAMPtr (write_banks ls msk addr v g) = VRAMPtr g"
    "VRAMCNT (write_banks ls msk addr v g) = VRAMCNT g" by auto
qed

lemma write_banks_other: "b \<notin> fst ` set ls \<Longrightarrow> VRAM (write_banks ls msk addr v g) b = VRAM g b"
  unfolding write_banks_def
  by (induction ls arbitrary: g) (auto simp: store_bank_def mark_dirty_def split: prod.splits)

lemma write_banks_Cons:
  "write_banks ((b, m) # ls) msk addr v g =
   write_banks ls msk addr v (if bit msk b then store_bank b (addr AND m) v (mark_dirty b (addr AND m) g) else g)"
  by (simp add: write_banks_def)

lemma write_banks_VRAM:
  assumes "distinct (map fst ls)" "(b, m) \<in> set ls" "bit msk b"
  shows "VRAM (write_banks ls msk addr v g) b = st (VRAM g b) (unat (addr AND m)) v"
  using assms
proof (induction ls arbitrary: g)
  case (Cons l ls)
  obtain k mk where l: "l = (k, mk)" by (cases l)
  show ?case
  proof (cases "k = b")
    case True
    then have "mk = m" using Cons.prems(1,2) l by (auto simp: image_iff)
    moreover have "b \<notin> fst ` set ls" using Cons.prems(1) l True by auto
    ultimately show ?thesis
      using Cons.prems(3) True l by (simp add: write_banks_Cons write_banks_other store_bank_def mark_dirty_def)
  next
    case False
    then have "(b, m) \<in> set ls" using Cons.prems(2) l by auto
    with Cons.IH Cons.prems l False show ?thesis by (simp add: write_banks_Cons store_bank_def mark_dirty_def)
  qed
qed simp

lemma vram_inv_cong:
  "vram_inv g \<Longrightarrow> VRAMMap g' = VRAMMap g \<Longrightarrow> VRAMPtr g' = VRAMPtr g \<Longrightarrow> VRAMCNT g' = VRAMCNT g \<Longrightarrow> vram_inv g'"
  by (simp add: vram_inv_def tables_def)

text \<open>A value written to a block is what a read of the block returns, when a bank is there.\<close>

lemma write_then_or:
  assumes inv: "vram_inv g" and i: "i < blocks r"
    and ls: "distinct (map fst ls)" "\<And>b m. (b, m) \<in> set ls \<Longrightarrow> m = VRAMMask b"
    and all: "\<And>b. b < 9 \<Longrightarrow> (r, i) \<in> place b (VRAMCNT g ! b) \<Longrightarrow> b \<in> fst ` set ls"
    and g': "g' = write_banks ls (VRAMMap g r ! i) addr v g"
    and rd: "or_of_banks g' r i addr (w :: 'a::len word)" and len: "8 dvd LENGTH('a)"
  shows "w = (if VRAMMap g r ! i = 0 then 0 else v)"
proof -
  have c: "VRAMCNT g' = VRAMCNT g" by (simp add: g' write_banks_fields)
  have one: "ld (VRAM g' b) (unat (addr AND VRAMMask b)) = v" if b: "b < 9" "(r, i) \<in> place b (VRAMCNT g ! b)" for b
  proof -
    obtain m where m: "(b, m) \<in> set ls" using all [OF b] by force
    have "bit (VRAMMap g r ! i) b" using map_bit_place [OF inv i] b by simp
    from write_banks_VRAM [OF ls(1) m this, of addr v g] ls(2) [OF m] show ?thesis by (simp add: g' ld_st [OF len])
  qed
  have bits: "bit w n \<longleftrightarrow> (\<exists>b. bit (VRAMMap g r ! i) b) \<and> bit v n" for n
    using rd one map_bit_place [OF inv i] unfolding or_of_banks_def c by metis
  show ?thesis
  proof (cases "VRAMMap g r ! i = 0")
    case True
    with bits show ?thesis by (simp add: bit_eq_iff)
  next
    case False
    then have "\<exists>b. bit (VRAMMap g r ! i) b" by (metis bit_eq_iff bit_0_eq bot_apply bot_bool_def)
    then have "w = v" using bits by (intro bit_word_eqI) simp
    with False show ?thesis by simp
  qed
qed

lemma write_inv: "vram_inv g \<Longrightarrow> vram_inv (write_banks ls msk addr v g)"
  by (rule vram_inv_cong) (simp_all add: write_banks_fields)

section \<open>Properties\<close>



text \<open>
  C33: a value written to a graphics space is read back from the same address whenever some
  bank is mapped there, however many banks overlap; where no bank is mapped the write is
  dropped and the read returns zero.
\<close>

theorem VRAM_write_read:
  fixes v :: "'a::len word"
  assumes inv: "vram_inv g" and len: "8 dvd LENGTH('a)"
  shows "ReadVRAM_ABG addr (WriteVRAM_ABG addr v g) = (if VRAMMap g ABG ! unat (drop_bit 14 addr AND 0x1F) = 0 then 0 else v) \<and>
    ReadVRAM_AOBJ addr (WriteVRAM_AOBJ addr v g) = (if VRAMMap g AOBJ ! unat (drop_bit 14 addr AND 0xF) = 0 then 0 else v) \<and>
    ReadVRAM_BBG addr (WriteVRAM_BBG addr v g) = (if VRAMMap g BBG ! unat (drop_bit 14 addr AND 0x7) = 0 then 0 else v) \<and>
    ReadVRAM_BOBJ addr (WriteVRAM_BOBJ addr v g) = (if VRAMMap g BOBJ ! unat (drop_bit 14 addr AND 0x7) = 0 then 0 else v)"
proof (intro conjI)
  have inv': "vram_inv (WriteVRAM_ABG addr v g)" "vram_inv (WriteVRAM_AOBJ addr v g)" "vram_inv (WriteVRAM_BBG addr v g)"
    "vram_inv (WriteVRAM_BOBJ addr v g)"
    by (simp_all add: WriteVRAM_ABG_def WriteVRAM_AOBJ_def WriteVRAM_BBG_def WriteVRAM_BOBJ_def write_inv [OF inv])
  show "ReadVRAM_ABG addr (WriteVRAM_ABG addr v g) = (if VRAMMap g ABG ! unat (drop_bit 14 addr AND 0x1F) = 0 then 0 else v)"
    by (rule write_then_or [OF inv block_less(1) _ _ _ WriteVRAM_ABG_def [of addr v g]
          ReadVRAM_ptr_spaces(1) [OF inv'(1)] len])
      (auto simp: VRAMMask_values dest: place_banks(1))
  show "ReadVRAM_AOBJ addr (WriteVRAM_AOBJ addr v g) = (if VRAMMap g AOBJ ! unat (drop_bit 14 addr AND 0xF) = 0 then 0 else v)"
    by (rule write_then_or [OF inv block_less(2) _ _ _ WriteVRAM_AOBJ_def [of addr v g]
          ReadVRAM_ptr_spaces(2) [OF inv'(2)] len])
      (auto simp: VRAMMask_values dest: place_banks(2))
  show "ReadVRAM_BBG addr (WriteVRAM_BBG addr v g) = (if VRAMMap g BBG ! unat (drop_bit 14 addr AND 0x7) = 0 then 0 else v)"
    by (rule write_then_or [OF inv block_less(3) _ _ _ WriteVRAM_BBG_def [of addr v g]
          ReadVRAM_ptr_spaces(3) [OF inv'(3)] len])
      (auto simp: VRAMMask_values dest: place_banks(3))
  show "ReadVRAM_BOBJ addr (WriteVRAM_BOBJ addr v g) = (if VRAMMap g BOBJ ! unat (drop_bit 14 addr AND 0x7) = 0 then 0 else v)"
    by (rule write_then_or [OF inv block_less(4) _ _ _ WriteVRAM_BOBJ_def [of addr v g]
          ReadVRAM_ptr_spaces(4) [OF inv'(4)] len])
      (auto simp: VRAMMask_values dest: place_banks(4))
qed

theorem VRAM_write_read_witness:
  "ReadVRAM_BBG 0x06200010 (WriteVRAM_BBG 0x06200010 (0xBEEF :: u16) (WriteVRAMCNT 2 0x84 VRAM_Reset)) = (0xBEEF :: u16)"
proof -
  let ?g = "WriteVRAMCNT 2 0x84 VRAM_Reset"
  have inv: "vram_inv ?g" by (rule WriteVRAMCNT_inv [OF vram_inv_reset]) simp
  have "VRAMCNT ?g ! 2 = 0x84" by (simp add: WriteVRAMCNT_fields cnt_mask_def VRAM_Reset_def)
  then have "bit (VRAMMap ?g BBG ! 0) 2"
    using map_bit_place [OF inv, of 0 BBG 2] by (simp add: blocks_def place_def place_CD_def)
  then have "VRAMMap ?g BBG ! 0 \<noteq> 0" by auto
  then show ?thesis using VRAM_write_read [OF inv, of "0x06200010" "0xBEEF :: u16"] by simp
qed

text \<open>
  The byte-wise path for the sprite palette of engine A tests the wrong bits. With banks
  F and G both mapped there, so that no single bank is, it returns bank G alone: whatever
  bank F holds is ignored.
\<close>

theorem AOBJExtPal_ignores_bank_F:
  defines "g \<equiv> WriteVRAMCNT 6 0x85 (WriteVRAMCNT 5 0x85 VRAM_Reset)"
  shows "VRAMMap g AOBJExtPal ! 0 = 0x60 \<and>
    GetUniqueBankPtr (VRAMMap g AOBJExtPal ! 0) ofs = None \<and>
    (ReadVRAM_AOBJExtPal addr (g\<lparr>VRAM := mem\<rparr>) :: 'a::len word) = ld (mem 6) (unat (addr AND 0x1FFF))"
proof -
  have m: "VRAMMap g AOBJExtPal ! 0 = 0x60"
    by (simp add: g_def WriteVRAMCNT_def MapVRAM_FG_def Let_def map_or_def set_cnt_def VRAM_Reset_def blocks_def)
  have b: "\<not> bit (0x60 :: u32) 4" "bit (0x60 :: u32) 5" by simp_all
  have "GetUniqueBankPtr 0x60 ofs = None" by (simp add: GetUniqueBankPtr_def)
  moreover have "(ReadVRAM_AOBJExtPal addr (g\<lparr>VRAM := mem\<rparr>) :: 'a word) = ld (mem 6) (unat (addr AND 0x1FFF))"
    using m b by (simp add: ReadVRAM_AOBJExtPal_def read_banks_def)
  ultimately show ?thesis using m by simp
qed

text \<open>
  The status bits that tell the ARM7 which of banks C and D it owns can be lost: writing
  the value 0x82 twice leaves bank C mapped to the ARM7 with its status bit clear, because
  the bit is cleared before the test that the value is unchanged.
\<close>

theorem VRAMSTAT_lost_on_rewrite:
  defines "g1 \<equiv> WriteVRAMCNT 2 0x82 VRAM_Reset"
  defines "g2 \<equiv> WriteVRAMCNT 2 0x82 g1"
  shows "VRAMSTAT g1 = 1 \<and> VRAMSTAT g2 = 0 \<and> VRAMMap g2 ARM7 ! 0 = VRAMMap g1 ARM7 ! 0 \<and> VRAMMap g2 ARM7 ! 0 = 4"
  by (simp add: g2_def g1_def WriteVRAMCNT_def MapVRAM_CD_def Let_def map_or_def set_cnt_def VRAM_Reset_def blocks_def cnt_ofs_def)

end
