(* ===== verification/Nds_Core.thy ===== *)
theory Nds_Core
  imports Nds_Calls Fifo
begin

text \<open>
  The console object, \<^verbatim>\<open>src/src/NDS.cpp\<close>: its state, the interrupt controllers of the two
  processors, stopping and resuming a processor, the event scheduler, the keypad and lid
  inputs, and the switch of the shared work RAM. Processor 0 is the ARM9, processor 1 the
  ARM7; an array indexed by processor, timer or event number is a function on numbers.
  Calls into the renderer, the recompiler and the DMA channels are appended to \<open>Ext\<close>.
\<close>

section \<open>State\<close>

datatype ext_call =
    RestartFrame
  | StallIfRunning nat
  | StallNDMAs
  | RemapSWRAM
  | EventFunc nat u32 u32
  | CheckDMAs nat u32
  | StopDMAs nat u32

record SchedEvent =
  Timestamp :: u64
  FuncID :: u32
  Param :: u32

record Timer =
  Reload :: u16
  Cnt :: u16
  Counter :: u32
  CycleShift :: u32

text \<open>A window on the 32 KB of shared work RAM: the offset of its first byte, and an address mask.\<close>

record MemRegion =
  Mem :: "u32 option"
  Mask :: u32

record nds =
  ConsoleType :: int
  CurCPU :: int
  SchedList :: "nat \<Rightarrow> SchedEvent"
  SchedListMask :: u32
  SysTimestamp :: u64
  ARM9Timestamp :: u64
  ARM9Target :: u64
  ARM7Timestamp :: u64
  ARM7Target :: u64
  ARM9ClockShift :: u32
  IME :: "nat \<Rightarrow> u32"
  IE :: "nat \<Rightarrow> u32"
  IF :: "nat \<Rightarrow> u32"
  IE2 :: u32
  IF2 :: u32
  IRQ_line :: "nat \<Rightarrow> bool"
  Halted :: "nat \<Rightarrow> u32"
  CPUStop :: u32
  Timers :: "nat \<Rightarrow> Timer"
  TimerCheckMask :: "nat \<Rightarrow> u8"
  TimerTimestamp :: "nat \<Rightarrow> u64"
  DivCnt :: u16
  DivNumerator :: "nat \<Rightarrow> u32"
  DivDenominator :: "nat \<Rightarrow> u32"
  DivQuotient :: "nat \<Rightarrow> u32"
  DivRemainder :: "nat \<Rightarrow> u32"
  SqrtCnt :: u16
  SqrtVal :: "nat \<Rightarrow> u32"
  SqrtRes :: u32
  KeyInput :: u32
  KeyCnt :: "nat \<Rightarrow> u16"
  WRAMCnt :: u8
  SWRAM_ARM9 :: MemRegion
  SWRAM_ARM7 :: MemRegion
  IPCSync9 :: u16
  IPCSync7 :: u16
  IPCFIFOCnt9 :: u16
  IPCFIFOCnt7 :: u16
  IPCFIFO9 :: "u32 FIFO"
  IPCFIFO7 :: "u32 FIFO"
  GXStat :: u32
  CmdFIFO_Level :: u32
  Ext :: "ext_call list"

text \<open>The single-bit masks \<^verbatim>\<open>1 << i\<close>, and the enumerations of \<^verbatim>\<open>src/src/NDS.h\<close>.\<close>

definition bitm :: "nat \<Rightarrow> u32" where "bitm i = push_bit i 1"

definition Event_SPU :: nat where "Event_SPU = 1"
definition Event_RTC_id :: nat where "Event_RTC_id = 3"
definition Event_Div :: nat where "Event_Div = 8"
definition Event_Sqrt :: nat where "Event_Sqrt = 9"
definition Event_MAX :: nat where "Event_MAX = 17"

definition IRQ_Timer0 :: nat where "IRQ_Timer0 = 3"
definition IRQ_Keypad :: nat where "IRQ_Keypad = 12"
definition IRQ_IPCSync :: nat where "IRQ_IPCSync = 16"
definition IRQ_IPCSendDone :: nat where "IRQ_IPCSendDone = 17"
definition IRQ_IPCRecv :: nat where "IRQ_IPCRecv = 18"
definition IRQ_GXFIFO :: nat where "IRQ_GXFIFO = 21"
definition IRQ_LidOpen :: nat where "IRQ_LidOpen = 22"

definition CPUStop_Wakeup :: u32 where "CPUStop_Wakeup = bitm 29"
definition CPUStop_Sleep :: u32 where "CPUStop_Sleep = bitm 30"
definition CPUStop_GXStall :: u32 where "CPUStop_GXStall = bitm 31"

definition ext :: "ext_call \<Rightarrow> ('a) nds_scheme \<Rightarrow> 'a nds_scheme" where
  "ext c n = n\<lparr>Ext := Ext n @ [c]\<rparr>"

section \<open>Interrupts\<close>

definition UpdateIRQ :: "nat \<Rightarrow> 'a nds_scheme \<Rightarrow> 'a nds_scheme" where
  "UpdateIRQ cpu n =
     n\<lparr>IRQ_line := (IRQ_line n)
        (cpu := (if IME n cpu AND 1 \<noteq> 0
                 then IE n cpu AND IF n cpu \<noteq> 0 \<or>
                      (ConsoleType n = 1 \<and> cpu \<noteq> 0 \<and> IE2 n AND IF2 n \<noteq> 0)
                 else False))\<rparr>"

definition SetIRQ :: "nat \<Rightarrow> nat \<Rightarrow> 'a nds_scheme \<Rightarrow> 'a nds_scheme" where
  "SetIRQ cpu irq n =
     (let n = UpdateIRQ cpu (n\<lparr>IF := (IF n)(cpu := IF n cpu OR bitm irq)\<rparr>)
      in if cpu = 1 \<and> CPUStop n AND CPUStop_Sleep \<noteq> 0 \<and> IE n 1 AND bitm irq \<noteq> 0
         then ext RestartFrame
                (n\<lparr>CPUStop := (CPUStop n AND NOT CPUStop_Sleep) OR CPUStop_Wakeup\<rparr>)
         else n)"

definition ClearIRQ :: "nat \<Rightarrow> nat \<Rightarrow> 'a nds_scheme \<Rightarrow> 'a nds_scheme" where
  "ClearIRQ cpu irq n = UpdateIRQ cpu (n\<lparr>IF := (IF n)(cpu := IF n cpu AND NOT (bitm irq))\<rparr>)"

definition SetIRQ2 :: "nat \<Rightarrow> 'a nds_scheme \<Rightarrow> 'a nds_scheme" where
  "SetIRQ2 irq n = UpdateIRQ 1 (n\<lparr>IF2 := IF2 n OR bitm irq\<rparr>)"

definition ClearIRQ2 :: "nat \<Rightarrow> 'a nds_scheme \<Rightarrow> 'a nds_scheme" where
  "ClearIRQ2 irq n = UpdateIRQ 1 (n\<lparr>IF2 := IF2 n AND NOT (bitm irq)\<rparr>)"

definition HaltInterrupted :: "nat \<Rightarrow> 'a nds_scheme \<Rightarrow> bool" where
  "HaltInterrupted cpu n =
     (if cpu = 0 \<and> IME n 0 AND 1 = 0 then False
      else if IF n cpu AND IE n cpu \<noteq> 0 then True
      else ConsoleType n = 1 \<and> cpu \<noteq> 0 \<and> IF2 n AND IE2 n \<noteq> 0)"

definition CheckFIFOIRQ :: "'a nds_scheme \<Rightarrow> 'a nds_scheme" where
  "CheckFIFOIRQ n =
     (let m = drop_bit 30 (GXStat n);
          irq = (if m = 1 then CmdFIFO_Level n < 128
                 else if m = 2 then CmdFIFO_Level n = 0 else False)
      in if irq then SetIRQ 0 IRQ_GXFIFO n else ClearIRQ 0 IRQ_GXFIFO n)"

text \<open>The interrupt registers as the processors write them (32-bit accesses).\<close>

definition WriteIME :: "nat \<Rightarrow> u32 \<Rightarrow> 'a nds_scheme \<Rightarrow> 'a nds_scheme" where
  "WriteIME cpu val n = UpdateIRQ cpu (n\<lparr>IME := (IME n)(cpu := val AND 1)\<rparr>)"

definition WriteIE :: "nat \<Rightarrow> u32 \<Rightarrow> 'a nds_scheme \<Rightarrow> 'a nds_scheme" where
  "WriteIE cpu val n = UpdateIRQ cpu (n\<lparr>IE := (IE n)(cpu := val)\<rparr>)"

definition WriteIF9 :: "u32 \<Rightarrow> 'a nds_scheme \<Rightarrow> 'a nds_scheme" where
  "WriteIF9 val n = UpdateIRQ 0 (CheckFIFOIRQ (n\<lparr>IF := (IF n)(0 := IF n 0 AND NOT val)\<rparr>))"

definition WriteIF7 :: "u32 \<Rightarrow> 'a nds_scheme \<Rightarrow> 'a nds_scheme" where
  "WriteIF7 val n = UpdateIRQ 1 (n\<lparr>IF := (IF n)(1 := IF n 1 AND NOT val)\<rparr>)"

section \<open>Stopping a processor\<close>

definition Halt :: "nat \<Rightarrow> u32 \<Rightarrow> 'a nds_scheme \<Rightarrow> 'a nds_scheme" where
  "Halt cpu h n =
     (if h = 2 \<and> Halted n cpu = 1 then n else n\<lparr>Halted := (Halted n)(cpu := h)\<rparr>)"

definition StopCPU :: "nat \<Rightarrow> u32 \<Rightarrow> 'a nds_scheme \<Rightarrow> 'a nds_scheme" where
  "StopCPU cpu m n =
     (if cpu \<noteq> 0 then Halt 1 2 (n\<lparr>CPUStop := CPUStop n OR push_bit 16 m\<rparr>)
      else Halt 0 2 (n\<lparr>CPUStop := CPUStop n OR m\<rparr>))"

definition ResumeCPU :: "nat \<Rightarrow> u32 \<Rightarrow> 'a nds_scheme \<Rightarrow> 'a nds_scheme" where
  "ResumeCPU cpu m n =
     n\<lparr>CPUStop := CPUStop n AND NOT (if cpu \<noteq> 0 then push_bit 16 m else m)\<rparr>"

definition GXFIFOStall :: "'a nds_scheme \<Rightarrow> 'a nds_scheme" where
  "GXFIFOStall n =
     (if CPUStop n AND CPUStop_GXStall \<noteq> 0 then n
      else
        let n = n\<lparr>CPUStop := CPUStop n OR CPUStop_GXStall\<rparr>
        in if CurCPU n = 1 then Halt 0 2 n
           else
             let n = ext (StallIfRunning 3) (ext (StallIfRunning 2)
                       (ext (StallIfRunning 1) (ext (StallIfRunning 0) n)))
             in if ConsoleType n = 1 then ext StallNDMAs n else n)"

definition GXFIFOUnstall :: "'a nds_scheme \<Rightarrow> 'a nds_scheme" where
  "GXFIFOUnstall n = n\<lparr>CPUStop := CPUStop n AND NOT CPUStop_GXStall\<rparr>"

definition EnterSleepMode :: "'a nds_scheme \<Rightarrow> 'a nds_scheme" where
  "EnterSleepMode n =
     (if CPUStop n AND CPUStop_Sleep \<noteq> 0 then n
      else Halt 1 2 (n\<lparr>CPUStop := CPUStop n OR CPUStop_Sleep\<rparr>))"

section \<open>Scheduler\<close>

definition Reschedule :: "u64 \<Rightarrow> 'a nds_scheme \<Rightarrow> 'a nds_scheme" where
  "Reschedule target n =
     (if CurCPU n = 0 then
        if target < drop_bit (unat (ARM9ClockShift n)) (ARM9Target n)
        then n\<lparr>ARM9Target := push_bit (unat (ARM9ClockShift n)) target\<rparr> else n
      else if target < ARM7Target n then n\<lparr>ARM7Target := target\<rparr> else n)"

text \<open>\<open>delay\<close> is an \<^verbatim>\<open>s32\<close>; adding it to a timestamp sign-extends it.\<close>

definition event_time :: "nat \<Rightarrow> bool \<Rightarrow> int \<Rightarrow> 'a nds_scheme \<Rightarrow> u64" where
  "event_time ev periodic delay n =
     (if periodic then Timestamp (SchedList n ev)
      else if CurCPU n = 0 then drop_bit (unat (ARM9ClockShift n)) (ARM9Timestamp n)
      else ARM7Timestamp n) + word_of_int delay"

definition ScheduleEvent :: "nat \<Rightarrow> bool \<Rightarrow> int \<Rightarrow> u32 \<Rightarrow> u32 \<Rightarrow> 'a nds_scheme \<Rightarrow> 'a nds_scheme" where
  "ScheduleEvent ev periodic delay funcid param n =
     (if SchedListMask n AND bitm ev \<noteq> 0 then n
      else
        let ts = event_time ev periodic delay n
        in Reschedule ts
             (n\<lparr>SchedList := (SchedList n)(ev := \<lparr>Timestamp = ts, FuncID = funcid, Param = param\<rparr>),
                SchedListMask := SchedListMask n OR bitm ev\<rparr>))"

definition CancelEvent :: "nat \<Rightarrow> 'a nds_scheme \<Rightarrow> 'a nds_scheme" where
  "CancelEvent ev n = n\<lparr>SchedListMask := SchedListMask n AND NOT (bitm ev)\<rparr>"

text \<open>
  The loops over the scheduled events: \<open>i\<close> counts up to \<^verbatim>\<open>Event_MAX\<close> and the mask, a copy
  of \<^verbatim>\<open>SchedListMask\<close>, is shifted along with it.
\<close>

function min_event :: "(nat \<Rightarrow> bool) \<Rightarrow> nat \<Rightarrow> u32 \<Rightarrow> u64 \<Rightarrow> 'a nds_scheme \<Rightarrow> u64" where
  "min_event sel i m acc n =
     (if i \<ge> Event_MAX \<or> m = 0 then acc
      else min_event sel (Suc i) (drop_bit 1 m)
             (if sel i \<and> m AND 1 \<noteq> 0 \<and> Timestamp (SchedList n i) < acc
              then Timestamp (SchedList n i) else acc) n)"
  by pat_completeness auto
termination by (relation "measure (\<lambda>(_, i, _, _, _). Event_MAX - i)") auto

declare min_event.simps [simp del]

definition kMaxIterationCycles :: u64 where "kMaxIterationCycles = 64"
definition kIterationCycleMargin :: u64 where "kIterationCycleMargin = 8"

definition NextTarget :: "'a nds_scheme \<Rightarrow> u64" where
  "NextTarget n =
     (let minEvent = min_event (\<lambda>_. True) 0 (SchedListMask n) (- 1) n;
          mx = SysTimestamp n + kMaxIterationCycles
      in if minEvent < mx + kIterationCycleMargin then minEvent else mx)"

definition NextTargetSleep :: "'a nds_scheme \<Rightarrow> u64" where
  "NextTargetSleep n =
     min_event (\<lambda>i. i = Event_SPU \<or> i = Event_RTC_id) 0 (SchedListMask n) (- 1) n"

text \<open>
  An event function is code of the component that registered it (\<^verbatim>\<open>RegisterEventFuncs\<close>);
  \<open>h i funcid param\<close> is function number \<open>funcid\<close> of event \<open>i\<close>. The event is taken off the
  list before its function runs, so that the function may schedule it again.
\<close>

type_synonym 's handlers = "nat \<Rightarrow> u32 \<Rightarrow> u32 \<Rightarrow> 's \<Rightarrow> 's"

definition run_event :: "'a nds_scheme handlers \<Rightarrow> nat \<Rightarrow> 'a nds_scheme \<Rightarrow> 'a nds_scheme" where
  "run_event h i n =
     (let evt = SchedList n i
      in if Timestamp evt \<le> SysTimestamp n
         then h i (FuncID evt) (Param evt) (CancelEvent i n) else n)"

function run_events :: "'a nds_scheme handlers \<Rightarrow> nat \<Rightarrow> u32 \<Rightarrow> 'a nds_scheme \<Rightarrow> 'a nds_scheme" where
  "run_events h i m n =
     (if i \<ge> Event_MAX \<or> m = 0 then n
      else run_events h (Suc i) (drop_bit 1 m) (if m AND 1 \<noteq> 0 then run_event h i n else n))"
  by pat_completeness auto
termination by (relation "measure (\<lambda>(_, i, _, _). Event_MAX - i)") auto

declare run_events.simps [simp del]

definition RunSystem :: "'a nds_scheme handlers \<Rightarrow> u64 \<Rightarrow> 'a nds_scheme \<Rightarrow> 'a nds_scheme" where
  "RunSystem h timestamp n = run_events h 0 (SchedListMask n) (n\<lparr>SysTimestamp := timestamp\<rparr>)"

definition delay_event :: "u64 \<Rightarrow> nat \<Rightarrow> 'a nds_scheme \<Rightarrow> 'a nds_scheme" where
  "delay_event offset i n =
     (let evt = SchedList n i
      in if Timestamp evt \<le> SysTimestamp n
         then n\<lparr>SchedList := (SchedList n)(i := evt\<lparr>Timestamp := Timestamp evt + offset\<rparr>)\<rparr>
         else n)"

function sleep_events ::
  "'a nds_scheme handlers \<Rightarrow> u64 \<Rightarrow> nat \<Rightarrow> u32 \<Rightarrow> 'a nds_scheme \<Rightarrow> 'a nds_scheme" where
  "sleep_events h offset i m n =
     (if i \<ge> Event_MAX \<or> m = 0 then n
      else sleep_events h offset (Suc i) (drop_bit 1 m)
             (if m AND 1 \<noteq> 0
              then if i = Event_RTC_id then run_event h i n else delay_event offset i n
              else n))"
  by pat_completeness auto
termination by (relation "measure (\<lambda>(_, _, i, _, _). Event_MAX - i)") auto

declare sleep_events.simps [simp del]

definition RunSystemSleep :: "'a nds_scheme handlers \<Rightarrow> u64 \<Rightarrow> 'a nds_scheme \<Rightarrow> 'a nds_scheme" where
  "RunSystemSleep h timestamp n =
     sleep_events h (timestamp - SysTimestamp n) 0 (SchedListMask n)
       (n\<lparr>SysTimestamp := timestamp\<rparr>)"

section \<open>Keys and lid\<close>

definition key_match :: "u16 \<Rightarrow> u32 \<Rightarrow> bool" where
  "key_match cnt key =
     (let m = ucast (cnt AND 0x3FF); k = key AND m
      in if cnt AND 0x8000 \<noteq> 0 then k = 0 else k \<noteq> m)"

definition CheckKeyIRQ :: "nat \<Rightarrow> u32 \<Rightarrow> u32 \<Rightarrow> 'a nds_scheme \<Rightarrow> 'a nds_scheme" where
  "CheckKeyIRQ cpu oldkey newkey n =
     (let cnt = KeyCnt n cpu
      in if cnt AND 0x4000 = 0 then n
         else if \<not> key_match cnt oldkey \<and> key_match cnt newkey then SetIRQ cpu IRQ_Keypad n
         else n)"

definition SetKeyMask :: "u32 \<Rightarrow> 'a nds_scheme \<Rightarrow> 'a nds_scheme" where
  "SetKeyMask m n =
     (let key_lo = m AND 0x3FF;
          key_hi = drop_bit 10 m AND 3;
          oldkey = KeyInput n;
          key = (KeyInput n AND 0xFFFCFC00) OR (key_lo OR push_bit 16 key_hi);
          n = n\<lparr>KeyInput := key\<rparr>
      in CheckKeyIRQ 1 oldkey key (CheckKeyIRQ 0 oldkey key n))"

definition IsLidClosed :: "'a nds_scheme \<Rightarrow> bool" where
  "IsLidClosed n = (KeyInput n AND bitm 23 \<noteq> 0)"

definition SetLidClosed :: "bool \<Rightarrow> 'a nds_scheme \<Rightarrow> 'a nds_scheme" where
  "SetLidClosed closed n =
     (if closed then n\<lparr>KeyInput := KeyInput n OR bitm 23\<rparr>
      else SetIRQ 1 IRQ_LidOpen (n\<lparr>KeyInput := KeyInput n AND NOT (bitm 23)\<rparr>))"

section \<open>Shared work RAM\<close>

definition swram_maps :: "u8 \<Rightarrow> MemRegion \<times> MemRegion" where
  "swram_maps cnt =
     (if cnt AND 3 = 0 then (\<lparr>Mem = Some 0, Mask = 0x7FFF\<rparr>, \<lparr>Mem = None, Mask = 0\<rparr>)
      else if cnt AND 3 = 1 then (\<lparr>Mem = Some 0x4000, Mask = 0x3FFF\<rparr>, \<lparr>Mem = Some 0, Mask = 0x3FFF\<rparr>)
      else if cnt AND 3 = 2 then (\<lparr>Mem = Some 0, Mask = 0x3FFF\<rparr>, \<lparr>Mem = Some 0x4000, Mask = 0x3FFF\<rparr>)
      else (\<lparr>Mem = None, Mask = 0\<rparr>, \<lparr>Mem = Some 0, Mask = 0x7FFF\<rparr>))"

definition MapSharedWRAM :: "u8 \<Rightarrow> 'a nds_scheme \<Rightarrow> 'a nds_scheme" where
  "MapSharedWRAM val n =
     (if val = WRAMCnt n then n
      else (ext RemapSWRAM n)
             \<lparr>WRAMCnt := val, SWRAM_ARM9 := fst (swram_maps val), SWRAM_ARM7 := snd (swram_maps val)\<rparr>)"

text \<open>Loading a saved state restores \<^verbatim>\<open>WRAMCnt\<close> and then calls \<^verbatim>\<open>MapSharedWRAM\<close> with it.\<close>

definition LoadState_WRAM :: "u8 \<Rightarrow> 'a nds_scheme \<Rightarrow> 'a nds_scheme" where
  "LoadState_WRAM saved n = (let n = n\<lparr>WRAMCnt := saved\<rparr> in MapSharedWRAM (WRAMCnt n) n)"

text \<open>The byte of shared RAM that an address of a processor reaches.\<close>

definition swram_addr :: "MemRegion \<Rightarrow> u32 \<Rightarrow> u32 option" where
  "swram_addr r addr = (case Mem r of None \<Rightarrow> None | Some base \<Rightarrow> Some (base + (addr AND Mask r)))"

section \<open>Reset\<close>

text \<open>
  What \<^verbatim>\<open>NDS::Reset\<close> does to the state modelled here. The operand and result registers of
  the divider and of the square-root unit keep their contents.
\<close>

definition NDS_Reset :: "'a nds_scheme \<Rightarrow> 'a nds_scheme" where
  "NDS_Reset n =
     (let n = n\<lparr>ARM9ClockShift := (if ConsoleType n = 1 then 2 else 1),
                ARM9Timestamp := 0, ARM9Target := 0, ARM7Timestamp := 0, ARM7Target := 0,
                SysTimestamp := 0\<rparr>;
          n = MapSharedWRAM 0 n
      in n\<lparr>IME := (IME n)(0 := 0, 1 := 0), IE := (IE n)(0 := 0, 1 := 0),
            IF := (IF n)(0 := 0, 1 := 0), IE2 := 0, IF2 := 0,
            IPCSync9 := 0, IPCSync7 := 0, IPCFIFOCnt9 := 0, IPCFIFOCnt7 := 0,
            IPCFIFO9 := FIFO_Clear (IPCFIFO9 n), IPCFIFO7 := FIFO_Clear (IPCFIFO7 n),
            DivCnt := 0, SqrtCnt := 0,
            IRQ_line := (IRQ_line n)(0 := False, 1 := False),
            Halted := (Halted n)(0 := 0, 1 := 0),
            CPUStop := 0,
            Timers := (\<lambda>_. \<lparr>Reload = 0, Cnt = 0, Counter = 0, CycleShift = 0\<rparr>),
            TimerCheckMask := (\<lambda>_. 0), TimerTimestamp := (\<lambda>_. 0),
            SchedList := (\<lambda>_. \<lparr>Timestamp = 0, FuncID = 0, Param = 0\<rparr>),
            SchedListMask := 0,
            KeyInput := 0x007F03FF, KeyCnt := (\<lambda>_. 0),
            GXStat := 0, CmdFIFO_Level := 0\<rparr>)"

text \<open>A console before its first reset, with one choice of the contents of its memory; the queues are
  set up by their constructor.\<close>

definition nds_zero :: "int \<Rightarrow> nds" where
  "nds_zero type =
     \<lparr>ConsoleType = type, CurCPU = 0,
      SchedList = (\<lambda>_. \<lparr>Timestamp = 0, FuncID = 0, Param = 0\<rparr>), SchedListMask = 0,
      SysTimestamp = 0, ARM9Timestamp = 0, ARM9Target = 0, ARM7Timestamp = 0, ARM7Target = 0,
      ARM9ClockShift = 1, IME = (\<lambda>_. 0), IE = (\<lambda>_. 0), IF = (\<lambda>_. 0), IE2 = 0, IF2 = 0,
      IRQ_line = (\<lambda>_. False), Halted = (\<lambda>_. 0), CPUStop = 0,
      Timers = (\<lambda>_. \<lparr>Reload = 0, Cnt = 0, Counter = 0, CycleShift = 0\<rparr>),
      TimerCheckMask = (\<lambda>_. 0), TimerTimestamp = (\<lambda>_. 0),
      DivCnt = 0, DivNumerator = (\<lambda>_. 0), DivDenominator = (\<lambda>_. 0), DivQuotient = (\<lambda>_. 0),
      DivRemainder = (\<lambda>_. 0), SqrtCnt = 0, SqrtVal = (\<lambda>_. 0), SqrtRes = 0,
      KeyInput = 0, KeyCnt = (\<lambda>_. 0), WRAMCnt = 1,
      SWRAM_ARM9 = \<lparr>Mem = None, Mask = 0\<rparr>, SWRAM_ARM7 = \<lparr>Mem = None, Mask = 0\<rparr>,
      IPCSync9 = 0, IPCSync7 = 0, IPCFIFOCnt9 = 0, IPCFIFOCnt7 = 0,
      IPCFIFO9 = FIFO_init 16, IPCFIFO7 = FIFO_init 16, GXStat = 0, CmdFIFO_Level = 0, Ext = []\<rparr>"

end
