(* ===== verification/Nds_Math.thy ===== *)
theory Nds_Math
  imports Nds_Core "HOL-Library.Signed_Division"
begin

text \<open>
  The divider and the square-root unit of the ARM9, \<^verbatim>\<open>NDS::StartDiv\<close>, \<^verbatim>\<open>DivDone\<close>,
  \<^verbatim>\<open>StartSqrt\<close> and \<^verbatim>\<open>SqrtDone\<close> of \<^verbatim>\<open>src/src/NDS.cpp\<close>. The 64-bit operands and results are
  pairs of 32-bit registers, low half first.
\<close>

section \<open>Model\<close>

definition get64 :: "(nat \<Rightarrow> u32) \<Rightarrow> u64" where
  "get64 f = ucast (f 0) OR push_bit 32 (ucast (f 1))"

definition put64 :: "(nat \<Rightarrow> u32) \<Rightarrow> u64 \<Rightarrow> nat \<Rightarrow> u32" where
  "put64 f w = f(0 := ucast w, 1 := ucast (drop_bit 32 w))"

definition StartDiv :: "'a nds_scheme \<Rightarrow> 'a nds_scheme" where
  "StartDiv n =
     (let n = CancelEvent Event_Div n;
          n = n\<lparr>DivCnt := DivCnt n OR 0x8000\<rparr>
      in ScheduleEvent Event_Div False (if DivCnt n AND 3 = 0 then 18 else 34) 0 0 n)"

text \<open>
  The 32-bit division. When the quotient does not fit, only the quotient is written.
\<close>

definition div32 :: "'a nds_scheme \<Rightarrow> 'a nds_scheme" where
  "div32 n =
     (let num = sint (DivNumerator n 0); den = sint (DivDenominator n 0)
      in if den = 0 then
           n\<lparr>DivQuotient := (DivQuotient n)
                (0 := (if num < 0 then 1 else - 1), 1 := (if num < 0 then - 1 else 0)),
             DivRemainder := put64 (DivRemainder n) (word_of_int num)\<rparr>
         else if num = - 0x80000000 \<and> den = - 1 then
           n\<lparr>DivQuotient := put64 (DivQuotient n) 0x80000000\<rparr>
         else
           n\<lparr>DivQuotient := put64 (DivQuotient n) (word_of_int (num sdiv den)),
             DivRemainder := put64 (DivRemainder n) (word_of_int (num smod den))\<rparr>)"

text \<open>The divisions of a 64-bit numerator, by a 32-bit or a 64-bit denominator.\<close>

definition div64 :: "int \<Rightarrow> 'a nds_scheme \<Rightarrow> 'a nds_scheme" where
  "div64 den n =
     (let num = sint (get64 (DivNumerator n))
      in if den = 0 then
           n\<lparr>DivQuotient := put64 (DivQuotient n) (if num < 0 then 1 else - 1),
             DivRemainder := put64 (DivRemainder n) (word_of_int num)\<rparr>
         else if num = - 0x8000000000000000 \<and> den = - 1 then
           n\<lparr>DivQuotient := put64 (DivQuotient n) 0x8000000000000000,
             DivRemainder := put64 (DivRemainder n) 0\<rparr>
         else
           n\<lparr>DivQuotient := put64 (DivQuotient n) (word_of_int (num sdiv den)),
             DivRemainder := put64 (DivRemainder n) (word_of_int (num smod den))\<rparr>)"

definition DivDone :: "u32 \<Rightarrow> 'a nds_scheme \<Rightarrow> 'a nds_scheme" where
  "DivDone param n =
     (let n = n\<lparr>DivCnt := DivCnt n AND NOT 0xC000\<rparr>;
          m = DivCnt n AND 3;
          n = (if m = 0 then div32 n
               else if m = 1 \<or> m = 3 then div64 (sint (DivDenominator n 0)) n
               else div64 (sint (get64 (DivDenominator n))) n)
      in if DivDenominator n 0 OR DivDenominator n 1 = 0
         then n\<lparr>DivCnt := DivCnt n OR 0x4000\<rparr> else n)"

text \<open>
  The square root, two bits of the value per round: \<open>k\<close> rounds are left. \<^verbatim>\<open>prod\<close> is a
  \<^verbatim>\<open>u32\<close> and is widened for the comparison with the 64-bit remainder.
\<close>

fun sqrt_loop :: "nat \<Rightarrow> nat \<Rightarrow> u64 \<Rightarrow> u32 \<Rightarrow> u64 \<Rightarrow> u32" where
  "sqrt_loop 0 topshift val res rem = res"
| "sqrt_loop (Suc k) topshift val res rem =
     (let rem = push_bit 2 rem + (drop_bit topshift val AND 3);
          val = push_bit 2 val;
          res = push_bit 1 res;
          prod = push_bit 1 res + 1
      in if rem \<ge> ucast prod then sqrt_loop k topshift val (res + 1) (rem - ucast prod)
         else sqrt_loop k topshift val res rem)"

definition SqrtDone :: "u32 \<Rightarrow> 'a nds_scheme \<Rightarrow> 'a nds_scheme" where
  "SqrtDone param n =
     (let n = n\<lparr>SqrtCnt := SqrtCnt n AND NOT 0x8000\<rparr>
      in n\<lparr>SqrtRes := (if SqrtCnt n AND 1 \<noteq> 0
                       then sqrt_loop 32 62 (get64 (SqrtVal n)) 0 0
                       else sqrt_loop 16 30 (ucast (SqrtVal n 0)) 0 0)\<rparr>)"

definition StartSqrt :: "'a nds_scheme \<Rightarrow> 'a nds_scheme" where
  "StartSqrt n =
     (let n = CancelEvent Event_Sqrt n;
          n = n\<lparr>SqrtCnt := SqrtCnt n OR 0x8000\<rparr>
      in ScheduleEvent Event_Sqrt False 13 0 0 n)"

section \<open>Pairs of registers\<close>

lemma get64_put64 [simp]: "get64 (put64 f w) = w"
  by (rule bit_word_eqI) (auto simp: get64_def put64_def bit_simps)

lemma put64_other [simp]: "1 < i \<Longrightarrow> put64 f w i = f i"
  by (simp add: put64_def)

lemma get64_eq_0: "get64 f = 0 \<longleftrightarrow> f 0 OR f 1 = 0"
proof
  assume a: "get64 f = 0"
  have "f i = 0" if "i < 2" for i
  proof (rule bit_word_eqI)
    fix k assume "k < LENGTH(32)"
    then have "bit (get64 f) (32 * i + k) = bit (f i) k"
      using that by (auto simp: get64_def bit_simps less_2_cases_iff dest: bit_imp_le_length)
    then show "bit (f i) k = bit (0 :: u32) k" using a by simp
  qed
  then show "f 0 OR f 1 = 0" by simp
qed (simp add: get64_def or_eq_0_iff)

section \<open>Division\<close>

text \<open>Division that truncates towards zero, as C has it.\<close>

definition trunc_div :: "int \<Rightarrow> int \<Rightarrow> int \<Rightarrow> int \<Rightarrow> bool" where
  "trunc_div a b q r \<longleftrightarrow> a = q * b + r \<and> \<bar>r\<bar> < \<bar>b\<bar> \<and> (r = 0 \<or> sgn r = sgn a)"

lemma sdiv_smod_trunc:
  assumes "b \<noteq> 0"
  shows "trunc_div a b (a sdiv b) (a smod b)"
proof -
  have m: "0 \<le> \<bar>a\<bar> mod \<bar>b\<bar>" "\<bar>a\<bar> mod \<bar>b\<bar> < \<bar>b\<bar>" using assms by simp_all
  have "\<bar>a smod b\<bar> < \<bar>b\<bar>" "a smod b = 0 \<or> sgn (a smod b) = sgn a"
    using m by (cases a "0 :: int" rule: linorder_cases; simp add: signed_modulo_int_def sgn_if)+
  then show ?thesis using sdiv_mult_smod_eq [of a b] by (simp add: trunc_div_def)
qed

lemma smod_range:
  assumes "b \<noteq> 0" "- M \<le> a" "a < (M :: int)"
  shows "- M \<le> a smod b" "a smod b < M"
proof -
  define m where "m = \<bar>a\<bar> mod \<bar>b\<bar>"
  have m: "m \<le> \<bar>a\<bar>" "0 \<le> m"
    using assms(1) by (simp_all add: m_def zmod_le_nonneg_dividend)
  have "a smod b = (if 0 < a then m else - m)"
    using m by (cases a "0 :: int" rule: linorder_cases; simp add: signed_modulo_int_def m_def)
  then show "- M \<le> a smod b" "a smod b < M" using m assms by auto
qed

lemma sdiv_range:
  assumes "b \<noteq> 0" "- M \<le> a" "a < (M :: int)" and ovf: "\<not> (a = - M \<and> b = - 1)"
  shows "- M \<le> a sdiv b" "a sdiv b < M"
proof -
  have d: "0 \<le> \<bar>a\<bar> div \<bar>b\<bar>"
    using assms(1) by (simp add: pos_imp_zdiv_nonneg_iff)
  have l: "\<bar>a\<bar> div \<bar>b\<bar> < \<bar>a\<bar> \<or> a = 0 \<or> \<bar>b\<bar> = 1"
    using assms(1) by (cases "a = 0") (auto intro: int_div_less_self)
  have q: "a sdiv b = (if a = 0 then 0 else if (0 < a) = (0 < b) then \<bar>a\<bar> div \<bar>b\<bar> else - (\<bar>a\<bar> div \<bar>b\<bar>))"
    using assms(1) by (auto simp: signed_divide_int_def sgn_if)
  show "- M \<le> a sdiv b" "a sdiv b < M"
    unfolding q using l d assms by (auto split: if_splits)
qed

lemma sint_word_of_int_u64:
  "- 0x8000000000000000 \<le> x \<Longrightarrow> x < 0x8000000000000000 \<Longrightarrow> sint (word_of_int x :: u64) = x"
  by (simp add: signed_of_int signed_take_bit_int_eq_self)

lemma sint_scast_u64: "sint (scast w :: u64) = sint w" for w :: u32
  using sint_word_of_int_u64 [of "sint w"] sint_greater_eq [of w] sint_less [of w] by simp

lemma sint_u64_range: "- 0x8000000000000000 \<le> sint w" "sint w < 0x8000000000000000" for w :: u64
  using sint_greater_eq [of w] sint_less [of w] by simp_all

lemma sint_u32_range: "- 0x80000000 \<le> sint w" "sint w < 0x80000000" for w :: u32
  using sint_greater_eq [of w] sint_less [of w] by simp_all

text \<open>The operands as the selected mode reads them.\<close>

definition div_num :: "'a nds_scheme \<Rightarrow> int" where
  "div_num n = (if DivCnt n AND 3 = 0 then sint (DivNumerator n 0) else sint (get64 (DivNumerator n)))"

definition div_den :: "'a nds_scheme \<Rightarrow> int" where
  "div_den n = (if DivCnt n AND 3 = 2 then sint (get64 (DivDenominator n)) else sint (DivDenominator n 0))"

definition div_overflow :: "'a nds_scheme \<Rightarrow> bool" where
  "div_overflow n \<longleftrightarrow>
     div_num n = (if DivCnt n AND 3 = 0 then - 0x80000000 else - 0x8000000000000000) \<and> div_den n = - 1"

definition div_quot :: "'a nds_scheme \<Rightarrow> int" where
  "div_quot n = sint (get64 (DivQuotient n))"

definition div_rem :: "'a nds_scheme \<Rightarrow> int" where
  "div_rem n = sint (get64 (DivRemainder n))"

lemma div32_by_zero:
  "sint (get64 (f(0 := 1, Suc 0 := - 1))) = 1 - 0x100000000"
  "sint (get64 (f(0 := - 1, Suc 0 := 0))) = 0xFFFFFFFF"
proof -
  have "(ucast (1 :: u32) OR push_bit 32 (ucast (- 1 :: u32)) :: u64) = 0xFFFFFFFF00000001"
    by code_simp
  then show "sint (get64 (f(0 := 1, Suc 0 := - 1))) = 1 - 0x100000000"
    by (simp add: get64_def)
  have "(ucast (- 1 :: u32) OR push_bit 32 (ucast (0 :: u32)) :: u64) = 0xFFFFFFFF"
    by code_simp
  then show "sint (get64 (f(0 := - 1, Suc 0 := 0))) = 0xFFFFFFFF"
    by (simp add: get64_def)
qed

lemma div32_result:
  assumes "den = sint (DivDenominator n 0)" "num = sint (DivNumerator n 0)"
  shows "den \<noteq> 0 \<Longrightarrow> \<not> (num = - 0x80000000 \<and> den = - 1) \<Longrightarrow>
           div_quot (div32 n) = num sdiv den \<and> div_rem (div32 n) = num smod den"
    and "den = 0 \<Longrightarrow> div_quot (div32 n) = (if num < 0 then 1 - 0x100000000 else 0xFFFFFFFF) \<and>
           div_rem (div32 n) = num"
    and "num = - 0x80000000 \<and> den = - 1 \<Longrightarrow> div_quot (div32 n) = 0x80000000"
proof -
  have r: "- 0x80000000 \<le> num" "num < 0x80000000" using assms by (simp_all add: sint_u32_range)
  show "div_quot (div32 n) = num sdiv den \<and> div_rem (div32 n) = num smod den"
    if "den \<noteq> 0" "\<not> (num = - 0x80000000 \<and> den = - 1)"
    using that r sdiv_range [OF that(1) r that(2)] smod_range [OF that(1) r] assms
    by (auto simp: div_quot_def div_rem_def div32_def Let_def sint_word_of_int_u64)
  show "div_quot (div32 n) = (if num < 0 then 1 - 0x100000000 else 0xFFFFFFFF) \<and> div_rem (div32 n) = num"
    if "den = 0"
    using that r assms
    by (simp add: div_quot_def div_rem_def div32_def Let_def sint_scast_u64 div32_by_zero)
  show "div_quot (div32 n) = 0x80000000" if "num = - 0x80000000 \<and> den = - 1"
    using that assms by (simp add: div_quot_def div32_def)
qed

lemma div64_result:
  assumes "num = sint (get64 (DivNumerator n))"
  shows "den \<noteq> 0 \<Longrightarrow> \<not> (num = - 0x8000000000000000 \<and> den = - 1) \<Longrightarrow>
           div_quot (div64 den n) = num sdiv den \<and> div_rem (div64 den n) = num smod den"
    and "den = 0 \<Longrightarrow> div_quot (div64 den n) = (if num < 0 then 1 else - 1) \<and> div_rem (div64 den n) = num"
    and "num = - 0x8000000000000000 \<and> den = - 1 \<Longrightarrow>
           div_quot (div64 den n) = - 0x8000000000000000 \<and> div_rem (div64 den n) = 0"
proof -
  have r: "- 0x8000000000000000 \<le> num" "num < 0x8000000000000000" using assms by (simp_all add: sint_u64_range)
  show "div_quot (div64 den n) = num sdiv den \<and> div_rem (div64 den n) = num smod den"
    if "den \<noteq> 0" "\<not> (num = - 0x8000000000000000 \<and> den = - 1)"
    using that r sdiv_range [OF that(1) r that(2)] smod_range [OF that(1) r] assms
    by (auto simp: div_quot_def div_rem_def div64_def Let_def sint_word_of_int_u64)
  show "div_quot (div64 den n) = (if num < 0 then 1 else - 1) \<and> div_rem (div64 den n) = num"
    if "den = 0"
    using that r assms by (simp add: div_quot_def div_rem_def div64_def Let_def sint_word_of_int_u64)
  show "div_quot (div64 den n) = - 0x8000000000000000 \<and> div_rem (div64 den n) = 0"
    if "num = - 0x8000000000000000 \<and> den = - 1"
    using that assms by (simp add: div_quot_def div_rem_def div64_def)
qed

lemma DivCnt_div [simp]: "DivCnt (div32 n) = DivCnt n" "DivCnt (div64 d n) = DivCnt n"
  "DivDenominator (div32 n) = DivDenominator n" "DivDenominator (div64 d n) = DivDenominator n"
  by (simp_all add: div32_def div64_def Let_def)

lemma div_quot_cnt [simp]: "div_quot (n\<lparr>DivCnt := c\<rparr>) = div_quot n" "div_rem (n\<lparr>DivCnt := c\<rparr>) = div_rem n"
  by (simp_all add: div_quot_def div_rem_def)

text \<open>The control register: bits 0 and 1 the mode, bit 14 the error flag, bit 15 the busy flag.\<close>

lemma div_flags_iff:
  fixes c :: u16
  shows "c AND 0x8000 = 0 \<longleftrightarrow> \<not> bit c 15" "c AND 0x4000 = 0 \<longleftrightarrow> \<not> bit c 14"
  using and_exp_eq_0_iff_not_bit [of c 15] and_exp_eq_0_iff_not_bit [of c 14] by simp_all

lemma div_clear_mode [simp]: "(c AND - 49153) AND 3 = c AND (3 :: u16)"
  by (simp add: and.assoc)

lemma bit_clear_flags:
  fixes c :: u16
  shows "\<not> bit (c AND NOT 0xC000) 15" "\<not> bit (c AND NOT 0xC000) 14"
    "\<not> bit (c AND NOT 0xC000 OR 0x4000) 15" "bit (c AND NOT 0xC000 OR 0x4000) 14"
  by (simp_all only: bit_and_iff bit_or_iff bit_not_iff) simp_all

lemma u16_mode_cases: "x AND 3 = 0 \<or> x AND 3 = 1 \<or> x AND 3 = 2 \<or> x AND (3 :: u16) = 3"
proof -
  have "unat (x AND 3) = unat x mod 4" using unat_and_mask [of x 2] by (simp add: mask_eq_exp_minus_1)
  then have "unat (x AND 3) < 4" by simp
  then have "unat (x AND 3) = 0 \<or> unat (x AND 3) = 1 \<or> unat (x AND 3) = 2 \<or> unat (x AND 3) = 3"
    by linarith
  then show ?thesis by (simp add: word_unat_eq_iff)
qed

lemma DivDone_quotient:
  "div_quot (DivDone p n) =
     div_quot (let n = n\<lparr>DivCnt := DivCnt n AND NOT 0xC000\<rparr>
               in if DivCnt n AND 3 = 0 then div32 n else div64 (div_den n) n)"
  "div_rem (DivDone p n) =
     div_rem (let n = n\<lparr>DivCnt := DivCnt n AND NOT 0xC000\<rparr>
               in if DivCnt n AND 3 = 0 then div32 n else div64 (div_den n) n)"
  using u16_mode_cases [of "DivCnt n"] by (auto simp: DivDone_def Let_def div_den_def)

lemma DivCnt_DivDone:
  "DivCnt (DivDone p n) =
     (if get64 (DivDenominator n) = 0 then DivCnt n AND NOT 0xC000 OR 0x4000 else DivCnt n AND NOT 0xC000)"
  by (simp add: DivDone_def Let_def get64_eq_0)

lemma DivDone_flags:
  "DivCnt (DivDone p n) AND 0x8000 = 0"
  "DivCnt (DivDone p n) AND 0x4000 \<noteq> 0 \<longleftrightarrow> get64 (DivDenominator n) = 0"
  by (simp_all only: DivCnt_DivDone div_flags_iff bit_clear_flags if_cancel split: if_split) simp_all

lemmas div_results = div32_result div64_result DivDone_quotient Let_def div_overflow_def div_num_def div_den_def

text \<open>
  C34: The divider. When a division completes, the busy flag is clear, the error flag says
  whether the whole 64-bit denominator is zero, and the result is the quotient and the
  remainder of the division truncated towards zero, of the operand widths that the mode
  selects. A zero denominator gives the numerator as the remainder and plus or minus one as
  the quotient (with the upper half inverted in 32-bit mode), and the one quotient that does
  not fit its width gives its bit pattern.
\<close>

theorem DivDone_divides:
  "DivCnt (DivDone p n) AND 0x8000 = 0 \<and>
   (DivCnt (DivDone p n) AND 0x4000 \<noteq> 0 \<longleftrightarrow> get64 (DivDenominator n) = 0) \<and>
   (div_den n \<noteq> 0 \<and> \<not> div_overflow n \<longrightarrow>
      trunc_div (div_num n) (div_den n) (div_quot (DivDone p n)) (div_rem (DivDone p n))) \<and>
   (div_den n = 0 \<longrightarrow>
      div_rem (DivDone p n) = div_num n \<and>
      div_quot (DivDone p n) =
        (if DivCnt n AND 3 = 0 then if div_num n < 0 then 1 - 0x100000000 else 0xFFFFFFFF
         else if div_num n < 0 then 1 else - 1)) \<and>
   (div_overflow n \<longrightarrow>
      (if DivCnt n AND 3 = 0 then div_quot (DivDone p n) = 0x80000000
       else div_quot (DivDone p n) = - 0x8000000000000000 \<and> div_rem (DivDone p n) = 0))"
  (is "?f \<and> ?z \<and> ?q \<and> ?d \<and> ?o")
proof (intro conjI)
  show ?f ?z by (simp_all only: DivDone_flags)
  show ?q using sdiv_smod_trunc [of "div_den n" "div_num n"] by (auto simp: div_results)
  show ?d by (auto simp: div_results)
  show ?o by (auto simp: div_results)
qed

text \<open>A division by zero in 32-bit mode, an ordinary one in the mixed mode and the overflow.\<close>

theorem DivDone_divides_witness:
  "div_den ((nds_zero 0)\<lparr>DivNumerator := (\<lambda>i. if i = 0 then 7 else 0)\<rparr>) = 0 \<and>
   div_rem (DivDone 0 ((nds_zero 0)\<lparr>DivNumerator := (\<lambda>i. if i = 0 then 7 else 0)\<rparr>)) = 7"
  using DivDone_divides [of 0 "(nds_zero 0)\<lparr>DivNumerator := (\<lambda>i. if i = 0 then 7 else 0)\<rparr>"]
  by (simp add: div_den_def div_num_def nds_zero_def)

section \<open>Square root\<close>

text \<open>
  \<open>k\<close> rounds are left: the root and the remainder found so far are those of the value
  without its last \<open>2 k\<close> bits.
\<close>

definition sq_inv :: "nat \<Rightarrow> nat \<Rightarrow> nat \<Rightarrow> nat \<Rightarrow> bool" where
  "sq_inv V k r m \<longleftrightarrow> m + r * r = V div 4 ^ k \<and> m \<le> 2 * r"

lemma sq_inv_step:
  assumes "sq_inv V (Suc k) r m" and d: "d = (V div 4 ^ k) mod 4"
  shows "4 * r + 1 \<le> 4 * m + d \<Longrightarrow> sq_inv V k (2 * r + 1) (4 * m + d - (4 * r + 1))"
    and "4 * m + d < 4 * r + 1 \<Longrightarrow> sq_inv V k (2 * r) (4 * m + d)"
proof -
  have "V div 4 ^ Suc k = V div 4 ^ k div 4" by (metis div_mult2_eq mult.commute power_Suc)
  then have "V div 4 ^ k = 4 * (V div 4 ^ Suc k) + d" using d by simp
  then have v: "V div 4 ^ k = 4 * (m + r * r) + d" and m: "m \<le> 2 * r"
    using assms(1) by (simp_all add: sq_inv_def)
  have "d < 4" by (simp add: d)
  show "sq_inv V k (2 * r + 1) (4 * m + d - (4 * r + 1))" if "4 * r + 1 \<le> 4 * m + d"
  proof -
    from that obtain e where e: "4 * m + d = 4 * r + 1 + e" by (auto simp: le_iff_add)
    then have "e \<le> 2 * (2 * r + 1)" using m \<open>d < 4\<close> by presburger
    moreover have "e + (2 * r + 1) * (2 * r + 1) = 4 * (m + r * r) + d" using e by (simp add: algebra_simps)
    ultimately show ?thesis using e v by (simp add: sq_inv_def)
  qed
  show "sq_inv V k (2 * r) (4 * m + d)" if "4 * m + d < 4 * r + 1"
    using that v by (simp add: sq_inv_def)
qed

lemma sq_inv_bound: "sq_inv V k r m \<Longrightarrow> V < 4 ^ k * (B * B) \<Longrightarrow> r < B"
proof (rule ccontr)
  assume a: "sq_inv V k r m" "V < 4 ^ k * (B * B)" "\<not> r < B"
  then have "B * B \<le> r * r" by (simp add: mult_le_mono)
  also have "\<dots> \<le> V div 4 ^ k" using a(1) by (simp add: sq_inv_def)
  also have "\<dots> < B * B" using a(2) by (simp add: less_mult_imp_div_less mult.commute)
  finally show False by simp
qed

text \<open>The two bits that the loop takes when \<open>k + 1\<close> rounds are left.\<close>

lemma sqrt_digit:
  fixes v :: u64
  assumes "Suc k \<le> N" "N \<le> 32"
  shows "unat (drop_bit (2 * N - 2) (push_bit (2 * (N - Suc k)) v) AND 3) = (unat v div 4 ^ k) mod 4"
proof -
  have "drop_bit (2 * N - 2) (push_bit (2 * (N - Suc k)) v) AND 3 = drop_bit (2 * k) v AND mask 2"
  proof (rule bit_word_eqI)
    fix i assume "i < LENGTH(64)"
    have "2 * N - 2 + i - 2 * (N - Suc k) = 2 * k + i" "2 * (N - Suc k) \<le> 2 * N - 2 + i"
      using assms by simp_all
    moreover have "2 * N - 2 + i < 64 " if "i < 2" using that assms by simp
    moreover have "bit (3 :: u64) i \<longleftrightarrow> i < 2"
      using bit_mask_iff [of 2 i, where 'a = u64] by (auto simp: mask_eq_exp_minus_1)
    ultimately show "bit (drop_bit (2 * N - 2) (push_bit (2 * (N - Suc k)) v) AND 3) i =
        bit (drop_bit (2 * k) v AND mask 2) i"
      by (auto simp: bit_and_iff bit_drop_bit_eq bit_push_bit_iff bit_mask_iff)
  qed
  then show ?thesis by (simp add: unat_and_mask unat_shr power_mult)
qed

lemma sqrt_round_nat:
  fixes res :: u32 and rem :: u64
  assumes "unat rem \<le> 2 * unat res" "unat res < 2 ^ 31" "unat dig = d" "d < 4"
  shows "unat (push_bit 2 rem + dig) = 4 * unat rem + d"
    and "unat (push_bit 1 res) = 2 * unat res" "unat (push_bit 1 res + 1) = 2 * unat res + 1"
    and "unat res < 2 ^ 30 \<Longrightarrow> unat (ucast (push_bit 1 (push_bit 1 res) + 1) :: u64) = 4 * unat res + 1"
proof -
  have "unat (push_bit 2 rem) = 4 * unat rem"
    using assms by (subst unat_push_small) simp_all
  then show "unat (push_bit 2 rem + dig) = 4 * unat rem + d"
    using assms by (subst unat_plus_small) simp_all
  show r: "unat (push_bit 1 res) = 2 * unat res"
    using assms by (subst unat_push_small) simp_all
  then show "unat (push_bit 1 res + 1) = 2 * unat res + 1"
    using assms by (subst unat_plus_small) simp_all
  assume s: "unat res < 2 ^ 30"
  then have "unat (push_bit 1 (push_bit 1 res)) = 4 * unat res"
    using r by (subst unat_push_small) simp_all
  then have "unat (push_bit 1 (push_bit 1 res) + 1) = 4 * unat res + 1"
    using s by (subst unat_plus_small) simp_all
  then show "unat (ucast (push_bit 1 (push_bit 1 res) + 1) :: u64) = 4 * unat res + 1"
    using s by (subst unat_ucast_small) simp_all
qed


text \<open>
  All rounds but the last are exact. In the last one \<^verbatim>\<open>prod\<close> needs 33 bits when the root
  found so far has 31 bits.
\<close>

lemma sqrt_loop_root:
  fixes v :: u64
  assumes "sq_inv (unat v) (Suc k) (unat res) (unat rem)" "Suc k \<le> N" "N \<le> 32"
    "val = push_bit (2 * (N - Suc k)) v"
  shows "\<exists>r m. sq_inv (unat v) 1 r m \<and> unat (sqrt_loop (Suc k) (2 * N - 2) val res rem) div 2 = r \<and>
    (unat v < 2 ^ 62 \<longrightarrow> (\<exists>m'. sq_inv (unat v) 0 (unat (sqrt_loop (Suc k) (2 * N - 2) val res rem)) m'))"
  using assms
proof (induction k arbitrary: val res rem)
  case 0
  define d where "d = (unat v div 4 ^ 0) mod 4"
  define dig where "dig = (drop_bit (2 * N - 2) val AND 3)"
  have dig: "unat dig = d" "d < 4"
    using sqrt_digit [of 0 N v] 0 by (simp_all add: d_def dig_def)
  have "unat v < 2 ^ 64" using unsigned_less [of v] by simp
  then have r: "unat res < 2 ^ 31" using sq_inv_bound [OF 0(1), of "2 ^ 31"] by simp
  have m: "unat rem \<le> 2 * unat res" using 0(1) by (simp add: sq_inv_def)
  note n = sqrt_round_nat [OF m r dig]
  let ?q = "sqrt_loop (Suc 0) (2 * N - 2) val res rem"
  let ?p = "ucast (push_bit 1 (push_bit 1 res) + 1) :: u64"
  have q: "?q = (if push_bit 2 rem + dig \<ge> ?p then push_bit 1 res + 1 else push_bit 1 res)"
    by (simp add: dig_def del: push_bit_of_1)
  have "unat ?q div 2 = unat res" unfolding q using n(2,3) by simp
  moreover have "\<exists>m'. sq_inv (unat v) 0 (unat ?q) m'" if "unat v < 2 ^ 62"
  proof -
    have "unat res < 2 ^ 30" using sq_inv_bound [OF 0(1), of "2 ^ 30"] that by simp
    then have p: "unat ?p = 4 * unat res + 1" by (rule n(4))
    show ?thesis
      unfolding q word_le_nat_alt n(1) p
      using sq_inv_step [OF 0(1) d_def] n(2,3) by (cases "4 * unat res + 1 \<le> 4 * unat rem + d") auto
  qed
  ultimately show ?case using 0(1) by auto
next
  case (Suc k)
  define d where "d = (unat v div 4 ^ Suc k) mod 4"
  define dig where "dig = (drop_bit (2 * N - 2) val AND 3)"
  have dig: "unat dig = d" "d < 4"
    using sqrt_digit [of "Suc k" N v] Suc.prems by (simp_all add: d_def dig_def)
  have "unat v < 2 ^ 64" using unsigned_less [of v] by simp
  also have "(2 :: nat) ^ 64 \<le> 4 ^ Suc (Suc k) * (2 ^ 30 * 2 ^ 30)" by simp
  finally have r: "unat res < 2 ^ 30" by (rule sq_inv_bound [OF Suc.prems(1)])
  then have r': "unat res < 2 ^ 31" by simp
  have m: "unat rem \<le> 2 * unat res" using Suc.prems(1) by (simp add: sq_inv_def)
  note n = sqrt_round_nat [OF m r' dig]
  let ?p = "ucast (push_bit 1 (push_bit 1 res) + 1) :: u64"
  have p: "unat ?p = 4 * unat res + 1" using r by (rule n(4))
  have v: "push_bit 2 val = push_bit (2 * (N - Suc k)) v"
  proof -
    have "2 + 2 * (N - Suc (Suc k)) = 2 * (N - Suc k)" using Suc.prems(2) by simp
    then show ?thesis unfolding Suc.prems(4) push_bit_push_bit by simp
  qed
  note step = sq_inv_step [OF Suc.prems(1) d_def]
  note IH = Suc.IH [OF _ _ Suc.prems(3) v]
  show ?case
  proof (cases "push_bit 2 rem + dig \<ge> ?p")
    case True
    then have le: "4 * unat res + 1 \<le> 4 * unat rem + d" by (simp only: word_le_nat_alt n(1) p)
    have "unat (push_bit 2 rem + dig - ?p) = 4 * unat rem + d - (4 * unat res + 1)"
      using unat_minus_small [OF True] by (simp only: n(1) p)
    then have i: "sq_inv (unat v) (Suc k) (unat (push_bit 1 res + 1)) (unat (push_bit 2 rem + dig - ?p))"
      using step(1) [OF le] n(3) by simp
    have e: "sqrt_loop (Suc (Suc k)) (2 * N - 2) val res rem =
        sqrt_loop (Suc k) (2 * N - 2) (push_bit 2 val) (push_bit 1 res + 1) (push_bit 2 rem + dig - ?p)"
      using True unfolding dig_def by (subst sqrt_loop.simps(2)) (simp only: Let_def if_True)
    show ?thesis unfolding e using Suc.prems(2) by (intro IH [OF i]) simp
  next
    case False
    then have lt: "4 * unat rem + d < 4 * unat res + 1" by (simp only: word_le_nat_alt n(1) p not_le)
    then have i: "sq_inv (unat v) (Suc k) (unat (push_bit 1 res)) (unat (push_bit 2 rem + dig))"
      using step(2) [OF lt] n(1,2) by simp
    have e: "sqrt_loop (Suc (Suc k)) (2 * N - 2) val res rem =
        sqrt_loop (Suc k) (2 * N - 2) (push_bit 2 val) (push_bit 1 res) (push_bit 2 rem + dig)"
      using False unfolding dig_def by (subst sqrt_loop.simps(2)) (simp only: Let_def if_False)
    show ?thesis unfolding e using Suc.prems(2) by (intro IH [OF i]) simp
  qed
qed


lemma sq_inv_root: "sq_inv V 0 r m \<Longrightarrow> r * r \<le> V \<and> V < (r + 1) * (r + 1)"
  by (auto simp: sq_inv_def algebra_simps)

lemma sqrt_loop_64:
  "unat v < 2 ^ 62 \<Longrightarrow> unat (sqrt_loop 32 62 v 0 0) * unat (sqrt_loop 32 62 v 0 0) \<le> unat v \<and>
     unat v < (unat (sqrt_loop 32 62 v 0 0) + 1) * (unat (sqrt_loop 32 62 v 0 0) + 1)"
  "\<exists>r. unat (sqrt_loop 32 62 v 0 0) div 2 = r \<and> r * r \<le> unat v div 4 \<and> unat v div 4 < (r + 1) * (r + 1)"
proof -
  have "unat v < 4 ^ 32" using unsigned_less [of v] by simp
  then have "sq_inv (unat v) (Suc 31) (unat (0 :: u32)) (unat (0 :: u64))" by (simp add: sq_inv_def)
  from sqrt_loop_root [OF this, of 32 v]
  obtain r m where 1: "sq_inv (unat v) 1 r m" "unat (sqrt_loop 32 62 v 0 0) div 2 = r"
    and 2: "unat v < 2 ^ 62 \<longrightarrow> (\<exists>m. sq_inv (unat v) 0 (unat (sqrt_loop 32 62 v 0 0)) m)"
    by (auto simp del: sqrt_loop.simps)
  from 2 show "unat (sqrt_loop 32 62 v 0 0) * unat (sqrt_loop 32 62 v 0 0) \<le> unat v \<and>
     unat v < (unat (sqrt_loop 32 62 v 0 0) + 1) * (unat (sqrt_loop 32 62 v 0 0) + 1)" if "unat v < 2 ^ 62"
    using sq_inv_root that by (blast)
  from 1 show "\<exists>r. unat (sqrt_loop 32 62 v 0 0) div 2 = r \<and> r * r \<le> unat v div 4 \<and> unat v div 4 < (r + 1) * (r + 1)"
    by (intro exI [of _ r]) (auto simp: sq_inv_def algebra_simps)
qed

lemma sqrt_loop_32:
  fixes w :: u32
  defines "s \<equiv> sqrt_loop 16 30 (ucast w) 0 0"
  shows "unat s * unat s \<le> unat w \<and> unat w < (unat s + 1) * (unat s + 1)"
proof -
  have w: "unat (ucast w :: u64) = unat w" "unat w < 4 ^ 16"
    using unat_u32_less [of w] by (auto intro: unat_ucast_small)
  then have "sq_inv (unat (ucast w :: u64)) (Suc 15) (unat (0 :: u32)) (unat (0 :: u64))" by (simp add: sq_inv_def)
  from sqrt_loop_root [OF this, of 16 "ucast w"] w
  have "\<exists>m. sq_inv (unat w) 0 (unat s) m" unfolding s_def by (auto simp del: sqrt_loop.simps)
  then show ?thesis using sq_inv_root by blast
qed


definition sqrt_arg :: "'a nds_scheme \<Rightarrow> nat" where
  "sqrt_arg n = (if SqrtCnt n AND 1 \<noteq> 0 then unat (get64 (SqrtVal n)) else unat (SqrtVal n 0))"

definition is_root :: "nat \<Rightarrow> nat \<Rightarrow> bool" where
  "is_root r V \<longleftrightarrow> r * r \<le> V \<and> V < (r + 1) * (r + 1)"

lemma is_root_half: "is_root r V \<Longrightarrow> is_root (r div 2) (V div 4)"
proof -
  define h where "h = r div 2"
  have "r = 2 * h \<or> r = 2 * h + 1" unfolding h_def by presburger
  then show "is_root r V \<Longrightarrow> is_root (r div 2) (V div 4)"
    unfolding h_def [symmetric] is_root_def by (auto simp: algebra_simps)
qed

text \<open>
  C35: The square-root unit returns the integer square root of every 32-bit value and of every
  64-bit value below \<open>2 ^ 62\<close>; for the larger ones the upper 31 bits of the result are those
  of the root. The busy flag is clear afterwards.
\<close>

theorem SqrtDone_root:
  "SqrtCnt (SqrtDone p n) AND 0x8000 = 0 \<and>
   (sqrt_arg n < 2 ^ 62 \<longrightarrow> is_root (unat (SqrtRes (SqrtDone p n))) (sqrt_arg n)) \<and>
   is_root (unat (SqrtRes (SqrtDone p n)) div 2) (sqrt_arg n div 4)"
proof (intro conjI)
  show "SqrtCnt (SqrtDone p n) AND 0x8000 = 0"
    by (simp add: SqrtDone_def Let_def and.assoc)
  have c: "(SqrtCnt n AND - 32769) AND 1 = SqrtCnt n AND 1" by (simp add: and.assoc)
  show 1: "sqrt_arg n < 2 ^ 62 \<longrightarrow> is_root (unat (SqrtRes (SqrtDone p n))) (sqrt_arg n)"
    using sqrt_loop_64(1) [of "get64 (SqrtVal n)"] sqrt_loop_32 [of "SqrtVal n 0"]
    by (simp add: SqrtDone_def Let_def c sqrt_arg_def is_root_def del: sqrt_loop.simps)
  show "is_root (unat (SqrtRes (SqrtDone p n)) div 2) (sqrt_arg n div 4)"
    using sqrt_loop_64(2) [of "get64 (SqrtVal n)"] is_root_half [OF sqrt_loop_32 [of "SqrtVal n 0", folded is_root_def]]
    by (simp add: SqrtDone_def Let_def c sqrt_arg_def is_root_def del: sqrt_loop.simps)
qed

theorem SqrtDone_root_witness:
  "sqrt_arg ((nds_zero 0)\<lparr>SqrtVal := (\<lambda>i. 99)\<rparr>) < 2 ^ 62 \<and>
   is_root (unat (SqrtRes (SqrtDone 0 ((nds_zero 0)\<lparr>SqrtVal := (\<lambda>i. 99)\<rparr>)))) 99"
  using SqrtDone_root [of 0 "(nds_zero 0)\<lparr>SqrtVal := (\<lambda>i. 99)\<rparr>"]
  by (simp add: sqrt_arg_def nds_zero_def)

text \<open>
  The square root of the 64-bit value \<open>2 ^ 62 + 1\<close> is \<open>2 ^ 31\<close>; the unit returns
  \<open>2 ^ 31 + 1\<close>, because the trial subtrahend of the last round is truncated to 32 bits.
\<close>

theorem SqrtDone_rounds_up:
  "\<exists>n :: nds. sqrt_arg n = 2 ^ 62 + 1 \<and> unat (SqrtRes (SqrtDone 0 n)) = 2 ^ 31 + 1 \<and>
     \<not> is_root (unat (SqrtRes (SqrtDone 0 n))) (sqrt_arg n)"
proof -
  let ?n = "(nds_zero 0)\<lparr>SqrtCnt := 1, SqrtVal := (\<lambda>i. if i = 0 then 1 else 0x40000000)\<rparr>"
  have v: "get64 (\<lambda>i. if i = 0 then 1 else 0x40000000) = 0x4000000000000001"
    unfolding get64_def by code_simp
  have l: "sqrt_loop 32 62 0x4000000000000001 0 0 = 0x80000001" by code_simp
  have a: "sqrt_arg ?n = 2 ^ 62 + 1" by (simp add: sqrt_arg_def v)
  have r: "unat (SqrtRes (SqrtDone 0 ?n)) = 2 ^ 31 + 1"
    by (simp add: SqrtDone_def v l del: sqrt_loop.simps)
  show ?thesis
    by (intro exI [of _ ?n] conjI a r) (simp only: a r is_root_def, simp)
qed

end
