(* ===== verification/Nds_Sched.thy ===== *)
theory Nds_Sched
  imports Nds_Core
begin

text \<open>
  The interrupt controllers, the event scheduler, the key inputs and the shared work RAM of
  \<open>Nds_Core\<close>: what their operations guarantee.
\<close>

section \<open>Single-bit masks\<close>

lemma bit_bitm [simp]: "bit (bitm i) j \<longleftrightarrow> i = j \<and> i < 32"
  by (auto simp: bitm_def bit_simps simp del: push_bit_of_1)

lemma and_bitm_eq_0 [simp]: "x AND bitm i = 0 \<longleftrightarrow> \<not> bit x i"
  by (simp add: bitm_def and_exp_eq_0_iff_not_bit)

lemma and_1_eq_0 [simp]: "x AND 1 = 0 \<longleftrightarrow> \<not> bit x 0" for x :: u32
  using and_exp_eq_0_iff_not_bit [of x 0] by simp

section \<open>Interrupts\<close>

text \<open>The interrupt request input of a processor, from the registers.\<close>

definition irq_active :: "'a nds_scheme \<Rightarrow> nat \<Rightarrow> bool" where
  "irq_active n cpu \<longleftrightarrow>
     bit (IME n cpu) 0 \<and>
     ((\<exists>i. bit (IE n cpu) i \<and> bit (IF n cpu) i) \<or>
      (ConsoleType n = 1 \<and> cpu \<noteq> 0 \<and> (\<exists>i. bit (IE2 n) i \<and> bit (IF2 n) i)))"

definition irq_inv :: "'a nds_scheme \<Rightarrow> bool" where
  "irq_inv n \<longleftrightarrow> (\<forall>cpu < 2. IRQ_line n cpu = irq_active n cpu)"

lemma and_neq_0_iff: "x AND y \<noteq> 0 \<longleftrightarrow> (\<exists>i. bit x i \<and> bit y i)" for x y :: "'b::len word"
  unfolding bit_eq_iff [of "x AND y"] bit_and_iff by (auto dest: bit_imp_le_length)

lemma IRQ_line_UpdateIRQ: "IRQ_line (UpdateIRQ cpu n) = (IRQ_line n)(cpu := irq_active n cpu)"
  by (rule ext) (simp add: UpdateIRQ_def irq_active_def
    and_neq_0_iff [of "IE n cpu"] and_neq_0_iff [of "IE2 n"])

lemma UpdateIRQ_frame [simp]:
  "IME (UpdateIRQ cpu n) = IME n" "IE (UpdateIRQ cpu n) = IE n" "IF (UpdateIRQ cpu n) = IF n"
  "IE2 (UpdateIRQ cpu n) = IE2 n" "IF2 (UpdateIRQ cpu n) = IF2 n"
  "ConsoleType (UpdateIRQ cpu n) = ConsoleType n" "CPUStop (UpdateIRQ cpu n) = CPUStop n"
  "Ext (UpdateIRQ cpu n) = Ext n" "Timers (UpdateIRQ cpu n) = Timers n"
  "SchedList (UpdateIRQ cpu n) = SchedList n" "SchedListMask (UpdateIRQ cpu n) = SchedListMask n"
  "SysTimestamp (UpdateIRQ cpu n) = SysTimestamp n" "KeyInput (UpdateIRQ cpu n) = KeyInput n"
  "KeyCnt (UpdateIRQ cpu n) = KeyCnt n"
  by (simp_all add: UpdateIRQ_def)

text \<open>
  Changing the registers of one processor and updating its line keeps the lines right; the
  other processor must not see the change.
\<close>

lemma UpdateIRQ_inv:
  assumes "\<And>c. c < 2 \<Longrightarrow> c \<noteq> cpu \<Longrightarrow> irq_active n c = irq_active m c \<and> IRQ_line n c = IRQ_line m c"
    and "irq_inv m"
  shows "irq_inv (UpdateIRQ cpu n)"
proof -
  have "irq_active (UpdateIRQ cpu n) c = irq_active n c" for c
    by (simp add: irq_active_def)
  then show ?thesis using assms by (auto simp: irq_inv_def IRQ_line_UpdateIRQ)
qed

lemma irq_inv_cong:
  assumes "IRQ_line n = IRQ_line m" "IME n = IME m" "IE n = IE m" "IF n = IF m" "IE2 n = IE2 m"
    "IF2 n = IF2 m" "ConsoleType n = ConsoleType m"
  shows "irq_inv n = irq_inv m"
  using assms by (simp add: irq_inv_def irq_active_def)

lemma SetIRQ_inv [inv_ops]: "irq_inv n \<Longrightarrow> irq_inv (SetIRQ cpu irq n)"
proof -
  let ?m = "UpdateIRQ cpu (n\<lparr>IF := (IF n)(cpu := IF n cpu OR bitm irq)\<rparr>)"
  assume "irq_inv n"
  then have "irq_inv ?m" by (rule UpdateIRQ_inv [rotated]) (simp add: irq_active_def)
  moreover have "irq_inv (SetIRQ cpu irq n) = irq_inv ?m"
    by (rule irq_inv_cong) (simp_all add: SetIRQ_def Let_def ext_def)
  ultimately show ?thesis by simp
qed

lemma ClearIRQ_inv [inv_ops]: "irq_inv n \<Longrightarrow> irq_inv (ClearIRQ cpu irq n)"
  unfolding ClearIRQ_def by (erule UpdateIRQ_inv [rotated]) (simp add: irq_active_def)

lemma SetIRQ2_inv [inv_ops]: "irq_inv n \<Longrightarrow> irq_inv (SetIRQ2 irq n)"
  unfolding SetIRQ2_def by (erule UpdateIRQ_inv [rotated]) (simp add: irq_active_def)

lemma ClearIRQ2_inv [inv_ops]: "irq_inv n \<Longrightarrow> irq_inv (ClearIRQ2 irq n)"
  unfolding ClearIRQ2_def by (erule UpdateIRQ_inv [rotated]) (simp add: irq_active_def)

lemma CheckFIFOIRQ_inv [inv_ops]: "irq_inv n \<Longrightarrow> irq_inv (CheckFIFOIRQ n)"
  by (simp add: CheckFIFOIRQ_def Let_def inv_ops)

lemma WriteIME_inv [inv_ops]: "irq_inv n \<Longrightarrow> irq_inv (WriteIME cpu val n)"
  unfolding WriteIME_def by (erule UpdateIRQ_inv [rotated]) (simp add: irq_active_def)

lemma WriteIE_inv [inv_ops]: "irq_inv n \<Longrightarrow> irq_inv (WriteIE cpu val n)"
  unfolding WriteIE_def by (erule UpdateIRQ_inv [rotated]) (simp add: irq_active_def)

lemma WriteIF7_inv [inv_ops]: "irq_inv n \<Longrightarrow> irq_inv (WriteIF7 val n)"
  unfolding WriteIF7_def by (erule UpdateIRQ_inv [rotated]) (simp add: irq_active_def)

lemma WriteIF9_inv [inv_ops]: "irq_inv n \<Longrightarrow> irq_inv (WriteIF9 val n)"
proof -
  let ?m = "n\<lparr>IF := (IF n)(0 := IF n 0 AND NOT val)\<rparr>"
  have other: "irq_active (CheckFIFOIRQ ?m) 1 = irq_active n 1 \<and> IRQ_line (CheckFIFOIRQ ?m) 1 = IRQ_line n 1"
    by (simp add: CheckFIFOIRQ_def Let_def SetIRQ_def ClearIRQ_def irq_active_def IRQ_line_UpdateIRQ)
  assume "irq_inv n"
  then show ?thesis unfolding WriteIF9_def
    by (rule UpdateIRQ_inv [rotated]) (use other in \<open>auto simp: less_2_cases_iff\<close>)
qed

section \<open>Scheduler\<close>

definition pending :: "'a nds_scheme \<Rightarrow> nat set" where
  "pending n = {i. i < Event_MAX \<and> bit (SchedListMask n) i}"

definition due_time :: "'a nds_scheme \<Rightarrow> nat \<Rightarrow> u64" where
  "due_time n i = Timestamp (SchedList n i)"

lemma finite_pending [simp]: "finite (pending n)"
  by (simp add: pending_def)

lemma Min_insert_min: "finite S \<Longrightarrow> Min (insert (min a b) S) = Min (insert b (insert a S))"
  for a b :: "'b::linorder"
  by (cases "S = {}") (simp_all add: min.commute min.left_commute min.assoc)

text \<open>The search loop returns the smallest timestamp of the selected events.\<close>

lemma min_event_Min:
  "min_event sel i m acc n =
     Min (insert acc (due_time n ` {j. i \<le> j \<and> j < Event_MAX \<and> sel j \<and> bit m (j - i)}))"
proof (induction sel i m acc n rule: min_event.induct)
  case (1 sel i m acc n)
  let ?S = "\<lambda>i m. {j. i \<le> j \<and> j < Event_MAX \<and> sel j \<and> bit m (j - i)}"
  show ?case
  proof (cases "i \<ge> Event_MAX \<or> m = 0")
    case True
    then have e: "?S i m = {}" by auto
    show ?thesis unfolding e using True by (subst min_event.simps) simp
  next
    case False
    let ?acc = "if sel i \<and> m AND 1 \<noteq> 0 \<and> due_time n i < acc then due_time n i else acc"
    have b: "bit (drop_bit (Suc 0) m) (j - Suc i) = bit m (j - i)" if "i < j" for j
      using that by (simp add: bit_drop_bit_eq Suc_diff_Suc)
    have "?S i m = (if sel i \<and> bit m 0 then insert i (?S (Suc i) (drop_bit 1 m)) else ?S (Suc i) (drop_bit 1 m))"
      (is "_ = ?R")
    proof (rule set_eqI)
      fix j
      show "j \<in> ?S i m \<longleftrightarrow> j \<in> ?R"
        using False b [of j] by (cases i j rule: linorder_cases) auto
    qed
    moreover have "?acc = (if sel i \<and> bit m 0 then min (due_time n i) acc else acc)"
      by (auto simp: min_def)
    moreover have "finite (?S (Suc i) (drop_bit 1 m))" by simp
    ultimately have "Min (insert ?acc (due_time n ` ?S (Suc i) (drop_bit 1 m))) =
        Min (insert acc (due_time n ` ?S i m))"
      by (simp add: Min_insert_min del: Min_insert)
    moreover have "min_event sel i m acc n = min_event sel (Suc i) (drop_bit 1 m) ?acc n"
      using False by (subst min_event.simps) (simp add: due_time_def)
    ultimately show ?thesis using 1 [OF False] unfolding due_time_def [symmetric] by simp
  qed
qed

lemma pending_eq: "{j. 0 \<le> j \<and> j < Event_MAX \<and> sel j \<and> bit (SchedListMask n) (j - 0)} = {j \<in> pending n. sel j}"
  by (auto simp: pending_def)

lemma NextTargetSleep_Min:
  "NextTargetSleep n =
     Min (insert (- 1) (due_time n ` {j \<in> pending n. j = Event_SPU \<or> j = Event_RTC_id}))"
  unfolding NextTargetSleep_def min_event_Min pending_eq ..

lemma NextTarget_Min:
  "min_event (\<lambda>_. True) 0 (SchedListMask n) (- 1) n = Min (insert (- 1) (due_time n ` pending n))"
  unfolding min_event_Min pending_eq by simp

text \<open>
  The main loop never runs past an event. The next target is not later than any pending
  event and at most 72 cycles away, and it is the time of a pending event or 64 cycles away.
  The hypothesis says that the 64-bit clock does not wrap around.
\<close>

theorem NextTarget_before_events:
  assumes "unat (SysTimestamp n) + 72 < 2 ^ 64"
  shows "(\<forall>i \<in> pending n. NextTarget n \<le> due_time n i) \<and>
    unat (NextTarget n) < unat (SysTimestamp n) + 72 \<and>
    (NextTarget n \<in> due_time n ` pending n \<or> NextTarget n = SysTimestamp n + 64)"
proof -
  define e where "e = Min (insert (- 1) (due_time n ` pending n))"
  have le: "e \<le> due_time n i" if "i \<in> pending n" for i using that by (simp add: e_def)
  have mem: "e = - 1 \<or> e \<in> due_time n ` pending n"
    using Min_in [of "insert (- 1) (due_time n ` pending n)"] by (auto simp: e_def)
  have t: "unat (SysTimestamp n + 64) = unat (SysTimestamp n) + 64"
    "unat (SysTimestamp n + 64 + 8) = unat (SysTimestamp n) + 72"
    using assms by (simp_all add: unat_word_ariths)
  have n: "NextTarget n = (if e < SysTimestamp n + 64 + 8 then e else SysTimestamp n + 64)"
    by (simp add: NextTarget_def NextTarget_Min e_def kMaxIterationCycles_def kIterationCycleMargin_def)
  show ?thesis
  proof (cases "e < SysTimestamp n + 64 + 8")
    case True
    then have "unat e < unat (SysTimestamp n) + 72" by (simp only: word_less_nat_alt t)
    moreover have "e \<noteq> - 1" using True assms t by (metis word_n1_ge leD)
    ultimately show ?thesis using True n le mem by auto
  next
    case False
    have "SysTimestamp n + 64 \<le> e"
      using False by (simp only: not_less word_le_nat_alt t)
    then show ?thesis using False n le t(1) by (auto intro: order_trans)
  qed
qed

theorem NextTarget_before_events_witness:
  "unat (SysTimestamp (ScheduleEvent 3 False 10 0 0 (nds_zero 0))) + 72 < 2 ^ 64 \<and>
   NextTarget (ScheduleEvent 3 False 10 0 0 (nds_zero 0)) \<le> 10"
proof -
  let ?n = "ScheduleEvent 3 False 10 0 0 (nds_zero 0)"
  have p: "3 \<in> pending ?n" and d: "due_time ?n 3 = 10" and s: "SysTimestamp ?n = 0"
    by (simp_all add: ScheduleEvent_def Let_def Reschedule_def nds_zero_def event_time_def
        pending_def due_time_def bit_or_iff Event_MAX_def)
  have "NextTarget ?n \<le> due_time ?n 3" using NextTarget_before_events [of ?n] p s by simp
  then show ?thesis by (simp add: s d)
qed

text \<open>
  Scheduling an event that is not pending makes it pending at the requested time, with
  its function and parameter, leaves every other event alone, and shortens the time slice of
  the running processor so that it stops in time for the event.
\<close>

theorem ScheduleEvent_schedules:
  assumes "ev < Event_MAX" "ev \<notin> pending n"
    and nowrap: "unat (event_time ev periodic delay n) * 2 ^ unat (ARM9ClockShift n) < 2 ^ 64"
  shows "pending (ScheduleEvent ev periodic delay f p n) = insert ev (pending n) \<and>
    due_time (ScheduleEvent ev periodic delay f p n) ev = event_time ev periodic delay n \<and>
    FuncID (SchedList (ScheduleEvent ev periodic delay f p n) ev) = f \<and>
    Param (SchedList (ScheduleEvent ev periodic delay f p n) ev) = p \<and>
    (\<forall>j. j \<noteq> ev \<longrightarrow> SchedList (ScheduleEvent ev periodic delay f p n) j = SchedList n j) \<and>
    (if CurCPU n = 0
     then drop_bit (unat (ARM9ClockShift n)) (ARM9Target (ScheduleEvent ev periodic delay f p n))
            = min (drop_bit (unat (ARM9ClockShift n)) (ARM9Target n)) (event_time ev periodic delay n)
     else ARM7Target (ScheduleEvent ev periodic delay f p n)
            = min (ARM7Target n) (event_time ev periodic delay n))"
proof -
  let ?t = "event_time ev periodic delay n" and ?s = "unat (ARM9ClockShift n)"
  let ?m = "n\<lparr>SchedList := (SchedList n)(ev := \<lparr>Timestamp = ?t, FuncID = f, Param = p\<rparr>),
               SchedListMask := SchedListMask n OR bitm ev\<rparr>"
  have nb: "\<not> bit (SchedListMask n) ev" using assms(1,2) by (simp add: pending_def)
  then have e: "ScheduleEvent ev periodic delay f p n = Reschedule ?t ?m"
    by (simp add: ScheduleEvent_def Let_def)
  have r: "SchedList (Reschedule ?t ?m) = SchedList ?m" "SchedListMask (Reschedule ?t ?m) = SchedListMask ?m"
    by (simp_all add: Reschedule_def)
  have "pending (Reschedule ?t ?m) = insert ev (pending n)"
    using assms(1) by (auto simp: pending_def r bit_or_iff Event_MAX_def)
  moreover have "unat (drop_bit ?s (push_bit ?s ?t)) = unat ?t"
    unfolding unat_shr using unat_push_small [of ?t ?s] nowrap by simp
  then have "drop_bit ?s (push_bit ?s ?t) = ?t" by (simp add: word_unat_eq_iff)
  ultimately show ?thesis
    unfolding e by (auto simp: r due_time_def) (auto simp: Reschedule_def min_def word_gt_0)
qed

theorem ScheduleEvent_schedules_witness:
  "3 \<notin> pending (nds_zero 0) \<and> pending (ScheduleEvent 3 False 10 0 0 (nds_zero 0)) = {3}"
proof -
  have "pending (nds_zero 0) = {}" "unat (event_time 3 False 10 (nds_zero 0)) * 2 ^ unat (ARM9ClockShift (nds_zero 0)) < 2 ^ 64"
    by (simp_all add: pending_def nds_zero_def event_time_def)
  then show ?thesis using ScheduleEvent_schedules [of 3 "nds_zero 0" False 10 0 0] by (simp add: Event_MAX_def)
qed

text \<open>
  What the event functions promise to the scheduler: a function does not move the clock, and
  it neither cancels nor changes another event that is already pending. It may schedule any
  event, its own included.
\<close>

locale event_functions =
  fixes h :: "'a nds_scheme handlers"
  assumes keeps_clock: "SysTimestamp (h i f p n) = SysTimestamp n"
    and keeps_pending: "j \<noteq> i \<Longrightarrow> bit (SchedListMask n) j \<Longrightarrow>
      bit (SchedListMask (h i f p n)) j \<and> SchedList (h i f p n) j = SchedList n j"
begin

lemma run_event_keeps:
  "SysTimestamp (run_event h i n) = SysTimestamp n"
  "j \<noteq> i \<Longrightarrow> bit (SchedListMask n) j \<Longrightarrow>
     bit (SchedListMask (run_event h i n)) j \<and> SchedList (run_event h i n) j = SchedList n j"
proof -
  show "SysTimestamp (run_event h i n) = SysTimestamp n"
    by (simp add: run_event_def Let_def keeps_clock) (simp add: CancelEvent_def)
  assume "j \<noteq> i" "bit (SchedListMask n) j"
  then have "bit (SchedListMask (CancelEvent i n)) j" "SchedList (CancelEvent i n) j = SchedList n j"
    by (auto simp: CancelEvent_def bit_and_iff bit_not_iff dest: bit_imp_le_length)
  then show "bit (SchedListMask (run_event h i n)) j \<and> SchedList (run_event h i n) j = SchedList n j"
    using keeps_pending \<open>j \<noteq> i\<close> \<open>bit (SchedListMask n) j\<close> by (simp add: run_event_def Let_def)
qed

text \<open>
  A pass over the events runs the due ones among those that were pending at its start, in
  the order of their numbers, each once, with the function and the parameter it was
  scheduled with.
\<close>

lemma run_events_fold:
  assumes "\<forall>j. i \<le> j \<and> j < Event_MAX \<and> bit m (j - i) \<longrightarrow> bit (SchedListMask n) j \<and> SchedList n j = L j"
  shows "run_events h i m n =
    fold (\<lambda>j n. h j (FuncID (L j)) (Param (L j)) (CancelEvent j n))
      (filter (\<lambda>j. bit m (j - i) \<and> Timestamp (L j) \<le> SysTimestamp n) [i..<Event_MAX]) n"
  using assms
proof (induction "Event_MAX - i" arbitrary: i m n)
  case 0
  then show ?case by (subst run_events.simps) simp
next
  case (Suc k)
  then have i: "i < Event_MAX" by simp
  define n1 where "n1 = (if bit m 0 then run_event h i n else n)"
  have t: "SysTimestamp n1 = SysTimestamp n" by (simp add: n1_def run_event_keeps)
  have b: "bit (drop_bit (Suc 0) m) (j - Suc i) = bit m (j - i)" if "Suc i \<le> j" for j
    using that by (simp add: bit_drop_bit_eq Suc_diff_Suc)
  have inv: "bit (SchedListMask n1) j \<and> SchedList n1 j = L j"
    if "Suc i \<le> j" "j < Event_MAX" "bit (drop_bit 1 m) (j - Suc i)" for j
    using that Suc.prems b [of j] run_event_keeps(2) [of j i n] by (simp add: n1_def)
  let ?F = "fold (\<lambda>j n. h j (FuncID (L j)) (Param (L j)) (CancelEvent j n))"
  have "run_events h i m n = run_events h (Suc i) (drop_bit 1 m) n1" if "m \<noteq> 0"
    using i that by (subst run_events.simps) (simp add: n1_def)
  moreover have "run_events h (Suc i) (drop_bit 1 m) n1 =
      ?F (filter (\<lambda>j. bit (drop_bit 1 m) (j - Suc i) \<and> Timestamp (L j) \<le> SysTimestamp n1) [Suc i..<Event_MAX]) n1"
    using Suc.hyps(2) inv by (intro Suc.hyps(1)) auto
  moreover have "filter (\<lambda>j. bit (drop_bit 1 m) (j - Suc i) \<and> Timestamp (L j) \<le> SysTimestamp n1) [Suc i..<Event_MAX]
      = filter (\<lambda>j. bit m (j - i) \<and> Timestamp (L j) \<le> SysTimestamp n) [Suc i..<Event_MAX]"
    using b by (intro filter_cong) (auto simp: t)
  moreover have "n1 = (if bit m 0 \<and> Timestamp (L i) \<le> SysTimestamp n
      then h i (FuncID (L i)) (Param (L i)) (CancelEvent i n) else n)"
    using Suc.prems i by (auto simp: n1_def run_event_def Let_def)
  moreover have "run_events h i m n = n" if "m = 0" using that by (subst run_events.simps) simp
  ultimately show ?case using i by (cases "m = 0") (simp_all add: upt_conv_Cons)
qed

lemma RunSystem_runs_due:
  "RunSystem h t n =
     fold (\<lambda>j s. h j (FuncID (SchedList n j)) (Param (SchedList n j)) (CancelEvent j s))
       (filter (\<lambda>j. j \<in> pending n \<and> due_time n j \<le> t) [0..<Event_MAX]) (n\<lparr>SysTimestamp := t\<rparr>)"
proof -
  have "filter (\<lambda>j. j \<in> pending n \<and> due_time n j \<le> t) [0..<Event_MAX] =
      filter (\<lambda>j. bit (SchedListMask n) j \<and> Timestamp (SchedList n j) \<le> t) [0..<Event_MAX]"
    by (rule filter_cong) (auto simp: pending_def due_time_def)
  then show ?thesis
    using run_events_fold [of 0 "SchedListMask n" "n\<lparr>SysTimestamp := t\<rparr>" "SchedList n"]
    by (simp add: RunSystem_def)
qed

end

section \<open>Keys, lid and sleep\<close>

text \<open>A key is pressed when its bit is clear.\<close>

definition pressed :: "u32 \<Rightarrow> nat \<Rightarrow> bool" where
  "pressed key i \<longleftrightarrow> \<not> bit key i"

lemma bit_key_select: "bit (ucast (cnt AND 0x3FF) :: u32) i \<longleftrightarrow> i < 10 \<and> bit cnt i" for cnt :: u16
proof -
  have c: "(0x3FF :: u16) = mask 10" by (simp add: mask_eq_exp_minus_1)
  show ?thesis unfolding c by (auto simp: bit_simps dest: bit_imp_le_length)
qed

lemma u16_bit_tests: "c AND 0x4000 = 0 \<longleftrightarrow> \<not> bit c 14" "c AND 0x8000 = 0 \<longleftrightarrow> \<not> bit c 15" for c :: u16
  using and_exp_eq_0_iff_not_bit [of c 14] and_exp_eq_0_iff_not_bit [of c 15] by simp_all

text \<open>The condition of the keypad interrupt: all selected keys are down, or one of them is.\<close>

lemma key_match_iff:
  "key_match cnt key \<longleftrightarrow>
     (if bit cnt 15 then \<forall>i < 10. bit cnt i \<longrightarrow> pressed key i
      else \<exists>i < 10. bit cnt i \<and> pressed key i)"
proof -
  let ?m = "ucast (cnt AND 0x3FF) :: u32"
  have "key AND ?m = 0 \<longleftrightarrow> (\<forall>i < 10. bit cnt i \<longrightarrow> pressed key i)"
    using and_neq_0_iff [of key ?m] by (auto simp: bit_key_select pressed_def)
  moreover have "key AND ?m = ?m \<longleftrightarrow> (\<forall>i < 10. bit cnt i \<longrightarrow> bit key i)"
  proof
    assume "key AND ?m = ?m"
    then have "bit (key AND ?m) i = bit ?m i" for i by simp
    then show "\<forall>i < 10. bit cnt i \<longrightarrow> bit key i" by (auto simp: bit_and_iff bit_key_select)
  qed (rule bit_word_eqI, auto simp: bit_and_iff bit_key_select)
  ultimately show ?thesis by (auto simp: key_match_def Let_def u16_bit_tests pressed_def)
qed

lemma IF_SetIRQ: "IF (SetIRQ cpu irq n) = (IF n)(cpu := IF n cpu OR bitm irq)"
  by (simp add: SetIRQ_def Let_def ext_def)

lemma SetIRQ_frame [simp]:
  "KeyCnt (SetIRQ cpu irq n) = KeyCnt n" "KeyInput (SetIRQ cpu irq n) = KeyInput n"
  "IE (SetIRQ cpu irq n) = IE n" "IME (SetIRQ cpu irq n) = IME n"
  "Timers (SetIRQ cpu irq n) = Timers n" "ConsoleType (SetIRQ cpu irq n) = ConsoleType n"
  "SchedList (SetIRQ cpu irq n) = SchedList n" "SchedListMask (SetIRQ cpu irq n) = SchedListMask n"
  "SysTimestamp (SetIRQ cpu irq n) = SysTimestamp n"
  by (simp_all add: SetIRQ_def Let_def ext_def)

lemma IF_CheckKeyIRQ:
  "IF (CheckKeyIRQ cpu old new n) =
     (if bit (KeyCnt n cpu) 14 \<and> \<not> key_match (KeyCnt n cpu) old \<and> key_match (KeyCnt n cpu) new
      then (IF n)(cpu := IF n cpu OR bitm IRQ_Keypad) else IF n)"
  "KeyCnt (CheckKeyIRQ cpu old new n) = KeyCnt n" "KeyInput (CheckKeyIRQ cpu old new n) = KeyInput n"
  by (simp_all add: CheckKeyIRQ_def Let_def u16_bit_tests IF_SetIRQ)

lemma bit_key_merge:
  "bit ((k AND 0xFFFCFC00) OR ((m AND 0x3FF) OR push_bit 16 (drop_bit 10 m AND 3))) i =
     (if i < 10 then bit m i else if i = 16 \<or> i = 17 then bit m (i - 6) else bit k i)" for k m :: u32
proof -
  have c: "(0x3FF :: u32) = mask 10" "(3 :: u32) = mask 2" "(0xFFFCFC00 :: u32) = NOT (mask 10 OR push_bit 16 (mask 2))"
    by (simp_all add: mask_eq_exp_minus_1)
  show ?thesis
    unfolding c by (auto simp: bit_simps not_less dest: bit_imp_le_length)
qed

text \<open>
  The frontend sets the twelve key lines and nothing else of the key register, and each
  processor gets a keypad interrupt request exactly when it has the interrupt enabled and
  its condition on the ten keys (all selected keys down, or one of them) becomes true.
\<close>

theorem SetKeyMask_keys:
  "(\<forall>i. bit (KeyInput (SetKeyMask m n)) i =
      (if i < 10 then bit m i else if i = 16 \<or> i = 17 then bit m (i - 6) else bit (KeyInput n) i)) \<and>
   (\<forall>cpu. IF (SetKeyMask m n) cpu =
      (if cpu < 2 \<and> bit (KeyCnt n cpu) 14 \<and> \<not> key_match (KeyCnt n cpu) (KeyInput n) \<and>
          key_match (KeyCnt n cpu) (KeyInput (SetKeyMask m n))
       then IF n cpu OR bitm IRQ_Keypad else IF n cpu)) \<and>
   (\<forall>cnt key. key_match cnt key \<longleftrightarrow>
      (if bit cnt 15 then \<forall>i < 10. bit cnt i \<longrightarrow> pressed key i
       else \<exists>i < 10. bit cnt i \<and> pressed key i))"
proof (intro conjI allI)
  show "bit (KeyInput (SetKeyMask m n)) i =
      (if i < 10 then bit m i else if i = 16 \<or> i = 17 then bit m (i - 6) else bit (KeyInput n) i)" for i
    unfolding bit_key_merge [symmetric] by (simp add: SetKeyMask_def Let_def IF_CheckKeyIRQ)
  show "IF (SetKeyMask m n) cpu =
      (if cpu < 2 \<and> bit (KeyCnt n cpu) 14 \<and> \<not> key_match (KeyCnt n cpu) (KeyInput n) \<and>
          key_match (KeyCnt n cpu) (KeyInput (SetKeyMask m n))
       then IF n cpu OR bitm IRQ_Keypad else IF n cpu)" for cpu
    by (auto simp: SetKeyMask_def Let_def IF_CheckKeyIRQ less_2_cases_iff)
qed (rule key_match_iff)

theorem SetKeyMask_keys_witness:
  "IF (SetKeyMask 0x3FE ((nds_zero 0)\<lparr>KeyInput := 0x3FF, KeyCnt := (\<lambda>_. 0x4001)\<rparr>)) 0 = bitm IRQ_Keypad"
  using SetKeyMask_keys [of "0x3FE" "(nds_zero 0)\<lparr>KeyInput := 0x3FF, KeyCnt := (\<lambda>_. 0x4001)\<rparr>"]
  by (simp add: nds_zero_def key_match_def SetKeyMask_def Let_def IF_CheckKeyIRQ)

definition asleep :: "'a nds_scheme \<Rightarrow> bool" where
  "asleep n \<longleftrightarrow> bit (CPUStop n) 30"

text \<open>
  Sleep mode. Entering it stops the ARM7; afterwards an interrupt request ends it exactly
  when it is a request to the ARM7 that the ARM7 has enabled (opening the lid is one, if
  enabled), and then the wake-up flag is set and the renderer restarts its frame.
\<close>

theorem sleep_until_enabled_IRQ7:
  "asleep (EnterSleepMode n) \<and>
   (asleep n \<longrightarrow> asleep (SetIRQ cpu irq n) = (\<not> (cpu = 1 \<and> bit (IE n 1) irq)) \<and>
      (\<not> asleep (SetIRQ cpu irq n) \<longrightarrow>
         bit (CPUStop (SetIRQ cpu irq n)) 29 \<and> Ext (SetIRQ cpu irq n) = Ext n @ [RestartFrame])) \<and>
   (asleep n \<longrightarrow> asleep (SetLidClosed False n) = (\<not> bit (IE n 1) IRQ_LidOpen))"
proof (intro conjI impI)
  show "asleep (EnterSleepMode n)"
    by (simp add: asleep_def EnterSleepMode_def CPUStop_Sleep_def Halt_def bit_or_iff)
  assume a: "asleep n"
  have w: "asleep (SetIRQ cpu irq m) = (\<not> (cpu = 1 \<and> bit (IE m 1) irq))" if "asleep m" for cpu irq and m :: "'a nds_scheme"
    using that by (simp add: asleep_def SetIRQ_def Let_def ext_def CPUStop_Sleep_def CPUStop_Wakeup_def bit_or_iff
        bit_and_iff bit_not_iff)
  show "asleep (SetIRQ cpu irq n) = (\<not> (cpu = 1 \<and> bit (IE n 1) irq))" using a by (rule w)
  show "bit (CPUStop (SetIRQ cpu irq n)) 29" "Ext (SetIRQ cpu irq n) = Ext n @ [RestartFrame]"
    if "\<not> asleep (SetIRQ cpu irq n)"
    using that a by (auto simp: asleep_def SetIRQ_def Let_def ext_def CPUStop_Sleep_def CPUStop_Wakeup_def bit_or_iff
        split: if_splits)
  have "asleep (n\<lparr>KeyInput := k\<rparr>)" for k using a by (simp add: asleep_def)
  then show "asleep (SetLidClosed False n) = (\<not> bit (IE n 1) IRQ_LidOpen)"
    by (simp add: SetLidClosed_def w)
qed

theorem sleep_until_enabled_IRQ7_witness:
  "asleep (EnterSleepMode (nds_zero 0)) \<and> asleep (SetIRQ 1 7 (EnterSleepMode (nds_zero 0)))"
proof -
  have "IE (EnterSleepMode (nds_zero 0)) 1 = 0"
    by (simp add: EnterSleepMode_def Halt_def nds_zero_def)
  then show ?thesis
    using sleep_until_enabled_IRQ7 [of "nds_zero 0"] sleep_until_enabled_IRQ7 [of "EnterSleepMode (nds_zero 0)" 1 7]
    by simp
qed

section \<open>Shared work RAM\<close>

definition swram_ok :: "'a nds_scheme \<Rightarrow> bool" where
  "swram_ok n \<longleftrightarrow> (SWRAM_ARM9 n, SWRAM_ARM7 n) = swram_maps (WRAMCnt n)"

definition sees9 :: "'a nds_scheme \<Rightarrow> nat \<Rightarrow> bool" where
  "sees9 n b \<longleftrightarrow> (\<exists>addr. swram_addr (SWRAM_ARM9 n) addr = Some (of_nat b))"

definition sees7 :: "'a nds_scheme \<Rightarrow> nat \<Rightarrow> bool" where
  "sees7 n b \<longleftrightarrow> (\<exists>addr. swram_addr (SWRAM_ARM7 n) addr = Some (of_nat b))"

lemma MapSharedWRAM_ok: "swram_ok n \<Longrightarrow> swram_ok (MapSharedWRAM v n)"
  by (simp add: swram_ok_def MapSharedWRAM_def)

lemma WRAMCnt_MapSharedWRAM: "WRAMCnt (MapSharedWRAM v n) = v"
  by (simp add: MapSharedWRAM_def)

text \<open>The bytes a window shows: a block whose size is a power of two.\<close>

lemma swram_window:
  assumes "k \<le> 15" "base + 2 ^ k \<le> 2 ^ 15" "b < 2 ^ 15"
  shows "(\<exists>addr. swram_addr \<lparr>Mem = Some (of_nat base), Mask = mask k\<rparr> addr = Some (of_nat b))
     \<longleftrightarrow> base \<le> b \<and> b < base + 2 ^ k"
proof -
  have "(of_nat base + (addr AND mask k) :: u32) = of_nat b \<longleftrightarrow> base + unat addr mod 2 ^ k = b" for addr :: u32
  proof -
    have m: "unat (addr AND mask k) = unat addr mod 2 ^ k" by (rule unat_and_mask)
    have "unat addr mod 2 ^ k < 2 ^ k" by simp
    then have "base + unat addr mod 2 ^ k < 2 ^ 15" using assms(2) by linarith
    then have "unat (of_nat base + (addr AND mask k) :: u32) = base + unat addr mod 2 ^ k"
      using assms m by (subst unat_plus_small) (simp_all add: unat_of_nat_u32)
    then show ?thesis using assms by (simp add: word_unat_eq_iff unat_of_nat_u32)
  qed
  then have "(\<exists>addr. swram_addr \<lparr>Mem = Some (of_nat base), Mask = mask k\<rparr> addr = Some (of_nat b))
      \<longleftrightarrow> (\<exists>addr :: u32. base + unat addr mod 2 ^ k = b)" by (simp add: swram_addr_def)
  also have "\<dots> \<longleftrightarrow> base \<le> b \<and> b < base + 2 ^ k"
  proof
    assume "base \<le> b \<and> b < base + 2 ^ k"
    moreover from this have "unat (of_nat (b - base) :: u32) = b - base"
      using assms(3) by (intro unat_of_nat_u32) simp
    ultimately have "base + unat (of_nat (b - base) :: u32) mod 2 ^ k = b" by auto
    then show "\<exists>addr :: u32. base + unat addr mod 2 ^ k = b" by blast
  qed auto
  finally show ?thesis .
qed

lemma swram_maps_cases:
  "swram_maps c \<in> {(\<lparr>Mem = Some (of_nat 0), Mask = mask 15\<rparr>, \<lparr>Mem = None, Mask = 0\<rparr>),
     (\<lparr>Mem = Some (of_nat 0x4000), Mask = mask 14\<rparr>, \<lparr>Mem = Some (of_nat 0), Mask = mask 14\<rparr>),
     (\<lparr>Mem = Some (of_nat 0), Mask = mask 14\<rparr>, \<lparr>Mem = Some (of_nat 0x4000), Mask = mask 14\<rparr>),
     (\<lparr>Mem = None, Mask = 0\<rparr>, \<lparr>Mem = Some (of_nat 0), Mask = mask 15\<rparr>)}"
  by (simp add: swram_maps_def mask_eq_exp_minus_1)

lemma swram_none: "\<not> (\<exists>addr. swram_addr \<lparr>Mem = None, Mask = k\<rparr> addr = Some x)"
  by (simp add: swram_addr_def)

text \<open>
  The switch of the shared work RAM gives every one of its 32768 bytes to exactly one
  processor, whatever is written to the control register.
\<close>

theorem MapSharedWRAM_partition:
  assumes "swram_ok n" "b < 0x8000"
  shows "swram_ok (MapSharedWRAM v n) \<and> sees9 (MapSharedWRAM v n) b \<noteq> sees7 (MapSharedWRAM v n) b"
proof -
  let ?m = "MapSharedWRAM v n"
  have ok: "swram_ok ?m" using assms(1) by (rule MapSharedWRAM_ok)
  then have m: "SWRAM_ARM9 ?m = fst (swram_maps v)" "SWRAM_ARM7 ?m = snd (swram_maps v)"
    by (simp_all add: swram_ok_def WRAMCnt_MapSharedWRAM prod_eq_iff)
  have b: "b < 2 ^ 15" using assms(2) by simp
  note w = swram_window [of 15 0, OF _ _ b] swram_window [of 14 0, OF _ _ b] swram_window [of 14 "0x4000", OF _ _ b]
  have "sees9 ?m b \<noteq> sees7 ?m b"
    using swram_maps_cases [of v] b w unfolding sees9_def sees7_def m
    by (elim insertE emptyE) (auto simp: swram_none not_less)
  with ok show ?thesis ..
qed

theorem MapSharedWRAM_partition_witness:
  "swram_ok (MapSharedWRAM 0 (nds_zero 0)) \<and>
   sees9 (MapSharedWRAM 3 (MapSharedWRAM 0 (nds_zero 0))) 5 \<noteq> sees7 (MapSharedWRAM 3 (MapSharedWRAM 0 (nds_zero 0))) 5"
proof -
  have "swram_ok (MapSharedWRAM 0 (nds_zero 0))"
    by (simp add: swram_ok_def MapSharedWRAM_def nds_zero_def)
  then show ?thesis using MapSharedWRAM_partition [of "MapSharedWRAM 0 (nds_zero 0)" 5 3] by simp
qed

text \<open>
  C40: Loading a saved state does not restore the mapping of the shared work RAM: the control
  register is loaded first, and the call that follows returns at once because its argument is
  the value just loaded. The windows stay those of the console before the load.
\<close>

theorem LoadState_keeps_old_mapping:
  "SWRAM_ARM9 (LoadState_WRAM saved n) = SWRAM_ARM9 n \<and>
   SWRAM_ARM7 (LoadState_WRAM saved n) = SWRAM_ARM7 n \<and>
   WRAMCnt (LoadState_WRAM saved n) = saved \<and>
   (\<exists>m :: nds. swram_ok m \<and> \<not> swram_ok (LoadState_WRAM 3 m))"
proof -
  have k: "LoadState_WRAM s m = m\<lparr>WRAMCnt := s\<rparr>" for s and m :: "'b nds_scheme"
    by (simp add: LoadState_WRAM_def MapSharedWRAM_def)
  have "swram_ok (MapSharedWRAM 0 (nds_zero 0)) \<and> \<not> swram_ok (LoadState_WRAM 3 (MapSharedWRAM 0 (nds_zero 0)))"
    by (simp add: LoadState_WRAM_def swram_ok_def MapSharedWRAM_def nds_zero_def swram_maps_def)
  then show ?thesis using k [of saved n] by auto
qed

end
