(* ===== verification/Nds_Timer.thy ===== *)
theory Nds_Timer
  imports Nds_Sched
begin

text \<open>
  The eight timers, \<^verbatim>\<open>HandleTimerOverflow\<close>, \<^verbatim>\<open>RunTimer\<close>, \<^verbatim>\<open>RunTimers\<close>, \<^verbatim>\<open>TimerGetCounter\<close>
  and \<^verbatim>\<open>TimerStart\<close> of \<^verbatim>\<open>src/src/NDS.cpp\<close>. Timers 0 to 3 belong to the ARM9, 4 to 7 to the
  ARM7. A counter is kept with ten fractional bits: the 16-bit value that the program sees is
  in bits 10 to 25, and bit 26 says that it has overflowed.
\<close>

section \<open>Model\<close>

definition set_counter :: "nat \<Rightarrow> u32 \<Rightarrow> 'a nds_scheme \<Rightarrow> 'a nds_scheme" where
  "set_counter tid c n = n\<lparr>Timers := (Timers n)(tid := (Timers n tid)\<lparr>Counter := c\<rparr>)\<rparr>"

definition reload_value :: "Timer \<Rightarrow> u32" where
  "reload_value t = push_bit 10 (ucast (Reload t))"

definition timer_irq :: "nat \<Rightarrow> 'a nds_scheme \<Rightarrow> 'a nds_scheme" where
  "timer_irq tid n =
     (if Cnt (Timers n tid) AND 0x40 \<noteq> 0 then SetIRQ (tid div 4) (IRQ_Timer0 + tid mod 4) n else n)"

text \<open>The loop that passes an overflow of timer \<open>tid\<close> on to the timers that count up behind it.\<close>

function cascade :: "nat \<Rightarrow> 'a nds_scheme \<Rightarrow> 'a nds_scheme" where
  "cascade tid n =
     (let tid = Suc tid; timer = Timers n tid
      in if Cnt timer AND 0x84 \<noteq> 0x84 then n
         else
           let c = Counter timer + 0x400; n = set_counter tid c n
           in if drop_bit 26 c = 0 then n
              else
                let n = timer_irq tid (set_counter tid (reload_value timer) n)
                in if tid mod 4 = 3 then n else cascade tid n)"
  by pat_completeness auto
termination
proof (relation "measure (\<lambda>(tid, _). if tid mod 4 = 3 then 4 else 3 - tid mod 4)", goal_cases)
  case (2 tid n x xa xb xc xd)
  then have "tid mod 4 \<noteq> 2" by (auto simp: mod_Suc)
  then show ?case using 2 by (auto simp: mod_Suc)
qed simp

declare cascade.simps [simp del]

definition HandleTimerOverflow :: "nat \<Rightarrow> 'a nds_scheme \<Rightarrow> 'a nds_scheme" where
  "HandleTimerOverflow tid n =
     (let timer = Timers n tid;
          n = timer_irq tid (set_counter tid (Counter timer + reload_value timer) n)
      in if tid mod 4 = 3 then n else cascade tid n)"

text \<open>An overflow changes the timers behind the one that overflowed only.\<close>

lemma Timers_timer_irq [simp]: "Timers (timer_irq tid n) = Timers n"
  by (simp add: timer_irq_def)

lemma Timers_set_counter [simp]:
  "Timers (set_counter tid c n) = (Timers n)(tid := (Timers n tid)\<lparr>Counter := c\<rparr>)"
  by (simp add: set_counter_def)

lemma cascade_before: "t \<le> tid \<Longrightarrow> Timers (cascade tid n) t = Timers n t"
proof (induction tid n rule: cascade.induct)
  case (1 tid n)
  then show ?case by (subst cascade.simps) (auto simp: Let_def)
qed

lemma Timers_HandleTimerOverflow:
  "Timers (HandleTimerOverflow tid n) tid =
     (Timers n tid)\<lparr>Counter := Counter (Timers n tid) + reload_value (Timers n tid)\<rparr>"
  by (simp add: HandleTimerOverflow_def Let_def cascade_before)

lemma unat_reload_value: "unat (reload_value t) = unat (Reload t) * 1024"
proof -
  have "unat (ucast (Reload t) :: u32) = unat (Reload t)"
    using unat_u16_less [of "Reload t"] by (intro unat_ucast_small) simp
  then show ?thesis unfolding reload_value_def
    using unat_u16_less [of "Reload t"] by (subst unat_push_small) simp_all
qed

lemma drop_bit_26_eq_0: "drop_bit 26 c = 0 \<longleftrightarrow> unat c < 2 ^ 26" for c :: u32
  using unat_shr [of 26 c] by (simp add: word_unat_eq_iff div_eq_0_iff)

text \<open>One round of the overflow loop takes the period of the timer off the counter.\<close>

lemma overflow_round:
  assumes "2 ^ 26 \<le> unat c"
  shows "unat (c - 0x4000000 + reload_value t) = unat c - (2 ^ 26 - unat (Reload t) * 1024)"
    and "unat (Reload t) * 1024 < 2 ^ 26"
proof -
  show r: "unat (Reload t) * 1024 < 2 ^ 26" using unat_u16_less [of "Reload t"] by simp
  have "unat (c - 0x4000000) = unat c - 2 ^ 26"
    using assms by (subst unat_minus_small) (simp_all add: word_le_nat_alt)
  moreover have "unat c < 2 ^ 32" using unat_u32_less [of c] by simp
  ultimately show "unat (c - 0x4000000 + reload_value t) = unat c - (2 ^ 26 - unat (Reload t) * 1024)"
    using r assms by (subst unat_plus_small) (simp_all add: unat_reload_value)
qed

function run_overflows :: "nat \<Rightarrow> 'a nds_scheme \<Rightarrow> 'a nds_scheme" where
  "run_overflows tid n =
     (if drop_bit 26 (Counter (Timers n tid)) = 0 then n
      else run_overflows tid
             (HandleTimerOverflow tid (set_counter tid (Counter (Timers n tid) - 0x4000000) n)))"
  by pat_completeness auto
termination
proof (relation "measure (\<lambda>(tid, n). unat (Counter (Timers n tid)))", goal_cases)
  case (2 tid n)
  let ?t = "Timers n tid"
  have a: "2 ^ 26 \<le> unat (Counter ?t)" using 2 by (simp only: drop_bit_26_eq_0 not_less)
  have "unat (Counter ?t - 0x4000000 + reload_value ?t) < unat (Counter ?t)"
    using overflow_round [OF a, of ?t] a by linarith
  moreover have "reload_value (?t\<lparr>Counter := c\<rparr>) = reload_value ?t" for c
    by (simp add: reload_value_def)
  ultimately show ?case by (simp add: Timers_HandleTimerOverflow)
qed simp

declare run_overflows.simps [simp del]

text \<open>\<open>cycles\<close> is an \<^verbatim>\<open>s32\<close>.\<close>

definition RunTimer :: "nat \<Rightarrow> int \<Rightarrow> 'a nds_scheme \<Rightarrow> 'a nds_scheme" where
  "RunTimer tid cycles n =
     (let timer = Timers n tid
      in run_overflows tid
           (set_counter tid
              (Counter timer + push_bit (unat (CycleShift timer)) (word_of_int cycles)) n))"

definition timer_cycles :: "nat \<Rightarrow> 'a nds_scheme \<Rightarrow> int" where
  "timer_cycles cpu n =
     sint (ucast ((if cpu = 0 then drop_bit (unat (ARM9ClockShift n)) (ARM9Timestamp n)
                   else ARM7Timestamp n) - TimerTimestamp n cpu) :: u32)"

definition RunTimers :: "nat \<Rightarrow> 'a nds_scheme \<Rightarrow> 'a nds_scheme" where
  "RunTimers cpu n =
     (let timermask = TimerCheckMask n cpu;
          cycles = timer_cycles cpu n;
          n = (if timermask AND 1 \<noteq> 0 then RunTimer (4 * cpu + 0) cycles n else n);
          n = (if timermask AND 2 \<noteq> 0 then RunTimer (4 * cpu + 1) cycles n else n);
          n = (if timermask AND 4 \<noteq> 0 then RunTimer (4 * cpu + 2) cycles n else n);
          n = (if timermask AND 8 \<noteq> 0 then RunTimer (4 * cpu + 3) cycles n else n)
      in n\<lparr>TimerTimestamp := (TimerTimestamp n)(cpu := TimerTimestamp n cpu + word_of_int cycles)\<rparr>)"

definition TimerPrescaler :: "u16 \<Rightarrow> u32" where
  "TimerPrescaler i = (if i = 0 then 0 else if i = 1 then 6 else if i = 2 then 8 else 10)"

definition TimerGetCounter :: "nat \<Rightarrow> 'a nds_scheme \<Rightarrow> u16 \<times> 'a nds_scheme" where
  "TimerGetCounter timer n =
     (let n = RunTimers (timer div 4) n; ret = Counter (Timers n timer)
      in (ucast (drop_bit 10 ret), n))"

definition TimerStart :: "nat \<Rightarrow> u16 \<Rightarrow> 'a nds_scheme \<Rightarrow> 'a nds_scheme" where
  "TimerStart i cnt n =
     (let curstart = Cnt (Timers n i) AND 0x80;
          newstart = cnt AND 0x80;
          n = RunTimers (i div 4) n;
          n = n\<lparr>Timers := (Timers n)(i := (Timers n i)
                 \<lparr>Cnt := cnt, CycleShift := 10 - TimerPrescaler (cnt AND 3)\<rparr>)\<rparr>;
          n = (if curstart = 0 \<and> newstart \<noteq> 0 then set_counter i (reload_value (Timers n i)) n else n);
          m = TimerCheckMask n (i div 4); b = push_bit (i mod 4) 1
      in n\<lparr>TimerCheckMask := (TimerCheckMask n)
             (i div 4 := (if cnt AND 0x84 = 0x80 then m OR b else m AND NOT b))\<rparr>)"

definition WriteReload :: "nat \<Rightarrow> u16 \<Rightarrow> 'a nds_scheme \<Rightarrow> 'a nds_scheme" where
  "WriteReload i val n = n\<lparr>Timers := (Timers n)(i := (Timers n i)\<lparr>Reload := val\<rparr>)\<rparr>"

end
