(* ===== verification/Nds_Timer_Count.thy ===== *)
theory Nds_Timer_Count
  imports Nds_Timer
begin

text \<open>
  What the timers count: the closed form of the overflow loop and of the chain of timers that
  count the overflows of the one before, with the interrupt requests they raise.
\<close>

section \<open>Counting modulo a reload value\<close>

text \<open>
  A counter that restarts at \<open>r\<close> when it reaches the limit \<open>L\<close>, advanced to \<open>x\<close>: how many
  times it has overflowed and where it stands.
\<close>

definition wrap_count :: "nat \<Rightarrow> nat \<Rightarrow> nat \<Rightarrow> nat \<times> nat" where
  "wrap_count L r x = (if x < L then (0, x) else ((x - r) div (L - r), r + (x - r) mod (L - r)))"

lemma wrap_count_low [simp]: "x < L \<Longrightarrow> wrap_count L r x = (0, x)"
  by (simp add: wrap_count_def)

lemma div_mod_off: "0 < P \<Longrightarrow> y = P + z \<Longrightarrow> y div P = Suc (z div P) \<and> y mod P = z mod P" for P y z :: nat
  by (simp add: div_add_self1)

lemma wrap_count_round:
  assumes "r < L" "L \<le> x"
  shows "wrap_count L r x = apfst Suc (wrap_count L r (x - (L - r)))"
proof (cases "x - (L - r) < L")
  case True
  then have "x - r = (L - r) + (x - L)" "x - L < L - r" using assms by linarith+
  then have "(x - r) div (L - r) = 1" "(x - r) mod (L - r) = x - L"
    using assms div_mod_off [of "L - r" "x - r" "x - L"] by simp_all
  then show ?thesis using True assms by (simp add: wrap_count_def)
next
  case False
  then have "x - r = (L - r) + (x - (L - r) - r)" using assms by linarith
  then have "(x - r) div (L - r) = Suc ((x - (L - r) - r) div (L - r))"
    "(x - r) mod (L - r) = (x - (L - r) - r) mod (L - r)"
    using assms div_mod_off [of "L - r" "x - r" "x - (L - r) - r"] by simp_all
  then show ?thesis using False assms by (simp add: wrap_count_def)
qed

lemma wrap_count_Suc:
  assumes "r < L"
  shows "wrap_count L r (Suc x) =
    (let (k, v) = wrap_count L r x in if Suc v < L then (k, Suc v) else (Suc k, r))"
proof -
  let ?P = "L - r" and ?y = "x - r"
  have P: "0 < ?P" using assms by simp
  consider "Suc x < L" | "Suc x = L" | "L \<le> x" by linarith
  then show ?thesis
  proof cases
    case 1
    then show ?thesis by (simp add: wrap_count_def)
  next
    case 2
    then have "Suc x - r = ?P" by simp
    then show ?thesis using 2 P by (auto simp: wrap_count_def)
  next
    case 3
    then have y: "Suc x - r = Suc ?y" using assms by simp
    have "Suc ?y div ?P = (if Suc (?y mod ?P) = ?P then Suc (?y div ?P) else ?y div ?P)"
      "Suc ?y mod ?P = (if Suc (?y mod ?P) = ?P then 0 else Suc (?y mod ?P))"
      by (simp_all add: div_Suc mod_Suc)
    moreover have "Suc (?y mod ?P) = ?P \<longleftrightarrow> \<not> Suc (r + ?y mod ?P) < L"
      using mod_less_divisor [OF P, of ?y] assms by linarith
    ultimately show ?thesis using 3 y by (simp add: wrap_count_def)
  qed
qed

section \<open>The visible counter\<close>

definition vis :: "'a nds_scheme \<Rightarrow> nat \<Rightarrow> nat" where
  "vis n t = unat (Counter (Timers n t)) div 1024"

definition reload :: "'a nds_scheme \<Rightarrow> nat \<Rightarrow> nat" where
  "reload n t = unat (Reload (Timers n t))"

definition counts_up :: "'a nds_scheme \<Rightarrow> nat \<Rightarrow> bool" where
  "counts_up n t \<longleftrightarrow> Cnt (Timers n t) AND 0x84 = 0x84"

definition irq_on :: "'a nds_scheme \<Rightarrow> nat \<Rightarrow> bool" where
  "irq_on n t \<longleftrightarrow> Cnt (Timers n t) AND 0x40 \<noteq> 0"

definition timer_flag :: "'a nds_scheme \<Rightarrow> nat \<Rightarrow> bool" where
  "timer_flag n t \<longleftrightarrow> bit (IF n (t div 4)) (IRQ_Timer0 + t mod 4)"

text \<open>No counter is left overflowed.\<close>

definition timers_ok :: "'a nds_scheme \<Rightarrow> bool" where
  "timers_ok n \<longleftrightarrow> (\<forall>t. unat (Counter (Timers n t)) < 2 ^ 26)"

text \<open>
  The \<open>rem\<close> timers from \<open>t\<close> on, when the timer before \<open>t\<close> has overflowed \<open>k\<close> times between
  the states \<open>n\<close> and \<open>m\<close>: a timer that counts up has advanced by \<open>k\<close> and handed its own
  overflows on, any other has not moved; one that overflowed has its request flag set if its
  interrupt is on.
\<close>

fun timer_chain :: "'a nds_scheme \<Rightarrow> 'a nds_scheme \<Rightarrow> nat \<Rightarrow> nat \<Rightarrow> nat \<Rightarrow> bool" where
  "timer_chain n m 0 t k = True"
| "timer_chain n m (Suc rem) t k =
     (let (overflows, value) = wrap_count 65536 (reload n t) (vis n t + (if counts_up n t then k else 0))
      in vis m t = value \<and>
         timer_flag m t = (timer_flag n t \<or> (irq_on n t \<and> 0 < overflows)) \<and>
         timer_chain n m rem (Suc t) overflows)"

lemma vis_less: "timers_ok n \<Longrightarrow> vis n t < 65536"
  by (simp add: timers_ok_def vis_def less_mult_imp_div_less)

lemma reload_less: "reload n t < 65536"
  by (simp add: reload_def unat_u16_less)

text \<open>The configuration of the timers does not change while they run.\<close>

definition same_setup :: "'a nds_scheme \<Rightarrow> 'a nds_scheme \<Rightarrow> bool" where
  "same_setup n m \<longleftrightarrow> (\<forall>t. Reload (Timers m t) = Reload (Timers n t) \<and> Cnt (Timers m t) = Cnt (Timers n t) \<and>
      CycleShift (Timers m t) = CycleShift (Timers n t))"

lemma same_setupD:
  assumes "same_setup n m"
  shows "reload m t = reload n t" "counts_up m t = counts_up n t" "irq_on m t = irq_on n t"
  using assms by (simp_all add: same_setup_def reload_def counts_up_def irq_on_def)

lemma same_setup_ops [simp]:
  "same_setup n n" "same_setup n (set_counter t c m) = same_setup n m"
  "same_setup n (timer_irq t m) = same_setup n m"
  by (auto simp: same_setup_def)

lemma same_setup_cascade: "same_setup n m \<Longrightarrow> same_setup n (cascade tid m)"
proof (induction tid m rule: cascade.induct)
  case (1 tid m)
  then show ?case by (subst cascade.simps) (simp add: Let_def)
qed

lemma vis_set_counter: "vis (set_counter t c n) u = (if u = t then unat c div 1024 else vis n u)"
  by (simp add: vis_def)

lemma vis_timer_irq [simp]: "vis (timer_irq t n) u = vis n u"
  by (simp add: vis_def)

lemma IF_set_counter [simp]: "IF (set_counter t c n) = IF n"
  by (simp add: set_counter_def)

lemma irq_timer_neq: "t \<noteq> u \<Longrightarrow> t div 4 = u div 4 \<Longrightarrow> t mod 4 \<noteq> u mod 4" for t u :: nat
  by (metis div_mult_mod_eq)

lemma timer_flag_set_counter [simp]: "timer_flag (set_counter t c n) u = timer_flag n u"
  by (simp add: timer_flag_def)

lemma timer_flag_irq: "timer_flag (timer_irq t n) u = (timer_flag n u \<or> (u = t \<and> irq_on n t))"
proof -
  have "IRQ_Timer0 + t mod 4 < 32" by (simp add: IRQ_Timer0_def)
  then show ?thesis
    using irq_timer_neq [of t u] by (auto simp: timer_flag_def timer_irq_def irq_on_def IF_SetIRQ bit_or_iff)
qed

section \<open>The chain\<close>

text \<open>Only the counters and the request flags of the timers of the chain matter.\<close>

lemma timer_chain_cong:
  assumes "\<And>u. t \<le> u \<Longrightarrow> vis m' u = vis m u \<and> timer_flag m' u = timer_flag m u"
  shows "timer_chain n m' rem t k = timer_chain n m rem t k"
  using assms
proof (induction rem arbitrary: t k)
  case (Suc rem)
  have "timer_chain n m' rem (Suc t) j = timer_chain n m rem (Suc t) j" for j
    by (rule Suc.IH) (simp add: Suc.prems)
  then show ?case using Suc.prems [of t] by simp
qed simp

lemma timer_chain_start:
  assumes "timers_ok n"
  shows "timer_chain n n rem t 0"
proof (induction rem arbitrary: t)
  case (Suc rem)
  then show ?case using vis_less [OF assms, of t] by simp
qed simp

lemma counter_tick:
  fixes c :: u32
  assumes "unat c < 2 ^ 26"
  shows "unat (c + 0x400) = unat c + 1024" "unat (c + 0x400) div 1024 = Suc (unat c div 1024)"
    "drop_bit 26 (c + 0x400) = 0 \<longleftrightarrow> Suc (unat c div 1024) < 65536"
proof -
  show 1: "unat (c + 0x400) = unat c + 1024" using assms by (subst unat_plus_small) simp_all
  show 2: "unat (c + 0x400) div 1024 = Suc (unat c div 1024)" unfolding 1 by simp
  have "unat (c + 0x400) < 2 ^ 26 \<longleftrightarrow> unat (c + 0x400) div 1024 < 65536"
    by (simp add: div_less_iff_less_mult)
  then show "drop_bit 26 (c + 0x400) = 0 \<longleftrightarrow> Suc (unat c div 1024) < 65536"
    unfolding drop_bit_26_eq_0 2 .
qed

lemma cascade_flag_before: "t \<le> tid \<Longrightarrow> timer_flag (cascade tid n) t = timer_flag n t"
proof (induction tid n rule: cascade.induct)
  case (1 tid n)
  then show ?case by (subst cascade.simps) (auto simp: Let_def timer_flag_irq)
qed

definition later_ok :: "nat \<Rightarrow> 'a nds_scheme \<Rightarrow> bool" where
  "later_ok tid n \<longleftrightarrow> (\<forall>t > tid. unat (Counter (Timers n t)) < 2 ^ 26)"

lemma later_ok_set_counter [simp]:
  "unat c < 2 ^ 26 \<or> t \<le> tid \<Longrightarrow> later_ok tid n \<Longrightarrow> later_ok tid (set_counter t c n)"
  by (auto simp: later_ok_def)

lemma later_ok_irq [simp]: "later_ok tid (timer_irq t n) = later_ok tid n"
  by (simp add: later_ok_def)

lemma later_ok_Suc: "later_ok tid n \<longleftrightarrow> unat (Counter (Timers n (Suc tid))) < 2 ^ 26 \<and> later_ok (Suc tid) n"
proof -
  have "tid < t \<longleftrightarrow> t = Suc tid \<or> Suc tid < t" for t by linarith
  then show ?thesis by (auto simp: later_ok_def)
qed

lemma reload_value_small: "unat (reload_value t) < 2 ^ 26" "unat (reload_value t) div 1024 = unat (Reload t)"
  using unat_u16_less [of "Reload t"] by (simp_all add: unat_reload_value)

text \<open>One more overflow of timer \<open>tid\<close> moves the chain behind it by one.\<close>

lemma cascade_chain:
  assumes "timer_chain n m (3 - tid mod 4) (Suc tid) k" "same_setup n m" "later_ok tid m" "tid mod 4 \<noteq> 3"
  shows "timer_chain n (cascade tid m) (3 - tid mod 4) (Suc tid) (Suc k) \<and> later_ok tid (cascade tid m)"
  using assms
proof (induction tid m arbitrary: k rule: cascade.induct)
  case (1 tid m)
  let ?t = "Suc tid" and ?c = "Counter (Timers m (Suc tid)) + 0x400"
  have "tid mod 4 < 4" by simp
  then obtain rem where rem: "3 - tid mod 4 = Suc rem"
    using 1(5) by (cases "3 - tid mod 4") simp_all
  obtain ov v where w: "wrap_count 65536 (reload n ?t) (vis n ?t + (if counts_up n ?t then k else 0)) = (ov, v)"
    by fastforce
  have ch: "vis m ?t = v" "timer_flag m ?t = (timer_flag n ?t \<or> (irq_on n ?t \<and> 0 < ov))"
    "timer_chain n m rem (Suc ?t) ov"
    using 1(2) by (simp_all add: rem w)
  have up: "Cnt (Timers m ?t) AND 0x84 = 0x84 \<longleftrightarrow> counts_up n ?t"
    using same_setupD(2) [OF 1(3), of ?t] by (simp add: counts_up_def)
  have lt: "unat (Counter (Timers m ?t)) < 2 ^ 26" using 1(4) by (simp add: later_ok_def)
  note tick = counter_tick [OF lt]
  have w': "wrap_count 65536 (reload n ?t) (vis n ?t + Suc k) = (if Suc v < 65536 then (ov, Suc v) else (Suc ov, reload n ?t))"
    if "counts_up n ?t"
    using wrap_count_Suc [OF reload_less, of n ?t "vis n ?t + k"] w that by simp
  have v: "unat (Counter (Timers m ?t)) div 1024 = v" using ch(1) by (simp add: vis_def)
  consider (off) "\<not> counts_up n ?t" | (tick) "counts_up n ?t" "drop_bit 26 ?c = 0"
    | (over) "counts_up n ?t" "drop_bit 26 ?c \<noteq> 0" by blast
  then show ?case
  proof cases
    case off
    then have "cascade tid m = m" using up by (subst cascade.simps) simp
    then show ?thesis using off w ch 1(4) by (simp add: rem)
  next
    case tick
    then have c: "cascade tid m = set_counter ?t ?c m" using up by (subst cascade.simps) (simp add: Let_def)
    have "Suc v < 65536" using tick(2) counter_tick(3) [OF lt] v by simp
    moreover have "timer_chain n (set_counter ?t ?c m) rem (Suc ?t) ov"
      using ch(3) by (subst timer_chain_cong) (auto simp: vis_set_counter)
    moreover have "later_ok tid (set_counter ?t ?c m)"
      using tick(2) 1(4) by (intro later_ok_set_counter disjI1) (simp_all only: drop_bit_26_eq_0)
    ultimately show ?thesis unfolding c
      using w' [OF tick(1)] tick(1) ch counter_tick(2) [OF lt] v by (simp add: rem vis_set_counter)
  next
    case over
    let ?m1 = "timer_irq ?t (set_counter ?t (reload_value (Timers m ?t)) (set_counter ?t ?c m))"
    have c: "cascade tid m = (if ?t mod 4 = 3 then ?m1 else cascade ?t ?m1)"
      using over up by (subst cascade.simps) (simp add: Let_def)
    have ge: "\<not> Suc v < 65536" using over(2) counter_tick(3) [OF lt] v by simp
    have v1: "vis ?m1 ?t = reload n ?t"
      using same_setupD(1) [OF 1(3), of ?t] by (simp add: vis_set_counter reload_value_small reload_def)
    have f1: "timer_flag ?m1 ?t = (timer_flag n ?t \<or> irq_on n ?t)"
      using same_setupD(3) [OF 1(3), of ?t] ch(2) by (auto simp: timer_flag_irq irq_on_def)
    have ch1: "timer_chain n ?m1 rem (Suc ?t) ov"
      using ch(3) by (subst timer_chain_cong) (auto simp: vis_set_counter timer_flag_irq)
    have "later_ok tid (set_counter ?t (reload_value (Timers m ?t)) (set_counter ?t ?c m))"
      using 1(4) reload_value_small(1) [of "Timers m ?t"] by (auto simp: later_ok_def)
    then have ok: "later_ok tid ?m1" by simp
    show ?thesis
    proof (cases "?t mod 4 = 3")
      case True
      then have "rem = 0" using rem by (simp add: mod_Suc split: if_splits)
      then show ?thesis using True c w' [OF over(1)] ge over(1) v1 f1 ok by (simp add: rem)
    next
      case False
      then have r: "3 - ?t mod 4 = rem" using rem by (simp add: mod_Suc split: if_splits)
      have ok1: "unat (Counter (Timers ?m1 ?t)) < 2 ^ 26" "later_ok ?t ?m1" using ok by (simp_all only: later_ok_Suc [of tid])
      then have "timer_chain n (cascade ?t ?m1) rem (Suc ?t) (Suc ov) \<and> later_ok ?t (cascade ?t ?m1)"
        using 1(1) [of ?t _ _ _ _ ov] over False up ch1 1(3) by (simp add: r)
      moreover have "Timers (cascade ?t ?m1) ?t = Timers ?m1 ?t" by (rule cascade_before) simp
      moreover have "vis (cascade ?t ?m1) ?t = vis ?m1 ?t" unfolding vis_def by (subst cascade_before) simp_all
      moreover have "timer_flag (cascade ?t ?m1) ?t = timer_flag ?m1 ?t" by (rule cascade_flag_before) simp
      ultimately show ?thesis using False c w' [OF over(1)] ge over(1) v1 f1 ok1(1) by (simp add: rem later_ok_Suc [of tid])
    qed
  qed
qed

section \<open>The timers\<close>

text \<open>
  The overflow loop of timer \<open>tid\<close>, from a state in which its counter stands at \<open>x\<close>.
\<close>

lemma run_overflows_count:
  fixes n :: "'a nds_scheme"
  assumes "timer_chain n m (3 - tid mod 4) (Suc tid) k" "same_setup n m" "later_ok tid m"
    "timer_flag m tid = (timer_flag n tid \<or> (irq_on n tid \<and> 0 < k))"
    "wrap_count (2 ^ 26) (reload n tid * 1024) (unat (Counter (Timers m tid))) = (ov, x)"
  shows "unat (Counter (Timers (run_overflows tid m) tid)) = x \<and>
    timer_flag (run_overflows tid m) tid = (timer_flag n tid \<or> (irq_on n tid \<and> 0 < k + ov)) \<and>
    timer_chain n (run_overflows tid m) (3 - tid mod 4) (Suc tid) (k + ov) \<and>
    same_setup n (run_overflows tid m) \<and> later_ok tid (run_overflows tid m)"
  using assms
proof (induction tid m arbitrary: k ov rule: run_overflows.induct)
  case (1 tid m)
  let ?c = "Counter (Timers m tid)"
  show ?case
  proof (cases "drop_bit 26 ?c = 0")
    case True
    then have "unat ?c < 2 ^ 26" by (simp only: drop_bit_26_eq_0)
    moreover have "run_overflows tid m = m" using True by (subst run_overflows.simps) simp
    ultimately show ?thesis using 1(2-6) by simp
  next
    case False
    then have ge: "2 ^ 26 \<le> unat ?c" by (simp only: drop_bit_26_eq_0 not_less)
    let ?s = "set_counter tid (?c - 0x4000000) m"
    let ?m = "HandleTimerOverflow tid ?s"
    let ?i = "timer_irq tid (set_counter tid (?c - 0x4000000 + reload_value (Timers m tid)) ?s)"
    have r: "run_overflows tid m = run_overflows tid ?m" using False by (subst run_overflows.simps) simp
    have rl: "reload_value (T\<lparr>Counter := x\<rparr>) = reload_value T" for T x by (simp add: reload_value_def)
    have h: "?m = (if tid mod 4 = 3 then ?i else cascade tid ?i)"
      by (simp add: HandleTimerOverflow_def Let_def rl)
    have i: "timer_chain n ?i (3 - tid mod 4) (Suc tid) k" "same_setup n ?i" "later_ok tid ?i"
      "timer_flag ?i tid = (timer_flag n tid \<or> irq_on n tid)"
      subgoal using 1(2) by (subst timer_chain_cong) (auto simp: vis_set_counter timer_flag_irq)
      using 1(3-5) same_setupD(3) [OF 1(3)] by (auto simp: timer_flag_irq irq_on_def)
    have "timer_chain n ?m (3 - tid mod 4) (Suc tid) (Suc k)" "same_setup n ?m" "later_ok tid ?m"
      "timer_flag ?m tid = (timer_flag n tid \<or> irq_on n tid)"
      using i cascade_chain [OF i(1,2,3)] same_setup_cascade [OF i(2)] cascade_flag_before [of tid tid ?i]
      by (cases "tid mod 4 = 3"; simp add: h)+
    moreover have cm: "Counter (Timers ?m tid) = ?c - 0x4000000 + reload_value (Timers m tid)"
      by (simp add: Timers_HandleTimerOverflow rl)
    have "reload n tid = unat (Reload (Timers m tid))" using same_setupD(1) [OF 1(3), of tid] by (simp add: reload_def)
    then have "wrap_count (2 ^ 26) (reload n tid * 1024) (unat (Counter (Timers ?m tid))) = (ov - 1, x) \<and> 0 < ov"
      using wrap_count_round [OF overflow_round(2) [OF ge, of "Timers m tid"] ge] 1(6)
      unfolding cm overflow_round(1) [OF ge] by (auto simp: apfst_def map_prod_def split: prod.splits)
    ultimately show ?thesis using 1(1) [OF False, of "Suc k" "ov - 1"] unfolding r by auto
  qed
qed

text \<open>The timers that an overflow of timer \<open>tid\<close> cannot reach.\<close>

definition untouched :: "nat \<Rightarrow> 'a nds_scheme \<Rightarrow> nat \<Rightarrow> bool" where
  "untouched tid n t \<longleftrightarrow> t \<noteq> tid \<and> (t < tid \<or> t div 4 \<noteq> tid div 4 \<or> \<not> counts_up n t)"

lemma cascade_untouched:
  "untouched tid n t \<Longrightarrow> tid mod 4 \<noteq> 3 \<Longrightarrow> Timers (cascade tid n) t = Timers n t"
proof (induction tid n rule: cascade.induct)
  case (1 tid n)
  show ?case
  proof (cases "counts_up n (Suc tid)")
    case False
    then show ?thesis by (subst cascade.simps) (simp add: counts_up_def)
  next
    case True
    have d: "Suc tid div 4 = tid div 4" using 1(3) by (simp add: div_Suc mod_Suc)
    with True 1(2) have ne: "t \<noteq> Suc tid" by (auto simp: untouched_def)
    have "untouched (Suc tid) (timer_irq (Suc tid) (set_counter (Suc tid) c (set_counter (Suc tid) c' n))) t" for c c'
      using 1(2) ne d by (auto simp: untouched_def counts_up_def)
    then show ?thesis
      using 1(1) [of "Suc tid"] True ne by (subst cascade.simps) (simp add: Let_def counts_up_def)
  qed
qed

lemma run_overflows_untouched: "untouched tid n t \<Longrightarrow> Timers (run_overflows tid n) t = Timers n t"
proof (induction tid n rule: run_overflows.induct)
  case (1 tid n)
  have ne: "t \<noteq> tid" using 1(2) by (simp add: untouched_def)
  let ?s = "set_counter tid (Counter (Timers n tid) - 0x4000000) n"
  have u: "untouched tid (timer_irq tid (set_counter tid c ?s)) t" for c
    using 1(2) by (auto simp: untouched_def counts_up_def)
  have h: "Timers (HandleTimerOverflow tid ?s) t = Timers n t"
    using ne cascade_untouched [OF u] by (simp add: HandleTimerOverflow_def Let_def)
  then have "untouched tid (HandleTimerOverflow tid ?s) t"
    using 1(2) by (auto simp: untouched_def counts_up_def)
  then show ?case using 1(1) h by (subst run_overflows.simps) simp
qed

lemma RunTimer_untouched: "untouched tid n t \<Longrightarrow> Timers (RunTimer tid c n) t = Timers n t"
  unfolding RunTimer_def Let_def
  by (subst run_overflows_untouched) (auto simp: untouched_def counts_up_def)

lemma wrap_count_less: "r < L \<Longrightarrow> wrap_count L r x = (k, v) \<Longrightarrow> v < L"
proof -
  assume a: "r < L" "wrap_count L r x = (k, v)"
  then have "(x - r) mod (L - r) < L - r" by simp
  then have "r + (x - r) mod (L - r) < L" by linarith
  then show "v < L" using a(2) by (auto simp: wrap_count_def split: if_splits)
qed

lemma unat_of_int_u32: "0 \<le> i \<Longrightarrow> nat i < 2 ^ 32 \<Longrightarrow> unat (word_of_int i :: u32) = nat i"
  by (simp add: unsigned_of_int nat_take_bit_eq take_bit_nat_eq_self)

text \<open>The counter value that a timer runs up to before the overflow loop.\<close>

definition counter_target :: "nat \<Rightarrow> int \<Rightarrow> 'a nds_scheme \<Rightarrow> nat" where
  "counter_target tid cycles n =
     unat (Counter (Timers n tid)) + nat cycles * 2 ^ unat (CycleShift (Timers n tid))"

text \<open>
  C7: Running a timer. The counter, with its fraction, is where a counter that restarts at
  the reload value stands after the elapsed cycles, however many times it overflows on the
  way; every timer behind it that counts up has advanced by exactly the number of overflows
  of the timer before it; a timer that overflowed has requested its interrupt if that is
  enabled; and no other timer has moved. The hypothesis on the sum says that the 32-bit
  counter does not wrap, which holds for the at most 72 cycles between two calls.
\<close>

theorem RunTimer_counts:
  assumes "timers_ok n" "0 \<le> cycles" "counter_target tid cycles n < 2 ^ 32"
    and w: "wrap_count (2 ^ 26) (reload n tid * 1024) (counter_target tid cycles n) = (overflows, value)"
  shows "unat (Counter (Timers (RunTimer tid cycles n) tid)) = value \<and>
    timer_flag (RunTimer tid cycles n) tid = (timer_flag n tid \<or> (irq_on n tid \<and> 0 < overflows)) \<and>
    timer_chain n (RunTimer tid cycles n) (3 - tid mod 4) (Suc tid) overflows \<and>
    (\<forall>t. untouched tid n t \<longrightarrow> Timers (RunTimer tid cycles n) t = Timers n t) \<and>
    timers_ok (RunTimer tid cycles n) \<and> same_setup n (RunTimer tid cycles n)"
proof -
  let ?T = "Timers n tid"
  let ?c = "Counter ?T + push_bit (unat (CycleShift ?T)) (word_of_int cycles)"
  let ?m = "set_counter tid ?c n" and ?r = "RunTimer tid cycles n"
  have p: "unat (Counter ?T) + nat cycles * 2 ^ unat (CycleShift ?T) < 2 ^ 32"
    using assms(3) by (simp add: counter_target_def)
  moreover have "nat cycles * 1 \<le> nat cycles * 2 ^ unat (CycleShift ?T)" by (rule mult_le_mono2) simp
  ultimately have "nat cycles < 2 ^ 32" by linarith
  then have "unat (word_of_int cycles :: u32) = nat cycles"
    using assms(2) by (simp add: unat_of_int_u32)
  then have "unat (push_bit (unat (CycleShift ?T)) (word_of_int cycles :: u32)) = nat cycles * 2 ^ unat (CycleShift ?T)"
    using p by (subst unat_push_small) simp_all
  then have c: "unat ?c = counter_target tid cycles n"
    using p by (subst unat_plus_small) (simp_all add: counter_target_def)
  have ch: "timer_chain n ?m (3 - tid mod 4) (Suc tid) 0"
    using timer_chain_start [OF assms(1)] by (subst timer_chain_cong [of _ _ n]) (auto simp: vis_set_counter)
  have "later_ok tid ?m" using assms(1) by (auto simp: later_ok_def timers_ok_def)
  then have R: "unat (Counter (Timers ?r tid)) = value"
    "timer_flag ?r tid = (timer_flag n tid \<or> (irq_on n tid \<and> 0 < overflows))"
    "timer_chain n ?r (3 - tid mod 4) (Suc tid) overflows" "same_setup n ?r" "later_ok tid ?r"
    using run_overflows_count [OF ch, of overflows "value"] w c by (simp_all add: RunTimer_def Let_def)
  have "reload n tid * 1024 < 2 ^ 26" using reload_less [of n tid] by simp
  then have "value < 2 ^ 26" using w by (rule wrap_count_less)
  then have "timers_ok ?r"
    using R(1,5) assms(1) RunTimer_untouched [of tid n _ cycles] unfolding timers_ok_def later_ok_def untouched_def
    by (metis linorder_less_linear)
  then show ?thesis using R RunTimer_untouched by blast
qed

theorem RunTimer_counts_witness:
  "timers_ok (nds_zero 0) \<and>
   unat (Counter (Timers (RunTimer 0 5 ((nds_zero 0)\<lparr>Timers := (\<lambda>_. \<lparr>Reload = 0xFFFF, Cnt = 0xC4, Counter = 0x3FFFC00, CycleShift = 10\<rparr>)\<rparr>)) 1)) div 1024 = 0xFFFF"
proof -
  let ?n = "(nds_zero 0)\<lparr>Timers := (\<lambda>_. \<lparr>Reload = 0xFFFF, Cnt = 0xC4, Counter = 0x3FFFC00, CycleShift = 10\<rparr>)\<rparr>"
  have z: "timers_ok (nds_zero 0)" by (simp add: timers_ok_def nds_zero_def)
  have ok: "timers_ok ?n" by (simp add: timers_ok_def)
  have t: "counter_target 0 5 ?n = 0x3FFFC00 + 5 * 1024" by (simp add: counter_target_def)
  have w: "wrap_count (2 ^ 26) (reload ?n 0 * 1024) (counter_target 0 5 ?n) = (5, 0x3FFFC00)"
    unfolding t by (simp add: wrap_count_def reload_def)
  have "timer_chain ?n (RunTimer 0 5 ?n) 3 (Suc 0) 5"
    using RunTimer_counts [OF ok, of 5 0 5 "0x3FFFC00"] w t by (simp del: timer_chain.simps)
  then have "vis (RunTimer 0 5 ?n) 1 = 0xFFFF"
    by (simp add: numeral_3_eq_3 wrap_count_def reload_def counts_up_def vis_def)
  then show ?thesis using z by (simp add: vis_def)
qed

end
