(* ===== verification/Nds_Ipc.thy ===== *)
theory Nds_Ipc
  imports Nds_Sched
begin

text \<open>
  Communication between the two processors: the \<^verbatim>\<open>IPCSYNC\<close>, \<^verbatim>\<open>IPCFIFOCNT\<close>, \<^verbatim>\<open>IPCFIFOSEND\<close>
  and \<^verbatim>\<open>IPCFIFORECV\<close> registers, in \<^verbatim>\<open>ARM9IORead16\<close>, \<^verbatim>\<open>ARM9IORead32\<close>, \<^verbatim>\<open>ARM9IOWrite16\<close>,
  \<^verbatim>\<open>ARM9IOWrite32\<close> and their ARM7 counterparts of \<^verbatim>\<open>src/src/NDS.cpp\<close>. The code is written
  out twice there, once per processor, and so it is here; the specification has one
  description for both. The queues are clients of the interface \<open>bounded_queue\<close>.
\<close>

section \<open>Model\<close>

definition IPCSync9_Write :: "u16 \<Rightarrow> 'a nds_scheme \<Rightarrow> 'a nds_scheme" where
  "IPCSync9_Write val n =
     (let n = n\<lparr>IPCSync7 := (IPCSync7 n AND 0xFFF0) OR drop_bit 8 (val AND 0x0F00)\<rparr>;
          n = n\<lparr>IPCSync9 := (IPCSync9 n AND 0xB0FF) OR (val AND 0x4F00)\<rparr>
      in if val AND 0x2000 \<noteq> 0 \<and> IPCSync7 n AND 0x4000 \<noteq> 0 then SetIRQ 1 IRQ_IPCSync n else n)"

definition IPCSync7_Write :: "u16 \<Rightarrow> 'a nds_scheme \<Rightarrow> 'a nds_scheme" where
  "IPCSync7_Write val n =
     (let n = n\<lparr>IPCSync9 := (IPCSync9 n AND 0xFFF0) OR drop_bit 8 (val AND 0x0F00)\<rparr>;
          n = n\<lparr>IPCSync7 := (IPCSync7 n AND 0xB0FF) OR (val AND 0x4F00)\<rparr>
      in if val AND 0x2000 \<noteq> 0 \<and> IPCSync9 n AND 0x4000 \<noteq> 0 then SetIRQ 0 IRQ_IPCSync n else n)"

definition IPCFIFOCnt9_Read :: "'a nds_scheme \<Rightarrow> u16" where
  "IPCFIFOCnt9_Read n =
     (let val = IPCFIFOCnt9 n;
          val = (if FIFO_IsEmpty (IPCFIFO9 n) then val OR 0x0001
                 else if FIFO_IsFull 16 (IPCFIFO9 n) then val OR 0x0002 else val)
      in if FIFO_IsEmpty (IPCFIFO7 n) then val OR 0x0100
         else if FIFO_IsFull 16 (IPCFIFO7 n) then val OR 0x0200 else val)"

definition IPCFIFOCnt7_Read :: "'a nds_scheme \<Rightarrow> u16" where
  "IPCFIFOCnt7_Read n =
     (let val = IPCFIFOCnt7 n;
          val = (if FIFO_IsEmpty (IPCFIFO7 n) then val OR 0x0001
                 else if FIFO_IsFull 16 (IPCFIFO7 n) then val OR 0x0002 else val)
      in if FIFO_IsEmpty (IPCFIFO9 n) then val OR 0x0100
         else if FIFO_IsFull 16 (IPCFIFO9 n) then val OR 0x0200 else val)"

definition IPCFIFOCnt9_Write :: "u16 \<Rightarrow> 'a nds_scheme \<Rightarrow> 'a nds_scheme" where
  "IPCFIFOCnt9_Write val n =
     (let n = (if val AND 0x0008 \<noteq> 0 then n\<lparr>IPCFIFO9 := FIFO_Clear (IPCFIFO9 n)\<rparr> else n);
          n = (if val AND 0x0004 \<noteq> 0 \<and> IPCFIFOCnt9 n AND 0x0004 = 0 \<and> FIFO_IsEmpty (IPCFIFO9 n)
               then SetIRQ 0 IRQ_IPCSendDone n else n);
          n = (if val AND 0x0400 \<noteq> 0 \<and> IPCFIFOCnt9 n AND 0x0400 = 0 \<and> \<not> FIFO_IsEmpty (IPCFIFO7 n)
               then SetIRQ 0 IRQ_IPCRecv n else n);
          n = (if val AND 0x4000 \<noteq> 0 then n\<lparr>IPCFIFOCnt9 := IPCFIFOCnt9 n AND NOT 0x4000\<rparr> else n)
      in n\<lparr>IPCFIFOCnt9 := (val AND 0x8404) OR (IPCFIFOCnt9 n AND 0x4000)\<rparr>)"

definition IPCFIFOCnt7_Write :: "u16 \<Rightarrow> 'a nds_scheme \<Rightarrow> 'a nds_scheme" where
  "IPCFIFOCnt7_Write val n =
     (let n = (if val AND 0x0008 \<noteq> 0 then n\<lparr>IPCFIFO7 := FIFO_Clear (IPCFIFO7 n)\<rparr> else n);
          n = (if val AND 0x0004 \<noteq> 0 \<and> IPCFIFOCnt7 n AND 0x0004 = 0 \<and> FIFO_IsEmpty (IPCFIFO7 n)
               then SetIRQ 1 IRQ_IPCSendDone n else n);
          n = (if val AND 0x0400 \<noteq> 0 \<and> IPCFIFOCnt7 n AND 0x0400 = 0 \<and> \<not> FIFO_IsEmpty (IPCFIFO9 n)
               then SetIRQ 1 IRQ_IPCRecv n else n);
          n = (if val AND 0x4000 \<noteq> 0 then n\<lparr>IPCFIFOCnt7 := IPCFIFOCnt7 n AND NOT 0x4000\<rparr> else n)
      in n\<lparr>IPCFIFOCnt7 := (val AND 0x8404) OR (IPCFIFOCnt7 n AND 0x4000)\<rparr>)"

definition IPCFIFO9_Send :: "u32 \<Rightarrow> 'a nds_scheme \<Rightarrow> 'a nds_scheme" where
  "IPCFIFO9_Send val n =
     (if IPCFIFOCnt9 n AND 0x8000 \<noteq> 0 then
        if FIFO_IsFull 16 (IPCFIFO9 n) then n\<lparr>IPCFIFOCnt9 := IPCFIFOCnt9 n OR 0x4000\<rparr>
        else
          let wasempty = FIFO_IsEmpty (IPCFIFO9 n);
              n = n\<lparr>IPCFIFO9 := FIFO_Write 16 (IPCFIFO9 n) val\<rparr>
          in if IPCFIFOCnt7 n AND 0x0400 \<noteq> 0 \<and> wasempty then SetIRQ 1 IRQ_IPCRecv n else n
      else n)"

definition IPCFIFO7_Send :: "u32 \<Rightarrow> 'a nds_scheme \<Rightarrow> 'a nds_scheme" where
  "IPCFIFO7_Send val n =
     (if IPCFIFOCnt7 n AND 0x8000 \<noteq> 0 then
        if FIFO_IsFull 16 (IPCFIFO7 n) then n\<lparr>IPCFIFOCnt7 := IPCFIFOCnt7 n OR 0x4000\<rparr>
        else
          let wasempty = FIFO_IsEmpty (IPCFIFO7 n);
              n = n\<lparr>IPCFIFO7 := FIFO_Write 16 (IPCFIFO7 n) val\<rparr>
          in if IPCFIFOCnt9 n AND 0x0400 \<noteq> 0 \<and> wasempty then SetIRQ 0 IRQ_IPCRecv n else n
      else n)"

definition IPCFIFO9_Recv :: "'a nds_scheme \<Rightarrow> u32 \<times> 'a nds_scheme" where
  "IPCFIFO9_Recv n =
     (if IPCFIFOCnt9 n AND 0x8000 \<noteq> 0 then
        if FIFO_IsEmpty (IPCFIFO7 n) then
          (FIFO_Peek (IPCFIFO7 n), n\<lparr>IPCFIFOCnt9 := IPCFIFOCnt9 n OR 0x4000\<rparr>)
        else
          let (ret, q) = FIFO_Read 16 (IPCFIFO7 n); n = n\<lparr>IPCFIFO7 := q\<rparr>
          in (ret, if FIFO_IsEmpty (IPCFIFO7 n) \<and> IPCFIFOCnt7 n AND 0x0004 \<noteq> 0
                   then SetIRQ 1 IRQ_IPCSendDone n else n)
      else (FIFO_Peek (IPCFIFO7 n), n))"

definition IPCFIFO7_Recv :: "'a nds_scheme \<Rightarrow> u32 \<times> 'a nds_scheme" where
  "IPCFIFO7_Recv n =
     (if IPCFIFOCnt7 n AND 0x8000 \<noteq> 0 then
        if FIFO_IsEmpty (IPCFIFO9 n) then
          (FIFO_Peek (IPCFIFO9 n), n\<lparr>IPCFIFOCnt7 := IPCFIFOCnt7 n OR 0x4000\<rparr>)
        else
          let (ret, q) = FIFO_Read 16 (IPCFIFO9 n); n = n\<lparr>IPCFIFO9 := q\<rparr>
          in (ret, if FIFO_IsEmpty (IPCFIFO9 n) \<and> IPCFIFOCnt9 n AND 0x0004 \<noteq> 0
                   then SetIRQ 0 IRQ_IPCSendDone n else n)
      else (FIFO_Peek (IPCFIFO9 n), n))"

section \<open>Specification\<close>

datatype cpu = ARM9 | ARM7

fun other :: "cpu \<Rightarrow> cpu" where
  "other ARM9 = ARM7"
| "other ARM7 = ARM9"

fun cpu_num :: "cpu \<Rightarrow> nat" where
  "cpu_num ARM9 = 0"
| "cpu_num ARM7 = 1"

datatype ipc_op = Control cpu u16 | Send cpu u32 | Recv cpu

text \<open>
  Two queues of at most 16 messages, named after the processor that sends, a control
  register per processor and the interrupt requests of both.
\<close>

record ipc =
  queue :: "cpu \<Rightarrow> u32 list"
  cnt :: "cpu \<Rightarrow> u16"
  req :: "cpu \<Rightarrow> u32"

definition raise :: "cpu \<Rightarrow> nat \<Rightarrow> ipc \<Rightarrow> ipc" where
  "raise c irq s = s\<lparr>req := (req s)(c := req s c OR bitm irq)\<rparr>"

definition enabled :: "ipc \<Rightarrow> cpu \<Rightarrow> bool" where
  "enabled s c \<longleftrightarrow> bit (cnt s c) 15"

definition wants_recv :: "ipc \<Rightarrow> cpu \<Rightarrow> bool" where
  "wants_recv s c \<longleftrightarrow> bit (cnt s c) 10"

definition wants_done :: "ipc \<Rightarrow> cpu \<Rightarrow> bool" where
  "wants_done s c \<longleftrightarrow> bit (cnt s c) 2"

definition flag_error :: "cpu \<Rightarrow> ipc \<Rightarrow> ipc" where
  "flag_error c s = s\<lparr>cnt := (cnt s)(c := cnt s c OR 0x4000)\<rparr>"

text \<open>The bits that a write of \<open>val\<close> leaves in the control register.\<close>

definition new_cnt :: "u16 \<Rightarrow> u16 \<Rightarrow> u16" where
  "new_cnt val old = (val AND 0x8404) OR (if bit val 14 then 0 else old AND 0x4000)"

fun ipc_spec :: "ipc_op \<Rightarrow> ipc \<Rightarrow> u32 option \<times> ipc" where
  "ipc_spec (Send c v) s =
     (None,
      if \<not> enabled s c then s
      else if length (queue s c) = 16 then flag_error c s
      else (if queue s c = [] \<and> wants_recv s (other c) then raise (other c) IRQ_IPCRecv else (\<lambda>s. s))
             (s\<lparr>queue := (queue s)(c := queue s c @ [v])\<rparr>))"
| "ipc_spec (Recv c) s =
     (case queue s (other c) of
        [] \<Rightarrow> (None, if enabled s c then flag_error c s else s)
      | v # q \<Rightarrow>
          (Some v,
           if \<not> enabled s c then s
           else (if q = [] \<and> wants_done s (other c) then raise (other c) IRQ_IPCSendDone else (\<lambda>s. s))
                  (s\<lparr>queue := (queue s)(other c := q)\<rparr>)))"
| "ipc_spec (Control c val) s =
     (let s = (if bit val 3 then s\<lparr>queue := (queue s)(c := [])\<rparr> else s);
          s = (if bit val 2 \<and> \<not> wants_done s c \<and> queue s c = [] then raise c IRQ_IPCSendDone s else s);
          s = (if bit val 10 \<and> \<not> wants_recv s c \<and> queue s (other c) \<noteq> [] then raise c IRQ_IPCRecv s else s)
      in (None, s\<lparr>cnt := (cnt s)(c := new_cnt val (cnt s c))\<rparr>))"

section \<open>Refinement\<close>

definition ipc_abs :: "'a nds_scheme \<Rightarrow> ipc" where
  "ipc_abs n =
     \<lparr>queue = case_cpu (fifo_list (IPCFIFO9 n)) (fifo_list (IPCFIFO7 n)),
      cnt = case_cpu (IPCFIFOCnt9 n) (IPCFIFOCnt7 n),
      req = (\<lambda>c. IF n (cpu_num c))\<rparr>"

definition ipc_inv :: "'a nds_scheme \<Rightarrow> bool" where
  "ipc_inv n \<longleftrightarrow> fifo_inv 16 (IPCFIFO9 n) \<and> fifo_inv 16 (IPCFIFO7 n)"

text \<open>What a processor reads from an empty queue is stale and is not observed.\<close>

fun ipc_step :: "ipc_op \<Rightarrow> 'a nds_scheme \<Rightarrow> u32 option \<times> 'a nds_scheme" where
  "ipc_step (Send ARM9 v) n = (None, IPCFIFO9_Send v n)"
| "ipc_step (Send ARM7 v) n = (None, IPCFIFO7_Send v n)"
| "ipc_step (Recv ARM9) n = apfst (\<lambda>v. if FIFO_IsEmpty (IPCFIFO7 n) then None else Some v) (IPCFIFO9_Recv n)"
| "ipc_step (Recv ARM7) n = apfst (\<lambda>v. if FIFO_IsEmpty (IPCFIFO9 n) then None else Some v) (IPCFIFO7_Recv n)"
| "ipc_step (Control ARM9 val) n = (None, IPCFIFOCnt9_Write val n)"
| "ipc_step (Control ARM7 val) n = (None, IPCFIFOCnt7_Write val n)"

lemma SetIRQ_ipc [simp]:
  "IPCFIFO9 (SetIRQ c i n) = IPCFIFO9 n" "IPCFIFO7 (SetIRQ c i n) = IPCFIFO7 n"
  "IPCFIFOCnt9 (SetIRQ c i n) = IPCFIFOCnt9 n" "IPCFIFOCnt7 (SetIRQ c i n) = IPCFIFOCnt7 n"
  "IPCSync9 (SetIRQ c i n) = IPCSync9 n" "IPCSync7 (SetIRQ c i n) = IPCSync7 n"
  by (simp_all add: SetIRQ_def Let_def ext_def UpdateIRQ_def)

lemma cnt_tests:
  fixes c :: u16
  shows "c AND 0x8000 = 0 \<longleftrightarrow> \<not> bit c 15" "c AND 0x4000 = 0 \<longleftrightarrow> \<not> bit c 14"
    "c AND 0x2000 = 0 \<longleftrightarrow> \<not> bit c 13" "c AND 0x0400 = 0 \<longleftrightarrow> \<not> bit c 10"
    "c AND 0x0008 = 0 \<longleftrightarrow> \<not> bit c 3" "c AND 0x0004 = 0 \<longleftrightarrow> \<not> bit c 2"
  using and_exp_eq_0_iff_not_bit [of c 15] and_exp_eq_0_iff_not_bit [of c 14]
    and_exp_eq_0_iff_not_bit [of c 13] and_exp_eq_0_iff_not_bit [of c 10]
    and_exp_eq_0_iff_not_bit [of c 3] and_exp_eq_0_iff_not_bit [of c 2] by simp_all

lemma case_cpu_upd [simp]:
  "(case_cpu a b)(ARM9 := x) = case_cpu x b" "(case_cpu a b)(ARM7 := x) = case_cpu a x"
  by (rule ext, simp split: cpu.splits)+

lemma case_cpu_if [simp]:
  "case_cpu (if P then a else a') b = (if P then case_cpu a b else case_cpu a' b)"
  "case_cpu b (if P then a else a') = (if P then case_cpu b a else case_cpu b a')"
  by simp_all

lemma req_upd [simp]:
  "(\<lambda>c. if cpu_num c = 0 then x else f (cpu_num c)) = (\<lambda>c. f (cpu_num c))(ARM9 := x)"
  "(\<lambda>c. if cpu_num c = Suc 0 then x else f (cpu_num c)) = (\<lambda>c. f (cpu_num c))(ARM7 := x)"
  by (rule ext, case_tac c, simp_all)+

lemmas ipc_spec_defs = raise_def enabled_def wants_recv_def wants_done_def flag_error_def

lemma FIFO_Peek_head: "fifo_inv 16 f \<Longrightarrow> \<not> FIFO_IsEmpty f \<Longrightarrow> FIFO_Peek f = hd (fifo_list f)"
  by (simp add: FIFO_Peek_def fifo_head)

lemma ipc_queue_facts:
  assumes "ipc_inv n"
  shows "FIFO_IsEmpty (IPCFIFO9 n) = (fifo_list (IPCFIFO9 n) = [])"
    "FIFO_IsEmpty (IPCFIFO7 n) = (fifo_list (IPCFIFO7 n) = [])"
    "FIFO_IsFull 16 (IPCFIFO9 n) = (length (fifo_list (IPCFIFO9 n)) = 16)"
    "FIFO_IsFull 16 (IPCFIFO7 n) = (length (fifo_list (IPCFIFO7 n)) = 16)"
    "length (fifo_list (IPCFIFO9 n)) \<noteq> 16 \<Longrightarrow>
       fifo_list (FIFO_Write 16 (IPCFIFO9 n) v) = fifo_list (IPCFIFO9 n) @ [v]"
    "length (fifo_list (IPCFIFO7 n)) \<noteq> 16 \<Longrightarrow>
       fifo_list (FIFO_Write 16 (IPCFIFO7 n) v) = fifo_list (IPCFIFO7 n) @ [v]"
    "fifo_inv 16 (FIFO_Write 16 (IPCFIFO9 n) v)" "fifo_inv 16 (FIFO_Write 16 (IPCFIFO7 n) v)"
    "fifo_inv 16 (IPCFIFO9 n)" "fifo_inv 16 (IPCFIFO7 n)"
  using assms FIFO_IsFull_list [of 16 "IPCFIFO9 n"] FIFO_IsFull_list [of 16 "IPCFIFO7 n"]
    FIFO_Write_list [of 16 "IPCFIFO9 n" v] FIFO_Write_list [of 16 "IPCFIFO7 n" v]
  by (auto simp: ipc_inv_def FIFO_IsEmpty_list [where N = 16] FIFO_Write_inv)

lemmas ipc_unfold = Let_def cnt_tests ipc_abs_def ipc_spec_defs IF_SetIRQ

lemma ipc_send_refines:
  assumes "ipc_inv n"
  shows "ipc_abs (snd (ipc_step (Send c v) n)) = snd (ipc_spec (Send c v) (ipc_abs n)) \<and>
    ipc_inv (snd (ipc_step (Send c v) n))"
  by (cases c) (simp_all add: IPCFIFO9_Send_def IPCFIFO7_Send_def ipc_inv_def ipc_unfold ipc_queue_facts [OF assms])

lemma ipc_recv_refines:
  assumes "ipc_inv n"
  shows "fst (ipc_step (Recv c) n) = fst (ipc_spec (Recv c) (ipc_abs n)) \<and>
    ipc_abs (snd (ipc_step (Recv c) n)) = snd (ipc_spec (Recv c) (ipc_abs n)) \<and>
    ipc_inv (snd (ipc_step (Recv c) n))"
proof -
  note q = ipc_queue_facts [OF assms]
  have tail: "FIFO_IsEmpty (snd (FIFO_Read 16 f)) = (tl (fifo_list f) = [])"
    "fifo_list (snd (FIFO_Read 16 f)) = tl (fifo_list f)" "fifo_inv 16 (snd (FIFO_Read 16 f))"
    "fifo_list f \<noteq> [] \<Longrightarrow> fst (FIFO_Read 16 f) = hd (fifo_list f)"
    "fifo_list f \<noteq> [] \<Longrightarrow> FIFO_Peek f = hd (fifo_list f)" if "fifo_inv 16 f" for f :: "u32 FIFO"
    using fifo.isempty_iff [OF fifo.rd_inv [OF that]] fifo.rd_contents [OF that] fifo.rd_inv [OF that]
      fifo.rd_value [OF that] fifo.isempty_iff [OF that] FIFO_Peek_head [OF that] by simp_all
  show ?thesis
  proof (cases c)
    case ARM9
    then show ?thesis
      by (cases "fifo_list (IPCFIFO7 n)")
        (simp_all add: IPCFIFO9_Recv_def ipc_inv_def ipc_unfold split_def q tail [OF q(10)])
  next
    case ARM7
    then show ?thesis
      by (cases "fifo_list (IPCFIFO9 n)")
        (simp_all add: IPCFIFO7_Recv_def ipc_inv_def ipc_unfold split_def q tail [OF q(9)])
  qed
qed

lemma ipc_control_refines:
  assumes "ipc_inv n"
  shows "ipc_abs (snd (ipc_step (Control c val) n)) = snd (ipc_spec (Control c val) (ipc_abs n)) \<and>
    ipc_inv (snd (ipc_step (Control c val) n))"
proof -
  note q = ipc_queue_facts [OF assms]
  have clr: "FIFO_IsEmpty (FIFO_Clear f)" "fifo_list (FIFO_Clear f) = []" for f :: "u32 FIFO"
    by (simp add: FIFO_IsEmpty_def FIFO_Clear_def) (rule FIFO_Clear_list)
  show ?thesis
    by (cases c; cases "bit val 14"; cases "bit val 3")
      (simp_all add: IPCFIFOCnt9_Write_def IPCFIFOCnt7_Write_def ipc_inv_def ipc_unfold q clr
        FIFO_Clear_inv new_cnt_def and.assoc)
qed

fun ipc_run :: "ipc_op list \<Rightarrow> 'a nds_scheme \<Rightarrow> u32 option list \<times> 'a nds_scheme" where
  "ipc_run [] n = ([], n)"
| "ipc_run (x # xs) n = (let (r, n) = ipc_step x n; (rs, n) = ipc_run xs n in (r # rs, n))"

fun ipc_spec_run :: "ipc_op list \<Rightarrow> ipc \<Rightarrow> u32 option list \<times> ipc" where
  "ipc_spec_run [] s = ([], s)"
| "ipc_spec_run (x # xs) s = (let (r, s) = ipc_spec x s; (rs, s) = ipc_spec_run xs s in (r # rs, s))"

lemma ipc_step_refines:
  assumes "ipc_inv n"
  shows "fst (ipc_step x n) = fst (ipc_spec x (ipc_abs n)) \<and>
    ipc_abs (snd (ipc_step x n)) = snd (ipc_spec x (ipc_abs n)) \<and> ipc_inv (snd (ipc_step x n))"
proof (cases x)
  case (Control c v)
  then show ?thesis using ipc_control_refines [OF assms, of c v]
    by (cases c) (simp_all add: Let_def)
next
  case (Send c v)
  then show ?thesis using ipc_send_refines [OF assms, of c v] by (cases c) simp_all
next
  case (Recv c)
  then show ?thesis using ipc_recv_refines [OF assms, of c] by simp
qed

lemma ipc_run_refines:
  "ipc_inv n \<Longrightarrow>
   fst (ipc_run xs n) = fst (ipc_spec_run xs (ipc_abs n)) \<and>
   ipc_abs (snd (ipc_run xs n)) = snd (ipc_spec_run xs (ipc_abs n)) \<and> ipc_inv (snd (ipc_run xs n))"
proof (induction xs arbitrary: n)
  case (Cons x xs)
  note st = ipc_step_refines [OF Cons.prems, of x]
  then have "ipc_inv (snd (ipc_step x n))" by simp
  from Cons.IH [OF this] st show ?case by (simp add: split_def Let_def)
qed simp

text \<open>
  C9: Any interleaving of control writes, sends and receives of the two processors behaves
  like two bounded lists of messages: every message is received once, in the order of the
  sends, a send to a full queue and a receive from an empty one only set the error flag, and
  the interrupt requests are those of the specification.
\<close>

theorem IPC_refines:
  assumes "ipc_inv n"
  shows "fst (ipc_run xs n) = fst (ipc_spec_run xs (ipc_abs n)) \<and>
    ipc_abs (snd (ipc_run xs n)) = snd (ipc_spec_run xs (ipc_abs n)) \<and> ipc_inv (snd (ipc_run xs n))"
  using assms by (rule ipc_run_refines)

lemma ipc_inv_zero: "ipc_inv (nds_zero k)"
  by (simp add: ipc_inv_def nds_zero_def FIFO_init_inv)

lemma ipc_abs_zero: "ipc_abs (nds_zero k) = \<lparr>queue = case_cpu [] [], cnt = case_cpu 0 0, req = (\<lambda>c. 0)\<rparr>"
  by (simp add: ipc_abs_def nds_zero_def FIFO_init_list)

theorem IPC_refines_witness:
  "ipc_inv (nds_zero 0) \<and>
   fst (ipc_run [Control ARM9 0x8000, Control ARM7 0x8000, Send ARM9 5, Send ARM9 6, Recv ARM7, Recv ARM7, Recv ARM7] (nds_zero 0))
     = [None, None, None, None, Some 5, Some 6, None]"
  using IPC_refines [OF ipc_inv_zero, of "[Control ARM9 0x8000, Control ARM7 0x8000, Send ARM9 5, Send ARM9 6, Recv ARM7, Recv ARM7, Recv ARM7]" 0]
    ipc_inv_zero [of 0]
  by (simp add: ipc_abs_zero Let_def enabled_def wants_recv_def wants_done_def flag_error_def new_cnt_def bit_simps
      split: prod.splits)

section \<open>Notifications\<close>

text \<open>A processor that wants to be told of messages has been told of the ones that wait.\<close>

definition notified :: "ipc \<Rightarrow> bool" where
  "notified s \<longleftrightarrow> (\<forall>c. wants_recv s c \<and> queue s (other c) \<noteq> [] \<longrightarrow> bit (req s c) IRQ_IPCRecv)"

lemma bit_new_cnt: "bit (new_cnt val old) 10 = bit val 10"
  by (simp add: new_cnt_def bit_simps)

lemma notified_cpu:
  "notified s \<longleftrightarrow> (\<forall>c. bit (cnt s c) 10 \<and> queue s (other c) \<noteq> [] \<longrightarrow> bit (req s c) IRQ_IPCRecv)"
  by (simp add: notified_def wants_recv_def)

lemma ipc_spec_notified: "notified s \<Longrightarrow> notified (snd (ipc_spec x s))"
proof -
  have irq: "IRQ_IPCRecv < 32" "IRQ_IPCSendDone < 32" by (simp_all add: IRQ_IPCRecv_def IRQ_IPCSendDone_def)
  have o: "other c = d \<longleftrightarrow> c = other d" "other c \<noteq> c" "c \<noteq> other c" for c d by (cases c; cases d; simp)+
  have all: "(\<forall>c. P c) \<longleftrightarrow> P ARM9 \<and> P ARM7" for P by (metis cpu.exhaust)
  assume a: "notified s"
  show ?thesis
  proof (cases x)
    case (Control c v)
    then show ?thesis using a irq
      by (cases c) (auto simp: notified_cpu ipc_spec_defs Let_def bit_new_cnt bit_or_iff all)
  next
    case (Send c v)
    then show ?thesis using a irq
      by (cases c) (auto simp: notified_cpu ipc_spec_defs Let_def bit_or_iff all bit_simps)
  next
    case (Recv c)
    then show ?thesis using a irq
      by (cases c; cases "queue s (other c)") (auto simp: notified_cpu ipc_spec_defs Let_def bit_or_iff all bit_simps)
  qed
qed

lemma ipc_spec_run_notified: "notified s \<Longrightarrow> notified (snd (ipc_spec_run xs s))"
proof (induction xs arbitrary: s)
  case (Cons x xs)
  then show ?case using Cons.IH [OF ipc_spec_notified [OF Cons.prems, of x]] by (simp add: split_def Let_def)
qed simp



section \<open>Sync registers\<close>

definition sync_inv :: "'a nds_scheme \<Rightarrow> bool" where
  "sync_inv n \<longleftrightarrow> (\<forall>i < 4. bit (IPCSync9 n) i = bit (IPCSync7 n) (i + 8) \<and> bit (IPCSync7 n) i = bit (IPCSync9 n) (i + 8))"

lemma all_less_4: "(\<forall>i < 4. P i) \<longleftrightarrow> P 0 \<and> P 1 \<and> P 2 \<and> P (3 :: nat)"
  by (simp add: numeral_eq_Suc All_less_Suc) auto

text \<open>
  The sync registers. The four bits that a processor writes are what the other reads, and
  stay so whatever else is written; the write requests an interrupt from the other processor
  exactly when the writer asks for one and the other has enabled it.
\<close>

theorem IPCSync_mirrors:
  assumes "sync_inv n"
  shows "sync_inv (IPCSync9_Write val n) \<and> sync_inv (IPCSync7_Write val n) \<and>
    (\<forall>i < 4. bit (IPCSync7 (IPCSync9_Write val n)) i = bit val (i + 8)) \<and>
    (\<forall>i < 4. bit (IPCSync9 (IPCSync7_Write val n)) i = bit val (i + 8)) \<and>
    IF (IPCSync9_Write val n) =
      (if bit val 13 \<and> bit (IPCSync7 n) 14 then (IF n)(1 := IF n 1 OR bitm IRQ_IPCSync) else IF n) \<and>
    IF (IPCSync7_Write val n) =
      (if bit val 13 \<and> bit (IPCSync9 n) 14 then (IF n)(0 := IF n 0 OR bitm IRQ_IPCSync) else IF n)"
proof -
  have s: "sync_inv (SetIRQ c i m) = sync_inv m" for c i and m :: "'a nds_scheme"
    by (simp add: sync_inv_def)
  show ?thesis
    using assms
    by (simp add: IPCSync9_Write_def IPCSync7_Write_def Let_def cnt_tests s IF_SetIRQ)
      (auto simp: sync_inv_def all_less_4 bit_simps)
qed

theorem IPCSync_mirrors_witness:
  "sync_inv (nds_zero 0) \<and> bit (IPCSync7 (IPCSync9_Write 0x0500 (nds_zero 0))) 2"
proof -
  have "sync_inv (nds_zero 0)" by (simp add: sync_inv_def nds_zero_def)
  moreover from this have "bit (IPCSync7 (IPCSync9_Write 0x0500 (nds_zero 0))) 2 = bit (0x0500 :: u16) (2 + 8)"
    using IPCSync_mirrors [of "nds_zero 0" "0x0500"] by (metis numeral_less_iff semiring_norm(76,78) )
  ultimately show ?thesis by simp
qed

end
