(* ===== verification/Nds_System.thy ===== *)
theory Nds_System
  imports Nds_Math Nds_Timer_Count Nds_Ipc Rtc_Count
begin

text \<open>
  The console with its real-time clock: the calls that a peripheral makes take effect on the
  console, the event functions are put behind the scheduler, and the invariants of the
  components are carried through every operation.
\<close>

section \<open>Calls into the console\<close>

record console = nds +
  RTC_chip :: rtc
  RCnt_reg :: u16

fun do_call :: "nds_call \<Rightarrow> 'a nds_scheme \<Rightarrow> 'a nds_scheme" where
  "do_call (SetIRQ_call cpu irq) n = SetIRQ (unat cpu) (unat irq) n"
| "do_call (ClearIRQ_call cpu irq) n = ClearIRQ (unat cpu) (unat irq) n"
| "do_call (ScheduleEvent_call ev periodic delay f p) n = ScheduleEvent (unat ev) periodic delay f p n"
| "do_call (CancelEvent_call ev) n = CancelEvent (unat ev) n"
| "do_call (WriteDateTime_call y mo d h mi s) n = n"
| "do_call (StopCPU_call cpu m) n = StopCPU (unat cpu) m n"
| "do_call (ResumeCPU_call cpu m) n = ResumeCPU (unat cpu) m n"
| "do_call (CheckDMAs_call cpu mode) n = ext (CheckDMAs (unat cpu) mode) n"
| "do_call (StopDMAs_call cpu mode) n = ext (StopDMAs (unat cpu) mode) n"
| "do_call GXFIFOStall_call n = GXFIFOStall n"
| "do_call GXFIFOUnstall_call n = GXFIFOUnstall n"

definition rtc_environment :: "'a console_scheme \<Rightarrow> rtc_env" where
  "rtc_environment n = \<lparr>RCnt = RCnt_reg n, rtc_env.ConsoleType = nds.ConsoleType n\<rparr>"

text \<open>A function of the clock chip, with its calls carried out in their order.\<close>

definition with_rtc :: "(rtc_env \<Rightarrow> rtc \<Rightarrow> rtc) \<Rightarrow> 'a console_scheme \<Rightarrow> 'a console_scheme" where
  "with_rtc f n =
     (let r = f (rtc_environment n) ((RTC_chip n)\<lparr>Calls := []\<rparr>)
      in fold do_call (Calls r) (n\<lparr>RTC_chip := r\<lparr>Calls := []\<rparr>\<rparr>))"

text \<open>
  The functions behind the events: the divider, the square root and the clock; the functions
  of the other components are recorded.
\<close>

definition nds_events :: "'a console_scheme handlers" where
  "nds_events i f p n =
     (if i = Event_Div then DivDone p n
      else if i = Event_Sqrt then SqrtDone p n
      else if i = Event_RTC_id then with_rtc ClockTimer n
      else ext (EventFunc i f p) n)"

section \<open>What the clock asks for\<close>

definition irqs_only :: "rtc \<Rightarrow> rtc \<Rightarrow> bool" where
  "irqs_only r' r \<longleftrightarrow> (\<exists>k. Calls r' = Calls r @ replicate k (SetIRQ_call 1 IRQ_RTC)) \<and> TimerError r' = TimerError r"

lemma irqs_only_refl: "irqs_only r r"
  by (auto simp: irqs_only_def intro: exI [of _ 0])

lemma irqs_only_trans: "irqs_only r2 r1 \<Longrightarrow> irqs_only r1 r \<Longrightarrow> irqs_only r2 r"
  by (auto simp: irqs_only_def simp flip: replicate_add)

lemma irqs_only_if: "irqs_only a r \<Longrightarrow> irqs_only b r \<Longrightarrow> irqs_only (if c then a else b) r"
  by simp

lemma RTC_IRQ_calls: "irqs_only (RTC_SetIRQ e irq r) r" "irqs_only (RTC_ClearIRQ irq r) r"
  by (auto simp: irqs_only_def RTC_SetIRQ_def RTC_ClearIRQ_def Let_def
      intro: exI [of _ 0] exI [of _ "Suc 0"])

lemma ProcessIRQ_calls: "irqs_only (ProcessIRQ e t r) r"
proof -
  note irq = RTC_IRQ_calls irqs_only_refl
  have "irqs_only (ProcessIRQ_INT1 e t r) r" for r
    unfolding ProcessIRQ_INT1_def Let_def
    by (rule irqs_only_if irq | rule irqs_only_trans [OF RTC_IRQ_calls(2)])+
  moreover have "irqs_only (ProcessIRQ_INT2 e t r) r" for r
    unfolding ProcessIRQ_INT2_def Let_def by (rule irqs_only_if irq)+
  ultimately show ?thesis unfolding ProcessIRQ_def by (blast intro: irqs_only_trans)
qed

lemma irqs_only_upd: "irqs_only (upd_state f r) r" "irqs_only (r\<lparr>ClockCount := c\<rparr>) r"
  by (auto simp: irqs_only_def intro: exI [of _ 0])

lemma CountSecond_calls: "irqs_only (CountSecond e r) r"
proof -
  have m: "irqs_only (CountMinute e r) r" for r
    unfolding CountMinute_def Let_def
    by (rule irqs_only_trans [OF ProcessIRQ_calls]) (auto simp: irqs_only_def intro: exI [of _ 0])
  show ?thesis unfolding CountSecond_def Let_def
    by (rule irqs_only_if, rule irqs_only_trans [OF m]) (auto simp: irqs_only_def intro: exI [of _ 0])
qed

lemma ClockTimer_calls:
  assumes "Calls r = []"
  shows "\<exists>k. Calls (ClockTimer e r) =
    replicate k (SetIRQ_call 1 IRQ_RTC) @ [ScheduleEvent_call Event_RTC True ((33513982 + TimerError r) div 32768) 0 0]"
    and "TimerError (ClockTimer e r) = (33513982 + TimerError r) mod 32768"
proof -
  define r2 where "r2 = (let r1 = r\<lparr>ClockCount := ClockCount r + 1\<rparr> in
      if ClockCount r1 AND 0x7FFF = 0 then CountSecond e r1
      else if ClockCount r1 AND 0x7FFF = 4
      then upd_state (\<lambda>s. s\<lparr>IRQFlag := IRQFlag s AND NOT 0x01\<rparr>) r1 else r1)"
  have c: "ClockTimer e r = ScheduleTimer False (ProcessIRQ e 1 r2)"
    by (simp add: ClockTimer_def r2_def Let_def)
  have "irqs_only r2 r"
    unfolding r2_def Let_def
    by (rule irqs_only_if irqs_only_upd(2) irqs_only_trans [OF CountSecond_calls irqs_only_upd(2)]
        irqs_only_trans [OF irqs_only_upd])+
  then have "irqs_only (ProcessIRQ e 1 r2) r" by (rule irqs_only_trans [OF ProcessIRQ_calls])
  then show "\<exists>k. Calls (ClockTimer e r) = replicate k (SetIRQ_call 1 IRQ_RTC) @
      [ScheduleEvent_call Event_RTC True ((33513982 + TimerError r) div 32768) 0 0]"
    "TimerError (ClockTimer e r) = (33513982 + TimerError r) mod 32768"
    unfolding c using assms by (auto simp: irqs_only_def ScheduleTimer_def Let_def)
qed

section \<open>The event functions keep the scheduler's contract\<close>

text \<open>Operations that leave the clock and the pending events alone.\<close>

definition sched_frame :: "'a nds_scheme \<Rightarrow> 'a nds_scheme \<Rightarrow> bool" where
  "sched_frame n' n \<longleftrightarrow> SysTimestamp n' = SysTimestamp n \<and> SchedList n' = SchedList n \<and> SchedListMask n' = SchedListMask n"

lemma sched_frame_ops:
  "sched_frame (DivDone p n) n" "sched_frame (SqrtDone p n) n" "sched_frame (ext c n) n" "sched_frame (SetIRQ cpu i n) n"
  by (simp_all add: sched_frame_def DivDone_def div32_def div64_def SqrtDone_def Let_def ext_def)

lemma SetIRQs_frame: "sched_frame (fold do_call (replicate k (SetIRQ_call cpu irq)) n) n"
proof (induction k arbitrary: n)
  case (Suc k)
  then show ?case using sched_frame_ops(4) [of "unat cpu" "unat irq" n] by (simp add: sched_frame_def)
qed (simp add: sched_frame_def)

lemma ScheduleEvent_keeps:
  "SysTimestamp (ScheduleEvent ev per d f p n) = SysTimestamp n"
  "bit (SchedListMask n) j \<Longrightarrow> bit (SchedListMask (ScheduleEvent ev per d f p n)) j"
  "bit (SchedListMask n) j \<Longrightarrow> SchedList (ScheduleEvent ev per d f p n) j = SchedList n j"
  by (auto simp: ScheduleEvent_def Let_def Reschedule_def bit_or_iff)

text \<open>The clock's function: interrupt requests, then the next event.\<close>

lemma with_rtc_ClockTimer:
  fixes n :: "'a console_scheme"
  obtains k m where "with_rtc ClockTimer n =
      ScheduleEvent Event_RTC_id True ((33513982 + TimerError (RTC_chip n)) div 32768) 0 0 m"
    "sched_frame m n" "RTC_chip m = (ClockTimer (rtc_environment n) ((RTC_chip n)\<lparr>Calls := []\<rparr>))\<lparr>Calls := []\<rparr>"
    "RCnt_reg m = RCnt_reg n" "nds.ConsoleType m = nds.ConsoleType n"
proof -
  let ?r = "ClockTimer (rtc_environment n) ((RTC_chip n)\<lparr>Calls := []\<rparr>)"
  let ?n = "n\<lparr>RTC_chip := ?r\<lparr>Calls := []\<rparr>\<rparr>"
  obtain k where k: "Calls ?r = replicate k (SetIRQ_call 1 IRQ_RTC) @
      [ScheduleEvent_call Event_RTC True ((33513982 + TimerError (RTC_chip n)) div 32768) 0 0]"
    using ClockTimer_calls(1) [of "(RTC_chip n)\<lparr>Calls := []\<rparr>" "rtc_environment n"] by auto
  let ?m = "fold do_call (replicate k (SetIRQ_call 1 IRQ_RTC)) ?n"
  have f: "RTC_chip (fold do_call (replicate k (SetIRQ_call 1 IRQ_RTC)) x) = RTC_chip x \<and>
      RCnt_reg (fold do_call (replicate k (SetIRQ_call 1 IRQ_RTC)) x) = RCnt_reg x \<and>
      nds.ConsoleType (fold do_call (replicate k (SetIRQ_call 1 IRQ_RTC)) x) = nds.ConsoleType x"
    for x :: "'a console_scheme"
    by (induction k arbitrary: x) (simp_all add: SetIRQ_def UpdateIRQ_def Let_def ext_def)
  have "with_rtc ClockTimer n = ScheduleEvent Event_RTC_id True ((33513982 + TimerError (RTC_chip n)) div 32768) 0 0 ?m"
    by (simp add: with_rtc_def Let_def k Event_RTC_def Event_RTC_id_def)
  moreover have "sched_frame ?m n" using SetIRQs_frame [of k 1 IRQ_RTC ?n] by (simp add: sched_frame_def)
  ultimately show thesis using that f [of ?n] by simp
qed

interpretation events: event_functions nds_events
proof
  fix i f p and n :: "'a console_scheme" and j
  show "SysTimestamp (nds_events i f p n) = SysTimestamp n"
    using with_rtc_ClockTimer [of n] sched_frame_ops(1-3)
    by (metis (no_types, lifting) nds_events_def sched_frame_def ScheduleEvent_keeps(1))
  assume "j \<noteq> i" "bit (SchedListMask n) j"
  then show "bit (SchedListMask (nds_events i f p n)) j \<and> SchedList (nds_events i f p n) j = SchedList n j"
    using with_rtc_ClockTimer [of n] sched_frame_ops(1-3)
    by (metis (no_types, lifting) nds_events_def sched_frame_def ScheduleEvent_keeps(2,3))
qed

text \<open>
  C11: One pass of the scheduler. It runs exactly the events that are pending and due, each
  once, in the order of their numbers, with the function and the parameter they were
  scheduled with, on a state in which the event is already off the list; what the functions
  schedule meanwhile waits for a later pass.
\<close>

theorem RunSystem_runs_due_events:
  "RunSystem nds_events t n =
     fold (\<lambda>j s. nds_events j (FuncID (SchedList n j)) (Param (SchedList n j)) (CancelEvent j s))
       (filter (\<lambda>j. j \<in> pending n \<and> due_time n j \<le> t) [0..<Event_MAX]) (n\<lparr>SysTimestamp := t\<rparr>)"
  by (rule events.RunSystem_runs_due)

section \<open>The clock keeps being scheduled\<close>

definition rtc_frame :: "'a console_scheme \<Rightarrow> 'a console_scheme \<Rightarrow> bool" where
  "rtc_frame m n \<longleftrightarrow> RTC_chip m = RTC_chip n \<and> rtc_environment m = rtc_environment n \<and>
     SchedList m Event_RTC_id = SchedList n Event_RTC_id \<and>
     bit (SchedListMask m) Event_RTC_id = bit (SchedListMask n) Event_RTC_id"

lemma rtc_frame_trans: "rtc_frame m n \<Longrightarrow> rtc_frame n l \<Longrightarrow> rtc_frame m l"
  by (simp add: rtc_frame_def)

lemma other_event_frame:
  assumes "j \<noteq> Event_RTC_id"
  shows "rtc_frame (nds_events j f p (CancelEvent j n)) n"
  using assms
  by (auto simp: nds_events_def rtc_frame_def rtc_environment_def DivDone_def div32_def div64_def SqrtDone_def
      Let_def ext_def CancelEvent_def bit_and_iff bit_not_iff Event_RTC_id_def)

lemma other_events_frame:
  "Event_RTC_id \<notin> set js \<Longrightarrow>
   rtc_frame (fold (\<lambda>j s. nds_events j (F j) (P j) (CancelEvent j s)) js n) n"
proof (induction js arbitrary: n)
  case (Cons j js)
  then show ?case
    using rtc_frame_trans [OF Cons.IH other_event_frame [of j "F j" "P j" n]] by simp
qed (simp add: rtc_frame_def)

text \<open>The chip after a tick, and its next event.\<close>

lemma rtc_event_rearms:
  fixes n :: "'a console_scheme" and f p :: u32
  defines "n' \<equiv> nds_events Event_RTC_id f p (CancelEvent Event_RTC_id n)"
  assumes "Calls (RTC_chip n) = []"
  shows "bit (SchedListMask n') Event_RTC_id"
    "due_time n' Event_RTC_id = due_time n Event_RTC_id + word_of_int ((33513982 + TimerError (RTC_chip n)) div 32768)"
    "RTC_chip n' = (ClockTimer (rtc_environment n) (RTC_chip n))\<lparr>Calls := []\<rparr>"
proof -
  let ?c = "CancelEvent Event_RTC_id n"
  have c: "RTC_chip ?c = RTC_chip n" "rtc_environment ?c = rtc_environment n" "SchedList ?c = SchedList n"
    "\<not> bit (SchedListMask ?c) Event_RTC_id"
    by (simp_all add: CancelEvent_def rtc_environment_def bit_and_iff bit_not_iff Event_RTC_id_def)
  have r: "(RTC_chip n)\<lparr>Calls := []\<rparr> = RTC_chip n" using assms(2) by simp
  have e: "n' = with_rtc ClockTimer ?c"
    by (simp add: n'_def nds_events_def Event_RTC_id_def Event_Div_def Event_Sqrt_def)
  obtain m where m: "with_rtc ClockTimer ?c =
      ScheduleEvent Event_RTC_id True ((33513982 + TimerError (RTC_chip n)) div 32768) 0 0 m"
    "sched_frame m ?c" "RTC_chip m = (ClockTimer (rtc_environment n) (RTC_chip n))\<lparr>Calls := []\<rparr>"
    using with_rtc_ClockTimer [of ?c] by (auto simp: c r)
  show "bit (SchedListMask n') Event_RTC_id"
    "due_time n' Event_RTC_id = due_time n Event_RTC_id + word_of_int ((33513982 + TimerError (RTC_chip n)) div 32768)"
    "RTC_chip n' = (ClockTimer (rtc_environment n) (RTC_chip n))\<lparr>Calls := []\<rparr>"
    using m(2,3) c unfolding e m(1)
    by (simp_all add: ScheduleEvent_def Let_def Reschedule_def sched_frame_def due_time_def event_time_def
        bit_or_iff Event_RTC_id_def)
qed

text \<open>
  C12: The clock never stops and never drifts. When the scheduler passes the time of the clock
  event, the chip advances by one tick and its event is pending again; the time of the next
  event, measured in units of a 32768th of a cycle and with the carried remainder, is exactly
  33513982 units later, whatever other events run in the same pass.
\<close>

theorem RTC_ticks_on_schedule:
  fixes n :: "'a console_scheme"
  assumes "Event_RTC_id \<in> pending n" "due_time n Event_RTC_id \<le> t" "Calls (RTC_chip n) = []"
    and "0 \<le> TimerError (RTC_chip n)" "TimerError (RTC_chip n) < 32768"
    and "unat (due_time n Event_RTC_id) + 2000 < 2 ^ 64"
  shows "Event_RTC_id \<in> pending (RunSystem nds_events t n) \<and>
    RTC_chip (RunSystem nds_events t n) = (ClockTimer (rtc_environment n) (RTC_chip n))\<lparr>Calls := []\<rparr> \<and>
    32768 * int (unat (due_time (RunSystem nds_events t n) Event_RTC_id)) + TimerError (RTC_chip (RunSystem nds_events t n))
      = 32768 * int (unat (due_time n Event_RTC_id)) + TimerError (RTC_chip n) + 33513982"
proof -
  let ?js = "filter (\<lambda>j. j \<in> pending n \<and> due_time n j \<le> t) [0..<Event_MAX]"
  let ?F = "fold (\<lambda>j s. nds_events j (FuncID (SchedList n j)) (Param (SchedList n j)) (CancelEvent j s))"
  let ?n = "n\<lparr>SysTimestamp := t\<rparr>" and ?n' = "RunSystem nds_events t n" and ?R = Event_RTC_id
  let ?d = "(33513982 + TimerError (RTC_chip n)) div 32768"
  have "?R \<in> set ?js" using assms(1,2) by (simp add: pending_def)
  then obtain a b where ab: "?js = a @ ?R # b" by (metis split_list)
  have "distinct ?js" by simp
  then have na: "?R \<notin> set a" "?R \<notin> set b" unfolding ab by simp_all
  let ?s = "?F a ?n" and ?u = "nds_events ?R (FuncID (SchedList n ?R)) (Param (SchedList n ?R)) (CancelEvent ?R (?F a ?n))"
  have s: "RTC_chip ?s = RTC_chip n" "rtc_environment ?s = rtc_environment n" "due_time ?s ?R = due_time n ?R"
    using other_events_frame [OF na(1), of "\<lambda>j. FuncID (SchedList n j)" "\<lambda>j. Param (SchedList n j)" ?n]
    by (simp_all add: rtc_frame_def rtc_environment_def due_time_def)
  have n': "?n' = ?F b ?u" unfolding events.RunSystem_runs_due ab by simp
  have "rtc_frame ?n' ?u" unfolding n' by (rule other_events_frame [OF na(2)])
  then have r: "bit (SchedListMask ?n') ?R" "due_time ?n' ?R = due_time n ?R + word_of_int ?d"
    "RTC_chip ?n' = (ClockTimer (rtc_environment n) (RTC_chip n))\<lparr>Calls := []\<rparr>"
    using rtc_event_rearms [of ?s] assms(3) s by (simp_all add: rtc_frame_def due_time_def)
  have d: "0 \<le> ?d" "?d < 2000" using assms(4,5) by linarith+
  then have "unat (word_of_int ?d :: u64) = nat ?d"
    by (simp add: unsigned_of_int nat_take_bit_eq take_bit_nat_eq_self)
  then have "unat (due_time ?n' ?R) = unat (due_time n ?R) + nat ?d"
    unfolding r(2) using assms(6) d by (subst unat_plus_small) simp_all
  moreover have "TimerError (RTC_chip ?n') = (33513982 + TimerError (RTC_chip n)) mod 32768"
    unfolding r(3) using ClockTimer_calls(2) [OF assms(3)] by simp
  moreover have "32768 * ?d + (33513982 + TimerError (RTC_chip n)) mod 32768 = 33513982 + TimerError (RTC_chip n)"
    by (rule mult_div_mod_eq)
  ultimately have "32768 * int (unat (due_time ?n' ?R)) + TimerError (RTC_chip ?n')
      = 32768 * int (unat (due_time n ?R)) + TimerError (RTC_chip n) + 33513982"
    using d(1) by (simp add: algebra_simps)
  moreover have "?R \<in> pending ?n'" using r(1) by (simp add: pending_def Event_RTC_id_def Event_MAX_def)
  ultimately show ?thesis using r(3) by blast
qed

definition ticking_console :: console where
  "ticking_console = nds.extend ((nds_zero 0)\<lparr>SchedListMask := 8\<rparr>) \<lparr>RTC_chip = leap_eve_rtc, RCnt_reg = 0\<rparr>"

theorem RTC_ticks_on_schedule_witness:
  "Event_RTC_id \<in> pending ticking_console \<and> Event_RTC_id \<in> pending (RunSystem nds_events 0 ticking_console)"
proof -
  have "Event_RTC_id \<in> pending ticking_console"
    by (simp add: ticking_console_def nds.defs nds_zero_def pending_def Event_RTC_id_def Event_MAX_def)
  moreover have "due_time ticking_console Event_RTC_id = 0" "RTC_chip ticking_console = leap_eve_rtc"
    by (simp_all add: ticking_console_def nds.defs nds_zero_def due_time_def)
  moreover have "Calls leap_eve_rtc = []" "0 \<le> TimerError leap_eve_rtc" "TimerError leap_eve_rtc < 32768"
    by (simp_all add: leap_eve_rtc_def)
  ultimately show ?thesis using RTC_ticks_on_schedule [of ticking_console 0] by simp
qed

end
