(* ===== verification/Nds_Invariant.thy ===== *)
theory Nds_Invariant
  imports Nds_System
begin

text \<open>
  The invariant of the console object and the operations that keep it: the interrupt lines of
  both processors agree with their registers, the message queues are well formed, no timer is
  left overflowed and the windows on the shared work RAM agree with its control register.
\<close>

definition console_inv :: "'a nds_scheme \<Rightarrow> bool" where
  "console_inv n \<longleftrightarrow> irq_inv n \<and> ipc_inv n \<and> timers_ok n \<and> swram_ok n"

text \<open>Operations that touch none of the queues, timers and windows.\<close>

definition same_core :: "'a nds_scheme \<Rightarrow> 'a nds_scheme \<Rightarrow> bool" where
  "same_core m n \<longleftrightarrow> IPCFIFO9 m = IPCFIFO9 n \<and> IPCFIFO7 m = IPCFIFO7 n \<and> Timers m = Timers n \<and>
     SWRAM_ARM9 m = SWRAM_ARM9 n \<and> SWRAM_ARM7 m = SWRAM_ARM7 n \<and> WRAMCnt m = WRAMCnt n"

definition same_irq :: "'a nds_scheme \<Rightarrow> 'a nds_scheme \<Rightarrow> bool" where
  "same_irq m n \<longleftrightarrow> IRQ_line m = IRQ_line n \<and> IME m = IME n \<and> IE m = IE n \<and> IF m = IF n \<and>
     IE2 m = IE2 n \<and> IF2 m = IF2 n \<and> nds.ConsoleType m = nds.ConsoleType n"

lemma console_invI: "console_inv n \<Longrightarrow> same_core m n \<Longrightarrow> irq_inv m \<Longrightarrow> console_inv m"
  by (simp add: console_inv_def same_core_def ipc_inv_def timers_ok_def swram_ok_def)

lemma console_inv_same: "console_inv n \<Longrightarrow> same_core m n \<Longrightarrow> same_irq m n \<Longrightarrow> console_inv m"
proof -
  assume a: "console_inv n" "same_core m n" "same_irq m n"
  then have "irq_inv m" using irq_inv_cong [of m n] by (simp add: console_inv_def same_irq_def)
  with a(1,2) show ?thesis by (rule console_invI)
qed

lemmas same_defs = same_core_def same_irq_def Let_def ext_def

lemma same_core_irq_ops:
  "same_core (UpdateIRQ c n) n" "same_core (SetIRQ c i n) n" "same_core (ClearIRQ c i n) n"
  "same_core (SetIRQ2 i n) n" "same_core (ClearIRQ2 i n) n"
  "same_core (WriteIME c v n) n" "same_core (WriteIE c v n) n" "same_core (WriteIF7 v n) n"
  by (simp_all add: same_defs UpdateIRQ_def SetIRQ_def ClearIRQ_def SetIRQ2_def ClearIRQ2_def WriteIME_def
      WriteIE_def WriteIF7_def)

lemma same_core_trans: "same_core l m \<Longrightarrow> same_core m n \<Longrightarrow> same_core l n"
  by (simp add: same_core_def)

lemma same_core_WriteIF9: "same_core (WriteIF9 v n) n"
proof -
  let ?m = "n\<lparr>IF := (IF n)(0 := IF n 0 AND NOT v)\<rparr>"
  have "same_core (CheckFIFOIRQ ?m) ?m" by (simp add: CheckFIFOIRQ_def Let_def same_core_irq_ops)
  moreover have "same_core ?m n" by (simp add: same_core_def)
  ultimately show ?thesis unfolding WriteIF9_def by (blast intro: same_core_trans same_core_irq_ops(1))
qed

lemma irq_ops_inv:
  assumes "console_inv n"
  shows "console_inv (SetIRQ c i n)" "console_inv (ClearIRQ c i n)" "console_inv (SetIRQ2 i n)" "console_inv (ClearIRQ2 i n)"
    "console_inv (WriteIME c v n)" "console_inv (WriteIE c v n)" "console_inv (WriteIF9 v n)" "console_inv (WriteIF7 v n)"
proof -
  have i: "irq_inv n" using assms by (simp add: console_inv_def)
  show "console_inv (SetIRQ c i n)" "console_inv (ClearIRQ c i n)" "console_inv (SetIRQ2 i n)" "console_inv (ClearIRQ2 i n)"
    "console_inv (WriteIME c v n)" "console_inv (WriteIE c v n)" "console_inv (WriteIF9 v n)" "console_inv (WriteIF7 v n)"
    by (rule console_invI [OF assms], rule same_core_irq_ops same_core_WriteIF9, rule inv_ops [OF i])+
qed

lemma frame_ops_inv:
  assumes "console_inv n"
  shows "console_inv (StopCPU c m n)" "console_inv (ResumeCPU c m n)" "console_inv (GXFIFOStall n)"
    "console_inv (GXFIFOUnstall n)" "console_inv (EnterSleepMode n)" "console_inv (CancelEvent ev n)"
    "console_inv (ScheduleEvent ev per d f p n)" "console_inv (StartDiv n)" "console_inv (StartSqrt n)"
    "console_inv (DivDone q n)" "console_inv (SqrtDone q n)" "console_inv (ext x n)"
  by (rule console_inv_same [OF assms];
      simp add: same_defs StopCPU_def ResumeCPU_def GXFIFOStall_def GXFIFOUnstall_def EnterSleepMode_def Halt_def
        CancelEvent_def ScheduleEvent_def Reschedule_def StartDiv_def StartSqrt_def DivDone_def div32_def div64_def SqrtDone_def)+

lemma input_ops_inv:
  assumes "console_inv n"
  shows "console_inv (SetKeyMask m n)" "console_inv (SetLidClosed b n)" "console_inv (MapSharedWRAM v n)"
proof -
  have k: "console_inv (n\<lparr>KeyInput := x\<rparr>)" for x
    by (rule console_inv_same [OF assms]) (simp_all add: same_defs)
  have c: "console_inv (CheckKeyIRQ c a b m)" if "console_inv m" for c a b and m :: "'a nds_scheme"
    using that by (simp add: CheckKeyIRQ_def Let_def irq_ops_inv)
  show "console_inv (SetKeyMask m n)" by (simp add: SetKeyMask_def Let_def k c)
  show "console_inv (SetLidClosed b n)" by (simp add: SetLidClosed_def k irq_ops_inv)
  have i: "irq_inv (MapSharedWRAM v n) = irq_inv n"
    by (rule irq_inv_cong) (simp_all add: MapSharedWRAM_def ext_def)
  show "console_inv (MapSharedWRAM v n)"
    using assms MapSharedWRAM_ok [of n v] i
    by (simp add: console_inv_def) (simp add: MapSharedWRAM_def ext_def ipc_inv_def timers_ok_def)
qed

section \<open>Timers\<close>

lemma set_counter_inv: "console_inv n \<Longrightarrow> unat c < 2 ^ 26 \<Longrightarrow> console_inv (set_counter t c n)"
  using irq_inv_cong [of "set_counter t c n" n]
  by (auto simp: console_inv_def ipc_inv_def timers_ok_def swram_ok_def) (auto simp: set_counter_def)

text \<open>While a timer is being run its own counter may be overflowed.\<close>

definition running_inv :: "nat \<Rightarrow> 'a nds_scheme \<Rightarrow> bool" where
  "running_inv tid n \<longleftrightarrow> irq_inv n \<and> ipc_inv n \<and> swram_ok n \<and> (\<forall>t. t \<noteq> tid \<longrightarrow> unat (Counter (Timers n t)) < 2 ^ 26)"

lemma running_inv_start: "console_inv n \<Longrightarrow> running_inv tid n"
  by (simp add: running_inv_def console_inv_def timers_ok_def)

lemma running_inv_end: "running_inv tid n \<Longrightarrow> unat (Counter (Timers n tid)) < 2 ^ 26 \<Longrightarrow> console_inv n"
  by (auto simp: running_inv_def console_inv_def timers_ok_def)

lemma running_inv_set_counter:
  "running_inv tid n \<Longrightarrow> t = tid \<or> unat c < 2 ^ 26 \<Longrightarrow> running_inv tid (set_counter t c n)"
  using irq_inv_cong [of "set_counter t c n" n]
  by (auto simp: running_inv_def ipc_inv_def swram_ok_def) (auto simp: set_counter_def)

lemma running_inv_timer_irq: "running_inv tid n \<Longrightarrow> running_inv tid (timer_irq t n)"
  using same_core_irq_ops(2) [of "t div 4" "IRQ_Timer0 + t mod 4" n] SetIRQ_inv [of n "t div 4" "IRQ_Timer0 + t mod 4"]
  by (auto simp: running_inv_def timer_irq_def same_core_def ipc_inv_def swram_ok_def)

lemma cascade_running: "running_inv u n \<Longrightarrow> u \<le> tid \<Longrightarrow> running_inv u (cascade tid n)"
proof (induction tid n rule: cascade.induct)
  case (1 tid n)
  let ?t = "Suc tid" and ?c = "Counter (Timers n (Suc tid)) + 0x400"
  let ?m1 = "timer_irq ?t (set_counter ?t (reload_value (Timers n ?t)) (set_counter ?t ?c n))"
  have ne: "?t \<noteq> u" using 1(3) by simp
  have ok: "running_inv u (set_counter ?t ?c n)" if "drop_bit 26 ?c = 0"
    using that 1(2) by (intro running_inv_set_counter) (simp_all only: drop_bit_26_eq_0 simp_thms)
  have "running_inv u (set_counter ?t (reload_value (Timers n ?t)) n)"
    using 1(2) reload_value_small(1) by (intro running_inv_set_counter) auto
  moreover have "set_counter ?t (reload_value (Timers n ?t)) (set_counter ?t ?c n) = set_counter ?t (reload_value (Timers n ?t)) n"
    by (simp add: set_counter_def)
  ultimately have m1: "running_inv u ?m1" by (simp add: running_inv_timer_irq)
  have "running_inv u (cascade ?t ?m1)" if "Cnt (Timers n ?t) AND 0x84 = 0x84" "drop_bit 26 ?c \<noteq> 0" "?t mod 4 \<noteq> 3"
    using 1(1) [of ?t "Timers n ?t" ?c "set_counter ?t ?c n" ?m1] that m1 1(3) by simp
  then show ?case using 1(2) ok m1 by (subst cascade.simps) (simp add: Let_def)
qed

lemma run_overflows_running: "running_inv tid n \<Longrightarrow> console_inv (run_overflows tid n)"
proof (induction tid n rule: run_overflows.induct)
  case (1 tid n)
  show ?case
  proof (cases "drop_bit 26 (Counter (Timers n tid)) = 0")
    case True
    then have "unat (Counter (Timers n tid)) < 2 ^ 26" by (simp only: drop_bit_26_eq_0)
    then show ?thesis using 1(2) True by (subst run_overflows.simps) (simp add: running_inv_end)
  next
    case False
    have "running_inv tid (HandleTimerOverflow tid (set_counter tid c n))" for c
      using 1(2) unfolding HandleTimerOverflow_def Let_def
      by (auto intro!: cascade_running running_inv_timer_irq running_inv_set_counter)
    then show ?thesis using 1(1) [OF False] False by (subst run_overflows.simps) simp
  qed
qed

lemma RunTimer_inv: "console_inv n \<Longrightarrow> console_inv (RunTimer tid c n)"
  unfolding RunTimer_def Let_def
  by (intro run_overflows_running running_inv_set_counter running_inv_start) simp_all

lemma RunTimers_inv: "console_inv n \<Longrightarrow> console_inv (RunTimers cpu n)"
proof -
  have f: "console_inv (m\<lparr>TimerTimestamp := x\<rparr>)" if "console_inv m" for x and m :: "'a nds_scheme"
    by (rule console_inv_same [OF that]) (simp_all add: same_defs)
  assume "console_inv n"
  then show ?thesis unfolding RunTimers_def Let_def by (intro f) (simp add: RunTimer_inv)
qed

lemma timer_ops_inv:
  assumes "console_inv n"
  shows "console_inv (TimerStart i cn n)" "console_inv (WriteReload i val n)"
proof -
  have t: "console_inv (m\<lparr>Timers := (Timers m)(i := T)\<rparr>)" if "console_inv m" "unat (Counter T) < 2 ^ 26" for m :: "'a nds_scheme" and T
    using that irq_inv_cong [of "m\<lparr>Timers := (Timers m)(i := T)\<rparr>" m]
    by (auto simp: console_inv_def ipc_inv_def timers_ok_def swram_ok_def)
  have c: "unat (Counter (Timers m t)) < 2 ^ 26" if "console_inv m" for m :: "'a nds_scheme" and t
    using that by (simp add: console_inv_def timers_ok_def)
  have k: "console_inv (m\<lparr>TimerCheckMask := x\<rparr>)" if "console_inv m" for x and m :: "'a nds_scheme"
    by (rule console_inv_same [OF that]) (simp_all add: same_defs)
  show "console_inv (WriteReload i val n)" unfolding WriteReload_def using assms c [OF assms] by (intro t) simp_all
  let ?n1 = "RunTimers (i div 4) n"
  have "console_inv (?n1\<lparr>Timers := (Timers ?n1)(i := (Timers ?n1 i)\<lparr>Cnt := x, CycleShift := y\<rparr>)\<rparr>)" for x y
    using RunTimers_inv [OF assms] c [OF RunTimers_inv [OF assms]] by (intro t) simp_all
  then show "console_inv (TimerStart i cn n)" unfolding TimerStart_def Let_def
    by (intro k) (auto intro!: set_counter_inv reload_value_small(1))
qed

section \<open>Messages between the processors\<close>

lemma irq_inv_ipc_upd [simp]:
  "irq_inv (n\<lparr>IPCFIFO9 := q\<rparr>) = irq_inv n" "irq_inv (n\<lparr>IPCFIFO7 := q\<rparr>) = irq_inv n"
  "irq_inv (n\<lparr>IPCFIFOCnt9 := c\<rparr>) = irq_inv n" "irq_inv (n\<lparr>IPCFIFOCnt7 := c\<rparr>) = irq_inv n"
  "irq_inv (n\<lparr>IPCSync9 := c\<rparr>) = irq_inv n" "irq_inv (n\<lparr>IPCSync7 := c\<rparr>) = irq_inv n"
  by (rule irq_inv_cong; simp)+

definition same_rest :: "'a nds_scheme \<Rightarrow> 'a nds_scheme \<Rightarrow> bool" where
  "same_rest m n \<longleftrightarrow> Timers m = Timers n \<and> SWRAM_ARM9 m = SWRAM_ARM9 n \<and> SWRAM_ARM7 m = SWRAM_ARM7 n \<and> WRAMCnt m = WRAMCnt n"

lemma SetIRQ_swram [simp]:
  "SWRAM_ARM9 (SetIRQ c i n) = SWRAM_ARM9 n" "SWRAM_ARM7 (SetIRQ c i n) = SWRAM_ARM7 n" "WRAMCnt (SetIRQ c i n) = WRAMCnt n"
  using same_core_irq_ops(2) [of c i n] by (simp_all add: same_core_def)

lemma ipc_ops_rest:
  assumes "irq_inv n"
  shows "irq_inv (IPCFIFO9_Send v n) \<and> same_rest (IPCFIFO9_Send v n) n"
    "irq_inv (IPCFIFO7_Send v n) \<and> same_rest (IPCFIFO7_Send v n) n"
    "irq_inv (snd (IPCFIFO9_Recv n)) \<and> same_rest (snd (IPCFIFO9_Recv n)) n"
    "irq_inv (snd (IPCFIFO7_Recv n)) \<and> same_rest (snd (IPCFIFO7_Recv n)) n"
  using assms by (simp_all add: IPCFIFO9_Send_def IPCFIFO7_Send_def IPCFIFO9_Recv_def IPCFIFO7_Recv_def
      same_rest_def Let_def split_def inv_ops)

lemma ipc_control_rest:
  assumes "irq_inv n"
  shows "irq_inv (IPCFIFOCnt9_Write v n) \<and> same_rest (IPCFIFOCnt9_Write v n) n"
    "irq_inv (IPCFIFOCnt7_Write v n) \<and> same_rest (IPCFIFOCnt7_Write v n) n"
  using assms by (simp_all add: IPCFIFOCnt9_Write_def IPCFIFOCnt7_Write_def same_rest_def Let_def inv_ops)

lemma ipc_step_inv:
  assumes "console_inv n"
  shows "console_inv (snd (ipc_step x n))"
proof -
  have i: "irq_inv n" "ipc_inv n" using assms by (simp_all add: console_inv_def)
  have r: "irq_inv (snd (ipc_step x n)) \<and> same_rest (snd (ipc_step x n)) n"
  proof (cases x)
    case (Control c v)
    then show ?thesis using ipc_control_rest [OF i(1)] by (cases c) simp_all
  next
    case (Send c v)
    then show ?thesis using ipc_ops_rest(1,2) [OF i(1)] by (cases c) simp_all
  next
    case (Recv c)
    then show ?thesis using ipc_ops_rest(3,4) [OF i(1)] by (cases c) (simp_all add: snd_apfst)
  qed
  moreover have "ipc_inv (snd (ipc_step x n))" using ipc_step_refines [OF i(2), of x] by simp
  ultimately show ?thesis using assms by (simp add: console_inv_def same_rest_def timers_ok_def swram_ok_def)
qed

lemma ipc_sync_inv:
  assumes "console_inv n"
  shows "console_inv (IPCSync9_Write v n)" "console_inv (IPCSync7_Write v n)"
proof -
  have u: "console_inv (n\<lparr>IPCSync7 := a, IPCSync9 := b\<rparr>)" "console_inv (n\<lparr>IPCSync9 := a, IPCSync7 := b\<rparr>)" for a b
    by (rule console_inv_same [OF assms]; simp add: same_defs)+
  show "console_inv (IPCSync9_Write v n)" unfolding IPCSync9_Write_def Let_def by (simp add: u irq_ops_inv)
  show "console_inv (IPCSync7_Write v n)" unfolding IPCSync7_Write_def Let_def by (simp add: u irq_ops_inv)
qed

section \<open>The clock and the scheduler\<close>

lemma do_call_inv: "console_inv n \<Longrightarrow> console_inv (do_call c n)"
  by (cases c) (simp_all add: irq_ops_inv frame_ops_inv)

lemma do_calls_inv: "console_inv n \<Longrightarrow> console_inv (fold do_call cs n)"
  by (induction cs arbitrary: n) (simp_all add: do_call_inv)

lemma with_rtc_inv: "console_inv n \<Longrightarrow> console_inv (with_rtc f n)"
proof -
  assume a: "console_inv n"
  have "console_inv (n\<lparr>RTC_chip := r\<rparr>)" for r
    by (rule console_inv_same [OF a]) (simp_all add: same_defs)
  then show ?thesis unfolding with_rtc_def Let_def by (rule do_calls_inv)
qed

lemma nds_events_inv: "console_inv n \<Longrightarrow> console_inv (nds_events i f p n)"
  by (simp add: nds_events_def frame_ops_inv with_rtc_inv)

lemma RunSystem_inv: "console_inv n \<Longrightarrow> console_inv (RunSystem nds_events t n)"
proof -
  have "console_inv (run_events nds_events i m n)" if "console_inv n" for i m and n :: "'a console_scheme"
    using that
  proof (induction "nds_events :: 'a console_scheme handlers" i m n rule: run_events.induct)
    case (1 i m n)
    then have "console_inv (run_event nds_events i n)"
      by (simp add: run_event_def Let_def nds_events_inv frame_ops_inv)
    then show ?case using 1 by (subst run_events.simps) simp
  qed
  moreover assume a: "console_inv n"
  then have "console_inv (n\<lparr>SysTimestamp := t\<rparr>)"
    by (rule console_inv_same) (simp_all add: same_defs)
  ultimately show ?thesis unfolding RunSystem_def by blast
qed

lemma RunSystemSleep_inv: "console_inv n \<Longrightarrow> console_inv (RunSystemSleep nds_events t n)"
proof -
  have d: "console_inv (delay_event off i n)" if "console_inv n" for off i and n :: "'a console_scheme"
    by (rule console_inv_same [OF that]) (simp_all add: delay_event_def same_defs)
  have "console_inv (sleep_events nds_events off i m n)" if "console_inv n" for off i m and n :: "'a console_scheme"
    using that
  proof (induction "nds_events :: 'a console_scheme handlers" off i m n rule: sleep_events.induct)
    case (1 off i m n)
    then have "console_inv (run_event nds_events i n)"
      by (simp add: run_event_def Let_def nds_events_inv frame_ops_inv)
    then have x: "console_inv (if m AND 1 \<noteq> 0
        then if i = Event_RTC_id then run_event nds_events i n else delay_event off i n else n)"
      using 1(2) d [OF 1(2)] by auto
    show ?case
    proof (cases "i \<ge> Event_MAX \<or> m = 0")
      case True
      then show ?thesis using 1(2) by (subst sleep_events.simps) simp
    next
      case False
      show ?thesis using 1(1) [OF False x] False by (subst sleep_events.simps) (simp only: if_False)
    qed
  qed
  moreover assume a: "console_inv n"
  then have "console_inv (n\<lparr>SysTimestamp := t\<rparr>)"
    by (rule console_inv_same) (simp_all add: same_defs)
  ultimately show ?thesis unfolding RunSystemSleep_def by blast
qed

section \<open>Reachable states\<close>

text \<open>
  The operations that the processors, the peripherals and the frontend perform on the
  console. The arguments are arbitrary.
\<close>

inductive console_step :: "'a console_scheme \<Rightarrow> 'a console_scheme \<Rightarrow> bool" where
  "console_step n (SetIRQ cpu irq n)"
| "console_step n (ClearIRQ cpu irq n)"
| "console_step n (SetIRQ2 irq n)"
| "console_step n (ClearIRQ2 irq n)"
| "console_step n (WriteIME cpu v n)"
| "console_step n (WriteIE cpu v n)"
| "console_step n (WriteIF9 v n)"
| "console_step n (WriteIF7 v n)"
| "console_step n (StopCPU cpu m n)"
| "console_step n (ResumeCPU cpu m n)"
| "console_step n (GXFIFOStall n)"
| "console_step n (GXFIFOUnstall n)"
| "console_step n (EnterSleepMode n)"
| "console_step n (ScheduleEvent ev per d f p n)"
| "console_step n (CancelEvent ev n)"
| "console_step n (StartDiv n)"
| "console_step n (StartSqrt n)"
| "console_step n (SetKeyMask m n)"
| "console_step n (SetLidClosed b n)"
| "console_step n (MapSharedWRAM w n)"
| "console_step n (RunTimers cpu n)"
| "console_step n (TimerStart i c n)"
| "console_step n (WriteReload i c n)"
| "console_step n (snd (ipc_step x n))"
| "console_step n (IPCSync9_Write c n)"
| "console_step n (IPCSync7_Write c n)"
| "console_step n (with_rtc rf n)"
| "console_step n (RunSystem nds_events t n)"
| "console_step n (RunSystemSleep nds_events t n)"

text \<open>
  A console is reset before it runs. The queues are set up by their constructors; the
  constructor of the console does not set the control register of the shared work RAM, and
  the reset leaves the windows alone when that register happens to be zero.
\<close>

inductive console_reachable :: "'a console_scheme \<Rightarrow> bool" where
  reset: "ipc_inv n \<Longrightarrow> WRAMCnt n \<noteq> 0 \<or> swram_ok n \<Longrightarrow> console_reachable (NDS_Reset n)"
| step: "console_reachable n \<Longrightarrow> console_step n m \<Longrightarrow> console_reachable m"

lemma NDS_Reset_inv:
  assumes "ipc_inv n" "WRAMCnt n \<noteq> 0 \<or> swram_ok n"
  shows "console_inv (NDS_Reset n)"
proof -
  have "swram_ok (NDS_Reset n)"
    using assms(2) by (auto simp: swram_ok_def NDS_Reset_def Let_def MapSharedWRAM_def ext_def)
  moreover have "ipc_inv (NDS_Reset n)"
    using assms(1) by (simp add: ipc_inv_def NDS_Reset_def Let_def MapSharedWRAM_def ext_def FIFO_Clear_inv)
  moreover have "irq_inv (NDS_Reset n)"
    by (simp add: irq_inv_def irq_active_def NDS_Reset_def Let_def MapSharedWRAM_def ext_def less_2_cases_iff)
  moreover have "timers_ok (NDS_Reset n)"
    by (simp add: timers_ok_def NDS_Reset_def Let_def MapSharedWRAM_def ext_def)
  ultimately show ?thesis by (simp add: console_inv_def)
qed

lemma console_step_inv: "console_step n m \<Longrightarrow> console_inv n \<Longrightarrow> console_inv m"
  by (induction rule: console_step.induct)
    (simp_all only: irq_ops_inv frame_ops_inv input_ops_inv RunTimers_inv timer_ops_inv ipc_step_inv ipc_sync_inv
      with_rtc_inv RunSystem_inv RunSystemSleep_inv)

lemma console_reachable_inv: "console_reachable n \<Longrightarrow> console_inv n"
  by (induction rule: console_reachable.induct) (auto intro: NDS_Reset_inv console_step_inv)



end
