(* ===== verification/Nds_Bus.thy ===== *)
theory Nds_Bus
  imports Nds_Core Vram_Access
begin

text \<open>
  The two buses of \<^verbatim>\<open>src/src/NDS.cpp\<close>: the read and write functions of the ARM9 and of the
  ARM7 in the three widths, and the functions that hand out a direct pointer to a block of
  memory. The state adds the memories to the console. The registers at \<^verbatim>\<open>0x04000000\<close>, the
  cartridge in the GBA slot and the wireless interface are devices of their own: their
  access functions are a parameter of the model, and may change any part of the state.
\<close>

section \<open>State\<close>

text \<open>
  The memories are byte arrays. \<^verbatim>\<open>ARM7_PC\<close> is \<^verbatim>\<open>ARM7.R[15]\<close>. \<open>Invalidated\<close> lists the calls of
  \<^verbatim>\<open>ARMJIT::CheckAndInvalidate\<close>, by processor, region and address.
\<close>

datatype jit_region =
    memregion_MainRAM | memregion_SharedWRAM | memregion_WRAM7 | memregion_VRAM | memregion_VWRAM | memregion_ITCM

record bus_nds = nds +
  GPU :: gpu
  Palette :: "nat \<Rightarrow> u8"
  PaletteDirty :: u32
  OAM :: "nat \<Rightarrow> u8"
  OAMDirty :: u32
  MainRAM :: "nat \<Rightarrow> u8"
  MainRAMMask :: u32
  SharedWRAM :: "nat \<Rightarrow> u8"
  ARM7WRAM :: "nat \<Rightarrow> u8"
  ARM9BIOS :: "nat \<Rightarrow> u8"
  ARM7BIOS :: "nat \<Rightarrow> u8"
  ARM7BIOSProt :: u16
  ARM7_PC :: u32
  PowerControl9 :: u16
  PowerControl7 :: u16
  ExMemCnt :: "nat \<Rightarrow> u16"
  Invalidated :: "(nat \<times> jit_region \<times> u32) list"

text \<open>The devices, by processor where each has its own.\<close>

record 's devices =
  IORead8 :: "nat \<Rightarrow> u32 \<Rightarrow> 's \<Rightarrow> u8 \<times> 's"
  IORead16 :: "nat \<Rightarrow> u32 \<Rightarrow> 's \<Rightarrow> u16 \<times> 's"
  IORead32 :: "nat \<Rightarrow> u32 \<Rightarrow> 's \<Rightarrow> u32 \<times> 's"
  IOWrite8 :: "nat \<Rightarrow> u32 \<Rightarrow> u8 \<Rightarrow> 's \<Rightarrow> 's"
  IOWrite16 :: "nat \<Rightarrow> u32 \<Rightarrow> u16 \<Rightarrow> 's \<Rightarrow> 's"
  IOWrite32 :: "nat \<Rightarrow> u32 \<Rightarrow> u32 \<Rightarrow> 's \<Rightarrow> 's"
  ROMRead :: "u32 \<Rightarrow> 's \<Rightarrow> u16 \<times> 's"
  ROMWrite :: "u32 \<Rightarrow> u16 \<Rightarrow> 's \<Rightarrow> 's"
  SRAMRead :: "u32 \<Rightarrow> 's \<Rightarrow> u8 \<times> 's"
  SRAMWrite :: "u32 \<Rightarrow> u8 \<Rightarrow> 's \<Rightarrow> 's"
  WifiRead :: "u32 \<Rightarrow> 's \<Rightarrow> u16 \<times> 's"
  WifiWrite :: "u32 \<Rightarrow> u16 \<Rightarrow> 's \<Rightarrow> 's"

section \<open>Palette and sprite attributes\<close>

definition ReadPalette :: "u32 \<Rightarrow> 'a bus_nds_scheme \<Rightarrow> 'w::len word" where
  "ReadPalette addr n = ld (Palette n) (unat (addr AND 0x7FF))"

definition WritePalette :: "u32 \<Rightarrow> 'w::len word \<Rightarrow> 'a bus_nds_scheme \<Rightarrow> 'a bus_nds_scheme" where
  "WritePalette addr val n =
     (let a = addr AND 0x7FF
      in n\<lparr>Palette := st (Palette n) (unat a) val,
           PaletteDirty := PaletteDirty n OR bitm (unat (a div VRAMDirtyGranularity))\<rparr>)"

definition ReadOAM :: "u32 \<Rightarrow> 'a bus_nds_scheme \<Rightarrow> 'w::len word" where
  "ReadOAM addr n = ld (OAM n) (unat (addr AND 0x7FF))"

definition WriteOAM :: "u32 \<Rightarrow> 'w::len word \<Rightarrow> 'a bus_nds_scheme \<Rightarrow> 'a bus_nds_scheme" where
  "WriteOAM addr val n =
     (let a = addr AND 0x7FF
      in n\<lparr>OAM := st (OAM n) (unat a) val, OAMDirty := OAMDirty n OR bitm (unat (a div 1024))\<rparr>)"

section \<open>Shared pieces\<close>

text \<open>\<^verbatim>\<open>PowerControl9 & ((addr & 0x400) ? (1<<9) : (1<<1))\<close>: the engine that owns the half is powered.\<close>

definition engine_on :: "u32 \<Rightarrow> 'a bus_nds_scheme \<Rightarrow> bool" where
  "engine_on addr n \<longleftrightarrow> bit (PowerControl9 n) (if addr AND 0x400 \<noteq> 0 then 9 else 1)"

definition JIT_CheckAndInvalidate ::
  "nat \<Rightarrow> jit_region \<Rightarrow> u32 \<Rightarrow> 'a bus_nds_scheme \<Rightarrow> 'a bus_nds_scheme" where
  "JIT_CheckAndInvalidate cpu r addr n = n\<lparr>Invalidated := Invalidated n @ [(cpu, r, addr)]\<rparr>"

text \<open>An access through the window of a processor on the shared work RAM.\<close>

definition swram_ld :: "u32 \<Rightarrow> MemRegion \<Rightarrow> u32 \<Rightarrow> 'a bus_nds_scheme \<Rightarrow> 'w::len word" where
  "swram_ld base r addr n = ld (SharedWRAM n) (unat base + unat (addr AND Mask r))"

definition swram_st :: "u32 \<Rightarrow> MemRegion \<Rightarrow> u32 \<Rightarrow> 'w::len word \<Rightarrow> 'a bus_nds_scheme \<Rightarrow> 'a bus_nds_scheme" where
  "swram_st base r addr val n =
     n\<lparr>SharedWRAM := st (SharedWRAM n) (unat base + unat (addr AND Mask r)) val\<rparr>"

definition mram_ld :: "u32 \<Rightarrow> 'a bus_nds_scheme \<Rightarrow> 'w::len word" where
  "mram_ld addr n = ld (MainRAM n) (unat (addr AND MainRAMMask n))"

definition mram_st :: "u32 \<Rightarrow> 'w::len word \<Rightarrow> 'a bus_nds_scheme \<Rightarrow> 'a bus_nds_scheme" where
  "mram_st addr val n = n\<lparr>MainRAM := st (MainRAM n) (unat (addr AND MainRAMMask n)) val\<rparr>"

definition ARM7WRAMSize :: u32 where "ARM7WRAMSize = 0x10000"

definition wram7_ld :: "u32 \<Rightarrow> 'a bus_nds_scheme \<Rightarrow> 'w::len word" where
  "wram7_ld addr n = ld (ARM7WRAM n) (unat (addr AND (ARM7WRAMSize - 1)))"

definition wram7_st :: "u32 \<Rightarrow> 'w::len word \<Rightarrow> 'a bus_nds_scheme \<Rightarrow> 'a bus_nds_scheme" where
  "wram7_st addr val n =
     n\<lparr>ARM7WRAM := st (ARM7WRAM n) (unat (addr AND (ARM7WRAMSize - 1))) val\<rparr>"

definition map_gpu :: "(gpu \<Rightarrow> gpu) \<Rightarrow> 'a bus_nds_scheme \<Rightarrow> 'a bus_nds_scheme" where
  "map_gpu f n = n\<lparr>GPU := f (GPU n)\<rparr>"

text \<open>The inner \<^verbatim>\<open>switch (addr & 0x00E00000)\<close> on the video memory spaces of the ARM9.\<close>

definition ReadVRAM9 :: "u32 \<Rightarrow> gpu \<Rightarrow> 'w::len word" where
  "ReadVRAM9 addr g =
     (let r = addr AND 0x00E00000
      in if r = 0x00000000 then ReadVRAM_ABG addr g
         else if r = 0x00200000 then ReadVRAM_BBG addr g
         else if r = 0x00400000 then ReadVRAM_AOBJ addr g
         else if r = 0x00600000 then ReadVRAM_BOBJ addr g
         else ReadVRAM_LCDC addr g)"

definition WriteVRAM9 :: "u32 \<Rightarrow> 'w::len word \<Rightarrow> gpu \<Rightarrow> gpu" where
  "WriteVRAM9 addr val g =
     (let r = addr AND 0x00E00000
      in if r = 0x00000000 then WriteVRAM_ABG addr val g
         else if r = 0x00200000 then WriteVRAM_BBG addr val g
         else if r = 0x00400000 then WriteVRAM_AOBJ addr val g
         else if r = 0x00600000 then WriteVRAM_BOBJ addr val g
         else WriteVRAM_LCDC addr val g)"

text \<open>
  Wider accesses to the GBA slot and to the wireless interface are several narrow ones, from
  the lowest address up.
\<close>

definition ROMRead32 :: "'s devices \<Rightarrow> u32 \<Rightarrow> 's \<Rightarrow> u32 \<times> 's" where
  "ROMRead32 dev addr s0 =
     (let (l, s1) = ROMRead dev addr s0; (h, s2) = ROMRead dev (addr + 2) s1
      in (ucast l OR push_bit 16 (ucast h), s2))"

definition ROMRead8 :: "'s devices \<Rightarrow> u32 \<Rightarrow> 's \<Rightarrow> u8 \<times> 's" where
  "ROMRead8 dev addr s0 =
     (if addr AND 1 \<noteq> 0 then apfst (\<lambda>v. ucast (drop_bit 8 v)) (ROMRead dev (addr - 1) s0)
      else apfst ucast (ROMRead dev addr s0))"

definition SRAMRead16 :: "'s devices \<Rightarrow> u32 \<Rightarrow> 's \<Rightarrow> u16 \<times> 's" where
  "SRAMRead16 dev addr s0 =
     (let (a, s1) = SRAMRead dev addr s0; (b, s2) = SRAMRead dev (addr + 1) s1
      in (ucast a OR push_bit 8 (ucast b), s2))"

definition SRAMRead32 :: "'s devices \<Rightarrow> u32 \<Rightarrow> 's \<Rightarrow> u32 \<times> 's" where
  "SRAMRead32 dev addr s0 =
     (let (a, s1) = SRAMRead dev addr s0; (b, s2) = SRAMRead dev (addr + 1) s1;
          (c, s3) = SRAMRead dev (addr + 2) s2; (d, s4) = SRAMRead dev (addr + 3) s3
      in (ucast a OR push_bit 8 (ucast b) OR push_bit 16 (ucast c) OR push_bit 24 (ucast d), s4))"

definition ROMWrite32 :: "'s devices \<Rightarrow> u32 \<Rightarrow> u32 \<Rightarrow> 's \<Rightarrow> 's" where
  "ROMWrite32 dev addr val s =
     ROMWrite dev (addr + 2) (ucast (drop_bit 16 val)) (ROMWrite dev addr (ucast (val AND 0xFFFF)) s)"

definition SRAMWrite16 :: "'s devices \<Rightarrow> u32 \<Rightarrow> u16 \<Rightarrow> 's \<Rightarrow> 's" where
  "SRAMWrite16 dev addr val s =
     SRAMWrite dev (addr + 1) (ucast (drop_bit 8 val)) (SRAMWrite dev addr (ucast (val AND 0xFF)) s)"

definition SRAMWrite32 :: "'s devices \<Rightarrow> u32 \<Rightarrow> u32 \<Rightarrow> 's \<Rightarrow> 's" where
  "SRAMWrite32 dev addr val s =
     SRAMWrite dev (addr + 3) (ucast (drop_bit 24 val))
       (SRAMWrite dev (addr + 2) (ucast (drop_bit 16 val AND 0xFF))
          (SRAMWrite dev (addr + 1) (ucast (drop_bit 8 val AND 0xFF))
             (SRAMWrite dev addr (ucast (val AND 0xFF)) s)))"

definition WifiRead32 :: "'s devices \<Rightarrow> u32 \<Rightarrow> 's \<Rightarrow> u32 \<times> 's" where
  "WifiRead32 dev addr s0 =
     (let (l, s1) = WifiRead dev addr s0; (h, s2) = WifiRead dev (addr + 2) s1
      in (ucast l OR push_bit 16 (ucast h), s2))"

definition WifiRead8 :: "'s devices \<Rightarrow> u32 \<Rightarrow> 's \<Rightarrow> u8 \<times> 's" where
  "WifiRead8 dev addr s0 =
     (if addr AND 1 \<noteq> 0 then apfst (\<lambda>v. ucast (drop_bit 8 v)) (WifiRead dev (addr - 1) s0)
      else apfst ucast (WifiRead dev addr s0))"

definition WifiWrite32 :: "'s devices \<Rightarrow> u32 \<Rightarrow> u32 \<Rightarrow> 's \<Rightarrow> 's" where
  "WifiWrite32 dev addr val s =
     WifiWrite dev (addr + 2) (ucast (drop_bit 16 val)) (WifiWrite dev addr (ucast (val AND 0xFFFF)) s)"

section \<open>The ARM9 bus\<close>

definition ARM9Read8 :: "'a bus_nds_scheme devices \<Rightarrow> u32 \<Rightarrow> 'a bus_nds_scheme \<Rightarrow> u8 \<times> 'a bus_nds_scheme" where
  "ARM9Read8 dev addr n =
     (let r = addr AND 0xFF000000
      in if addr AND 0xFFFFF000 = 0xFFFF0000 then (ld (ARM9BIOS n) (unat (addr AND 0xFFF)), n)
         else if r = 0x02000000 then (mram_ld addr n, n)
         else if r = 0x03000000 then
           (case Mem (SWRAM_ARM9 n) of Some base \<Rightarrow> (swram_ld base (SWRAM_ARM9 n) addr n, n) | None \<Rightarrow> (0, n))
         else if r = 0x04000000 then IORead8 dev 0 addr n
         else if r = 0x05000000 then (if \<not> engine_on addr n then 0 else ReadPalette addr n, n)
         else if r = 0x06000000 then (ReadVRAM9 addr (GPU n), n)
         else if r = 0x07000000 then (if \<not> engine_on addr n then 0 else ReadOAM addr n, n)
         else if r = 0x08000000 \<or> r = 0x09000000 then
           (if bit (ExMemCnt n 0) 7 then (0, n) else ROMRead8 dev addr n)
         else if r = 0x0A000000 then (if bit (ExMemCnt n 0) 7 then (0, n) else SRAMRead dev addr n)
         else (0, n))"

definition ARM9Read16 :: "'a bus_nds_scheme devices \<Rightarrow> u32 \<Rightarrow> 'a bus_nds_scheme \<Rightarrow> u16 \<times> 'a bus_nds_scheme" where
  "ARM9Read16 dev addr n =
     (let addr = addr AND NOT 1; r = addr AND 0xFF000000
      in if addr AND 0xFFFFF000 = 0xFFFF0000 then (ld (ARM9BIOS n) (unat (addr AND 0xFFF)), n)
         else if r = 0x02000000 then (mram_ld addr n, n)
         else if r = 0x03000000 then
           (case Mem (SWRAM_ARM9 n) of Some base \<Rightarrow> (swram_ld base (SWRAM_ARM9 n) addr n, n) | None \<Rightarrow> (0, n))
         else if r = 0x04000000 then IORead16 dev 0 addr n
         else if r = 0x05000000 then (if \<not> engine_on addr n then 0 else ReadPalette addr n, n)
         else if r = 0x06000000 then (ReadVRAM9 addr (GPU n), n)
         else if r = 0x07000000 then (if \<not> engine_on addr n then 0 else ReadOAM addr n, n)
         else if r = 0x08000000 \<or> r = 0x09000000 then
           (if bit (ExMemCnt n 0) 7 then (0, n) else ROMRead dev addr n)
         else if r = 0x0A000000 then (if bit (ExMemCnt n 0) 7 then (0, n) else SRAMRead16 dev addr n)
         else (0, n))"

definition ARM9Read32 :: "'a bus_nds_scheme devices \<Rightarrow> u32 \<Rightarrow> 'a bus_nds_scheme \<Rightarrow> u32 \<times> 'a bus_nds_scheme" where
  "ARM9Read32 dev addr n =
     (let addr = addr AND NOT 3; r = addr AND 0xFF000000
      in if addr AND 0xFFFFF000 = 0xFFFF0000 then (ld (ARM9BIOS n) (unat (addr AND 0xFFF)), n)
         else if r = 0x02000000 then (mram_ld addr n, n)
         else if r = 0x03000000 then
           (case Mem (SWRAM_ARM9 n) of Some base \<Rightarrow> (swram_ld base (SWRAM_ARM9 n) addr n, n) | None \<Rightarrow> (0, n))
         else if r = 0x04000000 then IORead32 dev 0 addr n
         else if r = 0x05000000 then (if \<not> engine_on addr n then 0 else ReadPalette addr n, n)
         else if r = 0x06000000 then (ReadVRAM9 addr (GPU n), n)
         else if r = 0x07000000 then (if \<not> engine_on addr n then 0 else ReadOAM (addr AND 0x7FF) n, n)
         else if r = 0x08000000 \<or> r = 0x09000000 then
           (if bit (ExMemCnt n 0) 7 then (0, n) else ROMRead32 dev addr n)
         else if r = 0x0A000000 then (if bit (ExMemCnt n 0) 7 then (0, n) else SRAMRead32 dev addr n)
         else (0, n))"

definition ARM9Write8 :: "'a bus_nds_scheme devices \<Rightarrow> u32 \<Rightarrow> u8 \<Rightarrow> 'a bus_nds_scheme \<Rightarrow> 'a bus_nds_scheme" where
  "ARM9Write8 dev addr val n =
     (let r = addr AND 0xFF000000
      in if r = 0x02000000 then mram_st addr val (JIT_CheckAndInvalidate 0 memregion_MainRAM addr n)
         else if r = 0x03000000 then
           (case Mem (SWRAM_ARM9 n) of
              Some base \<Rightarrow> swram_st base (SWRAM_ARM9 n) addr val (JIT_CheckAndInvalidate 0 memregion_SharedWRAM addr n)
            | None \<Rightarrow> n)
         else if r = 0x04000000 then IOWrite8 dev 0 addr val n
         else if r = 0x05000000 \<or> r = 0x06000000 \<or> r = 0x07000000 then n
         else if r = 0x08000000 \<or> r = 0x09000000 then n
         else if r = 0x0A000000 then (if bit (ExMemCnt n 0) 7 then n else SRAMWrite dev addr val n)
         else n)"

definition ARM9Write16 :: "'a bus_nds_scheme devices \<Rightarrow> u32 \<Rightarrow> u16 \<Rightarrow> 'a bus_nds_scheme \<Rightarrow> 'a bus_nds_scheme" where
  "ARM9Write16 dev addr val n =
     (let addr = addr AND NOT 1; r = addr AND 0xFF000000
      in if r = 0x02000000 then mram_st addr val (JIT_CheckAndInvalidate 0 memregion_MainRAM addr n)
         else if r = 0x03000000 then
           (case Mem (SWRAM_ARM9 n) of
              Some base \<Rightarrow> swram_st base (SWRAM_ARM9 n) addr val (JIT_CheckAndInvalidate 0 memregion_SharedWRAM addr n)
            | None \<Rightarrow> n)
         else if r = 0x04000000 then IOWrite16 dev 0 addr val n
         else if r = 0x05000000 then (if \<not> engine_on addr n then n else WritePalette addr val n)
         else if r = 0x06000000 then
           map_gpu (WriteVRAM9 addr val) (JIT_CheckAndInvalidate 0 memregion_VRAM addr n)
         else if r = 0x07000000 then (if \<not> engine_on addr n then n else WriteOAM addr val n)
         else if r = 0x08000000 \<or> r = 0x09000000 then
           (if bit (ExMemCnt n 0) 7 then n else ROMWrite dev addr val n)
         else if r = 0x0A000000 then (if bit (ExMemCnt n 0) 7 then n else SRAMWrite16 dev addr val n)
         else n)"

definition ARM9Write32 :: "'a bus_nds_scheme devices \<Rightarrow> u32 \<Rightarrow> u32 \<Rightarrow> 'a bus_nds_scheme \<Rightarrow> 'a bus_nds_scheme" where
  "ARM9Write32 dev addr val n =
     (let addr = addr AND NOT 3; r = addr AND 0xFF000000
      in if r = 0x02000000 then mram_st addr val (JIT_CheckAndInvalidate 0 memregion_MainRAM addr n)
         else if r = 0x03000000 then
           (case Mem (SWRAM_ARM9 n) of
              Some base \<Rightarrow> swram_st base (SWRAM_ARM9 n) addr val (JIT_CheckAndInvalidate 0 memregion_SharedWRAM addr n)
            | None \<Rightarrow> n)
         else if r = 0x04000000 then IOWrite32 dev 0 addr val n
         else if r = 0x05000000 then (if \<not> engine_on addr n then n else WritePalette addr val n)
         else if r = 0x06000000 then
           map_gpu (WriteVRAM9 addr val) (JIT_CheckAndInvalidate 0 memregion_VRAM addr n)
         else if r = 0x07000000 then (if \<not> engine_on addr n then n else WriteOAM addr val n)
         else if r = 0x08000000 \<or> r = 0x09000000 then
           (if bit (ExMemCnt n 0) 7 then n else ROMWrite32 dev addr val n)
         else if r = 0x0A000000 then (if bit (ExMemCnt n 0) 7 then n else SRAMWrite32 dev addr val n)
         else n)"

section \<open>The ARM7 bus\<close>

text \<open>The ARM7 BIOS can be read by code inside it only, and its first part by code inside that part.\<close>

definition bios7_hidden :: "u32 \<Rightarrow> 'a bus_nds_scheme \<Rightarrow> bool" where
  "bios7_hidden addr n \<longleftrightarrow>
     ARM7_PC n \<ge> 0x00004000 \<or> (addr < ucast (ARM7BIOSProt n) \<and> ARM7_PC n \<ge> ucast (ARM7BIOSProt n))"

definition ARM7Read8 :: "'a bus_nds_scheme devices \<Rightarrow> u32 \<Rightarrow> 'a bus_nds_scheme \<Rightarrow> u8 \<times> 'a bus_nds_scheme" where
  "ARM7Read8 dev addr n =
     (let r = addr AND 0xFF800000
      in if addr < 0x00004000 then
           (if bios7_hidden addr n then - 1 else ld (ARM7BIOS n) (unat addr), n)
         else if r = 0x02000000 \<or> r = 0x02800000 then (mram_ld addr n, n)
         else if r = 0x03000000 then
           (case Mem (SWRAM_ARM7 n) of
              Some base \<Rightarrow> (swram_ld base (SWRAM_ARM7 n) addr n, n)
            | None \<Rightarrow> (wram7_ld addr n, n))
         else if r = 0x03800000 then (wram7_ld addr n, n)
         else if r = 0x04000000 then IORead8 dev 1 addr n
         else if r = 0x04800000 then
           (if addr < 0x04810000 then if \<not> bit (PowerControl7 n) 1 then (0, n) else WifiRead8 dev addr n
            else (0, n))
         else if r = 0x06000000 \<or> r = 0x06800000 then (ReadVRAM_ARM7 addr (GPU n), n)
         else if r \<in> {0x08000000, 0x08800000, 0x09000000, 0x09800000} then
           (if \<not> bit (ExMemCnt n 0) 7 then (0, n) else ROMRead8 dev addr n)
         else if r = 0x0A000000 \<or> r = 0x0A800000 then
           (if \<not> bit (ExMemCnt n 0) 7 then (0, n) else SRAMRead dev addr n)
         else (0, n))"

definition ARM7Read16 :: "'a bus_nds_scheme devices \<Rightarrow> u32 \<Rightarrow> 'a bus_nds_scheme \<Rightarrow> u16 \<times> 'a bus_nds_scheme" where
  "ARM7Read16 dev addr n =
     (let addr = addr AND NOT 1; r = addr AND 0xFF800000
      in if addr < 0x00004000 then
           (if bios7_hidden addr n then - 1 else ld (ARM7BIOS n) (unat addr), n)
         else if r = 0x02000000 \<or> r = 0x02800000 then (mram_ld addr n, n)
         else if r = 0x03000000 then
           (case Mem (SWRAM_ARM7 n) of
              Some base \<Rightarrow> (swram_ld base (SWRAM_ARM7 n) addr n, n)
            | None \<Rightarrow> (wram7_ld addr n, n))
         else if r = 0x03800000 then (wram7_ld addr n, n)
         else if r = 0x04000000 then IORead16 dev 1 addr n
         else if r = 0x04800000 then
           (if addr < 0x04810000 then if \<not> bit (PowerControl7 n) 1 then (0, n) else WifiRead dev addr n
            else (0, n))
         else if r = 0x06000000 \<or> r = 0x06800000 then (ReadVRAM_ARM7 addr (GPU n), n)
         else if r \<in> {0x08000000, 0x08800000, 0x09000000, 0x09800000} then
           (if \<not> bit (ExMemCnt n 0) 7 then (0, n) else ROMRead dev addr n)
         else if r = 0x0A000000 \<or> r = 0x0A800000 then
           (if \<not> bit (ExMemCnt n 0) 7 then (0, n) else SRAMRead16 dev addr n)
         else (0, n))"

definition ARM7Read32 :: "'a bus_nds_scheme devices \<Rightarrow> u32 \<Rightarrow> 'a bus_nds_scheme \<Rightarrow> u32 \<times> 'a bus_nds_scheme" where
  "ARM7Read32 dev addr n =
     (let addr = addr AND NOT 3; r = addr AND 0xFF800000
      in if addr < 0x00004000 then
           (if bios7_hidden addr n then - 1 else ld (ARM7BIOS n) (unat addr), n)
         else if r = 0x02000000 \<or> r = 0x02800000 then (mram_ld addr n, n)
         else if r = 0x03000000 then
           (case Mem (SWRAM_ARM7 n) of
              Some base \<Rightarrow> (swram_ld base (SWRAM_ARM7 n) addr n, n)
            | None \<Rightarrow> (wram7_ld addr n, n))
         else if r = 0x03800000 then (wram7_ld addr n, n)
         else if r = 0x04000000 then IORead32 dev 1 addr n
         else if r = 0x04800000 then
           (if addr < 0x04810000 then if \<not> bit (PowerControl7 n) 1 then (0, n) else WifiRead32 dev addr n
            else (0, n))
         else if r = 0x06000000 \<or> r = 0x06800000 then (ReadVRAM_ARM7 addr (GPU n), n)
         else if r \<in> {0x08000000, 0x08800000, 0x09000000, 0x09800000} then
           (if \<not> bit (ExMemCnt n 0) 7 then (0, n) else ROMRead32 dev addr n)
         else if r = 0x0A000000 \<or> r = 0x0A800000 then
           (if \<not> bit (ExMemCnt n 0) 7 then (0, n) else SRAMRead32 dev addr n)
         else (0, n))"

definition ARM7Write8 :: "'a bus_nds_scheme devices \<Rightarrow> u32 \<Rightarrow> u8 \<Rightarrow> 'a bus_nds_scheme \<Rightarrow> 'a bus_nds_scheme" where
  "ARM7Write8 dev addr val n =
     (let r = addr AND 0xFF800000
      in if r = 0x02000000 \<or> r = 0x02800000 then
           mram_st addr val (JIT_CheckAndInvalidate 1 memregion_MainRAM addr n)
         else if r = 0x03000000 then
           (case Mem (SWRAM_ARM7 n) of
              Some base \<Rightarrow> swram_st base (SWRAM_ARM7 n) addr val (JIT_CheckAndInvalidate 1 memregion_SharedWRAM addr n)
            | None \<Rightarrow> wram7_st addr val (JIT_CheckAndInvalidate 1 memregion_WRAM7 addr n))
         else if r = 0x03800000 then wram7_st addr val (JIT_CheckAndInvalidate 1 memregion_WRAM7 addr n)
         else if r = 0x04000000 then IOWrite8 dev 1 addr val n
         else if r = 0x06000000 \<or> r = 0x06800000 then
           map_gpu (WriteVRAM_ARM7 addr val) (JIT_CheckAndInvalidate 1 memregion_VWRAM addr n)
         else if r \<in> {0x08000000, 0x08800000, 0x09000000, 0x09800000} then n
         else if r = 0x0A000000 \<or> r = 0x0A800000 then
           (if \<not> bit (ExMemCnt n 0) 7 then n else SRAMWrite dev addr val n)
         else n)"

definition ARM7Write16 :: "'a bus_nds_scheme devices \<Rightarrow> u32 \<Rightarrow> u16 \<Rightarrow> 'a bus_nds_scheme \<Rightarrow> 'a bus_nds_scheme" where
  "ARM7Write16 dev addr val n =
     (let addr = addr AND NOT 1; r = addr AND 0xFF800000
      in if r = 0x02000000 \<or> r = 0x02800000 then
           mram_st addr val (JIT_CheckAndInvalidate 1 memregion_MainRAM addr n)
         else if r = 0x03000000 then
           (case Mem (SWRAM_ARM7 n) of
              Some base \<Rightarrow> swram_st base (SWRAM_ARM7 n) addr val (JIT_CheckAndInvalidate 1 memregion_SharedWRAM addr n)
            | None \<Rightarrow> wram7_st addr val (JIT_CheckAndInvalidate 1 memregion_WRAM7 addr n))
         else if r = 0x03800000 then wram7_st addr val (JIT_CheckAndInvalidate 1 memregion_WRAM7 addr n)
         else if r = 0x04000000 then IOWrite16 dev 1 addr val n
         else if r = 0x04800000 then
           (if addr < 0x04810000 then if \<not> bit (PowerControl7 n) 1 then n else WifiWrite dev addr val n else n)
         else if r = 0x06000000 \<or> r = 0x06800000 then
           map_gpu (WriteVRAM_ARM7 addr val) (JIT_CheckAndInvalidate 1 memregion_VWRAM addr n)
         else if r \<in> {0x08000000, 0x08800000, 0x09000000, 0x09800000} then 
           (if \<not> bit (ExMemCnt n 0) 7 then n else ROMWrite dev addr val n)
         else if r = 0x0A000000 \<or> r = 0x0A800000 then
           (if \<not> bit (ExMemCnt n 0) 7 then n else SRAMWrite16 dev addr val n)
         else n)"

definition ARM7Write32 :: "'a bus_nds_scheme devices \<Rightarrow> u32 \<Rightarrow> u32 \<Rightarrow> 'a bus_nds_scheme \<Rightarrow> 'a bus_nds_scheme" where
  "ARM7Write32 dev addr val n =
     (let addr = addr AND NOT 3; r = addr AND 0xFF800000
      in if r = 0x02000000 \<or> r = 0x02800000 then
           mram_st addr val (JIT_CheckAndInvalidate 1 memregion_MainRAM addr n)
         else if r = 0x03000000 then
           (case Mem (SWRAM_ARM7 n) of
              Some base \<Rightarrow> swram_st base (SWRAM_ARM7 n) addr val (JIT_CheckAndInvalidate 1 memregion_SharedWRAM addr n)
            | None \<Rightarrow> wram7_st addr val (JIT_CheckAndInvalidate 1 memregion_WRAM7 addr n))
         else if r = 0x03800000 then wram7_st addr val (JIT_CheckAndInvalidate 1 memregion_WRAM7 addr n)
         else if r = 0x04000000 then IOWrite32 dev 1 addr val n
         else if r = 0x04800000 then
           (if addr < 0x04810000 then if \<not> bit (PowerControl7 n) 1 then n else WifiWrite32 dev addr val n else n)
         else if r = 0x06000000 \<or> r = 0x06800000 then
           map_gpu (WriteVRAM_ARM7 addr val) (JIT_CheckAndInvalidate 1 memregion_VWRAM addr n)
         else if r \<in> {0x08000000, 0x08800000, 0x09000000, 0x09800000} then 
           (if \<not> bit (ExMemCnt n 0) 7 then n else ROMWrite32 dev addr val n)
         else if r = 0x0A000000 \<or> r = 0x0A800000 then
           (if \<not> bit (ExMemCnt n 0) 7 then n else SRAMWrite32 dev addr val n)
         else n)"

section \<open>Direct pointers\<close>

text \<open>
  The direct pointers: the memory, and the mask of the offset. \<^verbatim>\<open>SWRAM_ARM9.Mem\<close> points into
  the shared work RAM.
\<close>

datatype memory = MRAM | SWRAM u32 | WRAM7 | BIOS9 | BIOS7

definition ARM9GetMemRegion :: "u32 \<Rightarrow> bool \<Rightarrow> 'a bus_nds_scheme \<Rightarrow> (memory \<times> u32) option" where
  "ARM9GetMemRegion addr write n =
     (let r = addr AND 0xFF000000
      in if r = 0x02000000 then Some (MRAM, MainRAMMask n)
         else if r = 0x03000000 \<and> Mem (SWRAM_ARM9 n) \<noteq> None then
           Some (SWRAM (the (Mem (SWRAM_ARM9 n))), Mask (SWRAM_ARM9 n))
         else if addr AND 0xFFFFF000 = 0xFFFF0000 \<and> \<not> write then Some (BIOS9, 0xFFF)
         else None)"

definition ARM7GetMemRegion :: "u32 \<Rightarrow> bool \<Rightarrow> 'a bus_nds_scheme \<Rightarrow> (memory \<times> u32) option" where
  "ARM7GetMemRegion addr write n =
     (let r = addr AND 0xFF800000
      in if r = 0x02000000 \<or> r = 0x02800000 then Some (MRAM, MainRAMMask n)
         else if r = 0x03000000 \<and> Mem (SWRAM_ARM7 n) = None then Some (WRAM7, ARM7WRAMSize - 1)
         else if r = 0x03800000 then Some (WRAM7, ARM7WRAMSize - 1)
         else if addr < 0x00004000 \<and> \<not> write then
           (if ARM7_PC n < 0x4000 \<and> (ucast (ARM7BIOSProt n) \<le> addr \<or> ARM7_PC n < ucast (ARM7BIOSProt n))
            then Some (BIOS7, 0x3FFF) else None)
         else None)"

end
