(* ===== verification/Nds_Memory.thy ===== *)
theory Nds_Memory
  imports Nds_Bus
begin

text \<open>
  The memories behind the two buses: what the direct pointers of \<^verbatim>\<open>ARM9GetMemRegion\<close> and
  \<^verbatim>\<open>ARM7GetMemRegion\<close> give is what the bus gives, and the two processors see one memory
  where their windows overlap.
\<close>

section \<open>Contents\<close>

definition contents :: "memory \<Rightarrow> 'a bus_nds_scheme \<Rightarrow> nat \<Rightarrow> u8" where
  "contents m n =
     (case m of MRAM \<Rightarrow> MainRAM n | SWRAM base \<Rightarrow> (\<lambda>i. SharedWRAM n (unat base + i)) | WRAM7 \<Rightarrow> ARM7WRAM n
      | BIOS9 \<Rightarrow> ARM9BIOS n | BIOS7 \<Rightarrow> ARM7BIOS n)"

definition Read8 :: "'a bus_nds_scheme devices \<Rightarrow> nat \<Rightarrow> u32 \<Rightarrow> 'a bus_nds_scheme \<Rightarrow> u8 \<times> 'a bus_nds_scheme" where
  "Read8 dev cpu = (if cpu = 0 then ARM9Read8 dev else ARM7Read8 dev)"

definition Read16 :: "'a bus_nds_scheme devices \<Rightarrow> nat \<Rightarrow> u32 \<Rightarrow> 'a bus_nds_scheme \<Rightarrow> u16 \<times> 'a bus_nds_scheme" where
  "Read16 dev cpu = (if cpu = 0 then ARM9Read16 dev else ARM7Read16 dev)"

definition Read32 :: "'a bus_nds_scheme devices \<Rightarrow> nat \<Rightarrow> u32 \<Rightarrow> 'a bus_nds_scheme \<Rightarrow> u32 \<times> 'a bus_nds_scheme" where
  "Read32 dev cpu = (if cpu = 0 then ARM9Read32 dev else ARM7Read32 dev)"

definition Write16 :: "'a bus_nds_scheme devices \<Rightarrow> nat \<Rightarrow> u32 \<Rightarrow> u16 \<Rightarrow> 'a bus_nds_scheme \<Rightarrow> 'a bus_nds_scheme" where
  "Write16 dev cpu = (if cpu = 0 then ARM9Write16 dev else ARM7Write16 dev)"

definition Write32 :: "'a bus_nds_scheme devices \<Rightarrow> nat \<Rightarrow> u32 \<Rightarrow> u32 \<Rightarrow> 'a bus_nds_scheme \<Rightarrow> 'a bus_nds_scheme" where
  "Write32 dev cpu = (if cpu = 0 then ARM9Write32 dev else ARM7Write32 dev)"

definition GetMemRegion :: "nat \<Rightarrow> u32 \<Rightarrow> bool \<Rightarrow> 'a bus_nds_scheme \<Rightarrow> (memory \<times> u32) option" where
  "GetMemRegion cpu = (if cpu = 0 then ARM9GetMemRegion else ARM7GetMemRegion)"

lemma ld_shift: "ld (\<lambda>i. f (b + i)) a = ld f (b + a)"
  by (simp add: ld_def add.assoc)

lemmas memory_ld = mram_ld_def swram_ld_def wram7_ld_def contents_def ld_shift

section \<open>Alignment\<close>

lemma and_mask_zero_bit: "a AND mask k = 0 \<Longrightarrow> n < k \<Longrightarrow> \<not> bit (a :: 'w::len word) n"
  by (drule arg_cong [of _ _ "\<lambda>w. bit w n"]) (auto simp: bit_simps dest: bit_imp_le_length)

lemma and_not_mask_id: "a AND mask k = 0 \<Longrightarrow> a AND NOT (mask k) = (a :: 'w::len word)"
  by (intro bit_word_eqI) (auto simp: bit_simps dest: and_mask_zero_bit)

lemma align16: "a AND 1 = 0 \<Longrightarrow> a AND - 2 = (a :: u32)"
  using and_not_mask_id [of a 1] by simp

lemma mask_2: "mask 2 = (3 :: 'w::len word)"
  by (simp add: mask_eq_exp_minus_1)

lemma align32: "a AND 3 = 0 \<Longrightarrow> a AND - 4 = (a :: u32)"
  using and_not_mask_id [of a 2] unfolding mask_2 by simp

lemma align32_16: "a AND 3 = 0 \<Longrightarrow> a AND 1 = (0 :: u32)"
  using and_mask_zero_bit [of a 2 0] and_exp_eq_0_iff_not_bit [of a 0] by (simp add: mask_2)

lemma aligned_dvd: "a AND 3 = 0 \<Longrightarrow> k AND 3 = 3 \<Longrightarrow> 4 dvd unat (a AND k :: u32)"
proof -
  assume a: "a AND 3 = 0" "k AND 3 = 3"
  have "(a AND k) AND mask 2 = 0" using a by (simp add: mask_2 and.assoc)
  then have "unat ((a AND k) AND mask 2) = 0" by simp
  then show ?thesis unfolding unat_and_mask by (simp add: mod_eq_0_iff_dvd)
qed

section \<open>Direct pointers\<close>

lemma hex_regions:
  "(a :: u32) AND 0xFF000000 = 0x02000000 \<Longrightarrow> a AND 0xFFFFF000 \<noteq> 0xFFFF0000"
  "a AND 0xFF000000 = 0x03000000 \<Longrightarrow> a AND 0xFFFFF000 \<noteq> 0xFFFF0000"
  by (auto dest!: arg_cong [of _ _ "\<lambda>w. bit w 31"] simp: bit_simps)

lemma above_bios7: "r \<le> a AND 0xFF800000 \<Longrightarrow> r \<le> (a :: u32)"
  using word_and_le2 [of a "0xFF800000"] by simp

lemma ARM9GetMemRegion_cases:
  assumes "ARM9GetMemRegion addr wr n = Some (m, k)"
  obtains (main) "addr AND 0xFF000000 = 0x02000000" "m = MRAM" "k = MainRAMMask n"
    | (shared) base where "addr AND 0xFF000000 = 0x03000000" "Mem (SWRAM_ARM9 n) = Some base" "m = SWRAM base"
        "k = Mask (SWRAM_ARM9 n)"
    | (bios) "addr AND 0xFFFFF000 = 0xFFFF0000" "\<not> wr" "m = BIOS9" "k = 0xFFF"
  using assms unfolding ARM9GetMemRegion_def Let_def by (auto split: if_splits)

lemma ARM9_direct:
  assumes "ARM9GetMemRegion addr False n = Some (m, k)"
  shows "ARM9Read8 dev addr n = (ld (contents m n) (unat (addr AND k)), n)" (is ?b)
    and "addr AND 1 = 0 \<Longrightarrow> ARM9Read16 dev addr n = (ld (contents m n) (unat (addr AND k)), n)" (is "_ \<Longrightarrow> ?h")
    and "addr AND 3 = 0 \<Longrightarrow> ARM9Read32 dev addr n = (ld (contents m n) (unat (addr AND k)), n)" (is "_ \<Longrightarrow> ?w")
proof -
  show ?b using assms
    by (cases rule: ARM9GetMemRegion_cases) (simp_all add: ARM9Read8_def memory_ld hex_regions)
  show ?h if "addr AND 1 = 0" using assms
    by (cases rule: ARM9GetMemRegion_cases) (simp_all add: ARM9Read16_def memory_ld hex_regions align16 [OF that])
  show ?w if "addr AND 3 = 0" using assms
    by (cases rule: ARM9GetMemRegion_cases) (simp_all add: ARM9Read32_def memory_ld hex_regions align32 [OF that])
qed

lemma ARM7GetMemRegion_cases:
  assumes "ARM7GetMemRegion addr wr n = Some (m, k)"
  obtains (main) "addr AND 0xFF800000 = 0x02000000" "m = MRAM" "k = MainRAMMask n"
    | (main') "addr AND 0xFF800000 = 0x02800000" "m = MRAM" "k = MainRAMMask n"
    | (wram) "addr AND 0xFF800000 = 0x03000000" "Mem (SWRAM_ARM7 n) = None" "m = WRAM7" "k = ARM7WRAMSize - 1"
    | (wram') "addr AND 0xFF800000 = 0x03800000" "m = WRAM7" "k = ARM7WRAMSize - 1"
    | (bios) "addr < 0x4000" "\<not> wr" "\<not> bios7_hidden addr n" "m = BIOS7" "k = 0x3FFF"
  using assms unfolding ARM7GetMemRegion_def Let_def bios7_hidden_def
  by (auto simp: not_le not_less split: if_splits)

lemma bios7_offset: "addr < 0x4000 \<Longrightarrow> unat (addr AND 0x3FFF :: u32) = unat addr"
proof -
  assume "addr < 0x4000"
  moreover have "(0x3FFF :: u32) = mask 14" by (simp add: mask_eq_exp_minus_1)
  ultimately show ?thesis by (simp only: unat_and_mask word_less_nat_alt) simp
qed

lemma ARM7_direct:
  assumes "ARM7GetMemRegion addr False n = Some (m, k)"
  shows "ARM7Read8 dev addr n = (ld (contents m n) (unat (addr AND k)), n)" (is ?b)
    and "addr AND 1 = 0 \<Longrightarrow> ARM7Read16 dev addr n = (ld (contents m n) (unat (addr AND k)), n)" (is "_ \<Longrightarrow> ?h")
    and "addr AND 3 = 0 \<Longrightarrow> ARM7Read32 dev addr n = (ld (contents m n) (unat (addr AND k)), n)" (is "_ \<Longrightarrow> ?w")
proof -
  note above = above_bios7 [of "0x4000" addr, THEN leD]
  show ?b using assms above
    by (cases rule: ARM7GetMemRegion_cases) (simp_all add: ARM7Read8_def memory_ld bios7_offset)
  show ?h if "addr AND 1 = 0" using assms above
    by (cases rule: ARM7GetMemRegion_cases) (simp_all add: ARM7Read16_def memory_ld bios7_offset align16 [OF that])
  show ?w if "addr AND 3 = 0" using assms above
    by (cases rule: ARM7GetMemRegion_cases) (simp_all add: ARM7Read32_def memory_ld bios7_offset align32 [OF that])
qed

section \<open>One memory\<close>

text \<open>
  The RAM a processor reaches at an address: its memory and the mask of the offset. Main RAM
  is mirrored over the whole of its area; the window on the shared work RAM is the one that
  \<^verbatim>\<open>MapSharedWRAM\<close> gives the processor.
\<close>

definition ram_window :: "nat \<Rightarrow> u32 \<Rightarrow> 'a bus_nds_scheme \<Rightarrow> (memory \<times> u32) option" where
  "ram_window cpu addr n =
     (if addr AND 0xFF000000 = 0x02000000 then Some (MRAM, MainRAMMask n)
      else if cpu = 0 then
        if addr AND 0xFF000000 = 0x03000000
        then map_option (\<lambda>base. (SWRAM base, Mask (SWRAM_ARM9 n))) (Mem (SWRAM_ARM9 n)) else None
      else if addr AND 0xFF800000 = 0x03000000 then
        (case Mem (SWRAM_ARM7 n) of Some base \<Rightarrow> Some (SWRAM base, Mask (SWRAM_ARM7 n))
         | None \<Rightarrow> Some (WRAM7, 0xFFFF))
      else if addr AND 0xFF800000 = 0x03800000 then Some (WRAM7, 0xFFFF)
      else None)"

text \<open>A place in a memory: which one, and the offset from its start.\<close>

definition place_of :: "memory \<Rightarrow> nat \<Rightarrow> memory \<times> nat" where
  "place_of m i = (case m of SWRAM base \<Rightarrow> (SWRAM 0, unat base + i) | _ \<Rightarrow> (m, i))"

definition store_mem :: "memory \<Rightarrow> nat \<Rightarrow> 'w::len word \<Rightarrow> 'a bus_nds_scheme \<Rightarrow> 'a bus_nds_scheme" where
  "store_mem m i v n =
     (case m of
        MRAM \<Rightarrow> n\<lparr>MainRAM := st (MainRAM n) i v\<rparr>
      | SWRAM base \<Rightarrow> n\<lparr>SharedWRAM := st (SharedWRAM n) (unat base + i) v\<rparr>
      | WRAM7 \<Rightarrow> n\<lparr>ARM7WRAM := st (ARM7WRAM n) i v\<rparr>
      | _ \<Rightarrow> n)"

definition jit_of :: "memory \<Rightarrow> jit_region" where
  "jit_of m = (case m of MRAM \<Rightarrow> memregion_MainRAM | SWRAM _ \<Rightarrow> memregion_SharedWRAM | _ \<Rightarrow> memregion_WRAM7)"

lemmas memory_st = mram_st_def swram_st_def wram7_st_def store_mem_def

lemma and_exp_cases: "(a :: 'w::len word) AND 2 ^ k = 0 \<or> a AND 2 ^ k = 2 ^ k"
  by (cases "bit a k") (auto intro!: bit_word_eqI simp: bit_simps)

lemma halves: "(a :: u32) AND 0xFF000000 = 0x02000000 \<longleftrightarrow> a AND 0xFF800000 = 0x02000000 \<or> a AND 0xFF800000 = 0x02800000"
proof -
  have e: "a AND 0xFF000000 = (a AND 0xFF800000) AND 0xFF000000" by (simp add: and.assoc)
  have "a AND 0xFF800000 = (a AND 0xFF000000) OR (a AND 0x00800000)" by (simp flip: bit.conj_disj_distrib)
  moreover have "a AND 0x00800000 = 0 \<or> a AND 0x00800000 = 0x00800000"
    using and_exp_cases [of a 23] by simp
  ultimately show ?thesis using e by auto
qed

lemma upper_half: "(a :: u32) AND 0xFF800000 = r \<Longrightarrow> a AND 0xFF000000 = r AND 0xFF000000"
  by (auto simp: and.assoc)

lemma ram_window_cases:
  assumes "ram_window cpu addr n = Some (m, k)"
  obtains (main) "addr AND 0xFF000000 = 0x02000000" "m = MRAM" "k = MainRAMMask n"
    | (shared9) base where "cpu = 0" "addr AND 0xFF000000 = 0x03000000" "Mem (SWRAM_ARM9 n) = Some base"
        "m = SWRAM base" "k = Mask (SWRAM_ARM9 n)"
    | (shared7) base where "cpu \<noteq> 0" "addr AND 0xFF800000 = 0x03000000" "Mem (SWRAM_ARM7 n) = Some base"
        "m = SWRAM base" "k = Mask (SWRAM_ARM7 n)"
    | (wram) "cpu \<noteq> 0" "addr AND 0xFF800000 = 0x03000000" "Mem (SWRAM_ARM7 n) = None" "m = WRAM7" "k = 0xFFFF"
    | (wram') "cpu \<noteq> 0" "addr AND 0xFF800000 = 0x03800000" "m = WRAM7" "k = 0xFFFF"
  using assms unfolding ram_window_def by (auto split: if_splits option.splits)

lemma ARM9_ram32:
  assumes w: "ram_window 0 addr n = Some (m, k)" and a: "addr AND 3 = 0"
  shows "ARM9Read32 dev addr n = (ld (contents m n) (unat (addr AND k)), n)" (is ?r)
    and "ARM9Write32 dev addr v n = store_mem m (unat (addr AND k)) v (JIT_CheckAndInvalidate 0 (jit_of m) addr n)" (is ?w)
proof -
  show ?r using w by (cases rule: ram_window_cases) (simp_all add: ARM9Read32_def memory_ld hex_regions align32 [OF a])
  show ?w using w
    by (cases rule: ram_window_cases)
      (simp_all add: ARM9Write32_def memory_st align32 [OF a] jit_of_def JIT_CheckAndInvalidate_def)
qed

lemma ARM9_ram16:
  assumes w: "ram_window 0 addr n = Some (m, k)" and a: "addr AND 1 = 0"
  shows "ARM9Read16 dev addr n = (ld (contents m n) (unat (addr AND k)), n)" (is ?r)
    and "ARM9Write16 dev addr v n = store_mem m (unat (addr AND k)) v (JIT_CheckAndInvalidate 0 (jit_of m) addr n)" (is ?w)
proof -
  show ?r using w by (cases rule: ram_window_cases) (simp_all add: ARM9Read16_def memory_ld hex_regions align16 [OF a])
  show ?w using w
    by (cases rule: ram_window_cases)
      (simp_all add: ARM9Write16_def memory_st align16 [OF a] jit_of_def JIT_CheckAndInvalidate_def)
qed

lemma ARM7_ram32:
  assumes w: "ram_window 1 addr n = Some (m, k)" and a: "addr AND 3 = 0"
  shows "ARM7Read32 dev addr n = (ld (contents m n) (unat (addr AND k)), n)" (is ?r)
    and "ARM7Write32 dev addr v n = store_mem m (unat (addr AND k)) v (JIT_CheckAndInvalidate 1 (jit_of m) addr n)" (is ?w)
proof -
  note above = above_bios7 [of "0x4000" addr, THEN leD]
  show ?r using w above
    by (cases rule: ram_window_cases)
      (auto simp: ARM7Read32_def memory_ld halves ARM7WRAMSize_def align32 [OF a])
  show ?w using w
    by (cases rule: ram_window_cases)
      (simp_all add: ARM7Write32_def memory_st halves ARM7WRAMSize_def align32 [OF a] jit_of_def JIT_CheckAndInvalidate_def)
qed

lemma ARM7_ram16:
  assumes w: "ram_window 1 addr n = Some (m, k)" and a: "addr AND 1 = 0"
  shows "ARM7Read16 dev addr n = (ld (contents m n) (unat (addr AND k)), n)" (is ?r)
    and "ARM7Write16 dev addr v n = store_mem m (unat (addr AND k)) v (JIT_CheckAndInvalidate 1 (jit_of m) addr n)" (is ?w)
proof -
  note above = above_bios7 [of "0x4000" addr, THEN leD]
  show ?r using w above
    by (cases rule: ram_window_cases)
      (auto simp: ARM7Read16_def memory_ld halves ARM7WRAMSize_def align16 [OF a])
  show ?w using w
    by (cases rule: ram_window_cases)
      (simp_all add: ARM7Write16_def memory_st halves ARM7WRAMSize_def align16 [OF a] jit_of_def JIT_CheckAndInvalidate_def)
qed

lemma bus_ram:
  assumes "ram_window cpu addr n = Some (m, k)" "cpu < 2"
  shows "addr AND 1 = 0 \<Longrightarrow> Read16 dev cpu addr n = (ld (contents m n) (unat (addr AND k)), n)"
    and "addr AND 3 = 0 \<Longrightarrow> Read32 dev cpu addr n = (ld (contents m n) (unat (addr AND k)), n)"
    and "addr AND 1 = 0 \<Longrightarrow> Write16 dev cpu addr v n = store_mem m (unat (addr AND k)) v (JIT_CheckAndInvalidate cpu (jit_of m) addr n)"
    and "addr AND 3 = 0 \<Longrightarrow> Write32 dev cpu addr w n = store_mem m (unat (addr AND k)) w (JIT_CheckAndInvalidate cpu (jit_of m) addr n)"
  using assms ARM9_ram16 ARM9_ram32 ARM7_ram16 ARM7_ram32
  by (auto simp: Read16_def Read32_def Write16_def Write32_def less_2_cases_iff)

lemma contents_JIT [simp]: "contents m (JIT_CheckAndInvalidate cpu r a n) = contents m n"
  by (cases m) (simp_all add: contents_def JIT_CheckAndInvalidate_def)

lemma ram_window_store [simp]:
  "ram_window cpu a (store_mem m i v n) = ram_window cpu a n"
  "ram_window cpu a (JIT_CheckAndInvalidate c r b n) = ram_window cpu a n"
  by (cases m) (simp_all add: store_mem_def JIT_CheckAndInvalidate_def ram_window_def cong: option.case_cong if_cong)

lemma ld_st_disjoint:
  assumes "a + LENGTH('v::len) div 8 \<le> b \<or> b + LENGTH('w::len) div 8 \<le> a"
  shows "ld (st f a (v :: 'v word)) b = (ld f b :: 'w word)"
proof -
  have "st f a v (b + i) = f (b + i)" if "i < LENGTH('w) div 8" for i
    using assms that by (auto simp: st_def)
  then show ?thesis unfolding ld_def by (intro foldl_cong) auto
qed

lemma aligned_gap: "x dvd a \<Longrightarrow> x dvd b \<Longrightarrow> a \<noteq> b \<Longrightarrow> a + x \<le> b \<or> b + x \<le> (a :: nat)"
  by (metis dvd_imp_le dvd_minus_self le_add_diff_inverse nat_le_linear nle_le zero_less_diff dvd_diff_nat add.commute
      add_le_cancel_left le_neq_implies_less)

text \<open>Two aligned accesses meet in one place or not at all.\<close>

lemma ld_store_mem:
  fixes v :: "'w::len word"
  assumes "8 dvd LENGTH('w)" "m \<noteq> BIOS9" "m \<noteq> BIOS7"
    and "LENGTH('w) div 8 dvd snd (place_of m i)" "LENGTH('w) div 8 dvd snd (place_of m' j)"
  shows "ld (contents m' (store_mem m i v n)) j =
    (if place_of m' j = place_of m i then v else ld (contents m' n) j)"
proof -
  have d: "ld (st f a v) b = (if a = b then v else ld f b)"
    if "LENGTH('w) div 8 dvd a" "LENGTH('w) div 8 dvd b" for f a b
    using aligned_gap [OF that] by (auto simp: ld_st [OF assms(1)] ld_st_disjoint)
  show ?thesis using assms(2-5)
    by (cases m; cases m') (auto simp: contents_def store_mem_def place_of_def ld_shift d)
qed

text \<open>The windows as \<^verbatim>\<open>Reset\<close> and \<^verbatim>\<open>MapSharedWRAM\<close> set them up.\<close>

definition windows_ok :: "'a bus_nds_scheme \<Rightarrow> bool" where
  "windows_ok n \<longleftrightarrow>
     MainRAMMask n \<in> {0x3FFFFF, 0xFFFFFF} \<and> (SWRAM_ARM9 n, SWRAM_ARM7 n) = swram_maps (WRAMCnt n)"

lemma ram_window_aligned:
  assumes "windows_ok n" "ram_window cpu addr n = Some (m, k)"
  shows "addr AND 3 = 0 \<Longrightarrow> 4 dvd snd (place_of m (unat (addr AND k)))" "m \<noteq> BIOS9" "m \<noteq> BIOS7"
proof -
  have w: "MainRAMMask n = 0x3FFFFF \<or> MainRAMMask n = 0xFFFFFF"
    "fst (swram_maps (WRAMCnt n)) = SWRAM_ARM9 n" "snd (swram_maps (WRAMCnt n)) = SWRAM_ARM7 n"
    using assms(1) by (auto simp: windows_ok_def dest: arg_cong [of _ _ fst] arg_cong [of _ _ snd])
  have sw: "k AND 3 = 3 \<and> 4 dvd unat base" if "Mem r = Some base" "k = Mask r" "r = fst (swram_maps c) \<or> r = snd (swram_maps c)"
    for r c base using that by (auto simp: swram_maps_def split: if_splits)
  show "m \<noteq> BIOS9" "m \<noteq> BIOS7" using assms(2) by (cases rule: ram_window_cases; simp)+
  assume a: "addr AND 3 = 0"
  from assms(2) show "4 dvd snd (place_of m (unat (addr AND k)))"
  proof (cases rule: ram_window_cases)
    case main
    then show ?thesis using aligned_dvd [OF a, of k] w(1) by (auto simp: place_of_def)
  next
    case (shared9 base)
    then show ?thesis using aligned_dvd [OF a, of k] sw [of "SWRAM_ARM9 n" base "WRAMCnt n"] w(2) by (simp add: place_of_def)
  next
    case (shared7 base)
    then show ?thesis using aligned_dvd [OF a, of k] sw [of "SWRAM_ARM7 n" base "WRAMCnt n"] w(3) by (simp add: place_of_def)
  qed (use aligned_dvd [OF a, of k] in \<open>simp_all add: place_of_def\<close>)
qed

definition ram_place :: "nat \<Rightarrow> u32 \<Rightarrow> 'a bus_nds_scheme \<Rightarrow> (memory \<times> nat) option" where
  "ram_place cpu addr n = map_option (\<lambda>(m, k). place_of m (unat (addr AND k))) (ram_window cpu addr n)"

lemma bus_coherent_helper:
  assumes ok: "windows_ok n" and c: "c < 2" "d < 2" and al: "a AND 3 = 0" "b AND 3 = 0"
    and a: "ram_place c a n \<noteq> None" and b: "ram_place d b n \<noteq> None"
  shows "fst (Read32 dev d b (Write32 dev c a v n)) =
    (if ram_place d b n = ram_place c a n then v else fst (Read32 dev d b n))"
proof -
  obtain m k m' k' where w: "ram_window c a n = Some (m, k)" "ram_window d b n = Some (m', k')"
    using a b by (auto simp: ram_place_def)
  note wr = bus_ram(4) [OF w(1) c(1) al(1)]
  have "fst (Read32 dev d b (Write32 dev c a v n)) = ld (contents m' (Write32 dev c a v n)) (unat (b AND k'))"
    using w(2) c(2) al(2) by (subst bus_ram(2)) (simp_all add: wr)
  then show ?thesis
    using ram_window_aligned [OF ok w(1)] ram_window_aligned [OF ok w(2)] al bus_ram(2) [OF w(2) c(2) al(2)]
    by (simp add: wr ld_store_mem ram_place_def w)
qed

lemma ram_window_pointer:
  assumes "GetMemRegion cpu addr True n = Some (m, k)"
  shows "ram_window cpu addr n = Some (m, k)"
proof (cases "cpu = 0")
  case True
  then have "ARM9GetMemRegion addr True n = Some (m, k)" using assms by (simp add: GetMemRegion_def)
  then show ?thesis by (cases rule: ARM9GetMemRegion_cases) (simp_all add: ram_window_def True)
next
  case False
  then have "ARM7GetMemRegion addr True n = Some (m, k)" using assms by (simp add: GetMemRegion_def)
  then show ?thesis
    by (cases rule: ARM7GetMemRegion_cases) (simp_all add: ram_window_def False halves ARM7WRAMSize_def)
qed

lemma GetMemRegion_read: "GetMemRegion cpu addr wr n = Some (m, k) \<Longrightarrow> GetMemRegion cpu addr False n = Some (m, k)"
  by (cases wr) (auto simp: GetMemRegion_def ARM9GetMemRegion_def ARM7GetMemRegion_def Let_def split: if_splits)

section \<open>Properties\<close>


text \<open>
  C20: the two processors share one memory. After a 32-bit write of one processor to RAM, a
  32-bit read of either processor anywhere in RAM returns the written value when both
  addresses lead to the same place, through mirrors or through the windows on the shared
  work RAM, and otherwise what it returned before.
\<close>

theorem bus_coherent:
  assumes "windows_ok n" "c < 2" "d < 2" "a AND 3 = 0" "b AND 3 = 0"
    and "ram_place c a n \<noteq> None" "ram_place d b n \<noteq> None"
  shows "fst (Read32 dev d b (Write32 dev c a v n)) =
    (if ram_place d b n = ram_place c a n then v else fst (Read32 dev d b n))"
  using assms by (rule bus_coherent_helper)

text \<open>A console after reset, with all memory clear, and devices that answer nothing.\<close>

definition no_devices :: "'s devices" where
  "no_devices =
     \<lparr>IORead8 = (\<lambda>_ _ s. (0, s)), IORead16 = (\<lambda>_ _ s. (0, s)), IORead32 = (\<lambda>_ _ s. (0, s)),
      IOWrite8 = (\<lambda>_ _ _ s. s), IOWrite16 = (\<lambda>_ _ _ s. s), IOWrite32 = (\<lambda>_ _ _ s. s),
      ROMRead = (\<lambda>_ s. (0, s)), ROMWrite = (\<lambda>_ _ s. s), SRAMRead = (\<lambda>_ s. (0, s)), SRAMWrite = (\<lambda>_ _ s. s),
      WifiRead = (\<lambda>_ s. (0, s)), WifiWrite = (\<lambda>_ _ s. s)\<rparr>"

definition bus_reset :: bus_nds where
  "bus_reset =
     NDS_Reset (nds.extend (nds_zero 0)
       \<lparr>GPU = VRAM_Reset, Palette = (\<lambda>_. 0), PaletteDirty = 0, OAM = (\<lambda>_. 0), OAMDirty = 0,
        MainRAM = (\<lambda>_. 0), MainRAMMask = 0x3FFFFF, SharedWRAM = (\<lambda>_. 0), ARM7WRAM = (\<lambda>_. 0),
        ARM9BIOS = (\<lambda>_. 0), ARM7BIOS = (\<lambda>_. 0), ARM7BIOSProt = 0, ARM7_PC = 0, PowerControl9 = 1,
        PowerControl7 = 1, ExMemCnt = (\<lambda>_. 0x4000), Invalidated = []\<rparr>)"

lemma bus_reset_windows [simp]:
  "MainRAMMask bus_reset = 0x3FFFFF" "WRAMCnt bus_reset = 0"
  "SWRAM_ARM9 bus_reset = \<lparr>Mem = Some 0, Mask = 0x7FFF\<rparr>" "SWRAM_ARM7 bus_reset = \<lparr>Mem = None, Mask = 0\<rparr>"
  by (simp_all add: bus_reset_def NDS_Reset_def MapSharedWRAM_def nds_zero_def nds.defs swram_maps_def ext_def Let_def)

lemma bus_reset_windows_ok: "windows_ok bus_reset"
  by (simp add: windows_ok_def swram_maps_def)


theorem bus_coherent_witness:
  "fst (Read32 no_devices 1 0x02400000 (Write32 no_devices 0 0x02000000 0x12345678 bus_reset)) = 0x12345678 \<and>
   fst (Read32 no_devices 1 0x03000000 (Write32 no_devices 0 0x03000000 0x12345678 bus_reset)) =
     fst (Read32 no_devices 1 0x03000000 bus_reset)"
  using bus_coherent [OF bus_reset_windows_ok, of 0 1 "0x02000000" "0x02400000" no_devices "0x12345678"]
    bus_coherent [OF bus_reset_windows_ok, of 0 1 "0x03000000" "0x03000000" no_devices "0x12345678"]
  by (simp add: ram_place_def ram_window_def place_of_def)

end
