(* ===== verification/Dma_Timings.thy ===== *)
theory Dma_Timings
  imports Nds_Memory
begin

text \<open>
  The cycles of bus accesses: the region tables that \<^verbatim>\<open>src/src/NDS.cpp\<close> fills
  (\<^verbatim>\<open>InitTimings\<close>, \<^verbatim>\<open>SetGBASlotTimings\<close>, \<^verbatim>\<open>UpdateWifiTimings\<close>), the burst patterns of
  \<^verbatim>\<open>src/src/DMA_Timings.cpp\<close>, and the cost of one unit of a DMA transfer
  (\<^verbatim>\<open>UnitTimings*\<close> of \<^verbatim>\<open>src/src/DMA.cpp\<close>).
\<close>

section \<open>Burst patterns\<close>

text \<open>
  The tables are arrays of 256 bytes whose remainder is zero. They are written here as
  runs: \<open>(k, v)\<close> stands for \<open>k\<close> entries \<open>v\<close>.
\<close>

definition burst :: "(nat \<times> u8) list \<Rightarrow> u8 list" where
  "burst rs = take 256 (concat (map (\<lambda>(k, v). replicate k v) rs) @ replicate 256 0)"

definition MRAMDummy :: "u8 list" where
  "MRAMDummy = replicate 256 0"

definition MRAMRead16Bursts :: "u8 list list" where
  "MRAMRead16Bursts =
     [burst [(1, 7), (1, 3), (117, 2), (1, 7), (1, 3), (117, 2), (1, 7), (1, 3)],
      burst [(1, 8), (1, 6), (94, 5)],
      burst [(1, 10), (1, 8), (32, 7), (1, 12), (1, 8), (32, 7), (1, 12), (1, 8), (32, 7), (1, 12),
        (1, 8), (32, 7), (1, 12), (1, 8), (32, 7), (1, 12), (1, 8), (32, 7), (1, 12), (1, 8),
        (32, 7), (1, 12), (1, 8)]]"

definition MRAMRead32Bursts :: "u8 list list" where
  "MRAMRead32Bursts =
     [burst [(1, 9), (1, 4), (77, 3), (1, 9)],
      burst [(1, 9), (1, 3), (116, 2)],
      burst [(1, 14), (1, 10), (25, 9), (1, 13), (1, 10), (25, 9), (1, 13), (1, 10), (25, 9), (1, 13),
        (1, 10), (25, 9), (1, 13), (1, 10), (25, 9), (1, 13)],
      burst [(1, 18), (1, 14), (17, 13), (1, 17), (1, 14), (17, 13), (1, 17), (1, 14), (17, 13),
        (1, 17), (1, 14), (17, 13), (1, 17), (1, 14), (17, 13), (1, 17)]]"

definition MRAMWrite16Bursts :: "u8 list list" where
  "MRAMWrite16Bursts =
     [burst [(1, 8), (119, 2)],
      burst [(1, 10), (47, 5)],
      burst [(1, 9), (34, 7)]]"

definition MRAMWrite32Bursts :: "u8 list list" where
  "MRAMWrite32Bursts =
     [burst [(1, 9), (59, 4)],
      burst [(1, 9), (79, 3)],
      burst [(1, 15), (23, 10)],
      burst [(1, 16), (17, 14)]]"

section \<open>Region tables\<close>

text \<open>The channel, \<^verbatim>\<open>src/src/DMA.h\<close>. The increments are signed.\<close>

record DMA =
  SrcAddr :: u32
  DstAddr :: u32
  DMACnt :: u32
  CPU :: nat
  Num :: nat
  StartMode :: u32
  CurSrcAddr :: u32
  CurDstAddr :: u32
  RemCount :: u32
  IterCount :: u32
  SrcAddrInc :: u32
  DstAddrInc :: u32
  CountMask :: u32
  Running :: u32
  InProgress :: bool
  Executing :: bool
  Stall :: bool
  IsGXFIFODMA :: bool
  MRAMBurstCount :: u32
  MRAMBurstTable :: "u8 list"

text \<open>
  The console with its channels and tables: 16 KB pages of the ARM9, 32 KB pages of the ARM7,
  each with its region and its access times. \<^verbatim>\<open>OpenBusDecay\<close> belongs to the GBA slot.
\<close>

record dma_nds = bus_nds +
  DMAs :: "nat \<Rightarrow> DMA"
  ARM9Regions :: "nat \<Rightarrow> u32"
  ARM9MemTimings :: "nat \<Rightarrow> nat \<Rightarrow> u8"
  ARM7Regions :: "nat \<Rightarrow> u32"
  ARM7MemTimings :: "nat \<Rightarrow> nat \<Rightarrow> u8"
  WifiWaitCnt :: u16
  OpenBusDecay :: u16

definition Mem9_BIOS :: u32 where "Mem9_BIOS = 0x4"
definition Mem9_MainRAM :: u32 where "Mem9_MainRAM = 0x8"
definition Mem9_WRAM :: u32 where "Mem9_WRAM = 0x10"
definition Mem9_IO :: u32 where "Mem9_IO = 0x20"
definition Mem9_Pal :: u32 where "Mem9_Pal = 0x40"
definition Mem9_OAM :: u32 where "Mem9_OAM = 0x80"
definition Mem9_VRAM :: u32 where "Mem9_VRAM = 0x100"
definition Mem9_GBAROM :: u32 where "Mem9_GBAROM = 0x20000"
definition Mem9_GBARAM :: u32 where "Mem9_GBARAM = 0x40000"
definition Mem7_BIOS :: u32 where "Mem7_BIOS = 0x1"
definition Mem7_MainRAM :: u32 where "Mem7_MainRAM = 0x2"
definition Mem7_WRAM :: u32 where "Mem7_WRAM = 0x4"
definition Mem7_IO :: u32 where "Mem7_IO = 0x8"
definition Mem7_Wifi0 :: u32 where "Mem7_Wifi0 = 0x10"
definition Mem7_Wifi1 :: u32 where "Mem7_Wifi1 = 0x20"
definition Mem7_VRAM :: u32 where "Mem7_VRAM = 0x40"
definition Mem7_GBAROM :: u32 where "Mem7_GBAROM = 0x100"
definition Mem7_GBARAM :: u32 where "Mem7_GBARAM = 0x200"

text \<open>The bounds are in units of 4 KB. The processor's own tables (\<^verbatim>\<open>ARMv5::UpdateRegionTimings\<close>) belong to the ARM9, in \<open>Arm_Cp15\<close>.\<close>

definition SetARM9RegionTimings ::
  "nat \<Rightarrow> nat \<Rightarrow> u32 \<Rightarrow> nat \<Rightarrow> nat \<Rightarrow> nat \<Rightarrow> 'a dma_nds_scheme \<Rightarrow> 'a dma_nds_scheme" where
  "SetARM9RegionTimings addrstart addrend region buswidth nonseq sq n =
     (let a = addrstart div 4; b = addrend div 4; N16 = nonseq; S16 = sq;
          N32 = (if buswidth = 16 then N16 + S16 else N16);
          S32 = (if buswidth = 16 then S16 + S16 else S16);
          cpuN = (if region = Mem9_MainRAM then 0 else 3)
      in n\<lparr>ARM9MemTimings := (\<lambda>i. if a \<le> i \<and> i < b then
                (\<lambda>k. if k < 8
                     then of_nat ([N16 + cpuN, S16, N32 + cpuN, S32, N16, S16, N32, S32] ! k)
                     else ARM9MemTimings n i k)
              else ARM9MemTimings n i),
            ARM9Regions := (\<lambda>i. if a \<le> i \<and> i < b then region else ARM9Regions n i)\<rparr>)"

definition SetARM7RegionTimings ::
  "nat \<Rightarrow> nat \<Rightarrow> u32 \<Rightarrow> nat \<Rightarrow> nat \<Rightarrow> nat \<Rightarrow> 'a dma_nds_scheme \<Rightarrow> 'a dma_nds_scheme" where
  "SetARM7RegionTimings addrstart addrend region buswidth nonseq sq n =
     (let a = addrstart div 8; b = addrend div 8; N16 = nonseq; S16 = sq;
          N32 = (if buswidth = 16 then N16 + S16 else N16);
          S32 = (if buswidth = 16 then S16 + S16 else S16)
      in n\<lparr>ARM7MemTimings := (\<lambda>i. if a \<le> i \<and> i < b then
                (\<lambda>k. if k < 4 then of_nat ([N16, S16, N32, S32] ! k) else ARM7MemTimings n i k)
              else ARM7MemTimings n i),
            ARM7Regions := (\<lambda>i. if a \<le> i \<and> i < b then region else ARM7Regions n i)\<rparr>)"

definition InitTimings :: "'a dma_nds_scheme \<Rightarrow> 'a dma_nds_scheme" where
  "InitTimings n =
     (let n = SetARM9RegionTimings 0x00000 0x100000 0 32 1 1 n;
          n = SetARM9RegionTimings 0xFFFF0 0x100000 Mem9_BIOS 32 1 1 n;
          n = SetARM9RegionTimings 0x02000 0x03000 Mem9_MainRAM 16 8 1 n;
          n = SetARM9RegionTimings 0x03000 0x04000 Mem9_WRAM 32 1 1 n;
          n = SetARM9RegionTimings 0x04000 0x05000 Mem9_IO 32 1 1 n;
          n = SetARM9RegionTimings 0x05000 0x06000 Mem9_Pal 16 1 1 n;
          n = SetARM9RegionTimings 0x06000 0x07000 Mem9_VRAM 16 1 1 n;
          n = SetARM9RegionTimings 0x07000 0x08000 Mem9_OAM 32 1 1 n;
          n = SetARM7RegionTimings 0x00000 0x100000 0 32 1 1 n;
          n = SetARM7RegionTimings 0x00000 0x00010 Mem7_BIOS 32 1 1 n;
          n = SetARM7RegionTimings 0x02000 0x03000 Mem7_MainRAM 16 8 1 n;
          n = SetARM7RegionTimings 0x03000 0x04000 Mem7_WRAM 32 1 1 n;
          n = SetARM7RegionTimings 0x04000 0x04800 Mem7_IO 32 1 1 n
      in SetARM7RegionTimings 0x06000 0x07000 Mem7_VRAM 16 1 1 n)"

definition ntimings :: "nat list" where
  "ntimings = [10, 8, 6, 18]"

definition UpdateWifiTimings :: "'a dma_nds_scheme \<Rightarrow> 'a dma_nds_scheme" where
  "UpdateWifiTimings n =
     (if PowerControl7 n AND 0x0002 \<noteq> 0 then
        let val = WifiWaitCnt n;
            n = SetARM7RegionTimings 0x04800 0x04808 Mem7_Wifi0 16 (ntimings ! unat (val AND 0x3))
                  (if val AND 0x4 \<noteq> 0 then 4 else 6) n
        in SetARM7RegionTimings 0x04808 0x04810 Mem7_Wifi1 16 (ntimings ! unat (drop_bit 3 val AND 0x3))
             (if val AND 0x20 \<noteq> 0 then 4 else 10) n
      else SetARM7RegionTimings 0x04808 0x04810 Mem7_Wifi1 32 1 1
             (SetARM7RegionTimings 0x04800 0x04808 Mem7_Wifi0 32 1 1 n))"

definition SetWifiWaitCnt :: "u16 \<Rightarrow> 'a dma_nds_scheme \<Rightarrow> 'a dma_nds_scheme" where
  "SetWifiWaitCnt val n =
     (if WifiWaitCnt n = val then n else UpdateWifiTimings (n\<lparr>WifiWaitCnt := val\<rparr>))"

definition SetGBASlotTimings :: "'a dma_nds_scheme \<Rightarrow> 'a dma_nds_scheme" where
  "SetGBASlotTimings n =
     (let openbus = [0xFE08, 0x0000, 0x0000, 0xFFFF];
          curcpu = unat (drop_bit 7 (ExMemCnt n 0) AND 0x1);
          curcnt = ExMemCnt n curcpu;
          ramN = ntimings ! unat (curcnt AND 0x3);
          romN = ntimings ! unat (drop_bit 2 curcnt AND 0x3);
          romS = (if curcnt AND 0x10 \<noteq> 0 then 4 else 6);
          n = (if curcpu = 0 then
                 SetARM7RegionTimings 0x0A000 0x0B000 0 32 1 1
                   (SetARM7RegionTimings 0x08000 0x0A000 0 32 1 1
                     (SetARM9RegionTimings 0x0A000 0x0B000 Mem9_GBARAM 8 ramN ramN
                       (SetARM9RegionTimings 0x08000 0x0A000 Mem9_GBAROM 16 romN romS n)))
               else
                 SetARM7RegionTimings 0x0A000 0x0B000 Mem7_GBARAM 8 ramN ramN
                   (SetARM7RegionTimings 0x08000 0x0A000 Mem7_GBAROM 16 romN romS
                     (SetARM9RegionTimings 0x0A000 0x0B000 0 32 1 1
                       (SetARM9RegionTimings 0x08000 0x0A000 0 32 1 1 n))))
      in n\<lparr>OpenBusDecay := openbus ! unat (drop_bit 2 curcnt AND 0x3)\<rparr>)"

section \<open>The cost of a unit\<close>

text \<open>
  One step of a burst: a new pattern is chosen at the start and when the old one has run out;
  then the cycles are taken from the pattern.
\<close>

definition burst_step :: "u8 list \<Rightarrow> bool \<Rightarrow> DMA \<Rightarrow> u32 \<times> DMA" where
  "burst_step pattern burststart d =
     (let d = (if burststart \<or> MRAMBurstTable d ! unat (MRAMBurstCount d) = 0
               then d\<lparr>MRAMBurstCount := 0, MRAMBurstTable := pattern\<rparr> else d)
      in (ucast (MRAMBurstTable d ! unat (MRAMBurstCount d)), d\<lparr>MRAMBurstCount := MRAMBurstCount d + 1\<rparr>))"

definition UnitTimings9_16 :: "'a dma_nds_scheme \<Rightarrow> bool \<Rightarrow> DMA \<Rightarrow> u32 \<times> DMA" where
  "UnitTimings9_16 n burststart d =
     (let src_id = unat (drop_bit 14 (CurSrcAddr d)); dst_id = unat (drop_bit 14 (CurDstAddr d));
          src_rgn = ARM9Regions n src_id; dst_rgn = ARM9Regions n dst_id;
          src_n = ucast (ARM9MemTimings n src_id 4); src_s = ucast (ARM9MemTimings n src_id 5);
          dst_n = ucast (ARM9MemTimings n dst_id 4); dst_s = ucast (ARM9MemTimings n dst_id 5)
      in if src_rgn = Mem9_MainRAM then
           if dst_rgn = Mem9_MainRAM then (16, d)
           else if sint (SrcAddrInc d) > 0 then
             burst_step
               (if dst_rgn = Mem9_GBAROM then
                    if dst_s = 4 then MRAMRead16Bursts ! 1 else MRAMRead16Bursts ! 2
                  else MRAMRead16Bursts ! 0)
               burststart d
           else ((if CurSrcAddr d AND 0x1F = 0x1E then 7 else 8) + (if burststart then dst_n else dst_s), d)
         else if dst_rgn = Mem9_MainRAM then
           if sint (DstAddrInc d) > 0 then
             burst_step
               (if src_rgn = Mem9_GBAROM then
                    if src_s = 4 then MRAMWrite16Bursts ! 1 else MRAMWrite16Bursts ! 2
                  else MRAMWrite16Bursts ! 0)
               burststart d
           else ((if burststart then src_n else src_s) + 7, d)
         else if src_rgn AND dst_rgn \<noteq> 0 then (src_n + dst_n + 1, d)
         else if burststart then (src_n + dst_n, d)
         else (src_s + dst_s, d))"

definition UnitTimings9_32 :: "'a dma_nds_scheme \<Rightarrow> bool \<Rightarrow> DMA \<Rightarrow> u32 \<times> DMA" where
  "UnitTimings9_32 n burststart d =
     (let src_id = unat (drop_bit 14 (CurSrcAddr d)); dst_id = unat (drop_bit 14 (CurDstAddr d));
          src_rgn = ARM9Regions n src_id; dst_rgn = ARM9Regions n dst_id;
          src_n = ucast (ARM9MemTimings n src_id 6); src_s = ucast (ARM9MemTimings n src_id 7);
          dst_n = ucast (ARM9MemTimings n dst_id 6); dst_s = ucast (ARM9MemTimings n dst_id 7)
      in if src_rgn = Mem9_MainRAM then
           if dst_rgn = Mem9_MainRAM then (18, d)
           else if sint (SrcAddrInc d) > 0 then
             burst_step
               (if dst_rgn = Mem9_GBAROM then
                    if dst_s = 8 then MRAMRead32Bursts ! 2 else MRAMRead32Bursts ! 3
                  else if dst_n = 2 then MRAMRead32Bursts ! 0 else MRAMRead32Bursts ! 1)
               burststart d
           else ((if CurSrcAddr d AND 0x1F = 0x1C then if dst_n = 2 then 7 else 8 else 9) + (if burststart then dst_n else dst_s), d)
         else if dst_rgn = Mem9_MainRAM then
           if sint (DstAddrInc d) > 0 then
             burst_step
               (if src_rgn = Mem9_GBAROM then
                    if src_s = 8 then MRAMWrite32Bursts ! 2 else MRAMWrite32Bursts ! 3
                  else if src_n = 2 then MRAMWrite32Bursts ! 0 else MRAMWrite32Bursts ! 1)
               burststart d
           else ((if burststart then src_n else src_s) + 8, d)
         else if src_rgn AND dst_rgn \<noteq> 0 then (src_n + dst_n + 1, d)
         else if burststart then (src_n + dst_n, d)
         else (src_s + dst_s, d))"

definition UnitTimings7_16 :: "'a dma_nds_scheme \<Rightarrow> bool \<Rightarrow> DMA \<Rightarrow> u32 \<times> DMA" where
  "UnitTimings7_16 n burststart d =
     (let src_id = unat (drop_bit 15 (CurSrcAddr d)); dst_id = unat (drop_bit 15 (CurDstAddr d));
          src_rgn = ARM7Regions n src_id; dst_rgn = ARM7Regions n dst_id;
          src_n = ucast (ARM7MemTimings n src_id 0); src_s = ucast (ARM7MemTimings n src_id 1);
          dst_n = ucast (ARM7MemTimings n dst_id 0); dst_s = ucast (ARM7MemTimings n dst_id 1)
      in if src_rgn = Mem7_MainRAM then
           if dst_rgn = Mem7_MainRAM then (16, d)
           else if sint (SrcAddrInc d) > 0 then
             burst_step
               (if dst_rgn = Mem7_GBAROM \<or> dst_rgn = Mem7_Wifi0 \<or> dst_rgn = Mem7_Wifi1 then
                    if dst_s = 4 then MRAMRead16Bursts ! 1 else MRAMRead16Bursts ! 2
                  else MRAMRead16Bursts ! 0)
               burststart d
           else ((if CurSrcAddr d AND 0x1F = 0x1E then 7 else 8) + (if burststart then dst_n else dst_s), d)
         else if dst_rgn = Mem7_MainRAM then
           if sint (DstAddrInc d) > 0 then
             burst_step
               (if src_rgn = Mem7_GBAROM \<or> src_rgn = Mem7_Wifi0 \<or> src_rgn = Mem7_Wifi1 then
                    if src_s = 4 then MRAMWrite16Bursts ! 1 else MRAMWrite16Bursts ! 2
                  else MRAMWrite16Bursts ! 0)
               burststart d
           else ((if burststart then src_n else src_s) + 7, d)
         else if src_rgn AND dst_rgn \<noteq> 0 then (src_n + dst_n + 1, d)
         else if burststart then (src_n + dst_n, d)
         else (src_s + dst_s, d))"

definition UnitTimings7_32 :: "'a dma_nds_scheme \<Rightarrow> bool \<Rightarrow> DMA \<Rightarrow> u32 \<times> DMA" where
  "UnitTimings7_32 n burststart d =
     (let src_id = unat (drop_bit 15 (CurSrcAddr d)); dst_id = unat (drop_bit 15 (CurDstAddr d));
          src_rgn = ARM7Regions n src_id; dst_rgn = ARM7Regions n dst_id;
          src_n = ucast (ARM7MemTimings n src_id 2); src_s = ucast (ARM7MemTimings n src_id 3);
          dst_n = ucast (ARM7MemTimings n dst_id 2); dst_s = ucast (ARM7MemTimings n dst_id 3)
      in if src_rgn = Mem7_MainRAM then
           if dst_rgn = Mem7_MainRAM then (18, d)
           else if sint (SrcAddrInc d) > 0 then
             burst_step
               (if dst_rgn = Mem7_GBAROM \<or> dst_rgn = Mem7_Wifi0 \<or> dst_rgn = Mem7_Wifi1 then
                    if dst_s = 8 then MRAMRead32Bursts ! 2 else MRAMRead32Bursts ! 3
                  else if dst_n = 2 then MRAMRead32Bursts ! 0 else MRAMRead32Bursts ! 1)
               burststart d
           else ((if CurSrcAddr d AND 0x1F = 0x1C then if dst_n = 2 then 7 else 8 else 9) + (if burststart then dst_n else dst_s), d)
         else if dst_rgn = Mem7_MainRAM then
           if sint (DstAddrInc d) > 0 then
             burst_step
               (if src_rgn = Mem7_GBAROM \<or> src_rgn = Mem7_Wifi0 \<or> src_rgn = Mem7_Wifi1 then
                    if src_s = 8 then MRAMWrite32Bursts ! 2 else MRAMWrite32Bursts ! 3
                  else if src_n = 2 then MRAMWrite32Bursts ! 0 else MRAMWrite32Bursts ! 1)
               burststart d
           else ((if burststart then src_n else src_s) + 8, d)
         else if src_rgn AND dst_rgn \<noteq> 0 then (src_n + dst_n + 1, d)
         else if burststart then (src_n + dst_n, d)
         else (src_s + dst_s, d))"

section \<open>The patterns are never left\<close>

text \<open>
  What the code relies on: a pattern starts with a nonzero entry and ends in zero, and the
  channel stands at or before a zero of its pattern.
\<close>

definition pattern_ok :: "u8 list \<Rightarrow> bool" where
  "pattern_ok p \<longleftrightarrow> length p = 256 \<and> p ! 0 \<noteq> 0 \<and> p ! 255 = 0"

definition burst_ok :: "DMA \<Rightarrow> bool" where
  "burst_ok d \<longleftrightarrow>
     length (MRAMBurstTable d) = 256 \<and>
     (\<exists>z<256. unat (MRAMBurstCount d) \<le> z \<and> MRAMBurstTable d ! z = 0)"

lemma length_burst [simp]: "length (burst rs) = 256"
  by (simp add: burst_def)

lemma pattern_ok_burst:
  assumes "0 < k" "v \<noteq> 0" "k + sum_list (map fst rs) \<le> 255"
  shows "pattern_ok (burst ((k, v) # rs))"
proof -
  have l: "length (concat (map (\<lambda>(k, v). replicate k (v :: u8)) rs)) = sum_list (map fst rs)"
    by (induction rs) auto
  have "burst ((k, v) # rs) ! 0 = v" using assms(1) by (simp add: burst_def nth_append)
  moreover have "burst ((k, v) # rs) ! 255 = 0"
  proof -
    have "\<not> 255 - k < sum_list (map fst rs)" using assms(3) by linarith
    then show ?thesis using assms(3) by (simp add: burst_def nth_append l)
  qed
  ultimately show ?thesis using assms(2) by (simp add: pattern_ok_def)
qed

lemma patterns_ok [simp]:
  "pattern_ok (MRAMRead16Bursts ! 0)" "pattern_ok (MRAMRead16Bursts ! 1)" "pattern_ok (MRAMRead16Bursts ! 2)"
  "pattern_ok (MRAMRead32Bursts ! 0)" "pattern_ok (MRAMRead32Bursts ! 1)" "pattern_ok (MRAMRead32Bursts ! 2)"
  "pattern_ok (MRAMRead32Bursts ! 3)"
  "pattern_ok (MRAMWrite16Bursts ! 0)" "pattern_ok (MRAMWrite16Bursts ! 1)" "pattern_ok (MRAMWrite16Bursts ! 2)"
  "pattern_ok (MRAMWrite32Bursts ! 0)" "pattern_ok (MRAMWrite32Bursts ! 1)" "pattern_ok (MRAMWrite32Bursts ! 2)"
  "pattern_ok (MRAMWrite32Bursts ! 3)"
  by (simp_all add: MRAMRead16Bursts_def MRAMRead32Bursts_def MRAMWrite16Bursts_def MRAMWrite32Bursts_def
      pattern_ok_burst)

lemma unat_u8_le: "unat (v :: u8) \<le> 255"
  using unsigned_less [of v, where ?'a = nat] by simp

lemma unat_ucast_u8: "unat (ucast (v :: u8) :: u32) = unat v"
  using unat_u8_le [of v] by (simp add: unsigned_ucast_eq take_bit_nat_eq_self)

lemma ucast_u8_pos: "(0 :: u32) < ucast (v :: u8) \<longleftrightarrow> v \<noteq> 0"
  by (auto simp: word_less_nat_alt unat_ucast_u8 unat_gt_0)

text \<open>A step costs something, and stays inside the table.\<close>

lemma burst_step_ok:
  assumes "pattern_ok p" "burst_ok d" "burst_step p bs d = (c, d')"
  shows "0 < c" "c \<le> 255" "burst_ok d'"
proof -
  define e where "e = (if bs \<or> MRAMBurstTable d ! unat (MRAMBurstCount d) = 0
      then d\<lparr>MRAMBurstCount := 0, MRAMBurstTable := p\<rparr> else d)"
  have r: "c = ucast (MRAMBurstTable e ! unat (MRAMBurstCount e))" "d' = e\<lparr>MRAMBurstCount := MRAMBurstCount e + 1\<rparr>"
    using assms(3) by (simp_all add: burst_step_def Let_def e_def)
  have nz: "MRAMBurstTable e ! unat (MRAMBurstCount e) \<noteq> 0" using assms(1) by (auto simp: e_def pattern_ok_def)
  then show "0 < c" by (simp add: r ucast_u8_pos)
  show "c \<le> 255"
    using unat_u8_le [of "MRAMBurstTable e ! unat (MRAMBurstCount e)"] by (simp add: r word_le_nat_alt unat_ucast_u8)
  have "burst_ok e" using assms(1,2) by (auto simp: e_def pattern_ok_def burst_ok_def intro: exI [of _ 255])
  then obtain z where z: "length (MRAMBurstTable e) = 256" "z < 256" "unat (MRAMBurstCount e) \<le> z" "MRAMBurstTable e ! z = 0"
    by (auto simp: burst_ok_def)
  with nz have "unat (MRAMBurstCount e) < z" by (metis le_neq_implies_less)
  then have "unat (MRAMBurstCount e + 1) \<le> z"
    using z(2) unat_plus_simple [of "MRAMBurstCount e" 1] by (simp add: unat_plus_small)
  then show "burst_ok d'" using z by (auto simp: r burst_ok_def)
qed

text \<open>The access times the region tables hold.\<close>

definition times_ok :: "'a dma_nds_scheme \<Rightarrow> bool" where
  "times_ok n \<longleftrightarrow>
     (\<forall>i<0x40000. \<forall>k<8. ARM9MemTimings n i k \<noteq> 0) \<and> (\<forall>i<0x20000. \<forall>k<4. ARM7MemTimings n i k \<noteq> 0)"

text \<open>The two kinds of cost of a unit: the sum of two access times and a constant, or a burst.\<close>

lemma sum_ok:
  assumes "(v :: u8) \<noteq> 0" "k \<le> (20 :: u32)"
  shows "0 < ucast v + k" "ucast v + k \<le> 530"
    "0 < ucast v + ucast (w :: u8) + k" "ucast v + ucast w + k \<le> 530"
proof -
  note b = unat_u8_le [of v] unat_u8_le [of w]
  have k: "unat k \<le> 20" using assms(2) by (simp add: word_le_nat_alt)
  have v: "0 < unat v" using assms(1) by (simp add: unat_gt_0)
  have "unat (ucast v + k) = unat v + unat k"
    using b k by (subst unat_plus_small) (simp_all add: unat_ucast_u8)
  moreover have vw: "unat (ucast v + ucast w :: u32) = unat v + unat w"
    using b by (subst unat_plus_small) (simp_all add: unat_ucast_u8)
  moreover have "unat (ucast v + ucast w + k) = unat v + unat w + unat k"
    using b k vw by (subst unat_plus_small) simp_all
  ultimately show "0 < ucast v + k" "ucast v + k \<le> 530"
    "0 < ucast v + ucast (w :: u8) + k" "ucast v + ucast w + k \<le> 530"
    using b k v by (simp_all add: word_less_nat_alt word_le_nat_alt)
qed

lemma burst_step_ok':
  assumes "pattern_ok p" "burst_ok d"
  shows "0 < fst (burst_step p bs d) \<and> fst (burst_step p bs d) \<le> 530 \<and> burst_ok (snd (burst_step p bs d))"
  using burst_step_ok [OF assms, of bs "fst (burst_step p bs d)" "snd (burst_step p bs d)"]
  by (auto intro: order_trans [of _ 255])

lemma page_lt: "unat (drop_bit 14 (a :: u32)) < 0x40000" "unat (drop_bit 15 a) < 0x20000"
  using unsigned_less [of a, where ?'a = nat]
  by (simp_all only: unsigned_drop_bit_eq)
    (simp_all add: take_bit_nat_eq_self drop_bit_eq_div div_less_iff_less_mult)

definition cost_ok :: "u32 \<times> DMA \<Rightarrow> bool" where
  "cost_ok r \<longleftrightarrow> 0 < fst r \<and> fst r \<le> 530 \<and> burst_ok (snd r)"

lemma cost_ok_if: "(P \<Longrightarrow> cost_ok a) \<Longrightarrow> (\<not> P \<Longrightarrow> cost_ok b) \<Longrightarrow> cost_ok (if P then a else b)"
  by simp

lemma pattern_ok_if: "(P \<Longrightarrow> pattern_ok a) \<Longrightarrow> (\<not> P \<Longrightarrow> pattern_ok b) \<Longrightarrow> pattern_ok (if P then a else b)"
  by simp

lemma cost_ok_burst: "burst_ok d \<Longrightarrow> pattern_ok p \<Longrightarrow> cost_ok (burst_step p bs d)"
  using burst_step_ok' by (simp add: cost_ok_def)

lemma cost_ok_pair: "burst_ok d \<Longrightarrow> 0 < c \<and> c \<le> 530 \<Longrightarrow> cost_ok (c, d)"
  by (simp add: cost_ok_def)

lemmas cost_ok_intros = cost_ok_if cost_ok_burst cost_ok_pair pattern_ok_if patterns_ok

lemma UnitTimings_cost_ok:
  assumes "burst_ok d" "times_ok n"
  shows "cost_ok (UnitTimings9_16 n bs d)" "cost_ok (UnitTimings9_32 n bs d)"
    "cost_ok (UnitTimings7_16 n bs d)" "cost_ok (UnitTimings7_32 n bs d)"
proof -
  have t9: "ARM9MemTimings n (unat (drop_bit 14 a)) k \<noteq> 0" if "k < 8" for a :: u32 and k
    using assms(2) page_lt(1) [of a] that by (simp add: times_ok_def)
  have t7: "ARM7MemTimings n (unat (drop_bit 15 a)) k \<noteq> 0" if "k < 4" for a :: u32 and k
    using assms(2) page_lt(2) [of a] that by (simp add: times_ok_def)
  note s = sum_ok [OF t9] sum_ok [OF t7] sum_ok(3,4) [OF t9, where k = 0, simplified] sum_ok(3,4) [OF t7, where k = 0, simplified]
  note s' = sum_ok(1,2) [OF t9, unfolded add.commute [of "ucast x" for x]]
    sum_ok(1,2) [OF t7, unfolded add.commute [of "ucast x" for x]]
  show "cost_ok (UnitTimings9_16 n bs d)" unfolding UnitTimings9_16_def Let_def
    by (intro cost_ok_intros assms(1)) (simp_all add: s s')
  show "cost_ok (UnitTimings9_32 n bs d)" unfolding UnitTimings9_32_def Let_def
    by (intro cost_ok_intros assms(1)) (simp_all add: s s')
  show "cost_ok (UnitTimings7_16 n bs d)" unfolding UnitTimings7_16_def Let_def
    by (intro cost_ok_intros assms(1)) (simp_all add: s s')
  show "cost_ok (UnitTimings7_32 n bs d)" unfolding UnitTimings7_32_def Let_def
    by (intro cost_ok_intros assms(1)) (simp_all add: s s')
qed

text \<open>The tables hold no zero: \<^verbatim>\<open>InitTimings\<close> fills them whole, and the later changes keep them so.\<close>

definition times9_ok :: "'a dma_nds_scheme \<Rightarrow> bool" where
  "times9_ok n \<longleftrightarrow> (\<forall>i<0x40000. \<forall>k<8. ARM9MemTimings n i k \<noteq> 0)"

definition times7_ok :: "'a dma_nds_scheme \<Rightarrow> bool" where
  "times7_ok n \<longleftrightarrow> (\<forall>i<0x20000. \<forall>k<4. ARM7MemTimings n i k \<noteq> 0)"

lemma times_ok_iff: "times_ok n \<longleftrightarrow> times9_ok n \<and> times7_ok n"
  by (simp add: times_ok_def times9_ok_def times7_ok_def)

lemma of_nat_u8_nz: "0 < v \<Longrightarrow> v < 256 \<Longrightarrow> (of_nat v :: u8) \<noteq> 0"
  by (simp add: word_of_nat_eq_0_iff nat_dvd_not_less)

lemma Set9_row:
  assumes "0 < N" "N \<le> 20" "0 < S" "S \<le> 20" "k < 8" "c \<le> 3" "N' \<in> {N, N + S}" "S' \<in> {S, S + S}"
  shows "(of_nat ([N + c, S, N' + c, S', N, S, N', S'] ! k) :: u8) \<noteq> 0"
proof -
  have "k \<in> {0, 1, 2, 3, 4, 5, 6, 7}" using assms(5) by auto
  then show ?thesis using assms by (intro of_nat_u8_nz) auto
qed

lemma Set7_row:
  assumes "0 < N" "N \<le> 20" "0 < S" "S \<le> 20" "k < 4" "N' \<in> {N, N + S}" "S' \<in> {S, S + S}"
  shows "(of_nat ([N, S, N', S'] ! k) :: u8) \<noteq> 0"
proof -
  have "k \<in> {0, 1, 2, 3}" using assms(5) by auto
  then show ?thesis using assms by (intro of_nat_u8_nz) auto
qed

lemma times_Set9:
  assumes "0 < N" "N \<le> 20" "0 < S" "S \<le> 20"
  shows "times9_ok n \<or> a div 4 = 0 \<and> b div 4 = 0x40000 \<Longrightarrow> times9_ok (SetARM9RegionTimings a b r w N S n)"
    and "times7_ok (SetARM9RegionTimings a b r w N S n) = times7_ok n"
  using Set9_row [OF assms] Set9_row [OF assms, where c = 0, simplified] by (auto simp: times9_ok_def times7_ok_def SetARM9RegionTimings_def Let_def)

lemma times_Set7:
  assumes "0 < N" "N \<le> 20" "0 < S" "S \<le> 20"
  shows "times7_ok n \<or> a div 8 = 0 \<and> b div 8 = 0x20000 \<Longrightarrow> times7_ok (SetARM7RegionTimings a b r w N S n)"
    and "times9_ok (SetARM7RegionTimings a b r w N S n) = times9_ok n"
  using Set7_row [OF assms] by (auto simp: times9_ok_def times7_ok_def SetARM7RegionTimings_def Let_def)

lemma times_InitTimings: "times_ok (InitTimings n)"
  by (simp add: times_ok_iff InitTimings_def Let_def times_Set9 times_Set7)

lemma ntimings_bounds: "ntimings ! unat (v AND 0x3 :: u16) \<le> 20" "0 < ntimings ! unat (v AND 0x3)"
proof -
  have "unat (v AND mask 2) < 4" by (simp only: unat_and_mask) simp
  then have "unat (v AND 0x3) \<in> {0, 1, 2, 3}" by (auto simp: mask_eq_exp_minus_1)
  then show "ntimings ! unat (v AND 0x3 :: u16) \<le> 20" "0 < ntimings ! unat (v AND 0x3)"
    by (auto simp: ntimings_def)
qed

lemma times_UpdateWifiTimings: "times_ok n \<Longrightarrow> times_ok (UpdateWifiTimings n)"
  by (simp add: times_ok_iff UpdateWifiTimings_def Let_def times_Set7 ntimings_bounds)

lemma times_SetWifiWaitCnt: "times_ok n \<Longrightarrow> times_ok (SetWifiWaitCnt v n)"
  using times_UpdateWifiTimings [of "n\<lparr>WifiWaitCnt := v\<rparr>"]
  by (auto simp: SetWifiWaitCnt_def times_ok_iff times9_ok_def times7_ok_def)

lemma times_SetGBASlotTimings: "times_ok n \<Longrightarrow> times_ok (SetGBASlotTimings n)"
proof -
  have f: "times9_ok (m\<lparr>OpenBusDecay := v\<rparr>) = times9_ok m" "times7_ok (m\<lparr>OpenBusDecay := v\<rparr>) = times7_ok m"
    for m :: "'a dma_nds_scheme" and v by (simp_all add: times9_ok_def times7_ok_def)
  assume "times_ok n"
  then show ?thesis by (simp add: times_ok_iff SetGBASlotTimings_def Let_def f times_Set9 times_Set7 ntimings_bounds)
qed

section \<open>Properties\<close>

text \<open>
  C26: the burst patterns are read inside their bounds and time passes. Once the region
  tables are initialised, whatever the settings of the GBA slot and of the wireless
  interface, the cost that any of the four \<^verbatim>\<open>UnitTimings\<close> functions gives for a unit is
  positive and small, the pattern is indexed inside its 256 entries, and the channel still
  stands at or before the zero that ends its pattern.
\<close>

theorem UnitTimings_in_bounds:
  assumes "burst_ok d"
    and "n = SetGBASlotTimings (SetWifiWaitCnt v (InitTimings n0)\<lparr>ExMemCnt := x\<rparr>)"
    and "f \<in> {UnitTimings9_16 n, UnitTimings9_32 n, UnitTimings7_16 n, UnitTimings7_32 n}"
  shows "unat (MRAMBurstCount d) < length (MRAMBurstTable d) \<and>
    0 < fst (f bs d) \<and> fst (f bs d) \<le> 530 \<and> burst_ok (snd (f bs d))"
proof -
  have "times_ok (SetWifiWaitCnt v (InitTimings n0))" by (intro times_SetWifiWaitCnt times_InitTimings)
  then have "times_ok (SetWifiWaitCnt v (InitTimings n0)\<lparr>ExMemCnt := x\<rparr>)"
    by (simp add: times_ok_def)
  then have t: "times_ok n" unfolding assms(2) by (rule times_SetGBASlotTimings)
  have "cost_ok (f bs d)" using assms(3) UnitTimings_cost_ok [OF assms(1) t, of bs] by auto
  then show ?thesis using assms(1) by (auto simp: cost_ok_def burst_ok_def)
qed

text \<open>A channel at rest: the witness takes its first unit from main RAM to video memory.\<close>

definition DMA_zero :: "nat \<Rightarrow> nat \<Rightarrow> DMA" where
  "DMA_zero cpu num =
     \<lparr>SrcAddr = 0, DstAddr = 0, DMACnt = 0, CPU = cpu, Num = num, StartMode = 0, CurSrcAddr = 0, CurDstAddr = 0,
      RemCount = 0, IterCount = 0, SrcAddrInc = 0, DstAddrInc = 0,
      CountMask = (if cpu = 0 then 0x001FFFFF else if num = 3 then 0x0000FFFF else 0x00003FFF),
      Running = 0, InProgress = False, Executing = False, Stall = False, IsGXFIFODMA = False,
      MRAMBurstCount = 0, MRAMBurstTable = MRAMDummy\<rparr>"

definition dma_init :: dma_nds where
  "dma_init = bus_nds.extend bus_reset
     \<lparr>DMAs = (\<lambda>i. DMA_zero (i div 4) (i mod 4)), ARM9Regions = (\<lambda>_. 0), ARM9MemTimings = (\<lambda>_ _. 0),
      ARM7Regions = (\<lambda>_. 0), ARM7MemTimings = (\<lambda>_ _. 0), WifiWaitCnt = 0xFFFF, OpenBusDecay = 0\<rparr>"

lemma burst_ok_zero: "burst_ok (DMA_zero cpu num)"
  by (simp add: burst_ok_def DMA_zero_def MRAMDummy_def) (rule exI [of _ 0], simp)

lemma burst_ok_addresses [simp]:
  "burst_ok (d\<lparr>CurSrcAddr := a\<rparr>) = burst_ok d" "burst_ok (d\<lparr>CurDstAddr := a\<rparr>) = burst_ok d"
  "burst_ok (d\<lparr>SrcAddrInc := a\<rparr>) = burst_ok d"
  by (simp_all add: burst_ok_def)

theorem UnitTimings_in_bounds_witness:
  "0 < fst (UnitTimings9_32 (SetGBASlotTimings (SetWifiWaitCnt 0x30 (InitTimings dma_init)\<lparr>ExMemCnt := (\<lambda>_. 0x4000)\<rparr>)) True
     ((DMA_zero 0 3)\<lparr>CurSrcAddr := 0x02000000, CurDstAddr := 0x06800000, SrcAddrInc := 1\<rparr>))"
  using UnitTimings_in_bounds [OF _ refl, where f = "UnitTimings9_32 (SetGBASlotTimings
        (SetWifiWaitCnt 0x30 (InitTimings dma_init)\<lparr>ExMemCnt := (\<lambda>_. 0x4000)\<rparr>))"
      and d = "(DMA_zero 0 3)\<lparr>CurSrcAddr := 0x02000000, CurDstAddr := 0x06800000, SrcAddrInc := 1\<rparr>"
      and bs = True and v = "0x30" and x = "\<lambda>_. 0x4000" and ?n0.0 = dma_init]
  by (simp add: burst_ok_zero)

end
