(* ===== verification/Dma.thy ===== *)
theory Dma
  imports Dma_Timings
begin

text \<open>
  The DMA channels of \<^verbatim>\<open>src/src/DMA.cpp\<close> and \<^verbatim>\<open>src/src/DMA.h\<close>: four per processor, numbers 0 to 3
  for the ARM9 and 4 to 7 for the ARM7. A channel copies units of 16 or 32 bits over the
  bus of its processor, which is stopped meanwhile; it runs until the processor's time
  slice is used up, and goes on in the next one.
\<close>

section \<open>Channels\<close>

definition upd_dma :: "nat \<Rightarrow> (DMA \<Rightarrow> DMA) \<Rightarrow> 'a dma_nds_scheme \<Rightarrow> 'a dma_nds_scheme" where
  "upd_dma i f n = n\<lparr>DMAs := (DMAs n)(i := f (DMAs n i))\<rparr>"

definition IRQ_DMA0 :: nat where "IRQ_DMA0 = 8"

definition DMA_Reset :: "DMA \<Rightarrow> DMA" where
  "DMA_Reset d =
     d\<lparr>SrcAddr := 0, DstAddr := 0, DMACnt := 0, StartMode := 0, CurSrcAddr := 0, CurDstAddr := 0,
       RemCount := 0, IterCount := 0, SrcAddrInc := 0, DstAddrInc := 0, Stall := False, Running := 0,
       Executing := False, InProgress := False, MRAMBurstCount := 0, MRAMBurstTable := MRAMDummy\<rparr>"

definition IsInMode :: "u32 \<Rightarrow> DMA \<Rightarrow> bool" where
  "IsInMode mode d \<longleftrightarrow> mode = StartMode d \<and> DMACnt d AND 0x80000000 \<noteq> 0"

definition IsRunning :: "DMA \<Rightarrow> bool" where
  "IsRunning d \<longleftrightarrow> Running d \<noteq> 0"

definition StopIfNeeded :: "u32 \<Rightarrow> DMA \<Rightarrow> DMA" where
  "StopIfNeeded mode d = (if mode = StartMode d then d\<lparr>DMACnt := DMACnt d AND NOT 0x80000000\<rparr> else d)"

definition DMA_StallIfRunning :: "DMA \<Rightarrow> DMA" where
  "DMA_StallIfRunning d = (if Executing d then d\<lparr>Stall := True\<rparr> else d)"

section \<open>Starting\<close>

text \<open>The mask of the unit count; a count of zero stands for the largest one.\<close>

definition countmask :: "DMA \<Rightarrow> u32" where
  "countmask d = (if CPU d = 0 then 0x001FFFFF else if Num d = 3 then 0x0000FFFF else 0x00003FFF)"

definition start_channel :: "DMA \<Rightarrow> DMA" where
  "start_channel d =
     (let d = (if \<not> InProgress d then
                 d\<lparr>RemCount := (if DMACnt d AND countmask d = 0 then countmask d + 1 else DMACnt d AND countmask d)\<rparr>
               else d);
          d = d\<lparr>IterCount := (if StartMode d = 0x07 \<and> RemCount d > 112 then 112 else RemCount d)\<rparr>;
          d = (if DMACnt d AND 0x01800000 = 0x01800000 then d\<lparr>CurSrcAddr := SrcAddr d\<rparr> else d);
          d = (if DMACnt d AND 0x00600000 = 0x00600000 then d\<lparr>CurDstAddr := DstAddr d\<rparr> else d)
      in d\<lparr>IsGXFIFODMA := (CPU d = 0 \<and> drop_bit 24 (CurSrcAddr d) = 0x02 \<and> CurDstAddr d = 0x04000400 \<and>
                           DstAddrInc d = 0),
           Running := 2, MRAMBurstTable := MRAMDummy, InProgress := True\<rparr>)"

definition DMA_Start :: "nat \<Rightarrow> 'a dma_nds_scheme \<Rightarrow> 'a dma_nds_scheme" where
  "DMA_Start i n =
     (if Running (DMAs n i) \<noteq> 0 then n
      else let n = upd_dma i start_channel n in StopCPU (CPU (DMAs n i)) (bitm (Num (DMAs n i))) n)"

definition StartIfNeeded :: "u32 \<Rightarrow> nat \<Rightarrow> 'a dma_nds_scheme \<Rightarrow> 'a dma_nds_scheme" where
  "StartIfNeeded mode i n = (if IsInMode mode (DMAs n i) then DMA_Start i n else n)"

text \<open>The four channels of a processor, \<^verbatim>\<open>src/src/NDS.cpp\<close>.\<close>

definition DMAsInMode :: "nat \<Rightarrow> u32 \<Rightarrow> 'a dma_nds_scheme \<Rightarrow> bool" where
  "DMAsInMode cpu mode n \<longleftrightarrow>
     IsInMode mode (DMAs n (4 * cpu + 0)) \<or> IsInMode mode (DMAs n (4 * cpu + 1)) \<or>
     IsInMode mode (DMAs n (4 * cpu + 2)) \<or> IsInMode mode (DMAs n (4 * cpu + 3))"

definition DMAsRunning :: "nat \<Rightarrow> 'a dma_nds_scheme \<Rightarrow> bool" where
  "DMAsRunning cpu n \<longleftrightarrow>
     IsRunning (DMAs n (4 * cpu + 0)) \<or> IsRunning (DMAs n (4 * cpu + 1)) \<or>
     IsRunning (DMAs n (4 * cpu + 2)) \<or> IsRunning (DMAs n (4 * cpu + 3))"

definition CheckDMAs :: "nat \<Rightarrow> u32 \<Rightarrow> 'a dma_nds_scheme \<Rightarrow> 'a dma_nds_scheme" where
  "CheckDMAs cpu mode n =
     StartIfNeeded mode (4 * cpu + 3) (StartIfNeeded mode (4 * cpu + 2)
       (StartIfNeeded mode (4 * cpu + 1) (StartIfNeeded mode (4 * cpu + 0) n)))"

definition StopDMAs :: "nat \<Rightarrow> u32 \<Rightarrow> 'a dma_nds_scheme \<Rightarrow> 'a dma_nds_scheme" where
  "StopDMAs cpu mode n =
     upd_dma (4 * cpu + 3) (StopIfNeeded mode) (upd_dma (4 * cpu + 2) (StopIfNeeded mode)
       (upd_dma (4 * cpu + 1) (StopIfNeeded mode) (upd_dma (4 * cpu + 0) (StopIfNeeded mode) n)))"

text \<open>\<^verbatim>\<open>GPU3D::CheckFIFODMA\<close>: the geometry queue is less than half full.\<close>

definition CheckFIFODMA :: "'a dma_nds_scheme \<Rightarrow> 'a dma_nds_scheme" where
  "CheckFIFODMA n = (if CmdFIFO_Level n < 128 then CheckDMAs 0 0x07 n else n)"

definition addr_inc :: "u32 \<Rightarrow> u32" where
  "addr_inc m = (if m = 0 then 1 else if m = 1 then - 1 else if m = 2 then 0 else 1)"

definition enable_channel :: "DMA \<Rightarrow> DMA" where
  "enable_channel d =
     d\<lparr>CurSrcAddr := SrcAddr d, CurDstAddr := DstAddr d,
       DstAddrInc := addr_inc (drop_bit 21 (DMACnt d) AND 3),
       SrcAddrInc := addr_inc (drop_bit 23 (DMACnt d) AND 3),
       StartMode := (if CPU d = 0 then drop_bit 27 (DMACnt d) AND 0x7 else (drop_bit 28 (DMACnt d) AND 0x3) OR 0x10)\<rparr>"

definition WriteCnt :: "nat \<Rightarrow> u32 \<Rightarrow> 'a dma_nds_scheme \<Rightarrow> 'a dma_nds_scheme" where
  "WriteCnt i val n =
     (let oldcnt = DMACnt (DMAs n i); n = upd_dma i (\<lambda>d. d\<lparr>DMACnt := val\<rparr>) n
      in if oldcnt AND 0x80000000 = 0 \<and> val AND 0x80000000 \<noteq> 0 then
           let n = upd_dma i enable_channel n
           in if StartMode (DMAs n i) AND 0x7 = 0 then DMA_Start i n
              else if StartMode (DMAs n i) = 0x07 then CheckFIFODMA n
              else n
         else n)"

section \<open>Running\<close>

text \<open>
  One unit: its cost is added to the processor's time, the unit is read and written, and the
  addresses and counts advance. \<open>tm\<close> is the cost, \<open>adv\<close> adds it to the right timestamp, \<open>sh\<close> is
  the logarithm of the size of a unit.
\<close>

definition advance :: "nat \<Rightarrow> DMA \<Rightarrow> DMA" where
  "advance sh d =
     d\<lparr>CurSrcAddr := CurSrcAddr d + push_bit sh (SrcAddrInc d), CurDstAddr := CurDstAddr d + push_bit sh (DstAddrInc d),
       IterCount := IterCount d - 1, RemCount := RemCount d - 1\<rparr>"

definition dma_unit ::
  "('a dma_nds_scheme \<Rightarrow> bool \<Rightarrow> DMA \<Rightarrow> u32 \<times> DMA) \<Rightarrow> (u32 \<Rightarrow> 'a dma_nds_scheme \<Rightarrow> 'a dma_nds_scheme) \<Rightarrow>
   (u32 \<Rightarrow> 'a dma_nds_scheme \<Rightarrow> 'w::len word \<times> 'a dma_nds_scheme) \<Rightarrow>
   (u32 \<Rightarrow> 'w word \<Rightarrow> 'a dma_nds_scheme \<Rightarrow> 'a dma_nds_scheme) \<Rightarrow> nat \<Rightarrow> nat \<Rightarrow> bool \<Rightarrow>
   'a dma_nds_scheme \<Rightarrow> 'a dma_nds_scheme" where
  "dma_unit tm adv rd wr sh i burststart n =
     (let (cycles, d) = tm n burststart (DMAs n i);
          n = adv cycles (upd_dma i (\<lambda>_. d) n);
          (val, n) = rd (CurSrcAddr (DMAs n i)) n;
          n = wr (CurDstAddr (DMAs n i)) val n
      in upd_dma i (advance sh) n)"

definition adv9 :: "u32 \<Rightarrow> 'a dma_nds_scheme \<Rightarrow> 'a dma_nds_scheme" where
  "adv9 cycles n = n\<lparr>ARM9Timestamp := ARM9Timestamp n + ucast (push_bit (unat (ARM9ClockShift n)) cycles)\<rparr>"

definition adv7 :: "u32 \<Rightarrow> 'a dma_nds_scheme \<Rightarrow> 'a dma_nds_scheme" where
  "adv7 cycles n = n\<lparr>ARM7Timestamp := ARM7Timestamp n + ucast cycles\<rparr>"

text \<open>
  The loop over the units. A device that a unit reaches may change any part of the console,
  the channel included, so the loop is a partial function: not returning is \<open>None\<close>.
\<close>

partial_function (option) dma_loop ::
  "(bool \<Rightarrow> 'a dma_nds_scheme \<Rightarrow> 'a dma_nds_scheme) \<Rightarrow> ('a dma_nds_scheme \<Rightarrow> bool) \<Rightarrow> nat \<Rightarrow> bool \<Rightarrow>
   'a dma_nds_scheme \<Rightarrow> 'a dma_nds_scheme option" where
  "dma_loop unit time_up i burststart n =
     (if IterCount (DMAs n i) > 0 \<and> \<not> Stall (DMAs n i) then
        let n = unit burststart n
        in if time_up n then Some n else dma_loop unit time_up i False n
      else Some n)"

definition time_up9 :: "'a dma_nds_scheme \<Rightarrow> bool" where
  "time_up9 n \<longleftrightarrow> ARM9Timestamp n \<ge> ARM9Target n"

definition time_up7 :: "'a dma_nds_scheme \<Rightarrow> bool" where
  "time_up7 n \<longleftrightarrow> ARM7Timestamp n \<ge> ARM7Target n"

definition units9 ::
  "'a dma_nds_scheme devices \<Rightarrow> nat \<Rightarrow> bool \<Rightarrow> 'a dma_nds_scheme \<Rightarrow> 'a dma_nds_scheme option" where
  "units9 dev i burststart n =
     (if \<not> bit (DMACnt (DMAs n i)) 26
      then dma_loop (dma_unit UnitTimings9_16 adv9 (ARM9Read16 dev) (ARM9Write16 dev) 1 i) time_up9 i burststart n
      else dma_loop (dma_unit UnitTimings9_32 adv9 (ARM9Read32 dev) (ARM9Write32 dev) 2 i) time_up9 i burststart n)"

definition units7 ::
  "'a dma_nds_scheme devices \<Rightarrow> nat \<Rightarrow> bool \<Rightarrow> 'a dma_nds_scheme \<Rightarrow> 'a dma_nds_scheme option" where
  "units7 dev i burststart n =
     (if \<not> bit (DMACnt (DMAs n i)) 26
      then dma_loop (dma_unit UnitTimings7_16 adv7 (ARM7Read16 dev) (ARM7Write16 dev) 1 i) time_up7 i burststart n
      else dma_loop (dma_unit UnitTimings7_32 adv7 (ARM7Read32 dev) (ARM7Write32 dev) 2 i) time_up7 i burststart n)"

text \<open>What both functions do after the loop; only the ARM9 feeds the geometry queue.\<close>

definition finish :: "nat \<Rightarrow> nat \<Rightarrow> 'a dma_nds_scheme \<Rightarrow> 'a dma_nds_scheme" where
  "finish cpu i n =
     (let n = upd_dma i (\<lambda>d. d\<lparr>Executing := False, Stall := False\<rparr>) n; d = DMAs n i
      in if RemCount d \<noteq> 0 then
           if IterCount d = 0 then
             let n = ResumeCPU cpu (bitm (Num d)) (upd_dma i (\<lambda>d. d\<lparr>Running := 0\<rparr>) n)
             in if cpu = 0 \<and> StartMode d = 0x07 then CheckFIFODMA n else n
           else n
         else
           let n = (if \<not> bit (DMACnt d) 25 then upd_dma i (\<lambda>d. d\<lparr>DMACnt := DMACnt d AND NOT 0x80000000\<rparr>) n else n);
               n = (if bit (DMACnt d) 30 then SetIRQ cpu (IRQ_DMA0 + Num d) n else n)
           in ResumeCPU cpu (bitm (Num d)) (upd_dma i (\<lambda>d. d\<lparr>Running := 0, InProgress := False\<rparr>) n))"

definition Run9 :: "'a dma_nds_scheme devices \<Rightarrow> nat \<Rightarrow> 'a dma_nds_scheme \<Rightarrow> 'a dma_nds_scheme option" where
  "Run9 dev i n =
     (if ARM9Timestamp n \<ge> ARM9Target n then Some n
      else
        map_option (finish 0 i)
          (units9 dev i (Running (DMAs n i) = 2) (upd_dma i (\<lambda>d. d\<lparr>Executing := True, Running := 1\<rparr>) n)))"

definition Run7 :: "'a dma_nds_scheme devices \<Rightarrow> nat \<Rightarrow> 'a dma_nds_scheme \<Rightarrow> 'a dma_nds_scheme option" where
  "Run7 dev i n =
     (if ARM7Timestamp n \<ge> ARM7Target n then Some n
      else
        map_option (finish 1 i)
          (units7 dev i (Running (DMAs n i) = 2) (upd_dma i (\<lambda>d. d\<lparr>Executing := True, Running := 1\<rparr>) n)))"

definition DMA_Run :: "'a dma_nds_scheme devices \<Rightarrow> nat \<Rightarrow> 'a dma_nds_scheme \<Rightarrow> 'a dma_nds_scheme option" where
  "DMA_Run dev i n =
     (if Running (DMAs n i) = 0 then Some n
      else if CPU (DMAs n i) = 0 then Run9 dev i n else Run7 dev i n)"

end
