(* ===== verification/Dma_Transfer.thy ===== *)
theory Dma_Transfer
  imports Dma
begin

text \<open>
  What a DMA transfer does: however the time slices of the processor cut it, it performs the
  copies of its units one after the other, each once, and then signals the end. The laws the
  channels rely on are a locale of the bus; both buses of the console satisfy it in both
  widths, for every address that does not lead to a device.
\<close>

section \<open>The rest of the console\<close>

text \<open>
  \<open>core\<close> blanks what the channels and their completion change: the channels, the times, and
  the interrupt and stop state. What is left holds all memory.
\<close>

definition core :: "'a dma_nds_scheme \<Rightarrow> 'a dma_nds_scheme" where
  "core n =
     n\<lparr>DMAs := (\<lambda>_. DMA_zero 0 0), ARM9Timestamp := 0, ARM7Timestamp := 0, ARM9Target := 0, ARM7Target := 0,
       IF := (\<lambda>_. 0), IRQ_line := (\<lambda>_. False), CPUStop := 0, Halted := (\<lambda>_. 0), Ext := []\<rparr>"

lemma core_simps [simp]:
  "core (n\<lparr>DMAs := x\<rparr>) = core n" "core (n\<lparr>ARM9Timestamp := t\<rparr>) = core n" "core (n\<lparr>ARM7Timestamp := t\<rparr>) = core n"
  "core (n\<lparr>ARM9Target := t\<rparr>) = core n" "core (n\<lparr>ARM7Target := t\<rparr>) = core n"
  "core (n\<lparr>IF := i\<rparr>) = core n" "core (n\<lparr>IRQ_line := l\<rparr>) = core n" "core (n\<lparr>CPUStop := c\<rparr>) = core n"
  "core (n\<lparr>Halted := h\<rparr>) = core n" "core (n\<lparr>Ext := e\<rparr>) = core n"
  by (simp_all add: core_def)

lemma core_upd_dma [simp]: "core (upd_dma i f n) = core n"
  by (simp add: upd_dma_def)

lemma core_calls [simp]:
  "core (SetIRQ cpu irq n) = core n" "core (ResumeCPU cpu m n) = core n" "core (StopCPU cpu m n) = core n"
  by (simp_all add: SetIRQ_def UpdateIRQ_def ext_def ResumeCPU_def StopCPU_def Halt_def Let_def)

lemma core_Start [simp]: "core (DMA_Start i n) = core n"
  by (simp add: DMA_Start_def Let_def)

lemma core_StartIfNeeded [simp]: "core (StartIfNeeded mode i n) = core n"
  by (simp add: StartIfNeeded_def)

lemma core_CheckDMAs [simp]: "core (CheckDMAs cpu mode n) = core n" "core (CheckFIFODMA n) = core n"
  by (simp_all add: CheckFIFODMA_def, simp_all add: CheckDMAs_def)

lemma core_if: "core (if P then a else b) = (if P then core a else core b)"
  by simp

lemma core_finish [simp]: "core (finish cpu i n) = core n"
  by (simp only: finish_def Let_def core_if core_upd_dma core_calls core_CheckDMAs if_cancel)

text \<open>The copy of one unit after the other, \<open>si\<close> and \<open>di\<close> bytes apart.\<close>

fun copy_units :: "(u32 \<Rightarrow> u32 \<Rightarrow> 's \<Rightarrow> 's) \<Rightarrow> u32 \<Rightarrow> u32 \<Rightarrow> nat \<Rightarrow> u32 \<Rightarrow> u32 \<Rightarrow> 's \<Rightarrow> 's" where
  "copy_units cp si di 0 src dst n = n"
| "copy_units cp si di (Suc k) src dst n = copy_units cp si di k (src + si) (dst + di) (cp src dst n)"

lemma copy_units_add:
  "copy_units cp si di (k + l) src dst n =
   copy_units cp si di l (src + of_nat k * si) (dst + of_nat k * di) (copy_units cp si di k src dst n)"
  by (induction k arbitrary: src dst n) (simp_all add: algebra_simps)

text \<open>The channel \<open>k\<close> units on.\<close>

definition advance_by :: "nat \<Rightarrow> nat \<Rightarrow> DMA \<Rightarrow> DMA" where
  "advance_by sh k d =
     d\<lparr>CurSrcAddr := CurSrcAddr d + of_nat k * push_bit sh (SrcAddrInc d),
       CurDstAddr := CurDstAddr d + of_nat k * push_bit sh (DstAddrInc d),
       IterCount := IterCount d - of_nat k, RemCount := RemCount d - of_nat k\<rparr>"

lemma advance_by_0 [simp]: "advance_by sh 0 d = d"
  by (cases d) (simp add: advance_by_def)

lemma advance_by_Suc: "advance_by sh k (advance sh d) = advance_by sh (Suc k) d"
  by (simp add: advance_by_def advance_def algebra_simps)

definition with_burst :: "u32 \<times> u8 list \<Rightarrow> DMA \<Rightarrow> DMA" where
  "with_burst b d = d\<lparr>MRAMBurstCount := fst b, MRAMBurstTable := snd b\<rparr>"

lemma with_burst_simps [simp]:
  "CurSrcAddr (with_burst b d) = CurSrcAddr d" "CurDstAddr (with_burst b d) = CurDstAddr d"
  "SrcAddrInc (with_burst b d) = SrcAddrInc d" "DstAddrInc (with_burst b d) = DstAddrInc d"
  "IterCount (with_burst b d) = IterCount d" "RemCount (with_burst b d) = RemCount d" "Stall (with_burst b d) = Stall d"
  "with_burst b (with_burst c d) = with_burst b d"
  "advance sh (with_burst b d) = with_burst b (advance sh d)"
  "advance_by sh k (with_burst b d) = with_burst b (advance_by sh k d)"
  by (simp_all add: with_burst_def advance_def advance_by_def)

lemma with_burst_same: "with_burst (MRAMBurstCount d, MRAMBurstTable d) d = d"
  by (simp add: with_burst_def)

lemma advance_simps [simp]:
  "CurSrcAddr (advance sh d) = CurSrcAddr d + push_bit sh (SrcAddrInc d)"
  "CurDstAddr (advance sh d) = CurDstAddr d + push_bit sh (DstAddrInc d)"
  "SrcAddrInc (advance sh d) = SrcAddrInc d" "DstAddrInc (advance sh d) = DstAddrInc d" "Stall (advance sh d) = Stall d"
  "IterCount (advance sh d) = IterCount d - 1" "RemCount (advance sh d) = RemCount d - 1"
  by (simp_all add: advance_def)

section \<open>The bus as the channels see it\<close>

locale dma_bus =
  fixes rd :: "u32 \<Rightarrow> 'a dma_nds_scheme \<Rightarrow> 'w::len word \<times> 'a dma_nds_scheme"
    and wr :: "u32 \<Rightarrow> 'w word \<Rightarrow> 'a dma_nds_scheme \<Rightarrow> 'a dma_nds_scheme"
    and plain :: "u32 \<Rightarrow> bool"
  assumes rd_pure: "plain a \<Longrightarrow> snd (rd a n) = n"
    and rd_core: "plain a \<Longrightarrow> fst (rd a (core n)) = fst (rd a n)"
    and wr_core: "plain a \<Longrightarrow> core (wr a v n) = wr a v (core n)"
    and wr_dma: "plain a \<Longrightarrow> DMAs (wr a v n) = DMAs n"
begin

definition copy :: "u32 \<Rightarrow> u32 \<Rightarrow> 'a dma_nds_scheme \<Rightarrow> 'a dma_nds_scheme" where
  "copy src dst n = wr dst (fst (rd src n)) n"

lemma copy_core: "plain src \<Longrightarrow> plain dst \<Longrightarrow> core (copy src dst n) = copy src dst (core n)"
  by (simp add: copy_def wr_core rd_core)

end

locale dma_channel = dma_bus rd wr plain
  for rd :: "u32 \<Rightarrow> 'a dma_nds_scheme \<Rightarrow> 'w::len word \<times> 'a dma_nds_scheme"
    and wr :: "u32 \<Rightarrow> 'w word \<Rightarrow> 'a dma_nds_scheme \<Rightarrow> 'a dma_nds_scheme"
    and plain :: "u32 \<Rightarrow> bool" +
  fixes tm :: "'a dma_nds_scheme \<Rightarrow> bool \<Rightarrow> DMA \<Rightarrow> u32 \<times> DMA"
    and adv :: "u32 \<Rightarrow> 'a dma_nds_scheme \<Rightarrow> 'a dma_nds_scheme"
    and sh :: nat
  assumes tm_frame: "\<exists>u. snd (tm n b d) = with_burst u d"
    and adv_core: "core (adv c n) = core n"
    and adv_dma: "DMAs (adv c n) = DMAs n"
begin

lemma unit_step:
  assumes "plain (CurSrcAddr (DMAs n i))" "plain (CurDstAddr (DMAs n i))"
  shows "core (dma_unit tm adv rd wr sh i b n) = copy (CurSrcAddr (DMAs n i)) (CurDstAddr (DMAs n i)) (core n)"
    and "\<exists>u. DMAs (dma_unit tm adv rd wr sh i b n) = (DMAs n)(i := with_burst u (advance sh (DMAs n i)))"
proof -
  obtain u where u: "snd (tm n b (DMAs n i)) = with_burst u (DMAs n i)"
    using tm_frame by blast
  define m where "m = adv (fst (tm n b (DMAs n i))) (upd_dma i (\<lambda>_. snd (tm n b (DMAs n i))) n)"
  have m: "DMAs m = (DMAs n)(i := with_burst u (DMAs n i))" "core m = core n"
    by (simp_all add: m_def adv_dma adv_core u upd_dma_def)
  have e: "dma_unit tm adv rd wr sh i b n =
      upd_dma i (advance sh) (wr (CurDstAddr (DMAs n i)) (fst (rd (CurSrcAddr (DMAs n i)) m)) m)"
    unfolding dma_unit_def Let_def case_prod_beta m_def [symmetric] by (simp add: m rd_pure assms)
  show "core (dma_unit tm adv rd wr sh i b n) = copy (CurSrcAddr (DMAs n i)) (CurDstAddr (DMAs n i)) (core n)"
    using rd_core [OF assms(1), of m] by (simp add: e wr_core assms m copy_def)
  show "\<exists>u. DMAs (dma_unit tm adv rd wr sh i b n) = (DMAs n)(i := with_burst u (advance sh (DMAs n i)))"
    by (rule exI [of _ u]) (simp add: e upd_dma_def wr_dma assms m)
qed

lemma loop_copies:
  assumes "unat (IterCount (DMAs n i)) = c" "c \<le> unat (RemCount (DMAs n i))" "\<not> Stall (DMAs n i)"
    and "\<And>j. j < c \<Longrightarrow> plain (CurSrcAddr (DMAs n i) + of_nat j * push_bit sh (SrcAddrInc (DMAs n i)))"
    and "\<And>j. j < c \<Longrightarrow> plain (CurDstAddr (DMAs n i) + of_nat j * push_bit sh (DstAddrInc (DMAs n i)))"
  shows "\<exists>k n' u. dma_loop (dma_unit tm adv rd wr sh i) up i b n = Some n' \<and> k \<le> c \<and> (0 < c \<longrightarrow> 0 < k) \<and>
    (k < c \<longrightarrow> up n') \<and>
    core n' = copy_units copy (push_bit sh (SrcAddrInc (DMAs n i))) (push_bit sh (DstAddrInc (DMAs n i))) k
      (CurSrcAddr (DMAs n i)) (CurDstAddr (DMAs n i)) (core n) \<and>
    DMAs n' = (DMAs n)(i := with_burst u (advance_by sh k (DMAs n i)))"
  using assms
proof (induction c arbitrary: n b)
  case 0
  then have "IterCount (DMAs n i) = 0" by (simp add: unat_eq_0)
  then show ?case
    by (intro exI [of _ 0] exI [of _ n] exI [of _ "(MRAMBurstCount (DMAs n i), MRAMBurstTable (DMAs n i))"])
      (simp add: dma_loop.simps with_burst_same)
next
  case (Suc c)
  let ?d = "DMAs n i" and ?m = "dma_unit tm adv rd wr sh i b n"
  let ?si = "push_bit sh (SrcAddrInc ?d)" and ?di = "push_bit sh (DstAddrInc ?d)"
  have pl: "plain (CurSrcAddr ?d)" "plain (CurDstAddr ?d)" using Suc.prems(4,5) [of 0] by simp_all
  obtain u where m: "DMAs ?m = (DMAs n)(i := with_burst u (advance sh ?d))" using unit_step(2) [OF pl] by blast
  note cm = unit_step(1) [OF pl]
  have it: "IterCount ?d > 0" using Suc.prems(1) by (simp add: word_less_nat_alt)
  have iu: "unat (IterCount ?d - 1) = c" using it Suc.prems(1) by (simp add: unat_sub_if_size word_less_nat_alt)
  have ru: "unat (RemCount ?d - 1) = unat (RemCount ?d) - 1" using Suc.prems(2) by (simp add: unat_sub_if_size)
  have l: "dma_loop (dma_unit tm adv rd wr sh i) up i b n =
      (if up ?m then Some ?m else dma_loop (dma_unit tm adv rd wr sh i) up i False ?m)"
    using it Suc.prems(3) by (subst dma_loop.simps) (simp add: Let_def)
  show ?case
  proof (cases "up ?m")
    case True
    then show ?thesis
      using l cm m by (intro exI [of _ 1] exI [of _ ?m] exI [of _ u]) (simp add: advance_by_Suc [of _ 0, simplified])
  next
    case False
    have "\<exists>k n' u. dma_loop (dma_unit tm adv rd wr sh i) up i False ?m = Some n' \<and> k \<le> c \<and> (0 < c \<longrightarrow> 0 < k) \<and>
      (k < c \<longrightarrow> up n') \<and>
      core n' = copy_units copy (push_bit sh (SrcAddrInc (DMAs ?m i))) (push_bit sh (DstAddrInc (DMAs ?m i))) k
        (CurSrcAddr (DMAs ?m i)) (CurDstAddr (DMAs ?m i)) (core ?m) \<and>
      DMAs n' = (DMAs ?m)(i := with_burst u (advance_by sh k (DMAs ?m i)))"
    proof (rule Suc.IH)
      show "unat (IterCount (DMAs ?m i)) = c" by (simp add: m iu)
      show "c \<le> unat (RemCount (DMAs ?m i))" using Suc.prems(2) by (simp add: m ru)
      show "\<not> Stall (DMAs ?m i)" using Suc.prems(3) by (simp add: m)
      show "plain (CurSrcAddr (DMAs ?m i) + of_nat j * push_bit sh (SrcAddrInc (DMAs ?m i)))" if "j < c" for j
        using Suc.prems(4) [of "Suc j"] that by (simp add: m algebra_simps)
      show "plain (CurDstAddr (DMAs ?m i) + of_nat j * push_bit sh (DstAddrInc (DMAs ?m i)))" if "j < c" for j
        using Suc.prems(5) [of "Suc j"] that by (simp add: m algebra_simps)
    qed
    then obtain k n' u' where r: "dma_loop (dma_unit tm adv rd wr sh i) up i False ?m = Some n'" "k \<le> c"
      "0 < c \<longrightarrow> 0 < k" "k < c \<longrightarrow> up n'"
      "core n' = copy_units copy ?si ?di k (CurSrcAddr ?d + ?si) (CurDstAddr ?d + ?di) (core ?m)"
      "DMAs n' = (DMAs n)(i := with_burst u' (advance_by sh (Suc k) ?d))"
      by (auto simp: m advance_by_Suc)
    show ?thesis
      using l r False by (intro exI [of _ "Suc k"] exI [of _ n'] exI [of _ u']) (simp add: cm)
  qed
qed

end

section \<open>The buses of the console\<close>

text \<open>The addresses that lead to memory or to nothing, and not to a device.\<close>

definition plain9 :: "u32 \<Rightarrow> bool" where
  "plain9 a \<longleftrightarrow> a AND 0xFF000000 \<notin> {0x04000000, 0x08000000, 0x09000000, 0x0A000000}"

definition plain7 :: "u32 \<Rightarrow> bool" where
  "plain7 a \<longleftrightarrow> a AND 0xFF800000 \<notin> {0x04000000, 0x04800000, 0x08000000, 0x08800000, 0x09000000, 0x09800000,
     0x0A000000, 0x0A800000}"

lemma core_fields [simp]:
  "SWRAM_ARM9 (core n) = SWRAM_ARM9 n" "SWRAM_ARM7 (core n) = SWRAM_ARM7 n" "GPU (core n) = GPU n"
  "ARM9BIOS (core n) = ARM9BIOS n" "ARM7BIOS (core n) = ARM7BIOS n" "engine_on a (core n) = engine_on a n"
  "bios7_hidden a (core n) = bios7_hidden a n" "mram_ld a (core n) = mram_ld a n"
  "swram_ld b r a (core n) = swram_ld b r a n" "wram7_ld a (core n) = wram7_ld a n"
  "ReadPalette a (core n) = ReadPalette a n" "ReadOAM a (core n) = ReadOAM a n"
  by (simp_all add: core_def engine_on_def bios7_hidden_def mram_ld_def swram_ld_def wram7_ld_def
      ReadPalette_def ReadOAM_def)

lemma core_writes [simp]:
  "core (mram_st a v n) = mram_st a v (core n)" "core (swram_st b r a v n) = swram_st b r a v (core n)"
  "core (wram7_st a v n) = wram7_st a v (core n)" "core (WritePalette a v n) = WritePalette a v (core n)"
  "core (WriteOAM a v n) = WriteOAM a v (core n)" "core (map_gpu f n) = map_gpu f (core n)"
  "core (JIT_CheckAndInvalidate c j a n) = JIT_CheckAndInvalidate c j a (core n)"
  by (simp_all add: core_def mram_st_def swram_st_def wram7_st_def WritePalette_def WriteOAM_def map_gpu_def
      JIT_CheckAndInvalidate_def Let_def)

lemma DMAs_writes [simp]:
  "DMAs (mram_st a v n) = DMAs n" "DMAs (swram_st b r a v n) = DMAs n" "DMAs (wram7_st a v n) = DMAs n"
  "DMAs (WritePalette a v n) = DMAs n" "DMAs (WriteOAM a v n) = DMAs n" "DMAs (map_gpu f n) = DMAs n"
  "DMAs (JIT_CheckAndInvalidate c j a n) = DMAs n"
  by (simp_all add: mram_st_def swram_st_def wram7_st_def WritePalette_def WriteOAM_def map_gpu_def
      JIT_CheckAndInvalidate_def Let_def)

text \<open>Through the nested tests of the bus functions without splitting them.\<close>

lemma push_through:
  "fst (if P then x else y) = (if P then fst x else fst y)" "snd (if P then x else y) = (if P then snd x else snd y)"
  "DMAs (if P then a else b) = (if P then DMAs a else DMAs b)" "core (if P then a else b) = (if P then core a else core b)"
  "fst (case z of None \<Rightarrow> x | Some t \<Rightarrow> f t) = (case z of None \<Rightarrow> fst x | Some t \<Rightarrow> fst (f t))"
  "snd (case z of None \<Rightarrow> x | Some t \<Rightarrow> f t) = (case z of None \<Rightarrow> snd x | Some t \<Rightarrow> snd (f t))"
  "core (case z of None \<Rightarrow> a | Some t \<Rightarrow> g t) = (case z of None \<Rightarrow> core a | Some t \<Rightarrow> core (g t))"
  "DMAs (case z of None \<Rightarrow> a | Some t \<Rightarrow> g t) = (case z of None \<Rightarrow> DMAs a | Some t \<Rightarrow> DMAs (g t))"
  "(case z of None \<Rightarrow> w | Some t \<Rightarrow> w) = w"
  by (auto split: option.split)

lemma plain9_regions:
  assumes "plain9 a"
  shows "(a AND NOT 1) AND 0xFF000000 = 0x04000000 \<longleftrightarrow> False" "(a AND NOT 3) AND 0xFF000000 = 0x04000000 \<longleftrightarrow> False"
    "(a AND NOT 1) AND 0xFF000000 = 0x08000000 \<longleftrightarrow> False" "(a AND NOT 3) AND 0xFF000000 = 0x08000000 \<longleftrightarrow> False"
    "(a AND NOT 1) AND 0xFF000000 = 0x09000000 \<longleftrightarrow> False" "(a AND NOT 3) AND 0xFF000000 = 0x09000000 \<longleftrightarrow> False"
    "(a AND NOT 1) AND 0xFF000000 = 0x0A000000 \<longleftrightarrow> False" "(a AND NOT 3) AND 0xFF000000 = 0x0A000000 \<longleftrightarrow> False"
  using assms unfolding plain9_def and.assoc by auto

lemma plain7_regions:
  assumes "plain7 a"
  shows "(a AND NOT 1) AND 0xFF800000 = 0x04000000 \<longleftrightarrow> False" "(a AND NOT 3) AND 0xFF800000 = 0x04000000 \<longleftrightarrow> False"
    "(a AND NOT 1) AND 0xFF800000 = 0x04800000 \<longleftrightarrow> False" "(a AND NOT 3) AND 0xFF800000 = 0x04800000 \<longleftrightarrow> False"
    "(a AND NOT 1) AND 0xFF800000 = 0x08000000 \<longleftrightarrow> False" "(a AND NOT 3) AND 0xFF800000 = 0x08000000 \<longleftrightarrow> False"
    "(a AND NOT 1) AND 0xFF800000 = 0x08800000 \<longleftrightarrow> False" "(a AND NOT 3) AND 0xFF800000 = 0x08800000 \<longleftrightarrow> False"
    "(a AND NOT 1) AND 0xFF800000 = 0x09000000 \<longleftrightarrow> False" "(a AND NOT 3) AND 0xFF800000 = 0x09000000 \<longleftrightarrow> False"
    "(a AND NOT 1) AND 0xFF800000 = 0x09800000 \<longleftrightarrow> False" "(a AND NOT 3) AND 0xFF800000 = 0x09800000 \<longleftrightarrow> False"
    "(a AND NOT 1) AND 0xFF800000 = 0x0A000000 \<longleftrightarrow> False" "(a AND NOT 3) AND 0xFF800000 = 0x0A000000 \<longleftrightarrow> False"
    "(a AND NOT 1) AND 0xFF800000 = 0x0A800000 \<longleftrightarrow> False" "(a AND NOT 3) AND 0xFF800000 = 0x0A800000 \<longleftrightarrow> False"
  using assms unfolding plain7_def and.assoc by auto

lemmas bus_walk = Let_def if_False disj_not1 push_through fst_conv snd_conv if_cancel core_fields core_writes DMAs_writes
  insert_iff empty_iff simp_thms

interpretation bus9_16: dma_bus "ARM9Read16 dev" "ARM9Write16 dev" plain9
  by unfold_locales (simp_all only: ARM9Read16_def ARM9Write16_def plain9_regions bus_walk)

interpretation bus9_32: dma_bus "ARM9Read32 dev" "ARM9Write32 dev" plain9
  by unfold_locales (simp_all only: ARM9Read32_def ARM9Write32_def plain9_regions bus_walk)

interpretation bus7_16: dma_bus "ARM7Read16 dev" "ARM7Write16 dev" plain7
  by unfold_locales (simp_all only: ARM7Read16_def ARM7Write16_def plain7_regions bus_walk)

interpretation bus7_32: dma_bus "ARM7Read32 dev" "ARM7Write32 dev" plain7
  by unfold_locales (simp_all only: ARM7Read32_def ARM7Write32_def plain7_regions bus_walk)

text \<open>The cost functions change the burst state of the channel only.\<close>

definition frames :: "DMA \<Rightarrow> u32 \<times> DMA \<Rightarrow> bool" where
  "frames d r \<longleftrightarrow> (\<exists>u. snd r = with_burst u d)"

lemma frames_if: "frames d a \<Longrightarrow> frames d b \<Longrightarrow> frames d (if P then a else b)"
  by simp

lemma frames_pair: "frames d (c, d)"
  unfolding frames_def by (rule exI [of _ "(MRAMBurstCount d, MRAMBurstTable d)"]) (simp add: with_burst_same)

lemma frames_burst: "frames d (burst_step p b d)"
proof -
  have "snd (burst_step p b d) = with_burst (MRAMBurstCount (snd (burst_step p b d)), MRAMBurstTable (snd (burst_step p b d))) d"
    by (cases d) (simp add: burst_step_def with_burst_def Let_def)
  then show ?thesis unfolding frames_def by blast
qed

lemmas frames_intros = frames_if frames_pair frames_burst

lemma UnitTimings_frame:
  "\<exists>u. snd (UnitTimings9_16 n b d) = with_burst u d" "\<exists>u. snd (UnitTimings9_32 n b d) = with_burst u d"
  "\<exists>u. snd (UnitTimings7_16 n b d) = with_burst u d" "\<exists>u. snd (UnitTimings7_32 n b d) = with_burst u d"
  unfolding frames_def [symmetric] UnitTimings9_16_def UnitTimings9_32_def UnitTimings7_16_def UnitTimings7_32_def Let_def
  by (intro frames_intros)+

lemma adv_frame [simp]:
  "core (adv9 c n) = core n" "DMAs (adv9 c n) = DMAs n" "core (adv7 c n) = core n" "DMAs (adv7 c n) = DMAs n"
  by (simp_all add: adv9_def adv7_def)

interpretation ch9_16: dma_channel "ARM9Read16 dev" "ARM9Write16 dev" plain9 UnitTimings9_16 adv9 1
  by unfold_locales (rule UnitTimings_frame adv_frame)+

interpretation ch9_32: dma_channel "ARM9Read32 dev" "ARM9Write32 dev" plain9 UnitTimings9_32 adv9 2
  by unfold_locales (rule UnitTimings_frame adv_frame)+

interpretation ch7_16: dma_channel "ARM7Read16 dev" "ARM7Write16 dev" plain7 UnitTimings7_16 adv7 1
  by unfold_locales (rule UnitTimings_frame adv_frame)+

interpretation ch7_32: dma_channel "ARM7Read32 dev" "ARM7Write32 dev" plain7 UnitTimings7_32 adv7 2
  by unfold_locales (rule UnitTimings_frame adv_frame)+

section \<open>One time slice\<close>

text \<open>The copy of a unit by a channel of a processor, 32 or 16 bits wide, and the steps between its units.\<close>

definition copy_unit :: "'a dma_nds_scheme devices \<Rightarrow> nat \<Rightarrow> bool \<Rightarrow> u32 \<Rightarrow> u32 \<Rightarrow> 'a dma_nds_scheme \<Rightarrow> 'a dma_nds_scheme" where
  "copy_unit dev cpu wide src dst n =
     (if wide then Write32 dev cpu dst (fst (Read32 dev cpu src n)) n
      else Write16 dev cpu dst (fst (Read16 dev cpu src n)) n)"

definition plain :: "nat \<Rightarrow> u32 \<Rightarrow> bool" where
  "plain cpu = (if cpu = 0 then plain9 else plain7)"

definition wide :: "DMA \<Rightarrow> bool" where
  "wide d = bit (DMACnt d) 26"

definition src_step :: "DMA \<Rightarrow> u32" where
  "src_step d = push_bit (if wide d then 2 else 1) (SrcAddrInc d)"

definition dst_step :: "DMA \<Rightarrow> u32" where
  "dst_step d = push_bit (if wide d then 2 else 1) (DstAddrInc d)"

definition time_left :: "nat \<Rightarrow> 'a dma_nds_scheme \<Rightarrow> bool" where
  "time_left cpu n = (if cpu = 0 then \<not> time_up9 n else \<not> time_up7 n)"

text \<open>\<open>copied dev k d n\<close>: the console after the next \<open>k\<close> units of channel \<open>d\<close> have been copied.\<close>

definition copied :: "'a dma_nds_scheme devices \<Rightarrow> nat \<Rightarrow> DMA \<Rightarrow> 'a dma_nds_scheme \<Rightarrow> 'a dma_nds_scheme" where
  "copied dev k d n =
     copy_units (copy_unit dev (CPU d) (wide d)) (src_step d) (dst_step d) k (CurSrcAddr d) (CurDstAddr d) n"

text \<open>A channel that is running, with all the units of this start in memory.\<close>

definition dma_ready :: "DMA \<Rightarrow> bool" where
  "dma_ready d \<longleftrightarrow>
     Running d \<noteq> 0 \<and> CPU d < 2 \<and> \<not> Stall d \<and> 0 < IterCount d \<and> IterCount d \<le> RemCount d \<and>
     (\<forall>j<unat (IterCount d). plain (CPU d) (CurSrcAddr d + of_nat j * src_step d) \<and>
                             plain (CPU d) (CurDstAddr d + of_nat j * dst_step d))"

lemma copy_unit_buses:
  "bus9_16.copy dev = copy_unit dev 0 False" "bus9_32.copy dev = copy_unit dev 0 True"
  "bus7_16.copy dev = copy_unit dev 1 False" "bus7_32.copy dev = copy_unit dev 1 True"
  by (simp_all add: fun_eq_iff copy_unit_def Read16_def Read32_def Write16_def Write32_def
      bus9_16.copy_def bus9_32.copy_def bus7_16.copy_def bus7_32.copy_def)

definition units :: "'a dma_nds_scheme devices \<Rightarrow> nat \<Rightarrow> nat \<Rightarrow> bool \<Rightarrow> 'a dma_nds_scheme \<Rightarrow> 'a dma_nds_scheme option" where
  "units dev cpu = (if cpu = 0 then units9 dev else units7 dev)"

definition unit_sh :: "DMA \<Rightarrow> nat" where
  "unit_sh d = (if wide d then 2 else 1)"

lemma units_copied:
  fixes n :: "'a dma_nds_scheme"
  assumes r: "dma_ready (DMAs n i)"
  shows "\<exists>k n' u. units dev (CPU (DMAs n i)) i b n = Some n' \<and> k \<le> unat (IterCount (DMAs n i)) \<and> 0 < k \<and>
    (k < unat (IterCount (DMAs n i)) \<longrightarrow> \<not> time_left (CPU (DMAs n i)) n') \<and>
    core n' = copied dev k (DMAs n i) (core n) \<and>
    DMAs n' = (DMAs n)(i := with_burst u (advance_by (unit_sh (DMAs n i)) k (DMAs n i)))"
proof -
  let ?d = "DMAs n i"
  have pre: "unat (IterCount ?d) = unat (IterCount ?d)" "unat (IterCount ?d) \<le> unat (RemCount ?d)" "\<not> Stall ?d"
    and it: "0 < unat (IterCount ?d)" and c: "CPU ?d = 0 \<or> CPU ?d = 1"
    using r by (auto simp: dma_ready_def word_le_nat_alt word_less_nat_alt less_2_cases_iff)
  have pl: "plain (CPU ?d) (CurSrcAddr ?d + of_nat j * src_step ?d)" "plain (CPU ?d) (CurDstAddr ?d + of_nat j * dst_step ?d)"
    if "j < unat (IterCount ?d)" for j using r that by (simp_all add: dma_ready_def)
  note defs = units_def units9_def units7_def unit_sh_def time_left_def copied_def src_step_def dst_step_def wide_def
  from c show ?thesis
  proof
    assume c: "CPU ?d = 0"
    show ?thesis
    proof (cases "wide ?d")
      case True
      show ?thesis
        using ch9_32.loop_copies [OF pre, where dev = dev and up = time_up9 and b = b] pl it c True
        by (simp add: defs plain_def copy_unit_buses)
    next
      case False
      show ?thesis
        using ch9_16.loop_copies [OF pre, where dev = dev and up = time_up9 and b = b] pl it c False
        by (simp add: defs plain_def copy_unit_buses)
    qed
  next
    assume c: "CPU ?d = 1"
    show ?thesis
    proof (cases "wide ?d")
      case True
      show ?thesis
        using ch7_32.loop_copies [OF pre, where dev = dev and up = time_up7 and b = b] pl it c True
        by (simp add: defs plain_def copy_unit_buses)
    next
      case False
      show ?thesis
        using ch7_16.loop_copies [OF pre, where dev = dev and up = time_up7 and b = b] pl it c False
        by (simp add: defs plain_def copy_unit_buses)
    qed
  qed
qed

text \<open>What \<^verbatim>\<open>Run\<close> changes of a channel before its loop makes no difference to the copies.\<close>

definition executing :: "DMA \<Rightarrow> DMA" where
  "executing d = d\<lparr>Executing := True, Running := 1\<rparr>"

lemma executing_simps [simp]:
  "dma_ready (executing d) \<longleftrightarrow> dma_ready (d\<lparr>Running := 1\<rparr>)" "copied dev k (executing d) = copied dev k d"
  "CPU (executing d) = CPU d" "IterCount (executing d) = IterCount d" "RemCount (executing d) = RemCount d"
  "unit_sh (executing d) = unit_sh d"
  by (simp_all add: executing_def dma_ready_def copied_def fun_eq_iff src_step_def dst_step_def wide_def unit_sh_def)

lemma dma_ready_Running: "dma_ready d \<Longrightarrow> dma_ready (d\<lparr>Running := 1\<rparr>)"
  by (simp add: dma_ready_def src_step_def dst_step_def wide_def)

lemma Run_copied:
  fixes n :: "'a dma_nds_scheme"
  assumes r: "dma_ready (DMAs n i)" and t: "time_left (CPU (DMAs n i)) n"
  shows "\<exists>k m u. DMA_Run dev i n = Some (finish (CPU (DMAs n i)) i m) \<and> 0 < k \<and> k \<le> unat (IterCount (DMAs n i)) \<and>
    core m = copied dev k (DMAs n i) (core n) \<and>
    DMAs m i = with_burst u (advance_by (unit_sh (DMAs n i)) k (executing (DMAs n i)))"
proof -
  let ?d = "DMAs n i" and ?n = "upd_dma i (\<lambda>d. d\<lparr>Executing := True, Running := 1\<rparr>) n"
  have d: "DMAs ?n i = executing ?d" by (simp add: upd_dma_def executing_def)
  have "dma_ready (DMAs ?n i)" using dma_ready_Running [OF r] by (simp add: d)
  then obtain k m u where m0: "units dev (CPU (DMAs ?n i)) i (Running ?d = 2) ?n = Some m"
    "k \<le> unat (IterCount (DMAs ?n i))" "0 < k" "core m = copied dev k (DMAs ?n i) (core ?n)"
    "DMAs m = (DMAs ?n)(i := with_burst u (advance_by (unit_sh (DMAs ?n i)) k (DMAs ?n i)))"
    using units_copied [of ?n i dev "Running ?d = 2"] by blast
  then have m: "units dev (CPU ?d) i (Running ?d = 2) ?n = Some m" "k \<le> unat (IterCount ?d)" "0 < k"
    "core m = copied dev k ?d (core n)" "DMAs m i = with_burst u (advance_by (unit_sh ?d) k (executing ?d))"
    by (simp_all add: d)
  have "CPU ?d < 2" "Running ?d \<noteq> 0" using r by (simp_all add: dma_ready_def)
  then have "DMA_Run dev i n = map_option (finish (CPU ?d) i) (units dev (CPU ?d) i (Running ?d = 2) ?n)"
    using t by (auto simp: DMA_Run_def Run9_def Run7_def units_def time_left_def time_up9_def time_up7_def less_2_cases_iff)
  then show ?thesis using m by (intro exI [of _ k] exI [of _ m] exI [of _ u]) simp
qed

text \<open>The end of a slice, and of the transfer.\<close>

lemma DMAs_calls [simp]:
  "DMAs (SetIRQ cpu irq n) = DMAs n" "DMAs (ResumeCPU cpu m n) = DMAs n"
  by (simp_all add: SetIRQ_def UpdateIRQ_def ext_def ResumeCPU_def Let_def)

lemma finish_pause:
  assumes "RemCount (DMAs m i) \<noteq> 0" "IterCount (DMAs m i) \<noteq> 0"
  shows "DMAs (finish cpu i m) i = (DMAs m i)\<lparr>Executing := False, Stall := False\<rparr>"
  using assms by (simp add: finish_def Let_def upd_dma_def)

lemma finish_done:
  assumes "RemCount (DMAs m i) = 0"
  shows "DMAs (finish cpu i m) i = (DMAs m i)\<lparr>Executing := False, Stall := False, Running := 0, InProgress := False,
      DMACnt := (if bit (DMACnt (DMAs m i)) 25 then DMACnt (DMAs m i) else DMACnt (DMAs m i) AND NOT 0x80000000)\<rparr>"
  using assms by (simp add: finish_def Let_def upd_dma_def)

lemma finish_irq:
  assumes "RemCount (DMAs m i) = 0" "bit (DMACnt (DMAs m i)) 30" "Num (DMAs m i) < 4"
  shows "bit (IF (finish cpu i m) cpu) (IRQ_DMA0 + Num (DMAs m i))"
  using assms
  by (simp add: finish_def Let_def upd_dma_def ResumeCPU_def SetIRQ_def UpdateIRQ_def ext_def bitm_def bit_simps IRQ_DMA0_def)

lemma finish_resumes:
  assumes "RemCount (DMAs m i) = 0"
  shows "\<not> bit (CPUStop (finish cpu i m)) ((if cpu = 0 then 0 else 16) + Num (DMAs m i))"
  using assms by (simp add: finish_def Let_def upd_dma_def ResumeCPU_def bitm_def bit_simps)

lemma copied_add:
  "copied dev (k + l) d n = copied dev l (advance_by (unit_sh d) k d) (copied dev k d n)"
  by (simp add: copied_def copy_units_add advance_by_def src_step_def dst_step_def wide_def unit_sh_def)

lemma copied_same:
  "CPU e = CPU d \<Longrightarrow> DMACnt e = DMACnt d \<Longrightarrow> SrcAddrInc e = SrcAddrInc d \<Longrightarrow> DstAddrInc e = DstAddrInc d \<Longrightarrow>
   CurSrcAddr e = CurSrcAddr d \<Longrightarrow> CurDstAddr e = CurDstAddr d \<Longrightarrow> copied dev k e = copied dev k d"
  by (simp add: copied_def fun_eq_iff src_step_def dst_step_def wide_def)

text \<open>
  A slice that runs out of time leaves a channel that is ready for the rest. \<open>paused\<close> is the
  channel as \<^verbatim>\<open>Run\<close> leaves it.
\<close>

definition paused :: "nat \<Rightarrow> u32 \<times> u8 list \<Rightarrow> DMA \<Rightarrow> DMA" where
  "paused k u d = (with_burst u (advance_by (unit_sh d) k (executing d)))\<lparr>Executing := False, Stall := False\<rparr>"

lemma paused_simps [simp]:
  "CPU (paused k u d) = CPU d" "Num (paused k u d) = Num d" "DMACnt (paused k u d) = DMACnt d"
  "SrcAddrInc (paused k u d) = SrcAddrInc d" "DstAddrInc (paused k u d) = DstAddrInc d"
  "CurSrcAddr (paused k u d) = CurSrcAddr d + of_nat k * src_step d"
  "CurDstAddr (paused k u d) = CurDstAddr d + of_nat k * dst_step d"
  "RemCount (paused k u d) = RemCount d - of_nat k" "IterCount (paused k u d) = IterCount d - of_nat k"
  "Running (paused k u d) = 1" "InProgress (paused k u d) = InProgress d" "\<not> Stall (paused k u d)"
  "src_step (paused k u d) = src_step d" "dst_step (paused k u d) = dst_step d"
  by (simp_all add: paused_def with_burst_def advance_by_def executing_def src_step_def dst_step_def unit_sh_def wide_def)

lemma unat_minus_of_nat: "k \<le> unat (w :: u32) \<Longrightarrow> unat (w - of_nat k) = unat w - k"
proof -
  assume k: "k \<le> unat w"
  then have "unat (of_nat k :: u32) = k"
    using unsigned_less [of w, where ?'a = nat] by (simp add: unsigned_of_nat take_bit_nat_eq_self)
  then show ?thesis using k by (simp add: unat_sub word_le_nat_alt)
qed

lemma dma_ready_paused:
  assumes r: "dma_ready d" and k: "k < unat (IterCount d)"
  shows "dma_ready (paused k u d)"
proof -
  have le: "unat (IterCount d) \<le> unat (RemCount d)" using r by (simp add: dma_ready_def word_le_nat_alt)
  have i: "unat (IterCount d - of_nat k) = unat (IterCount d) - k" "unat (RemCount d - of_nat k) = unat (RemCount d) - k"
    using k le by (simp_all add: unat_minus_of_nat)
  have "plain (CPU d) (CurSrcAddr d + of_nat k * src_step d + of_nat j * src_step d) \<and>
        plain (CPU d) (CurDstAddr d + of_nat k * dst_step d + of_nat j * dst_step d)"
    if "j < unat (IterCount d) - k" for j
  proof -
    have "k + j < unat (IterCount d)" using that by simp
    then show ?thesis using r by (auto simp: dma_ready_def algebra_simps dest!: spec [of _ "k + j"])
  qed
  then show ?thesis using r k i le by (simp add: dma_ready_def word_le_nat_alt word_less_nat_alt)
qed

lemma copied_paused: "copied dev (k + l) d n = copied dev l (paused k u d) (copied dev k d n)"
proof -
  have "copied dev l (paused k u d) = copied dev l (advance_by (unit_sh d) k d)"
    by (rule copied_same) (simp_all add: advance_by_def src_step_def dst_step_def unit_sh_def wide_def)
  then show ?thesis by (simp add: copied_add)
qed

text \<open>The end of the transfer as the program sees it.\<close>

definition dma_done :: "nat \<Rightarrow> DMA \<Rightarrow> 'a dma_nds_scheme \<Rightarrow> bool" where
  "dma_done i d n \<longleftrightarrow>
     \<not> IsRunning (DMAs n i) \<and> \<not> InProgress (DMAs n i) \<and>
     (bit (DMACnt (DMAs n i)) 31 \<longleftrightarrow> bit (DMACnt d) 31 \<and> bit (DMACnt d) 25) \<and>
     (bit (DMACnt d) 30 \<longrightarrow> bit (IF n (CPU d)) (IRQ_DMA0 + Num d)) \<and>
     \<not> bit (CPUStop n) ((if CPU d = 0 then 0 else 16) + Num d)"

lemma slice_outcome:
  fixes n :: "'a dma_nds_scheme"
  assumes r: "dma_ready (DMAs n i)" and t: "time_left (CPU (DMAs n i)) n" and num: "Num (DMAs n i) < 4"
  shows "\<exists>k n' u. DMA_Run dev i n = Some n' \<and> 0 < k \<and> k \<le> unat (IterCount (DMAs n i)) \<and>
    core n' = copied dev k (DMAs n i) (core n) \<and>
    (k < unat (IterCount (DMAs n i)) \<longrightarrow> DMAs n' i = paused k u (DMAs n i)) \<and>
    (k = unat (RemCount (DMAs n i)) \<longrightarrow> dma_done i (DMAs n i) n' \<and> RemCount (DMAs n' i) = 0)"
proof -
  let ?d = "DMAs n i"
  obtain k m u where m: "DMA_Run dev i n = Some (finish (CPU ?d) i m)" "0 < k" "k \<le> unat (IterCount ?d)"
    "core m = copied dev k ?d (core n)" and e: "DMAs m i = with_burst u (advance_by (unit_sh ?d) k (executing ?d))"
    using Run_copied [OF r t, of dev] by blast
  have le: "unat (IterCount ?d) \<le> unat (RemCount ?d)" using r by (simp add: dma_ready_def word_le_nat_alt)
  have f: "RemCount (DMAs m i) = RemCount ?d - of_nat k" "IterCount (DMAs m i) = IterCount ?d - of_nat k"
    "DMACnt (DMAs m i) = DMACnt ?d" "Num (DMAs m i) = Num ?d"
    by (simp_all add: e advance_by_def with_burst_def executing_def)
  have p: "DMAs (finish (CPU ?d) i m) i = paused k u ?d" if "k < unat (IterCount ?d)"
  proof -
    have "unat (RemCount ?d - of_nat k) \<noteq> 0" "unat (IterCount ?d - of_nat k) \<noteq> 0"
      using that le by (simp_all add: unat_minus_of_nat)
    then have "RemCount (DMAs m i) \<noteq> 0" "IterCount (DMAs m i) \<noteq> 0" unfolding f by auto
    from finish_pause [OF this] show ?thesis by (simp add: e paused_def)
  qed
  have q: "dma_done i ?d (finish (CPU ?d) i m) \<and> RemCount (DMAs (finish (CPU ?d) i m) i) = 0" if "k = unat (RemCount ?d)"
  proof -
    have z: "RemCount (DMAs m i) = 0" using that by (simp add: f)
    show ?thesis
      using finish_irq [OF z] finish_resumes [OF z, of "CPU ?d"] num
      by (simp add: dma_done_def finish_done [OF z] f(3,4) z IsRunning_def bit_simps)
  qed
  show ?thesis using m p q by (intro exI [of _ k] exI [of _ "finish (CPU ?d) i m"] exI [of _ u]) simp
qed

section \<open>A transfer\<close>

text \<open>The calls of \<^verbatim>\<open>Run\<close> in successive time slices, each with the target time that the scheduler sets.\<close>

definition set_target :: "nat \<Rightarrow> u64 \<Rightarrow> 'a dma_nds_scheme \<Rightarrow> 'a dma_nds_scheme" where
  "set_target cpu t n = (if cpu = 0 then n\<lparr>ARM9Target := t\<rparr> else n\<lparr>ARM7Target := t\<rparr>)"

fun dma_slices :: "'a dma_nds_scheme devices \<Rightarrow> nat \<Rightarrow> u64 list \<Rightarrow> 'a dma_nds_scheme \<Rightarrow> 'a dma_nds_scheme option" where
  "dma_slices dev i [] n = Some n"
| "dma_slices dev i (t # ts) n =
     (case DMA_Run dev i (set_target (CPU (DMAs n i)) t n) of
        None \<Rightarrow> None
      | Some n' \<Rightarrow> dma_slices dev i ts n')"

lemma set_target_simps [simp]:
  "DMAs (set_target cpu t n) = DMAs n" "core (set_target cpu t n) = core n"
  by (simp_all add: set_target_def)

lemma DMA_Run_idle: "\<not> IsRunning (DMAs n i) \<Longrightarrow> DMA_Run dev i n = Some n"
  by (simp add: DMA_Run_def IsRunning_def)

lemma DMA_Run_no_time:
  "\<not> time_left (CPU (DMAs n i)) n \<Longrightarrow> DMA_Run dev i n = Some n"
  by (auto simp: DMA_Run_def Run9_def Run7_def time_left_def time_up9_def time_up7_def split: if_splits)

lemma dma_done_target [simp]: "dma_done i d (set_target cpu t n) = dma_done i d n"
  by (simp add: dma_done_def set_target_def)

lemma slices_done:
  "dma_done i d n \<Longrightarrow> \<exists>n'. dma_slices dev i ts n = Some n' \<and> dma_done i d n' \<and> core n' = core n \<and> DMAs n' = DMAs n"
proof (induction ts arbitrary: n)
  case (Cons t ts)
  let ?n = "set_target (CPU (DMAs n i)) t n"
  have "\<not> IsRunning (DMAs ?n i)" using Cons.prems by (simp add: dma_done_def)
  then have "dma_slices dev i (t # ts) n = dma_slices dev i ts ?n" by (simp add: DMA_Run_idle)
  moreover obtain n' where "dma_slices dev i ts ?n = Some n'" "dma_done i d n'" "core n' = core ?n" "DMAs n' = DMAs ?n"
    using Cons.IH [of ?n] Cons.prems by auto
  ultimately show ?case by auto
qed simp

lemma slices_copy:
  fixes n :: "'a dma_nds_scheme"
  assumes "dma_ready (DMAs n i)" "IterCount (DMAs n i) = RemCount (DMAs n i)" "InProgress (DMAs n i)" "Num (DMAs n i) < 4"
  shows "\<exists>k n'. dma_slices dev i ts n = Some n' \<and> k \<le> unat (RemCount (DMAs n i)) \<and>
    core n' = copied dev k (DMAs n i) (core n) \<and> unat (RemCount (DMAs n' i)) = unat (RemCount (DMAs n i)) - k \<and>
    (if k = unat (RemCount (DMAs n i)) then dma_done i (DMAs n i) n' else InProgress (DMAs n' i))"
  using assms
proof (induction ts arbitrary: n)
  case Nil
  then show ?case by (intro exI [of _ 0]) (auto simp: copied_def dma_ready_def word_less_nat_alt)
next
  case (Cons t ts)
  let ?n = "set_target (CPU (DMAs n i)) t n" and ?d = "DMAs n i"
  show ?case
  proof (cases "time_left (CPU ?d) ?n")
    case False
    then have "DMA_Run dev i ?n = Some ?n" by (intro DMA_Run_no_time) simp
    then show ?thesis using Cons.IH [of ?n] Cons.prems by (simp split del: if_split cong: if_cong)
  next
    case True
    then obtain k m u where m: "DMA_Run dev i ?n = Some m" "0 < k" "k \<le> unat (IterCount ?d)"
      "core m = copied dev k ?d (core n)" "k < unat (IterCount ?d) \<Longrightarrow> DMAs m i = paused k u ?d"
      "k = unat (RemCount ?d) \<Longrightarrow> dma_done i ?d m \<and> RemCount (DMAs m i) = 0"
      using slice_outcome [of ?n i dev] Cons.prems by auto
    show ?thesis
    proof (cases "k = unat (RemCount ?d)")
      case True
      then obtain n' where "dma_slices dev i ts m = Some n'" "dma_done i ?d n'" "core n' = core m" "DMAs n' = DMAs m"
        using m(6) slices_done [of i ?d m dev ts] by blast
      then show ?thesis using m True by (intro exI [of _ k] exI [of _ n']) simp
    next
      case False
      then have k: "k < unat (IterCount ?d)" using m(3) Cons.prems(2) by simp
      note p = m(5) [OF k]
      have "dma_ready (DMAs m i)" unfolding p using Cons.prems(1) k by (rule dma_ready_paused)
      then obtain l n' where l: "dma_slices dev i ts m = Some n'" "l \<le> unat (RemCount (DMAs m i))"
        "core n' = copied dev l (DMAs m i) (core m)" "unat (RemCount (DMAs n' i)) = unat (RemCount (DMAs m i)) - l"
        "if l = unat (RemCount (DMAs m i)) then dma_done i (DMAs m i) n' else InProgress (DMAs n' i)"
        using Cons.IH [of m] Cons.prems p by auto
      have r: "unat (RemCount (DMAs m i)) = unat (RemCount ?d) - k" using k Cons.prems(2) by (simp add: p unat_minus_of_nat)
      have "dma_done i (DMAs m i) n' = dma_done i ?d n'" by (simp add: p dma_done_def)
      then have "if k + l = unat (RemCount ?d) then dma_done i ?d n' else InProgress (DMAs n' i)"
        using l(2,5) r k Cons.prems(2) by (auto split: if_splits)
      moreover have "core n' = copied dev (k + l) ?d (core n)"
        using l(3) m(4) copied_paused [of dev k l ?d "core n" u] by (simp add: p)
      moreover have "k + l \<le> unat (RemCount ?d)" using l(2) r k Cons.prems(2) by simp
      ultimately show ?thesis
        using l(1,4) m(1) r
        by (intro exI [of _ "k + l"] exI [of _ n']) (simp split del: if_split)
    qed
  qed
qed

text \<open>Enabling a channel in the immediate mode, and what is then to be copied.\<close>

definition started :: "u32 \<Rightarrow> DMA \<Rightarrow> DMA" where
  "started val d = start_channel (enable_channel (d\<lparr>DMACnt := val\<rparr>))"

definition immediate :: "u32 \<Rightarrow> DMA \<Rightarrow> bool" where
  "immediate val d \<longleftrightarrow>
     (if CPU d = 0 then drop_bit 27 val AND 0x7 = 0 else drop_bit 28 val AND 0x3 = 0)"

definition idle :: "DMA \<Rightarrow> bool" where
  "idle d \<longleftrightarrow> DMACnt d AND 0x80000000 = 0 \<and> Running d = 0 \<and> \<not> InProgress d \<and> \<not> Stall d"

lemma WriteCnt_starts:
  assumes "idle (DMAs n i)" "val AND 0x80000000 \<noteq> 0" "immediate val (DMAs n i)"
  shows "DMAs (WriteCnt i val n) i = started val (DMAs n i)" "core (WriteCnt i val n) = core n"
proof -
  have m: "((drop_bit 28 val AND 0x3) OR 0x10) AND 0x7 = drop_bit 28 val AND (0x3 :: u32)"
    by (simp add: bit.conj_disj_distrib2 and.assoc)
  have z: "StartMode (enable_channel ((DMAs n i)\<lparr>DMACnt := val\<rparr>)) AND 0x7 = 0"
    using assms(3) m by (simp add: enable_channel_def immediate_def split: if_splits)
  have "WriteCnt i val n =
      DMA_Start i (upd_dma i enable_channel (upd_dma i (\<lambda>d. d\<lparr>DMACnt := val\<rparr>) n))"
    using assms(1,2) z by (simp add: WriteCnt_def Let_def idle_def upd_dma_def)
  then show "DMAs (WriteCnt i val n) i = started val (DMAs n i)" "core (WriteCnt i val n) = core n"
    using assms(1)
    by (simp_all add: DMA_Start_def Let_def upd_dma_def idle_def enable_channel_def started_def StopCPU_def Halt_def)
qed

lemma countmask_nz: "countmask d + 1 \<noteq> 0"
  by (simp add: countmask_def)

lemma start_channel_simps [simp]:
  "StartMode (start_channel d) = StartMode d" "DMACnt (start_channel d) = DMACnt d" "CPU (start_channel d) = CPU d"
  "Num (start_channel d) = Num d" "Stall (start_channel d) = Stall d" "InProgress (start_channel d)"
  "Running (start_channel d) = 2"
  "RemCount (start_channel d) =
     (if InProgress d then RemCount d
      else if DMACnt d AND countmask d = 0 then countmask d + 1 else DMACnt d AND countmask d)"
  "IterCount (start_channel d) =
     (if StartMode d = 0x07 \<and> RemCount (start_channel d) > 112 then 112 else RemCount (start_channel d))"
  by (simp_all add: start_channel_def Let_def)

lemma enable_channel_simps [simp]:
  "DMACnt (enable_channel d) = DMACnt d" "CPU (enable_channel d) = CPU d" "Num (enable_channel d) = Num d"
  "Stall (enable_channel d) = Stall d" "InProgress (enable_channel d) = InProgress d"
  "Running (enable_channel d) = Running d" "countmask (enable_channel d) = countmask d"
  by (simp_all add: enable_channel_def countmask_def)

lemma countmask_cnt [simp]: "countmask (d\<lparr>DMACnt := v\<rparr>) = countmask d"
  by (simp add: countmask_def)

lemma started_simps:
  assumes "idle d" "immediate val d"
  shows "IterCount (started val d) = RemCount (started val d)" "InProgress (started val d)" "\<not> Stall (started val d)"
    "0 < RemCount (started val d)" "Running (started val d) = 2" "CPU (started val d) = CPU d" "Num (started val d) = Num d"
    "DMACnt (started val d) = val"
proof -
  have m: "((drop_bit 28 val AND 0x3) OR 0x10) \<noteq> (0x7 :: u32)"
    by (auto dest!: arg_cong [of _ _ "\<lambda>w. bit w 4"] simp: bit_simps)
  have "StartMode (started val d) \<noteq> 0x07"
    using assms(2) m by (simp add: started_def enable_channel_def immediate_def)
  then show "IterCount (started val d) = RemCount (started val d)"
    unfolding started_def by (simp only: start_channel_simps) simp
  show "InProgress (started val d)" "\<not> Stall (started val d)" "Running (started val d) = 2"
    "CPU (started val d) = CPU d" "Num (started val d) = Num d" "DMACnt (started val d) = val"
    using assms(1) by (simp_all add: started_def idle_def)
  show "0 < RemCount (started val d)"
    using assms(1) countmask_nz [of d] by (simp add: started_def idle_def word_neq_0_conv)
qed

lemma started_count:
  assumes "idle d"
  shows "RemCount (started val d) = (if val AND countmask d = 0 then countmask d + 1 else val AND countmask d)"
  using assms by (simp add: started_def idle_def)

section \<open>Properties\<close>

text \<open>
  C10: a DMA transfer copies its units once each, in order, however it is cut. A channel
  that the program enables in the immediate mode, with every unit in memory, is run in any
  number of time slices. Every run returns; the memory is what copying the first \<open>k\<close> units
  one after the other gives, where \<open>k\<close> is the number of units gone from the count; and
  exactly when all units are copied (the count written, or the largest count when that was
  zero) the channel is finished: idle, disabled unless it repeats, its interrupt requested
  if the program asked for it, and the processor no longer stopped by it.
\<close>

theorem DMA_transfer_copies:
  fixes n :: "'a dma_nds_scheme"
  assumes "idle (DMAs n i)" "CPU (DMAs n i) < 2" "Num (DMAs n i) < 4"
    and "val AND 0x80000000 \<noteq> 0" "immediate val (DMAs n i)"
    and "\<And>j. j < unat (RemCount (started val (DMAs n i))) \<Longrightarrow>
      plain (CPU (DMAs n i)) (CurSrcAddr (started val (DMAs n i)) + of_nat j * src_step (started val (DMAs n i))) \<and>
      plain (CPU (DMAs n i)) (CurDstAddr (started val (DMAs n i)) + of_nat j * dst_step (started val (DMAs n i)))"
  shows "\<exists>k n'. dma_slices dev i ts (WriteCnt i val n) = Some n' \<and>
    k \<le> unat (RemCount (started val (DMAs n i))) \<and>
    core n' = copied dev k (started val (DMAs n i)) (core n) \<and>
    unat (RemCount (DMAs n' i)) = unat (RemCount (started val (DMAs n i))) - k \<and>
    (if k = unat (RemCount (started val (DMAs n i)))
     then dma_done i (started val (DMAs n i)) n' else InProgress (DMAs n' i))"
proof -
  note w = WriteCnt_starts [OF assms(1,4,5)] and s = started_simps [OF assms(1,5)]
  have "dma_ready (started val (DMAs n i))"
    using assms(2,6) s by (simp add: dma_ready_def)
  then show ?thesis
    using slices_copy [of "WriteCnt i val n" i dev ts] s assms(3) by (simp add: w split del: if_split cong: if_cong)
qed


text \<open>Two words copied inside main RAM by channel 3 of the ARM9.\<close>

definition example_dma :: dma_nds where
  "example_dma = (InitTimings dma_init)
     \<lparr>DMAs := (\<lambda>i. (DMA_zero (i div 4) (i mod 4))\<lparr>SrcAddr := 0x02000000, DstAddr := 0x02001000\<rparr>),
      ARM9Timestamp := 0, ARM9Target := 10\<rparr>"

lemma example_started:
  "idle (DMAs example_dma 3)" "immediate 0x84000002 (DMAs example_dma 3)"
  "RemCount (started 0x84000002 (DMAs example_dma 3)) = 2"
  "CurSrcAddr (started 0x84000002 (DMAs example_dma 3)) = 0x02000000"
  "CurDstAddr (started 0x84000002 (DMAs example_dma 3)) = 0x02001000"
  "src_step (started 0x84000002 (DMAs example_dma 3)) = 4" "dst_step (started 0x84000002 (DMAs example_dma 3)) = 4"
  "CPU (DMAs example_dma 3) = 0" "Num (DMAs example_dma 3) = 3"
  by (simp_all add: example_dma_def idle_def immediate_def started_def start_channel_def enable_channel_def
      DMA_zero_def countmask_def addr_inc_def src_step_def dst_step_def wide_def Let_def)

theorem DMA_transfer_copies_witness:
  "\<exists>k n'. dma_slices no_devices 3 [100, 200] (WriteCnt 3 0x84000002 example_dma) = Some n' \<and> k \<le> 2 \<and>
    core n' = copied no_devices k (started 0x84000002 (DMAs example_dma 3)) (core example_dma)"
proof -
  have "plain 0 (0x02000000 + of_nat j * 4) \<and> plain 0 (0x02001000 + of_nat j * 4)" if "j < 2" for j
    using that by (auto simp: less_2_cases_iff plain_def plain9_def)
  then show ?thesis
    using DMA_transfer_copies [of example_dma 3 "0x84000002" no_devices "[100, 200]"]
    by (auto simp: example_started)
qed

definition example_channel :: DMA where
  "example_channel = (DMA_zero 0 3)\<lparr>Running := 2, IterCount := 1, RemCount := 1, CurSrcAddr := 0x02000000,
     CurDstAddr := 0x02001000\<rparr>"


end
