(* ===== verification/Arm_Core.thy ===== *)
theory Arm_Core
  imports Mds_Prelude
begin

text \<open>
  The processor state that both processors share, class \<^verbatim>\<open>ARM\<close> of \<^verbatim>\<open>src/src/ARM.h\<close> and
  \<^verbatim>\<open>src/src/ARM.cpp\<close>: the registers with their banks, the status register, the modes, the
  exceptions, and the instructions of \<^verbatim>\<open>src/src/ARMInterpreter.cpp\<close> and
  \<^verbatim>\<open>src/src/ARMInterpreter_Branch.cpp\<close>.

  The pure virtual methods of the class are a record of functions, \<open>vtable\<close>: what an
  instruction does is defined for every processor that implements them.
\<close>

section \<open>State\<close>

text \<open>
  \<^verbatim>\<open>PU_Map\<close> is a pointer of \<^verbatim>\<open>ARMv5\<close> to one of its two maps; \<^verbatim>\<open>ARM::UpdateMode\<close> sets it through
  a cast. \<^verbatim>\<open>Cycles\<close>, \<^verbatim>\<open>CodeCycles\<close> and \<^verbatim>\<open>DataCycles\<close> are signed: their overflow is undefined in
  C++, and they are integers here. The halt state and the interrupt line of a processor are
  part of the console (\<^verbatim>\<open>Halted\<close> and \<^verbatim>\<open>IRQ_line\<close> of the theory \<open>Nds_Core\<close>).
\<close>

datatype pu_map = PU_PrivMap | PU_UserMap

record arm =
  Num :: nat
  Cycles :: int
  CodeRegion :: u32
  CodeCycles :: int
  DataRegion :: u32
  DataCycles :: int
  R :: "nat \<Rightarrow> u32"
  CPSR :: u32
  R_FIQ :: "nat \<Rightarrow> u32"
  R_SVC :: "nat \<Rightarrow> u32"
  R_ABT :: "nat \<Rightarrow> u32"
  R_IRQ :: "nat \<Rightarrow> u32"
  R_UND :: "nat \<Rightarrow> u32"
  CurInstr :: u32
  NextInstr :: "nat \<Rightarrow> u32"
  ExceptionBase :: u32
  PU_Map :: pu_map

text \<open>
  The virtual methods, and what the instructions call of the console. A read returns the
  value it stores through its pointer argument, or \<open>None\<close> when it returns without storing
  one. \<open>ClearStops\<close> is \<^verbatim>\<open>Halted = 0; IRQ = 0;\<close>, fields that the console has here. \<open>Undef\<close> is the
  content of a local variable that was never assigned.
\<close>

record 's vtable =
  JumpTo :: "u32 \<Rightarrow> bool \<Rightarrow> 's \<Rightarrow> 's"
  DataRead8 :: "u32 \<Rightarrow> 's \<Rightarrow> u32 option \<times> 's"
  DataRead16 :: "u32 \<Rightarrow> 's \<Rightarrow> u32 option \<times> 's"
  DataRead32 :: "u32 \<Rightarrow> 's \<Rightarrow> u32 option \<times> 's"
  DataRead32S :: "u32 \<Rightarrow> 's \<Rightarrow> u32 option \<times> 's"
  DataWrite8 :: "u32 \<Rightarrow> u8 \<Rightarrow> 's \<Rightarrow> 's"
  DataWrite16 :: "u32 \<Rightarrow> u16 \<Rightarrow> 's \<Rightarrow> 's"
  DataWrite32 :: "u32 \<Rightarrow> u32 \<Rightarrow> 's \<Rightarrow> 's"
  DataWrite32S :: "u32 \<Rightarrow> u32 \<Rightarrow> 's \<Rightarrow> 's"
  AddCycles_C :: "'s \<Rightarrow> 's"
  AddCycles_CI :: "int \<Rightarrow> 's \<Rightarrow> 's"
  AddCycles_CDI :: "'s \<Rightarrow> 's"
  AddCycles_CD :: "'s \<Rightarrow> 's"
  CP15Write :: "u32 \<Rightarrow> u32 \<Rightarrow> 's \<Rightarrow> 's"
  CP15Read :: "u32 \<Rightarrow> 's \<Rightarrow> u32"
  ClearStops :: "'s \<Rightarrow> 's"
  NDS_IF_IE7 :: "'s \<Rightarrow> u32"
  RunCheats :: "'s \<Rightarrow> 's"
  NocashPrint :: "nat \<Rightarrow> u32 \<Rightarrow> 's \<Rightarrow> 's"
  Undef :: u32

type_synonym 'w vt = "'w arm_scheme vtable"

text \<open>\<^verbatim>\<open>cpu->R[i] = v\<close>, and a field of the instruction word as a register number.\<close>

definition setR :: "nat \<Rightarrow> u32 \<Rightarrow> 'w arm_scheme \<Rightarrow> 'w arm_scheme" where
  "setR i v cpu = cpu\<lparr>R := (R cpu)(i := v)\<rparr>"

definition ifield :: "nat \<Rightarrow> u32 \<Rightarrow> 'w arm_scheme \<Rightarrow> nat" where
  "ifield k m cpu = unat (drop_bit k (CurInstr cpu) AND m)"

abbreviation ibit :: "nat \<Rightarrow> 'w arm_scheme \<Rightarrow> bool" where
  "ibit k cpu \<equiv> bit (CurInstr cpu) k"

section \<open>Flags and conditions\<close>

definition ROR :: "u32 \<Rightarrow> nat \<Rightarrow> u32" where
  "ROR x n = drop_bit (n mod 32) x OR push_bit ((32 - n mod 32) mod 32) x"

definition ConditionTable :: "u32 list" where
  "ConditionTable =
     [0xF0F0, 0x0F0F, 0xCCCC, 0x3333, 0xFF00, 0x00FF, 0xAAAA, 0x5555,
      0x0C0C, 0xF3F3, 0xAA55, 0x55AA, 0x0A05, 0xF5FA, 0xFFFF, 0x0000]"

definition CheckCondition :: "nat \<Rightarrow> 'w arm_scheme \<Rightarrow> bool" where
  "CheckCondition code cpu \<longleftrightarrow>
     code = 0xE \<or> ConditionTable ! code AND push_bit (unat (drop_bit 28 (CPSR cpu))) 1 \<noteq> 0"

definition SetC :: "bool \<Rightarrow> 'w arm_scheme \<Rightarrow> 'w arm_scheme" where
  "SetC c cpu =
     (if c then cpu\<lparr>CPSR := CPSR cpu OR 0x20000000\<rparr> else cpu\<lparr>CPSR := CPSR cpu AND NOT 0x20000000\<rparr>)"

definition SetNZ :: "bool \<Rightarrow> bool \<Rightarrow> 'w arm_scheme \<Rightarrow> 'w arm_scheme" where
  "SetNZ n z cpu =
     (let p = CPSR cpu AND NOT 0xC0000000;
          p = (if n then p OR 0x80000000 else p);
          p = (if z then p OR 0x40000000 else p)
      in cpu\<lparr>CPSR := p\<rparr>)"

definition SetNZCV :: "bool \<Rightarrow> bool \<Rightarrow> bool \<Rightarrow> bool \<Rightarrow> 'w arm_scheme \<Rightarrow> 'w arm_scheme" where
  "SetNZCV n z c v cpu =
     (let p = CPSR cpu AND NOT 0xF0000000;
          p = (if n then p OR 0x80000000 else p);
          p = (if z then p OR 0x40000000 else p);
          p = (if c then p OR 0x20000000 else p);
          p = (if v then p OR 0x10000000 else p)
      in cpu\<lparr>CPSR := p\<rparr>)"

definition ModeIs :: "u32 \<Rightarrow> 'w arm_scheme \<Rightarrow> bool" where
  "ModeIs mode cpu \<longleftrightarrow>
     (let cm = CPSR cpu AND 0x1F; m = mode AND 0x1F
      in if m = cm then True
         else if m = 0x17 then 0x14 \<le> cm \<and> cm \<le> 0x17
         else if m = 0x1B then 0x18 \<le> cm \<and> cm \<le> 0x1B
         else False)"

section \<open>Modes\<close>

text \<open>The sequence \<^verbatim>\<open>std::swap(R[k], bank[0]); ... std::swap(R[k+n-1], bank[n-1])\<close>.\<close>

fun swap_regs :: "nat \<Rightarrow> nat \<Rightarrow> (nat \<Rightarrow> u32) \<times> (nat \<Rightarrow> u32) \<Rightarrow> (nat \<Rightarrow> u32) \<times> (nat \<Rightarrow> u32)" where
  "swap_regs k 0 rb = rb"
| "swap_regs k (Suc n) rb =
     (let (r, b) = swap_regs k n rb in (r(k + n := b n), b(n := r (k + n))))"

text \<open>The \<^verbatim>\<open>switch\<close> that \<^verbatim>\<open>ARM::UpdateMode\<close> has twice.\<close>

definition swap_bank :: "u32 \<Rightarrow> 'w arm_scheme \<Rightarrow> 'w arm_scheme" where
  "swap_bank mode cpu =
     (let m = mode AND 0x1F
      in if m = 0x11 then let (r, b) = swap_regs 8 7 (R cpu, R_FIQ cpu) in cpu\<lparr>R := r, R_FIQ := b\<rparr>
         else if m = 0x12 then let (r, b) = swap_regs 13 2 (R cpu, R_IRQ cpu) in cpu\<lparr>R := r, R_IRQ := b\<rparr>
         else if m = 0x13 then let (r, b) = swap_regs 13 2 (R cpu, R_SVC cpu) in cpu\<lparr>R := r, R_SVC := b\<rparr>
         else if m = 0x17 then let (r, b) = swap_regs 13 2 (R cpu, R_ABT cpu) in cpu\<lparr>R := r, R_ABT := b\<rparr>
         else if m = 0x1B then let (r, b) = swap_regs 13 2 (R cpu, R_UND cpu) in cpu\<lparr>R := r, R_UND := b\<rparr>
         else cpu)"

definition UpdateMode :: "u32 \<Rightarrow> u32 \<Rightarrow> bool \<Rightarrow> 'w arm_scheme \<Rightarrow> 'w arm_scheme" where
  "UpdateMode oldmode newmode phony cpu =
     (if oldmode AND 0x1F = newmode AND 0x1F then cpu
      else
        let cpu = swap_bank newmode (swap_bank oldmode cpu)
        in if \<not> phony \<and> Num cpu = 0
           then cpu\<lparr>PU_Map := (if newmode AND 0x1F = 0x10 then PU_UserMap else PU_PrivMap)\<rparr>
           else cpu)"

definition RestoreCPSR :: "'w arm_scheme \<Rightarrow> 'w arm_scheme" where
  "RestoreCPSR cpu =
     (let oldcpsr = CPSR cpu; m = CPSR cpu AND 0x1F;
          p = (if m = 0x11 then R_FIQ cpu 7
               else if m = 0x12 then R_IRQ cpu 2
               else if m = 0x13 then R_SVC cpu 2
               else if m \<in> {0x14, 0x15, 0x16, 0x17} then R_ABT cpu 2
               else if m \<in> {0x18, 0x19, 0x1A, 0x1B} then R_UND cpu 2
               else CPSR cpu) OR 0x00000010
      in UpdateMode oldcpsr p False (cpu\<lparr>CPSR := p\<rparr>))"

definition Reset :: "'w vt \<Rightarrow> 'w arm_scheme \<Rightarrow> 'w arm_scheme" where
  "Reset vt cpu =
     (let spsr = (0x00000010 :: u32);
          cpu = ClearStops vt cpu;
          cpu = cpu\<lparr>Cycles := 0,
                     R := (\<lambda>i. if i < 16 then 0 else R cpu i),
                     CPSR := 0x000000D3,
                     R_FIQ := (\<lambda>i. if i < 7 then 0 else if i = 7 then spsr else R_FIQ cpu i),
                     R_SVC := (\<lambda>i. if i < 2 then 0 else if i = 2 then spsr else R_SVC cpu i),
                     R_ABT := (\<lambda>i. if i < 2 then 0 else if i = 2 then spsr else R_ABT cpu i),
                     R_IRQ := (\<lambda>i. if i < 2 then 0 else if i = 2 then spsr else R_IRQ cpu i),
                     R_UND := (\<lambda>i. if i < 2 then 0 else if i = 2 then spsr else R_UND cpu i),
                     ExceptionBase := (if Num cpu \<noteq> 0 then 0x00000000 else 0xFFFF0000)\<rparr>
      in JumpTo vt (ExceptionBase cpu) False cpu)"

section \<open>Exceptions\<close>

definition IRQ_VBlank :: nat where "IRQ_VBlank = 0"

definition TriggerIRQ :: "'w vt \<Rightarrow> 'w arm_scheme \<Rightarrow> 'w arm_scheme" where
  "TriggerIRQ vt cpu =
     (if CPSR cpu AND 0x80 \<noteq> 0 then cpu
      else
        let oldcpsr = CPSR cpu;
            p = (CPSR cpu AND NOT 0xFF) OR 0xD2;
            cpu = UpdateMode oldcpsr p False (cpu\<lparr>CPSR := p\<rparr>);
            cpu = cpu\<lparr>R_IRQ := (R_IRQ cpu)(2 := oldcpsr)\<rparr>;
            cpu = setR 14 (R cpu 15 + (if oldcpsr AND 0x20 \<noteq> 0 then 2 else 0)) cpu;
            cpu = JumpTo vt (ExceptionBase cpu + 0x18) False cpu
        in if Num cpu = 1 \<and> bit (NDS_IF_IE7 vt cpu) IRQ_VBlank then RunCheats vt cpu else cpu)"

definition A_UNK :: "'w vt \<Rightarrow> 'w arm_scheme \<Rightarrow> 'w arm_scheme" where
  "A_UNK vt cpu =
     (let oldcpsr = CPSR cpu;
          p = (CPSR cpu AND NOT 0xBF) OR 0x9B;
          cpu = UpdateMode oldcpsr p False (cpu\<lparr>CPSR := p\<rparr>);
          cpu = cpu\<lparr>R_UND := (R_UND cpu)(2 := oldcpsr)\<rparr>;
          cpu = setR 14 (R cpu 15 - 4) cpu
      in JumpTo vt (ExceptionBase cpu + 0x04) False cpu)"

definition T_UNK :: "'w vt \<Rightarrow> 'w arm_scheme \<Rightarrow> 'w arm_scheme" where
  "T_UNK vt cpu =
     (let oldcpsr = CPSR cpu;
          p = (CPSR cpu AND NOT 0xBF) OR 0x9B;
          cpu = UpdateMode oldcpsr p False (cpu\<lparr>CPSR := p\<rparr>);
          cpu = cpu\<lparr>R_UND := (R_UND cpu)(2 := oldcpsr)\<rparr>;
          cpu = setR 14 (R cpu 15 - 2) cpu
      in JumpTo vt (ExceptionBase cpu + 0x04) False cpu)"

definition A_SVC :: "'w vt \<Rightarrow> 'w arm_scheme \<Rightarrow> 'w arm_scheme" where
  "A_SVC vt cpu =
     (let oldcpsr = CPSR cpu;
          p = (CPSR cpu AND NOT 0xBF) OR 0x93;
          cpu = UpdateMode oldcpsr p False (cpu\<lparr>CPSR := p\<rparr>);
          cpu = cpu\<lparr>R_SVC := (R_SVC cpu)(2 := oldcpsr)\<rparr>;
          cpu = setR 14 (R cpu 15 - 4) cpu
      in JumpTo vt (ExceptionBase cpu + 0x08) False cpu)"

definition T_SVC :: "'w vt \<Rightarrow> 'w arm_scheme \<Rightarrow> 'w arm_scheme" where
  "T_SVC vt cpu =
     (let oldcpsr = CPSR cpu;
          p = (CPSR cpu AND NOT 0xBF) OR 0x93;
          cpu = UpdateMode oldcpsr p False (cpu\<lparr>CPSR := p\<rparr>);
          cpu = cpu\<lparr>R_SVC := (R_SVC cpu)(2 := oldcpsr)\<rparr>;
          cpu = setR 14 (R cpu 15 - 2) cpu
      in JumpTo vt (ExceptionBase cpu + 0x08) False cpu)"

section \<open>Status register instructions\<close>

text \<open>
  The register that bit 22 of the instruction selects: \<^verbatim>\<open>psr = &cpu->R_FIQ[7]\<close> and so on, or
  no register in a mode that has no saved status.
\<close>

datatype psr_ref = PSR_CPSR | PSR_FIQ | PSR_IRQ | PSR_SVC | PSR_ABT | PSR_UND

definition psr_ptr :: "'w arm_scheme \<Rightarrow> psr_ref option" where
  "psr_ptr cpu =
     (if ibit 22 cpu then
        let m = CPSR cpu AND 0x1F
        in if m = 0x11 then Some PSR_FIQ
           else if m = 0x12 then Some PSR_IRQ
           else if m = 0x13 then Some PSR_SVC
           else if m \<in> {0x14, 0x15, 0x16, 0x17} then Some PSR_ABT
           else if m \<in> {0x18, 0x19, 0x1A, 0x1B} then Some PSR_UND
           else None
      else Some PSR_CPSR)"

fun psr_get :: "psr_ref \<Rightarrow> 'w arm_scheme \<Rightarrow> u32" where
  "psr_get PSR_CPSR cpu = CPSR cpu"
| "psr_get PSR_FIQ cpu = R_FIQ cpu 7"
| "psr_get PSR_IRQ cpu = R_IRQ cpu 2"
| "psr_get PSR_SVC cpu = R_SVC cpu 2"
| "psr_get PSR_ABT cpu = R_ABT cpu 2"
| "psr_get PSR_UND cpu = R_UND cpu 2"

fun psr_set :: "psr_ref \<Rightarrow> u32 \<Rightarrow> 'w arm_scheme \<Rightarrow> 'w arm_scheme" where
  "psr_set PSR_CPSR v cpu = cpu\<lparr>CPSR := v\<rparr>"
| "psr_set PSR_FIQ v cpu = cpu\<lparr>R_FIQ := (R_FIQ cpu)(7 := v)\<rparr>"
| "psr_set PSR_IRQ v cpu = cpu\<lparr>R_IRQ := (R_IRQ cpu)(2 := v)\<rparr>"
| "psr_set PSR_SVC v cpu = cpu\<lparr>R_SVC := (R_SVC cpu)(2 := v)\<rparr>"
| "psr_set PSR_ABT v cpu = cpu\<lparr>R_ABT := (R_ABT cpu)(2 := v)\<rparr>"
| "psr_set PSR_UND v cpu = cpu\<lparr>R_UND := (R_UND cpu)(2 := v)\<rparr>"

definition msr_mask :: "'w arm_scheme \<Rightarrow> u32" where
  "msr_mask cpu =
     (let mk = 0;
          mk = (if ibit 16 cpu then mk OR 0x000000FF else mk);
          mk = (if ibit 17 cpu then mk OR 0x0000FF00 else mk);
          mk = (if ibit 18 cpu then mk OR 0x00FF0000 else mk);
          mk = (if ibit 19 cpu then mk OR 0xFF000000 else mk);
          mk = (if \<not> ibit 22 cpu then mk AND 0xFFFFFFDF else mk)
      in if CPSR cpu AND 0x1F = 0x10 then mk AND 0xFFFFFF00 else mk)"

text \<open>The part that \<^verbatim>\<open>A_MSR_IMM\<close> and \<^verbatim>\<open>A_MSR_REG\<close> have in common; \<open>val\<close> is the operand.\<close>

definition msr :: "'w vt \<Rightarrow> u32 \<Rightarrow> 'w arm_scheme \<Rightarrow> 'w arm_scheme" where
  "msr vt val cpu =
     (case psr_ptr cpu of
        None \<Rightarrow> AddCycles_C vt cpu
      | Some p \<Rightarrow>
          let oldpsr = psr_get p cpu;
              mk = msr_mask cpu;
              val = val OR 0x00000010;
              cpu = psr_set p ((oldpsr AND NOT mk) OR (val AND mk)) cpu;
              cpu = (if \<not> ibit 22 cpu then UpdateMode oldpsr (CPSR cpu) False cpu else cpu)
          in AddCycles_C vt cpu)"

definition A_MSR_IMM :: "'w vt \<Rightarrow> 'w arm_scheme \<Rightarrow> 'w arm_scheme" where
  "A_MSR_IMM vt cpu = msr vt (ROR (CurInstr cpu AND 0xFF) (ifield 7 0x1E cpu)) cpu"

definition A_MSR_REG :: "'w vt \<Rightarrow> 'w arm_scheme \<Rightarrow> 'w arm_scheme" where
  "A_MSR_REG vt cpu = msr vt (R cpu (ifield 0 0xF cpu)) cpu"

definition A_MRS :: "'w vt \<Rightarrow> 'w arm_scheme \<Rightarrow> 'w arm_scheme" where
  "A_MRS vt cpu =
     (let psr = (case psr_ptr cpu of None \<Rightarrow> CPSR cpu | Some p \<Rightarrow> psr_get p cpu)
      in AddCycles_C vt (setR (ifield 12 0xF cpu) psr cpu))"

text \<open>Coprocessor registers: the index that the instruction encodes.\<close>

definition cp_index :: "'w arm_scheme \<Rightarrow> u32" where
  "cp_index cpu =
     (let cn = drop_bit 16 (CurInstr cpu) AND 0xF; cm = CurInstr cpu AND 0xF;
          cpinfo = drop_bit 5 (CurInstr cpu) AND 0x7
      in push_bit 8 cn OR push_bit 4 cm OR cpinfo)"

definition A_MCR :: "'w vt \<Rightarrow> 'w arm_scheme \<Rightarrow> 'w arm_scheme" where
  "A_MCR vt cpu =
     (if CPSR cpu AND 0x1F = 0x10 then A_UNK vt cpu
      else
        let cp = ifield 8 0xF cpu
        in if Num cpu = 0 \<and> cp = 15 then
             AddCycles_CI vt (1 + 1) (CP15Write vt (cp_index cpu) (R cpu (ifield 12 0xF cpu)) cpu)
           else if Num cpu = 1 \<and> cp = 14 then AddCycles_CI vt (1 + 1) cpu
           else A_UNK vt cpu)"

definition A_MRC :: "'w vt \<Rightarrow> 'w arm_scheme \<Rightarrow> 'w arm_scheme" where
  "A_MRC vt cpu =
     (if CPSR cpu AND 0x1F = 0x10 then A_UNK vt cpu
      else
        let cp = ifield 8 0xF cpu
        in if Num cpu = 0 \<and> cp = 15 then
             AddCycles_CI vt (2 + 1) (setR (ifield 12 0xF cpu) (CP15Read vt (cp_index cpu) cpu) cpu)
           else if Num cpu = 1 \<and> cp = 14 then AddCycles_CI vt (2 + 1) cpu
           else A_UNK vt cpu)"

section \<open>Branches\<close>

text \<open>\<^verbatim>\<open>(s32)(cpu->CurInstr << 8) >> 6\<close> and the like: a shift left, then an arithmetic one right.\<close>

definition boffset :: "nat \<Rightarrow> nat \<Rightarrow> u32 \<Rightarrow> u32" where
  "boffset l r x = signed_drop_bit r (push_bit l x)"

definition A_B :: "'w vt \<Rightarrow> 'w arm_scheme \<Rightarrow> 'w arm_scheme" where
  "A_B vt cpu = JumpTo vt (R cpu 15 + boffset 8 6 (CurInstr cpu)) False cpu"

definition A_BL :: "'w vt \<Rightarrow> 'w arm_scheme \<Rightarrow> 'w arm_scheme" where
  "A_BL vt cpu =
     (let offset = boffset 8 6 (CurInstr cpu);
          cpu = setR 14 (R cpu 15 - 4) cpu
      in JumpTo vt (R cpu 15 + offset) False cpu)"

definition A_BLX_IMM :: "'w vt \<Rightarrow> 'w arm_scheme \<Rightarrow> 'w arm_scheme" where
  "A_BLX_IMM vt cpu =
     (let offset = boffset 8 6 (CurInstr cpu);
          offset = (if CurInstr cpu AND 0x01000000 \<noteq> 0 then offset + 2 else offset);
          cpu = setR 14 (R cpu 15 - 4) cpu
      in JumpTo vt (R cpu 15 + offset + 1) False cpu)"

definition A_BX :: "'w vt \<Rightarrow> 'w arm_scheme \<Rightarrow> 'w arm_scheme" where
  "A_BX vt cpu = JumpTo vt (R cpu (ifield 0 0xF cpu)) False cpu"

definition A_BLX_REG :: "'w vt \<Rightarrow> 'w arm_scheme \<Rightarrow> 'w arm_scheme" where
  "A_BLX_REG vt cpu =
     (let lr = R cpu 15 - 4
      in setR 14 lr (JumpTo vt (R cpu (ifield 0 0xF cpu)) False cpu))"

definition T_BCOND :: "'w vt \<Rightarrow> 'w arm_scheme \<Rightarrow> 'w arm_scheme" where
  "T_BCOND vt cpu =
     (if CheckCondition (ifield 8 0xF cpu) cpu
      then JumpTo vt (R cpu 15 + boffset 24 23 (CurInstr cpu) + 1) False cpu
      else AddCycles_C vt cpu)"

definition T_BX :: "'w vt \<Rightarrow> 'w arm_scheme \<Rightarrow> 'w arm_scheme" where
  "T_BX vt cpu = JumpTo vt (R cpu (ifield 3 0xF cpu)) False cpu"

definition T_BLX_REG :: "'w vt \<Rightarrow> 'w arm_scheme \<Rightarrow> 'w arm_scheme" where
  "T_BLX_REG vt cpu =
     (if Num cpu = 1 then cpu
      else
        let lr = R cpu 15 - 1
        in setR 14 lr (JumpTo vt (R cpu (ifield 3 0xF cpu)) False cpu))"

definition T_B :: "'w vt \<Rightarrow> 'w arm_scheme \<Rightarrow> 'w arm_scheme" where
  "T_B vt cpu = JumpTo vt (R cpu 15 + boffset 21 20 (CurInstr cpu AND 0x7FF) + 1) False cpu"

definition T_BL_LONG_1 :: "'w vt \<Rightarrow> 'w arm_scheme \<Rightarrow> 'w arm_scheme" where
  "T_BL_LONG_1 vt cpu =
     AddCycles_C vt (setR 14 (R cpu 15 + boffset 21 9 (CurInstr cpu AND 0x7FF)) cpu)"

definition T_BL_LONG_2 :: "'w vt \<Rightarrow> 'w arm_scheme \<Rightarrow> 'w arm_scheme" where
  "T_BL_LONG_2 vt cpu =
     (let offset = push_bit 1 (CurInstr cpu AND 0x7FF);
          pc = R cpu 14 + offset;
          cpu = setR 14 ((R cpu 15 - 2) OR 1) cpu;
          pc = (if Num cpu = 1 \<or> ibit 12 cpu then pc OR 1 else pc)
      in JumpTo vt pc False cpu)"

section \<open>Bits and orders\<close>

text \<open>Facts on 32-bit words that the instruction theories share.\<close>

lemma unat_less_exp_if_take_bit: "take_bit n v = v \<Longrightarrow> unat v < 2 ^ n" for v :: "'a::len word"
  by (metis take_bit_nat_less_exp unsigned_take_bit_eq)

lemma shl_or_increases:
  fixes v :: u32
  assumes "take_bit (32 - k) v = v" and "0 < k" "k < 32"
  shows "unat v < unat (push_bit k v OR mask k)"
proof -
  have "unat v * 2 ^ k < 2 ^ (32 - k) * 2 ^ k" using unat_less_exp_if_take_bit [OF assms(1)] by simp
  also have "\<dots> = 2 ^ 32" using assms by (simp flip: power_add)
  finally have p: "unat (push_bit k v) = unat v * 2 ^ k" by (simp add: unat_push_small)
  have "unat (push_bit k v OR mask k) = unat (push_bit k v) OR mask k"
    using assms by (intro bit_eqI) (auto simp: bit_simps dest: bit_imp_le_length)
  also have "\<dots> = push_bit k (unat v) OR mask k" using p by (simp add: push_bit_eq_mult)
  also have "\<dots> = push_bit k (unat v) + mask k"
    by (rule disjunctive_add_eq_or [symmetric]) (rule bit_eqI, auto simp: bit_simps)
  also have "\<dots> = unat v * 2 ^ k + (2 ^ k - 1)" by (simp add: push_bit_eq_mult mask_eq_exp_minus_1)
  finally have e: "unat (push_bit k v OR mask k) = unat v * 2 ^ k + (2 ^ k - 1)" .
  have "2 \<le> (2::nat) ^ k" using assms power_increasing [of 1 k "2::nat"] by simp
  then have "unat v * 2 \<le> unat v * 2 ^ k" "1 \<le> 2 ^ k - (1::nat)" by simp_all
  then show ?thesis unfolding e by linarith
qed

lemma top_clear_24: "(v AND 0xFF000000 = 0) = (take_bit 24 v = v)" for v :: u32
proof -
  have m: "(0xFF000000 :: u32) = NOT (mask 24)" by (simp add: mask_numeral)
  show ?thesis unfolding m
    by (auto simp: bit_eq_iff bit_simps)
qed

lemma top_clear_31: "(v AND 0x80000000 = 0) = (take_bit 31 v = v)" for v :: u32
proof -
  have m: "(0x80000000 :: u32) = NOT (mask 31)" by (simp add: mask_numeral)
  show ?thesis unfolding m
    by (auto simp: bit_eq_iff bit_simps)
qed

text \<open>A processor with all registers clear, for examples.\<close>

definition arm_zero :: "nat \<Rightarrow> arm" where
  "arm_zero num =
     \<lparr>Num = num, Cycles = 0, CodeRegion = 0, CodeCycles = 0, DataRegion = 0, DataCycles = 0, R = (\<lambda>_. 0),
      CPSR = 0x1F, R_FIQ = (\<lambda>_. 0x10), R_SVC = (\<lambda>_. 0x10), R_ABT = (\<lambda>_. 0x10), R_IRQ = (\<lambda>_. 0x10),
      R_UND = (\<lambda>_. 0x10), CurInstr = 0, NextInstr = (\<lambda>_. 0), ExceptionBase = 0, PU_Map = PU_PrivMap\<rparr>"

end
