(* ===== verification/Arm_Alu.thy ===== *)
theory Arm_Alu
  imports Arm_Core
begin

text \<open>
  The data processing instructions, \<^verbatim>\<open>src/src/ARMInterpreter_ALU.cpp\<close>: carry and overflow, the
  barrel shifter, the sixteen operations in their operand forms, the multiplications, the
  saturating operations, and the THUMB instructions.

  The source builds the operand forms with macros. \<^verbatim>\<open>A_IMPLEMENT_ALU_OP(x,s)\<close> makes eighteen
  functions \<^verbatim>\<open>A_x_IMM\<close>, \<^verbatim>\<open>A_x_REG_LSL_IMM\<close>, \<dots> from the bodies \<^verbatim>\<open>A_x\<close> and \<^verbatim>\<open>A_x_S\<close>; here the
  operand form is a value of type \<open>op2\<close> and the macro is a function of the bodies.
\<close>

section \<open>Carry and overflow\<close>

definition CarryAdd :: "u32 \<Rightarrow> u32 \<Rightarrow> bool" where
  "CarryAdd a b \<longleftrightarrow> 0xFFFFFFFF - a < b"

definition CarrySub :: "u32 \<Rightarrow> u32 \<Rightarrow> bool" where
  "CarrySub a b \<longleftrightarrow> a \<ge> b"

definition OverflowAdd :: "u32 \<Rightarrow> u32 \<Rightarrow> bool" where
  "OverflowAdd a b \<longleftrightarrow>
     (let res = a + b
      in \<not> ((a XOR b) AND 0x80000000 \<noteq> 0) \<and> (a XOR res) AND 0x80000000 \<noteq> 0)"

definition OverflowSub :: "u32 \<Rightarrow> u32 \<Rightarrow> bool" where
  "OverflowSub a b \<longleftrightarrow>
     (let res = a - b
      in (a XOR b) AND 0x80000000 \<noteq> 0 \<and> (a XOR res) AND 0x80000000 \<noteq> 0)"

text \<open>The sums of \<^verbatim>\<open>s64\<close> values here are sums of three 32-bit ones, and do not overflow.\<close>

definition OverflowAdc :: "u32 \<Rightarrow> u32 \<Rightarrow> u32 \<Rightarrow> bool" where
  "OverflowAdc a b carry \<longleftrightarrow>
     (let fullResult = sint a + sint b + uint carry; res = a + b + carry in sint res \<noteq> fullResult)"

definition OverflowSbc :: "u32 \<Rightarrow> u32 \<Rightarrow> u32 \<Rightarrow> bool" where
  "OverflowSbc a b carry \<longleftrightarrow>
     (let fullResult = sint a - sint b - uint carry; res = a - b - carry in sint res \<noteq> fullResult)"

section \<open>The shifter\<close>

text \<open>
  A shift macro assigns to its first argument and may set the carry flag: it maps the
  operand, the amount and the processor to the new operand and processor.
  \<^verbatim>\<open>((s32)x) >> s\<close> is \<open>signed_drop_bit\<close>.
\<close>

definition LSL_IMM :: "u32 \<Rightarrow> nat \<Rightarrow> 'w arm_scheme \<Rightarrow> u32 \<times> 'w arm_scheme" where
  "LSL_IMM x s cpu = (push_bit s x, cpu)"

definition LSR_IMM :: "u32 \<Rightarrow> nat \<Rightarrow> 'w arm_scheme \<Rightarrow> u32 \<times> 'w arm_scheme" where
  "LSR_IMM x s cpu = (if s = 0 then 0 else drop_bit s x, cpu)"

definition ASR_IMM :: "u32 \<Rightarrow> nat \<Rightarrow> 'w arm_scheme \<Rightarrow> u32 \<times> 'w arm_scheme" where
  "ASR_IMM x s cpu = (if s = 0 then signed_drop_bit 31 x else signed_drop_bit s x, cpu)"

definition ROR_IMM :: "u32 \<Rightarrow> nat \<Rightarrow> 'w arm_scheme \<Rightarrow> u32 \<times> 'w arm_scheme" where
  "ROR_IMM x s cpu =
     (if s = 0 then drop_bit 1 x OR push_bit 2 (CPSR cpu AND 0x20000000) else ROR x s, cpu)"

definition LSL_IMM_S :: "u32 \<Rightarrow> nat \<Rightarrow> 'w arm_scheme \<Rightarrow> u32 \<times> 'w arm_scheme" where
  "LSL_IMM_S x s cpu =
     (if s > 0 then (push_bit s x, SetC (x AND push_bit (32 - s) 1 \<noteq> 0) cpu) else (x, cpu))"

definition LSR_IMM_S :: "u32 \<Rightarrow> nat \<Rightarrow> 'w arm_scheme \<Rightarrow> u32 \<times> 'w arm_scheme" where
  "LSR_IMM_S x s cpu =
     (if s = 0 then (0, SetC (x AND push_bit 31 1 \<noteq> 0) cpu)
      else (drop_bit s x, SetC (x AND push_bit (s - 1) 1 \<noteq> 0) cpu))"

definition ASR_IMM_S :: "u32 \<Rightarrow> nat \<Rightarrow> 'w arm_scheme \<Rightarrow> u32 \<times> 'w arm_scheme" where
  "ASR_IMM_S x s cpu =
     (if s = 0 then (signed_drop_bit 31 x, SetC (x AND push_bit 31 1 \<noteq> 0) cpu)
      else (signed_drop_bit s x, SetC (x AND push_bit (s - 1) 1 \<noteq> 0) cpu))"

definition ROR_IMM_S :: "u32 \<Rightarrow> nat \<Rightarrow> 'w arm_scheme \<Rightarrow> u32 \<times> 'w arm_scheme" where
  "ROR_IMM_S x s cpu =
     (if s = 0 then
        let newc = x AND 1
        in (drop_bit 1 x OR push_bit 2 (CPSR cpu AND 0x20000000), SetC (newc \<noteq> 0) cpu)
      else (ROR x s, SetC (x AND push_bit (s - 1) 1 \<noteq> 0) cpu))"

definition LSL_REG :: "u32 \<Rightarrow> nat \<Rightarrow> 'w arm_scheme \<Rightarrow> u32 \<times> 'w arm_scheme" where
  "LSL_REG x s cpu = (if s > 31 then 0 else push_bit s x, cpu)"

definition LSR_REG :: "u32 \<Rightarrow> nat \<Rightarrow> 'w arm_scheme \<Rightarrow> u32 \<times> 'w arm_scheme" where
  "LSR_REG x s cpu = (if s > 31 then 0 else drop_bit s x, cpu)"

definition ASR_REG :: "u32 \<Rightarrow> nat \<Rightarrow> 'w arm_scheme \<Rightarrow> u32 \<times> 'w arm_scheme" where
  "ASR_REG x s cpu = (if s > 31 then signed_drop_bit 31 x else signed_drop_bit s x, cpu)"

definition ROR_REG :: "u32 \<Rightarrow> nat \<Rightarrow> 'w arm_scheme \<Rightarrow> u32 \<times> 'w arm_scheme" where
  "ROR_REG x s cpu = (ROR x (s mod 32), cpu)"

definition LSL_REG_S :: "u32 \<Rightarrow> nat \<Rightarrow> 'w arm_scheme \<Rightarrow> u32 \<times> 'w arm_scheme" where
  "LSL_REG_S x s cpu =
     (if s > 31 then (0, SetC (if s > 32 then False else x AND push_bit 0 1 \<noteq> 0) cpu)
      else if s > 0 then (push_bit s x, SetC (x AND push_bit (32 - s) 1 \<noteq> 0) cpu)
      else (x, cpu))"

definition LSR_REG_S :: "u32 \<Rightarrow> nat \<Rightarrow> 'w arm_scheme \<Rightarrow> u32 \<times> 'w arm_scheme" where
  "LSR_REG_S x s cpu =
     (if s > 31 then (0, SetC (if s > 32 then False else x AND push_bit 31 1 \<noteq> 0) cpu)
      else if s > 0 then (drop_bit s x, SetC (x AND push_bit (s - 1) 1 \<noteq> 0) cpu)
      else (x, cpu))"

definition ASR_REG_S :: "u32 \<Rightarrow> nat \<Rightarrow> 'w arm_scheme \<Rightarrow> u32 \<times> 'w arm_scheme" where
  "ASR_REG_S x s cpu =
     (if s > 31 then (signed_drop_bit 31 x, SetC (x AND push_bit 31 1 \<noteq> 0) cpu)
      else if s > 0 then (signed_drop_bit s x, SetC (x AND push_bit (s - 1) 1 \<noteq> 0) cpu)
      else (x, cpu))"

text \<open>
  The amount of \<^verbatim>\<open>ROR_REG_S\<close> goes up to 255, and \<^verbatim>\<open>1<<(s-1)\<close> is undefined in C++ for \<open>s > 32\<close>.
  The processors the emulator runs on reduce the amount of a shift modulo 32, and so does
  this definition.
\<close>

definition ROR_REG_S :: "u32 \<Rightarrow> nat \<Rightarrow> 'w arm_scheme \<Rightarrow> u32 \<times> 'w arm_scheme" where
  "ROR_REG_S x s cpu =
     (ROR x (s mod 32), if s > 0 then SetC (x AND push_bit ((s - 1) mod 32) 1 \<noteq> 0) cpu else cpu)"

section \<open>Second operands\<close>

definition A_CALC_OP2_IMM :: "'w arm_scheme \<Rightarrow> u32 \<times> 'w arm_scheme" where
  "A_CALC_OP2_IMM cpu = (ROR (CurInstr cpu AND 0xFF) (ifield 7 0x1E cpu), cpu)"

definition A_CALC_OP2_IMM_S :: "'w arm_scheme \<Rightarrow> u32 \<times> 'w arm_scheme" where
  "A_CALC_OP2_IMM_S cpu =
     (let b = ROR (CurInstr cpu AND 0xFF) (ifield 7 0x1E cpu)
      in (b, if ifield 7 0x1E cpu \<noteq> 0 then SetC (b AND 0x80000000 \<noteq> 0) cpu else cpu))"

definition A_CALC_OP2_REG_SHIFT_IMM ::
  "(u32 \<Rightarrow> nat \<Rightarrow> 'w arm_scheme \<Rightarrow> u32 \<times> 'w arm_scheme) \<Rightarrow> 'w arm_scheme \<Rightarrow> u32 \<times> 'w arm_scheme" where
  "A_CALC_OP2_REG_SHIFT_IMM shiftop cpu =
     (let b = R cpu (ifield 0 0xF cpu); s = ifield 7 0x1F cpu in shiftop b s cpu)"

definition A_CALC_OP2_REG_SHIFT_REG ::
  "(u32 \<Rightarrow> nat \<Rightarrow> 'w arm_scheme \<Rightarrow> u32 \<times> 'w arm_scheme) \<Rightarrow> 'w arm_scheme \<Rightarrow> u32 \<times> 'w arm_scheme" where
  "A_CALC_OP2_REG_SHIFT_REG shiftop cpu =
     (let b = R cpu (ifield 0 0xF cpu);
          b = (if ifield 0 0xF cpu = 15 then b + 4 else b)
      in shiftop b (unat (R cpu (ifield 8 0xF cpu) AND 0xFF)) cpu)"

text \<open>The nine operand forms; the last argument of a body is the number of internal cycles.\<close>

datatype op2 =
    Op_IMM
  | Op_REG_LSL_IMM | Op_REG_LSR_IMM | Op_REG_ASR_IMM | Op_REG_ROR_IMM
  | Op_REG_LSL_REG | Op_REG_LSR_REG | Op_REG_ASR_REG | Op_REG_ROR_REG

fun calc_op2 :: "op2 \<Rightarrow> 'w arm_scheme \<Rightarrow> u32 \<times> 'w arm_scheme" where
  "calc_op2 Op_IMM cpu = A_CALC_OP2_IMM cpu"
| "calc_op2 Op_REG_LSL_IMM cpu = A_CALC_OP2_REG_SHIFT_IMM LSL_IMM cpu"
| "calc_op2 Op_REG_LSR_IMM cpu = A_CALC_OP2_REG_SHIFT_IMM LSR_IMM cpu"
| "calc_op2 Op_REG_ASR_IMM cpu = A_CALC_OP2_REG_SHIFT_IMM ASR_IMM cpu"
| "calc_op2 Op_REG_ROR_IMM cpu = A_CALC_OP2_REG_SHIFT_IMM ROR_IMM cpu"
| "calc_op2 Op_REG_LSL_REG cpu = A_CALC_OP2_REG_SHIFT_REG LSL_REG cpu"
| "calc_op2 Op_REG_LSR_REG cpu = A_CALC_OP2_REG_SHIFT_REG LSR_REG cpu"
| "calc_op2 Op_REG_ASR_REG cpu = A_CALC_OP2_REG_SHIFT_REG ASR_REG cpu"
| "calc_op2 Op_REG_ROR_REG cpu = A_CALC_OP2_REG_SHIFT_REG ROR_REG cpu"

fun calc_op2_S :: "op2 \<Rightarrow> 'w arm_scheme \<Rightarrow> u32 \<times> 'w arm_scheme" where
  "calc_op2_S Op_IMM cpu = A_CALC_OP2_IMM_S cpu"
| "calc_op2_S Op_REG_LSL_IMM cpu = A_CALC_OP2_REG_SHIFT_IMM LSL_IMM_S cpu"
| "calc_op2_S Op_REG_LSR_IMM cpu = A_CALC_OP2_REG_SHIFT_IMM LSR_IMM_S cpu"
| "calc_op2_S Op_REG_ASR_IMM cpu = A_CALC_OP2_REG_SHIFT_IMM ASR_IMM_S cpu"
| "calc_op2_S Op_REG_ROR_IMM cpu = A_CALC_OP2_REG_SHIFT_IMM ROR_IMM_S cpu"
| "calc_op2_S Op_REG_LSL_REG cpu = A_CALC_OP2_REG_SHIFT_REG LSL_REG_S cpu"
| "calc_op2_S Op_REG_LSR_REG cpu = A_CALC_OP2_REG_SHIFT_REG LSR_REG_S cpu"
| "calc_op2_S Op_REG_ASR_REG cpu = A_CALC_OP2_REG_SHIFT_REG ASR_REG_S cpu"
| "calc_op2_S Op_REG_ROR_REG cpu = A_CALC_OP2_REG_SHIFT_REG ROR_REG_S cpu"

fun op2_cycles :: "op2 \<Rightarrow> int" where
  "op2_cycles Op_IMM = 0"
| "op2_cycles Op_REG_LSL_IMM = 0"
| "op2_cycles Op_REG_LSR_IMM = 0"
| "op2_cycles Op_REG_ASR_IMM = 0"
| "op2_cycles Op_REG_ROR_IMM = 0"
| "op2_cycles Op_REG_LSL_REG = 1"
| "op2_cycles Op_REG_LSR_REG = 1"
| "op2_cycles Op_REG_ASR_REG = 1"
| "op2_cycles Op_REG_ROR_REG = 1"

text \<open>
  The macro argument \<open>s\<close> says whether the forms that set flags take the carry from the
  shifter: \<open>shc\<close>.
\<close>

type_synonym 'w alu_body = "'w vt \<Rightarrow> int \<Rightarrow> u32 \<Rightarrow> 'w arm_scheme \<Rightarrow> 'w arm_scheme"

definition A_IMPLEMENT_ALU_OP ::
  "'w alu_body \<Rightarrow> 'w alu_body \<Rightarrow> bool \<Rightarrow> bool \<Rightarrow> op2 \<Rightarrow> 'w vt \<Rightarrow> 'w arm_scheme \<Rightarrow> 'w arm_scheme" where
  "A_IMPLEMENT_ALU_OP A_x A_x_S shc S op vt cpu =
     (if S then let (b, cpu) = (if shc then calc_op2_S op cpu else calc_op2 op cpu)
                in A_x_S vt (op2_cycles op) b cpu
      else let (b, cpu) = calc_op2 op cpu in A_x vt (op2_cycles op) b cpu)"

definition A_IMPLEMENT_ALU_TEST ::
  "'w alu_body \<Rightarrow> bool \<Rightarrow> op2 \<Rightarrow> 'w vt \<Rightarrow> 'w arm_scheme \<Rightarrow> 'w arm_scheme" where
  "A_IMPLEMENT_ALU_TEST A_x shc op vt cpu =
     (let (b, cpu) = (if shc then calc_op2_S op cpu else calc_op2 op cpu) in A_x vt (op2_cycles op) b cpu)"

section \<open>The sixteen operations\<close>

text \<open>What every body ends with: the cycles, then the result into its register or the program counter.\<close>

definition alu_cycles :: "'w vt \<Rightarrow> int \<Rightarrow> 'w arm_scheme \<Rightarrow> 'w arm_scheme" where
  "alu_cycles vt c cpu = (if c \<noteq> 0 then AddCycles_CI vt c cpu else AddCycles_C vt cpu)"

definition alu_write :: "'w vt \<Rightarrow> u32 \<Rightarrow> 'w arm_scheme \<Rightarrow> 'w arm_scheme" where
  "alu_write vt res cpu =
     (if ifield 12 0xF cpu = 15 then JumpTo vt (res AND NOT 1) False cpu
      else setR (ifield 12 0xF cpu) res cpu)"

definition alu_write_S :: "'w vt \<Rightarrow> u32 \<Rightarrow> 'w arm_scheme \<Rightarrow> 'w arm_scheme" where
  "alu_write_S vt res cpu =
     (if ifield 12 0xF cpu = 15 then JumpTo vt res True cpu
      else setR (ifield 12 0xF cpu) res cpu)"

text \<open>\<^verbatim>\<open>res & 0x80000000\<close> and \<^verbatim>\<open>!res\<close>, as the flags get them.\<close>

definition neg32 :: "u32 \<Rightarrow> bool" where
  "neg32 res \<longleftrightarrow> res AND 0x80000000 \<noteq> 0"

definition set_nz :: "u32 \<Rightarrow> 'w arm_scheme \<Rightarrow> 'w arm_scheme" where
  "set_nz res cpu = SetNZ (neg32 res) (res = 0) cpu"

definition carry_in :: "'w arm_scheme \<Rightarrow> u32" where
  "carry_in cpu = (if CPSR cpu AND 0x20000000 \<noteq> 0 then 1 else 0)"

definition borrow_in :: "'w arm_scheme \<Rightarrow> u32" where
  "borrow_in cpu = (if CPSR cpu AND 0x20000000 \<noteq> 0 then 0 else 1)"

definition A_AND :: "'w alu_body" where
  "A_AND vt c b cpu =
     (let a = R cpu (ifield 16 0xF cpu); res = a AND b
      in alu_write vt res (alu_cycles vt c cpu))"

definition A_AND_S :: "'w alu_body" where
  "A_AND_S vt c b cpu =
     (let a = R cpu (ifield 16 0xF cpu); res = a AND b
      in alu_write_S vt res (alu_cycles vt c (set_nz res cpu)))"

definition A_EOR :: "'w alu_body" where
  "A_EOR vt c b cpu =
     (let a = R cpu (ifield 16 0xF cpu); res = a XOR b
      in alu_write vt res (alu_cycles vt c cpu))"

definition A_EOR_S :: "'w alu_body" where
  "A_EOR_S vt c b cpu =
     (let a = R cpu (ifield 16 0xF cpu); res = a XOR b
      in alu_write_S vt res (alu_cycles vt c (set_nz res cpu)))"

definition A_SUB :: "'w alu_body" where
  "A_SUB vt c b cpu =
     (let a = R cpu (ifield 16 0xF cpu); res = a - b
      in alu_write vt res (alu_cycles vt c cpu))"

definition A_SUB_S :: "'w alu_body" where
  "A_SUB_S vt c b cpu =
     (let a = R cpu (ifield 16 0xF cpu); res = a - b;
          cpu = SetNZCV (neg32 res) (res = 0) (CarrySub a b) (OverflowSub a b) cpu
      in alu_write_S vt res (alu_cycles vt c cpu))"

definition A_RSB :: "'w alu_body" where
  "A_RSB vt c b cpu =
     (let a = R cpu (ifield 16 0xF cpu); res = b - a
      in alu_write vt res (alu_cycles vt c cpu))"

definition A_RSB_S :: "'w alu_body" where
  "A_RSB_S vt c b cpu =
     (let a = R cpu (ifield 16 0xF cpu); res = b - a;
          cpu = SetNZCV (neg32 res) (res = 0) (CarrySub b a) (OverflowSub b a) cpu
      in alu_write_S vt res (alu_cycles vt c cpu))"

definition A_ADD :: "'w alu_body" where
  "A_ADD vt c b cpu =
     (let a = R cpu (ifield 16 0xF cpu); res = a + b
      in alu_write vt res (alu_cycles vt c cpu))"

definition A_ADD_S :: "'w alu_body" where
  "A_ADD_S vt c b cpu =
     (let a = R cpu (ifield 16 0xF cpu); res = a + b;
          cpu = SetNZCV (neg32 res) (res = 0) (CarryAdd a b) (OverflowAdd a b) cpu
      in alu_write_S vt res (alu_cycles vt c cpu))"

definition A_ADC :: "'w alu_body" where
  "A_ADC vt c b cpu =
     (let a = R cpu (ifield 16 0xF cpu); res = a + b + carry_in cpu
      in alu_write vt res (alu_cycles vt c cpu))"

definition A_ADC_S :: "'w alu_body" where
  "A_ADC_S vt c b cpu =
     (let a = R cpu (ifield 16 0xF cpu); res_tmp = a + b; carry = carry_in cpu; res = res_tmp + carry;
          cpu = SetNZCV (neg32 res) (res = 0) (CarryAdd a b \<or> CarryAdd res_tmp carry) (OverflowAdc a b carry) cpu
      in alu_write_S vt res (alu_cycles vt c cpu))"

definition A_SBC :: "'w alu_body" where
  "A_SBC vt c b cpu =
     (let a = R cpu (ifield 16 0xF cpu); res = a - b - borrow_in cpu
      in alu_write vt res (alu_cycles vt c cpu))"

definition A_SBC_S :: "'w alu_body" where
  "A_SBC_S vt c b cpu =
     (let a = R cpu (ifield 16 0xF cpu); res_tmp = a - b; carry = borrow_in cpu; res = res_tmp - carry;
          cpu = SetNZCV (neg32 res) (res = 0) (CarrySub a b \<and> CarrySub res_tmp carry) (OverflowSbc a b carry) cpu
      in alu_write_S vt res (alu_cycles vt c cpu))"

definition A_RSC :: "'w alu_body" where
  "A_RSC vt c b cpu =
     (let a = R cpu (ifield 16 0xF cpu); res = b - a - borrow_in cpu
      in alu_write vt res (alu_cycles vt c cpu))"

definition A_RSC_S :: "'w alu_body" where
  "A_RSC_S vt c b cpu =
     (let a = R cpu (ifield 16 0xF cpu); res_tmp = b - a; carry = borrow_in cpu; res = res_tmp - carry;
          cpu = SetNZCV (neg32 res) (res = 0) (CarrySub b a \<and> CarrySub res_tmp carry) (OverflowSbc b a carry) cpu
      in alu_write_S vt res (alu_cycles vt c cpu))"

definition A_TST :: "'w alu_body" where
  "A_TST vt c b cpu =
     (let a = R cpu (ifield 16 0xF cpu); res = a AND b in alu_cycles vt c (set_nz res cpu))"

definition A_TEQ :: "'w alu_body" where
  "A_TEQ vt c b cpu =
     (let a = R cpu (ifield 16 0xF cpu); res = a XOR b in alu_cycles vt c (set_nz res cpu))"

definition A_CMP :: "'w alu_body" where
  "A_CMP vt c b cpu =
     (let a = R cpu (ifield 16 0xF cpu); res = a - b
      in alu_cycles vt c (SetNZCV (neg32 res) (res = 0) (CarrySub a b) (OverflowSub a b) cpu))"

definition A_CMN :: "'w alu_body" where
  "A_CMN vt c b cpu =
     (let a = R cpu (ifield 16 0xF cpu); res = a + b
      in alu_cycles vt c (SetNZCV (neg32 res) (res = 0) (CarryAdd a b) (OverflowAdd a b) cpu))"

definition A_ORR :: "'w alu_body" where
  "A_ORR vt c b cpu =
     (let a = R cpu (ifield 16 0xF cpu); res = a OR b
      in alu_write vt res (alu_cycles vt c cpu))"

definition A_ORR_S :: "'w alu_body" where
  "A_ORR_S vt c b cpu =
     (let a = R cpu (ifield 16 0xF cpu); res = a OR b
      in alu_write_S vt res (alu_cycles vt c (set_nz res cpu)))"

definition A_MOV :: "'w alu_body" where
  "A_MOV vt c b cpu = alu_write vt b (alu_cycles vt c cpu)"

definition A_MOV_S :: "'w alu_body" where
  "A_MOV_S vt c b cpu = alu_write_S vt b (alu_cycles vt c (set_nz b cpu))"

definition A_BIC :: "'w alu_body" where
  "A_BIC vt c b cpu =
     (let a = R cpu (ifield 16 0xF cpu); res = a AND NOT b
      in alu_write vt res (alu_cycles vt c cpu))"

definition A_BIC_S :: "'w alu_body" where
  "A_BIC_S vt c b cpu =
     (let a = R cpu (ifield 16 0xF cpu); res = a AND NOT b
      in alu_write_S vt res (alu_cycles vt c (set_nz res cpu)))"

definition A_MVN :: "'w alu_body" where
  "A_MVN vt c b cpu = (let b = NOT b in alu_write vt b (alu_cycles vt c cpu))"

definition A_MVN_S :: "'w alu_body" where
  "A_MVN_S vt c b cpu = (let b = NOT b in alu_write_S vt b (alu_cycles vt c (set_nz b cpu)))"

text \<open>
  The instantiations of the macros: an operation with its operand form, flag-setting or not.
  \<open>A_ALU DP_SUB True Op_IMM\<close> is \<^verbatim>\<open>A_SUB_IMM_S\<close>.
\<close>

datatype alu =
    DP_AND | DP_EOR | DP_SUB | DP_RSB | DP_ADD | DP_ADC | DP_SBC | DP_RSC
  | DP_TST | DP_TEQ | DP_CMP | DP_CMN | DP_ORR | DP_MOV | DP_BIC | DP_MVN

fun A_ALU :: "alu \<Rightarrow> bool \<Rightarrow> op2 \<Rightarrow> 'w vt \<Rightarrow> 'w arm_scheme \<Rightarrow> 'w arm_scheme" where
  "A_ALU DP_AND S op = A_IMPLEMENT_ALU_OP A_AND A_AND_S True S op"
| "A_ALU DP_EOR S op = A_IMPLEMENT_ALU_OP A_EOR A_EOR_S True S op"
| "A_ALU DP_SUB S op = A_IMPLEMENT_ALU_OP A_SUB A_SUB_S False S op"
| "A_ALU DP_RSB S op = A_IMPLEMENT_ALU_OP A_RSB A_RSB_S False S op"
| "A_ALU DP_ADD S op = A_IMPLEMENT_ALU_OP A_ADD A_ADD_S False S op"
| "A_ALU DP_ADC S op = A_IMPLEMENT_ALU_OP A_ADC A_ADC_S False S op"
| "A_ALU DP_SBC S op = A_IMPLEMENT_ALU_OP A_SBC A_SBC_S False S op"
| "A_ALU DP_RSC S op = A_IMPLEMENT_ALU_OP A_RSC A_RSC_S False S op"
| "A_ALU DP_TST S op = A_IMPLEMENT_ALU_TEST A_TST True op"
| "A_ALU DP_TEQ S op = A_IMPLEMENT_ALU_TEST A_TEQ True op"
| "A_ALU DP_CMP S op = A_IMPLEMENT_ALU_TEST A_CMP False op"
| "A_ALU DP_CMN S op = A_IMPLEMENT_ALU_TEST A_CMN False op"
| "A_ALU DP_ORR S op = A_IMPLEMENT_ALU_OP A_ORR A_ORR_S True S op"
| "A_ALU DP_MOV S op = A_IMPLEMENT_ALU_OP A_MOV A_MOV_S True S op"
| "A_ALU DP_BIC S op = A_IMPLEMENT_ALU_OP A_BIC A_BIC_S True S op"
| "A_ALU DP_MVN S op = A_IMPLEMENT_ALU_OP A_MVN A_MVN_S True S op"

text \<open>The move that a debugging hook recognises.\<close>

definition A_MOV_REG_LSL_IMM_DBG :: "'w vt \<Rightarrow> 'w arm_scheme \<Rightarrow> 'w arm_scheme" where
  "A_MOV_REG_LSL_IMM_DBG vt cpu =
     (let cpu = A_ALU DP_MOV False Op_REG_LSL_IMM vt cpu
      in if CurInstr cpu = 0xE1A0C00C \<and> NextInstr cpu 0 AND 0xFF000000 = 0xEA000000 \<and>
            NextInstr cpu 1 AND 0xFFFF = 0x6464
         then NocashPrint vt (Num cpu) (R cpu 15 + 4) cpu
         else cpu)"

section \<open>Multiplications\<close>

text \<open>The early termination of the multiplier of the ARM7, for a signed and for an unsigned multiplier.\<close>

definition mul_cycles_s :: "u32 \<Rightarrow> int" where
  "mul_cycles_s rs =
     (if rs AND 0xFFFFFF00 = 0x00000000 \<or> rs AND 0xFFFFFF00 = 0xFFFFFF00 then 1
      else if rs AND 0xFFFF0000 = 0x00000000 \<or> rs AND 0xFFFF0000 = 0xFFFF0000 then 2
      else if rs AND 0xFF000000 = 0x00000000 \<or> rs AND 0xFF000000 = 0xFF000000 then 3
      else 4)"

definition mul_cycles_u :: "u32 \<Rightarrow> int" where
  "mul_cycles_u rs =
     (if rs AND 0xFFFFFF00 = 0x00000000 then 1
      else if rs AND 0xFFFF0000 = 0x00000000 then 2
      else if rs AND 0xFF000000 = 0x00000000 then 3
      else 4)"

definition mul_flags :: "bool \<Rightarrow> bool \<Rightarrow> 'w arm_scheme \<Rightarrow> 'w arm_scheme" where
  "mul_flags n z cpu =
     (if ibit 20 cpu then
        let cpu = SetNZ n z cpu in if Num cpu = 1 then SetC False cpu else cpu
      else cpu)"

text \<open>\<open>extra\<close> is 0 for \<^verbatim>\<open>A_MUL\<close> and 1 for the others: their cycles count one more on the ARM7.\<close>

definition mul_cost :: "int \<Rightarrow> int \<Rightarrow> 'w arm_scheme \<Rightarrow> int" where
  "mul_cost mc extra cpu = (if Num cpu = 0 then if ibit 20 cpu then 3 else 1 else mc + extra)"

definition A_MUL :: "'w vt \<Rightarrow> 'w arm_scheme \<Rightarrow> 'w arm_scheme" where
  "A_MUL vt cpu =
     (let rm = R cpu (ifield 0 0xF cpu);
          rs = R cpu (ifield 8 0xF cpu);
          res = rm * rs;
          cpu = setR (ifield 16 0xF cpu) res cpu;
          cpu = mul_flags (neg32 res) (res = 0) cpu
      in AddCycles_CI vt (mul_cost (mul_cycles_s rs) 0 cpu) cpu)"

definition A_MLA :: "'w vt \<Rightarrow> 'w arm_scheme \<Rightarrow> 'w arm_scheme" where
  "A_MLA vt cpu =
     (let rm = R cpu (ifield 0 0xF cpu);
          rs = R cpu (ifield 8 0xF cpu);
          rn = R cpu (ifield 12 0xF cpu);
          res = rm * rs + rn;
          cpu = setR (ifield 16 0xF cpu) res cpu;
          cpu = mul_flags (neg32 res) (res = 0) cpu
      in AddCycles_CI vt (mul_cost (mul_cycles_s rs) 1 cpu) cpu)"

text \<open>The 64-bit result goes to two registers, the low half first.\<close>

definition set_long :: "u64 \<Rightarrow> 'w arm_scheme \<Rightarrow> 'w arm_scheme" where
  "set_long res cpu =
     setR (ifield 16 0xF cpu) (ucast (drop_bit 32 res)) (setR (ifield 12 0xF cpu) (ucast res) cpu)"

definition get_long :: "'w arm_scheme \<Rightarrow> u64" where
  "get_long cpu = ucast (R cpu (ifield 12 0xF cpu)) OR push_bit 32 (ucast (R cpu (ifield 16 0xF cpu)))"

definition umul64 :: "u32 \<Rightarrow> u32 \<Rightarrow> u64" where
  "umul64 rm rs = ucast rm * ucast rs"

definition smul64 :: "u32 \<Rightarrow> u32 \<Rightarrow> u64" where
  "smul64 rm rs = scast rm * scast rs"

definition A_UMULL :: "'w vt \<Rightarrow> 'w arm_scheme \<Rightarrow> 'w arm_scheme" where
  "A_UMULL vt cpu =
     (let rm = R cpu (ifield 0 0xF cpu);
          rs = R cpu (ifield 8 0xF cpu);
          res = umul64 rm rs;
          cpu = set_long res cpu;
          cpu = mul_flags ((ucast (drop_bit 63 res) :: u32) \<noteq> 0) (res = 0) cpu
      in AddCycles_CI vt (mul_cost (mul_cycles_u rs) 1 cpu) cpu)"

definition A_UMLAL :: "'w vt \<Rightarrow> 'w arm_scheme \<Rightarrow> 'w arm_scheme" where
  "A_UMLAL vt cpu =
     (let rm = R cpu (ifield 0 0xF cpu);
          rs = R cpu (ifield 8 0xF cpu);
          res = umul64 rm rs;
          rd = get_long cpu;
          res = res + rd;
          cpu = set_long res cpu;
          cpu = mul_flags ((ucast (drop_bit 63 res) :: u32) \<noteq> 0) (res = 0) cpu
      in AddCycles_CI vt (mul_cost (mul_cycles_u rs) 1 cpu) cpu)"

text \<open>
  \<^verbatim>\<open>s64\<close> values are kept as their 64-bit patterns. \<^verbatim>\<open>res += rd\<close> of \<^verbatim>\<open>A_SMLAL\<close> may overflow, which
  C++ leaves undefined; the sum wraps around here, as the instruction does.
\<close>

definition A_SMULL :: "'w vt \<Rightarrow> 'w arm_scheme \<Rightarrow> 'w arm_scheme" where
  "A_SMULL vt cpu =
     (let rm = R cpu (ifield 0 0xF cpu);
          rs = R cpu (ifield 8 0xF cpu);
          res = smul64 rm rs;
          cpu = set_long res cpu;
          cpu = mul_flags ((ucast (signed_drop_bit 63 res) :: u32) \<noteq> 0) (res = 0) cpu
      in AddCycles_CI vt (mul_cost (mul_cycles_s rs) 1 cpu) cpu)"

definition A_SMLAL :: "'w vt \<Rightarrow> 'w arm_scheme \<Rightarrow> 'w arm_scheme" where
  "A_SMLAL vt cpu =
     (let rm = R cpu (ifield 0 0xF cpu);
          rs = R cpu (ifield 8 0xF cpu);
          res = smul64 rm rs;
          rd = get_long cpu;
          res = res + rd;
          cpu = set_long res cpu;
          cpu = mul_flags ((ucast (signed_drop_bit 63 res) :: u32) \<noteq> 0) (res = 0) cpu
      in AddCycles_CI vt (mul_cost (mul_cycles_s rs) 1 cpu) cpu)"

text \<open>The half of a register that an instruction bit selects, read as \<^verbatim>\<open>s16\<close>.\<close>

definition half_sel :: "bool \<Rightarrow> u32 \<Rightarrow> u32" where
  "half_sel hi x = (if hi then drop_bit 16 x else x AND 0xFFFF)"

definition s16 :: "u32 \<Rightarrow> int" where
  "s16 x = sint (ucast x :: u16)"

definition setQ :: "'w arm_scheme \<Rightarrow> 'w arm_scheme" where
  "setQ cpu = cpu\<lparr>CPSR := CPSR cpu OR 0x08000000\<rparr>"

definition A_SMLAxy :: "'w vt \<Rightarrow> 'w arm_scheme \<Rightarrow> 'w arm_scheme" where
  "A_SMLAxy vt cpu =
     (if Num cpu \<noteq> 0 then cpu
      else
        let rm = half_sel (ibit 5 cpu) (R cpu (ifield 0 0xF cpu));
            rs = half_sel (ibit 6 cpu) (R cpu (ifield 8 0xF cpu));
            rn = R cpu (ifield 12 0xF cpu);
            res_mul = word_of_int (s16 rm * s16 rs);
            res = res_mul + rn;
            cpu = setR (ifield 16 0xF cpu) res cpu;
            cpu = (if OverflowAdd res_mul rn then setQ cpu else cpu)
        in AddCycles_C vt cpu)"

text \<open>\<^verbatim>\<open>((s64)(s32)rm * (s16)rs) >> 16\<close> is a division that rounds down.\<close>

definition smulw :: "u32 \<Rightarrow> u32 \<Rightarrow> u32" where
  "smulw rm rs = word_of_int ((sint rm * s16 rs) div 65536)"

definition A_SMLAWy :: "'w vt \<Rightarrow> 'w arm_scheme \<Rightarrow> 'w arm_scheme" where
  "A_SMLAWy vt cpu =
     (if Num cpu \<noteq> 0 then cpu
      else
        let rm = R cpu (ifield 0 0xF cpu);
            rs = half_sel (ibit 6 cpu) (R cpu (ifield 8 0xF cpu));
            rn = R cpu (ifield 12 0xF cpu);
            res_mul = smulw rm rs;
            res = res_mul + rn;
            cpu = setR (ifield 16 0xF cpu) res cpu;
            cpu = (if OverflowAdd res_mul rn then setQ cpu else cpu)
        in AddCycles_C vt cpu)"

definition A_SMULxy :: "'w vt \<Rightarrow> 'w arm_scheme \<Rightarrow> 'w arm_scheme" where
  "A_SMULxy vt cpu =
     (if Num cpu \<noteq> 0 then cpu
      else
        let rm = half_sel (ibit 5 cpu) (R cpu (ifield 0 0xF cpu));
            rs = half_sel (ibit 6 cpu) (R cpu (ifield 8 0xF cpu))
        in AddCycles_C vt (setR (ifield 16 0xF cpu) (word_of_int (s16 rm * s16 rs)) cpu))"

definition A_SMULWy :: "'w vt \<Rightarrow> 'w arm_scheme \<Rightarrow> 'w arm_scheme" where
  "A_SMULWy vt cpu =
     (if Num cpu \<noteq> 0 then cpu
      else
        let rm = R cpu (ifield 0 0xF cpu);
            rs = half_sel (ibit 6 cpu) (R cpu (ifield 8 0xF cpu))
        in AddCycles_C vt (setR (ifield 16 0xF cpu) (smulw rm rs) cpu))"

definition A_SMLALxy :: "'w vt \<Rightarrow> 'w arm_scheme \<Rightarrow> 'w arm_scheme" where
  "A_SMLALxy vt cpu =
     (if Num cpu \<noteq> 0 then cpu
      else
        let rm = half_sel (ibit 5 cpu) (R cpu (ifield 0 0xF cpu));
            rs = half_sel (ibit 6 cpu) (R cpu (ifield 8 0xF cpu));
            res = word_of_int (s16 rm * s16 rs) + get_long cpu
        in AddCycles_CI vt 1 (set_long res cpu))"

section \<open>Leading zeros and saturation\<close>

text \<open>The two loops of \<^verbatim>\<open>A_CLZ\<close>; each iteration increases \<open>val\<close>.\<close>

function clz_bytes :: "u32 \<Rightarrow> u32 \<Rightarrow> u32 \<times> u32" where
  "clz_bytes res val =
     (if val AND 0xFF000000 = 0 then clz_bytes (res + 8) (push_bit 8 val OR 0xFF) else (res, val))"
  by pat_completeness auto

termination
proof (relation "measure (\<lambda>(res, val). 2 ^ 32 - unat val)")
  fix res val :: u32
  assume "val AND 0xFF000000 = 0"
  then have "unat val < unat (push_bit 8 val OR 0xFF)"
    using shl_or_increases [of 8 val] by (simp add: top_clear_24 mask_numeral)
  then show "((res + 8, push_bit 8 val OR 0xFF), res, val) \<in> measure (\<lambda>(res, val). 2 ^ 32 - unat val)"
    using unsigned_less [of val, where ?'a = nat] by (simp add: diff_less_mono2)
qed simp

function clz_bits :: "u32 \<Rightarrow> u32 \<Rightarrow> u32 \<times> u32" where
  "clz_bits res val =
     (if val AND 0x80000000 = 0 then clz_bits (res + 1) (push_bit 1 val OR 0x1) else (res, val))"
  by pat_completeness auto

termination
proof (relation "measure (\<lambda>(res, val). 2 ^ 32 - unat val)")
  fix res val :: u32
  assume "val AND 0x80000000 = 0"
  then have "unat val < unat (push_bit 1 val OR 0x1)"
    using shl_or_increases [of 1 val] by (simp add: top_clear_31 mask_numeral)
  then show "((res + 1, push_bit 1 val OR 0x1), res, val) \<in> measure (\<lambda>(res, val). 2 ^ 32 - unat val)"
    using unsigned_less [of val, where ?'a = nat] by (simp add: diff_less_mono2)
qed simp

definition A_CLZ :: "'w vt \<Rightarrow> 'w arm_scheme \<Rightarrow> 'w arm_scheme" where
  "A_CLZ vt cpu =
     (if Num cpu \<noteq> 0 then A_UNK vt cpu
      else
        let val = R cpu (ifield 0 0xF cpu);
            (res, val) = clz_bytes 0 val;
            (res, val) = clz_bits res val
        in AddCycles_C vt (setR (ifield 12 0xF cpu) res cpu))"

text \<open>\<^verbatim>\<open>(res & 0x80000000) ? 0x7FFFFFFF : 0x80000000\<close>: the bound on the side where the sum left.\<close>

definition sat_bound :: "u32 \<Rightarrow> u32" where
  "sat_bound res = (if res AND 0x80000000 \<noteq> 0 then 0x7FFFFFFF else 0x80000000)"

definition q_add :: "u32 \<Rightarrow> u32 \<Rightarrow> 'w arm_scheme \<Rightarrow> u32 \<times> 'w arm_scheme" where
  "q_add rm rn cpu =
     (let res = rm + rn
      in if OverflowAdd rm rn then (sat_bound res, setQ cpu) else (res, cpu))"

definition q_sub :: "u32 \<Rightarrow> u32 \<Rightarrow> 'w arm_scheme \<Rightarrow> u32 \<times> 'w arm_scheme" where
  "q_sub rm rn cpu =
     (let res = rm - rn
      in if OverflowSub rm rn then (sat_bound res, setQ cpu) else (res, cpu))"

definition q_double :: "u32 \<Rightarrow> 'w arm_scheme \<Rightarrow> u32 \<times> 'w arm_scheme" where
  "q_double rn cpu =
     (if OverflowAdd rn rn
      then (if rn AND 0x80000000 \<noteq> 0 then 0x80000000 else 0x7FFFFFFF, setQ cpu)
      else (push_bit 1 rn, cpu))"

definition A_QADD :: "'w vt \<Rightarrow> 'w arm_scheme \<Rightarrow> 'w arm_scheme" where
  "A_QADD vt cpu =
     (if Num cpu \<noteq> 0 then A_UNK vt cpu
      else
        let rm = R cpu (ifield 0 0xF cpu);
            rn = R cpu (ifield 16 0xF cpu);
            (res, cpu) = q_add rm rn cpu
        in AddCycles_C vt (setR (ifield 12 0xF cpu) res cpu))"

definition A_QSUB :: "'w vt \<Rightarrow> 'w arm_scheme \<Rightarrow> 'w arm_scheme" where
  "A_QSUB vt cpu =
     (if Num cpu \<noteq> 0 then A_UNK vt cpu
      else
        let rm = R cpu (ifield 0 0xF cpu);
            rn = R cpu (ifield 16 0xF cpu);
            (res, cpu) = q_sub rm rn cpu
        in AddCycles_C vt (setR (ifield 12 0xF cpu) res cpu))"

definition A_QDADD :: "'w vt \<Rightarrow> 'w arm_scheme \<Rightarrow> 'w arm_scheme" where
  "A_QDADD vt cpu =
     (if Num cpu \<noteq> 0 then A_UNK vt cpu
      else
        let rm = R cpu (ifield 0 0xF cpu);
            rn = R cpu (ifield 16 0xF cpu);
            (rn, cpu) = q_double rn cpu;
            (res, cpu) = q_add rm rn cpu
        in AddCycles_C vt (setR (ifield 12 0xF cpu) res cpu))"

definition A_QDSUB :: "'w vt \<Rightarrow> 'w arm_scheme \<Rightarrow> 'w arm_scheme" where
  "A_QDSUB vt cpu =
     (if Num cpu \<noteq> 0 then A_UNK vt cpu
      else
        let rm = R cpu (ifield 0 0xF cpu);
            rn = R cpu (ifield 16 0xF cpu);
            (rn, cpu) = q_double rn cpu;
            (res, cpu) = q_sub rm rn cpu
        in AddCycles_C vt (setR (ifield 12 0xF cpu) res cpu))"

section \<open>THUMB\<close>

definition T_LSL_IMM :: "'w vt \<Rightarrow> 'w arm_scheme \<Rightarrow> 'w arm_scheme" where
  "T_LSL_IMM vt cpu =
     (let op = R cpu (ifield 3 0x7 cpu);
          s = ifield 6 0x1F cpu;
          (op, cpu) = LSL_IMM_S op s cpu;
          cpu = setR (ifield 0 0x7 cpu) op cpu
      in AddCycles_C vt (set_nz op cpu))"

definition T_LSR_IMM :: "'w vt \<Rightarrow> 'w arm_scheme \<Rightarrow> 'w arm_scheme" where
  "T_LSR_IMM vt cpu =
     (let op = R cpu (ifield 3 0x7 cpu);
          s = ifield 6 0x1F cpu;
          (op, cpu) = LSR_IMM_S op s cpu;
          cpu = setR (ifield 0 0x7 cpu) op cpu
      in AddCycles_C vt (set_nz op cpu))"

definition T_ASR_IMM :: "'w vt \<Rightarrow> 'w arm_scheme \<Rightarrow> 'w arm_scheme" where
  "T_ASR_IMM vt cpu =
     (let op = R cpu (ifield 3 0x7 cpu);
          s = ifield 6 0x1F cpu;
          (op, cpu) = ASR_IMM_S op s cpu;
          cpu = setR (ifield 0 0x7 cpu) op cpu
      in AddCycles_C vt (set_nz op cpu))"

definition T_ADD_REG' :: "'w vt \<Rightarrow> 'w arm_scheme \<Rightarrow> 'w arm_scheme" where
  "T_ADD_REG' vt cpu =
     (let a = R cpu (ifield 3 0x7 cpu);
          b = R cpu (ifield 6 0x7 cpu);
          res = a + b;
          cpu = setR (ifield 0 0x7 cpu) res cpu;
          cpu = SetNZCV (neg32 res) (res = 0) (CarryAdd a b) (OverflowAdd a b) cpu
      in AddCycles_C vt cpu)"

definition T_SUB_REG' :: "'w vt \<Rightarrow> 'w arm_scheme \<Rightarrow> 'w arm_scheme" where
  "T_SUB_REG' vt cpu =
     (let a = R cpu (ifield 3 0x7 cpu);
          b = R cpu (ifield 6 0x7 cpu);
          res = a - b;
          cpu = setR (ifield 0 0x7 cpu) res cpu;
          cpu = SetNZCV (neg32 res) (res = 0) (CarrySub a b) (OverflowSub a b) cpu
      in AddCycles_C vt cpu)"

definition T_ADD_IMM' :: "'w vt \<Rightarrow> 'w arm_scheme \<Rightarrow> 'w arm_scheme" where
  "T_ADD_IMM' vt cpu =
     (let a = R cpu (ifield 3 0x7 cpu);
          b = drop_bit 6 (CurInstr cpu) AND 0x7;
          res = a + b;
          cpu = setR (ifield 0 0x7 cpu) res cpu;
          cpu = SetNZCV (neg32 res) (res = 0) (CarryAdd a b) (OverflowAdd a b) cpu
      in AddCycles_C vt cpu)"

definition T_SUB_IMM' :: "'w vt \<Rightarrow> 'w arm_scheme \<Rightarrow> 'w arm_scheme" where
  "T_SUB_IMM' vt cpu =
     (let a = R cpu (ifield 3 0x7 cpu);
          b = drop_bit 6 (CurInstr cpu) AND 0x7;
          res = a - b;
          cpu = setR (ifield 0 0x7 cpu) res cpu;
          cpu = SetNZCV (neg32 res) (res = 0) (CarrySub a b) (OverflowSub a b) cpu
      in AddCycles_C vt cpu)"

definition T_MOV_IMM :: "'w vt \<Rightarrow> 'w arm_scheme \<Rightarrow> 'w arm_scheme" where
  "T_MOV_IMM vt cpu =
     (let b = CurInstr cpu AND 0xFF;
          cpu = setR (ifield 8 0x7 cpu) b cpu
      in AddCycles_C vt (SetNZ False (b = 0) cpu))"

definition T_CMP_IMM :: "'w vt \<Rightarrow> 'w arm_scheme \<Rightarrow> 'w arm_scheme" where
  "T_CMP_IMM vt cpu =
     (let a = R cpu (ifield 8 0x7 cpu);
          b = CurInstr cpu AND 0xFF;
          res = a - b;
          cpu = SetNZCV (neg32 res) (res = 0) (CarrySub a b) (OverflowSub a b) cpu
      in AddCycles_C vt cpu)"

definition T_ADD_IMM :: "'w vt \<Rightarrow> 'w arm_scheme \<Rightarrow> 'w arm_scheme" where
  "T_ADD_IMM vt cpu =
     (let a = R cpu (ifield 8 0x7 cpu);
          b = CurInstr cpu AND 0xFF;
          res = a + b;
          cpu = setR (ifield 8 0x7 cpu) res cpu;
          cpu = SetNZCV (neg32 res) (res = 0) (CarryAdd a b) (OverflowAdd a b) cpu
      in AddCycles_C vt cpu)"

definition T_SUB_IMM :: "'w vt \<Rightarrow> 'w arm_scheme \<Rightarrow> 'w arm_scheme" where
  "T_SUB_IMM vt cpu =
     (let a = R cpu (ifield 8 0x7 cpu);
          b = CurInstr cpu AND 0xFF;
          res = a - b;
          cpu = setR (ifield 8 0x7 cpu) res cpu;
          cpu = SetNZCV (neg32 res) (res = 0) (CarrySub a b) (OverflowSub a b) cpu
      in AddCycles_C vt cpu)"

definition T_AND_REG :: "'w vt \<Rightarrow> 'w arm_scheme \<Rightarrow> 'w arm_scheme" where
  "T_AND_REG vt cpu =
     (let a = R cpu (ifield 0 0x7 cpu);
          b = R cpu (ifield 3 0x7 cpu);
          res = a AND b;
          cpu = setR (ifield 0 0x7 cpu) res cpu;
          cpu = set_nz res cpu
      in AddCycles_C vt cpu)"

definition T_EOR_REG :: "'w vt \<Rightarrow> 'w arm_scheme \<Rightarrow> 'w arm_scheme" where
  "T_EOR_REG vt cpu =
     (let a = R cpu (ifield 0 0x7 cpu);
          b = R cpu (ifield 3 0x7 cpu);
          res = a XOR b;
          cpu = setR (ifield 0 0x7 cpu) res cpu;
          cpu = set_nz res cpu
      in AddCycles_C vt cpu)"

definition T_LSL_REG :: "'w vt \<Rightarrow> 'w arm_scheme \<Rightarrow> 'w arm_scheme" where
  "T_LSL_REG vt cpu =
     (let a = R cpu (ifield 0 0x7 cpu);
          b = unat (R cpu (ifield 3 0x7 cpu) AND 0xFF);
          (a, cpu) = LSL_REG_S a b cpu;
          cpu = setR (ifield 0 0x7 cpu) a cpu
      in AddCycles_CI vt 1 (set_nz a cpu))"

definition T_LSR_REG :: "'w vt \<Rightarrow> 'w arm_scheme \<Rightarrow> 'w arm_scheme" where
  "T_LSR_REG vt cpu =
     (let a = R cpu (ifield 0 0x7 cpu);
          b = unat (R cpu (ifield 3 0x7 cpu) AND 0xFF);
          (a, cpu) = LSR_REG_S a b cpu;
          cpu = setR (ifield 0 0x7 cpu) a cpu
      in AddCycles_CI vt 1 (set_nz a cpu))"

definition T_ASR_REG :: "'w vt \<Rightarrow> 'w arm_scheme \<Rightarrow> 'w arm_scheme" where
  "T_ASR_REG vt cpu =
     (let a = R cpu (ifield 0 0x7 cpu);
          b = unat (R cpu (ifield 3 0x7 cpu) AND 0xFF);
          (a, cpu) = ASR_REG_S a b cpu;
          cpu = setR (ifield 0 0x7 cpu) a cpu
      in AddCycles_CI vt 1 (set_nz a cpu))"

definition T_ADC_REG :: "'w vt \<Rightarrow> 'w arm_scheme \<Rightarrow> 'w arm_scheme" where
  "T_ADC_REG vt cpu =
     (let a = R cpu (ifield 0 0x7 cpu);
          b = R cpu (ifield 3 0x7 cpu);
          res_tmp = a + b;
          carry = carry_in cpu;
          res = res_tmp + carry;
          cpu = setR (ifield 0 0x7 cpu) res cpu;
          cpu = SetNZCV (neg32 res) (res = 0) (CarryAdd a b \<or> CarryAdd res_tmp carry) (OverflowAdc a b carry) cpu
      in AddCycles_C vt cpu)"

definition T_SBC_REG :: "'w vt \<Rightarrow> 'w arm_scheme \<Rightarrow> 'w arm_scheme" where
  "T_SBC_REG vt cpu =
     (let a = R cpu (ifield 0 0x7 cpu);
          b = R cpu (ifield 3 0x7 cpu);
          res_tmp = a - b;
          carry = borrow_in cpu;
          res = res_tmp - carry;
          cpu = setR (ifield 0 0x7 cpu) res cpu;
          cpu = SetNZCV (neg32 res) (res = 0) (CarrySub a b \<and> CarrySub res_tmp carry) (OverflowSbc a b carry) cpu
      in AddCycles_C vt cpu)"

definition T_ROR_REG :: "'w vt \<Rightarrow> 'w arm_scheme \<Rightarrow> 'w arm_scheme" where
  "T_ROR_REG vt cpu =
     (let a = R cpu (ifield 0 0x7 cpu);
          b = unat (R cpu (ifield 3 0x7 cpu) AND 0xFF);
          (a, cpu) = ROR_REG_S a b cpu;
          cpu = setR (ifield 0 0x7 cpu) a cpu
      in AddCycles_CI vt 1 (set_nz a cpu))"

definition T_TST_REG :: "'w vt \<Rightarrow> 'w arm_scheme \<Rightarrow> 'w arm_scheme" where
  "T_TST_REG vt cpu =
     (let a = R cpu (ifield 0 0x7 cpu);
          b = R cpu (ifield 3 0x7 cpu);
          res = a AND b;
          cpu = set_nz res cpu
      in AddCycles_C vt cpu)"

definition T_NEG_REG :: "'w vt \<Rightarrow> 'w arm_scheme \<Rightarrow> 'w arm_scheme" where
  "T_NEG_REG vt cpu =
     (let b = R cpu (ifield 3 0x7 cpu);
          res = - b;
          cpu = setR (ifield 0 0x7 cpu) res cpu;
          cpu = SetNZCV (neg32 res) (res = 0) (CarrySub 0 b) (OverflowSub 0 b) cpu
      in AddCycles_C vt cpu)"

definition T_CMP_REG :: "'w vt \<Rightarrow> 'w arm_scheme \<Rightarrow> 'w arm_scheme" where
  "T_CMP_REG vt cpu =
     (let a = R cpu (ifield 0 0x7 cpu);
          b = R cpu (ifield 3 0x7 cpu);
          res = a - b;
          cpu = SetNZCV (neg32 res) (res = 0) (CarrySub a b) (OverflowSub a b) cpu
      in AddCycles_C vt cpu)"

definition T_CMN_REG :: "'w vt \<Rightarrow> 'w arm_scheme \<Rightarrow> 'w arm_scheme" where
  "T_CMN_REG vt cpu =
     (let a = R cpu (ifield 0 0x7 cpu);
          b = R cpu (ifield 3 0x7 cpu);
          res = a + b;
          cpu = SetNZCV (neg32 res) (res = 0) (CarryAdd a b) (OverflowAdd a b) cpu
      in AddCycles_C vt cpu)"

definition T_ORR_REG :: "'w vt \<Rightarrow> 'w arm_scheme \<Rightarrow> 'w arm_scheme" where
  "T_ORR_REG vt cpu =
     (let a = R cpu (ifield 0 0x7 cpu);
          b = R cpu (ifield 3 0x7 cpu);
          res = a OR b;
          cpu = setR (ifield 0 0x7 cpu) res cpu;
          cpu = set_nz res cpu
      in AddCycles_C vt cpu)"

definition T_MUL_REG :: "'w vt \<Rightarrow> 'w arm_scheme \<Rightarrow> 'w arm_scheme" where
  "T_MUL_REG vt cpu =
     (let a = R cpu (ifield 0 0x7 cpu);
          b = R cpu (ifield 3 0x7 cpu);
          res = a * b;
          cpu = setR (ifield 0 0x7 cpu) res cpu;
          cpu = set_nz res cpu
      in if Num cpu = 0 then AddCycles_CI vt 3 cpu
         else
           AddCycles_CI vt
             (if a AND 0xFF000000 \<noteq> 0 then 4
              else if a AND 0x00FF0000 \<noteq> 0 then 3
              else if a AND 0x0000FF00 \<noteq> 0 then 2
              else 1)
             (SetC False cpu))"

definition T_BIC_REG :: "'w vt \<Rightarrow> 'w arm_scheme \<Rightarrow> 'w arm_scheme" where
  "T_BIC_REG vt cpu =
     (let a = R cpu (ifield 0 0x7 cpu);
          b = R cpu (ifield 3 0x7 cpu);
          res = a AND NOT b;
          cpu = setR (ifield 0 0x7 cpu) res cpu;
          cpu = set_nz res cpu
      in AddCycles_C vt cpu)"

definition T_MVN_REG :: "'w vt \<Rightarrow> 'w arm_scheme \<Rightarrow> 'w arm_scheme" where
  "T_MVN_REG vt cpu =
     (let b = R cpu (ifield 3 0x7 cpu);
          res = NOT b;
          cpu = setR (ifield 0 0x7 cpu) res cpu;
          cpu = set_nz res cpu
      in AddCycles_C vt cpu)"

text \<open>\<^verbatim>\<open>(cpu->CurInstr & 0x7) | ((cpu->CurInstr >> 4) & 0x8)\<close>: a register number of four bits.\<close>

definition hireg :: "'w arm_scheme \<Rightarrow> nat" where
  "hireg cpu = unat ((CurInstr cpu AND 0x7) OR (drop_bit 4 (CurInstr cpu) AND 0x8))"

definition T_ADD_HIREG :: "'w vt \<Rightarrow> 'w arm_scheme \<Rightarrow> 'w arm_scheme" where
  "T_ADD_HIREG vt cpu =
     (let rd = hireg cpu;
          rs = ifield 3 0xF cpu;
          a = R cpu rd;
          b = R cpu rs;
          cpu = AddCycles_C vt cpu
      in if rd = 15 then JumpTo vt ((a + b) OR 1) False cpu else setR rd (a + b) cpu)"

definition T_CMP_HIREG :: "'w vt \<Rightarrow> 'w arm_scheme \<Rightarrow> 'w arm_scheme" where
  "T_CMP_HIREG vt cpu =
     (let rd = hireg cpu;
          rs = ifield 3 0xF cpu;
          a = R cpu rd;
          b = R cpu rs;
          res = a - b;
          cpu = SetNZCV (neg32 res) (res = 0) (CarrySub a b) (OverflowSub a b) cpu
      in AddCycles_C vt cpu)"

definition T_MOV_HIREG :: "'w vt \<Rightarrow> 'w arm_scheme \<Rightarrow> 'w arm_scheme" where
  "T_MOV_HIREG vt cpu =
     (let rd = hireg cpu;
          rs = ifield 3 0xF cpu;
          cpu = AddCycles_C vt cpu;
          cpu = (if rd = 15 then JumpTo vt (R cpu rs OR 1) False cpu else setR rd (R cpu rs) cpu)
      in if CurInstr cpu AND 0xFFFF = 0x46E4 \<and> NextInstr cpu 0 AND 0xF800 = 0xE000 \<and>
            NextInstr cpu 1 AND 0xFFFF = 0x6464
         then NocashPrint vt (Num cpu) (R cpu 15 + 4) cpu
         else cpu)"

definition T_ADD_PCREL :: "'w vt \<Rightarrow> 'w arm_scheme \<Rightarrow> 'w arm_scheme" where
  "T_ADD_PCREL vt cpu =
     (let val = R cpu 15 AND NOT 2;
          val = val + push_bit 2 (CurInstr cpu AND 0xFF)
      in AddCycles_C vt (setR (ifield 8 0x7 cpu) val cpu))"

definition T_ADD_SPREL :: "'w vt \<Rightarrow> 'w arm_scheme \<Rightarrow> 'w arm_scheme" where
  "T_ADD_SPREL vt cpu =
     (let val = R cpu 13;
          val = val + push_bit 2 (CurInstr cpu AND 0xFF)
      in AddCycles_C vt (setR (ifield 8 0x7 cpu) val cpu))"

definition T_ADD_SP :: "'w vt \<Rightarrow> 'w arm_scheme \<Rightarrow> 'w arm_scheme" where
  "T_ADD_SP vt cpu =
     (let val = R cpu 13;
          val = (if ibit 7 cpu then val - push_bit 2 (CurInstr cpu AND 0x7F)
                 else val + push_bit 2 (CurInstr cpu AND 0x7F))
      in AddCycles_C vt (setR 13 val cpu))"

end
