(* ===== verification/Arm_LoadStore.thy ===== *)
theory Arm_LoadStore
  imports Arm_Alu
begin

text \<open>
  The loads and stores, \<^verbatim>\<open>src/src/ARMInterpreter_LoadStore.cpp\<close>: single transfers in their
  addressing modes, halfwords and doublewords, swaps, block transfers, and the THUMB forms.

  A read through a pointer stores only when the method does: \<open>load_reg\<close> is the read into a
  register, \<open>load_local\<close> the read into a local variable, whose content is \<open>Undef\<close> when the
  read returned without storing.
\<close>

section \<open>Shared pieces\<close>

definition load_reg ::
  "('w arm_scheme \<Rightarrow> u32 option \<times> 'w arm_scheme) \<Rightarrow> nat \<Rightarrow> 'w arm_scheme \<Rightarrow> 'w arm_scheme" where
  "load_reg rd i cpu = (case rd cpu of (None, cpu) \<Rightarrow> cpu | (Some v, cpu) \<Rightarrow> setR i v cpu)"

definition load_local ::
  "'w vt \<Rightarrow> ('w arm_scheme \<Rightarrow> u32 option \<times> 'w arm_scheme) \<Rightarrow> 'w arm_scheme \<Rightarrow> u32 \<times> 'w arm_scheme" where
  "load_local vt rd cpu = (case rd cpu of (None, cpu) \<Rightarrow> (Undef vt, cpu) | (Some v, cpu) \<Rightarrow> (v, cpu))"

definition sext8 :: "u32 \<Rightarrow> u32" where
  "sext8 x = scast (ucast x :: u8)"

definition sext16 :: "u32 \<Rightarrow> u32" where
  "sext16 x = scast (ucast x :: u16)"

text \<open>The base and the transferred register of a single transfer.\<close>

abbreviation rn_of :: "'w arm_scheme \<Rightarrow> nat" where
  "rn_of cpu \<equiv> ifield 16 0xF cpu"

abbreviation rd_of :: "'w arm_scheme \<Rightarrow> nat" where
  "rd_of cpu \<equiv> ifield 12 0xF cpu"

definition updown :: "u32 \<Rightarrow> 'w arm_scheme \<Rightarrow> u32" where
  "updown offset cpu = (if \<not> ibit 23 cpu then - offset else offset)"

definition A_WB_CALC_OFFSET_IMM :: "'w arm_scheme \<Rightarrow> u32" where
  "A_WB_CALC_OFFSET_IMM cpu = updown (CurInstr cpu AND 0xFFF) cpu"

definition A_WB_CALC_OFFSET_REG ::
  "(u32 \<Rightarrow> nat \<Rightarrow> 'w arm_scheme \<Rightarrow> u32 \<times> 'w arm_scheme) \<Rightarrow> 'w arm_scheme \<Rightarrow> u32" where
  "A_WB_CALC_OFFSET_REG shiftop cpu =
     (let offset = R cpu (ifield 0 0xF cpu); shift = ifield 7 0x1F cpu
      in updown (fst (shiftop offset shift cpu)) cpu)"

definition A_HD_CALC_OFFSET_IMM :: "'w arm_scheme \<Rightarrow> u32" where
  "A_HD_CALC_OFFSET_IMM cpu =
     updown ((CurInstr cpu AND 0xF) OR (drop_bit 4 (CurInstr cpu) AND 0xF0)) cpu"

definition A_HD_CALC_OFFSET_REG :: "'w arm_scheme \<Rightarrow> u32" where
  "A_HD_CALC_OFFSET_REG cpu = updown (R cpu (ifield 0 0xF cpu)) cpu"

text \<open>
  \<^verbatim>\<open>if (cpu->CurInstr & (1<<21)) cpu->R[rn] = offset\<close> of the pre-indexed forms, and
  \<^verbatim>\<open>cpu->R[rn] += offset\<close> of the post-indexed ones.
\<close>

definition wb_pre :: "u32 \<Rightarrow> 'w arm_scheme \<Rightarrow> 'w arm_scheme" where
  "wb_pre addr cpu = (if ibit 21 cpu then setR (rn_of cpu) addr cpu else cpu)"

definition wb_post :: "u32 \<Rightarrow> 'w arm_scheme \<Rightarrow> 'w arm_scheme" where
  "wb_post offset cpu = setR (rn_of cpu) (R cpu (rn_of cpu) + offset) cpu"

type_synonym 'w ls_body = "'w vt \<Rightarrow> u32 \<Rightarrow> 'w arm_scheme \<Rightarrow> 'w arm_scheme"

section \<open>Words and bytes\<close>

definition str_val :: "'w arm_scheme \<Rightarrow> u32" where
  "str_val cpu = (let v = R cpu (rd_of cpu) in if rd_of cpu = 0xF then v + 4 else v)"

text \<open>The end of a load of a word: the program counter, or a register.\<close>

definition ldr_write :: "'w vt \<Rightarrow> u32 \<Rightarrow> 'w arm_scheme \<Rightarrow> 'w arm_scheme" where
  "ldr_write vt val cpu =
     (if rd_of cpu = 15 then JumpTo vt (if Num cpu = 1 then val AND NOT 0x1 else val) False cpu
      else setR (rd_of cpu) val cpu)"

definition A_STR :: "'w ls_body" where
  "A_STR vt offset cpu =
     (let offset = offset + R cpu (rn_of cpu);
          cpu = DataWrite32 vt offset (str_val cpu) cpu
      in AddCycles_CD vt (wb_pre offset cpu))"

definition A_STR_POST :: "'w ls_body" where
  "A_STR_POST vt offset cpu =
     (let addr = R cpu (rn_of cpu);
          cpu = DataWrite32 vt addr (str_val cpu) cpu
      in AddCycles_CD vt (wb_post offset cpu))"

definition A_STRB :: "'w ls_body" where
  "A_STRB vt offset cpu =
     (let offset = offset + R cpu (rn_of cpu);
          cpu = DataWrite8 vt offset (ucast (R cpu (rd_of cpu))) cpu
      in AddCycles_CD vt (wb_pre offset cpu))"

definition A_STRB_POST :: "'w ls_body" where
  "A_STRB_POST vt offset cpu =
     (let addr = R cpu (rn_of cpu);
          cpu = DataWrite8 vt addr (ucast (R cpu (rd_of cpu))) cpu
      in AddCycles_CD vt (wb_post offset cpu))"

definition A_LDR :: "'w ls_body" where
  "A_LDR vt offset cpu =
     (let offset = offset + R cpu (rn_of cpu);
          (val, cpu) = load_local vt (DataRead32 vt offset) cpu;
          val = ROR val (unat (push_bit 3 (offset AND 0x3)))
      in ldr_write vt val (AddCycles_CDI vt (wb_pre offset cpu)))"

definition A_LDR_POST :: "'w ls_body" where
  "A_LDR_POST vt offset cpu =
     (let addr = R cpu (rn_of cpu);
          (val, cpu) = load_local vt (DataRead32 vt addr) cpu;
          val = ROR val (unat (push_bit 3 (addr AND 0x3)))
      in ldr_write vt val (AddCycles_CDI vt (wb_post offset cpu)))"

definition A_LDRB :: "'w ls_body" where
  "A_LDRB vt offset cpu =
     (let offset = offset + R cpu (rn_of cpu);
          (val, cpu) = load_local vt (DataRead8 vt offset) cpu;
          cpu = AddCycles_CDI vt (wb_pre offset cpu)
      in setR (rd_of cpu) val cpu)"

definition A_LDRB_POST :: "'w ls_body" where
  "A_LDRB_POST vt offset cpu =
     (let addr = R cpu (rn_of cpu);
          (val, cpu) = load_local vt (DataRead8 vt addr) cpu;
          cpu = AddCycles_CDI vt (wb_post offset cpu)
      in setR (rd_of cpu) val cpu)"

section \<open>Halfwords and doublewords\<close>

definition A_STRH :: "'w ls_body" where
  "A_STRH vt offset cpu =
     (let offset = offset + R cpu (rn_of cpu);
          cpu = DataWrite16 vt offset (ucast (R cpu (rd_of cpu))) cpu
      in AddCycles_CD vt (wb_pre offset cpu))"

definition A_STRH_POST :: "'w ls_body" where
  "A_STRH_POST vt offset cpu =
     (let addr = R cpu (rn_of cpu);
          cpu = DataWrite16 vt addr (ucast (R cpu (rd_of cpu))) cpu
      in AddCycles_CD vt (wb_post offset cpu))"

text \<open>\<^verbatim>\<open>if (r&1) r--\<close>: the first register of a pair.\<close>

definition even_reg :: "nat \<Rightarrow> nat" where
  "even_reg r = (if odd r then r - 1 else r)"

definition ldrd_at :: "'w vt \<Rightarrow> u32 \<Rightarrow> 'w arm_scheme \<Rightarrow> 'w arm_scheme" where
  "ldrd_at vt addr cpu =
     (let r = even_reg (rd_of cpu);
          cpu = load_reg (DataRead32 vt addr) r cpu;
          cpu = load_reg (DataRead32S vt (addr + 4)) (r + 1) cpu
      in AddCycles_CDI vt cpu)"

definition A_LDRD :: "'w ls_body" where
  "A_LDRD vt offset cpu =
     (if Num cpu \<noteq> 0 then cpu
      else let offset = offset + R cpu (rn_of cpu) in ldrd_at vt offset (wb_pre offset cpu))"

definition A_LDRD_POST :: "'w ls_body" where
  "A_LDRD_POST vt offset cpu =
     (if Num cpu \<noteq> 0 then cpu
      else let addr = R cpu (rn_of cpu) in ldrd_at vt addr (wb_post offset cpu))"

definition strd_at :: "'w vt \<Rightarrow> u32 \<Rightarrow> 'w arm_scheme \<Rightarrow> 'w arm_scheme" where
  "strd_at vt addr cpu =
     (let r = even_reg (rd_of cpu);
          cpu = DataWrite32 vt addr (R cpu r) cpu;
          cpu = DataWrite32S vt (addr + 4) (R cpu (r + 1)) cpu
      in AddCycles_CD vt cpu)"

definition A_STRD :: "'w ls_body" where
  "A_STRD vt offset cpu =
     (if Num cpu \<noteq> 0 then cpu
      else let offset = offset + R cpu (rn_of cpu) in strd_at vt offset (wb_pre offset cpu))"

definition A_STRD_POST :: "'w ls_body" where
  "A_STRD_POST vt offset cpu =
     (if Num cpu \<noteq> 0 then cpu
      else let addr = R cpu (rn_of cpu) in strd_at vt addr (wb_post offset cpu))"

text \<open>A load into the register itself, then \<^verbatim>\<open>R[rd] = ext(R[rd])\<close>.\<close>

definition ext_reg :: "(u32 \<Rightarrow> u32) \<Rightarrow> nat \<Rightarrow> 'w arm_scheme \<Rightarrow> 'w arm_scheme" where
  "ext_reg f r cpu = setR r (f (R cpu r)) cpu"

definition A_LDRH :: "'w ls_body" where
  "A_LDRH vt offset cpu =
     (let offset = offset + R cpu (rn_of cpu);
          cpu = wb_pre offset cpu;
          cpu = load_reg (DataRead16 vt offset) (rd_of cpu) cpu
      in AddCycles_CDI vt cpu)"

definition A_LDRH_POST :: "'w ls_body" where
  "A_LDRH_POST vt offset cpu =
     (let addr = R cpu (rn_of cpu);
          cpu = wb_post offset cpu;
          cpu = load_reg (DataRead16 vt addr) (rd_of cpu) cpu
      in AddCycles_CDI vt cpu)"

definition A_LDRSB :: "'w ls_body" where
  "A_LDRSB vt offset cpu =
     (let offset = offset + R cpu (rn_of cpu);
          cpu = wb_pre offset cpu;
          cpu = load_reg (DataRead8 vt offset) (rd_of cpu) cpu;
          cpu = ext_reg sext8 (rd_of cpu) cpu
      in AddCycles_CDI vt cpu)"

definition A_LDRSB_POST :: "'w ls_body" where
  "A_LDRSB_POST vt offset cpu =
     (let addr = R cpu (rn_of cpu);
          cpu = wb_post offset cpu;
          cpu = load_reg (DataRead8 vt addr) (rd_of cpu) cpu;
          cpu = ext_reg sext8 (rd_of cpu) cpu
      in AddCycles_CDI vt cpu)"

definition A_LDRSH :: "'w ls_body" where
  "A_LDRSH vt offset cpu =
     (let offset = offset + R cpu (rn_of cpu);
          cpu = wb_pre offset cpu;
          cpu = load_reg (DataRead16 vt offset) (rd_of cpu) cpu;
          cpu = ext_reg sext16 (rd_of cpu) cpu
      in AddCycles_CDI vt cpu)"

definition A_LDRSH_POST :: "'w ls_body" where
  "A_LDRSH_POST vt offset cpu =
     (let addr = R cpu (rn_of cpu);
          cpu = wb_post offset cpu;
          cpu = load_reg (DataRead16 vt addr) (rd_of cpu) cpu;
          cpu = ext_reg sext16 (rd_of cpu) cpu
      in AddCycles_CDI vt cpu)"

section \<open>Addressing modes\<close>

text \<open>
  \<^verbatim>\<open>A_IMPLEMENT_WB_LDRSTR(x)\<close> makes ten functions and \<^verbatim>\<open>A_IMPLEMENT_HD_LDRSTR(x)\<close> four from the
  bodies \<^verbatim>\<open>A_x\<close> and \<^verbatim>\<open>A_x_POST\<close>.
\<close>

datatype wb_off = Off_IMM | Off_REG_LSL | Off_REG_LSR | Off_REG_ASR | Off_REG_ROR
datatype hd_off = HOff_IMM | HOff_REG

fun wb_offset :: "wb_off \<Rightarrow> 'w arm_scheme \<Rightarrow> u32" where
  "wb_offset Off_IMM cpu = A_WB_CALC_OFFSET_IMM cpu"
| "wb_offset Off_REG_LSL cpu = A_WB_CALC_OFFSET_REG LSL_IMM cpu"
| "wb_offset Off_REG_LSR cpu = A_WB_CALC_OFFSET_REG LSR_IMM cpu"
| "wb_offset Off_REG_ASR cpu = A_WB_CALC_OFFSET_REG ASR_IMM cpu"
| "wb_offset Off_REG_ROR cpu = A_WB_CALC_OFFSET_REG ROR_IMM cpu"

fun hd_offset :: "hd_off \<Rightarrow> 'w arm_scheme \<Rightarrow> u32" where
  "hd_offset HOff_IMM cpu = A_HD_CALC_OFFSET_IMM cpu"
| "hd_offset HOff_REG cpu = A_HD_CALC_OFFSET_REG cpu"

definition A_IMPLEMENT_WB_LDRSTR ::
  "'w ls_body \<Rightarrow> 'w ls_body \<Rightarrow> bool \<Rightarrow> wb_off \<Rightarrow> 'w vt \<Rightarrow> 'w arm_scheme \<Rightarrow> 'w arm_scheme" where
  "A_IMPLEMENT_WB_LDRSTR A_x A_x_POST post off vt cpu =
     (if post then A_x_POST vt (wb_offset off cpu) cpu else A_x vt (wb_offset off cpu) cpu)"

definition A_IMPLEMENT_HD_LDRSTR ::
  "'w ls_body \<Rightarrow> 'w ls_body \<Rightarrow> bool \<Rightarrow> hd_off \<Rightarrow> 'w vt \<Rightarrow> 'w arm_scheme \<Rightarrow> 'w arm_scheme" where
  "A_IMPLEMENT_HD_LDRSTR A_x A_x_POST post off vt cpu =
     (if post then A_x_POST vt (hd_offset off cpu) cpu else A_x vt (hd_offset off cpu) cpu)"

datatype wb_ls = LS_STR | LS_STRB | LS_LDR | LS_LDRB
datatype hd_ls = LS_STRH | LS_LDRD | LS_STRD | LS_LDRH | LS_LDRSB | LS_LDRSH

fun A_WB :: "wb_ls \<Rightarrow> bool \<Rightarrow> wb_off \<Rightarrow> 'w vt \<Rightarrow> 'w arm_scheme \<Rightarrow> 'w arm_scheme" where
  "A_WB LS_STR post off = A_IMPLEMENT_WB_LDRSTR A_STR A_STR_POST post off"
| "A_WB LS_STRB post off = A_IMPLEMENT_WB_LDRSTR A_STRB A_STRB_POST post off"
| "A_WB LS_LDR post off = A_IMPLEMENT_WB_LDRSTR A_LDR A_LDR_POST post off"
| "A_WB LS_LDRB post off = A_IMPLEMENT_WB_LDRSTR A_LDRB A_LDRB_POST post off"

fun A_HD :: "hd_ls \<Rightarrow> bool \<Rightarrow> hd_off \<Rightarrow> 'w vt \<Rightarrow> 'w arm_scheme \<Rightarrow> 'w arm_scheme" where
  "A_HD LS_STRH post off = A_IMPLEMENT_HD_LDRSTR A_STRH A_STRH_POST post off"
| "A_HD LS_LDRD post off = A_IMPLEMENT_HD_LDRSTR A_LDRD A_LDRD_POST post off"
| "A_HD LS_STRD post off = A_IMPLEMENT_HD_LDRSTR A_STRD A_STRD_POST post off"
| "A_HD LS_LDRH post off = A_IMPLEMENT_HD_LDRSTR A_LDRH A_LDRH_POST post off"
| "A_HD LS_LDRSB post off = A_IMPLEMENT_HD_LDRSTR A_LDRSB A_LDRSB_POST post off"
| "A_HD LS_LDRSH post off = A_IMPLEMENT_HD_LDRSTR A_LDRSH A_LDRSH_POST post off"

section \<open>Swaps\<close>

definition A_SWP :: "'w vt \<Rightarrow> 'w arm_scheme \<Rightarrow> 'w arm_scheme" where
  "A_SWP vt cpu =
     (let base = R cpu (rn_of cpu);
          rm = R cpu (ifield 0 0xF cpu);
          (val, cpu) = load_local vt (DataRead32 vt base) cpu;
          cpu = setR (rd_of cpu) (ROR val (8 * unat (base AND 0x3))) cpu;
          numD = DataCycles cpu;
          cpu = DataWrite32 vt base rm cpu;
          cpu = cpu\<lparr>DataCycles := DataCycles cpu + numD\<rparr>
      in AddCycles_CDI vt cpu)"

definition A_SWPB :: "'w vt \<Rightarrow> 'w arm_scheme \<Rightarrow> 'w arm_scheme" where
  "A_SWPB vt cpu =
     (let base = R cpu (rn_of cpu);
          rm = R cpu (ifield 0 0xF cpu) AND 0xFF;
          cpu = load_reg (DataRead8 vt base) (rd_of cpu) cpu;
          numD = DataCycles cpu;
          cpu = DataWrite8 vt base (ucast rm) cpu;
          cpu = cpu\<lparr>DataCycles := DataCycles cpu + numD\<rparr>
      in AddCycles_CDI vt cpu)"

section \<open>Block transfers\<close>

text \<open>The first access of a block is \<^verbatim>\<open>DataRead32\<close>, the others are \<^verbatim>\<open>DataRead32S\<close>; likewise for writes.\<close>

definition block_read :: "'w vt \<Rightarrow> bool \<Rightarrow> u32 \<Rightarrow> 'w arm_scheme \<Rightarrow> u32 option \<times> 'w arm_scheme" where
  "block_read vt first addr cpu = (if first then DataRead32 vt addr cpu else DataRead32S vt addr cpu)"

definition block_write :: "'w vt \<Rightarrow> bool \<Rightarrow> u32 \<Rightarrow> u32 \<Rightarrow> 'w arm_scheme \<Rightarrow> 'w arm_scheme" where
  "block_write vt first addr v cpu =
     (if first then DataWrite32 vt addr v cpu else DataWrite32S vt addr v cpu)"

text \<open>The number of registers of the list, as the loops that subtract 4 for each count it.\<close>

definition count_regs :: "nat \<Rightarrow> 'w arm_scheme \<Rightarrow> nat" where
  "count_regs n cpu = length (filter (\<lambda>i. ibit i cpu) [0..<n])"

text \<open>One iteration of the loop of \<^verbatim>\<open>A_LDM\<close>, and the loop.\<close>

definition ldm_step ::
  "'w vt \<Rightarrow> bool \<Rightarrow> nat \<Rightarrow> u32 \<times> bool \<times> 'w arm_scheme \<Rightarrow> u32 \<times> bool \<times> 'w arm_scheme" where
  "ldm_step vt preinc i st =
     (let (base, first, cpu) = st
      in if ibit i cpu then
           let base = (if preinc then base + 4 else base);
               cpu = load_reg (block_read vt first base) i cpu;
               base = (if \<not> preinc then base + 4 else base)
           in (base, False, cpu)
         else (base, first, cpu))"

definition user_mode :: "'w arm_scheme \<Rightarrow> u32" where
  "user_mode cpu = (CPSR cpu AND NOT 0x1F) OR 0x10"

definition A_LDM :: "'w vt \<Rightarrow> 'w arm_scheme \<Rightarrow> 'w arm_scheme" where
  "A_LDM vt cpu =
     (let baseid = rn_of cpu;
          base = R cpu baseid;
          base = (if \<not> ibit 23 cpu then base - 4 * of_nat (count_regs 16 cpu) else base);
          preinc = (if \<not> ibit 23 cpu then \<not> ibit 24 cpu else ibit 24 cpu);
          wbbase = base;
          cpu = (if ibit 22 cpu \<and> \<not> ibit 15 cpu then UpdateMode (CPSR cpu) (user_mode cpu) True cpu else cpu);
          (base, first, cpu) = fold (ldm_step vt preinc) [0..<15] (base, True, cpu);
          (pc, base, cpu) =
            (if ibit 15 cpu then
               let base = (if preinc then base + 4 else base);
                   (pc, cpu) = (case block_read vt first base cpu of
                                  (None, cpu) \<Rightarrow> (0, cpu) | (Some v, cpu) \<Rightarrow> (v, cpu));
                   base = (if \<not> preinc then base + 4 else base)
               in (if Num cpu = 1 then pc AND NOT 0x1 else pc, base, cpu)
             else (0, base, cpu));
          cpu =
            (if ibit 21 cpu then
               let wbbase = (if ibit 23 cpu then base else wbbase)
               in if ibit baseid cpu then
                    if Num cpu = 0 then
                      let rlist = CurInstr cpu AND 0xFFFF
                      in if rlist AND NOT (push_bit baseid 1) = 0 \<or> rlist AND NOT (push_bit baseid 2 - 1) \<noteq> 0
                         then setR baseid wbbase cpu else cpu
                    else cpu
                  else setR baseid wbbase cpu
             else cpu);
          cpu = (if ibit 22 cpu \<and> \<not> ibit 15 cpu then UpdateMode (user_mode cpu) (CPSR cpu) True cpu else cpu);
          cpu = (if ibit 15 cpu then JumpTo vt pc (ibit 22 cpu) cpu else cpu)
      in AddCycles_CDI vt cpu)"

definition stm_step ::
  "'w vt \<Rightarrow> bool \<Rightarrow> nat \<Rightarrow> bool \<Rightarrow> u32 \<Rightarrow> nat \<Rightarrow> u32 \<times> bool \<times> 'w arm_scheme \<Rightarrow> u32 \<times> bool \<times> 'w arm_scheme" where
  "stm_step vt preinc baseid isbanked oldbase i st =
     (let (base, first, cpu) = st
      in if ibit i cpu then
           let base = (if preinc then base + 4 else base);
               v = (if i = baseid \<and> \<not> isbanked then
                      if Num cpu = 0 \<or> CurInstr cpu AND (push_bit i 1 - 1) = 0 then oldbase else base
                    else R cpu i);
               cpu = block_write vt first base v cpu;
               base = (if \<not> preinc then base + 4 else base)
           in (base, False, cpu)
         else (base, first, cpu))"

definition A_STM :: "'w vt \<Rightarrow> 'w arm_scheme \<Rightarrow> 'w arm_scheme" where
  "A_STM vt cpu =
     (let baseid = rn_of cpu;
          base = R cpu baseid;
          oldbase = base;
          base = (if \<not> ibit 23 cpu then base - 4 * of_nat (count_regs 16 cpu) else base);
          preinc = (if \<not> ibit 23 cpu then \<not> ibit 24 cpu else ibit 24 cpu);
          cpu = (if \<not> ibit 23 cpu \<and> ibit 21 cpu then setR baseid base cpu else cpu);
          md = CPSR cpu AND 0x1F;
          isbanked =
            (ibit 22 cpu \<and>
             (if md = 0x11 then baseid \<ge> 8 \<and> baseid < 15
              else if md \<noteq> 0x10 \<and> md \<noteq> 0x1F then baseid \<ge> 13 \<and> baseid < 15
              else False));
          cpu = (if ibit 22 cpu then UpdateMode (CPSR cpu) (user_mode cpu) True cpu else cpu);
          (base, first, cpu) = fold (stm_step vt preinc baseid isbanked oldbase) [0..<16] (base, True, cpu);
          cpu = (if ibit 22 cpu then UpdateMode (user_mode cpu) (CPSR cpu) True cpu else cpu);
          cpu = (if ibit 23 cpu \<and> ibit 21 cpu then setR baseid base cpu else cpu)
      in AddCycles_CD vt cpu)"

section \<open>THUMB\<close>

text \<open>The addresses: base plus register, and base plus a scaled immediate.\<close>

definition t_addr_reg :: "'w arm_scheme \<Rightarrow> u32" where
  "t_addr_reg cpu = R cpu (ifield 3 0x7 cpu) + R cpu (ifield 6 0x7 cpu)"

definition t_addr_imm :: "nat \<Rightarrow> u32 \<Rightarrow> 'w arm_scheme \<Rightarrow> u32" where
  "t_addr_imm k m cpu = (drop_bit k (CurInstr cpu) AND m) + R cpu (ifield 3 0x7 cpu)"

definition t_addr_sp :: "'w arm_scheme \<Rightarrow> u32" where
  "t_addr_sp cpu = (push_bit 2 (CurInstr cpu) AND 0x3FC) + R cpu 13"

definition T_LDR_PCREL :: "'w vt \<Rightarrow> 'w arm_scheme \<Rightarrow> 'w arm_scheme" where
  "T_LDR_PCREL vt cpu =
     (let addr = (R cpu 15 AND NOT 0x2) + push_bit 2 (CurInstr cpu AND 0xFF)
      in AddCycles_CDI vt (load_reg (DataRead32 vt addr) (ifield 8 0x7 cpu) cpu))"

definition T_STR_REG :: "'w vt \<Rightarrow> 'w arm_scheme \<Rightarrow> 'w arm_scheme" where
  "T_STR_REG vt cpu =
     AddCycles_CD vt (DataWrite32 vt (t_addr_reg cpu) (R cpu (ifield 0 0x7 cpu)) cpu)"

definition T_STRB_REG :: "'w vt \<Rightarrow> 'w arm_scheme \<Rightarrow> 'w arm_scheme" where
  "T_STRB_REG vt cpu =
     AddCycles_CD vt (DataWrite8 vt (t_addr_reg cpu) (ucast (R cpu (ifield 0 0x7 cpu))) cpu)"

definition T_LDR_REG :: "'w vt \<Rightarrow> 'w arm_scheme \<Rightarrow> 'w arm_scheme" where
  "T_LDR_REG vt cpu =
     (let addr = t_addr_reg cpu;
          (val, cpu) = load_local vt (DataRead32 vt addr) cpu
      in AddCycles_CDI vt (setR (ifield 0 0x7 cpu) (ROR val (8 * unat (addr AND 0x3))) cpu))"

definition T_LDRB_REG :: "'w vt \<Rightarrow> 'w arm_scheme \<Rightarrow> 'w arm_scheme" where
  "T_LDRB_REG vt cpu =
     AddCycles_CDI vt (load_reg (DataRead8 vt (t_addr_reg cpu)) (ifield 0 0x7 cpu) cpu)"

definition T_STRH_REG :: "'w vt \<Rightarrow> 'w arm_scheme \<Rightarrow> 'w arm_scheme" where
  "T_STRH_REG vt cpu =
     AddCycles_CD vt (DataWrite16 vt (t_addr_reg cpu) (ucast (R cpu (ifield 0 0x7 cpu))) cpu)"

definition T_LDRSB_REG :: "'w vt \<Rightarrow> 'w arm_scheme \<Rightarrow> 'w arm_scheme" where
  "T_LDRSB_REG vt cpu =
     (let cpu = load_reg (DataRead8 vt (t_addr_reg cpu)) (ifield 0 0x7 cpu) cpu;
          cpu = ext_reg sext8 (ifield 0 0x7 cpu) cpu
      in AddCycles_CDI vt cpu)"

definition T_LDRH_REG :: "'w vt \<Rightarrow> 'w arm_scheme \<Rightarrow> 'w arm_scheme" where
  "T_LDRH_REG vt cpu =
     AddCycles_CDI vt (load_reg (DataRead16 vt (t_addr_reg cpu)) (ifield 0 0x7 cpu) cpu)"

definition T_LDRSH_REG :: "'w vt \<Rightarrow> 'w arm_scheme \<Rightarrow> 'w arm_scheme" where
  "T_LDRSH_REG vt cpu =
     (let cpu = load_reg (DataRead16 vt (t_addr_reg cpu)) (ifield 0 0x7 cpu) cpu;
          cpu = ext_reg sext16 (ifield 0 0x7 cpu) cpu
      in AddCycles_CDI vt cpu)"

definition T_STR_IMM :: "'w vt \<Rightarrow> 'w arm_scheme \<Rightarrow> 'w arm_scheme" where
  "T_STR_IMM vt cpu =
     AddCycles_CD vt (DataWrite32 vt (t_addr_imm 4 0x7C cpu) (R cpu (ifield 0 0x7 cpu)) cpu)"

definition T_LDR_IMM :: "'w vt \<Rightarrow> 'w arm_scheme \<Rightarrow> 'w arm_scheme" where
  "T_LDR_IMM vt cpu =
     (let addr = t_addr_imm 4 0x7C cpu;
          (val, cpu) = load_local vt (DataRead32 vt addr) cpu
      in AddCycles_CDI vt (setR (ifield 0 0x7 cpu) (ROR val (8 * unat (addr AND 0x3))) cpu))"

definition T_STRB_IMM :: "'w vt \<Rightarrow> 'w arm_scheme \<Rightarrow> 'w arm_scheme" where
  "T_STRB_IMM vt cpu =
     AddCycles_CD vt (DataWrite8 vt (t_addr_imm 6 0x1F cpu) (ucast (R cpu (ifield 0 0x7 cpu))) cpu)"

definition T_LDRB_IMM :: "'w vt \<Rightarrow> 'w arm_scheme \<Rightarrow> 'w arm_scheme" where
  "T_LDRB_IMM vt cpu =
     AddCycles_CDI vt (load_reg (DataRead8 vt (t_addr_imm 6 0x1F cpu)) (ifield 0 0x7 cpu) cpu)"

definition T_STRH_IMM :: "'w vt \<Rightarrow> 'w arm_scheme \<Rightarrow> 'w arm_scheme" where
  "T_STRH_IMM vt cpu =
     AddCycles_CD vt (DataWrite16 vt (t_addr_imm 5 0x3E cpu) (ucast (R cpu (ifield 0 0x7 cpu))) cpu)"

definition T_LDRH_IMM :: "'w vt \<Rightarrow> 'w arm_scheme \<Rightarrow> 'w arm_scheme" where
  "T_LDRH_IMM vt cpu =
     AddCycles_CDI vt (load_reg (DataRead16 vt (t_addr_imm 5 0x3E cpu)) (ifield 0 0x7 cpu) cpu)"

definition T_STR_SPREL :: "'w vt \<Rightarrow> 'w arm_scheme \<Rightarrow> 'w arm_scheme" where
  "T_STR_SPREL vt cpu =
     AddCycles_CD vt (DataWrite32 vt (t_addr_sp cpu) (R cpu (ifield 8 0x7 cpu)) cpu)"

definition T_LDR_SPREL :: "'w vt \<Rightarrow> 'w arm_scheme \<Rightarrow> 'w arm_scheme" where
  "T_LDR_SPREL vt cpu =
     AddCycles_CDI vt (load_reg (DataRead32 vt (t_addr_sp cpu)) (ifield 8 0x7 cpu) cpu)"

text \<open>The loops over the low registers that the four block instructions share.\<close>

definition t_stm_step ::
  "'w vt \<Rightarrow> nat \<Rightarrow> u32 \<times> bool \<times> 'w arm_scheme \<Rightarrow> u32 \<times> bool \<times> 'w arm_scheme" where
  "t_stm_step vt i st =
     (let (base, first, cpu) = st
      in if ibit i cpu then (base + 4, False, block_write vt first base (R cpu i) cpu) else st)"

definition t_ldm_step ::
  "'w vt \<Rightarrow> nat \<Rightarrow> u32 \<times> bool \<times> 'w arm_scheme \<Rightarrow> u32 \<times> bool \<times> 'w arm_scheme" where
  "t_ldm_step vt i st =
     (let (base, first, cpu) = st
      in if ibit i cpu then (base + 4, False, load_reg (block_read vt first base) i cpu) else st)"

definition T_PUSH :: "'w vt \<Rightarrow> 'w arm_scheme \<Rightarrow> 'w arm_scheme" where
  "T_PUSH vt cpu =
     (let nregs = count_regs 8 cpu;
          nregs = (if ibit 8 cpu then nregs + 1 else nregs);
          base = R cpu 13;
          base = base - push_bit 2 (of_nat nregs);
          cpu = setR 13 base cpu;
          (base, first, cpu) = fold (t_stm_step vt) [0..<8] (base, True, cpu);
          cpu = (if ibit 8 cpu then block_write vt first base (R cpu 14) cpu else cpu)
      in AddCycles_CD vt cpu)"

definition T_POP :: "'w vt \<Rightarrow> 'w arm_scheme \<Rightarrow> 'w arm_scheme" where
  "T_POP vt cpu =
     (let base = R cpu 13;
          (base, first, cpu) = fold (t_ldm_step vt) [0..<8] (base, True, cpu);
          (base, cpu) =
            (if ibit 8 cpu then
               let (pc, cpu) = load_local vt (block_read vt first base) cpu;
                   pc = (if Num cpu = 1 then pc OR 0x1 else pc);
                   cpu = JumpTo vt pc False cpu
               in (base + 4, cpu)
             else (base, cpu))
      in AddCycles_CDI vt (setR 13 base cpu))"

definition T_STMIA :: "'w vt \<Rightarrow> 'w arm_scheme \<Rightarrow> 'w arm_scheme" where
  "T_STMIA vt cpu =
     (let base = R cpu (ifield 8 0x7 cpu);
          (base, first, cpu) = fold (t_stm_step vt) [0..<8] (base, True, cpu)
      in AddCycles_CD vt (setR (ifield 8 0x7 cpu) base cpu))"

definition T_LDMIA :: "'w vt \<Rightarrow> 'w arm_scheme \<Rightarrow> 'w arm_scheme" where
  "T_LDMIA vt cpu =
     (let base = R cpu (ifield 8 0x7 cpu);
          (base, first, cpu) = fold (t_ldm_step vt) [0..<8] (base, True, cpu);
          cpu = (if \<not> ibit (ifield 8 0x7 cpu) cpu then setR (ifield 8 0x7 cpu) base cpu else cpu)
      in AddCycles_CDI vt cpu)"

end
