(* ===== verification/Arm_Table.thy ===== *)
theory Arm_Table
  imports Arm_LoadStore
begin

text \<open>
  The instruction tables of \<^verbatim>\<open>src/src/ARM_InstrTable.h\<close>. A table entry is a function of the
  interpreter; here it is a name, and \<open>exec_arm\<close> and \<open>exec_thumb\<close> give the function. A row of
  sixteen equal entries is written \<open>replicate 16\<close>.
\<close>

section \<open>Entries\<close>

datatype i_mul = M_MUL | M_MLA | M_UMULL | M_UMLAL | M_SMULL | M_SMLAL | M_SMLAxy | M_SMLAWy | M_SMULxy | M_SMULWy | M_SMLALxy

datatype i_sat = S_CLZ | S_QADD | S_QSUB | S_QDADD | S_QDSUB

datatype i_branch = B_B | B_BL | B_BLX_REG | B_BX

datatype i_psr = P_MSR_IMM | P_MSR_REG | P_MRS | P_MCR | P_MRC

datatype i_xfer = X_SWP | X_SWPB | X_LDM | X_STM

datatype instr =
    I_ALU alu bool op2
  | I_MOV_DBG
  | I_WB wb_ls bool wb_off
  | I_HD hd_ls bool hd_off
  | I_MUL i_mul
  | I_SAT i_sat
  | I_BRANCH i_branch
  | I_PSR i_psr
  | I_XFER i_xfer
  | I_SVC
  | I_UNK

datatype t_imm =
    Ti_LSL_IMM | Ti_LSR_IMM | Ti_ASR_IMM | Ti_ADD_REG3 | Ti_SUB_REG3 | Ti_ADD_IMM3
  | Ti_SUB_IMM3 | Ti_MOV_IMM | Ti_CMP_IMM | Ti_ADD_IMM | Ti_SUB_IMM

datatype t_reg =
    Tr_AND_REG | Tr_EOR_REG | Tr_LSL_REG | Tr_LSR_REG | Tr_ASR_REG | Tr_ADC_REG
  | Tr_SBC_REG | Tr_ROR_REG | Tr_TST_REG | Tr_NEG_REG | Tr_CMP_REG | Tr_CMN_REG
  | Tr_ORR_REG | Tr_MUL_REG | Tr_BIC_REG | Tr_MVN_REG

datatype t_hi =
    Th_ADD_HIREG | Th_CMP_HIREG | Th_MOV_HIREG | Th_ADD_PCREL | Th_ADD_SPREL | Th_ADD_SP

datatype t_branch =
    Tb_BX | Tb_BLX_REG | Tb_BCOND | Tb_B | Tb_BL_LONG_1 | Tb_BL_LONG_2

datatype t_mem =
    Tm_LDR_PCREL | Tm_STR_REG | Tm_STRH_REG | Tm_STRB_REG | Tm_LDRSB_REG | Tm_LDR_REG
  | Tm_LDRH_REG | Tm_LDRB_REG | Tm_LDRSH_REG

datatype t_memi =
    Tn_STR_IMM | Tn_LDR_IMM | Tn_STRB_IMM | Tn_LDRB_IMM | Tn_STRH_IMM | Tn_LDRH_IMM
  | Tn_STR_SPREL | Tn_LDR_SPREL

datatype t_block =
    Tb_PUSH | Tb_POP | Tb_STMIA | Tb_LDMIA

datatype tinstr =
    J_IMM t_imm
  | J_REG t_reg
  | J_HI t_hi
  | J_BRANCH t_branch
  | J_MEM t_mem
  | J_MEMI t_memi
  | J_BLOCK t_block
  | J_SVC
  | J_UNK

primrec exec_mul :: "i_mul \<Rightarrow> 'w vt \<Rightarrow> 'w arm_scheme \<Rightarrow> 'w arm_scheme" where
  "exec_mul M_MUL = A_MUL"
| "exec_mul M_MLA = A_MLA"
| "exec_mul M_UMULL = A_UMULL"
| "exec_mul M_UMLAL = A_UMLAL"
| "exec_mul M_SMULL = A_SMULL"
| "exec_mul M_SMLAL = A_SMLAL"
| "exec_mul M_SMLAxy = A_SMLAxy"
| "exec_mul M_SMLAWy = A_SMLAWy"
| "exec_mul M_SMULxy = A_SMULxy"
| "exec_mul M_SMULWy = A_SMULWy"
| "exec_mul M_SMLALxy = A_SMLALxy"

primrec exec_sat :: "i_sat \<Rightarrow> 'w vt \<Rightarrow> 'w arm_scheme \<Rightarrow> 'w arm_scheme" where
  "exec_sat S_CLZ = A_CLZ"
| "exec_sat S_QADD = A_QADD"
| "exec_sat S_QSUB = A_QSUB"
| "exec_sat S_QDADD = A_QDADD"
| "exec_sat S_QDSUB = A_QDSUB"

primrec exec_branch :: "i_branch \<Rightarrow> 'w vt \<Rightarrow> 'w arm_scheme \<Rightarrow> 'w arm_scheme" where
  "exec_branch B_B = A_B"
| "exec_branch B_BL = A_BL"
| "exec_branch B_BLX_REG = A_BLX_REG"
| "exec_branch B_BX = A_BX"

primrec exec_psr :: "i_psr \<Rightarrow> 'w vt \<Rightarrow> 'w arm_scheme \<Rightarrow> 'w arm_scheme" where
  "exec_psr P_MSR_IMM = A_MSR_IMM"
| "exec_psr P_MSR_REG = A_MSR_REG"
| "exec_psr P_MRS = A_MRS"
| "exec_psr P_MCR = A_MCR"
| "exec_psr P_MRC = A_MRC"

primrec exec_xfer :: "i_xfer \<Rightarrow> 'w vt \<Rightarrow> 'w arm_scheme \<Rightarrow> 'w arm_scheme" where
  "exec_xfer X_SWP = A_SWP"
| "exec_xfer X_SWPB = A_SWPB"
| "exec_xfer X_LDM = A_LDM"
| "exec_xfer X_STM = A_STM"

primrec exec_arm :: "instr \<Rightarrow> 'w vt \<Rightarrow> 'w arm_scheme \<Rightarrow> 'w arm_scheme" where
  "exec_arm (I_ALU x s op) = A_ALU x s op"
| "exec_arm I_MOV_DBG = A_MOV_REG_LSL_IMM_DBG"
| "exec_arm (I_WB x post off) = A_WB x post off"
| "exec_arm (I_HD x post off) = A_HD x post off"
| "exec_arm (I_MUL x) = exec_mul x"
| "exec_arm (I_SAT x) = exec_sat x"
| "exec_arm (I_BRANCH x) = exec_branch x"
| "exec_arm (I_PSR x) = exec_psr x"
| "exec_arm (I_XFER x) = exec_xfer x"
| "exec_arm I_SVC = A_SVC"
| "exec_arm I_UNK = A_UNK"

primrec texec_imm :: "t_imm \<Rightarrow> 'w vt \<Rightarrow> 'w arm_scheme \<Rightarrow> 'w arm_scheme" where
  "texec_imm Ti_LSL_IMM = T_LSL_IMM"
| "texec_imm Ti_LSR_IMM = T_LSR_IMM"
| "texec_imm Ti_ASR_IMM = T_ASR_IMM"
| "texec_imm Ti_ADD_REG3 = T_ADD_REG'"
| "texec_imm Ti_SUB_REG3 = T_SUB_REG'"
| "texec_imm Ti_ADD_IMM3 = T_ADD_IMM'"
| "texec_imm Ti_SUB_IMM3 = T_SUB_IMM'"
| "texec_imm Ti_MOV_IMM = T_MOV_IMM"
| "texec_imm Ti_CMP_IMM = T_CMP_IMM"
| "texec_imm Ti_ADD_IMM = T_ADD_IMM"
| "texec_imm Ti_SUB_IMM = T_SUB_IMM"

primrec texec_reg :: "t_reg \<Rightarrow> 'w vt \<Rightarrow> 'w arm_scheme \<Rightarrow> 'w arm_scheme" where
  "texec_reg Tr_AND_REG = T_AND_REG"
| "texec_reg Tr_EOR_REG = T_EOR_REG"
| "texec_reg Tr_LSL_REG = T_LSL_REG"
| "texec_reg Tr_LSR_REG = T_LSR_REG"
| "texec_reg Tr_ASR_REG = T_ASR_REG"
| "texec_reg Tr_ADC_REG = T_ADC_REG"
| "texec_reg Tr_SBC_REG = T_SBC_REG"
| "texec_reg Tr_ROR_REG = T_ROR_REG"
| "texec_reg Tr_TST_REG = T_TST_REG"
| "texec_reg Tr_NEG_REG = T_NEG_REG"
| "texec_reg Tr_CMP_REG = T_CMP_REG"
| "texec_reg Tr_CMN_REG = T_CMN_REG"
| "texec_reg Tr_ORR_REG = T_ORR_REG"
| "texec_reg Tr_MUL_REG = T_MUL_REG"
| "texec_reg Tr_BIC_REG = T_BIC_REG"
| "texec_reg Tr_MVN_REG = T_MVN_REG"

primrec texec_hi :: "t_hi \<Rightarrow> 'w vt \<Rightarrow> 'w arm_scheme \<Rightarrow> 'w arm_scheme" where
  "texec_hi Th_ADD_HIREG = T_ADD_HIREG"
| "texec_hi Th_CMP_HIREG = T_CMP_HIREG"
| "texec_hi Th_MOV_HIREG = T_MOV_HIREG"
| "texec_hi Th_ADD_PCREL = T_ADD_PCREL"
| "texec_hi Th_ADD_SPREL = T_ADD_SPREL"
| "texec_hi Th_ADD_SP = T_ADD_SP"

primrec texec_branch :: "t_branch \<Rightarrow> 'w vt \<Rightarrow> 'w arm_scheme \<Rightarrow> 'w arm_scheme" where
  "texec_branch Tb_BX = T_BX"
| "texec_branch Tb_BLX_REG = T_BLX_REG"
| "texec_branch Tb_BCOND = T_BCOND"
| "texec_branch Tb_B = T_B"
| "texec_branch Tb_BL_LONG_1 = T_BL_LONG_1"
| "texec_branch Tb_BL_LONG_2 = T_BL_LONG_2"

primrec texec_mem :: "t_mem \<Rightarrow> 'w vt \<Rightarrow> 'w arm_scheme \<Rightarrow> 'w arm_scheme" where
  "texec_mem Tm_LDR_PCREL = T_LDR_PCREL"
| "texec_mem Tm_STR_REG = T_STR_REG"
| "texec_mem Tm_STRH_REG = T_STRH_REG"
| "texec_mem Tm_STRB_REG = T_STRB_REG"
| "texec_mem Tm_LDRSB_REG = T_LDRSB_REG"
| "texec_mem Tm_LDR_REG = T_LDR_REG"
| "texec_mem Tm_LDRH_REG = T_LDRH_REG"
| "texec_mem Tm_LDRB_REG = T_LDRB_REG"
| "texec_mem Tm_LDRSH_REG = T_LDRSH_REG"

primrec texec_memi :: "t_memi \<Rightarrow> 'w vt \<Rightarrow> 'w arm_scheme \<Rightarrow> 'w arm_scheme" where
  "texec_memi Tn_STR_IMM = T_STR_IMM"
| "texec_memi Tn_LDR_IMM = T_LDR_IMM"
| "texec_memi Tn_STRB_IMM = T_STRB_IMM"
| "texec_memi Tn_LDRB_IMM = T_LDRB_IMM"
| "texec_memi Tn_STRH_IMM = T_STRH_IMM"
| "texec_memi Tn_LDRH_IMM = T_LDRH_IMM"
| "texec_memi Tn_STR_SPREL = T_STR_SPREL"
| "texec_memi Tn_LDR_SPREL = T_LDR_SPREL"

primrec texec_block :: "t_block \<Rightarrow> 'w vt \<Rightarrow> 'w arm_scheme \<Rightarrow> 'w arm_scheme" where
  "texec_block Tb_PUSH = T_PUSH"
| "texec_block Tb_POP = T_POP"
| "texec_block Tb_STMIA = T_STMIA"
| "texec_block Tb_LDMIA = T_LDMIA"

primrec exec_thumb :: "tinstr \<Rightarrow> 'w vt \<Rightarrow> 'w arm_scheme \<Rightarrow> 'w arm_scheme" where
  "exec_thumb (J_IMM x) = texec_imm x"
| "exec_thumb (J_REG x) = texec_reg x"
| "exec_thumb (J_HI x) = texec_hi x"
| "exec_thumb (J_BRANCH x) = texec_branch x"
| "exec_thumb (J_MEM x) = texec_mem x"
| "exec_thumb (J_MEMI x) = texec_memi x"
| "exec_thumb (J_BLOCK x) = texec_block x"
| "exec_thumb J_SVC = T_SVC"
| "exec_thumb J_UNK = T_UNK"

section \<open>The ARM table\<close>

definition ARMInstrTable_0 :: "instr list" where
  "ARMInstrTable_0 =
     [I_ALU DP_AND False Op_REG_LSL_IMM, I_ALU DP_AND False Op_REG_LSL_REG,
      I_ALU DP_AND False Op_REG_LSR_IMM, I_ALU DP_AND False Op_REG_LSR_REG,
      I_ALU DP_AND False Op_REG_ASR_IMM, I_ALU DP_AND False Op_REG_ASR_REG,
      I_ALU DP_AND False Op_REG_ROR_IMM, I_ALU DP_AND False Op_REG_ROR_REG,
      I_ALU DP_AND False Op_REG_LSL_IMM, I_MUL M_MUL,
      I_ALU DP_AND False Op_REG_LSR_IMM, I_HD LS_STRH True HOff_REG,
      I_ALU DP_AND False Op_REG_ASR_IMM, I_HD LS_LDRD True HOff_REG,
      I_ALU DP_AND False Op_REG_ROR_IMM, I_HD LS_STRD True HOff_REG] @
     [I_ALU DP_AND True Op_REG_LSL_IMM, I_ALU DP_AND True Op_REG_LSL_REG,
      I_ALU DP_AND True Op_REG_LSR_IMM, I_ALU DP_AND True Op_REG_LSR_REG,
      I_ALU DP_AND True Op_REG_ASR_IMM, I_ALU DP_AND True Op_REG_ASR_REG,
      I_ALU DP_AND True Op_REG_ROR_IMM, I_ALU DP_AND True Op_REG_ROR_REG,
      I_ALU DP_AND True Op_REG_LSL_IMM, I_MUL M_MUL,
      I_ALU DP_AND True Op_REG_LSR_IMM, I_HD LS_LDRH True HOff_REG,
      I_ALU DP_AND True Op_REG_ASR_IMM, I_HD LS_LDRSB True HOff_REG,
      I_ALU DP_AND True Op_REG_ROR_IMM, I_HD LS_LDRSH True HOff_REG] @
     [I_ALU DP_EOR False Op_REG_LSL_IMM, I_ALU DP_EOR False Op_REG_LSL_REG,
      I_ALU DP_EOR False Op_REG_LSR_IMM, I_ALU DP_EOR False Op_REG_LSR_REG,
      I_ALU DP_EOR False Op_REG_ASR_IMM, I_ALU DP_EOR False Op_REG_ASR_REG,
      I_ALU DP_EOR False Op_REG_ROR_IMM, I_ALU DP_EOR False Op_REG_ROR_REG,
      I_ALU DP_EOR False Op_REG_LSL_IMM, I_MUL M_MLA,
      I_ALU DP_EOR False Op_REG_LSR_IMM, I_UNK,
      I_ALU DP_EOR False Op_REG_ASR_IMM, I_UNK,
      I_ALU DP_EOR False Op_REG_ROR_IMM, I_UNK] @
     [I_ALU DP_EOR True Op_REG_LSL_IMM, I_ALU DP_EOR True Op_REG_LSL_REG,
      I_ALU DP_EOR True Op_REG_LSR_IMM, I_ALU DP_EOR True Op_REG_LSR_REG,
      I_ALU DP_EOR True Op_REG_ASR_IMM, I_ALU DP_EOR True Op_REG_ASR_REG,
      I_ALU DP_EOR True Op_REG_ROR_IMM, I_ALU DP_EOR True Op_REG_ROR_REG,
      I_ALU DP_EOR True Op_REG_LSL_IMM, I_MUL M_MLA,
      I_ALU DP_EOR True Op_REG_ROR_IMM, I_UNK,
      I_ALU DP_EOR True Op_REG_ASR_IMM, I_UNK,
      I_ALU DP_EOR True Op_REG_ROR_IMM, I_UNK] @
     [I_ALU DP_SUB False Op_REG_LSL_IMM, I_ALU DP_SUB False Op_REG_LSL_REG,
      I_ALU DP_SUB False Op_REG_LSR_IMM, I_ALU DP_SUB False Op_REG_LSR_REG,
      I_ALU DP_SUB False Op_REG_ASR_IMM, I_ALU DP_SUB False Op_REG_ASR_REG,
      I_ALU DP_SUB False Op_REG_ROR_IMM, I_ALU DP_SUB False Op_REG_ROR_REG,
      I_ALU DP_SUB False Op_REG_LSL_IMM, I_UNK,
      I_ALU DP_SUB False Op_REG_LSR_IMM, I_HD LS_STRH True HOff_IMM,
      I_ALU DP_SUB False Op_REG_ASR_IMM, I_HD LS_LDRD True HOff_IMM,
      I_ALU DP_SUB False Op_REG_ROR_IMM, I_HD LS_STRD True HOff_IMM] @
     [I_ALU DP_SUB True Op_REG_LSL_IMM, I_ALU DP_SUB True Op_REG_LSL_REG,
      I_ALU DP_SUB True Op_REG_LSR_IMM, I_ALU DP_SUB True Op_REG_LSR_REG,
      I_ALU DP_SUB True Op_REG_ASR_IMM, I_ALU DP_SUB True Op_REG_ASR_REG,
      I_ALU DP_SUB True Op_REG_ROR_IMM, I_ALU DP_SUB True Op_REG_ROR_REG,
      I_ALU DP_SUB True Op_REG_LSL_IMM, I_UNK,
      I_ALU DP_SUB True Op_REG_LSR_IMM, I_HD LS_LDRH True HOff_IMM,
      I_ALU DP_SUB True Op_REG_ASR_IMM, I_HD LS_LDRSB True HOff_IMM,
      I_ALU DP_SUB True Op_REG_ROR_IMM, I_HD LS_LDRSH True HOff_IMM] @
     [I_ALU DP_RSB False Op_REG_LSL_IMM, I_ALU DP_RSB False Op_REG_LSL_REG,
      I_ALU DP_RSB False Op_REG_LSR_IMM, I_ALU DP_RSB False Op_REG_LSR_REG,
      I_ALU DP_RSB False Op_REG_ASR_IMM, I_ALU DP_RSB False Op_REG_ASR_REG,
      I_ALU DP_RSB False Op_REG_ROR_IMM, I_ALU DP_RSB False Op_REG_ROR_REG,
      I_ALU DP_RSB False Op_REG_LSL_IMM, I_UNK,
      I_ALU DP_RSB False Op_REG_LSR_IMM, I_UNK,
      I_ALU DP_RSB False Op_REG_ASR_IMM, I_UNK,
      I_ALU DP_RSB False Op_REG_ROR_IMM, I_UNK] @
     [I_ALU DP_RSB True Op_REG_LSL_IMM, I_ALU DP_RSB True Op_REG_LSL_REG,
      I_ALU DP_RSB True Op_REG_LSR_IMM, I_ALU DP_RSB True Op_REG_LSR_REG,
      I_ALU DP_RSB True Op_REG_ASR_IMM, I_ALU DP_RSB True Op_REG_ASR_REG,
      I_ALU DP_RSB True Op_REG_ROR_IMM, I_ALU DP_RSB True Op_REG_ROR_REG,
      I_ALU DP_RSB True Op_REG_LSL_IMM, I_UNK,
      I_ALU DP_RSB True Op_REG_LSR_IMM, I_UNK,
      I_ALU DP_RSB True Op_REG_ASR_IMM, I_UNK,
      I_ALU DP_RSB True Op_REG_ROR_IMM, I_UNK] @
     [I_ALU DP_ADD False Op_REG_LSL_IMM, I_ALU DP_ADD False Op_REG_LSL_REG,
      I_ALU DP_ADD False Op_REG_LSR_IMM, I_ALU DP_ADD False Op_REG_LSR_REG,
      I_ALU DP_ADD False Op_REG_ASR_IMM, I_ALU DP_ADD False Op_REG_ASR_REG,
      I_ALU DP_ADD False Op_REG_ROR_IMM, I_ALU DP_ADD False Op_REG_ROR_REG,
      I_ALU DP_ADD False Op_REG_LSL_IMM, I_MUL M_UMULL,
      I_ALU DP_ADD False Op_REG_LSR_IMM, I_HD LS_STRH True HOff_REG,
      I_ALU DP_ADD False Op_REG_ASR_IMM, I_HD LS_LDRD True HOff_REG,
      I_ALU DP_ADD False Op_REG_ROR_IMM, I_HD LS_STRD True HOff_REG] @
     [I_ALU DP_ADD True Op_REG_LSL_IMM, I_ALU DP_ADD True Op_REG_LSL_REG,
      I_ALU DP_ADD True Op_REG_LSR_IMM, I_ALU DP_ADD True Op_REG_LSR_REG,
      I_ALU DP_ADD True Op_REG_ASR_IMM, I_ALU DP_ADD True Op_REG_ASR_REG,
      I_ALU DP_ADD True Op_REG_ROR_IMM, I_ALU DP_ADD True Op_REG_ROR_REG,
      I_ALU DP_ADD True Op_REG_LSL_IMM, I_MUL M_UMULL,
      I_ALU DP_ADD True Op_REG_LSR_IMM, I_HD LS_LDRH True HOff_REG,
      I_ALU DP_ADD True Op_REG_ASR_IMM, I_HD LS_LDRSB True HOff_REG,
      I_ALU DP_ADD True Op_REG_ROR_IMM, I_HD LS_LDRSH True HOff_REG] @
     [I_ALU DP_ADC False Op_REG_LSL_IMM, I_ALU DP_ADC False Op_REG_LSL_REG,
      I_ALU DP_ADC False Op_REG_LSR_IMM, I_ALU DP_ADC False Op_REG_LSR_REG,
      I_ALU DP_ADC False Op_REG_ASR_IMM, I_ALU DP_ADC False Op_REG_ASR_REG,
      I_ALU DP_ADC False Op_REG_ROR_IMM, I_ALU DP_ADC False Op_REG_ROR_REG,
      I_ALU DP_ADC False Op_REG_LSL_IMM, I_MUL M_UMLAL,
      I_ALU DP_ADC False Op_REG_LSR_IMM, I_UNK,
      I_ALU DP_ADC False Op_REG_ASR_IMM, I_UNK,
      I_ALU DP_ADC False Op_REG_ROR_IMM, I_UNK] @
     [I_ALU DP_ADC True Op_REG_LSL_IMM, I_ALU DP_ADC True Op_REG_LSL_REG,
      I_ALU DP_ADC True Op_REG_LSR_IMM, I_ALU DP_ADC True Op_REG_LSR_REG,
      I_ALU DP_ADC True Op_REG_ASR_IMM, I_ALU DP_ADC True Op_REG_ASR_REG,
      I_ALU DP_ADC True Op_REG_ROR_IMM, I_ALU DP_ADC True Op_REG_ROR_REG,
      I_ALU DP_ADC True Op_REG_LSL_IMM, I_MUL M_UMLAL,
      I_ALU DP_ADC True Op_REG_LSR_IMM, I_UNK,
      I_ALU DP_ADC True Op_REG_ASR_IMM, I_UNK,
      I_ALU DP_ADC True Op_REG_ROR_IMM, I_UNK] @
     [I_ALU DP_SBC False Op_REG_LSL_IMM, I_ALU DP_SBC False Op_REG_LSL_REG,
      I_ALU DP_SBC False Op_REG_LSR_IMM, I_ALU DP_SBC False Op_REG_LSR_REG,
      I_ALU DP_SBC False Op_REG_ASR_IMM, I_ALU DP_SBC False Op_REG_ASR_REG,
      I_ALU DP_SBC False Op_REG_ROR_IMM, I_ALU DP_SBC False Op_REG_ROR_REG,
      I_ALU DP_SBC False Op_REG_LSL_IMM, I_MUL M_SMULL,
      I_ALU DP_SBC False Op_REG_LSR_IMM, I_HD LS_STRH True HOff_IMM,
      I_ALU DP_SBC False Op_REG_ASR_IMM, I_HD LS_LDRD True HOff_IMM,
      I_ALU DP_SBC False Op_REG_ROR_IMM, I_HD LS_STRD True HOff_IMM] @
     [I_ALU DP_SBC True Op_REG_LSL_IMM, I_ALU DP_SBC True Op_REG_LSL_REG,
      I_ALU DP_SBC True Op_REG_LSR_IMM, I_ALU DP_SBC True Op_REG_LSR_REG,
      I_ALU DP_SBC True Op_REG_ASR_IMM, I_ALU DP_SBC True Op_REG_ASR_REG,
      I_ALU DP_SBC True Op_REG_ROR_IMM, I_ALU DP_SBC True Op_REG_ROR_REG,
      I_ALU DP_SBC True Op_REG_LSL_IMM, I_MUL M_SMULL,
      I_ALU DP_SBC True Op_REG_LSR_IMM, I_HD LS_LDRH True HOff_IMM,
      I_ALU DP_SBC True Op_REG_ASR_IMM, I_HD LS_LDRSB True HOff_IMM,
      I_ALU DP_SBC True Op_REG_ROR_IMM, I_HD LS_LDRSH True HOff_IMM] @
     [I_ALU DP_RSC False Op_REG_LSL_IMM, I_ALU DP_RSC False Op_REG_LSL_REG,
      I_ALU DP_RSC False Op_REG_LSR_IMM, I_ALU DP_RSC False Op_REG_LSR_REG,
      I_ALU DP_RSC False Op_REG_ASR_IMM, I_ALU DP_RSC False Op_REG_ASR_REG,
      I_ALU DP_RSC False Op_REG_ROR_IMM, I_ALU DP_RSC False Op_REG_ROR_REG,
      I_ALU DP_RSC False Op_REG_LSL_IMM, I_MUL M_SMLAL,
      I_ALU DP_RSC False Op_REG_LSR_IMM, I_UNK,
      I_ALU DP_RSC False Op_REG_ASR_IMM, I_UNK,
      I_ALU DP_RSC False Op_REG_ROR_IMM, I_UNK] @
     [I_ALU DP_RSC True Op_REG_LSL_IMM, I_ALU DP_RSC True Op_REG_LSL_REG,
      I_ALU DP_RSC True Op_REG_LSR_IMM, I_ALU DP_RSC True Op_REG_LSR_REG,
      I_ALU DP_RSC True Op_REG_ASR_IMM, I_ALU DP_RSC True Op_REG_ASR_REG,
      I_ALU DP_RSC True Op_REG_ROR_IMM, I_ALU DP_RSC True Op_REG_ROR_REG,
      I_ALU DP_RSC True Op_REG_LSL_IMM, I_MUL M_SMLAL,
      I_ALU DP_RSC True Op_REG_LSR_IMM, I_UNK,
      I_ALU DP_RSC True Op_REG_ASR_IMM, I_UNK,
      I_ALU DP_RSC True Op_REG_ROR_IMM, I_UNK]"

definition ARMInstrTable_1 :: "instr list" where
  "ARMInstrTable_1 =
     [I_PSR P_MRS, I_UNK, I_UNK, I_UNK,
      I_UNK, I_SAT S_QADD, I_UNK, I_UNK,
      I_MUL M_SMLAxy, I_XFER X_SWP, I_MUL M_SMLAxy, I_HD LS_STRH False HOff_REG,
      I_MUL M_SMLAxy, I_HD LS_LDRD False HOff_REG, I_MUL M_SMLAxy, I_HD LS_STRD False HOff_REG] @
     [I_ALU DP_TST False Op_REG_LSL_IMM, I_ALU DP_TST False Op_REG_LSL_REG,
      I_ALU DP_TST False Op_REG_LSR_IMM, I_ALU DP_TST False Op_REG_LSR_REG,
      I_ALU DP_TST False Op_REG_ASR_IMM, I_ALU DP_TST False Op_REG_ASR_REG,
      I_ALU DP_TST False Op_REG_ROR_IMM, I_ALU DP_TST False Op_REG_ROR_REG,
      I_ALU DP_TST False Op_REG_LSL_IMM, I_UNK,
      I_ALU DP_TST False Op_REG_LSR_IMM, I_HD LS_LDRH False HOff_REG,
      I_ALU DP_TST False Op_REG_ASR_IMM, I_HD LS_LDRSB False HOff_REG,
      I_ALU DP_TST False Op_REG_ROR_IMM, I_HD LS_LDRSH False HOff_REG] @
     [I_PSR P_MSR_REG, I_BRANCH B_BX, I_UNK, I_BRANCH B_BLX_REG,
      I_UNK, I_SAT S_QSUB, I_UNK, I_UNK,
      I_MUL M_SMLAWy, I_UNK, I_MUL M_SMULWy, I_HD LS_STRH False HOff_REG,
      I_MUL M_SMLAWy, I_HD LS_LDRD False HOff_REG, I_MUL M_SMULWy, I_HD LS_STRD False HOff_REG] @
     [I_ALU DP_TEQ False Op_REG_LSL_IMM, I_ALU DP_TEQ False Op_REG_LSL_REG,
      I_ALU DP_TEQ False Op_REG_LSR_IMM, I_ALU DP_TEQ False Op_REG_LSR_REG,
      I_ALU DP_TEQ False Op_REG_ASR_IMM, I_ALU DP_TEQ False Op_REG_ASR_REG,
      I_ALU DP_TEQ False Op_REG_ROR_IMM, I_ALU DP_TEQ False Op_REG_ROR_REG,
      I_ALU DP_TEQ False Op_REG_LSL_IMM, I_UNK,
      I_ALU DP_TEQ False Op_REG_LSR_IMM, I_HD LS_LDRH False HOff_REG,
      I_ALU DP_TEQ False Op_REG_ASR_IMM, I_HD LS_LDRSB False HOff_REG,
      I_ALU DP_TEQ False Op_REG_ROR_IMM, I_HD LS_LDRSH False HOff_REG] @
     [I_PSR P_MRS, I_UNK, I_UNK, I_UNK,
      I_UNK, I_SAT S_QDADD, I_UNK, I_UNK,
      I_MUL M_SMLALxy, I_XFER X_SWPB, I_MUL M_SMLALxy, I_HD LS_STRH False HOff_IMM,
      I_MUL M_SMLALxy, I_HD LS_LDRD False HOff_IMM, I_MUL M_SMLALxy, I_HD LS_STRD False HOff_IMM] @
     [I_ALU DP_CMP False Op_REG_LSL_IMM, I_ALU DP_CMP False Op_REG_LSL_REG,
      I_ALU DP_CMP False Op_REG_LSR_IMM, I_ALU DP_CMP False Op_REG_LSR_REG,
      I_ALU DP_CMP False Op_REG_ASR_IMM, I_ALU DP_CMP False Op_REG_ASR_REG,
      I_ALU DP_CMP False Op_REG_ROR_IMM, I_ALU DP_CMP False Op_REG_ROR_REG,
      I_ALU DP_CMP False Op_REG_LSL_IMM, I_UNK,
      I_ALU DP_CMP False Op_REG_LSR_IMM, I_HD LS_LDRH False HOff_IMM,
      I_ALU DP_CMP False Op_REG_ASR_IMM, I_HD LS_LDRSB False HOff_IMM,
      I_ALU DP_CMP False Op_REG_ROR_IMM, I_HD LS_LDRSH False HOff_IMM] @
     [I_PSR P_MSR_REG, I_SAT S_CLZ, I_UNK, I_UNK,
      I_UNK, I_SAT S_QDSUB, I_UNK, I_UNK,
      I_MUL M_SMULxy, I_UNK, I_MUL M_SMULxy, I_HD LS_STRH False HOff_IMM,
      I_MUL M_SMULxy, I_HD LS_LDRD False HOff_IMM, I_MUL M_SMULxy, I_HD LS_STRD False HOff_IMM] @
     [I_ALU DP_CMN False Op_REG_LSL_IMM, I_ALU DP_CMN False Op_REG_LSL_REG,
      I_ALU DP_CMN False Op_REG_LSR_IMM, I_ALU DP_CMN False Op_REG_LSR_REG,
      I_ALU DP_CMN False Op_REG_ASR_IMM, I_ALU DP_CMN False Op_REG_ASR_REG,
      I_ALU DP_CMN False Op_REG_ROR_IMM, I_ALU DP_CMN False Op_REG_ROR_REG,
      I_ALU DP_CMN False Op_REG_LSL_IMM, I_UNK,
      I_ALU DP_CMN False Op_REG_LSR_IMM, I_HD LS_LDRH False HOff_IMM,
      I_ALU DP_CMN False Op_REG_ASR_IMM, I_HD LS_LDRSB False HOff_IMM,
      I_ALU DP_CMN False Op_REG_ROR_IMM, I_HD LS_LDRSH False HOff_IMM] @
     [I_ALU DP_ORR False Op_REG_LSL_IMM, I_ALU DP_ORR False Op_REG_LSL_REG,
      I_ALU DP_ORR False Op_REG_LSR_IMM, I_ALU DP_ORR False Op_REG_LSR_REG,
      I_ALU DP_ORR False Op_REG_ASR_IMM, I_ALU DP_ORR False Op_REG_ASR_REG,
      I_ALU DP_ORR False Op_REG_ROR_IMM, I_ALU DP_ORR False Op_REG_ROR_REG,
      I_ALU DP_ORR False Op_REG_LSL_IMM, I_UNK,
      I_ALU DP_ORR False Op_REG_LSR_IMM, I_HD LS_STRH False HOff_REG,
      I_ALU DP_ORR False Op_REG_ASR_IMM, I_HD LS_LDRD False HOff_REG,
      I_ALU DP_ORR False Op_REG_ROR_IMM, I_HD LS_STRD False HOff_REG] @
     [I_ALU DP_ORR True Op_REG_LSL_IMM, I_ALU DP_ORR True Op_REG_LSL_REG,
      I_ALU DP_ORR True Op_REG_LSR_IMM, I_ALU DP_ORR True Op_REG_LSR_REG,
      I_ALU DP_ORR True Op_REG_ASR_IMM, I_ALU DP_ORR True Op_REG_ASR_REG,
      I_ALU DP_ORR True Op_REG_ROR_IMM, I_ALU DP_ORR True Op_REG_ROR_REG,
      I_ALU DP_ORR True Op_REG_LSL_IMM, I_UNK,
      I_ALU DP_ORR True Op_REG_LSR_IMM, I_HD LS_LDRH False HOff_REG,
      I_ALU DP_ORR True Op_REG_ASR_IMM, I_HD LS_LDRSB False HOff_REG,
      I_ALU DP_ORR True Op_REG_ROR_IMM, I_HD LS_LDRSH False HOff_REG] @
     [I_MOV_DBG, I_ALU DP_MOV False Op_REG_LSL_REG, I_ALU DP_MOV False Op_REG_LSR_IMM, I_ALU DP_MOV False Op_REG_LSR_REG,
      I_ALU DP_MOV False Op_REG_ASR_IMM, I_ALU DP_MOV False Op_REG_ASR_REG, I_ALU DP_MOV False Op_REG_ROR_IMM, I_ALU DP_MOV False Op_REG_ROR_REG,
      I_ALU DP_MOV False Op_REG_LSL_IMM, I_UNK, I_ALU DP_MOV False Op_REG_LSR_IMM, I_HD LS_STRH False HOff_REG,
      I_ALU DP_MOV False Op_REG_ASR_IMM, I_HD LS_LDRD False HOff_REG, I_ALU DP_MOV False Op_REG_ROR_IMM, I_HD LS_STRD False HOff_REG] @
     [I_ALU DP_MOV True Op_REG_LSL_IMM, I_ALU DP_MOV True Op_REG_LSL_REG,
      I_ALU DP_MOV True Op_REG_LSR_IMM, I_ALU DP_MOV True Op_REG_LSR_REG,
      I_ALU DP_MOV True Op_REG_ASR_IMM, I_ALU DP_MOV True Op_REG_ASR_REG,
      I_ALU DP_MOV True Op_REG_ROR_IMM, I_ALU DP_MOV True Op_REG_ROR_REG,
      I_ALU DP_MOV True Op_REG_LSL_IMM, I_UNK,
      I_ALU DP_MOV True Op_REG_LSR_IMM, I_HD LS_LDRH False HOff_REG,
      I_ALU DP_MOV True Op_REG_ASR_IMM, I_HD LS_LDRSB False HOff_REG,
      I_ALU DP_MOV True Op_REG_ROR_IMM, I_HD LS_LDRSH False HOff_REG] @
     [I_ALU DP_BIC False Op_REG_LSL_IMM, I_ALU DP_BIC False Op_REG_LSL_REG,
      I_ALU DP_BIC False Op_REG_LSR_IMM, I_ALU DP_BIC False Op_REG_LSR_REG,
      I_ALU DP_BIC False Op_REG_ASR_IMM, I_ALU DP_BIC False Op_REG_ASR_REG,
      I_ALU DP_BIC False Op_REG_ROR_IMM, I_ALU DP_BIC False Op_REG_ROR_REG,
      I_ALU DP_BIC False Op_REG_LSL_IMM, I_UNK,
      I_ALU DP_BIC False Op_REG_LSR_IMM, I_HD LS_STRH False HOff_IMM,
      I_ALU DP_BIC False Op_REG_ASR_IMM, I_HD LS_LDRD False HOff_IMM,
      I_ALU DP_BIC False Op_REG_ROR_IMM, I_HD LS_STRD False HOff_IMM] @
     [I_ALU DP_BIC True Op_REG_LSL_IMM, I_ALU DP_BIC True Op_REG_LSL_REG,
      I_ALU DP_BIC True Op_REG_LSR_IMM, I_ALU DP_BIC True Op_REG_LSR_REG,
      I_ALU DP_BIC True Op_REG_ASR_IMM, I_ALU DP_BIC True Op_REG_ASR_REG,
      I_ALU DP_BIC True Op_REG_ROR_IMM, I_ALU DP_BIC True Op_REG_ROR_REG,
      I_ALU DP_BIC True Op_REG_LSL_IMM, I_UNK,
      I_ALU DP_BIC True Op_REG_LSR_IMM, I_HD LS_LDRH False HOff_IMM,
      I_ALU DP_BIC True Op_REG_ASR_IMM, I_HD LS_LDRSB False HOff_IMM,
      I_ALU DP_BIC True Op_REG_ROR_IMM, I_HD LS_LDRSH False HOff_IMM] @
     [I_ALU DP_MVN False Op_REG_LSL_IMM, I_ALU DP_MVN False Op_REG_LSL_REG,
      I_ALU DP_MVN False Op_REG_LSR_IMM, I_ALU DP_MVN False Op_REG_LSR_REG,
      I_ALU DP_MVN False Op_REG_ASR_IMM, I_ALU DP_MVN False Op_REG_ASR_REG,
      I_ALU DP_MVN False Op_REG_ROR_IMM, I_ALU DP_MVN False Op_REG_ROR_REG,
      I_ALU DP_MVN False Op_REG_LSL_IMM, I_UNK,
      I_ALU DP_MVN False Op_REG_LSR_IMM, I_HD LS_STRH False HOff_IMM,
      I_ALU DP_MVN False Op_REG_ASR_IMM, I_HD LS_LDRD False HOff_IMM,
      I_ALU DP_MVN False Op_REG_ROR_IMM, I_HD LS_STRD False HOff_IMM] @
     [I_ALU DP_MVN True Op_REG_LSL_IMM, I_ALU DP_MVN True Op_REG_LSL_REG,
      I_ALU DP_MVN True Op_REG_LSR_IMM, I_ALU DP_MVN True Op_REG_LSR_REG,
      I_ALU DP_MVN True Op_REG_ASR_IMM, I_ALU DP_MVN True Op_REG_ASR_REG,
      I_ALU DP_MVN True Op_REG_ROR_IMM, I_ALU DP_MVN True Op_REG_ROR_REG,
      I_ALU DP_MVN True Op_REG_LSL_IMM, I_UNK,
      I_ALU DP_MVN True Op_REG_LSR_IMM, I_HD LS_LDRH False HOff_IMM,
      I_ALU DP_MVN True Op_REG_ASR_IMM, I_HD LS_LDRSB False HOff_IMM,
      I_ALU DP_MVN True Op_REG_ROR_IMM, I_HD LS_LDRSH False HOff_IMM]"

definition ARMInstrTable_2 :: "instr list" where
  "ARMInstrTable_2 =
     replicate 16 (I_ALU DP_AND False Op_IMM) @
     replicate 16 (I_ALU DP_AND True Op_IMM) @
     replicate 16 (I_ALU DP_EOR False Op_IMM) @
     replicate 16 (I_ALU DP_EOR True Op_IMM) @
     replicate 16 (I_ALU DP_SUB False Op_IMM) @
     replicate 16 (I_ALU DP_SUB True Op_IMM) @
     replicate 16 (I_ALU DP_RSB False Op_IMM) @
     replicate 16 (I_ALU DP_RSB True Op_IMM) @
     replicate 16 (I_ALU DP_ADD False Op_IMM) @
     replicate 16 (I_ALU DP_ADD True Op_IMM) @
     replicate 16 (I_ALU DP_ADC False Op_IMM) @
     replicate 16 (I_ALU DP_ADC True Op_IMM) @
     replicate 16 (I_ALU DP_SBC False Op_IMM) @
     replicate 16 (I_ALU DP_SBC True Op_IMM) @
     replicate 16 (I_ALU DP_RSC False Op_IMM) @
     replicate 16 (I_ALU DP_RSC True Op_IMM)"

definition ARMInstrTable_3 :: "instr list" where
  "ARMInstrTable_3 =
     replicate 16 I_UNK @
     replicate 16 (I_ALU DP_TST False Op_IMM) @
     replicate 16 (I_PSR P_MSR_IMM) @
     replicate 16 (I_ALU DP_TEQ False Op_IMM) @
     replicate 16 I_UNK @
     replicate 16 (I_ALU DP_CMP False Op_IMM) @
     replicate 16 (I_PSR P_MSR_IMM) @
     replicate 16 (I_ALU DP_CMN False Op_IMM) @
     replicate 16 (I_ALU DP_ORR False Op_IMM) @
     replicate 16 (I_ALU DP_ORR True Op_IMM) @
     replicate 16 (I_ALU DP_MOV False Op_IMM) @
     replicate 16 (I_ALU DP_MOV True Op_IMM) @
     replicate 16 (I_ALU DP_BIC False Op_IMM) @
     replicate 16 (I_ALU DP_BIC True Op_IMM) @
     replicate 16 (I_ALU DP_MVN False Op_IMM) @
     replicate 16 (I_ALU DP_MVN True Op_IMM)"

definition ARMInstrTable_4 :: "instr list" where
  "ARMInstrTable_4 =
     replicate 16 (I_WB LS_STR True Off_IMM) @
     replicate 16 (I_WB LS_LDR True Off_IMM) @
     replicate 16 (I_WB LS_STR True Off_IMM) @
     replicate 16 (I_WB LS_LDR True Off_IMM) @
     replicate 16 (I_WB LS_STRB True Off_IMM) @
     replicate 16 (I_WB LS_LDRB True Off_IMM) @
     replicate 16 (I_WB LS_STRB True Off_IMM) @
     replicate 16 (I_WB LS_LDRB True Off_IMM) @
     replicate 16 (I_WB LS_STR True Off_IMM) @
     replicate 16 (I_WB LS_LDR True Off_IMM) @
     replicate 16 (I_WB LS_STR True Off_IMM) @
     replicate 16 (I_WB LS_LDR True Off_IMM) @
     replicate 16 (I_WB LS_STRB True Off_IMM) @
     replicate 16 (I_WB LS_LDRB True Off_IMM) @
     replicate 16 (I_WB LS_STRB True Off_IMM) @
     replicate 16 (I_WB LS_LDRB True Off_IMM)"

definition ARMInstrTable_5 :: "instr list" where
  "ARMInstrTable_5 =
     replicate 16 (I_WB LS_STR False Off_IMM) @
     replicate 16 (I_WB LS_LDR False Off_IMM) @
     replicate 16 (I_WB LS_STR False Off_IMM) @
     replicate 16 (I_WB LS_LDR False Off_IMM) @
     replicate 16 (I_WB LS_STRB False Off_IMM) @
     replicate 16 (I_WB LS_LDRB False Off_IMM) @
     replicate 16 (I_WB LS_STRB False Off_IMM) @
     replicate 16 (I_WB LS_LDRB False Off_IMM) @
     replicate 16 (I_WB LS_STR False Off_IMM) @
     replicate 16 (I_WB LS_LDR False Off_IMM) @
     replicate 16 (I_WB LS_STR False Off_IMM) @
     replicate 16 (I_WB LS_LDR False Off_IMM) @
     replicate 16 (I_WB LS_STRB False Off_IMM) @
     replicate 16 (I_WB LS_LDRB False Off_IMM) @
     replicate 16 (I_WB LS_STRB False Off_IMM) @
     replicate 16 (I_WB LS_LDRB False Off_IMM)"

definition ARMInstrTable_6 :: "instr list" where
  "ARMInstrTable_6 =
     [I_WB LS_STR True Off_REG_LSL, I_UNK,
      I_WB LS_STR True Off_REG_LSR, I_UNK,
      I_WB LS_STR True Off_REG_ASR, I_UNK,
      I_WB LS_STR True Off_REG_ROR, I_UNK,
      I_WB LS_STR True Off_REG_LSL, I_UNK,
      I_WB LS_STR True Off_REG_LSR, I_UNK,
      I_WB LS_STR True Off_REG_ASR, I_UNK,
      I_WB LS_STR True Off_REG_ROR, I_UNK] @
     [I_WB LS_LDR True Off_REG_LSL, I_UNK,
      I_WB LS_LDR True Off_REG_LSR, I_UNK,
      I_WB LS_LDR True Off_REG_ASR, I_UNK,
      I_WB LS_LDR True Off_REG_ROR, I_UNK,
      I_WB LS_LDR True Off_REG_LSL, I_UNK,
      I_WB LS_LDR True Off_REG_LSR, I_UNK,
      I_WB LS_LDR True Off_REG_ASR, I_UNK,
      I_WB LS_LDR True Off_REG_ROR, I_UNK] @
     [I_WB LS_STR True Off_REG_LSL, I_UNK,
      I_WB LS_STR True Off_REG_LSR, I_UNK,
      I_WB LS_STR True Off_REG_ASR, I_UNK,
      I_WB LS_STR True Off_REG_ROR, I_UNK,
      I_WB LS_STR True Off_REG_LSL, I_UNK,
      I_WB LS_STR True Off_REG_LSR, I_UNK,
      I_WB LS_STR True Off_REG_ASR, I_UNK,
      I_WB LS_STR True Off_REG_ROR, I_UNK] @
     [I_WB LS_LDR True Off_REG_LSL, I_UNK,
      I_WB LS_LDR True Off_REG_LSR, I_UNK,
      I_WB LS_LDR True Off_REG_ASR, I_UNK,
      I_WB LS_LDR True Off_REG_ROR, I_UNK,
      I_WB LS_LDR True Off_REG_LSL, I_UNK,
      I_WB LS_LDR True Off_REG_LSR, I_UNK,
      I_WB LS_LDR True Off_REG_ASR, I_UNK,
      I_WB LS_LDR True Off_REG_ROR, I_UNK] @
     [I_WB LS_STRB True Off_REG_LSL, I_UNK,
      I_WB LS_STRB True Off_REG_LSR, I_UNK,
      I_WB LS_STRB True Off_REG_ASR, I_UNK,
      I_WB LS_STRB True Off_REG_ROR, I_UNK,
      I_WB LS_STRB True Off_REG_LSL, I_UNK,
      I_WB LS_STRB True Off_REG_LSR, I_UNK,
      I_WB LS_STRB True Off_REG_ASR, I_UNK,
      I_WB LS_STRB True Off_REG_ROR, I_UNK] @
     [I_WB LS_LDRB True Off_REG_LSL, I_UNK,
      I_WB LS_LDRB True Off_REG_LSR, I_UNK,
      I_WB LS_LDRB True Off_REG_ASR, I_UNK,
      I_WB LS_LDRB True Off_REG_ROR, I_UNK,
      I_WB LS_LDRB True Off_REG_LSL, I_UNK,
      I_WB LS_LDRB True Off_REG_LSR, I_UNK,
      I_WB LS_LDRB True Off_REG_ASR, I_UNK,
      I_WB LS_LDRB True Off_REG_ROR, I_UNK] @
     [I_WB LS_STRB True Off_REG_LSL, I_UNK,
      I_WB LS_STRB True Off_REG_LSR, I_UNK,
      I_WB LS_STRB True Off_REG_ASR, I_UNK,
      I_WB LS_STRB True Off_REG_ROR, I_UNK,
      I_WB LS_STRB True Off_REG_LSL, I_UNK,
      I_WB LS_STRB True Off_REG_LSR, I_UNK,
      I_WB LS_STRB True Off_REG_ASR, I_UNK,
      I_WB LS_STRB True Off_REG_ROR, I_UNK] @
     [I_WB LS_LDRB True Off_REG_LSL, I_UNK,
      I_WB LS_LDRB True Off_REG_LSR, I_UNK,
      I_WB LS_LDRB True Off_REG_ASR, I_UNK,
      I_WB LS_LDRB True Off_REG_ROR, I_UNK,
      I_WB LS_LDRB True Off_REG_LSL, I_UNK,
      I_WB LS_LDRB True Off_REG_LSR, I_UNK,
      I_WB LS_LDRB True Off_REG_ASR, I_UNK,
      I_WB LS_LDRB True Off_REG_ROR, I_UNK] @
     [I_WB LS_STR True Off_REG_LSL, I_UNK,
      I_WB LS_STR True Off_REG_LSR, I_UNK,
      I_WB LS_STR True Off_REG_ASR, I_UNK,
      I_WB LS_STR True Off_REG_ROR, I_UNK,
      I_WB LS_STR True Off_REG_LSL, I_UNK,
      I_WB LS_STR True Off_REG_LSR, I_UNK,
      I_WB LS_STR True Off_REG_ASR, I_UNK,
      I_WB LS_STR True Off_REG_ROR, I_UNK] @
     [I_WB LS_LDR True Off_REG_LSL, I_UNK,
      I_WB LS_LDR True Off_REG_LSR, I_UNK,
      I_WB LS_LDR True Off_REG_ASR, I_UNK,
      I_WB LS_LDR True Off_REG_ROR, I_UNK,
      I_WB LS_LDR True Off_REG_LSL, I_UNK,
      I_WB LS_LDR True Off_REG_LSR, I_UNK,
      I_WB LS_LDR True Off_REG_ASR, I_UNK,
      I_WB LS_LDR True Off_REG_ROR, I_UNK] @
     [I_WB LS_STR True Off_REG_LSL, I_UNK,
      I_WB LS_STR True Off_REG_LSR, I_UNK,
      I_WB LS_STR True Off_REG_ASR, I_UNK,
      I_WB LS_STR True Off_REG_ROR, I_UNK,
      I_WB LS_STR True Off_REG_LSL, I_UNK,
      I_WB LS_STR True Off_REG_LSR, I_UNK,
      I_WB LS_STR True Off_REG_ASR, I_UNK,
      I_WB LS_STR True Off_REG_ROR, I_UNK] @
     [I_WB LS_LDR True Off_REG_LSL, I_UNK,
      I_WB LS_LDR True Off_REG_LSR, I_UNK,
      I_WB LS_LDR True Off_REG_ASR, I_UNK,
      I_WB LS_LDR True Off_REG_ROR, I_UNK,
      I_WB LS_LDR True Off_REG_LSL, I_UNK,
      I_WB LS_LDR True Off_REG_LSR, I_UNK,
      I_WB LS_LDR True Off_REG_ASR, I_UNK,
      I_WB LS_LDR True Off_REG_ROR, I_UNK] @
     [I_WB LS_STRB True Off_REG_LSL, I_UNK,
      I_WB LS_STRB True Off_REG_LSR, I_UNK,
      I_WB LS_STRB True Off_REG_ASR, I_UNK,
      I_WB LS_STRB True Off_REG_ROR, I_UNK,
      I_WB LS_STRB True Off_REG_LSL, I_UNK,
      I_WB LS_STRB True Off_REG_LSR, I_UNK,
      I_WB LS_STRB True Off_REG_ASR, I_UNK,
      I_WB LS_STRB True Off_REG_ROR, I_UNK] @
     [I_WB LS_LDRB True Off_REG_LSL, I_UNK,
      I_WB LS_LDRB True Off_REG_LSR, I_UNK,
      I_WB LS_LDRB True Off_REG_ASR, I_UNK,
      I_WB LS_LDRB True Off_REG_ROR, I_UNK,
      I_WB LS_LDRB True Off_REG_LSL, I_UNK,
      I_WB LS_LDRB True Off_REG_LSR, I_UNK,
      I_WB LS_LDRB True Off_REG_ASR, I_UNK,
      I_WB LS_LDRB True Off_REG_ROR, I_UNK] @
     [I_WB LS_STRB True Off_REG_LSL, I_UNK,
      I_WB LS_STRB True Off_REG_LSR, I_UNK,
      I_WB LS_STRB True Off_REG_ASR, I_UNK,
      I_WB LS_STRB True Off_REG_ROR, I_UNK,
      I_WB LS_STRB True Off_REG_LSL, I_UNK,
      I_WB LS_STRB True Off_REG_LSR, I_UNK,
      I_WB LS_STRB True Off_REG_ASR, I_UNK,
      I_WB LS_STRB True Off_REG_ROR, I_UNK] @
     [I_WB LS_LDRB True Off_REG_LSL, I_UNK,
      I_WB LS_LDRB True Off_REG_LSR, I_UNK,
      I_WB LS_LDRB True Off_REG_ASR, I_UNK,
      I_WB LS_LDRB True Off_REG_ROR, I_UNK,
      I_WB LS_LDRB True Off_REG_LSL, I_UNK,
      I_WB LS_LDRB True Off_REG_LSR, I_UNK,
      I_WB LS_LDRB True Off_REG_ASR, I_UNK,
      I_WB LS_LDRB True Off_REG_ROR, I_UNK]"

definition ARMInstrTable_7 :: "instr list" where
  "ARMInstrTable_7 =
     [I_WB LS_STR False Off_REG_LSL, I_UNK,
      I_WB LS_STR False Off_REG_LSR, I_UNK,
      I_WB LS_STR False Off_REG_ASR, I_UNK,
      I_WB LS_STR False Off_REG_ROR, I_UNK,
      I_WB LS_STR False Off_REG_LSL, I_UNK,
      I_WB LS_STR False Off_REG_LSR, I_UNK,
      I_WB LS_STR False Off_REG_ASR, I_UNK,
      I_WB LS_STR False Off_REG_ROR, I_UNK] @
     [I_WB LS_LDR False Off_REG_LSL, I_UNK,
      I_WB LS_LDR False Off_REG_LSR, I_UNK,
      I_WB LS_LDR False Off_REG_ASR, I_UNK,
      I_WB LS_LDR False Off_REG_ROR, I_UNK,
      I_WB LS_LDR False Off_REG_LSL, I_UNK,
      I_WB LS_LDR False Off_REG_LSR, I_UNK,
      I_WB LS_LDR False Off_REG_ASR, I_UNK,
      I_WB LS_LDR False Off_REG_ROR, I_UNK] @
     [I_WB LS_STR False Off_REG_LSL, I_UNK,
      I_WB LS_STR False Off_REG_LSR, I_UNK,
      I_WB LS_STR False Off_REG_ASR, I_UNK,
      I_WB LS_STR False Off_REG_ROR, I_UNK,
      I_WB LS_STR False Off_REG_LSL, I_UNK,
      I_WB LS_STR False Off_REG_LSR, I_UNK,
      I_WB LS_STR False Off_REG_ASR, I_UNK,
      I_WB LS_STR False Off_REG_ROR, I_UNK] @
     [I_WB LS_LDR False Off_REG_LSL, I_UNK,
      I_WB LS_LDR False Off_REG_LSR, I_UNK,
      I_WB LS_LDR False Off_REG_ASR, I_UNK,
      I_WB LS_LDR False Off_REG_ROR, I_UNK,
      I_WB LS_LDR False Off_REG_LSL, I_UNK,
      I_WB LS_LDR False Off_REG_LSR, I_UNK,
      I_WB LS_LDR False Off_REG_ASR, I_UNK,
      I_WB LS_LDR False Off_REG_ROR, I_UNK] @
     [I_WB LS_STRB False Off_REG_LSL, I_UNK,
      I_WB LS_STRB False Off_REG_LSR, I_UNK,
      I_WB LS_STRB False Off_REG_ASR, I_UNK,
      I_WB LS_STRB False Off_REG_ROR, I_UNK,
      I_WB LS_STRB False Off_REG_LSL, I_UNK,
      I_WB LS_STRB False Off_REG_LSR, I_UNK,
      I_WB LS_STRB False Off_REG_ASR, I_UNK,
      I_WB LS_STRB False Off_REG_ROR, I_UNK] @
     [I_WB LS_LDRB False Off_REG_LSL, I_UNK,
      I_WB LS_LDRB False Off_REG_LSR, I_UNK,
      I_WB LS_LDRB False Off_REG_ASR, I_UNK,
      I_WB LS_LDRB False Off_REG_ROR, I_UNK,
      I_WB LS_LDRB False Off_REG_LSL, I_UNK,
      I_WB LS_LDRB False Off_REG_LSR, I_UNK,
      I_WB LS_LDRB False Off_REG_ASR, I_UNK,
      I_WB LS_LDRB False Off_REG_ROR, I_UNK] @
     [I_WB LS_STRB False Off_REG_LSL, I_UNK,
      I_WB LS_STRB False Off_REG_LSR, I_UNK,
      I_WB LS_STRB False Off_REG_ASR, I_UNK,
      I_WB LS_STRB False Off_REG_ROR, I_UNK,
      I_WB LS_STRB False Off_REG_LSL, I_UNK,
      I_WB LS_STRB False Off_REG_LSR, I_UNK,
      I_WB LS_STRB False Off_REG_ASR, I_UNK,
      I_WB LS_STRB False Off_REG_ROR, I_UNK] @
     [I_WB LS_LDRB False Off_REG_LSL, I_UNK,
      I_WB LS_LDRB False Off_REG_LSR, I_UNK,
      I_WB LS_LDRB False Off_REG_ASR, I_UNK,
      I_WB LS_LDRB False Off_REG_ROR, I_UNK,
      I_WB LS_LDRB False Off_REG_LSL, I_UNK,
      I_WB LS_LDRB False Off_REG_LSR, I_UNK,
      I_WB LS_LDRB False Off_REG_ASR, I_UNK,
      I_WB LS_LDRB False Off_REG_ROR, I_UNK] @
     [I_WB LS_STR False Off_REG_LSL, I_UNK,
      I_WB LS_STR False Off_REG_LSR, I_UNK,
      I_WB LS_STR False Off_REG_ASR, I_UNK,
      I_WB LS_STR False Off_REG_ROR, I_UNK,
      I_WB LS_STR False Off_REG_LSL, I_UNK,
      I_WB LS_STR False Off_REG_LSR, I_UNK,
      I_WB LS_STR False Off_REG_ASR, I_UNK,
      I_WB LS_STR False Off_REG_ROR, I_UNK] @
     [I_WB LS_LDR False Off_REG_LSL, I_UNK,
      I_WB LS_LDR False Off_REG_LSR, I_UNK,
      I_WB LS_LDR False Off_REG_ASR, I_UNK,
      I_WB LS_LDR False Off_REG_ROR, I_UNK,
      I_WB LS_LDR False Off_REG_LSL, I_UNK,
      I_WB LS_LDR False Off_REG_LSR, I_UNK,
      I_WB LS_LDR False Off_REG_ASR, I_UNK,
      I_WB LS_LDR False Off_REG_ROR, I_UNK] @
     [I_WB LS_STR False Off_REG_LSL, I_UNK,
      I_WB LS_STR False Off_REG_LSR, I_UNK,
      I_WB LS_STR False Off_REG_ASR, I_UNK,
      I_WB LS_STR False Off_REG_ROR, I_UNK,
      I_WB LS_STR False Off_REG_LSL, I_UNK,
      I_WB LS_STR False Off_REG_LSR, I_UNK,
      I_WB LS_STR False Off_REG_ASR, I_UNK,
      I_WB LS_STR False Off_REG_ROR, I_UNK] @
     [I_WB LS_LDR False Off_REG_LSL, I_UNK,
      I_WB LS_LDR False Off_REG_LSR, I_UNK,
      I_WB LS_LDR False Off_REG_ASR, I_UNK,
      I_WB LS_LDR False Off_REG_ROR, I_UNK,
      I_WB LS_LDR False Off_REG_LSL, I_UNK,
      I_WB LS_LDR False Off_REG_LSR, I_UNK,
      I_WB LS_LDR False Off_REG_ASR, I_UNK,
      I_WB LS_LDR False Off_REG_ROR, I_UNK] @
     [I_WB LS_STRB False Off_REG_LSL, I_UNK,
      I_WB LS_STRB False Off_REG_LSR, I_UNK,
      I_WB LS_STRB False Off_REG_ASR, I_UNK,
      I_WB LS_STRB False Off_REG_ROR, I_UNK,
      I_WB LS_STRB False Off_REG_LSL, I_UNK,
      I_WB LS_STRB False Off_REG_LSR, I_UNK,
      I_WB LS_STRB False Off_REG_ASR, I_UNK,
      I_WB LS_STRB False Off_REG_ROR, I_UNK] @
     [I_WB LS_LDRB False Off_REG_LSL, I_UNK,
      I_WB LS_LDRB False Off_REG_LSR, I_UNK,
      I_WB LS_LDRB False Off_REG_ASR, I_UNK,
      I_WB LS_LDRB False Off_REG_ROR, I_UNK,
      I_WB LS_LDRB False Off_REG_LSL, I_UNK,
      I_WB LS_LDRB False Off_REG_LSR, I_UNK,
      I_WB LS_LDRB False Off_REG_ASR, I_UNK,
      I_WB LS_LDRB False Off_REG_ROR, I_UNK] @
     [I_WB LS_STRB False Off_REG_LSL, I_UNK,
      I_WB LS_STRB False Off_REG_LSR, I_UNK,
      I_WB LS_STRB False Off_REG_ASR, I_UNK,
      I_WB LS_STRB False Off_REG_ROR, I_UNK,
      I_WB LS_STRB False Off_REG_LSL, I_UNK,
      I_WB LS_STRB False Off_REG_LSR, I_UNK,
      I_WB LS_STRB False Off_REG_ASR, I_UNK,
      I_WB LS_STRB False Off_REG_ROR, I_UNK] @
     [I_WB LS_LDRB False Off_REG_LSL, I_UNK,
      I_WB LS_LDRB False Off_REG_LSR, I_UNK,
      I_WB LS_LDRB False Off_REG_ASR, I_UNK,
      I_WB LS_LDRB False Off_REG_ROR, I_UNK,
      I_WB LS_LDRB False Off_REG_LSL, I_UNK,
      I_WB LS_LDRB False Off_REG_LSR, I_UNK,
      I_WB LS_LDRB False Off_REG_ASR, I_UNK,
      I_WB LS_LDRB False Off_REG_ROR, I_UNK]"

definition ARMInstrTable_8 :: "instr list" where
  "ARMInstrTable_8 =
     replicate 16 (I_XFER X_STM) @
     replicate 16 (I_XFER X_LDM) @
     replicate 16 (I_XFER X_STM) @
     replicate 16 (I_XFER X_LDM) @
     replicate 16 (I_XFER X_STM) @
     replicate 16 (I_XFER X_LDM) @
     replicate 16 (I_XFER X_STM) @
     replicate 16 (I_XFER X_LDM) @
     replicate 16 (I_XFER X_STM) @
     replicate 16 (I_XFER X_LDM) @
     replicate 16 (I_XFER X_STM) @
     replicate 16 (I_XFER X_LDM) @
     replicate 16 (I_XFER X_STM) @
     replicate 16 (I_XFER X_LDM) @
     replicate 16 (I_XFER X_STM) @
     replicate 16 (I_XFER X_LDM)"

definition ARMInstrTable_9 :: "instr list" where
  "ARMInstrTable_9 =
     replicate 16 (I_XFER X_STM) @
     replicate 16 (I_XFER X_LDM) @
     replicate 16 (I_XFER X_STM) @
     replicate 16 (I_XFER X_LDM) @
     replicate 16 (I_XFER X_STM) @
     replicate 16 (I_XFER X_LDM) @
     replicate 16 (I_XFER X_STM) @
     replicate 16 (I_XFER X_LDM) @
     replicate 16 (I_XFER X_STM) @
     replicate 16 (I_XFER X_LDM) @
     replicate 16 (I_XFER X_STM) @
     replicate 16 (I_XFER X_LDM) @
     replicate 16 (I_XFER X_STM) @
     replicate 16 (I_XFER X_LDM) @
     replicate 16 (I_XFER X_STM) @
     replicate 16 (I_XFER X_LDM)"

definition ARMInstrTable_A :: "instr list" where
  "ARMInstrTable_A =
     replicate 16 (I_BRANCH B_B) @
     replicate 16 (I_BRANCH B_B) @
     replicate 16 (I_BRANCH B_B) @
     replicate 16 (I_BRANCH B_B) @
     replicate 16 (I_BRANCH B_B) @
     replicate 16 (I_BRANCH B_B) @
     replicate 16 (I_BRANCH B_B) @
     replicate 16 (I_BRANCH B_B) @
     replicate 16 (I_BRANCH B_B) @
     replicate 16 (I_BRANCH B_B) @
     replicate 16 (I_BRANCH B_B) @
     replicate 16 (I_BRANCH B_B) @
     replicate 16 (I_BRANCH B_B) @
     replicate 16 (I_BRANCH B_B) @
     replicate 16 (I_BRANCH B_B) @
     replicate 16 (I_BRANCH B_B)"

definition ARMInstrTable_B :: "instr list" where
  "ARMInstrTable_B =
     replicate 16 (I_BRANCH B_BL) @
     replicate 16 (I_BRANCH B_BL) @
     replicate 16 (I_BRANCH B_BL) @
     replicate 16 (I_BRANCH B_BL) @
     replicate 16 (I_BRANCH B_BL) @
     replicate 16 (I_BRANCH B_BL) @
     replicate 16 (I_BRANCH B_BL) @
     replicate 16 (I_BRANCH B_BL) @
     replicate 16 (I_BRANCH B_BL) @
     replicate 16 (I_BRANCH B_BL) @
     replicate 16 (I_BRANCH B_BL) @
     replicate 16 (I_BRANCH B_BL) @
     replicate 16 (I_BRANCH B_BL) @
     replicate 16 (I_BRANCH B_BL) @
     replicate 16 (I_BRANCH B_BL) @
     replicate 16 (I_BRANCH B_BL)"

definition ARMInstrTable_C :: "instr list" where
  "ARMInstrTable_C =
     replicate 16 I_UNK @
     replicate 16 I_UNK @
     replicate 16 I_UNK @
     replicate 16 I_UNK @
     replicate 16 I_UNK @
     replicate 16 I_UNK @
     replicate 16 I_UNK @
     replicate 16 I_UNK @
     replicate 16 I_UNK @
     replicate 16 I_UNK @
     replicate 16 I_UNK @
     replicate 16 I_UNK @
     replicate 16 I_UNK @
     replicate 16 I_UNK @
     replicate 16 I_UNK @
     replicate 16 I_UNK"

definition ARMInstrTable_D :: "instr list" where
  "ARMInstrTable_D =
     replicate 16 I_UNK @
     replicate 16 I_UNK @
     replicate 16 I_UNK @
     replicate 16 I_UNK @
     replicate 16 I_UNK @
     replicate 16 I_UNK @
     replicate 16 I_UNK @
     replicate 16 I_UNK @
     replicate 16 I_UNK @
     replicate 16 I_UNK @
     replicate 16 I_UNK @
     replicate 16 I_UNK @
     replicate 16 I_UNK @
     replicate 16 I_UNK @
     replicate 16 I_UNK @
     replicate 16 I_UNK"

definition ARMInstrTable_E :: "instr list" where
  "ARMInstrTable_E =
     [I_UNK, I_PSR P_MCR, I_UNK, I_PSR P_MCR,
      I_UNK, I_PSR P_MCR, I_UNK, I_PSR P_MCR,
      I_UNK, I_PSR P_MCR, I_UNK, I_PSR P_MCR,
      I_UNK, I_PSR P_MCR, I_UNK, I_PSR P_MCR] @
     [I_UNK, I_PSR P_MRC, I_UNK, I_PSR P_MRC,
      I_UNK, I_PSR P_MRC, I_UNK, I_PSR P_MRC,
      I_UNK, I_PSR P_MRC, I_UNK, I_PSR P_MRC,
      I_UNK, I_PSR P_MRC, I_UNK, I_PSR P_MRC] @
     [I_UNK, I_PSR P_MCR, I_UNK, I_PSR P_MCR,
      I_UNK, I_PSR P_MCR, I_UNK, I_PSR P_MCR,
      I_UNK, I_PSR P_MCR, I_UNK, I_PSR P_MCR,
      I_UNK, I_PSR P_MCR, I_UNK, I_PSR P_MCR] @
     [I_UNK, I_PSR P_MRC, I_UNK, I_PSR P_MRC,
      I_UNK, I_PSR P_MRC, I_UNK, I_PSR P_MRC,
      I_UNK, I_PSR P_MRC, I_UNK, I_PSR P_MRC,
      I_UNK, I_PSR P_MRC, I_UNK, I_PSR P_MRC] @
     [I_UNK, I_PSR P_MCR, I_UNK, I_PSR P_MCR,
      I_UNK, I_PSR P_MCR, I_UNK, I_PSR P_MCR,
      I_UNK, I_PSR P_MCR, I_UNK, I_PSR P_MCR,
      I_UNK, I_PSR P_MCR, I_UNK, I_PSR P_MCR] @
     [I_UNK, I_PSR P_MRC, I_UNK, I_PSR P_MRC,
      I_UNK, I_PSR P_MRC, I_UNK, I_PSR P_MRC,
      I_UNK, I_PSR P_MRC, I_UNK, I_PSR P_MRC,
      I_UNK, I_PSR P_MRC, I_UNK, I_PSR P_MRC] @
     [I_UNK, I_PSR P_MCR, I_UNK, I_PSR P_MCR,
      I_UNK, I_PSR P_MCR, I_UNK, I_PSR P_MCR,
      I_UNK, I_PSR P_MCR, I_UNK, I_PSR P_MCR,
      I_UNK, I_PSR P_MCR, I_UNK, I_PSR P_MCR] @
     [I_UNK, I_PSR P_MRC, I_UNK, I_PSR P_MRC,
      I_UNK, I_PSR P_MRC, I_UNK, I_PSR P_MRC,
      I_UNK, I_PSR P_MRC, I_UNK, I_PSR P_MRC,
      I_UNK, I_PSR P_MRC, I_UNK, I_PSR P_MRC] @
     [I_UNK, I_PSR P_MCR, I_UNK, I_PSR P_MCR,
      I_UNK, I_PSR P_MCR, I_UNK, I_PSR P_MCR,
      I_UNK, I_PSR P_MCR, I_UNK, I_PSR P_MCR,
      I_UNK, I_PSR P_MCR, I_UNK, I_PSR P_MCR] @
     [I_UNK, I_PSR P_MRC, I_UNK, I_PSR P_MRC,
      I_UNK, I_PSR P_MRC, I_UNK, I_PSR P_MRC,
      I_UNK, I_PSR P_MRC, I_UNK, I_PSR P_MRC,
      I_UNK, I_PSR P_MRC, I_UNK, I_PSR P_MRC] @
     [I_UNK, I_PSR P_MCR, I_UNK, I_PSR P_MCR,
      I_UNK, I_PSR P_MCR, I_UNK, I_PSR P_MCR,
      I_UNK, I_PSR P_MCR, I_UNK, I_PSR P_MCR,
      I_UNK, I_PSR P_MCR, I_UNK, I_PSR P_MCR] @
     [I_UNK, I_PSR P_MRC, I_UNK, I_PSR P_MRC,
      I_UNK, I_PSR P_MRC, I_UNK, I_PSR P_MRC,
      I_UNK, I_PSR P_MRC, I_UNK, I_PSR P_MRC,
      I_UNK, I_PSR P_MRC, I_UNK, I_PSR P_MRC] @
     [I_UNK, I_PSR P_MCR, I_UNK, I_PSR P_MCR,
      I_UNK, I_PSR P_MCR, I_UNK, I_PSR P_MCR,
      I_UNK, I_PSR P_MCR, I_UNK, I_PSR P_MCR,
      I_UNK, I_PSR P_MCR, I_UNK, I_PSR P_MCR] @
     [I_UNK, I_PSR P_MRC, I_UNK, I_PSR P_MRC,
      I_UNK, I_PSR P_MRC, I_UNK, I_PSR P_MRC,
      I_UNK, I_PSR P_MRC, I_UNK, I_PSR P_MRC,
      I_UNK, I_PSR P_MRC, I_UNK, I_PSR P_MRC] @
     [I_UNK, I_PSR P_MCR, I_UNK, I_PSR P_MCR,
      I_UNK, I_PSR P_MCR, I_UNK, I_PSR P_MCR,
      I_UNK, I_PSR P_MCR, I_UNK, I_PSR P_MCR,
      I_UNK, I_PSR P_MCR, I_UNK, I_PSR P_MCR] @
     [I_UNK, I_PSR P_MRC, I_UNK, I_PSR P_MRC,
      I_UNK, I_PSR P_MRC, I_UNK, I_PSR P_MRC,
      I_UNK, I_PSR P_MRC, I_UNK, I_PSR P_MRC,
      I_UNK, I_PSR P_MRC, I_UNK, I_PSR P_MRC]"

definition ARMInstrTable_F :: "instr list" where
  "ARMInstrTable_F =
     replicate 16 I_SVC @
     replicate 16 I_SVC @
     replicate 16 I_SVC @
     replicate 16 I_SVC @
     replicate 16 I_SVC @
     replicate 16 I_SVC @
     replicate 16 I_SVC @
     replicate 16 I_SVC @
     replicate 16 I_SVC @
     replicate 16 I_SVC @
     replicate 16 I_SVC @
     replicate 16 I_SVC @
     replicate 16 I_SVC @
     replicate 16 I_SVC @
     replicate 16 I_SVC @
     replicate 16 I_SVC"

definition ARMInstrTable :: "instr list" where
  "ARMInstrTable =
     ARMInstrTable_0 @ ARMInstrTable_1 @ ARMInstrTable_2 @ ARMInstrTable_3 @
     ARMInstrTable_4 @ ARMInstrTable_5 @ ARMInstrTable_6 @ ARMInstrTable_7 @
     ARMInstrTable_8 @ ARMInstrTable_9 @ ARMInstrTable_A @ ARMInstrTable_B @
     ARMInstrTable_C @ ARMInstrTable_D @ ARMInstrTable_E @ ARMInstrTable_F"

section \<open>The THUMB table\<close>

definition THUMBInstrTable_0 :: "tinstr list" where
  "THUMBInstrTable_0 =
     replicate 16 (J_IMM Ti_LSL_IMM) @
     replicate 16 (J_IMM Ti_LSL_IMM) @
     replicate 16 (J_IMM Ti_LSR_IMM) @
     replicate 16 (J_IMM Ti_LSR_IMM) @
     replicate 16 (J_IMM Ti_ASR_IMM) @
     replicate 16 (J_IMM Ti_ASR_IMM) @
     [J_IMM Ti_ADD_REG3, J_IMM Ti_ADD_REG3, J_IMM Ti_ADD_REG3, J_IMM Ti_ADD_REG3,
      J_IMM Ti_ADD_REG3, J_IMM Ti_ADD_REG3, J_IMM Ti_ADD_REG3, J_IMM Ti_ADD_REG3,
      J_IMM Ti_SUB_REG3, J_IMM Ti_SUB_REG3, J_IMM Ti_SUB_REG3, J_IMM Ti_SUB_REG3,
      J_IMM Ti_SUB_REG3, J_IMM Ti_SUB_REG3, J_IMM Ti_SUB_REG3, J_IMM Ti_SUB_REG3] @
     [J_IMM Ti_ADD_IMM3, J_IMM Ti_ADD_IMM3, J_IMM Ti_ADD_IMM3, J_IMM Ti_ADD_IMM3,
      J_IMM Ti_ADD_IMM3, J_IMM Ti_ADD_IMM3, J_IMM Ti_ADD_IMM3, J_IMM Ti_ADD_IMM3,
      J_IMM Ti_SUB_IMM3, J_IMM Ti_SUB_IMM3, J_IMM Ti_SUB_IMM3, J_IMM Ti_SUB_IMM3,
      J_IMM Ti_SUB_IMM3, J_IMM Ti_SUB_IMM3, J_IMM Ti_SUB_IMM3, J_IMM Ti_SUB_IMM3] @
     replicate 16 (J_IMM Ti_MOV_IMM) @
     replicate 16 (J_IMM Ti_MOV_IMM) @
     replicate 16 (J_IMM Ti_CMP_IMM) @
     replicate 16 (J_IMM Ti_CMP_IMM) @
     replicate 16 (J_IMM Ti_ADD_IMM) @
     replicate 16 (J_IMM Ti_ADD_IMM) @
     replicate 16 (J_IMM Ti_SUB_IMM) @
     replicate 16 (J_IMM Ti_SUB_IMM)"

definition THUMBInstrTable_1 :: "tinstr list" where
  "THUMBInstrTable_1 =
     [J_REG Tr_AND_REG, J_REG Tr_EOR_REG, J_REG Tr_LSL_REG, J_REG Tr_LSR_REG,
      J_REG Tr_ASR_REG, J_REG Tr_ADC_REG, J_REG Tr_SBC_REG, J_REG Tr_ROR_REG,
      J_REG Tr_TST_REG, J_REG Tr_NEG_REG, J_REG Tr_CMP_REG, J_REG Tr_CMN_REG,
      J_REG Tr_ORR_REG, J_REG Tr_MUL_REG, J_REG Tr_BIC_REG, J_REG Tr_MVN_REG] @
     [J_HI Th_ADD_HIREG, J_HI Th_ADD_HIREG, J_HI Th_ADD_HIREG, J_HI Th_ADD_HIREG,
      J_HI Th_CMP_HIREG, J_HI Th_CMP_HIREG, J_HI Th_CMP_HIREG, J_HI Th_CMP_HIREG,
      J_HI Th_MOV_HIREG, J_HI Th_MOV_HIREG, J_HI Th_MOV_HIREG, J_HI Th_MOV_HIREG,
      J_BRANCH Tb_BX, J_BRANCH Tb_BX, J_BRANCH Tb_BLX_REG, J_BRANCH Tb_BLX_REG] @
     replicate 16 (J_MEM Tm_LDR_PCREL) @
     replicate 16 (J_MEM Tm_LDR_PCREL) @
     [J_MEM Tm_STR_REG, J_MEM Tm_STR_REG, J_MEM Tm_STR_REG, J_MEM Tm_STR_REG,
      J_MEM Tm_STR_REG, J_MEM Tm_STR_REG, J_MEM Tm_STR_REG, J_MEM Tm_STR_REG,
      J_MEM Tm_STRH_REG, J_MEM Tm_STRH_REG, J_MEM Tm_STRH_REG, J_MEM Tm_STRH_REG,
      J_MEM Tm_STRH_REG, J_MEM Tm_STRH_REG, J_MEM Tm_STRH_REG, J_MEM Tm_STRH_REG] @
     [J_MEM Tm_STRB_REG, J_MEM Tm_STRB_REG, J_MEM Tm_STRB_REG, J_MEM Tm_STRB_REG,
      J_MEM Tm_STRB_REG, J_MEM Tm_STRB_REG, J_MEM Tm_STRB_REG, J_MEM Tm_STRB_REG,
      J_MEM Tm_LDRSB_REG, J_MEM Tm_LDRSB_REG, J_MEM Tm_LDRSB_REG, J_MEM Tm_LDRSB_REG,
      J_MEM Tm_LDRSB_REG, J_MEM Tm_LDRSB_REG, J_MEM Tm_LDRSB_REG, J_MEM Tm_LDRSB_REG] @
     [J_MEM Tm_LDR_REG, J_MEM Tm_LDR_REG, J_MEM Tm_LDR_REG, J_MEM Tm_LDR_REG,
      J_MEM Tm_LDR_REG, J_MEM Tm_LDR_REG, J_MEM Tm_LDR_REG, J_MEM Tm_LDR_REG,
      J_MEM Tm_LDRH_REG, J_MEM Tm_LDRH_REG, J_MEM Tm_LDRH_REG, J_MEM Tm_LDRH_REG,
      J_MEM Tm_LDRH_REG, J_MEM Tm_LDRH_REG, J_MEM Tm_LDRH_REG, J_MEM Tm_LDRH_REG] @
     [J_MEM Tm_LDRB_REG, J_MEM Tm_LDRB_REG, J_MEM Tm_LDRB_REG, J_MEM Tm_LDRB_REG,
      J_MEM Tm_LDRB_REG, J_MEM Tm_LDRB_REG, J_MEM Tm_LDRB_REG, J_MEM Tm_LDRB_REG,
      J_MEM Tm_LDRSH_REG, J_MEM Tm_LDRSH_REG, J_MEM Tm_LDRSH_REG, J_MEM Tm_LDRSH_REG,
      J_MEM Tm_LDRSH_REG, J_MEM Tm_LDRSH_REG, J_MEM Tm_LDRSH_REG, J_MEM Tm_LDRSH_REG] @
     replicate 16 (J_MEMI Tn_STR_IMM) @
     replicate 16 (J_MEMI Tn_STR_IMM) @
     replicate 16 (J_MEMI Tn_LDR_IMM) @
     replicate 16 (J_MEMI Tn_LDR_IMM) @
     replicate 16 (J_MEMI Tn_STRB_IMM) @
     replicate 16 (J_MEMI Tn_STRB_IMM) @
     replicate 16 (J_MEMI Tn_LDRB_IMM) @
     replicate 16 (J_MEMI Tn_LDRB_IMM)"

definition THUMBInstrTable_2 :: "tinstr list" where
  "THUMBInstrTable_2 =
     replicate 16 (J_MEMI Tn_STRH_IMM) @
     replicate 16 (J_MEMI Tn_STRH_IMM) @
     replicate 16 (J_MEMI Tn_LDRH_IMM) @
     replicate 16 (J_MEMI Tn_LDRH_IMM) @
     replicate 16 (J_MEMI Tn_STR_SPREL) @
     replicate 16 (J_MEMI Tn_STR_SPREL) @
     replicate 16 (J_MEMI Tn_LDR_SPREL) @
     replicate 16 (J_MEMI Tn_LDR_SPREL) @
     replicate 16 (J_HI Th_ADD_PCREL) @
     replicate 16 (J_HI Th_ADD_PCREL) @
     replicate 16 (J_HI Th_ADD_SPREL) @
     replicate 16 (J_HI Th_ADD_SPREL) @
     [J_HI Th_ADD_SP, J_HI Th_ADD_SP, J_HI Th_ADD_SP, J_HI Th_ADD_SP,
      J_UNK, J_UNK, J_UNK, J_UNK,
      J_UNK, J_UNK, J_UNK, J_UNK,
      J_UNK, J_UNK, J_UNK, J_UNK] @
     [J_BLOCK Tb_PUSH, J_BLOCK Tb_PUSH, J_BLOCK Tb_PUSH, J_BLOCK Tb_PUSH,
      J_BLOCK Tb_PUSH, J_BLOCK Tb_PUSH, J_BLOCK Tb_PUSH, J_BLOCK Tb_PUSH,
      J_UNK, J_UNK, J_UNK, J_UNK,
      J_UNK, J_UNK, J_UNK, J_UNK] @
     replicate 16 J_UNK @
     [J_BLOCK Tb_POP, J_BLOCK Tb_POP, J_BLOCK Tb_POP, J_BLOCK Tb_POP,
      J_BLOCK Tb_POP, J_BLOCK Tb_POP, J_BLOCK Tb_POP, J_BLOCK Tb_POP,
      J_UNK, J_UNK, J_UNK, J_UNK,
      J_UNK, J_UNK, J_UNK, J_UNK]"

definition THUMBInstrTable_3 :: "tinstr list" where
  "THUMBInstrTable_3 =
     replicate 16 (J_BLOCK Tb_STMIA) @
     replicate 16 (J_BLOCK Tb_STMIA) @
     replicate 16 (J_BLOCK Tb_LDMIA) @
     replicate 16 (J_BLOCK Tb_LDMIA) @
     replicate 16 (J_BRANCH Tb_BCOND) @
     replicate 16 (J_BRANCH Tb_BCOND) @
     replicate 16 (J_BRANCH Tb_BCOND) @
     [J_BRANCH Tb_BCOND, J_BRANCH Tb_BCOND, J_BRANCH Tb_BCOND, J_BRANCH Tb_BCOND,
      J_BRANCH Tb_BCOND, J_BRANCH Tb_BCOND, J_BRANCH Tb_BCOND, J_BRANCH Tb_BCOND,
      J_UNK, J_UNK, J_UNK, J_UNK,
      J_SVC, J_SVC, J_SVC, J_SVC] @
     replicate 16 (J_BRANCH Tb_B) @
     replicate 16 (J_BRANCH Tb_B) @
     replicate 16 (J_BRANCH Tb_BL_LONG_2) @
     replicate 16 (J_BRANCH Tb_BL_LONG_2) @
     replicate 16 (J_BRANCH Tb_BL_LONG_1) @
     replicate 16 (J_BRANCH Tb_BL_LONG_1) @
     replicate 16 (J_BRANCH Tb_BL_LONG_2) @
     replicate 16 (J_BRANCH Tb_BL_LONG_2)"

definition THUMBInstrTable :: "tinstr list" where
  "THUMBInstrTable = THUMBInstrTable_0 @ THUMBInstrTable_1 @ THUMBInstrTable_2 @ THUMBInstrTable_3"

end
