(* ===== verification/Arm_V4.thy ===== *)
theory Arm_V4
  imports Arm_Table Dma_Timings
begin

text \<open>
  The ARM7, class \<^verbatim>\<open>ARMv4\<close> of \<^verbatim>\<open>src/src/ARM.h\<close> and \<^verbatim>\<open>src/src/ARM.cpp\<close>, on the ARM7 bus of
  the console: its implementation of the virtual methods, and its interpreter loop.
\<close>

section \<open>State\<close>

text \<open>
  The console is part of the state. \<open>hooks\<close> are the calls that leave the modelled part: the
  cheat engine and the debug output, which act on the console through its bus, and the reset
  of a DSi; and the content of unassigned variables.
\<close>

record 'b armv4 = arm +
  NDS :: "'b dma_nds_scheme"

type_synonym 'b arm7 = "('b, unit) armv4_ext arm_scheme"

record 'b hooks =
  AREngine_RunCheats :: "'b dma_nds_scheme \<Rightarrow> 'b dma_nds_scheme"
  NDS_NocashPrint :: "nat \<Rightarrow> u32 \<Rightarrow> 'b dma_nds_scheme \<Rightarrow> 'b dma_nds_scheme"
  DSi_SoftReset :: "'b arm7 \<Rightarrow> 'b arm7"
  Unassigned :: u32

section \<open>Bus accesses\<close>

text \<open>
  The bus reads \<^verbatim>\<open>ARM7.R[15]\<close> to guard the BIOS; \<open>ARM7_PC\<close> of the console is its copy.
\<close>

definition bus7 :: "'b arm7 \<Rightarrow> 'b dma_nds_scheme" where
  "bus7 cpu = (NDS cpu)\<lparr>ARM7_PC := R cpu 15\<rparr>"

definition BusRead8 :: "'b dma_nds_scheme devices \<Rightarrow> u32 \<Rightarrow> 'b arm7 \<Rightarrow> u8 \<times> 'b arm7" where
  "BusRead8 dev addr cpu = (let (v, n) = ARM7Read8 dev addr (bus7 cpu) in (v, cpu\<lparr>NDS := n\<rparr>))"

definition BusRead16 :: "'b dma_nds_scheme devices \<Rightarrow> u32 \<Rightarrow> 'b arm7 \<Rightarrow> u16 \<times> 'b arm7" where
  "BusRead16 dev addr cpu = (let (v, n) = ARM7Read16 dev addr (bus7 cpu) in (v, cpu\<lparr>NDS := n\<rparr>))"

definition BusRead32 :: "'b dma_nds_scheme devices \<Rightarrow> u32 \<Rightarrow> 'b arm7 \<Rightarrow> u32 \<times> 'b arm7" where
  "BusRead32 dev addr cpu = (let (v, n) = ARM7Read32 dev addr (bus7 cpu) in (v, cpu\<lparr>NDS := n\<rparr>))"

definition BusWrite8 :: "'b dma_nds_scheme devices \<Rightarrow> u32 \<Rightarrow> u8 \<Rightarrow> 'b arm7 \<Rightarrow> 'b arm7" where
  "BusWrite8 dev addr val cpu = cpu\<lparr>NDS := ARM7Write8 dev addr val (bus7 cpu)\<rparr>"

definition BusWrite16 :: "'b dma_nds_scheme devices \<Rightarrow> u32 \<Rightarrow> u16 \<Rightarrow> 'b arm7 \<Rightarrow> 'b arm7" where
  "BusWrite16 dev addr val cpu = cpu\<lparr>NDS := ARM7Write16 dev addr val (bus7 cpu)\<rparr>"

definition BusWrite32 :: "'b dma_nds_scheme devices \<Rightarrow> u32 \<Rightarrow> u32 \<Rightarrow> 'b arm7 \<Rightarrow> 'b arm7" where
  "BusWrite32 dev addr val cpu = cpu\<lparr>NDS := ARM7Write32 dev addr val (bus7 cpu)\<rparr>"

text \<open>\<^verbatim>\<open>NDS.ARM7MemTimings[i][k]\<close>, and the entry for an address.\<close>

definition timing7 :: "nat \<Rightarrow> nat \<Rightarrow> 'b arm7 \<Rightarrow> int" where
  "timing7 i k cpu = uint (ARM7MemTimings (NDS cpu) i k)"

definition data_timing7 :: "u32 \<Rightarrow> nat \<Rightarrow> 'b arm7 \<Rightarrow> int" where
  "data_timing7 addr k cpu = timing7 (unat (drop_bit 15 addr)) k cpu"

section \<open>Code and jumps\<close>

definition ARMv4_CodeRead16 :: "'b dma_nds_scheme devices \<Rightarrow> u32 \<Rightarrow> 'b arm7 \<Rightarrow> u16 \<times> 'b arm7" where
  "ARMv4_CodeRead16 dev addr cpu = BusRead16 dev addr cpu"

definition ARMv4_CodeRead32 :: "'b dma_nds_scheme devices \<Rightarrow> u32 \<Rightarrow> 'b arm7 \<Rightarrow> u32 \<times> 'b arm7" where
  "ARMv4_CodeRead32 dev addr cpu = BusRead32 dev addr cpu"

definition setNext :: "nat \<Rightarrow> u32 \<Rightarrow> 'w arm_scheme \<Rightarrow> 'w arm_scheme" where
  "setNext k v cpu = cpu\<lparr>NextInstr := (NextInstr cpu)(k := v)\<rparr>"

definition ARMv4_FillPipeline :: "'b dma_nds_scheme devices \<Rightarrow> 'b arm7 \<Rightarrow> 'b arm7" where
  "ARMv4_FillPipeline dev cpu =
     (if CPSR cpu AND 0x20 \<noteq> 0 then
        let (v, cpu) = ARMv4_CodeRead16 dev (R cpu 15 - 2) cpu; cpu = setNext 0 (ucast v) cpu;
            (v, cpu) = ARMv4_CodeRead16 dev (R cpu 15) cpu
        in setNext 1 (ucast v) cpu
      else
        let (v, cpu) = ARMv4_CodeRead32 dev (R cpu 15 - 4) cpu; cpu = setNext 0 v cpu;
            (v, cpu) = ARMv4_CodeRead32 dev (R cpu 15) cpu
        in setNext 1 v cpu)"

definition ARMv4_JumpTo :: "'b dma_nds_scheme devices \<Rightarrow> u32 \<Rightarrow> bool \<Rightarrow> 'b arm7 \<Rightarrow> 'b arm7" where
  "ARMv4_JumpTo dev addr restorecpsr cpu =
     (let cpu = (if restorecpsr then RestoreCPSR cpu else cpu);
          addr = (if restorecpsr then if CPSR cpu AND 0x20 \<noteq> 0 then addr OR 0x1 else addr AND NOT 0x1 else addr);
          cpu = cpu\<lparr>CodeRegion := drop_bit 24 addr, CodeCycles := uint (drop_bit 15 addr)\<rparr>
      in if addr AND 0x1 \<noteq> 0 then
           let addr = addr AND NOT 0x1;
               cpu = setR 15 (addr + 2) cpu;
               (v, cpu) = ARMv4_CodeRead16 dev addr cpu; cpu = setNext 0 (ucast v) cpu;
               (v, cpu) = ARMv4_CodeRead16 dev (addr + 2) cpu; cpu = setNext 1 (ucast v) cpu;
               k = nat (CodeCycles cpu)
           in cpu\<lparr>Cycles := Cycles cpu + (timing7 k 0 cpu + timing7 k 1 cpu), CPSR := CPSR cpu OR 0x20\<rparr>
         else
           let addr = addr AND NOT 0x3;
               cpu = setR 15 (addr + 4) cpu;
               (v, cpu) = ARMv4_CodeRead32 dev addr cpu; cpu = setNext 0 v cpu;
               (v, cpu) = ARMv4_CodeRead32 dev (addr + 4) cpu; cpu = setNext 1 v cpu;
               k = nat (CodeCycles cpu)
           in cpu\<lparr>Cycles := Cycles cpu + (timing7 k 2 cpu + timing7 k 3 cpu), CPSR := CPSR cpu AND NOT 0x20\<rparr>)"

section \<open>Data\<close>

definition ARMv4_DataRead8 :: "'b dma_nds_scheme devices \<Rightarrow> u32 \<Rightarrow> 'b arm7 \<Rightarrow> u32 option \<times> 'b arm7" where
  "ARMv4_DataRead8 dev addr cpu =
     (let (v, cpu) = BusRead8 dev addr cpu
      in (Some (ucast v), cpu\<lparr>DataRegion := addr, DataCycles := data_timing7 addr 0 cpu\<rparr>))"

definition ARMv4_DataRead16 :: "'b dma_nds_scheme devices \<Rightarrow> u32 \<Rightarrow> 'b arm7 \<Rightarrow> u32 option \<times> 'b arm7" where
  "ARMv4_DataRead16 dev addr cpu =
     (let addr = addr AND NOT 1; (v, cpu) = BusRead16 dev addr cpu
      in (Some (ucast v), cpu\<lparr>DataRegion := addr, DataCycles := data_timing7 addr 0 cpu\<rparr>))"

definition ARMv4_DataRead32 :: "'b dma_nds_scheme devices \<Rightarrow> u32 \<Rightarrow> 'b arm7 \<Rightarrow> u32 option \<times> 'b arm7" where
  "ARMv4_DataRead32 dev addr cpu =
     (let addr = addr AND NOT 3; (v, cpu) = BusRead32 dev addr cpu
      in (Some v, cpu\<lparr>DataRegion := addr, DataCycles := data_timing7 addr 2 cpu\<rparr>))"

definition ARMv4_DataRead32S :: "'b dma_nds_scheme devices \<Rightarrow> u32 \<Rightarrow> 'b arm7 \<Rightarrow> u32 option \<times> 'b arm7" where
  "ARMv4_DataRead32S dev addr cpu =
     (let addr = addr AND NOT 3; (v, cpu) = BusRead32 dev addr cpu
      in (Some v, cpu\<lparr>DataCycles := DataCycles cpu + data_timing7 addr 3 cpu\<rparr>))"

definition ARMv4_DataWrite8 :: "'b dma_nds_scheme devices \<Rightarrow> u32 \<Rightarrow> u8 \<Rightarrow> 'b arm7 \<Rightarrow> 'b arm7" where
  "ARMv4_DataWrite8 dev addr val cpu =
     (let cpu = BusWrite8 dev addr val cpu
      in cpu\<lparr>DataRegion := addr, DataCycles := data_timing7 addr 0 cpu\<rparr>)"

definition ARMv4_DataWrite16 :: "'b dma_nds_scheme devices \<Rightarrow> u32 \<Rightarrow> u16 \<Rightarrow> 'b arm7 \<Rightarrow> 'b arm7" where
  "ARMv4_DataWrite16 dev addr val cpu =
     (let addr = addr AND NOT 1; cpu = BusWrite16 dev addr val cpu
      in cpu\<lparr>DataRegion := addr, DataCycles := data_timing7 addr 0 cpu\<rparr>)"

definition ARMv4_DataWrite32 :: "'b dma_nds_scheme devices \<Rightarrow> u32 \<Rightarrow> u32 \<Rightarrow> 'b arm7 \<Rightarrow> 'b arm7" where
  "ARMv4_DataWrite32 dev addr val cpu =
     (let addr = addr AND NOT 3; cpu = BusWrite32 dev addr val cpu
      in cpu\<lparr>DataRegion := addr, DataCycles := data_timing7 addr 2 cpu\<rparr>)"

definition ARMv4_DataWrite32S :: "'b dma_nds_scheme devices \<Rightarrow> u32 \<Rightarrow> u32 \<Rightarrow> 'b arm7 \<Rightarrow> 'b arm7" where
  "ARMv4_DataWrite32S dev addr val cpu =
     (let addr = addr AND NOT 3; cpu = BusWrite32 dev addr val cpu
      in cpu\<lparr>DataCycles := DataCycles cpu + data_timing7 addr 3 cpu\<rparr>)"

section \<open>Cycles\<close>

definition code_timing7 :: "nat \<Rightarrow> nat \<Rightarrow> 'b arm7 \<Rightarrow> int" where
  "code_timing7 t a cpu = timing7 (nat (CodeCycles cpu)) (if CPSR cpu AND 0x20 \<noteq> 0 then t else a) cpu"

definition ARMv4_AddCycles_C :: "'b arm7 \<Rightarrow> 'b arm7" where
  "ARMv4_AddCycles_C cpu = cpu\<lparr>Cycles := Cycles cpu + code_timing7 1 3 cpu\<rparr>"

definition ARMv4_AddCycles_CI :: "int \<Rightarrow> 'b arm7 \<Rightarrow> 'b arm7" where
  "ARMv4_AddCycles_CI num cpu = cpu\<lparr>Cycles := Cycles cpu + (code_timing7 0 2 cpu + num)\<rparr>"

definition ARMv4_AddCycles_CDI :: "'b arm7 \<Rightarrow> 'b arm7" where
  "ARMv4_AddCycles_CDI cpu =
     (let numC = code_timing7 0 2 cpu; numD = DataCycles cpu
      in cpu\<lparr>Cycles := Cycles cpu +
            (if drop_bit 24 (DataRegion cpu) = 0x02 then
               if CodeRegion cpu = 0x02 then numC + numD
               else let numC = numC + 1 in max (numC + numD - 3) (max numC numD)
             else if CodeRegion cpu = 0x02 then
               let numD = numD + 1 in max (numC + numD - 3) (max numC numD)
             else numC + numD + 1)\<rparr>)"

definition ARMv4_AddCycles_CD :: "'b arm7 \<Rightarrow> 'b arm7" where
  "ARMv4_AddCycles_CD cpu =
     (let numC = code_timing7 0 2 cpu; numD = DataCycles cpu
      in cpu\<lparr>Cycles := Cycles cpu +
            (if drop_bit 24 (DataRegion cpu) = 0x02 then
               if CodeRegion cpu = 0x02 then numC + numD
               else max (numC + numD - 3) (max numC numD)
             else if CodeRegion cpu = 0x02 then max (numC + numD - 3) (max numC numD)
             else numC + numD)\<rparr>)"

section \<open>The interpreter\<close>

text \<open>The two fields of the processor that \<^verbatim>\<open>ARM::Reset\<close> clears in the console.\<close>

definition ARMv4_ClearStops :: "'b arm7 \<Rightarrow> 'b arm7" where
  "ARMv4_ClearStops cpu =
     cpu\<lparr>NDS := (NDS cpu)\<lparr>Halted := (Halted (NDS cpu))(1 := 0), IRQ_line := (IRQ_line (NDS cpu))(1 := False)\<rparr>\<rparr>"

text \<open>The coprocessor accesses belong to \<^verbatim>\<open>ARMv5\<close> and are never reached with \<^verbatim>\<open>Num\<close> 1.\<close>

definition vt7 :: "'b dma_nds_scheme devices \<Rightarrow> 'b hooks \<Rightarrow> 'b arm7 vtable" where
  "vt7 dev hk =
     \<lparr>JumpTo = ARMv4_JumpTo dev,
      DataRead8 = ARMv4_DataRead8 dev, DataRead16 = ARMv4_DataRead16 dev,
      DataRead32 = ARMv4_DataRead32 dev, DataRead32S = ARMv4_DataRead32S dev,
      DataWrite8 = ARMv4_DataWrite8 dev, DataWrite16 = ARMv4_DataWrite16 dev,
      DataWrite32 = ARMv4_DataWrite32 dev, DataWrite32S = ARMv4_DataWrite32S dev,
      AddCycles_C = ARMv4_AddCycles_C, AddCycles_CI = ARMv4_AddCycles_CI,
      AddCycles_CDI = ARMv4_AddCycles_CDI, AddCycles_CD = ARMv4_AddCycles_CD,
      CP15Write = (\<lambda>_ _ cpu. cpu), CP15Read = (\<lambda>_ _. 0),
      ClearStops = ARMv4_ClearStops,
      NDS_IF_IE7 = (\<lambda>cpu. IF (NDS cpu) 1 AND IE (NDS cpu) 1),
      RunCheats = (\<lambda>cpu. cpu\<lparr>NDS := AREngine_RunCheats hk (bus7 cpu)\<rparr>),
      NocashPrint = (\<lambda>ncpu addr cpu. cpu\<lparr>NDS := NDS_NocashPrint hk ncpu addr (bus7 cpu)\<rparr>),
      Undef = Unassigned hk\<rparr>"

text \<open>Prefetch and execution of one instruction.\<close>

definition ARMv4_step :: "'b dma_nds_scheme devices \<Rightarrow> 'b hooks \<Rightarrow> 'b arm7 \<Rightarrow> 'b arm7" where
  "ARMv4_step dev hk cpu =
     (if CPSR cpu AND 0x20 \<noteq> 0 then
        let cpu = setR 15 (R cpu 15 + 2) cpu;
            cpu = cpu\<lparr>CurInstr := NextInstr cpu 0\<rparr>;
            cpu = setNext 0 (NextInstr cpu 1) cpu;
            (v, cpu) = ARMv4_CodeRead16 dev (R cpu 15) cpu;
            cpu = setNext 1 (ucast v) cpu;
            icode = unat (drop_bit 6 (CurInstr cpu))
        in exec_thumb (THUMBInstrTable ! icode) (vt7 dev hk) cpu
      else
        let cpu = setR 15 (R cpu 15 + 4) cpu;
            cpu = cpu\<lparr>CurInstr := NextInstr cpu 0\<rparr>;
            cpu = setNext 0 (NextInstr cpu 1) cpu;
            (v, cpu) = ARMv4_CodeRead32 dev (R cpu 15) cpu;
            cpu = setNext 1 v cpu
        in if CheckCondition (ifield 28 0xF cpu) cpu then
             let icode = unat ((drop_bit 4 (CurInstr cpu) AND 0xF) OR (drop_bit 16 (CurInstr cpu) AND 0xFF0))
             in exec_arm (ARMInstrTable ! icode) (vt7 dev hk) cpu
           else ARMv4_AddCycles_C cpu)"

text \<open>
  The loop of \<^verbatim>\<open>ARMv4::Execute<Interpreter>\<close>: not returning is \<open>None\<close>. \<open>at_target\<close> is
  \<^verbatim>\<open>NDS.ARM7Timestamp = NDS.ARM7Target\<close>.
\<close>

definition at_target :: "'b arm7 \<Rightarrow> 'b arm7" where
  "at_target cpu = cpu\<lparr>NDS := (NDS cpu)\<lparr>ARM7Timestamp := ARM7Target (NDS cpu)\<rparr>\<rparr>"

definition setHalted :: "u32 \<Rightarrow> 'b arm7 \<Rightarrow> 'b arm7" where
  "setHalted h cpu = cpu\<lparr>NDS := (NDS cpu)\<lparr>Halted := (Halted (NDS cpu))(1 := h)\<rparr>\<rparr>"

definition spend_cycles :: "'b arm7 \<Rightarrow> 'b arm7" where
  "spend_cycles cpu =
     cpu\<lparr>NDS := (NDS cpu)\<lparr>ARM7Timestamp := ARM7Timestamp (NDS cpu) + word_of_int (Cycles cpu)\<rparr>, Cycles := 0\<rparr>"

partial_function (option) ARMv4_loop ::
  "'b dma_nds_scheme devices \<Rightarrow> 'b hooks \<Rightarrow> 'b arm7 \<Rightarrow> 'b arm7 option" where
  "ARMv4_loop dev hk cpu =
     (if ARM7Timestamp (NDS cpu) < ARM7Target (NDS cpu) then
        let cpu = ARMv4_step dev hk cpu
        in if Halted (NDS cpu) 1 \<noteq> 0 then
             Some (if Halted (NDS cpu) 1 = 1 \<and> ARM7Timestamp (NDS cpu) < ARM7Target (NDS cpu)
                   then at_target cpu else cpu)
           else
             let cpu = (if IRQ_line (NDS cpu) 1 then TriggerIRQ (vt7 dev hk) cpu else cpu)
             in ARMv4_loop dev hk (spend_cycles cpu)
      else Some cpu)"

definition ARMv4_Execute ::
  "'b dma_nds_scheme devices \<Rightarrow> 'b hooks \<Rightarrow> 'b arm7 \<Rightarrow> 'b arm7 option" where
  "ARMv4_Execute dev hk cpu =
     (let h = Halted (NDS cpu) 1;
          start =
            (if h = 0 then Some cpu
             else if h = 2 then Some (setHalted 0 cpu)
             else if HaltInterrupted 1 (NDS cpu) then
               let cpu = setHalted 0 cpu
               in Some (if bit (IME (NDS cpu) 1) 0 then TriggerIRQ (vt7 dev hk) cpu else cpu)
             else None)
      in case start of
           None \<Rightarrow> Some (at_target cpu)
         | Some cpu \<Rightarrow>
             (case ARMv4_loop dev hk cpu of
                None \<Rightarrow> None
              | Some cpu \<Rightarrow>
                  let cpu = (if Halted (NDS cpu) 1 = 2 then setHalted 0 cpu else cpu)
                  in Some (if Halted (NDS cpu) 1 = 4 then setHalted 2 (DSi_SoftReset hk cpu) else cpu)))"

section \<open>An example\<close>

text \<open>An ARM7 with clear registers on a console after reset, with no devices and idle hooks.\<close>

definition arm7_zero :: "unit arm7" where
  "arm7_zero = arm.extend (arm_zero 1) \<lparr>NDS = dma_init\<rparr>"

definition hooks_idle :: "'b hooks" where
  "hooks_idle = \<lparr>AREngine_RunCheats = (\<lambda>s. s), NDS_NocashPrint = (\<lambda>_ _ s. s), DSi_SoftReset = (\<lambda>s. s), Unassigned = 0\<rparr>"

lemma arm7_zero_fields [simp]:
  "arm.Num arm7_zero = 1" "Cycles arm7_zero = 0" "R arm7_zero = (\<lambda>_. 0)" "CPSR arm7_zero = 0x1F"
  "CodeCycles arm7_zero = 0" "ExceptionBase arm7_zero = 0" "NDS arm7_zero = dma_init" "NextInstr arm7_zero = (\<lambda>_. 0)"
  "R_SVC arm7_zero = (\<lambda>_. 0x10)" "R_FIQ arm7_zero = (\<lambda>_. 0x10)" "R_IRQ arm7_zero = (\<lambda>_. 0x10)"
  "R_ABT arm7_zero = (\<lambda>_. 0x10)" "R_UND arm7_zero = (\<lambda>_. 0x10)"
  by (simp_all add: arm7_zero_def arm_zero_def arm.defs)

end
