(* ===== verification/Arm_Flags.thy ===== *)
theory Arm_Flags
  imports Arm_V4
begin

text \<open>
  What the data processing instructions compute: the flags against the addition of the
  architecture, the conditions after a comparison, the shifter, leading zeros, saturation
  and the long multiplications.
\<close>

section \<open>Addition with carry\<close>

text \<open>
  The sum and its flags as the architecture defines them: the carry says that the sum of the
  unsigned values does not fit, the overflow that the sum of the signed ones does not.
\<close>

definition AddWithCarry :: "u32 \<Rightarrow> u32 \<Rightarrow> bool \<Rightarrow> u32 \<times> bool \<times> bool" where
  "AddWithCarry x y cin =
     (let us = uint x + uint y + of_bool cin; ss = sint x + sint y + of_bool cin; r = word_of_int us
      in (r, uint r \<noteq> us, sint r \<noteq> ss))"

lemma uint_bounds: "0 \<le> uint (x :: u32)" "uint x < 4294967296"
  using unsigned_less [of x, where ?'a = int] by simp_all

lemma bit31_uint: "bit (x :: u32) 31 \<longleftrightarrow> 2147483648 \<le> uint x"
proof -
  have "bit x 31 \<longleftrightarrow> bit (uint x) 31" by (simp add: bit_uint_iff)
  also have "\<dots> \<longleftrightarrow> odd (uint x div 2147483648)" by (simp add: bit_iff_odd)
  also have "uint x div 2147483648 = (if 2147483648 \<le> uint x then 1 else 0)"
    using uint_bounds [of x] by (auto simp: div_pos_geq div_pos_pos_trivial)
  finally show ?thesis by auto
qed

lemma sint_uint32: "sint (x :: u32) = (if bit x 31 then uint x - 4294967296 else uint x)"
  using signed_take_bit_eq_take_bit_minus [of 31 "uint x"]
  by (simp add: sint_uint bit_uint_iff take_bit_int_eq_self uint_bounds)

lemma and_top: "(x :: u32) AND 0x80000000 \<noteq> 0 \<longleftrightarrow> bit x 31"
  using and_exp_eq_0_iff_not_bit [of x 31] by simp

lemma neg32_bit: "neg32 r \<longleftrightarrow> bit r 31"
  by (simp add: neg32_def and_top)

lemma uint_add32: "uint (a + b :: u32) = (if uint a + uint b < 4294967296 then uint a + uint b else uint a + uint b - 4294967296)"
  by (simp add: uint_plus_if')

lemma uint_sub32: "uint (a - b :: u32) = (if uint b \<le> uint a then uint a - uint b else uint a - uint b + 4294967296)"
  by (simp add: uint_sub_if')

lemma uint_not32: "uint (NOT (b :: u32)) = 4294967295 - uint b"
proof -
  have "NOT b = 0xFFFFFFFF - b" by (simp add: not_eq_complement)
  then show ?thesis using uint_bounds [of b] by (simp add: uint_sub32 uint_word_of_int_eq)
qed

lemmas arith32 = uint_add32 uint_sub32 uint_not32 sint_uint32 bit31_uint

lemma CarryAdd_uint: "CarryAdd a b \<longleftrightarrow> 4294967296 \<le> uint a + uint b"
  using uint_bounds [of a] by (simp add: CarryAdd_def word_less_def uint_sub32) linarith

lemma CarrySub_uint: "CarrySub a b \<longleftrightarrow> uint b \<le> uint a"
  by (simp add: CarrySub_def word_le_def)

lemma OverflowAdd_bits: "OverflowAdd a b \<longleftrightarrow> bit a 31 = bit b 31 \<and> bit a 31 \<noteq> bit (a + b) 31"
  by (simp add: OverflowAdd_def and_top bit_xor_iff)

lemma OverflowSub_bits: "OverflowSub a b \<longleftrightarrow> bit a 31 \<noteq> bit b 31 \<and> bit a 31 \<noteq> bit (a - b) 31"
  by (simp add: OverflowSub_def and_top bit_xor_iff)

lemma OverflowAdd_sint: "OverflowAdd a b \<longleftrightarrow> sint (a + b) \<noteq> sint a + sint b"
  by (auto simp: OverflowAdd_bits arith32) (use uint_bounds [of a] uint_bounds [of b] in linarith)+

lemma OverflowSub_sint: "OverflowSub a b \<longleftrightarrow> sint (a - b) \<noteq> sint a - sint b"
  by (auto simp: OverflowSub_bits arith32) (use uint_bounds [of a] uint_bounds [of b] in linarith)+

text \<open>The reference in terms of the 32-bit sum.\<close>

lemma AddWithCarry_eq:
  "AddWithCarry x y c =
     (let r = x + y + of_bool c
      in (r, uint r \<noteq> uint x + uint y + of_bool c, sint r \<noteq> sint x + sint y + of_bool c))"
proof -
  have "word_of_int (uint x + uint y + of_bool c) = x + y + of_bool c"
    by (simp add: of_int_add)
  then show ?thesis by (simp add: AddWithCarry_def Let_def)
qed

lemma awc_add: "AddWithCarry a b False = (a + b, CarryAdd a b, OverflowAdd a b)"
  using uint_bounds [of a] uint_bounds [of b]
  by (simp add: AddWithCarry_eq CarryAdd_uint OverflowAdd_sint uint_add32 Let_def linorder_not_less)

lemma not_plus_1: "a + NOT b + 1 = (a - b :: u32)"
  by (simp add: not_eq_complement)

lemma sint_not32: "sint (NOT (b :: u32)) = - 1 - sint b"
  using uint_bounds [of b] by (auto simp: arith32)

lemma awc_sub: "AddWithCarry a (NOT b) True = (a - b, CarrySub a b, OverflowSub a b)"
  using uint_bounds [of a] uint_bounds [of b]
  by (simp add: AddWithCarry_eq CarrySub_uint OverflowSub_sint uint_sub32 uint_not32 sint_not32 not_plus_1 Let_def)

lemma awc_adc:
  "AddWithCarry a b c =
     (let t = a + b; k = of_bool c
      in (t + k, CarryAdd a b \<or> CarryAdd t k, OverflowAdc a b k))"
proof -
  have "uint (of_bool c :: u32) = of_bool c" by (cases c) simp_all
  then show ?thesis
    using uint_bounds [of a] uint_bounds [of b]
    by (cases c) (auto simp: AddWithCarry_eq CarryAdd_uint OverflowAdc_def uint_add32 Let_def)
qed

lemma awc_sbc:
  "AddWithCarry a (NOT b) c =
     (let t = a - b; k = of_bool (\<not> c)
      in (t - k, CarrySub a b \<and> CarrySub t k, OverflowSbc a b k))"
proof (cases c)
  case True
  then show ?thesis by (simp add: awc_sub OverflowSub_sint OverflowSbc_def CarrySub_uint Let_def)
next
  case False
  have n: "a + NOT b = a - b - 1" by (simp add: not_eq_complement)
  then show ?thesis using False
    by (auto simp: AddWithCarry_eq OverflowSbc_def CarrySub_uint Let_def uint_not32 sint_not32 uint_sub32 n)
      (use uint_bounds [of a] uint_bounds [of b] in linarith)+
qed

text \<open>The flags of an addition, and the result, as an instruction that sets flags delivers them.\<close>

definition add_flags :: "u32 \<Rightarrow> u32 \<Rightarrow> bool \<Rightarrow> 'w arm_scheme \<Rightarrow> 'w arm_scheme" where
  "add_flags x y cin cpu =
     (let (res, carry, overflow) = AddWithCarry x y cin in SetNZCV (bit res 31) (res = 0) carry overflow cpu)"

abbreviation op1 :: "'w arm_scheme \<Rightarrow> u32" where
  "op1 cpu \<equiv> R cpu (ifield 16 0xF cpu)"

definition carry_flag :: "'w arm_scheme \<Rightarrow> bool" where
  "carry_flag cpu \<longleftrightarrow> bit (CPSR cpu) 29"

lemma and_carry: "p AND 0x20000000 \<noteq> 0 \<longleftrightarrow> bit (p :: u32) 29"
  using and_exp_eq_0_iff_not_bit [of p 29] by simp

lemma carry_in_flag: "carry_in cpu = of_bool (carry_flag cpu)" "borrow_in cpu = of_bool (\<not> carry_flag cpu)"
  by (simp_all add: carry_in_def borrow_in_def carry_flag_def and_carry)

lemmas awc_defs = add_flags_def neg32_bit awc_add awc_sub Let_def

text \<open>
  C17: the carry and overflow tests of the interpreter are those of the architecture. The six
  arithmetic operations that set flags, and the two comparisons, deliver the result and the
  flags of the architecture's addition with carry: a subtraction adds the complement with
  the carry set, and the forms with carry use the carry flag.
\<close>

theorem ALU_arithmetic_flags:
  shows "A_ADD_S vt c b cpu = alu_write_S vt (fst (AddWithCarry (op1 cpu) b False)) (alu_cycles vt c (add_flags (op1 cpu) b False cpu)) \<and>
    A_SUB_S vt c b cpu = alu_write_S vt (fst (AddWithCarry (op1 cpu) (NOT b) True)) (alu_cycles vt c (add_flags (op1 cpu) (NOT b) True cpu)) \<and>
    A_RSB_S vt c b cpu = alu_write_S vt (fst (AddWithCarry b (NOT (op1 cpu)) True)) (alu_cycles vt c (add_flags b (NOT (op1 cpu)) True cpu)) \<and>
    A_ADC_S vt c b cpu =
      alu_write_S vt (fst (AddWithCarry (op1 cpu) b (carry_flag cpu))) (alu_cycles vt c (add_flags (op1 cpu) b (carry_flag cpu) cpu)) \<and>
    A_SBC_S vt c b cpu =
      alu_write_S vt (fst (AddWithCarry (op1 cpu) (NOT b) (carry_flag cpu))) (alu_cycles vt c (add_flags (op1 cpu) (NOT b) (carry_flag cpu) cpu)) \<and>
    A_RSC_S vt c b cpu =
      alu_write_S vt (fst (AddWithCarry b (NOT (op1 cpu)) (carry_flag cpu))) (alu_cycles vt c (add_flags b (NOT (op1 cpu)) (carry_flag cpu) cpu)) \<and>
    A_CMP vt c b cpu = alu_cycles vt c (add_flags (op1 cpu) (NOT b) True cpu) \<and>
    A_CMN vt c b cpu = alu_cycles vt c (add_flags (op1 cpu) b False cpu)"
  apply (intro conjI)
         apply (simp add: A_ADD_S_def awc_defs)
        apply (simp add: A_SUB_S_def awc_defs)
       apply (simp add: A_RSB_S_def awc_defs)
      apply (simp add: A_ADC_S_def add_flags_def neg32_bit Let_def awc_adc carry_in_flag)
     apply (simp add: A_SBC_S_def add_flags_def neg32_bit Let_def awc_sbc carry_in_flag)
    apply (simp add: A_RSC_S_def add_flags_def neg32_bit Let_def awc_sbc carry_in_flag)
   apply (simp add: A_CMP_def awc_defs)
  apply (simp add: A_CMN_def awc_defs)
  done

section \<open>Conditions after a comparison\<close>

text \<open>The four flags after \<open>SetNZCV\<close>, and the condition table on them.\<close>

lemma SetNZCV_bits:
  "bit (CPSR (SetNZCV n z c v cpu)) 31 = n" "bit (CPSR (SetNZCV n z c v cpu)) 30 = z"
  "bit (CPSR (SetNZCV n z c v cpu)) 29 = c" "bit (CPSR (SetNZCV n z c v cpu)) 28 = v"
  by (simp_all add: SetNZCV_def Let_def bit_simps)


lemma flag_nibble:
  fixes p :: u32
  defines "k \<equiv> unat (drop_bit 28 p)"
  shows "k < 16" "bit k 3 = bit p 31" "bit k 2 = bit p 30" "bit k 1 = bit p 29" "bit k 0 = bit p 28"
proof -
  have "unat p < 2 ^ 32" using unsigned_less [of p, where ?'a = nat] by simp
  then show "k < 16" by (simp add: k_def unat_shr less_mult_imp_div_less)
qed (simp_all add: k_def bit_unsigned_iff bit_drop_bit_eq flip: bit_0)

text \<open>The sixteen masks, evaluated at the sixteen values of the flags.\<close>

lemma ConditionTable_masks:
  "list_all (\<lambda>k. let n = bit k 3; z = bit k 2; c = bit k 1; v = bit k 0
     in map (\<lambda>m. bit m k) ConditionTable =
          [z, \<not> z, c, \<not> c, n, \<not> n, v, \<not> v, c \<and> \<not> z, \<not> c \<or> z, n = v, n \<noteq> v,
           \<not> z \<and> n = v, z \<or> n \<noteq> v, True, False]) [0..<16]"
  by code_simp

lemma ConditionTable_nth:
  assumes "k < 16"
  shows "map (\<lambda>m. bit m k) ConditionTable =
    [bit k 2, \<not> bit k 2, bit k 1, \<not> bit k 1, bit k 3, \<not> bit k 3, bit k 0, \<not> bit k 0, bit k 1 \<and> \<not> bit k 2,
     \<not> bit k 1 \<or> bit k 2, bit k 3 = bit k 0, bit k 3 \<noteq> bit k 0, \<not> bit k 2 \<and> bit k 3 = bit k 0,
     bit k 2 \<or> bit k 3 \<noteq> bit k 0, True, False]"
  using ConditionTable_masks assms by (simp add: list_all_iff Let_def)

lemma CheckCondition_bit: "CheckCondition code cpu \<longleftrightarrow> code = 14 \<or> bit (ConditionTable ! code) (unat (drop_bit 28 (CPSR cpu)))"
  by (simp add: CheckCondition_def and_exp_eq_0_iff_not_bit)

lemma CheckCondition_flags:
  fixes cpu :: "'w arm_scheme"
  defines "p \<equiv> CPSR cpu"
  shows "CheckCondition 0x0 cpu \<longleftrightarrow> bit p 30" "CheckCondition 0x1 cpu \<longleftrightarrow> \<not> bit p 30"
    "CheckCondition 0x2 cpu \<longleftrightarrow> bit p 29" "CheckCondition 0x3 cpu \<longleftrightarrow> \<not> bit p 29"
    "CheckCondition 0x4 cpu \<longleftrightarrow> bit p 31" "CheckCondition 0x5 cpu \<longleftrightarrow> \<not> bit p 31"
    "CheckCondition 0x6 cpu \<longleftrightarrow> bit p 28" "CheckCondition 0x7 cpu \<longleftrightarrow> \<not> bit p 28"
    "CheckCondition 0x8 cpu \<longleftrightarrow> bit p 29 \<and> \<not> bit p 30" "CheckCondition 0x9 cpu \<longleftrightarrow> \<not> bit p 29 \<or> bit p 30"
    "CheckCondition 0xA cpu \<longleftrightarrow> bit p 31 = bit p 28" "CheckCondition 0xB cpu \<longleftrightarrow> bit p 31 \<noteq> bit p 28"
    "CheckCondition 0xC cpu \<longleftrightarrow> \<not> bit p 30 \<and> bit p 31 = bit p 28"
    "CheckCondition 0xD cpu \<longleftrightarrow> bit p 30 \<or> bit p 31 \<noteq> bit p 28"
    "CheckCondition 0xE cpu" "\<not> CheckCondition 0xF cpu"
proof -
  let ?k = "unat (drop_bit 28 p)"
  have *: "bit (ConditionTable ! i) ?k = map (\<lambda>m. bit m ?k) ConditionTable ! i" if "i < 16" for i
  proof -
    have "length ConditionTable = 16" by (simp add: ConditionTable_def)
    then show ?thesis using that by (simp only: nth_map)
  qed
  note c = CheckCondition_bit [of _ cpu, folded p_def] and n = ConditionTable_nth [OF flag_nibble(1) [of p]]
  show "CheckCondition 0x0 cpu \<longleftrightarrow> bit p 30" "CheckCondition 0x1 cpu \<longleftrightarrow> \<not> bit p 30"
    "CheckCondition 0x2 cpu \<longleftrightarrow> bit p 29" "CheckCondition 0x3 cpu \<longleftrightarrow> \<not> bit p 29"
    "CheckCondition 0x4 cpu \<longleftrightarrow> bit p 31" "CheckCondition 0x5 cpu \<longleftrightarrow> \<not> bit p 31"
    "CheckCondition 0x6 cpu \<longleftrightarrow> bit p 28" "CheckCondition 0x7 cpu \<longleftrightarrow> \<not> bit p 28"
    "CheckCondition 0x8 cpu \<longleftrightarrow> bit p 29 \<and> \<not> bit p 30" "CheckCondition 0x9 cpu \<longleftrightarrow> \<not> bit p 29 \<or> bit p 30"
    "CheckCondition 0xA cpu \<longleftrightarrow> bit p 31 = bit p 28" "CheckCondition 0xB cpu \<longleftrightarrow> bit p 31 \<noteq> bit p 28"
    "CheckCondition 0xC cpu \<longleftrightarrow> \<not> bit p 30 \<and> bit p 31 = bit p 28"
    "CheckCondition 0xD cpu \<longleftrightarrow> bit p 30 \<or> bit p 31 \<noteq> bit p 28"
    "CheckCondition 0xE cpu" "\<not> CheckCondition 0xF cpu"
    by (simp_all add: c * n flag_nibble flag_nibble(4) [unfolded One_nat_def])
qed

text \<open>
  C30: after a comparison the condition codes decide the order of the operands. With \<open>a\<close> the
  first operand and \<open>b\<close> the second, EQ and NE test equality, CS, CC, HI and LS the unsigned
  order, GE, LT, GT and LE the signed one.
\<close>

theorem CMP_conditions:
  fixes cpu :: "'b arm7"
  shows "(CheckCondition 0x0 (A_CMP (vt7 dev hk) c b cpu) \<longleftrightarrow> op1 cpu = b) \<and>
    (CheckCondition 0x1 (A_CMP (vt7 dev hk) c b cpu) \<longleftrightarrow> op1 cpu \<noteq> b) \<and>
    (CheckCondition 0x2 (A_CMP (vt7 dev hk) c b cpu) \<longleftrightarrow> b \<le> op1 cpu) \<and>
    (CheckCondition 0x3 (A_CMP (vt7 dev hk) c b cpu) \<longleftrightarrow> op1 cpu < b) \<and>
    (CheckCondition 0x8 (A_CMP (vt7 dev hk) c b cpu) \<longleftrightarrow> b < op1 cpu) \<and>
    (CheckCondition 0x9 (A_CMP (vt7 dev hk) c b cpu) \<longleftrightarrow> op1 cpu \<le> b) \<and>
    (CheckCondition 0xA (A_CMP (vt7 dev hk) c b cpu) \<longleftrightarrow> sint b \<le> sint (op1 cpu)) \<and>
    (CheckCondition 0xB (A_CMP (vt7 dev hk) c b cpu) \<longleftrightarrow> sint (op1 cpu) < sint b) \<and>
    (CheckCondition 0xC (A_CMP (vt7 dev hk) c b cpu) \<longleftrightarrow> sint b < sint (op1 cpu)) \<and>
    (CheckCondition 0xD (A_CMP (vt7 dev hk) c b cpu) \<longleftrightarrow> sint (op1 cpu) \<le> sint b)"
proof (intro conjI)
  let ?a = "op1 cpu"
  let ?s = "SetNZCV (neg32 (?a - b)) (?a - b = 0) (CarrySub ?a b) (OverflowSub ?a b) cpu"
  have p: "CPSR (A_CMP (vt7 dev hk) c b cpu) = CPSR ?s"
    by (simp add: A_CMP_def alu_cycles_def vt7_def ARMv4_AddCycles_C_def ARMv4_AddCycles_CI_def Let_def)
  have s: "bit (?a - b) 31 = OverflowSub ?a b \<longleftrightarrow> sint b \<le> sint ?a"
    unfolding OverflowSub_sint
    by (auto simp: arith32) (use uint_bounds [of ?a] uint_bounds [of b] in linarith)+
  have i: "sint ?a = sint b \<longleftrightarrow> ?a = b" by (rule word_eq_iff_signed [symmetric])
  note f = CheckCondition_flags [of "A_CMP (vt7 dev hk) c b cpu", unfolded p SetNZCV_bits neg32_bit]
  show "CheckCondition 0x0 (A_CMP (vt7 dev hk) c b cpu) \<longleftrightarrow> ?a = b"
    "CheckCondition 0x1 (A_CMP (vt7 dev hk) c b cpu) \<longleftrightarrow> ?a \<noteq> b"
    by (simp_all only: f right_minus_eq)
  show "CheckCondition 0x2 (A_CMP (vt7 dev hk) c b cpu) \<longleftrightarrow> b \<le> ?a"
    "CheckCondition 0x3 (A_CMP (vt7 dev hk) c b cpu) \<longleftrightarrow> ?a < b"
    "CheckCondition 0x8 (A_CMP (vt7 dev hk) c b cpu) \<longleftrightarrow> b < ?a"
    "CheckCondition 0x9 (A_CMP (vt7 dev hk) c b cpu) \<longleftrightarrow> ?a \<le> b"
    by (auto simp: f CarrySub_def)
  show "CheckCondition 0xA (A_CMP (vt7 dev hk) c b cpu) \<longleftrightarrow> sint b \<le> sint ?a"
    "CheckCondition 0xB (A_CMP (vt7 dev hk) c b cpu) \<longleftrightarrow> sint ?a < sint b"
    "CheckCondition 0xC (A_CMP (vt7 dev hk) c b cpu) \<longleftrightarrow> sint b < sint ?a"
    "CheckCondition 0xD (A_CMP (vt7 dev hk) c b cpu) \<longleftrightarrow> sint ?a \<le> sint b"
    using s i by (auto simp: f)
qed

section \<open>The shifter\<close>

text \<open>
  The shifts of the architecture for an amount \<open>n > 0\<close>, with the carry they give, on the
  integer value of the operand: the last bit shifted out.
\<close>

definition LSL_C :: "u32 \<Rightarrow> nat \<Rightarrow> u32 \<times> bool" where
  "LSL_C x n = (word_of_int (uint x * 2 ^ n), bit (uint x * 2 ^ n) 32)"

definition LSR_C :: "u32 \<Rightarrow> nat \<Rightarrow> u32 \<times> bool" where
  "LSR_C x n = (word_of_int (uint x div 2 ^ n), bit (uint x) (n - 1))"

definition ASR_C :: "u32 \<Rightarrow> nat \<Rightarrow> u32 \<times> bool" where
  "ASR_C x n = (word_of_int (sint x div 2 ^ n), bit (sint x) (n - 1))"

definition ROR_C :: "u32 \<Rightarrow> nat \<Rightarrow> u32 \<times> bool" where
  "ROR_C x n = (let r = word_rotr n x in (r, bit r 31))"

definition RRX_C :: "u32 \<Rightarrow> bool \<Rightarrow> u32 \<times> bool" where
  "RRX_C x c = (word_of_int (uint x div 2 + (if c then 2147483648 else 0)), odd (uint x))"

text \<open>An amount of 0 leaves the operand and the carry flag alone.\<close>

definition shift_S :: "(u32 \<Rightarrow> nat \<Rightarrow> u32 \<times> bool) \<Rightarrow> u32 \<Rightarrow> nat \<Rightarrow> 'w arm_scheme \<Rightarrow> u32 \<times> 'w arm_scheme" where
  "shift_S f x n cpu = (if n = 0 then (x, cpu) else let (r, c) = f x n in (r, SetC c cpu))"

lemma and_bit: "(x :: u32) AND push_bit k 1 \<noteq> 0 \<longleftrightarrow> bit x k"
  by (simp add: and_exp_eq_0_iff_not_bit)

lemma bit_u32_range: "bit (x :: u32) k \<Longrightarrow> k < 32"
  by (drule bit_imp_le_length) simp

lemma LSL_C_eq: "LSL_C x n = (push_bit n x, n \<le> 32 \<and> bit x (32 - n))"
  by (auto simp: LSL_C_def bit_uint_iff bit_push_bit_iff simp flip: push_bit_eq_mult push_bit_of_int
    intro!: bit_word_eqI dest: bit_u32_range)

lemma LSR_C_eq: "LSR_C x n = (drop_bit n x, bit x (n - 1))"
  by (auto simp: LSR_C_def bit_simps bit_uint_iff simp flip: drop_bit_eq_div intro!: bit_word_eqI dest: bit_u32_range)

lemma ASR_C_eq: "ASR_C x n = (signed_drop_bit n x, bit x (min (n - 1) 31))"
proof -
  have "word_of_int (drop_bit n (sint x)) = signed_drop_bit n x"
  proof (rule bit_word_eqI)
    fix k assume k: "k < LENGTH(32)"
    have "(if 32 - n \<le> k then LENGTH(32) - 1 else n + k) = (if n + k < 31 then n + k else 31)"
      using k by auto
    then show "bit (word_of_int (drop_bit n (sint x)) :: u32) k = bit (signed_drop_bit n x) k"
      using k by (simp add: bit_simps bit_sint_iff min_def)
  qed
  then show ?thesis by (auto simp: ASR_C_def bit_sint_iff min_def drop_bit_eq_div dest: bit_u32_range)
qed

lemma ROR_rotr: "ROR x n = word_rotr n x"
proof (rule bit_word_eqI)
  fix k assume k: "k < LENGTH(32)"
  let ?m = "n mod 32"
  have m: "?m < 32" by simp
  have "(k + n) mod 32 = (k + ?m) mod 32" by (simp add: mod_add_right_eq)
  also have "\<dots> = (if k + ?m < 32 then k + ?m else k + ?m - 32)"
    using k m by (auto simp: le_mod_geq not_less)
  finally have r: "(k + n) mod 32 = (if k + ?m < 32 then k + ?m else k + ?m - 32)" .
  have l: "(32 - ?m) mod 32 = (if ?m = 0 then 0 else 32 - ?m)" by simp
  have "bit x (?m + k) \<Longrightarrow> k + ?m < 32" by (drule bit_u32_range) simp
  then show "bit (ROR x n) k = bit (word_rotr n x) k"
    using k m by (auto simp: ROR_def bit_simps r l add.commute split: if_splits)
qed

lemma RRX_C_eq: "RRX_C x c = (drop_bit 1 x OR (if c then 0x80000000 else 0), bit x 0)"
proof -
  have w: "(word_of_int (uint x div 2) :: u32) = drop_bit 1 x"
    using LSR_C_eq [of x 1] by (simp add: LSR_C_def)
  have "drop_bit 1 x AND 0x80000000 = 0"
    using and_exp_eq_0_iff_not_bit [of "drop_bit 1 x" 31] bit_u32_range [of x 32] by (auto simp: bit_drop_bit_eq)
  then have "drop_bit 1 x + 0x80000000 = drop_bit 1 x OR 0x80000000" by (rule disjunctive_add_eq_or)
  moreover have "odd (uint x) = bit x 0" using bit_uint_iff [of x 0] by (simp add: bit_0)
  ultimately show ?thesis by (simp add: RRX_C_def w)
qed

lemma ROR_mod: "ROR x (n mod 32) = ROR x n"
  by (simp add: ROR_def)

lemma ROR_0: "ROR x 0 = x"
  by (simp add: ROR_def)

lemma ROR_C_eq: "n > 0 \<Longrightarrow> ROR_C x n = (ROR x n, bit x ((n - 1) mod 32))"
proof -
  assume "n > 0"
  then have "(31 + n) mod 32 = (n - 1 + 32) mod 32" by (simp add: add.commute)
  then have "(31 + n) mod 32 = (n - 1) mod 32" by simp
  then show ?thesis by (simp add: ROR_C_def ROR_rotr bit_word_rotr_iff Let_def)
qed

lemma RRX_carry: "push_bit 2 (CPSR cpu AND 0x20000000) = (if carry_flag cpu then 0x80000000 else 0)"
proof -
  have "CPSR cpu AND 0x20000000 = (if bit (CPSR cpu) 29 then 0x20000000 else 0)"
    using and_exp_cases [of "CPSR cpu" 29] and_carry [of "CPSR cpu"] by auto
  then show ?thesis by (simp add: carry_flag_def)
qed

lemma and_1_bit: "x AND 1 = (0 :: u32) \<longleftrightarrow> \<not> bit x 0"
  using and_exp_eq_0_iff_not_bit [of x 0] by simp

text \<open>
  C19: the shifter is the shifter of the architecture. For every amount of a register, and every amount an instruction can hold (0 to 31, where 0 stands for 32 in a right
  shift and for a rotation through the carry in a rotation), the forms that set the carry
  deliver the value and the carry of the reference shifts, and the others the same value.
\<close>

theorem shifter_correct:
  assumes "i < 32"
  shows "LSL_REG_S x s cpu = shift_S LSL_C x s cpu \<and>
    LSR_REG_S x s cpu = shift_S LSR_C x s cpu \<and>
    ASR_REG_S x s cpu = shift_S ASR_C x s cpu \<and>
    ROR_REG_S x s cpu = shift_S ROR_C x s cpu \<and>
    LSL_IMM_S x i cpu = shift_S LSL_C x i cpu \<and>
    LSR_IMM_S x i cpu = shift_S LSR_C x (if i = 0 then 32 else i) cpu \<and>
    ASR_IMM_S x i cpu = shift_S ASR_C x (if i = 0 then 32 else i) cpu \<and>
    ROR_IMM_S x i cpu =
      (if i = 0 then let (r, c) = RRX_C x (carry_flag cpu) in (r, SetC c cpu) else shift_S ROR_C x i cpu) \<and>
    LSL_REG x s cpu = (fst (LSL_REG_S x s cpu), cpu) \<and>
    LSR_REG x s cpu = (fst (LSR_REG_S x s cpu), cpu) \<and>
    ASR_REG x s cpu = (fst (ASR_REG_S x s cpu), cpu) \<and>
    ROR_REG x s cpu = (fst (ROR_REG_S x s cpu), cpu) \<and>
    LSL_IMM x i cpu = (fst (LSL_IMM_S x i cpu), cpu) \<and>
    LSR_IMM x i cpu = (fst (LSR_IMM_S x i cpu), cpu) \<and>
    ASR_IMM x i cpu = (fst (ASR_IMM_S x i cpu), cpu) \<and>
    ROR_IMM x i cpu = (fst (ROR_IMM_S x i cpu), cpu)"
proof (intro conjI)
  have e: "push_bit s x = 0" "drop_bit s x = 0" if "s > 31" for s
    using that by (auto intro!: bit_word_eqI simp: bit_simps dest: bit_u32_range)
  have h: "\<not> bit x (s - Suc 0)" if "s > 32" for s
    using that by (auto dest: bit_u32_range)
  have a: "signed_drop_bit s x = signed_drop_bit 31 x" if "s > 31" for s
    using that by (intro bit_word_eqI) (auto simp: bit_simps min_def not_less_eq_eq)
  show "LSL_REG_S x s cpu = shift_S LSL_C x s cpu"
    by (auto simp: LSL_REG_S_def shift_S_def LSL_C_eq and_exp_eq_0_iff_not_bit and_1_bit e)
  show "LSR_REG_S x s cpu = shift_S LSR_C x s cpu"
    by (cases "s = 32") (auto simp: LSR_REG_S_def shift_S_def LSR_C_eq and_exp_eq_0_iff_not_bit and_top e h)
  show "ASR_REG_S x s cpu = shift_S ASR_C x s cpu"
    by (auto simp: ASR_REG_S_def shift_S_def ASR_C_eq and_exp_eq_0_iff_not_bit and_top a)
  show "ROR_REG_S x s cpu = shift_S ROR_C x s cpu"
    by (simp add: ROR_REG_S_def shift_S_def ROR_C_eq ROR_mod ROR_0 and_exp_eq_0_iff_not_bit Let_def)
  show "LSL_IMM_S x i cpu = shift_S LSL_C x i cpu"
    using assms by (auto simp: LSL_IMM_S_def shift_S_def LSL_C_eq and_exp_eq_0_iff_not_bit)
  show "LSR_IMM_S x i cpu = shift_S LSR_C x (if i = 0 then 32 else i) cpu"
    by (auto simp: LSR_IMM_S_def shift_S_def LSR_C_eq and_exp_eq_0_iff_not_bit and_top e)
  show "ASR_IMM_S x i cpu = shift_S ASR_C x (if i = 0 then 32 else i) cpu"
    using assms by (auto simp: ASR_IMM_S_def shift_S_def ASR_C_eq and_exp_eq_0_iff_not_bit and_top a [of 32])
  show "ROR_IMM_S x i cpu =
      (if i = 0 then let (r, c) = RRX_C x (carry_flag cpu) in (r, SetC c cpu) else shift_S ROR_C x i cpu)"
    using assms unfolding ROR_IMM_S_def RRX_carry
    by (simp add: shift_S_def ROR_C_eq RRX_C_eq and_exp_eq_0_iff_not_bit Let_def and_1_bit)
  show "LSL_REG x s cpu = (fst (LSL_REG_S x s cpu), cpu)" "LSR_REG x s cpu = (fst (LSR_REG_S x s cpu), cpu)"
    "ASR_REG x s cpu = (fst (ASR_REG_S x s cpu), cpu)" "ROR_REG x s cpu = (fst (ROR_REG_S x s cpu), cpu)"
    by (auto simp: LSL_REG_def LSL_REG_S_def LSR_REG_def LSR_REG_S_def ASR_REG_def ASR_REG_S_def ROR_REG_def
      ROR_REG_S_def)
  show "LSL_IMM x i cpu = (fst (LSL_IMM_S x i cpu), cpu)" "LSR_IMM x i cpu = (fst (LSR_IMM_S x i cpu), cpu)"
    "ASR_IMM x i cpu = (fst (ASR_IMM_S x i cpu), cpu)" "ROR_IMM x i cpu = (fst (ROR_IMM_S x i cpu), cpu)"
    by (auto simp: LSL_IMM_def LSL_IMM_S_def LSR_IMM_def LSR_IMM_S_def ASR_IMM_def ASR_IMM_S_def ROR_IMM_def
      ROR_IMM_S_def)
qed

theorem shifter_correct_witness:
  "LSR_IMM_S 0x80000000 0 (arm_zero 0) = (0, SetC True (arm_zero 0)) \<and>
   ASR_IMM_S 0xFFFFFFF8 4 (arm_zero 0) = (0xFFFFFFFF, SetC True (arm_zero 0)) \<and>
   ROR_IMM_S 1 0 (arm_zero 0) = (0, SetC True (arm_zero 0))"
  using shifter_correct [of 0 "0x80000000" 0 "arm_zero 0"] shifter_correct [of 4 "0xFFFFFFF8" 0 "arm_zero 0"]
    shifter_correct [of 0 1 0 "arm_zero 0"]
  by (simp add: shift_S_def LSR_C_def ASR_C_def RRX_C_def sint_uint32 carry_flag_def arm_zero_def)

section \<open>Leading zeros\<close>

definition leading_zeros :: "u32 \<Rightarrow> nat" where
  "leading_zeros v = length (takeWhile Not (map (\<lambda>i. bit v (31 - i)) [0..<32]))"

lemma takeWhile_stop: "takeWhile Not (xs @ replicate (Suc k) True) = takeWhile Not xs"
  by (induction xs) simp_all

text \<open>Shifting in ones from the right leaves the leading zeros that remain.\<close>

lemma leading_zeros_shift:
  assumes v: "take_bit (32 - k) v = v" and k: "0 < k" "k < 32"
  shows "leading_zeros v = k + leading_zeros (push_bit k v OR mask k)"
proof -
  let ?low = "map (\<lambda>i. bit v (31 - k - i)) [0..<32 - k]"
  let ?w = "push_bit k v OR mask k"
  have b: "n < 32 - k" if "bit v n" for n
    using that v by (metis bit_take_bit_iff)
  have z: "\<not> bit v (31 - i)" if "i < k" for i
    using b [of "31 - i"] that k by auto
  have s: "[0..<32] = [0..<k] @ [k..<32]" "[0..<32] = [0..<32 - k] @ [32 - k..<32]"
    using upt_add_eq_append [of 0 k "32 - k"] upt_add_eq_append [of 0 "32 - k" k] k by simp_all
  have "map (\<lambda>i. bit v (31 - i)) [0..<k] = replicate k False"
    using z by (simp add: map_replicate_const list_eq_iff_nth_eq)
  moreover have "map (\<lambda>i. bit v (31 - i)) [k..<32] = ?low"
    using k by (simp add: list_eq_iff_nth_eq diff_diff_left)
  ultimately have a: "leading_zeros v = k + length (takeWhile Not ?low)"
    unfolding leading_zeros_def s(1) map_append by (simp add: takeWhile_append)
  have "map (\<lambda>i. bit ?w (31 - i)) [0..<32 - k] = ?low"
    using k by (auto simp: list_eq_iff_nth_eq bit_simps add.commute)
  moreover have "map (\<lambda>i. bit ?w (31 - i)) [32 - k..<32] = replicate (Suc (k - 1)) True"
    using k by (auto simp: list_eq_iff_nth_eq bit_simps)
  ultimately have "leading_zeros ?w = length (takeWhile Not ?low)"
    unfolding leading_zeros_def s(2) map_append by (simp only: takeWhile_stop)
  with a show ?thesis by simp
qed

lemma clz_bytes_zeros: "clz_bytes res v = (r, w) \<Longrightarrow> r + of_nat (leading_zeros w) = res + of_nat (leading_zeros v)"
proof (induction res v rule: clz_bytes.induct)
  case (1 res v)
  show ?case
  proof (cases "v AND 0xFF000000 = 0")
    case True
    then have "leading_zeros v = 8 + leading_zeros (push_bit 8 v OR 0xFF)"
      using leading_zeros_shift [of 8 v] by (simp add: top_clear_24 mask_numeral)
    with 1 True show ?thesis by (simp add: clz_bytes.simps [of res v])
  qed (use 1 in \<open>simp add: clz_bytes.simps [of res v]\<close>)
qed

lemma leading_zeros_top: "bit v 31 \<Longrightarrow> leading_zeros v = 0"
  by (simp add: leading_zeros_def upt_rec)

lemma clz_bits_zeros: "clz_bits res v = (r, w) \<Longrightarrow> r = res + of_nat (leading_zeros v)"
proof (induction res v rule: clz_bits.induct)
  case (1 res v)
  show ?case
  proof (cases "v AND 0x80000000 = 0")
    case True
    then have "leading_zeros v = 1 + leading_zeros (push_bit 1 v OR 0x1)"
      using leading_zeros_shift [of 1 v] by (simp add: top_clear_31 mask_numeral)
    with 1 True show ?thesis by (simp add: clz_bits.simps [of res v])
  next
    case False
    then have "leading_zeros v = 0" using and_top [of v] by (simp add: leading_zeros_top)
    with 1 False show ?thesis by (simp add: clz_bits.simps [of res v])
  qed
qed

text \<open>
  \<^verbatim>\<open>A_CLZ\<close> ends for every operand, zero included, and gives the number of leading zeros.
\<close>

theorem CLZ_counts:
  assumes "arm.Num cpu = 0"
  shows "A_CLZ vt cpu =
    AddCycles_C vt (setR (ifield 12 0xF cpu) (of_nat (leading_zeros (R cpu (ifield 0 0xF cpu)))) cpu)"
proof -
  obtain r w where b: "clz_bytes 0 (R cpu (ifield 0 0xF cpu)) = (r, w)" by fastforce
  obtain r' w' where c: "clz_bits r w = (r', w')" by fastforce
  have "r' = of_nat (leading_zeros (R cpu (ifield 0 0xF cpu)))"
    using clz_bits_zeros [OF c] clz_bytes_zeros [OF b] by simp
  with assms b c show ?thesis by (simp add: A_CLZ_def Let_def)
qed

text \<open>A vtable whose methods leave the state as it is, for examples.\<close>

definition vt_idle :: "'s vtable" where
  "vt_idle =
     \<lparr>JumpTo = (\<lambda>_ _ s. s), DataRead8 = (\<lambda>_ s. (Some 0, s)), DataRead16 = (\<lambda>_ s. (Some 0, s)),
      DataRead32 = (\<lambda>_ s. (Some 0, s)), DataRead32S = (\<lambda>_ s. (Some 0, s)), DataWrite8 = (\<lambda>_ _ s. s),
      DataWrite16 = (\<lambda>_ _ s. s), DataWrite32 = (\<lambda>_ _ s. s), DataWrite32S = (\<lambda>_ _ s. s), AddCycles_C = (\<lambda>s. s),
      AddCycles_CI = (\<lambda>_ s. s), AddCycles_CDI = (\<lambda>s. s), AddCycles_CD = (\<lambda>s. s), CP15Write = (\<lambda>_ _ s. s),
      CP15Read = (\<lambda>_ _. 0), ClearStops = (\<lambda>s. s), NDS_IF_IE7 = (\<lambda>_. 0), RunCheats = (\<lambda>s. s), NocashPrint = (\<lambda>_ _ s. s), Undef = 0\<rparr>"

theorem CLZ_counts_witness:
  "R (A_CLZ vt_idle ((arm_zero 0)\<lparr>CurInstr := 0xE16F1F10\<rparr>)) 1 = 32"
  using CLZ_counts [of "(arm_zero 0)\<lparr>CurInstr := 0xE16F1F10\<rparr>" vt_idle]
  by (simp add: arm_zero_def vt_idle_def setR_def ifield_def leading_zeros_def upt_rec)

section \<open>Saturation\<close>

definition clamp :: "int \<Rightarrow> int" where
  "clamp i = max (- 2147483648) (min 2147483647 i)"

definition satQ :: "bool \<Rightarrow> 'w arm_scheme \<Rightarrow> 'w arm_scheme" where
  "satQ q cpu = (if q then setQ cpu else cpu)"

lemma sint_bounds: "- 2147483648 \<le> sint (x :: u32)" "sint x < 2147483648"
  using sint_greater_eq [of x] sint_less [of x] by simp_all

lemma word_of_int_sint: "word_of_int (sint x) = (x :: u32)"
  by (metis scast_id of_int_sint)

lemma clamp_fits: "clamp (sint (x :: u32)) = sint x"
  using sint_bounds [of x] by (simp add: clamp_def)

lemma q_add_clamp:
  "q_add a b cpu = (word_of_int (clamp (sint a + sint b)), satQ (clamp (sint a + sint b) \<noteq> sint a + sint b) cpu)"
proof (cases "OverflowAdd a b")
  case False
  then have s: "sint a + sint b = sint (a + b)" by (simp add: OverflowAdd_sint)
  show ?thesis using False by (simp add: q_add_def s clamp_fits word_of_int_sint satQ_def)
next
  case True
  then have o: "bit a 31 = bit b 31" "bit (a + b) 31 \<noteq> bit a 31" by (auto simp: OverflowAdd_bits)
  show ?thesis
  proof (cases "bit a 31")
    case True
    then have "sint a + sint b < - 2147483648" using o by (auto simp: arith32)
    moreover from this have "clamp (sint a + sint b) = - 2147483648" by (simp add: clamp_def)
    ultimately show ?thesis
      using True o \<open>OverflowAdd a b\<close> by (simp add: q_add_def sat_bound_def and_top satQ_def)
  next
    case False
    then have "2147483648 \<le> sint a + sint b" using o by (auto simp: arith32)
    moreover from this have "clamp (sint a + sint b) = 2147483647" by (simp add: clamp_def)
    ultimately show ?thesis
      using False o \<open>OverflowAdd a b\<close> by (simp add: q_add_def sat_bound_def and_top satQ_def)
  qed
qed

lemma q_sub_clamp:
  "q_sub a b cpu = (word_of_int (clamp (sint a - sint b)), satQ (clamp (sint a - sint b) \<noteq> sint a - sint b) cpu)"
proof (cases "OverflowSub a b")
  case False
  then have s: "sint a - sint b = sint (a - b)" by (simp add: OverflowSub_sint)
  show ?thesis using False by (simp add: q_sub_def s clamp_fits word_of_int_sint satQ_def)
next
  case True
  then have o: "bit a 31 \<noteq> bit b 31" "bit (a - b) 31 \<noteq> bit a 31" by (auto simp: OverflowSub_bits)
  show ?thesis
  proof (cases "bit a 31")
    case True
    then have "sint a - sint b < - 2147483648" using o by (auto simp: arith32)
    moreover from this have "clamp (sint a - sint b) = - 2147483648" by (simp add: clamp_def)
    ultimately show ?thesis
      using True o \<open>OverflowSub a b\<close> by (simp add: q_sub_def sat_bound_def and_top satQ_def)
  next
    case False
    then have "2147483648 \<le> sint a - sint b" using o by (auto simp: arith32)
    moreover from this have "clamp (sint a - sint b) = 2147483647" by (simp add: clamp_def)
    ultimately show ?thesis
      using False o \<open>OverflowSub a b\<close> by (simp add: q_sub_def sat_bound_def and_top satQ_def)
  qed
qed

lemma q_double_clamp: "q_double b cpu = (word_of_int (clamp (2 * sint b)), satQ (clamp (2 * sint b) \<noteq> 2 * sint b) cpu)"
proof -
  have "push_bit 1 b = b + b" by (simp add: push_bit_eq_mult)
  moreover have "bit (b + b) 31 \<noteq> bit b 31" if "OverflowAdd b b" using that by (auto simp: OverflowAdd_bits)
  ultimately have "q_double b cpu = q_add b b cpu"
    by (auto simp: q_double_def q_add_def sat_bound_def and_top Let_def)
  then show ?thesis by (simp add: q_add_clamp)
qed

lemma sint_clamp: "sint (word_of_int (clamp i) :: u32) = clamp i"
proof -
  have "- 2147483648 \<le> clamp i" "clamp i < 2147483648" by (simp_all add: clamp_def)
  then show ?thesis by (simp add: int_word_sint mod_pos_pos_trivial)
qed

text \<open>
  C31: the saturating instructions of the ARM9. \<^verbatim>\<open>QADD\<close> and \<^verbatim>\<open>QSUB\<close> give the exact sum or
  difference clamped to 32 bits, \<^verbatim>\<open>QDADD\<close> and \<^verbatim>\<open>QDSUB\<close> first double the second operand with
  saturation; the Q flag is set exactly when a step saturates, and never cleared.
\<close>

theorem saturating_arithmetic:
  fixes cpu :: "'w arm_scheme"
  assumes "arm.Num cpu = 0"
  defines "a \<equiv> sint (R cpu (ifield 0 0xF cpu))" and "b \<equiv> sint (R cpu (ifield 16 0xF cpu))"
  shows "A_QADD vt cpu =
      AddCycles_C vt (setR (ifield 12 0xF cpu) (word_of_int (clamp (a + b))) (satQ (clamp (a + b) \<noteq> a + b) cpu)) \<and>
    A_QSUB vt cpu =
      AddCycles_C vt (setR (ifield 12 0xF cpu) (word_of_int (clamp (a - b))) (satQ (clamp (a - b) \<noteq> a - b) cpu)) \<and>
    A_QDADD vt cpu =
      AddCycles_C vt (setR (ifield 12 0xF cpu) (word_of_int (clamp (a + clamp (2 * b))))
        (satQ (clamp (2 * b) \<noteq> 2 * b \<or> clamp (a + clamp (2 * b)) \<noteq> a + clamp (2 * b)) cpu)) \<and>
    A_QDSUB vt cpu =
      AddCycles_C vt (setR (ifield 12 0xF cpu) (word_of_int (clamp (a - clamp (2 * b))))
        (satQ (clamp (2 * b) \<noteq> 2 * b \<or> clamp (a - clamp (2 * b)) \<noteq> a - clamp (2 * b)) cpu))"
proof (intro conjI)
  have f: "ifield k m (satQ q c) = ifield k m c" for k m q and c :: "'w arm_scheme"
    by (simp add: satQ_def setQ_def ifield_def)
  have qq: "satQ p (satQ q c) = satQ (q \<or> p) c" for p q and c :: "'w arm_scheme"
    by (simp add: satQ_def setQ_def or.assoc)
  note q = q_add_clamp q_sub_clamp q_double_clamp sint_clamp f qq a_def b_def Let_def
  show "A_QADD vt cpu =
      AddCycles_C vt (setR (ifield 12 0xF cpu) (word_of_int (clamp (a + b))) (satQ (clamp (a + b) \<noteq> a + b) cpu))"
    using assms(1) by (simp add: A_QADD_def q)
  show "A_QSUB vt cpu =
      AddCycles_C vt (setR (ifield 12 0xF cpu) (word_of_int (clamp (a - b))) (satQ (clamp (a - b) \<noteq> a - b) cpu))"
    using assms(1) by (simp add: A_QSUB_def q)
  show "A_QDADD vt cpu =
      AddCycles_C vt (setR (ifield 12 0xF cpu) (word_of_int (clamp (a + clamp (2 * b))))
        (satQ (clamp (2 * b) \<noteq> 2 * b \<or> clamp (a + clamp (2 * b)) \<noteq> a + clamp (2 * b)) cpu))"
    using assms(1) by (simp add: A_QDADD_def q)
  show "A_QDSUB vt cpu =
      AddCycles_C vt (setR (ifield 12 0xF cpu) (word_of_int (clamp (a - clamp (2 * b))))
        (satQ (clamp (2 * b) \<noteq> 2 * b \<or> clamp (a - clamp (2 * b)) \<noteq> a - clamp (2 * b)) cpu))"
    using assms(1) by (simp add: A_QDSUB_def q)
qed

theorem saturating_arithmetic_witness:
  "R (A_QADD vt_idle ((arm_zero 0)\<lparr>CurInstr := 0xE1021051, R := (\<lambda>_. 0x60000000)\<rparr>)) 1 = 0x7FFFFFFF"
  using saturating_arithmetic [of "(arm_zero 0)\<lparr>CurInstr := 0xE1021051, R := (\<lambda>_. 0x60000000)\<rparr>" vt_idle]
  by (simp add: arm_zero_def vt_idle_def setR_def ifield_def clamp_def sint_uint32 satQ_def setQ_def)

section \<open>Long multiplications\<close>

lemma long_halves: "ucast (ucast (w :: u64) :: u32) OR push_bit 32 (ucast (ucast (drop_bit 32 w) :: u32)) = w"
  by (rule bit_word_eqI) (auto simp: bit_simps dest: bit_imp_le_length)

lemma len64: "LENGTH(64) = 64"
  by simp

lemma get_set_long:
  assumes "ifield 12 0xF cpu \<noteq> ifield 16 0xF cpu"
  shows "get_long (set_long w cpu) = w"
  using assms by (simp add: get_long_def set_long_def setR_def ifield_def long_halves)

text \<open>The flags and the cycles leave the registers and the instruction.\<close>

lemma get_long_mul_flags [simp]: "get_long (mul_flags n z cpu) = get_long cpu"
  by (simp add: mul_flags_def SetNZ_def SetC_def get_long_def ifield_def Let_def)

lemma get_long_AddCycles [simp]: "get_long (AddCycles_CI (vt7 dev hk) i cpu) = get_long cpu"
  by (simp add: vt7_def ARMv4_AddCycles_CI_def get_long_def ifield_def)

lemma uint_umul64: "uint (umul64 a b) = uint a * uint b"
proof -
  have "uint a * uint b < 4294967296 * 4294967296"
    using uint_bounds [of a] uint_bounds [of b] by (intro mult_strict_mono) auto
  moreover have "take_bit 64 (uint x) = uint x" for x :: u32
    using uint_bounds [of x] by (intro take_bit_int_eq_self) auto
  ultimately show ?thesis
    by (simp add: umul64_def uint_word_ariths unsigned_ucast_eq mod_pos_pos_trivial)
qed

lemma smul64_int: "smul64 a b = word_of_int (sint a * sint b)"
  by (simp add: smul64_def)

lemma sint_smul64: "sint (smul64 a b) = sint a * sint b"
proof -
  have "\<bar>sint a * sint b\<bar> \<le> 2147483648 * 2147483648"
    unfolding abs_mult using sint_bounds [of a] sint_bounds [of b] by (intro mult_mono) auto
  then have "(sint a * sint b + 9223372036854775808) mod 18446744073709551616 = sint a * sint b + 9223372036854775808"
    by (intro mod_pos_pos_trivial) linarith+
  then show ?thesis unfolding smul64_int int_word_sint by simp
qed

text \<open>
  The long multiplications are exact. With distinct result registers, \<^verbatim>\<open>UMULL\<close> leaves the
  product of the unsigned values and \<^verbatim>\<open>SMULL\<close> that of the signed values in the pair; \<^verbatim>\<open>UMLAL\<close> and
  \<^verbatim>\<open>SMLAL\<close> add the pair's old value, modulo \<open>2 ^ 64\<close>.
\<close>

theorem long_multiplications:
  fixes cpu :: "'b arm7"
  assumes "ifield 12 0xF cpu \<noteq> ifield 16 0xF cpu"
  defines "rm \<equiv> R cpu (ifield 0 0xF cpu)" and "rs \<equiv> R cpu (ifield 8 0xF cpu)"
  shows "uint (get_long (A_UMULL (vt7 dev hk) cpu)) = uint rm * uint rs \<and>
    sint (get_long (A_SMULL (vt7 dev hk) cpu)) = sint rm * sint rs \<and>
    uint (get_long (A_UMLAL (vt7 dev hk) cpu)) = (uint rm * uint rs + uint (get_long cpu)) mod 2 ^ 64 \<and>
    get_long (A_SMLAL (vt7 dev hk) cpu) = word_of_int (sint rm * sint rs + sint (get_long cpu))"
proof (intro conjI)
  note defs = Let_def get_set_long [OF assms(1)] get_long_mul_flags get_long_AddCycles
  show "uint (get_long (A_UMULL (vt7 dev hk) cpu)) = uint rm * uint rs"
    by (simp only: A_UMULL_def defs uint_umul64 rm_def rs_def)
  show "sint (get_long (A_SMULL (vt7 dev hk) cpu)) = sint rm * sint rs"
    by (simp only: A_SMULL_def defs sint_smul64 rm_def rs_def)
  show "uint (get_long (A_UMLAL (vt7 dev hk) cpu)) = (uint rm * uint rs + uint (get_long cpu)) mod 2 ^ 64"
    by (simp only: A_UMLAL_def defs uint_word_ariths uint_umul64 rm_def rs_def len64)
  have "get_long (A_SMLAL (vt7 dev hk) cpu) = smul64 rm rs + get_long cpu"
    by (simp only: A_SMLAL_def defs rm_def rs_def)
  then show "get_long (A_SMLAL (vt7 dev hk) cpu) = word_of_int (sint rm * sint rs + sint (get_long cpu))"
    by (simp add: smul64_int)
qed

theorem long_multiplications_witness:
  "get_long (A_UMULL (vt7 no_devices hooks_idle) (arm7_zero\<lparr>CurInstr := 0xE0821190, R := (\<lambda>_. 0xFFFFFFFF)\<rparr>)) =
     0xFFFFFFFE00000001"
proof -
  let ?s = "arm7_zero\<lparr>CurInstr := 0xE0821190, R := (\<lambda>_. 0xFFFFFFFF)\<rparr>"
  have "uint (get_long (A_UMULL (vt7 no_devices hooks_idle) ?s)) = 0xFFFFFFFE00000001"
    using long_multiplications [of ?s no_devices hooks_idle] by (simp add: ifield_def)
  then show ?thesis by (metis word_of_int_uint of_int_numeral)
qed

end
