(* ===== verification/Arm_Modes.thy ===== *)
theory Arm_Modes
  imports Arm_V4
begin

text \<open>
  Modes and exceptions. The registers that a mode hides are kept in arrays, and
  \<^verbatim>\<open>ARM::UpdateMode\<close> exchanges them with \<^verbatim>\<open>R\<close>. The theory describes the register file of the
  architecture (each mode has its own registers) as an abstraction of these arrays, shows
  that a change of mode does not change it, and that exceptions return to where they came
  from. It also has the view that the debugger stub gives of the same registers,
  \<^verbatim>\<open>ARM::ReadReg\<close> and \<^verbatim>\<open>ARM::WriteReg\<close>.
\<close>

section \<open>The debugger's view\<close>

text \<open>The numbers of \<^verbatim>\<open>enum class Register\<close>, \<^verbatim>\<open>src/src/debug/GdbArch.h\<close>.\<close>

abbreviation (input) "reg_pc \<equiv> 15 :: nat"
abbreviation (input) "reg_cpsr \<equiv> 16 :: nat"
abbreviation (input) "reg_sp_usr \<equiv> 17 :: nat"
abbreviation (input) "reg_lr_usr \<equiv> 18 :: nat"
abbreviation (input) "reg_r8_fiq \<equiv> 19 :: nat"
abbreviation (input) "reg_lr_fiq \<equiv> 25 :: nat"
abbreviation (input) "reg_sp_irq \<equiv> 26 :: nat"
abbreviation (input) "reg_lr_irq \<equiv> 27 :: nat"
abbreviation (input) "reg_sp_svc \<equiv> 28 :: nat"
abbreviation (input) "reg_lr_svc \<equiv> 29 :: nat"
abbreviation (input) "reg_sp_abt \<equiv> 30 :: nat"
abbreviation (input) "reg_lr_abt \<equiv> 31 :: nat"
abbreviation (input) "reg_sp_und \<equiv> 32 :: nat"
abbreviation (input) "reg_lr_und \<equiv> 33 :: nat"
abbreviation (input) "reg_spsr_fiq \<equiv> 34 :: nat"
abbreviation (input) "reg_spsr_irq \<equiv> 35 :: nat"
abbreviation (input) "reg_spsr_svc \<equiv> 36 :: nat"
abbreviation (input) "reg_spsr_abt \<equiv> 37 :: nat"
abbreviation (input) "reg_spsr_und \<equiv> 38 :: nat"

definition ReadReg :: "nat \<Rightarrow> 'w arm_scheme \<Rightarrow> u32" where
  "ReadReg r cpu =
     (let m = CPSR cpu AND 0x1F; unknown = 0xDEADBEEF
      in if r < reg_pc then R cpu r
         else if r = reg_pc then R cpu r - (if CPSR cpu AND 0x20 \<noteq> 0 then 2 else 4)
         else if r = reg_cpsr then CPSR cpu
         else if r = reg_sp_usr \<or> r = reg_lr_usr then
           let k = r - reg_sp_usr
           in if ModeIs 0x10 cpu \<or> ModeIs 0x1F cpu then R cpu (13 + k)
              else if m = 0x11 then R_FIQ cpu (5 + k)
              else if m = 0x12 then R_IRQ cpu k
              else if m = 0x13 then R_SVC cpu k
              else if m = 0x17 then R_ABT cpu k
              else if m = 0x1B then R_UND cpu k
              else unknown
         else if reg_r8_fiq \<le> r \<and> r \<le> reg_lr_fiq then
           let k = r - reg_r8_fiq in if ModeIs 0x11 cpu then R cpu (8 + k) else R_FIQ cpu k
         else if r = reg_sp_irq \<or> r = reg_lr_irq then
           let k = r - reg_sp_irq in if ModeIs 0x12 cpu then R cpu (13 + k) else R_IRQ cpu k
         else if r = reg_sp_svc \<or> r = reg_lr_svc then
           let k = r - reg_sp_svc in if ModeIs 0x13 cpu then R cpu (13 + k) else R_SVC cpu k
         else if r = reg_sp_abt \<or> r = reg_lr_abt then
           let k = r - reg_sp_abt in if ModeIs 0x17 cpu then R cpu (13 + k) else R_ABT cpu k
         else if r = reg_sp_und \<or> r = reg_lr_und then
           let k = r - reg_sp_und in if ModeIs 0x1B cpu then R cpu (13 + k) else R_UND cpu k
         else if r = reg_spsr_fiq then if ModeIs 0x11 cpu then CPSR cpu else R_FIQ cpu 7
         else if r = reg_spsr_irq then if ModeIs 0x12 cpu then CPSR cpu else R_IRQ cpu 2
         else if r = reg_spsr_svc then if ModeIs 0x13 cpu then CPSR cpu else R_SVC cpu 2
         else if r = reg_spsr_abt then if ModeIs 0x17 cpu then CPSR cpu else R_ABT cpu 2
         else if r = reg_spsr_und then if ModeIs 0x1B cpu then CPSR cpu else R_UND cpu 2
         else unknown)"

definition WriteReg :: "'w vt \<Rightarrow> nat \<Rightarrow> u32 \<Rightarrow> 'w arm_scheme \<Rightarrow> 'w arm_scheme" where
  "WriteReg vt r v cpu =
     (let m = CPSR cpu AND 0x1F
      in if r < reg_pc then setR r v cpu
         else if r = reg_pc then JumpTo vt v False cpu
         else if r = reg_cpsr then cpu\<lparr>CPSR := v\<rparr>
         else if r = reg_sp_usr \<or> r = reg_lr_usr then
           let k = r - reg_sp_usr
           in if ModeIs 0x10 cpu \<or> ModeIs 0x1F cpu then setR (13 + k) v cpu
              else if m = 0x11 then cpu\<lparr>R_FIQ := (R_FIQ cpu)(5 + k := v)\<rparr>
              else if m = 0x12 then cpu\<lparr>R_IRQ := (R_IRQ cpu)(k := v)\<rparr>
              else if m = 0x13 then cpu\<lparr>R_SVC := (R_SVC cpu)(k := v)\<rparr>
              else if m = 0x17 then cpu\<lparr>R_ABT := (R_ABT cpu)(k := v)\<rparr>
              else if m = 0x1B then cpu\<lparr>R_UND := (R_UND cpu)(k := v)\<rparr>
              else cpu
         else if reg_r8_fiq \<le> r \<and> r \<le> reg_lr_fiq then
           let k = r - reg_r8_fiq
           in if ModeIs 0x11 cpu then setR (8 + k) v cpu else cpu\<lparr>R_FIQ := (R_FIQ cpu)(k := v)\<rparr>
         else if r = reg_sp_irq \<or> r = reg_lr_irq then
           let k = r - reg_sp_irq
           in if ModeIs 0x12 cpu then setR (13 + k) v cpu else cpu\<lparr>R_IRQ := (R_IRQ cpu)(k := v)\<rparr>
         else if r = reg_sp_svc \<or> r = reg_lr_svc then
           let k = r - reg_sp_svc
           in if ModeIs 0x13 cpu then setR (13 + k) v cpu else cpu\<lparr>R_SVC := (R_SVC cpu)(k := v)\<rparr>
         else if r = reg_sp_abt \<or> r = reg_lr_abt then
           let k = r - reg_sp_abt
           in if ModeIs 0x17 cpu then setR (13 + k) v cpu else cpu\<lparr>R_ABT := (R_ABT cpu)(k := v)\<rparr>
         else if r = reg_sp_und \<or> r = reg_lr_und then
           let k = r - reg_sp_und
           in if ModeIs 0x1B cpu then setR (13 + k) v cpu else cpu\<lparr>R_UND := (R_UND cpu)(k := v)\<rparr>
         else if r = reg_spsr_fiq then
           if ModeIs 0x11 cpu then cpu\<lparr>CPSR := v\<rparr> else cpu\<lparr>R_FIQ := (R_FIQ cpu)(7 := v)\<rparr>
         else if r = reg_spsr_irq then
           if ModeIs 0x12 cpu then cpu\<lparr>CPSR := v\<rparr> else cpu\<lparr>R_IRQ := (R_IRQ cpu)(2 := v)\<rparr>
         else if r = reg_spsr_svc then
           if ModeIs 0x13 cpu then cpu\<lparr>CPSR := v\<rparr> else cpu\<lparr>R_SVC := (R_SVC cpu)(2 := v)\<rparr>
         else if r = reg_spsr_abt then
           if ModeIs 0x17 cpu then cpu\<lparr>CPSR := v\<rparr> else cpu\<lparr>R_ABT := (R_ABT cpu)(2 := v)\<rparr>
         else if r = reg_spsr_und then
           if ModeIs 0x1B cpu then cpu\<lparr>CPSR := v\<rparr> else cpu\<lparr>R_UND := (R_UND cpu)(2 := v)\<rparr>
         else cpu)"

section \<open>The register file\<close>

text \<open>
  The banks, the registers that a bank has of its own, and the array element that holds one
  of them. A mode without a case in \<^verbatim>\<open>ARM::UpdateMode\<close> uses the registers of user mode.
\<close>

datatype bank = USR | FIQ | IRQ | SVC | ABT | UND

definition bank_of :: "u32 \<Rightarrow> bank" where
  "bank_of mode =
     (let m = mode AND 0x1F
      in if m = 0x11 then FIQ else if m = 0x12 then IRQ else if m = 0x13 then SVC
         else if m = 0x17 then ABT else if m = 0x1B then UND else USR)"

primrec banked :: "bank \<Rightarrow> nat \<Rightarrow> bool" where
  "banked USR i = False"
| "banked FIQ i = (8 \<le> i \<and> i < 15)"
| "banked IRQ i = (13 \<le> i \<and> i < 15)"
| "banked SVC i = (13 \<le> i \<and> i < 15)"
| "banked ABT i = (13 \<le> i \<and> i < 15)"
| "banked UND i = (13 \<le> i \<and> i < 15)"

primrec slot :: "bank \<Rightarrow> nat \<Rightarrow> 'w arm_scheme \<Rightarrow> u32" where
  "slot USR i cpu = R cpu i"
| "slot FIQ i cpu = R_FIQ cpu (i - 8)"
| "slot IRQ i cpu = R_IRQ cpu (i - 13)"
| "slot SVC i cpu = R_SVC cpu (i - 13)"
| "slot ABT i cpu = R_ABT cpu (i - 13)"
| "slot UND i cpu = R_UND cpu (i - 13)"

text \<open>
  Register \<open>i\<close> of bank \<open>b\<close>, when the registers of bank \<open>c\<close> are in \<^verbatim>\<open>R\<close>: the arrays of the other
  banks hold their registers, and the array of \<open>c\<close> the user registers it hides.
\<close>

definition phys :: "bank \<Rightarrow> bank \<Rightarrow> nat \<Rightarrow> 'w arm_scheme \<Rightarrow> u32" where
  "phys c b i cpu =
     (if banked b i then if b = c then R cpu i else slot b i cpu
      else if banked c i then slot c i cpu
      else R cpu i)"

lemma swap_regs_eq:
  "swap_regs k n (r, b) =
     (\<lambda>i. if k \<le> i \<and> i < k + n then b (i - k) else r i, \<lambda>i. if i < n then r (k + i) else b i)"
proof (induction n)
  case (Suc n)
  then show ?case by (auto simp: fun_eq_iff less_Suc_eq)
qed (auto simp: fun_eq_iff)

lemma swap_bank_R: "R (swap_bank m cpu) i = (if banked (bank_of m) i then slot (bank_of m) i cpu else R cpu i)"
  by (auto simp: swap_bank_def bank_of_def swap_regs_eq Let_def)

lemma swap_bank_slot:
  "banked b i \<Longrightarrow> slot b i (swap_bank m cpu) = (if b = bank_of m then R cpu i else slot b i cpu)"
  by (cases b) (auto simp: swap_bank_def bank_of_def swap_regs_eq Let_def)

text \<open>A swap with bank \<open>b\<close> turns the user view into the view of \<open>b\<close>, and back.\<close>

lemma phys_swap_in: "phys (bank_of m) b i (swap_bank m cpu) = phys USR b i cpu"
  by (cases "b = USR") (auto simp: phys_def swap_bank_R swap_bank_slot)

lemma phys_swap_out: "phys USR b i (swap_bank m cpu) = phys (bank_of m) b i cpu"
  by (cases "b = USR") (auto simp: phys_def swap_bank_R swap_bank_slot)
lemma phys_same: "phys c c i cpu = R cpu i"
  by (simp add: phys_def)

lemma slot_upd [simp]:
  "slot b i (cpu\<lparr>PU_Map := x\<rparr>) = slot b i cpu" "slot b i (cpu\<lparr>CPSR := p\<rparr>) = slot b i cpu"
  by (cases b; simp)+

lemma phys_upd [simp]:
  "phys c b i (cpu\<lparr>PU_Map := x\<rparr>) = phys c b i cpu" "phys c b i (cpu\<lparr>CPSR := p\<rparr>) = phys c b i cpu"
  by (simp_all add: phys_def)

lemma UpdateMode_phys: "phys (bank_of new) b i (UpdateMode old new ph cpu) = phys (bank_of old) b i cpu"
proof (cases "old AND 0x1F = new AND 0x1F")
  case True
  then show ?thesis by (simp add: UpdateMode_def bank_of_def)
next
  case False
  then show ?thesis by (simp add: UpdateMode_def phys_swap_in phys_swap_out Let_def)
qed

lemma UpdateMode_R: "R (UpdateMode old new ph cpu) i = phys (bank_of old) (bank_of new) i cpu"
  using UpdateMode_phys [of new "bank_of new" i old ph cpu] by (simp add: phys_same)

text \<open>
  C18: a change of mode moves no value between registers of the architecture. Whatever the two
  modes are, every register of every bank has the same value before and after, and the
  registers the program sees are those of the new mode. The saved status registers and the
  status register are left alone.
\<close>

theorem UpdateMode_keeps_registers:
  "phys (bank_of new) b i (UpdateMode old new ph cpu) = phys (bank_of old) b i cpu \<and>
   R (UpdateMode old new ph cpu) i = phys (bank_of old) (bank_of new) i cpu \<and>
   psr_get p (UpdateMode old new ph cpu) = psr_get p cpu"
proof -
  have "psr_get p (swap_bank m cpu) = psr_get p cpu" for m and cpu :: "'a arm_scheme"
    by (cases p) (simp_all add: swap_bank_def swap_regs_eq Let_def)
  then have "psr_get p (UpdateMode old new ph cpu) = psr_get p cpu"
    by (cases p) (simp_all add: UpdateMode_def Let_def)
  then show ?thesis by (simp add: UpdateMode_phys UpdateMode_R)
qed
section \<open>Jumps of the ARM7\<close>

lemma BusRead_eq:
  "BusRead8 dev a cpu = (fst (ARM7Read8 dev a (bus7 cpu)), cpu\<lparr>NDS := snd (ARM7Read8 dev a (bus7 cpu))\<rparr>)"
  "BusRead16 dev a cpu = (fst (ARM7Read16 dev a (bus7 cpu)), cpu\<lparr>NDS := snd (ARM7Read16 dev a (bus7 cpu))\<rparr>)"
  "BusRead32 dev a cpu = (fst (ARM7Read32 dev a (bus7 cpu)), cpu\<lparr>NDS := snd (ARM7Read32 dev a (bus7 cpu))\<rparr>)"
  by (simp_all add: BusRead8_def BusRead16_def BusRead32_def split: prod.split)

lemmas code_reads = ARMv4_CodeRead16_def ARMv4_CodeRead32_def BusRead_eq

definition jump_base :: "bool \<Rightarrow> 'w arm_scheme \<Rightarrow> 'w arm_scheme" where
  "jump_base r cpu = (if r then RestoreCPSR cpu else cpu)"

definition jump_addr :: "u32 \<Rightarrow> bool \<Rightarrow> 'w arm_scheme \<Rightarrow> u32" where
  "jump_addr a r cpu =
     (if r then if CPSR (RestoreCPSR cpu) AND 0x20 \<noteq> 0 then a OR 0x1 else a AND NOT 0x1 else a)"

text \<open>What a jump leaves of the state, and where it goes.\<close>

lemma JumpTo_fields:
  "i \<noteq> 15 \<Longrightarrow> R (ARMv4_JumpTo dev a r cpu) i = R (jump_base r cpu) i"
  "R_FIQ (ARMv4_JumpTo dev a r cpu) = R_FIQ (jump_base r cpu)" "R_IRQ (ARMv4_JumpTo dev a r cpu) = R_IRQ (jump_base r cpu)"
  "R_SVC (ARMv4_JumpTo dev a r cpu) = R_SVC (jump_base r cpu)" "R_ABT (ARMv4_JumpTo dev a r cpu) = R_ABT (jump_base r cpu)"
  "R_UND (ARMv4_JumpTo dev a r cpu) = R_UND (jump_base r cpu)"
  by (simp_all add: ARMv4_JumpTo_def jump_base_def code_reads setR_def setNext_def Let_def)

lemma JumpTo_CPSR:
  "CPSR (ARMv4_JumpTo dev a r cpu) =
     (if jump_addr a r cpu AND 1 \<noteq> 0 then CPSR (jump_base r cpu) OR 0x20 else CPSR (jump_base r cpu) AND NOT 0x20)"
  by (cases r) (simp_all add: ARMv4_JumpTo_def jump_base_def jump_addr_def code_reads setR_def setNext_def Let_def
    if_distrib [of CPSR] split del: if_split cong: if_cong)

lemma JumpTo_PC:
  "R (ARMv4_JumpTo dev a r cpu) 15 =
     (let t = jump_addr a r cpu in if t AND 1 \<noteq> 0 then (t AND NOT 1) + 2 else (t AND NOT 3) + 4)"
  by (cases r) (simp_all add: ARMv4_JumpTo_def jump_base_def jump_addr_def code_reads setR_def setNext_def Let_def
    if_distrib [of R] if_distribR split del: if_split cong: if_cong)
section \<open>Exceptions and returns\<close>

text \<open>\<^verbatim>\<open>MOVS PC, LR\<close>, as the interpreter runs it.\<close>

definition MOVS_PC_LR :: "'w vt \<Rightarrow> 'w arm_scheme \<Rightarrow> 'w arm_scheme" where
  "MOVS_PC_LR vt cpu = A_ALU DP_MOV True Op_REG_LSL_IMM vt (cpu\<lparr>CurInstr := 0xE1B0F00E\<rparr>)"

lemma MOVS_PC_LR_jump:
  "\<exists>s. MOVS_PC_LR (vt7 dev hk) cpu = ARMv4_JumpTo dev (R cpu 14) True s \<and> CPSR s AND 0x1F = CPSR cpu AND 0x1F \<and>
     R s = R cpu \<and> R_FIQ s = R_FIQ cpu \<and> R_IRQ s = R_IRQ cpu \<and> R_SVC s = R_SVC cpu \<and> R_ABT s = R_ABT cpu \<and>
     R_UND s = R_UND cpu"
proof -
  let ?s = "ARMv4_AddCycles_C (set_nz (R cpu 14) (cpu\<lparr>CurInstr := 0xE1B0F00E\<rparr>))"
  have "MOVS_PC_LR (vt7 dev hk) cpu = ARMv4_JumpTo dev (R cpu 14) True ?s"
    by (simp add: MOVS_PC_LR_def A_IMPLEMENT_ALU_OP_def A_CALC_OP2_REG_SHIFT_IMM_def LSL_IMM_S_def A_MOV_S_def
      alu_write_S_def alu_cycles_def vt7_def ifield_def set_nz_def SetNZ_def ARMv4_AddCycles_C_def Let_def)
  moreover have "CPSR ?s AND 0x1F = CPSR cpu AND 0x1F"
    by (simp add: ARMv4_AddCycles_C_def set_nz_def SetNZ_def Let_def bit.conj_disj_distrib2 and.assoc)
  ultimately show ?thesis
    by (intro exI [of _ ?s]) (simp add: ARMv4_AddCycles_C_def set_nz_def SetNZ_def Let_def)
qed

lemma phys_cong:
  assumes "R s = R t" "R_FIQ s = R_FIQ t" "R_IRQ s = R_IRQ t" "R_SVC s = R_SVC t" "R_ABT s = R_ABT t" "R_UND s = R_UND t"
  shows "phys c b i s = phys c b i t"
proof -
  have "slot b i s = slot b i t" for b using assms by (cases b) simp_all
  then show ?thesis using assms by (simp add: phys_def)
qed

lemma UpdateMode_CPSR: "CPSR (UpdateMode old new ph cpu) = CPSR cpu"
  by (simp add: UpdateMode_def swap_bank_def swap_regs_eq Let_def)

lemma and_T: "p AND 0x20 \<noteq> 0 \<longleftrightarrow> bit (p :: u32) 5"
  using and_exp_eq_0_iff_not_bit [of p 5] by simp

lemma and_even: "(x AND - 2) AND 1 = (0 :: u32)" "(x OR 1) AND 1 = (1 :: u32)" "(x OR 1) AND - 2 = x AND (- 2 :: u32)"
  "(x AND - 2) AND - 4 = x AND (- 4 :: u32)"
  by (simp_all add: and.assoc bit.conj_disj_distrib2)

lemma or_exp_id: "bit p k \<Longrightarrow> p OR 2 ^ k = p" for p :: u32
  by (rule bit_word_eqI) (auto simp: bit_simps)

lemma and_not_exp_id: "\<not> bit p k \<Longrightarrow> p AND NOT (2 ^ k) = p" for p :: u32
  by (rule bit_word_eqI) (auto simp: bit_simps)

lemmas psr_bit_ids = or_exp_id [of _ 4, simplified] or_exp_id [of _ 5, simplified] and_not_exp_id [of _ 5, simplified]

text \<open>A return from supervisor mode, to a state that was saved with bit 4 of its mode set.\<close>

lemma RestoreCPSR_SVC:
  assumes "CPSR s AND 0x1F = 0x13" "bit (R_SVC s 2) 4"
  shows "CPSR (RestoreCPSR s) = R_SVC s 2"
    and "R (RestoreCPSR s) i = phys SVC (bank_of (R_SVC s 2)) i s"
proof -
  have o: "R_SVC s 2 OR 0x10 = R_SVC s 2"
    using assms(2) by (rule psr_bit_ids)
  have r: "RestoreCPSR s = UpdateMode (CPSR s) (R_SVC s 2) False (s\<lparr>CPSR := R_SVC s 2\<rparr>)"
    using assms(1) o by (simp add: RestoreCPSR_def Let_def)
  have b: "bank_of (CPSR s) = SVC" using assms(1) by (simp add: bank_of_def)
  show "R (RestoreCPSR s) i = phys SVC (bank_of (R_SVC s 2)) i s"
    by (simp add: r UpdateMode_R b)
  show "CPSR (RestoreCPSR s) = R_SVC s 2"
    by (simp add: r UpdateMode_CPSR)
qed

lemma MOVS_PC_LR_SVC:
  fixes s :: "'b arm7"
  fixes dev hk
  assumes "CPSR s AND 0x1F = 0x13" "bit (R_SVC s 2) 4"
  defines "p \<equiv> R_SVC s 2" and "s' \<equiv> MOVS_PC_LR (vt7 dev hk) s"
  shows "CPSR s' = p" "i < 15 \<Longrightarrow> R s' i = phys SVC (bank_of p) i s"
    and "R s' 15 = (if bit p 5 then (R s 14 AND NOT 1) + 2 else (R s 14 AND NOT 3) + 4)"
proof -
  obtain t where j: "s' = ARMv4_JumpTo dev (R s 14) True t" and t: "CPSR t AND 0x1F = CPSR s AND 0x1F"
    and f: "R t = R s" "R_FIQ t = R_FIQ s" "R_IRQ t = R_IRQ s" "R_SVC t = R_SVC s" "R_ABT t = R_ABT s" "R_UND t = R_UND s"
    using MOVS_PC_LR_jump unfolding s'_def by blast
  have r: "CPSR (RestoreCPSR t) = p" "R (RestoreCPSR t) i = phys SVC (bank_of p) i s" for i
    using RestoreCPSR_SVC [of t] phys_cong [OF f] assms(1,2) t by (simp_all add: p_def f)
  have a: "jump_addr (R s 14) True t = (if bit p 5 then R s 14 OR 1 else R s 14 AND NOT 1)"
    by (simp add: jump_addr_def r and_T)
  show "i < 15 \<Longrightarrow> R s' i = phys SVC (bank_of p) i s"
    by (simp add: j JumpTo_fields jump_base_def r)
  show "CPSR s' = p"
    by (auto simp: j JumpTo_CPSR jump_base_def r a psr_bit_ids and_even)
  show "R s' 15 = (if bit p 5 then (R s 14 AND NOT 1) + 2 else (R s 14 AND NOT 3) + 4)"
    by (simp add: j JumpTo_PC a Let_def and_even)
qed

text \<open>The state in which a software interrupt enters the handler.\<close>

definition enter_SVC :: "u32 \<Rightarrow> 'w arm_scheme \<Rightarrow> 'w arm_scheme" where
  "enter_SVC d cpu =
     (let old = CPSR cpu; p = (old AND NOT 0xBF) OR 0x93;
          c = UpdateMode old p False (cpu\<lparr>CPSR := p\<rparr>)
      in setR 14 (R c 15 - d) (c\<lparr>R_SVC := (R_SVC c)(2 := old)\<rparr>))"

lemma SVC_enter:
  "A_SVC vt cpu = JumpTo vt (ExceptionBase (enter_SVC 4 cpu) + 8) False (enter_SVC 4 cpu)"
  "T_SVC vt cpu = JumpTo vt (ExceptionBase (enter_SVC 2 cpu) + 8) False (enter_SVC 2 cpu)"
  by (simp_all add: A_SVC_def T_SVC_def enter_SVC_def Let_def setR_def)

lemma phys_enter_SVC:
  assumes "bank_of (CPSR cpu) \<noteq> SVC" "i < 15"
  shows "phys SVC (bank_of (CPSR cpu)) i (enter_SVC d cpu) = R cpu i"
proof -
  let ?old = "CPSR cpu" and ?p = "(CPSR cpu AND NOT 0xBF) OR 0x93"
  let ?c = "UpdateMode ?old ?p False (cpu\<lparr>CPSR := ?p\<rparr>)"
  have b: "bank_of ?p = SVC" by (simp add: bank_of_def bit.conj_disj_distrib2 and.assoc)
  have c: "phys SVC (bank_of ?old) i ?c = R cpu i"
    using UpdateMode_phys [of ?p "bank_of ?old" i ?old False "cpu\<lparr>CPSR := ?p\<rparr>"] b by (simp add: phys_same)
  have "slot x i (setR 14 v (?c\<lparr>R_SVC := (R_SVC ?c)(2 := ?old)\<rparr>)) = slot x i ?c" if "banked x i" for x v
    using that by (cases x) (auto simp: setR_def)
  with assms c show ?thesis
    by (auto simp: enter_SVC_def phys_def Let_def setR_def split: if_splits)
qed

lemma banked_15: "\<not> banked b 15"
  by (cases b) simp_all

lemma enter_SVC_fields:
  "CPSR (enter_SVC d cpu) AND 0x1F = 0x13" "CPSR (enter_SVC d cpu) AND 0x20 = 0"
  "R_SVC (enter_SVC d cpu) 2 = CPSR cpu" "R (enter_SVC d cpu) 14 = R cpu 15 - d"
  by (simp_all add: enter_SVC_def Let_def setR_def UpdateMode_CPSR UpdateMode_R phys_def banked_15 bit.conj_disj_distrib2 and.assoc)

lemma SVC_round_trip:
  fixes cpu :: "'b arm7"
  assumes "bank_of (CPSR cpu) \<noteq> SVC" "bit (CPSR cpu) 4"
    and "s = ARMv4_JumpTo dev a False (enter_SVC d cpu)"
  shows "CPSR s AND 0x1F = 0x13" "CPSR (MOVS_PC_LR (vt7 dev hk) s) = CPSR cpu"
    and "i < 15 \<Longrightarrow> R (MOVS_PC_LR (vt7 dev hk) s) i = R cpu i"
    and "R (MOVS_PC_LR (vt7 dev hk) s) 15 =
      (if bit (CPSR cpu) 5 then (R cpu 15 - d AND NOT 1) + 2 else (R cpu 15 - d AND NOT 3) + 4)"
proof -
  let ?e = "enter_SVC d cpu"
  have f: "R_SVC s = R_SVC ?e" "i \<noteq> 15 \<Longrightarrow> R s i = R ?e i" for i
    using assms(3) by (simp_all add: JumpTo_fields jump_base_def)
  have c: "CPSR s AND 0x1F = CPSR ?e AND 0x1F"
    using assms(3) by (simp add: JumpTo_CPSR jump_base_def bit.conj_disj_distrib2 and.assoc)
  then show m: "CPSR s AND 0x1F = 0x13" by (simp add: enter_SVC_fields)
  have p: "R_SVC s 2 = CPSR cpu" "R s 14 = R cpu 15 - d"
    by (simp_all add: f enter_SVC_fields)
  have "phys SVC b i s = phys SVC b i ?e" if "i < 15" for b i
  proof -
    have "slot x i s = slot x i ?e" for x
      using that assms(3) by (cases x) (simp_all add: JumpTo_fields jump_base_def)
    then show ?thesis using that by (simp add: phys_def f)
  qed
  then have q: "phys SVC (bank_of (CPSR cpu)) i s = R cpu i" if "i < 15" for i
    using phys_enter_SVC [OF assms(1) that] that by simp
  have b: "bit (R_SVC s 2) 4" using assms(2) p by simp
  note r = MOVS_PC_LR_SVC [OF m b, where dev = dev and hk = hk, unfolded p]
  show "CPSR (MOVS_PC_LR (vt7 dev hk) s) = CPSR cpu"
    and "i < 15 \<Longrightarrow> R (MOVS_PC_LR (vt7 dev hk) s) i = R cpu i"
    and "R (MOVS_PC_LR (vt7 dev hk) s) 15 =
      (if bit (CPSR cpu) 5 then (R cpu 15 - d AND NOT 1) + 2 else (R cpu 15 - d AND NOT 3) + 4)"
    using r q by simp_all
qed

lemma and_not_mask_push: "push_bit n y AND NOT (mask n) = push_bit n (y :: u32)"
  by (rule bit_word_eqI) (auto simp: bit_simps)

lemma aligned_minus:
  fixes x :: u32
  assumes "x AND mask n = 0"
  shows "(x - 2 ^ n) AND NOT (mask n) = x - 2 ^ n"
proof -
  have "x = push_bit n (drop_bit n x)"
    using assms by (intro bit_word_eqI) (auto simp: bit_simps bit_eq_iff)
  then have "x - 2 ^ n = (drop_bit n x - 1) * 2 ^ n"
    by (metis push_bit_eq_mult left_diff_distrib mult_1)
  then have "x - 2 ^ n = push_bit n (drop_bit n x - 1)" by (simp add: push_bit_eq_mult)
  then show ?thesis by (metis and_not_mask_push)
qed

text \<open>
  C27: a software interrupt returns to where it was called. From any mode but supervisor mode, in
  ARM or in THUMB state, the handler is entered in supervisor mode with the vector in the
  program counter, and \<^verbatim>\<open>MOVS PC, LR\<close> restores the status register and every register, the
  program counter included: execution goes on after the \<^verbatim>\<open>SWI\<close>.
\<close>

theorem SVC_returns:
  fixes cpu :: "'b arm7"
  assumes "CPSR cpu AND 0x1F \<noteq> 0x13" "bit (CPSR cpu) 4" "i < 16"
    and "if thumb then bit (CPSR cpu) 5 \<and> R cpu 15 AND 1 = 0 else \<not> bit (CPSR cpu) 5 \<and> R cpu 15 AND 3 = 0"
    and "s = (if thumb then T_SVC (vt7 dev hk) cpu else A_SVC (vt7 dev hk) cpu)"
  shows "CPSR s AND 0x1F = 0x13 \<and>
    CPSR (MOVS_PC_LR (vt7 dev hk) s) = CPSR cpu \<and>
    R (MOVS_PC_LR (vt7 dev hk) s) i = R cpu i"
proof (intro conjI)
  let ?d = "if thumb then 2 else 4"
  have b: "bank_of (CPSR cpu) \<noteq> SVC" using assms(1) by (simp add: bank_of_def Let_def)
  have s: "s = ARMv4_JumpTo dev (ExceptionBase (enter_SVC ?d cpu) + 8) False (enter_SVC ?d cpu)"
    using assms(5) by (simp add: SVC_enter vt7_def)
  note r = SVC_round_trip [OF b assms(2) s]
  show "CPSR s AND 0x1F = 0x13" "CPSR (MOVS_PC_LR (vt7 dev hk) s) = CPSR cpu" by (rule r)+
  have a: "x AND 1 = 0 \<Longrightarrow> (x - 2) AND NOT 1 = x - 2" "x AND 3 = 0 \<Longrightarrow> (x - 4) AND NOT 3 = x - 4" for x :: u32
    using aligned_minus [of x 1] aligned_minus [of x 2] by (simp_all add: mask_numeral)
  show "R (MOVS_PC_LR (vt7 dev hk) s) i = R cpu i"
  proof (cases "i = 15")
    case True
    then show ?thesis using r(4) [of hk] assms(4) a by (simp split: if_splits)
  next
    case False
    then show ?thesis using r(3) [of i hk] assms(3) by simp
  qed
qed
theorem SVC_returns_witness:
  "R (MOVS_PC_LR (vt7 no_devices hooks_idle)
        (A_SVC (vt7 no_devices hooks_idle) (arm7_zero\<lparr>R := (\<lambda>i. of_nat (4 * i))\<rparr>))) 15 = 60"
  using SVC_returns [of "arm7_zero\<lparr>R := (\<lambda>i. of_nat (4 * i))\<rparr>" 15 False
      "A_SVC (vt7 no_devices hooks_idle) (arm7_zero\<lparr>R := (\<lambda>i. of_nat (4 * i))\<rparr>)" no_devices hooks_idle]
  by simp

section \<open>The debugger and the banks\<close>

text \<open>The number of register \<open>i\<close> of a bank in the debugger's numbering.\<close>

primrec gdb_number :: "bank \<Rightarrow> nat \<Rightarrow> nat" where
  "gdb_number USR i = reg_sp_usr + (i - 13)"
| "gdb_number FIQ i = reg_r8_fiq + (i - 8)"
| "gdb_number IRQ i = reg_sp_irq + (i - 13)"
| "gdb_number SVC i = reg_sp_svc + (i - 13)"
| "gdb_number ABT i = reg_sp_abt + (i - 13)"
| "gdb_number UND i = reg_sp_und + (i - 13)"

definition mode_ok :: "u32 \<Rightarrow> bool" where
  "mode_ok p \<longleftrightarrow> p AND 0x1F \<in> {0x10, 0x11, 0x12, 0x13, 0x17, 0x1B, 0x1F}"

text \<open>In the modes that the architecture has, the debugger reads the registers of every bank.\<close>

lemma ReadReg_phys:
  assumes "mode_ok (CPSR cpu)" "i = 13 \<or> i = 14"
  shows "ReadReg (gdb_number b i) cpu = phys (bank_of (CPSR cpu)) b i cpu"
  using assms unfolding mode_ok_def insert_iff empty_iff
  by (elim disjE; cases b; simp add: ReadReg_def ModeIs_def bank_of_def phys_def Let_def)

text \<open>
  The saved status registers are not exchanged by a change of mode, but the debugger's
  functions treat them as if they were: in the mode that owns it, the saved status reads as
  the current one, and a write to it changes the current one, mode bits included, without
  switching banks.
\<close>

lemma debugger_SPSR_is_CPSR:
  assumes "CPSR cpu AND 0x1F = 0x12"
  shows "ReadReg reg_spsr_irq cpu = CPSR cpu" "WriteReg vt reg_spsr_irq v cpu = cpu\<lparr>CPSR := v\<rparr>"
  using assms by (simp_all add: ReadReg_def WriteReg_def ModeIs_def Let_def)

text \<open>
  A write of the status register by the debugger changes the mode without switching banks:
  the registers that the program sees stay those of the old mode.
\<close>

lemma debugger_CPSR_keeps_bank: "R (WriteReg vt reg_cpsr v cpu) = R cpu"
  by (simp add: WriteReg_def Let_def)

end
