(* ===== verification/Arm_Decode.thy ===== *)
theory Arm_Decode
  imports Arm_Table
begin

text \<open>
  A decoder written from the instruction encodings of the architecture (bits 27 to 20 and
  7 to 4 of an ARM instruction, bits 15 to 6 of a THUMB one), and the comparison of the two
  tables with it.
\<close>

section \<open>Reference decoder\<close>

definition dp_op :: "nat \<Rightarrow> alu" where
  "dp_op k = [DP_AND, DP_EOR, DP_SUB, DP_RSB, DP_ADD, DP_ADC, DP_SBC, DP_RSC,
     DP_TST, DP_TEQ, DP_CMP, DP_CMN, DP_ORR, DP_MOV, DP_BIC, DP_MVN] ! k"

text \<open>The shift of a register operand: bits 6 and 5 its kind, bit 4 whether a register gives the amount.\<close>

definition dp_shift :: "nat \<Rightarrow> op2" where
  "dp_shift k = [Op_REG_LSL_IMM, Op_REG_LSL_REG, Op_REG_LSR_IMM, Op_REG_LSR_REG,
     Op_REG_ASR_IMM, Op_REG_ASR_REG, Op_REG_ROR_IMM, Op_REG_ROR_REG] ! k"

definition ls_shift :: "nat \<Rightarrow> wb_off" where
  "ls_shift k = [Off_REG_LSL, Off_REG_LSR, Off_REG_ASR, Off_REG_ROR] ! k"

definition bitn :: "nat \<Rightarrow> nat \<Rightarrow> bool" where
  "bitn n k \<longleftrightarrow> odd (n div 2 ^ k)"

text \<open>In the functions below \<open>hi\<close> is bits 27 to 20 and \<open>lo\<close> bits 7 to 4.\<close>

definition dec_mul :: "nat \<Rightarrow> instr" where
  "dec_mul hi =
     (if hi div 2 = 0 then I_MUL M_MUL
      else if hi div 2 = 1 then I_MUL M_MLA
      else if hi div 2 = 4 then I_MUL M_UMULL
      else if hi div 2 = 5 then I_MUL M_UMLAL
      else if hi div 2 = 6 then I_MUL M_SMULL
      else if hi div 2 = 7 then I_MUL M_SMLAL
      else if hi = 0x10 then I_XFER X_SWP
      else if hi = 0x14 then I_XFER X_SWPB
      else I_UNK)"

definition dec_extra :: "nat \<Rightarrow> nat \<Rightarrow> instr" where
  "dec_extra hi lo =
     (let k = (if bitn hi 0 then [LS_LDRH, LS_LDRSB, LS_LDRSH] else [LS_STRH, LS_LDRD, LS_STRD]) ! (lo div 2 - 5)
      in if \<not> bitn hi 4 \<and> bitn hi 1 then I_UNK
         else I_HD k (\<not> bitn hi 4) (if bitn hi 2 then HOff_IMM else HOff_REG))"

definition dec_misc :: "nat \<Rightarrow> nat \<Rightarrow> instr" where
  "dec_misc hi lo =
     (let op = hi div 2 mod 4
      in if lo = 0 then if even op then I_PSR P_MRS else I_PSR P_MSR_REG
         else if lo = 1 \<and> op = 1 then I_BRANCH B_BX
         else if lo = 3 \<and> op = 1 then I_BRANCH B_BLX_REG
         else if lo = 1 \<and> op = 3 then I_SAT S_CLZ
         else if lo = 5 then I_SAT ([S_QADD, S_QSUB, S_QDADD, S_QDSUB] ! op)
         else if 8 \<le> lo \<and> even lo then
           I_MUL (if op = 0 then M_SMLAxy
                  else if op = 1 then if bitn lo 1 then M_SMULWy else M_SMLAWy
                  else if op = 2 then M_SMLALxy
                  else M_SMULxy)
         else I_UNK)"

definition dec_dp_reg :: "nat \<Rightarrow> nat \<Rightarrow> instr" where
  "dec_dp_reg hi lo =
     (let op = hi div 2 mod 16; S = bitn hi 0
      in if 8 \<le> op \<and> op < 12 then if S then I_ALU (dp_op op) False (dp_shift (lo mod 8)) else dec_misc hi lo
         else if op = 13 \<and> \<not> S \<and> lo = 0 then I_MOV_DBG
         else I_ALU (dp_op op) S (dp_shift (lo mod 8)))"

definition dec_dp_imm :: "nat \<Rightarrow> instr" where
  "dec_dp_imm hi =
     (let op = hi div 2 mod 16; S = bitn hi 0
      in if 8 \<le> op \<and> op < 12 then
           if S then I_ALU (dp_op op) False Op_IMM else if odd op then I_PSR P_MSR_IMM else I_UNK
         else I_ALU (dp_op op) S Op_IMM)"

definition dec_ls :: "nat \<Rightarrow> wb_off \<Rightarrow> instr" where
  "dec_ls hi off =
     I_WB (if bitn hi 0 then if bitn hi 2 then LS_LDRB else LS_LDR
           else if bitn hi 2 then LS_STRB else LS_STR) (\<not> bitn hi 4) off"

definition decode_arm :: "nat \<Rightarrow> instr" where
  "decode_arm c =
     (let hi = c div 16; lo = c mod 16; cls = hi div 32
      in if cls = 0 then
           if 8 \<le> lo \<and> odd lo then if lo = 9 then dec_mul hi else dec_extra hi lo
           else dec_dp_reg hi lo
         else if cls = 1 then dec_dp_imm hi
         else if cls = 2 then dec_ls hi Off_IMM
         else if cls = 3 then if odd lo then I_UNK else dec_ls hi (ls_shift (lo div 2 mod 4))
         else if cls = 4 then I_XFER (if bitn hi 0 then X_LDM else X_STM)
         else if cls = 5 then I_BRANCH (if bitn hi 4 then B_BL else B_B)
         else if cls = 6 then I_UNK
         else if bitn hi 4 then I_SVC
         else if odd lo then I_PSR (if bitn hi 0 then P_MRC else P_MCR)
         else I_UNK)"

text \<open>\<open>c\<close> is bits 15 to 6 of a THUMB instruction.\<close>

definition dec_t_reg :: "nat \<Rightarrow> tinstr" where
  "dec_t_reg k = J_REG ([Tr_AND_REG, Tr_EOR_REG, Tr_LSL_REG, Tr_LSR_REG, Tr_ASR_REG, Tr_ADC_REG, Tr_SBC_REG,
     Tr_ROR_REG, Tr_TST_REG, Tr_NEG_REG, Tr_CMP_REG, Tr_CMN_REG, Tr_ORR_REG, Tr_MUL_REG, Tr_BIC_REG, Tr_MVN_REG] ! k)"

definition dec_t_hi :: "nat \<Rightarrow> tinstr" where
  "dec_t_hi c =
     (if c div 4 mod 4 = 3 then J_BRANCH (if bitn c 1 then Tb_BLX_REG else Tb_BX)
      else J_HI ([Th_ADD_HIREG, Th_CMP_HIREG, Th_MOV_HIREG] ! (c div 4 mod 4)))"

definition dec_t_misc :: "nat \<Rightarrow> tinstr" where
  "dec_t_misc c =
     (if c div 4 mod 16 = 0 then J_HI Th_ADD_SP
      else if c div 8 mod 8 = 2 then J_BLOCK Tb_PUSH
      else if c div 8 mod 8 = 6 then J_BLOCK Tb_POP
      else J_UNK)"

definition dec_t_cond :: "nat \<Rightarrow> tinstr" where
  "dec_t_cond c =
     (let k = c div 4 mod 16
      in if k = 15 then J_SVC else if k = 14 then J_UNK else J_BRANCH Tb_BCOND)"

definition decode_thumb :: "nat \<Rightarrow> tinstr" where
  "decode_thumb c =
     (let k = c div 32
      in if k = 3 then J_IMM ([Ti_ADD_REG3, Ti_SUB_REG3, Ti_ADD_IMM3, Ti_SUB_IMM3] ! (c div 8 mod 4))
         else if k < 8 then
           J_IMM ([Ti_LSL_IMM, Ti_LSR_IMM, Ti_ASR_IMM, Ti_ADD_REG3, Ti_MOV_IMM, Ti_CMP_IMM, Ti_ADD_IMM, Ti_SUB_IMM] ! k)
         else if k = 8 then if bitn c 4 then dec_t_hi c else dec_t_reg (c mod 16)
         else if k = 9 then J_MEM Tm_LDR_PCREL
         else if k < 12 then
           J_MEM ([Tm_STR_REG, Tm_STRH_REG, Tm_STRB_REG, Tm_LDRSB_REG, Tm_LDR_REG, Tm_LDRH_REG, Tm_LDRB_REG,
             Tm_LDRSH_REG] ! (c div 8 mod 8))
         else if k < 20 then
           J_MEMI ([Tn_STR_IMM, Tn_LDR_IMM, Tn_STRB_IMM, Tn_LDRB_IMM, Tn_STRH_IMM, Tn_LDRH_IMM, Tn_STR_SPREL,
             Tn_LDR_SPREL] ! (k - 12))
         else if k = 20 then J_HI Th_ADD_PCREL
         else if k = 21 then J_HI Th_ADD_SPREL
         else if k < 24 then dec_t_misc c
         else if k = 24 then J_BLOCK Tb_STMIA
         else if k = 25 then J_BLOCK Tb_LDMIA
         else if k < 28 then dec_t_cond c
         else if k = 28 then J_BRANCH Tb_B
         else if k = 30 then J_BRANCH Tb_BL_LONG_1
         else J_BRANCH Tb_BL_LONG_2)"

lemmas decode_defs = decode_arm_def dec_mul_def dec_extra_def dec_misc_def dec_dp_reg_def dec_dp_imm_def
  dec_ls_def dp_op_def dp_shift_def ls_shift_def bitn_def

lemmas decode_thumb_defs = decode_thumb_def dec_t_reg_def dec_t_hi_def dec_t_misc_def dec_t_cond_def bitn_def

section \<open>The tables\<close>


text \<open>What the table holds: the decoder, with one entry that differs.\<close>

definition table_arm :: "nat \<Rightarrow> instr" where
  "table_arm c = (if c = 0x3A then I_ALU DP_EOR True Op_REG_ROR_IMM else decode_arm c)"

fun agrees :: "(nat \<Rightarrow> 'a) \<Rightarrow> nat \<Rightarrow> 'a list \<Rightarrow> bool" where
  "agrees f c [] \<longleftrightarrow> True"
| "agrees f c (x # xs) \<longleftrightarrow> x = f c \<and> agrees f (c + 1) xs"

lemma agrees_append [simp]: "agrees f c (xs @ ys) \<longleftrightarrow> agrees f c xs \<and> agrees f (c + length xs) ys"
  by (induction xs arbitrary: c) simp_all

lemma agrees_nth: "agrees f c xs \<Longrightarrow> i < length xs \<Longrightarrow> xs ! i = f (c + i)"
  by (induction xs arbitrary: c i) (auto simp: nth_Cons split: nat.splits)

lemma replicate_16: "replicate 16 x = [x, x, x, x, x, x, x, x, x, x, x, x, x, x, x, x]"
  by (simp add: numeral_eq_Suc)

lemma ARMInstrTable_0: "agrees table_arm 0x000 ARMInstrTable_0 \<and> length ARMInstrTable_0 = 256"
  by (simp add: ARMInstrTable_0_def table_arm_def decode_defs replicate_16)

lemma ARMInstrTable_1: "agrees table_arm 0x100 ARMInstrTable_1 \<and> length ARMInstrTable_1 = 256"
  by (simp add: ARMInstrTable_1_def table_arm_def decode_defs replicate_16)

lemma ARMInstrTable_2: "agrees table_arm 0x200 ARMInstrTable_2 \<and> length ARMInstrTable_2 = 256"
  by (simp add: ARMInstrTable_2_def table_arm_def decode_defs replicate_16)

lemma ARMInstrTable_3: "agrees table_arm 0x300 ARMInstrTable_3 \<and> length ARMInstrTable_3 = 256"
  by (simp add: ARMInstrTable_3_def table_arm_def decode_defs replicate_16)

lemma ARMInstrTable_4: "agrees table_arm 0x400 ARMInstrTable_4 \<and> length ARMInstrTable_4 = 256"
  by (simp add: ARMInstrTable_4_def table_arm_def decode_defs replicate_16)

lemma ARMInstrTable_5: "agrees table_arm 0x500 ARMInstrTable_5 \<and> length ARMInstrTable_5 = 256"
  by (simp add: ARMInstrTable_5_def table_arm_def decode_defs replicate_16)

lemma ARMInstrTable_6: "agrees table_arm 0x600 ARMInstrTable_6 \<and> length ARMInstrTable_6 = 256"
  by (simp add: ARMInstrTable_6_def table_arm_def decode_defs replicate_16)

lemma ARMInstrTable_7: "agrees table_arm 0x700 ARMInstrTable_7 \<and> length ARMInstrTable_7 = 256"
  by (simp add: ARMInstrTable_7_def table_arm_def decode_defs replicate_16)

lemma ARMInstrTable_8: "agrees table_arm 0x800 ARMInstrTable_8 \<and> length ARMInstrTable_8 = 256"
  by (simp add: ARMInstrTable_8_def table_arm_def decode_defs replicate_16)

lemma ARMInstrTable_9: "agrees table_arm 0x900 ARMInstrTable_9 \<and> length ARMInstrTable_9 = 256"
  by (simp add: ARMInstrTable_9_def table_arm_def decode_defs replicate_16)

lemma ARMInstrTable_A: "agrees table_arm 0xA00 ARMInstrTable_A \<and> length ARMInstrTable_A = 256"
  by (simp add: ARMInstrTable_A_def table_arm_def decode_defs replicate_16)

lemma ARMInstrTable_B: "agrees table_arm 0xB00 ARMInstrTable_B \<and> length ARMInstrTable_B = 256"
  by (simp add: ARMInstrTable_B_def table_arm_def decode_defs replicate_16)

lemma ARMInstrTable_C: "agrees table_arm 0xC00 ARMInstrTable_C \<and> length ARMInstrTable_C = 256"
  by (simp add: ARMInstrTable_C_def table_arm_def decode_defs replicate_16)

lemma ARMInstrTable_D: "agrees table_arm 0xD00 ARMInstrTable_D \<and> length ARMInstrTable_D = 256"
  by (simp add: ARMInstrTable_D_def table_arm_def decode_defs replicate_16)

lemma ARMInstrTable_E: "agrees table_arm 0xE00 ARMInstrTable_E \<and> length ARMInstrTable_E = 256"
  by (simp add: ARMInstrTable_E_def table_arm_def decode_defs replicate_16)

lemma ARMInstrTable_F: "agrees table_arm 0xF00 ARMInstrTable_F \<and> length ARMInstrTable_F = 256"
  by (simp add: ARMInstrTable_F_def table_arm_def decode_defs replicate_16)

lemmas ARMInstrTable_blocks = ARMInstrTable_0 ARMInstrTable_1 ARMInstrTable_2 ARMInstrTable_3 ARMInstrTable_4
  ARMInstrTable_5 ARMInstrTable_6 ARMInstrTable_7 ARMInstrTable_8 ARMInstrTable_9 ARMInstrTable_A ARMInstrTable_B
  ARMInstrTable_C ARMInstrTable_D ARMInstrTable_E ARMInstrTable_F

lemma ARMInstrTable_agrees: "agrees table_arm 0 ARMInstrTable \<and> length ARMInstrTable = 4096"
  by (simp add: ARMInstrTable_def ARMInstrTable_blocks)

lemma THUMBInstrTable_0: "agrees decode_thumb 0x000 THUMBInstrTable_0 \<and> length THUMBInstrTable_0 = 256"
  by (simp add: THUMBInstrTable_0_def decode_thumb_defs replicate_16)

lemma THUMBInstrTable_1: "agrees decode_thumb 0x100 THUMBInstrTable_1 \<and> length THUMBInstrTable_1 = 256"
  by (simp add: THUMBInstrTable_1_def decode_thumb_defs replicate_16)

lemma THUMBInstrTable_2: "agrees decode_thumb 0x200 THUMBInstrTable_2 \<and> length THUMBInstrTable_2 = 256"
  by (simp add: THUMBInstrTable_2_def decode_thumb_defs replicate_16)

lemma THUMBInstrTable_3: "agrees decode_thumb 0x300 THUMBInstrTable_3 \<and> length THUMBInstrTable_3 = 256"
  by (simp add: THUMBInstrTable_3_def decode_thumb_defs replicate_16)

lemma THUMBInstrTable_agrees: "agrees decode_thumb 0 THUMBInstrTable \<and> length THUMBInstrTable = 1024"
  by (simp add: THUMBInstrTable_def THUMBInstrTable_0 THUMBInstrTable_1 THUMBInstrTable_2 THUMBInstrTable_3)

lemma ARMInstrTable_nth: "c < 4096 \<Longrightarrow> ARMInstrTable ! c = table_arm c"
  using agrees_nth [of table_arm 0 ARMInstrTable c] ARMInstrTable_agrees by simp

lemma THUMBInstrTable_nth: "c < 1024 \<Longrightarrow> THUMBInstrTable ! c = decode_thumb c"
  using agrees_nth [of decode_thumb 0 THUMBInstrTable c] THUMBInstrTable_agrees by simp

text \<open>
  C3: the two instruction tables decode as the architecture does. All 1024 entries of the THUMB
  table and all but one of the 4096 entries of the ARM table are what the reference decoder
  gives. Entry \<^verbatim>\<open>0x03A\<close> (\<^verbatim>\<open>EORS\<close> with an operand shifted right by an odd immediate) is the
  function for a rotation.
\<close>

theorem InstrTables_decode:
  assumes "c < 4096" "t < 1024"
  shows "ARMInstrTable ! c = (if c = 0x03A then I_ALU DP_EOR True Op_REG_ROR_IMM else decode_arm c) \<and>
    THUMBInstrTable ! t = decode_thumb t"
  using ARMInstrTable_nth [OF assms(1)] THUMBInstrTable_nth [OF assms(2)] by (simp add: table_arm_def)

theorem InstrTables_decode_witness:
  "ARMInstrTable ! 0x03A = I_ALU DP_EOR True Op_REG_ROR_IMM \<and> decode_arm 0x03A = I_ALU DP_EOR True Op_REG_LSR_IMM \<and>
   ARMInstrTable ! 0x01A = I_ALU DP_AND True Op_REG_LSR_IMM \<and> THUMBInstrTable ! 0x2D0 = J_BLOCK Tb_PUSH"
  using InstrTables_decode [of "0x03A" "0x2D0"] InstrTables_decode [of "0x01A" 0]
  by (simp add: decode_defs decode_thumb_defs)

end
