(* ===== verification/Arm_Step.thy ===== *)
theory Arm_Step
  imports Arm_Modes Arm_Decode
begin

text \<open>
  An invariant of the processor state that every instruction keeps. The locale states what an
  invariant has to allow (its laws are about single fields and the virtual methods) and has
  the proof for every instruction of the two tables; the ARM7 is an instance, which shows
  that its interpreter never indexes a table out of range.
\<close>

section \<open>Invariants that instructions keep\<close>

locale cpu_invariant =
  fixes vt :: "'w vt" and I :: "'w arm_scheme \<Rightarrow> bool"
  assumes psr: "I c \<Longrightarrow> bit (psr_get q c) 4"
    and R: "I c \<Longrightarrow> I (c\<lparr>R := r\<rparr>)"
    and cpsr: "I c \<Longrightarrow> bit p 4 \<Longrightarrow> (bit p 5 \<longrightarrow> bit (CPSR c) 5) \<Longrightarrow> I (c\<lparr>CPSR := p\<rparr>)"
    and swap: "I c \<Longrightarrow> I (swap_bank m c)"
    and pu: "I c \<Longrightarrow> I (c\<lparr>PU_Map := x\<rparr>)"
    and spsr: "I c \<Longrightarrow> bit v 4 \<Longrightarrow> q \<noteq> PSR_CPSR \<Longrightarrow> I (psr_set q v c)"
    and data_cycles: "I c \<Longrightarrow> I (c\<lparr>DataCycles := d\<rparr>)"
    and jump: "I c \<Longrightarrow> I (JumpTo vt a b c)"
    and reads: "I c \<Longrightarrow> I (snd (DataRead8 vt a c))" "I c \<Longrightarrow> I (snd (DataRead16 vt a c))"
      "I c \<Longrightarrow> I (snd (DataRead32 vt a c))" "I c \<Longrightarrow> I (snd (DataRead32S vt a c))"
    and writes: "I c \<Longrightarrow> I (DataWrite8 vt a b8 c)" "I c \<Longrightarrow> I (DataWrite16 vt a b16 c)"
      "I c \<Longrightarrow> I (DataWrite32 vt a b32 c)" "I c \<Longrightarrow> I (DataWrite32S vt a b32 c)"
    and cycles: "I c \<Longrightarrow> I (AddCycles_C vt c)" "I c \<Longrightarrow> I (AddCycles_CI vt k c)"
      "I c \<Longrightarrow> I (AddCycles_CDI vt c)" "I c \<Longrightarrow> I (AddCycles_CD vt c)"
    and cp15: "I c \<Longrightarrow> I (CP15Write vt a b32 c)"
    and calls: "I c \<Longrightarrow> I (RunCheats vt c)" "I c \<Longrightarrow> I (NocashPrint vt n a c)"
begin

lemma mode: "I c \<Longrightarrow> bit (CPSR c) 4"
  using psr [of c PSR_CPSR] by simp

lemma inv_if: "I a \<Longrightarrow> I b \<Longrightarrow> I (if P then a else b)"
  by simp

lemma inv_option: "I a \<Longrightarrow> (\<And>x. I (b x)) \<Longrightarrow> I (case opt of None \<Rightarrow> a | Some x \<Rightarrow> b x)"
  by (cases opt) simp_all

lemma inv_setR: "I c \<Longrightarrow> I (setR i v c)"
  by (simp add: setR_def R)

lemma inv_flags:
  "I c \<Longrightarrow> I (SetC b c)" "I c \<Longrightarrow> I (SetNZ n z c)" "I c \<Longrightarrow> I (SetNZCV n z b v c)" "I c \<Longrightarrow> I (set_nz res c)"
  "I c \<Longrightarrow> I (setQ c)"
  by (auto intro!: cpsr dest: mode
    simp: SetC_def SetNZ_def SetNZCV_def set_nz_def setQ_def Let_def bit_simps)

lemma inv_UpdateMode: "I c \<Longrightarrow> I (UpdateMode old new ph c)"
  by (simp add: UpdateMode_def swap pu Let_def)

lemma inv_enter:
  "I c \<Longrightarrow> I (c\<lparr>CPSR := (CPSR c AND NOT 0xFF) OR 0xD2\<rparr>)"
  "I c \<Longrightarrow> I (c\<lparr>CPSR := (CPSR c AND NOT 0xBF) OR 0x9B\<rparr>)"
  "I c \<Longrightarrow> I (c\<lparr>CPSR := (CPSR c AND NOT 0xBF) OR 0x93\<rparr>)"
  by (rule cpsr; simp add: bit_simps)+

lemma inv_spsr:
  "I c \<Longrightarrow> bit v 4 \<Longrightarrow> I (c\<lparr>R_IRQ := (R_IRQ c)(2 := v)\<rparr>)"
  "I c \<Longrightarrow> bit v 4 \<Longrightarrow> I (c\<lparr>R_UND := (R_UND c)(2 := v)\<rparr>)"
  "I c \<Longrightarrow> bit v 4 \<Longrightarrow> I (c\<lparr>R_SVC := (R_SVC c)(2 := v)\<rparr>)"
  using spsr [of c v PSR_IRQ] spsr [of c v PSR_UND] spsr [of c v PSR_SVC] by simp_all

lemmas inv_basic = inv_if inv_option inv_setR inv_flags inv_UpdateMode inv_enter inv_spsr data_cycles jump reads writes
  cycles cp15 calls

lemma inv_exceptions:
  assumes "I c"
  shows "I (A_UNK vt c)" "I (T_UNK vt c)" "I (A_SVC vt c)" "I (T_SVC vt c)" "I (TriggerIRQ vt c)"
  unfolding A_UNK_def T_UNK_def A_SVC_def T_SVC_def TriggerIRQ_def Let_def
  by (intro inv_basic mode assms)+

lemma inv_psr_ptr:
  assumes "I c" "psr_ptr c = Some q" "bit v 4" "bit v 5 \<longrightarrow> bit (CPSR c) 5 \<or> q \<noteq> PSR_CPSR"
  shows "I (psr_set q v c)"
  using assms cpsr [of c v] spsr [of c v q] by (cases "q = PSR_CPSR") auto

lemma inv_msr:
  assumes "I c"
  shows "I (msr vt val c)"
proof (cases "psr_ptr c")
  case (Some q)
  have "I (psr_set q ((psr_get q c AND NOT (msr_mask c)) OR ((val OR 0x10) AND msr_mask c)) c)"
  proof (rule inv_psr_ptr [OF assms Some])
    show "bit ((psr_get q c AND NOT (msr_mask c)) OR ((val OR 0x10) AND msr_mask c)) 4"
      using psr [OF assms, of q] by (simp add: bit_simps)
    have "\<not> bit (msr_mask c) 5" if "q = PSR_CPSR"
      using Some that by (auto simp: psr_ptr_def msr_mask_def Let_def bit_simps split: if_splits)
    then show "bit ((psr_get q c AND NOT (msr_mask c)) OR ((val OR 0x10) AND msr_mask c)) 5 \<longrightarrow>
        bit (CPSR c) 5 \<or> q \<noteq> PSR_CPSR"
      by (auto simp: bit_simps)
  qed
  then show ?thesis using Some by (simp add: msr_def Let_def inv_basic)
qed (simp add: msr_def inv_basic assms)

lemma inv_psr_instrs:
  assumes "I c"
  shows "I (A_MSR_IMM vt c)" "I (A_MSR_REG vt c)" "I (A_MRS vt c)" "I (A_MCR vt c)" "I (A_MRC vt c)"
  unfolding A_MSR_IMM_def A_MSR_REG_def A_MRS_def A_MCR_def A_MRC_def Let_def
  by (intro inv_basic inv_msr inv_exceptions assms)+

lemma inv_branches:
  assumes "I c"
  shows "I (A_B vt c)" "I (A_BL vt c)" "I (A_BLX_IMM vt c)" "I (A_BX vt c)" "I (A_BLX_REG vt c)" "I (T_BCOND vt c)"
    "I (T_BX vt c)" "I (T_BLX_REG vt c)" "I (T_B vt c)" "I (T_BL_LONG_1 vt c)" "I (T_BL_LONG_2 vt c)"
  unfolding A_B_def A_BL_def A_BLX_IMM_def A_BX_def A_BLX_REG_def T_BCOND_def T_BX_def T_BLX_REG_def T_B_def
    T_BL_LONG_1_def T_BL_LONG_2_def Let_def
  by (intro inv_basic assms)+

lemma inv_snd_if: "I (snd a) \<Longrightarrow> I (snd b) \<Longrightarrow> I (snd (if P then a else b))"
  by simp

lemma inv_pair: "I c \<Longrightarrow> I (snd (x, c))"
  by simp

lemmas shift_defs = LSL_IMM_def LSR_IMM_def ASR_IMM_def ROR_IMM_def LSL_IMM_S_def LSR_IMM_S_def ASR_IMM_S_def
  ROR_IMM_S_def LSL_REG_def LSR_REG_def ASR_REG_def ROR_REG_def LSL_REG_S_def LSR_REG_S_def ASR_REG_S_def ROR_REG_S_def

lemma inv_shifts:
  assumes "I c"
  shows "I (snd (LSL_IMM x s c))" "I (snd (LSR_IMM x s c))" "I (snd (ASR_IMM x s c))" "I (snd (ROR_IMM x s c))"
    "I (snd (LSL_IMM_S x s c))" "I (snd (LSR_IMM_S x s c))" "I (snd (ASR_IMM_S x s c))" "I (snd (ROR_IMM_S x s c))"
    "I (snd (LSL_REG x s c))" "I (snd (LSR_REG x s c))" "I (snd (ASR_REG x s c))" "I (snd (ROR_REG x s c))"
    "I (snd (LSL_REG_S x s c))" "I (snd (LSR_REG_S x s c))" "I (snd (ASR_REG_S x s c))" "I (snd (ROR_REG_S x s c))"
  unfolding shift_defs Let_def by (intro inv_snd_if inv_pair inv_basic assms)+

lemma inv_op2:
  assumes "I c"
  shows "I (snd (calc_op2 op c))" "I (snd (calc_op2_S op c))"
  unfolding atomize_conj
  by (cases op)
    (simp_all add: A_CALC_OP2_IMM_def A_CALC_OP2_IMM_S_def A_CALC_OP2_REG_SHIFT_IMM_def A_CALC_OP2_REG_SHIFT_REG_def
      Let_def inv_shifts inv_flags assms)

lemmas alu_defs = A_AND_def A_AND_S_def A_EOR_def A_EOR_S_def A_SUB_def A_SUB_S_def A_RSB_def A_RSB_S_def A_ADD_def
  A_ADD_S_def A_ADC_def A_ADC_S_def A_SBC_def A_SBC_S_def A_RSC_def A_RSC_S_def A_TST_def A_TEQ_def A_CMP_def A_CMN_def
  A_ORR_def A_ORR_S_def A_MOV_def A_MOV_S_def A_BIC_def A_BIC_S_def A_MVN_def A_MVN_S_def alu_cycles_def alu_write_def
  alu_write_S_def

lemma inv_alu:
  assumes "I c"
  shows "I (A_ALU x S op vt c)"
  by (cases x)
    (simp_all only: A_ALU.simps A_IMPLEMENT_ALU_OP_def A_IMPLEMENT_ALU_TEST_def alu_defs Let_def case_prod_beta,
     (intro inv_basic inv_snd_if inv_op2 assms)+)

lemma inv_mov_dbg: "I c \<Longrightarrow> I (A_MOV_REG_LSL_IMM_DBG vt c)"
  unfolding A_MOV_REG_LSL_IMM_DBG_def Let_def by (intro inv_basic inv_alu)

lemma inv_mul_flags: "I c \<Longrightarrow> I (mul_flags n z c)"
  unfolding mul_flags_def Let_def by (intro inv_basic)

lemma inv_set_long: "I c \<Longrightarrow> I (set_long w c)"
  unfolding set_long_def by (intro inv_basic)

lemma inv_mul:
  assumes "I c"
  shows "I (exec_mul x vt c)"
  by (cases x)
    (simp_all only: exec_mul.simps A_MUL_def A_MLA_def A_UMULL_def A_UMLAL_def A_SMULL_def A_SMLAL_def A_SMLAxy_def
      A_SMLAWy_def A_SMULxy_def A_SMULWy_def A_SMLALxy_def Let_def,
     (intro inv_basic inv_mul_flags inv_set_long assms)+)

lemma inv_q:
  assumes "I c"
  shows "I (snd (q_add a b c))" "I (snd (q_sub a b c))" "I (snd (q_double b c))"
  unfolding q_add_def q_sub_def q_double_def Let_def by (intro inv_snd_if inv_pair inv_basic assms)+

lemma inv_sat:
  assumes "I c"
  shows "I (exec_sat x vt c)"
  by (cases x)
    (simp_all only: exec_sat.simps A_CLZ_def A_QADD_def A_QSUB_def A_QDADD_def A_QDSUB_def Let_def case_prod_beta,
     (intro inv_basic inv_exceptions inv_q assms)+)

lemma inv_load_reg: "I (snd (rd c)) \<Longrightarrow> I (load_reg rd i c)"
  by (auto simp: load_reg_def inv_basic split: prod.split option.split)

lemma inv_load_local: "I (snd (rd c)) \<Longrightarrow> I (snd (load_local vt rd c))"
  by (auto simp: load_local_def split: prod.split option.split)

lemma inv_wb: "I c \<Longrightarrow> I (wb_pre a c)" "I c \<Longrightarrow> I (wb_post a c)" "I c \<Longrightarrow> I (ext_reg f r c)" "I c \<Longrightarrow> I (ldr_write vt a c)"
  unfolding wb_pre_def wb_post_def ext_reg_def ldr_write_def by (intro inv_basic, assumption+)+

lemmas inv_mem = inv_basic inv_load_reg inv_load_local inv_wb

lemmas ls_defs = A_STR_def A_STR_POST_def A_STRB_def A_STRB_POST_def A_LDR_def A_LDR_POST_def A_LDRB_def A_LDRB_POST_def
  A_STRH_def A_STRH_POST_def A_LDRD_def A_LDRD_POST_def A_STRD_def A_STRD_POST_def A_LDRH_def A_LDRH_POST_def A_LDRSB_def
  A_LDRSB_POST_def A_LDRSH_def A_LDRSH_POST_def ldrd_at_def strd_at_def

lemma inv_wb_ls:
  assumes "I c"
  shows "I (A_WB x post off vt c)"
  by (cases x) (simp_all only: A_WB.simps A_IMPLEMENT_WB_LDRSTR_def ls_defs Let_def case_prod_beta,
    (intro inv_mem assms)+)

lemma inv_hd_ls:
  assumes "I c"
  shows "I (A_HD x post off vt c)"
  by (cases x) (simp_all only: A_HD.simps A_IMPLEMENT_HD_LDRSTR_def ls_defs Let_def case_prod_beta,
    (intro inv_mem assms)+)

lemma inv_block: "I c \<Longrightarrow> I (snd (block_read vt f a c))" "I c \<Longrightarrow> I (block_write vt f a v c)"
  unfolding block_read_def block_write_def by (intro inv_snd_if inv_basic, assumption+)+

text \<open>The loops: a step that keeps the invariant of its third component.\<close>

lemma inv_fold:
  assumes "\<And>i z. I (snd (snd z)) \<Longrightarrow> I (snd (snd (f i z)))" "I (snd (snd z))"
  shows "I (snd (snd (fold f xs z)))"
  using assms(2) by (induction xs arbitrary: z) (simp_all add: assms(1))

lemma inv_steps:
  assumes "I (snd (snd z))"
  shows "I (snd (snd (ldm_step vt pre i z)))" "I (snd (snd (stm_step vt pre b bk o' i z)))"
    "I (snd (snd (t_ldm_step vt i z)))" "I (snd (snd (t_stm_step vt i z)))"
  using assms
  by (cases z; simp add: ldm_step_def stm_step_def t_ldm_step_def t_stm_step_def Let_def inv_load_reg inv_block)+

lemma inv_loops:
  assumes "I c"
  shows "I (snd (snd (fold (ldm_step vt pre) xs (a, f, c))))"
    "I (snd (snd (fold (stm_step vt pre b bk old) xs (a, f, c))))"
    "I (snd (snd (fold (t_ldm_step vt) xs (a, f, c))))" "I (snd (snd (fold (t_stm_step vt) xs (a, f, c))))"
  by (rule inv_fold; simp add: inv_steps assms)+

lemma inv_snd2_if: "I (snd (snd a)) \<Longrightarrow> I (snd (snd b)) \<Longrightarrow> I (snd (snd (if P then a else b)))"
  by simp

lemma inv_snd2_pair: "I c \<Longrightarrow> I (snd (snd (x, y, c)))"
  by simp

lemma inv_snd_option:
  "I (snd r) \<Longrightarrow> I (snd (case fst r of None \<Rightarrow> (x, snd r) | Some v \<Rightarrow> (f v, snd r)))"
  by (cases "fst r") simp_all

lemma pc_read: "(case r of (None, c) \<Rightarrow> (0, c) | (Some v, c) \<Rightarrow> (v, c)) =
    (case fst r of None \<Rightarrow> (0, snd r) | Some v \<Rightarrow> (v, snd r))"
  by (cases r) (simp split: option.split)

lemma inv_LDM: "I c \<Longrightarrow> I (A_LDM vt c)"
  unfolding A_LDM_def Let_def pc_read
  unfolding case_prod_beta
  by (intro inv_basic inv_loops inv_snd2_if inv_snd2_pair inv_snd_option inv_block)

lemma inv_STM: "I c \<Longrightarrow> I (A_STM vt c)"
  unfolding A_STM_def Let_def case_prod_beta by (intro inv_basic inv_loops)

lemma inv_xfer:
  assumes "I c"
  shows "I (exec_xfer x vt c)"
proof -
  have "I (A_SWP vt c)" "I (A_SWPB vt c)"
    unfolding A_SWP_def A_SWPB_def Let_def case_prod_beta by (intro inv_mem assms)+
  then show ?thesis using assms by (cases x) (simp_all add: inv_LDM inv_STM)
qed

lemma inv_arm:
  assumes "I c"
  shows "I (exec_arm x vt c)"
proof (cases x)
  case (I_BRANCH y)
  then show ?thesis by (cases y) (simp_all add: inv_branches assms)
next
  case (I_PSR y)
  then show ?thesis by (cases y) (simp_all add: inv_psr_instrs assms)
qed (simp_all add: inv_alu inv_mov_dbg inv_wb_ls inv_hd_ls inv_mul inv_sat inv_xfer inv_exceptions assms)

lemma inv_t_imm:
  assumes "I c"
  shows "I (texec_imm x vt c)"
  by (cases x)
    (simp_all only: texec_imm.simps T_LSL_IMM_def T_LSR_IMM_def T_ASR_IMM_def T_ADD_REG'_def T_SUB_REG'_def
      T_ADD_IMM'_def T_SUB_IMM'_def T_MOV_IMM_def T_CMP_IMM_def T_ADD_IMM_def T_SUB_IMM_def Let_def case_prod_beta,
     (intro inv_basic inv_shifts assms)+)

lemma inv_t_reg:
  assumes "I c"
  shows "I (texec_reg x vt c)"
  by (cases x)
    (simp_all only: texec_reg.simps T_AND_REG_def T_EOR_REG_def T_LSL_REG_def T_LSR_REG_def T_ASR_REG_def T_ADC_REG_def
      T_SBC_REG_def T_ROR_REG_def T_TST_REG_def T_NEG_REG_def T_CMP_REG_def T_CMN_REG_def T_ORR_REG_def T_MUL_REG_def
      T_BIC_REG_def T_MVN_REG_def Let_def case_prod_beta,
     (intro inv_basic inv_shifts assms)+)

lemma inv_t_hi:
  assumes "I c"
  shows "I (texec_hi x vt c)"
  by (cases x)
    (simp_all only: texec_hi.simps T_ADD_HIREG_def T_CMP_HIREG_def T_MOV_HIREG_def T_ADD_PCREL_def T_ADD_SPREL_def
      T_ADD_SP_def Let_def,
     (intro inv_basic assms)+)

lemma inv_t_mem:
  assumes "I c"
  shows "I (texec_mem x vt c)" "I (texec_memi y vt c)"
proof -
  show "I (texec_mem x vt c)"
    by (cases x)
      (simp_all only: texec_mem.simps T_LDR_PCREL_def T_STR_REG_def T_STRH_REG_def T_STRB_REG_def T_LDRSB_REG_def
        T_LDR_REG_def T_LDRH_REG_def T_LDRB_REG_def T_LDRSH_REG_def Let_def case_prod_beta,
       (intro inv_mem assms)+)
  show "I (texec_memi y vt c)"
    by (cases y)
      (simp_all only: texec_memi.simps T_STR_IMM_def T_LDR_IMM_def T_STRB_IMM_def T_LDRB_IMM_def T_STRH_IMM_def
        T_LDRH_IMM_def T_STR_SPREL_def T_LDR_SPREL_def Let_def case_prod_beta,
       (intro inv_mem assms)+)
qed

lemma inv_t_block:
  assumes "I c"
  shows "I (texec_block x vt c)"
  by (cases x)
    (simp_all only: texec_block.simps T_PUSH_def T_POP_def T_STMIA_def T_LDMIA_def Let_def case_prod_beta,
     (intro inv_mem inv_loops inv_snd_if inv_pair inv_block assms)+)

lemma inv_thumb:
  assumes "I c"
  shows "I (exec_thumb x vt c)"
proof (cases x)
  case (J_BRANCH y)
  then show ?thesis by (cases y) (simp_all add: inv_branches assms)
qed (simp_all add: inv_t_imm inv_t_reg inv_t_hi inv_t_mem inv_t_block inv_exceptions assms)

end
section \<open>The ARM7\<close>

text \<open>
  The status register and the saved ones have bit 4 set (the emulator has no 26-bit modes),
  and in THUMB state the two prefetched instructions are halfwords.
\<close>

definition cpu_ok :: "'b arm7 \<Rightarrow> bool" where
  "cpu_ok c \<longleftrightarrow>
     bit (CPSR c) 4 \<and> bit (R_FIQ c 7) 4 \<and> bit (R_IRQ c 2) 4 \<and> bit (R_SVC c 2) 4 \<and> bit (R_ABT c 2) 4 \<and> bit (R_UND c 2) 4 \<and>
     (bit (CPSR c) 5 \<longrightarrow> NextInstr c 0 < 0x10000 \<and> NextInstr c 1 < 0x10000)"

text \<open>The conditions on the status registers alone.\<close>

definition psr_ok :: "'w arm_scheme \<Rightarrow> bool" where
  "psr_ok c \<longleftrightarrow> (\<forall>q. bit (psr_get q c) 4)"

lemma psr_ok_iff:
  "psr_ok c \<longleftrightarrow>
     bit (CPSR c) 4 \<and> bit (R_FIQ c 7) 4 \<and> bit (R_IRQ c 2) 4 \<and> bit (R_SVC c 2) 4 \<and> bit (R_ABT c 2) 4 \<and> bit (R_UND c 2) 4"
  unfolding psr_ok_def by (metis psr_get.simps psr_ref.exhaust)

lemma cpu_ok_psr: "cpu_ok c \<longleftrightarrow> psr_ok c \<and> (bit (CPSR c) 5 \<longrightarrow> NextInstr c 0 < 0x10000 \<and> NextInstr c 1 < 0x10000)"
  by (simp add: cpu_ok_def psr_ok_iff)

lemma psr_swap: "psr_get q (swap_bank m c) = psr_get q c"
  by (cases q) (simp_all add: swap_bank_def swap_regs_eq Let_def)

lemma psr_UpdateMode: "psr_get q (UpdateMode old new ph c) = psr_get q c"
  by (cases q) (simp_all add: UpdateMode_def swap_bank_def swap_regs_eq Let_def)

lemma psr_ok_RestoreCPSR: "psr_ok c \<Longrightarrow> psr_ok (RestoreCPSR c)"
  unfolding psr_ok_def RestoreCPSR_def Let_def psr_UpdateMode
proof
  fix q :: psr_ref
  assume "\<forall>q. bit (psr_get q c) 4"
  then show "bit (psr_get q (c\<lparr>CPSR := x OR 0x10\<rparr>)) 4" for x
    by (cases q) (auto simp: bit_simps dest: spec [of _ PSR_FIQ] spec [of _ PSR_IRQ] spec [of _ PSR_SVC]
      spec [of _ PSR_ABT] spec [of _ PSR_UND])
qed

lemma ucast16_less: "(ucast (h :: u16) :: u32) < 0x10000"
proof -
  have "unat (ucast h :: u32) = unat h"
    using unat_u16_less [of h] by (intro unat_ucast_small) simp
  then show ?thesis using unat_u16_less [of h] by (simp add: word_less_nat_alt)
qed

lemma JumpTo_halfwords:
  "jump_addr a r c AND 1 \<noteq> 0 \<Longrightarrow>
     NextInstr (ARMv4_JumpTo dev a r c) 0 < 0x10000 \<and> NextInstr (ARMv4_JumpTo dev a r c) 1 < 0x10000"
  by (cases r) (simp_all add: ARMv4_JumpTo_def jump_addr_def code_reads setR_def setNext_def Let_def ucast16_less)

lemma cpu_ok_JumpTo:
  assumes "psr_ok c"
  shows "cpu_ok (ARMv4_JumpTo dev a r c)"
proof -
  have b: "psr_ok (jump_base r c)" using assms by (simp add: jump_base_def psr_ok_RestoreCPSR)
  then have "psr_ok (ARMv4_JumpTo dev a r c)"
    by (simp add: psr_ok_iff JumpTo_fields JumpTo_CPSR bit_simps)
  moreover have "\<not> bit (CPSR (ARMv4_JumpTo dev a r c)) 5" if "jump_addr a r c AND 1 = 0"
    using that by (simp add: JumpTo_CPSR bit_simps)
  ultimately show ?thesis using JumpTo_halfwords [of a r c dev] by (auto simp: cpu_ok_psr)
qed

text \<open>Reads, writes, cycles and calls change the console and counters only.\<close>

lemma cpu_ok_updates [simp]:
  "cpu_ok (c\<lparr>R := r\<rparr>) = cpu_ok c" "cpu_ok (c\<lparr>PU_Map := x\<rparr>) = cpu_ok c" "cpu_ok (c\<lparr>NDS := n\<rparr>) = cpu_ok c"
  "cpu_ok (c\<lparr>DataCycles := d\<rparr>) = cpu_ok c" "cpu_ok (c\<lparr>DataRegion := a\<rparr>) = cpu_ok c"
  "cpu_ok (c\<lparr>Cycles := k\<rparr>) = cpu_ok c" "cpu_ok (c\<lparr>CurInstr := w\<rparr>) = cpu_ok c"
  by (simp_all add: cpu_ok_def)

lemma cpu_ok_psr_ok: "cpu_ok c \<Longrightarrow> psr_ok c"
  by (simp add: cpu_ok_psr)

lemma cpu_ok_swap: "cpu_ok c \<Longrightarrow> cpu_ok (swap_bank m c)"
proof -
  have "NextInstr (swap_bank m c) = NextInstr c"
    by (simp add: swap_bank_def swap_regs_eq Let_def)
  moreover have "CPSR (swap_bank m c) = CPSR c" using psr_swap [of PSR_CPSR m c] by simp
  ultimately show "cpu_ok c \<Longrightarrow> cpu_ok (swap_bank m c)" by (simp add: cpu_ok_psr psr_ok_def psr_swap)
qed

lemma cpu_ok_psr_set: "cpu_ok c \<Longrightarrow> bit v 4 \<Longrightarrow> q \<noteq> PSR_CPSR \<Longrightarrow> cpu_ok (psr_set q v c)"
  by (cases q) (simp_all add: cpu_ok_def)

lemmas v4_data_defs = ARMv4_DataRead8_def ARMv4_DataRead16_def ARMv4_DataRead32_def ARMv4_DataRead32S_def
  ARMv4_DataWrite8_def ARMv4_DataWrite16_def ARMv4_DataWrite32_def ARMv4_DataWrite32S_def BusRead_eq BusWrite8_def
  BusWrite16_def BusWrite32_def

lemmas v4_cycle_defs = ARMv4_AddCycles_C_def ARMv4_AddCycles_CI_def ARMv4_AddCycles_CDI_def ARMv4_AddCycles_CD_def

interpretation arm7: cpu_invariant "vt7 dev hk" cpu_ok
proof unfold_locales
  fix c :: "'b arm7" and q p
  assume c: "cpu_ok c"
  show "bit (psr_get q c) 4" using c by (simp add: cpu_ok_psr psr_ok_def)
  show "cpu_ok (c\<lparr>CPSR := p\<rparr>)" if "bit p 4" "bit p 5 \<longrightarrow> bit (CPSR c) 5"
    using c that by (simp add: cpu_ok_def)
qed (simp_all add: vt7_def v4_data_defs v4_cycle_defs Let_def cpu_ok_swap cpu_ok_psr_set cpu_ok_JumpTo cpu_ok_psr_ok)

lemma cpu_ok_Reset: "cpu_ok (Reset (vt7 dev hk) c)"
  by (simp add: Reset_def vt7_def Let_def cpu_ok_JumpTo psr_ok_iff)

text \<open>Prefetch: the next halfword comes from the bus as a halfword.\<close>

lemma cpu_ok_prefetch:
  "cpu_ok c \<Longrightarrow> bit (CPSR c) 5 \<Longrightarrow> cpu_ok (setNext 1 (ucast (h :: u16)) (setNext 0 (NextInstr c 1) c))"
  "cpu_ok c \<Longrightarrow> \<not> bit (CPSR c) 5 \<Longrightarrow> cpu_ok (setNext 1 w (setNext 0 (NextInstr c 1) c))"
  by (simp_all add: cpu_ok_def setNext_def ucast16_less)

lemma cpu_ok_step:
  assumes "cpu_ok c"
  shows "cpu_ok (ARMv4_step dev hk c)"
proof (cases "bit (CPSR c) 5")
  case True
  have "cpu_ok (c\<lparr>R := (R c)(15 := R c 15 + 2), CurInstr := NextInstr c 0, NDS := n,
      NextInstr := (NextInstr c)(0 := NextInstr c 1, 1 := ucast (h :: u16))\<rparr>)" for n h
    using assms True by (simp add: cpu_ok_def ucast16_less)
  with True show ?thesis
    by (simp add: ARMv4_step_def and_T code_reads setR_def setNext_def Let_def arm7.inv_thumb)
next
  case False
  have "cpu_ok (c\<lparr>R := (R c)(15 := R c 15 + 4), CurInstr := NextInstr c 0, NDS := n,
      NextInstr := (NextInstr c)(0 := NextInstr c 1, 1 := w)\<rparr>)" for n w
    using assms False by (simp add: cpu_ok_def)
  with False show ?thesis
    by (simp add: ARMv4_step_def and_T code_reads setR_def setNext_def Let_def arm7.inv_arm ARMv4_AddCycles_C_def)
qed

text \<open>One turn of the loop after its instruction: an interrupt, if there is one, and the cycles.\<close>

lemma cpu_ok_turn:
  "cpu_ok c \<Longrightarrow> cpu_ok (spend_cycles (if P then TriggerIRQ (vt7 dev hk) c else c))"
  by (simp add: spend_cycles_def arm7.inv_exceptions)

lemma cpu_ok_at_target [simp]: "cpu_ok (at_target c) = cpu_ok c"
  by (simp add: at_target_def)

lemma cpu_ok_loop: "ARMv4_loop dev hk c = Some c' \<Longrightarrow> cpu_ok c \<longrightarrow> cpu_ok c'"
proof (erule ARMv4_loop.raw_induct [where P = "\<lambda>dev hk c c'. cpu_ok c \<longrightarrow> cpu_ok c'", rotated], intro impI)
  fix self :: "'a dma_nds_scheme devices \<Rightarrow> 'a hooks \<Rightarrow> 'a arm7 \<Rightarrow> 'a arm7 option" and dev hk c c'
  assume IH: "\<And>dev hk c c'. self dev hk c = Some c' \<Longrightarrow> cpu_ok c \<longrightarrow> cpu_ok c'" and ok: "cpu_ok c"
    and r: "(if ARM7Timestamp (NDS c) < ARM7Target (NDS c) then
        let cpu = ARMv4_step dev hk c
        in if Halted (NDS cpu) 1 \<noteq> 0 then
             Some (if Halted (NDS cpu) 1 = 1 \<and> ARM7Timestamp (NDS cpu) < ARM7Target (NDS cpu)
                   then at_target cpu else cpu)
           else
             let cpu = (if IRQ_line (NDS cpu) 1 then TriggerIRQ (vt7 dev hk) cpu else cpu)
             in self dev hk (spend_cycles cpu)
      else Some c) = Some c'"
  have s: "cpu_ok (ARMv4_step dev hk c)" using ok by (rule cpu_ok_step)
  define d where "d = ARMv4_step dev hk c"
  define P where "P = IRQ_line (NDS d) 1"
  have t: "cpu_ok (spend_cycles (if P then TriggerIRQ (vt7 dev hk) d else d))"
    using s unfolding d_def by (rule cpu_ok_turn)
  show "cpu_ok c'"
  proof (cases "ARM7Timestamp (NDS c) < ARM7Target (NDS c)")
    case False
    then show ?thesis using r ok by (simp only: if_False option.inject)
  next
    case True
    note r = r [unfolded Let_def if_P [OF True], folded d_def, folded P_def]
    show ?thesis
    proof (cases "Halted (NDS d) 1 \<noteq> 0")
      case True
      then have "c' = at_target d \<or> c' = d" using r by (simp only: if_True simp_thms option.inject split: if_split_asm)
      then show ?thesis using s by (auto simp: d_def)
    next
      case False
      note r [unfolded if_not_P [OF False]]
      then show ?thesis using IH t by blast
    qed
  qed
qed

lemma icode_bound: "unat ((drop_bit 4 w AND 0xF) OR (drop_bit 16 w AND 0xFF0) :: u32) < 4096"
proof -
  have "take_bit 12 ((drop_bit 4 w AND 0xF) OR (drop_bit 16 w AND 0xFF0)) = (drop_bit 4 w AND 0xF) OR (drop_bit 16 w AND 0xFF0)"
    by (simp add: take_bit_eq_mask mask_numeral bit.conj_disj_distrib2 and.assoc)
  then show ?thesis using unat_less_exp_if_take_bit by fastforce
qed

lemma thumb_icode_bound: "w < 0x10000 \<Longrightarrow> unat (drop_bit 6 w :: u32) < 1024"
  by (simp add: unat_shr word_less_nat_alt less_mult_imp_div_less)

text \<open>
  C5: the type of the ARM7's state. A reset establishes it; every instruction, whatever its
  encoding, and the whole interpreter loop with its interrupts keep it: the mode fields stay
  32-bit modes, and in THUMB state the prefetched instructions are halfwords. So the two
  instruction tables are never indexed out of range, although the index into the THUMB table
  is not masked.
\<close>

theorem ARM7_state_type:
  assumes "cpu_ok c"
  shows "cpu_ok (Reset (vt7 dev hk) c0) \<and>
    cpu_ok (ARMv4_step dev hk c) \<and>
    (ARMv4_loop dev hk c = Some c' \<longrightarrow> cpu_ok c') \<and>
    (CPSR c AND 0x20 \<noteq> 0 \<longrightarrow> unat (drop_bit 6 (NextInstr c 0)) < length THUMBInstrTable) \<and>
    unat ((drop_bit 4 (NextInstr c 0) AND 0xF) OR (drop_bit 16 (NextInstr c 0) AND 0xFF0)) < length ARMInstrTable"
proof (intro conjI impI)
  show "cpu_ok (Reset (vt7 dev hk) c0)" by (rule cpu_ok_Reset)
  show "cpu_ok (ARMv4_step dev hk c)" using assms by (rule cpu_ok_step)
  show "cpu_ok c'" if "ARMv4_loop dev hk c = Some c'" using cpu_ok_loop [OF that] assms by simp
  show "unat (drop_bit 6 (NextInstr c 0)) < length THUMBInstrTable" if "CPSR c AND 0x20 \<noteq> 0"
    using assms that THUMBInstrTable_agrees thumb_icode_bound by (simp add: cpu_ok_def and_T)
  show "unat ((drop_bit 4 (NextInstr c 0) AND 0xF) OR (drop_bit 16 (NextInstr c 0) AND 0xFF0)) < length ARMInstrTable"
    using ARMInstrTable_agrees icode_bound by simp
qed

lemma arm7_zero_ok: "cpu_ok arm7_zero"
  by (simp add: cpu_ok_def)

theorem ARM7_state_type_witness:
  "cpu_ok (ARMv4_step no_devices hooks_idle (arm7_zero\<lparr>CPSR := 0x3F, NextInstr := (\<lambda>_. 0xB5F0)\<rparr>)) \<and>
   unat (drop_bit 6 (0xB5F0 :: u32)) < length THUMBInstrTable"
proof -
  have "cpu_ok (arm7_zero\<lparr>CPSR := 0x3F, NextInstr := (\<lambda>_. 0xB5F0)\<rparr>)" by (simp add: cpu_ok_def)
  from ARM7_state_type [OF this, of no_devices hooks_idle]
  show ?thesis by simp
qed

end
