(* ===== verification/Arm_Stack.thy ===== *)
theory Arm_Stack
  imports Arm_Step
begin

text \<open>
  The ARM7's stack, over its bus: what the block stores of \<^verbatim>\<open>T_PUSH\<close> leave in RAM is what the
  block loads of \<^verbatim>\<open>T_POP\<close> take out.
\<close>

section \<open>Words of RAM\<close>

definition word_at :: "'b dma_nds_scheme devices \<Rightarrow> 'b arm7 \<Rightarrow> u32 \<Rightarrow> u32" where
  "word_at dev c a = fst (Read32 dev 1 a (NDS c))"

definition place_at :: "'b arm7 \<Rightarrow> u32 \<Rightarrow> (memory \<times> nat) option" where
  "place_at c a = ram_place 1 a (NDS c)"

text \<open>The \<open>k\<close> words from \<open>b\<close> on are aligned, in RAM and in different places of it.\<close>

definition frame_ok :: "u32 \<Rightarrow> nat \<Rightarrow> 'b arm7 \<Rightarrow> bool" where
  "frame_ok b k c \<longleftrightarrow>
     windows_ok (NDS c) \<and> b AND 3 = 0 \<and> list_all (\<lambda>j. place_at c (b + 4 * of_nat j) \<noteq> None) [0..<k] \<and>
     distinct (map (\<lambda>j. place_at c (b + 4 * of_nat j)) [0..<k])"

definition keeps :: "'b arm7 \<Rightarrow> 'b arm7 \<Rightarrow> bool" where
  "keeps c d \<longleftrightarrow>
     CurInstr d = CurInstr c \<and> arm.Num d = arm.Num c \<and> place_at d = place_at c \<and> windows_ok (NDS d) = windows_ok (NDS c)"

lemma keeps_refl [simp]: "keeps c c"
  by (simp add: keeps_def)

lemma keeps_trans: "keeps c d \<Longrightarrow> keeps d e \<Longrightarrow> keeps c e"
  by (simp add: keeps_def)

lemma keeps_setR [simp]: "keeps c (setR i v d) = keeps c d"
  by (simp add: keeps_def setR_def place_at_def [abs_def])

lemma word_at_setR [simp]: "word_at dev (setR i v c) = word_at dev c"
  by (simp add: fun_eq_iff word_at_def setR_def)

lemma keeps_frame: "keeps c d \<Longrightarrow> frame_ok b k d = frame_ok b k c"
  by (simp add: keeps_def frame_ok_def)

lemma aligned_add4:
  assumes "(b :: u32) AND 3 = 0"
  shows "(b + 4 * w) AND 3 = 0"
proof -
  have m: "x AND 3 = 0 \<longleftrightarrow> 4 dvd unat x" for x :: u32
  proof -
    have "unat (x AND 3) = unat x mod 4" using unat_and_mask [of x 2] by (simp add: mask_2)
    then show ?thesis by (metis unat_eq_zero dvd_eq_mod_eq_0)
  qed
  have "unat (b + 4 * w) = (unat b + (4 * unat w) mod 4294967296) mod 4294967296"
    by (simp add: unat_word_ariths)
  with assms show ?thesis unfolding m by (simp add: dvd_mod)
qed

lemma frame_okD:
  assumes "frame_ok b k c" "j < k"
  shows "windows_ok (NDS c)" "(b + 4 * of_nat j) AND 3 = 0" "place_at c (b + 4 * of_nat j) \<noteq> None"
    and "i < k \<Longrightarrow> place_at c (b + 4 * of_nat i) = place_at c (b + 4 * of_nat j) \<longleftrightarrow> i = j"
proof -
  have f: "windows_ok (NDS c)" "b AND 3 = 0" "\<forall>j<k. place_at c (b + 4 * of_nat j) \<noteq> None"
    "inj_on (\<lambda>j. place_at c (b + 4 * of_nat j)) {0..<k}"
    using assms(1) by (simp_all add: frame_ok_def distinct_map list_all_iff del: not_None_eq)
  then show "windows_ok (NDS c)" "(b + 4 * of_nat j) AND 3 = 0" "place_at c (b + 4 * of_nat j) \<noteq> None"
    using assms(2) by (simp_all only: aligned_add4 simp_thms)
  show "i < k \<Longrightarrow> place_at c (b + 4 * of_nat i) = place_at c (b + 4 * of_nat j) \<longleftrightarrow> i = j"
    using inj_on_eq_iff [OF f(4), of i j] assms(2) by simp
qed

lemma frame_ok_mono: "frame_ok b k c \<Longrightarrow> k' \<le> k \<Longrightarrow> frame_ok b k' c"
  unfolding frame_ok_def distinct_map list_all_iff by (auto intro: inj_on_subset)

lemma frame_ok_aligned: "frame_ok b k c \<Longrightarrow> b AND 3 = 0"
  by (simp add: frame_ok_def)

section \<open>One access\<close>

text \<open>The copy of the program counter that guards the BIOS does not matter in RAM.\<close>

lemma PC_irrelevant [simp]:
  "ram_window cpu a (n\<lparr>ARM7_PC := p\<rparr>) = ram_window cpu a n" "ram_place cpu a (n\<lparr>ARM7_PC := p\<rparr>) = ram_place cpu a n"
  "windows_ok (n\<lparr>ARM7_PC := p\<rparr>) = windows_ok n" "contents m (n\<lparr>ARM7_PC := p\<rparr>) = contents m n"
  by (simp_all add: ram_window_def ram_place_def windows_ok_def contents_def cong: if_cong option.case_cong memory.case_cong)

lemma Read32_ram:
  assumes "ram_place 1 a n \<noteq> None" "a AND 3 = 0"
  shows "ARM7Read32 dev a n = (fst (Read32 dev 1 a n), n)" "Read32 dev 1 a (n\<lparr>ARM7_PC := p\<rparr>) = (fst (Read32 dev 1 a n), n\<lparr>ARM7_PC := p\<rparr>)"
proof -
  obtain m k where w: "ram_window 1 a n = Some (m, k)" using assms(1) by (auto simp: ram_place_def)
  show "ARM7Read32 dev a n = (fst (Read32 dev 1 a n), n)" using ARM7_ram32(1) [OF w assms(2)] by (simp add: Read32_def)
  show "Read32 dev 1 a (n\<lparr>ARM7_PC := p\<rparr>) = (fst (Read32 dev 1 a n), n\<lparr>ARM7_PC := p\<rparr>)"
    using w assms(2) by (simp add: bus_ram(2))
qed

lemma windows_store [simp]:
  "windows_ok (store_mem m i v n) = windows_ok n" "windows_ok (JIT_CheckAndInvalidate c r b n) = windows_ok n"
  by (cases m) (simp_all add: store_mem_def JIT_CheckAndInvalidate_def windows_ok_def)

lemma Write32_ram:
  assumes "ram_place 1 a n \<noteq> None" "a AND 3 = 0"
  shows "windows_ok (ARM7Write32 dev a v n) = windows_ok n" "ram_place 1 x (ARM7Write32 dev a v n) = ram_place 1 x n"
proof -
  obtain m k where w: "ram_window 1 a n = Some (m, k)" using assms(1) by (auto simp: ram_place_def)
  show "windows_ok (ARM7Write32 dev a v n) = windows_ok n" "ram_place 1 x (ARM7Write32 dev a v n) = ram_place 1 x n"
    using ARM7_ram32(2) [OF w assms(2)] by (simp_all add: ram_place_def)
qed

lemma block_write_fields [simp]:
  "R (block_write (vt7 dev hk) f a v c) = R c" "CurInstr (block_write (vt7 dev hk) f a v c) = CurInstr c"
  "arm.Num (block_write (vt7 dev hk) f a v c) = arm.Num c"
  by (simp_all add: block_write_def vt7_def v4_data_defs Let_def)

lemma block_write_NDS: "a AND 3 = 0 \<Longrightarrow> NDS (block_write (vt7 dev hk) f a v c) = ARM7Write32 dev a v (bus7 c)"
  by (simp add: block_write_def vt7_def v4_data_defs Let_def align32)

text \<open>A block store to RAM changes the word at its address, and no word in another place.\<close>

lemma block_write_keeps:
  assumes "place_at c a \<noteq> None" "a AND 3 = 0"
  shows "keeps c (block_write (vt7 dev hk) f a v c)"
proof -
  have "ram_place 1 a (bus7 c) \<noteq> None" using assms(1) by (simp add: place_at_def bus7_def)
  note w = Write32_ram [OF this assms(2)] block_write_NDS [OF assms(2), of dev hk f v c]
  show ?thesis unfolding keeps_def place_at_def [abs_def]
    by (simp add: w fun_eq_iff del: One_nat_def) (simp add: bus7_def)
qed

lemma block_write_word:
  assumes "windows_ok (NDS c)" "place_at c a \<noteq> None" "a AND 3 = 0" "place_at c x \<noteq> None" "x AND 3 = 0"
  shows "word_at dev (block_write (vt7 dev hk) f a v c) x = (if place_at c x = place_at c a then v else word_at dev c x)"
  using bus_coherent_helper [of "bus7 c" 1 1 a x dev v] assms Read32_ram(2) [of x "NDS c" dev "R c 15"]
  by (simp add: word_at_def place_at_def block_write_NDS bus7_def Write32_def)

lemma block_read_word:
  assumes "place_at c a \<noteq> None" "a AND 3 = 0"
  obtains d where "block_read (vt7 dev hk) f a c = (Some (word_at dev c a), d)" "keeps c d" "R d = R c"
    "\<And>x. place_at c x \<noteq> None \<Longrightarrow> x AND 3 = 0 \<Longrightarrow> word_at dev d x = word_at dev c x"
proof -
  define d where "d = snd (block_read (vt7 dev hk) f a c)"
  have r: "ARM7Read32 dev a (bus7 c) = (word_at dev c a, bus7 c)"
    using Read32_ram(2) [of a "NDS c" dev "R c 15"] assms by (simp add: word_at_def place_at_def bus7_def Read32_def)
  have b: "block_read (vt7 dev hk) f a c = (Some (word_at dev c a), d)"
    using assms(2) by (simp add: d_def block_read_def vt7_def v4_data_defs Let_def align32 r)
  have n: "NDS d = bus7 c" "R d = R c" "CurInstr d = CurInstr c" "arm.Num d = arm.Num c"
    using assms(2) by (simp_all add: d_def block_read_def vt7_def v4_data_defs Let_def align32 r)
  have "word_at dev d x = word_at dev c x" if "place_at c x \<noteq> None" "x AND 3 = 0" for x
    using that Read32_ram(2) [of x "NDS c" dev "R c 15"] by (simp add: word_at_def place_at_def n bus7_def)
  moreover have "keeps c d" unfolding keeps_def place_at_def [abs_def] by (simp add: n) (simp add: bus7_def)
  ultimately show thesis using that b n(2) by blast
qed

section \<open>The loops\<close>

text \<open>The registers of a list, and a loop over the eight low ones as a loop over them.\<close>

definition reg_list :: "u32 \<Rightarrow> nat list" where
  "reg_list w = filter (bit w) [0..<8]"

lemma reg_list_facts [simp]: "distinct (reg_list w)" "i \<in> set (reg_list w) \<longleftrightarrow> i < 8 \<and> bit w i"
  by (auto simp: reg_list_def)

lemma fold_filter:
  assumes "\<And>i s. CI (g i s) = CI s" "\<And>i s. \<not> bit (CI s) i \<Longrightarrow> g i s = s"
  shows "fold g xs s = fold g (filter (bit (CI s)) xs) s"
  by (induction xs arbitrary: s) (simp_all add: assms)

lemma fold_block_steps:
  "fold (t_stm_step (vt7 dev hk)) [0..<8] (b, f, c) = fold (t_stm_step (vt7 dev hk)) (reg_list (CurInstr c)) (b, f, c)"
  "fold (t_ldm_step (vt7 dev hk)) [0..<8] (b, f, c) = fold (t_ldm_step (vt7 dev hk)) (reg_list (CurInstr c)) (b, f, c)"
proof -
  have l: "CurInstr (load_reg (block_read (vt7 dev hk) g a) i d) = CurInstr d" for g a i d
    by (simp add: load_reg_def block_read_def vt7_def v4_data_defs setR_def Let_def)
  note f = fold_filter [where CI = "\<lambda>(_, _, d). CurInstr d" and s = "(b, f, c)" and xs = "[0..<8]", unfolded prod.case]
  show "fold (t_stm_step (vt7 dev hk)) [0..<8] (b, f, c) = fold (t_stm_step (vt7 dev hk)) (reg_list (CurInstr c)) (b, f, c)"
    unfolding reg_list_def by (rule f) (auto simp: t_stm_step_def split: prod.split)
  show "fold (t_ldm_step (vt7 dev hk)) [0..<8] (b, f, c) = fold (t_ldm_step (vt7 dev hk)) (reg_list (CurInstr c)) (b, f, c)"
    unfolding reg_list_def by (rule f) (auto simp: t_ldm_step_def l split: prod.split)
qed

text \<open>The stores leave the registers in the frame, in order.\<close>

lemma stm_fold:
  assumes "frame_ok b k c" "length rs \<le> k" "\<forall>i\<in>set rs. bit (CurInstr c) i"
  obtains d where "fold (t_stm_step (vt7 dev hk)) rs (b, True, c) = (b + 4 * of_nat (length rs), rs = [], d)"
    "keeps c d" "R d = R c" "\<And>j. j < length rs \<Longrightarrow> word_at dev d (b + 4 * of_nat j) = R c (rs ! j)"
  using assms(2,3)
proof (induction rs arbitrary: thesis rule: rev_induct)
  case Nil
  from Nil.prems(1) [of c] show ?case by simp
next
  case (snoc i rs)
  let ?a = "b + 4 * of_nat (length rs)"
  have p: "length rs \<le> k" "\<forall>i\<in>set rs. bit (CurInstr c) i" using snoc.prems(2,3) by simp_all
  obtain d where d: "fold (t_stm_step (vt7 dev hk)) rs (b, True, c) = (?a, rs = [], d)"
    "keeps c d" "R d = R c" "\<And>j. j < length rs \<Longrightarrow> word_at dev d (b + 4 * of_nat j) = R c (rs ! j)"
    by (rule snoc.IH [OF _ p]) blast
  have f: "frame_ok b k d" using assms(1) d(2) by (simp add: keeps_frame)
  have n: "length rs < k" using snoc.prems(2) by simp
  note a = frame_okD(1-3) [OF f n]
  define e where "e = block_write (vt7 dev hk) (rs = []) ?a (R d i) d"
  have "bit (CurInstr d) i" using snoc.prems(3) d(2) by (simp add: keeps_def)
  then have "fold (t_stm_step (vt7 dev hk)) (rs @ [i]) (b, True, c) = (b + 4 * of_nat (length (rs @ [i])), rs @ [i] = [], e)"
    by (simp add: d(1) t_stm_step_def e_def algebra_simps)
  moreover have "keeps c e" using keeps_trans [OF d(2)] block_write_keeps [OF a(3,2)] by (simp add: e_def)
  moreover have "R e = R c" by (simp add: e_def d(3))
  moreover have "word_at dev e (b + 4 * of_nat j) = R c ((rs @ [i]) ! j)" if j: "j < length (rs @ [i])" for j
  proof -
    have "j < k" using j snoc.prems(2) by simp
    note b = frame_okD(2,3) [OF f this] frame_okD(4) [OF f n this]
    show ?thesis using block_write_word [OF a(1,3,2) b(2,1), of dev hk "rs = []" "R d i"] j d(4) [of j]
      by (auto simp: e_def b(3) nth_append less_Suc_eq d(3))
  qed
  ultimately show ?case by (rule snoc.prems(1))
qed

text \<open>The loads take the frame's words, in order.\<close>

lemma ldm_fold:
  assumes "frame_ok b k c" "length rs \<le> k" "\<forall>i\<in>set rs. bit (CurInstr c) i" "distinct rs"
  obtains d where "fold (t_ldm_step (vt7 dev hk)) rs (b, True, c) = (b + 4 * of_nat (length rs), rs = [], d)"
    "keeps c d" "\<And>j. j < length rs \<Longrightarrow> R d (rs ! j) = word_at dev c (b + 4 * of_nat j)"
    "\<And>i. i \<notin> set rs \<Longrightarrow> R d i = R c i"
    "\<And>j. j < k \<Longrightarrow> word_at dev d (b + 4 * of_nat j) = word_at dev c (b + 4 * of_nat j)"
  using assms(2-4)
proof (induction rs arbitrary: thesis rule: rev_induct)
  case Nil
  from Nil.prems(1) [of c] show ?case by simp
next
  case (snoc i rs)
  let ?a = "b + 4 * of_nat (length rs)"
  have p: "length rs \<le> k" "\<forall>i\<in>set rs. bit (CurInstr c) i" "distinct rs" using snoc.prems(2-4) by simp_all
  obtain d where d: "fold (t_ldm_step (vt7 dev hk)) rs (b, True, c) = (?a, rs = [], d)"
    "keeps c d" "\<And>j. j < length rs \<Longrightarrow> R d (rs ! j) = word_at dev c (b + 4 * of_nat j)"
    "\<And>i. i \<notin> set rs \<Longrightarrow> R d i = R c i"
    "\<And>j. j < k \<Longrightarrow> word_at dev d (b + 4 * of_nat j) = word_at dev c (b + 4 * of_nat j)"
    by (rule snoc.IH [OF _ p]) blast
  have f: "frame_ok b k d" using assms(1) d(2) by (simp add: keeps_frame)
  have n: "length rs < k" using snoc.prems(2) by simp
  obtain e where e: "block_read (vt7 dev hk) (rs = []) ?a d = (Some (word_at dev d ?a), e)" "keeps d e" "R e = R d"
    "\<And>x. place_at d x \<noteq> None \<Longrightarrow> x AND 3 = 0 \<Longrightarrow> word_at dev e x = word_at dev d x"
    using block_read_word [OF frame_okD(3,2) [OF f n]] by blast
  have "bit (CurInstr d) i" using snoc.prems(3) d(2) by (simp add: keeps_def)
  then have "fold (t_ldm_step (vt7 dev hk)) (rs @ [i]) (b, True, c) =
      (b + 4 * of_nat (length (rs @ [i])), rs @ [i] = [], setR i (word_at dev d ?a) e)"
    by (simp add: d(1) t_ldm_step_def load_reg_def e(1))
  moreover have "keeps c (setR i (word_at dev d ?a) e)" using keeps_trans [OF d(2) e(2)] by simp
  moreover have "R (setR i (word_at dev d ?a) e) ((rs @ [i]) ! j) = word_at dev c (b + 4 * of_nat j)"
    if "j < length (rs @ [i])" for j
    using that snoc.prems(4) d(3) [of j] d(5) [OF n] nth_mem [of j rs]
    by (cases "j < length rs") (auto simp: setR_def nth_append e(3) less_Suc_eq)
  moreover have "R (setR i (word_at dev d ?a) e) r = R c r" if "r \<notin> set (rs @ [i])" for r
    using that d(4) [of r] by (simp add: setR_def e(3))
  moreover have "word_at dev (setR i (word_at dev d ?a) e) (b + 4 * of_nat j) = word_at dev c (b + 4 * of_nat j)" if "j < k" for j
    using e(4) [OF frame_okD(3,2) [OF f that]] d(5) [OF that] by simp
  ultimately show ?case by (rule snoc.prems(1))
qed

section \<open>Push and pop\<close>

text \<open>The registers that the instruction \<open>w\<close> transfers; \<open>R\<close> is the link register.\<close>

definition pushed :: "u32 \<Rightarrow> nat list" where
  "pushed w = reg_list w @ (if bit w 8 then [14] else [])"

lemma length_pushed: "length (pushed w) = length (reg_list w) + (if bit w 8 then 1 else 0)"
  by (simp add: pushed_def)

lemma AddCycles7 [simp]:
  "R (ARMv4_AddCycles_CD c) = R c" "word_at dev (ARMv4_AddCycles_CD c) = word_at dev c" "keeps c (ARMv4_AddCycles_CD d) = keeps c d"
  "R (ARMv4_AddCycles_CDI c) = R c" "CPSR (ARMv4_AddCycles_CDI c) = CPSR c"
  by (simp_all add: v4_cycle_defs Let_def word_at_def [abs_def] keeps_def place_at_def [abs_def])

lemma vt7_calls [simp]:
  "AddCycles_CD (vt7 dev hk) = ARMv4_AddCycles_CD" "AddCycles_CDI (vt7 dev hk) = ARMv4_AddCycles_CDI"
  "JumpTo (vt7 dev hk) = ARMv4_JumpTo dev"
  by (simp_all add: vt7_def)

lemma push_frame:
  fixes c :: "'b arm7"
  defines "k \<equiv> length (pushed (CurInstr c))"
  defines "b \<equiv> R c 13 - 4 * of_nat k"
  assumes f: "frame_ok b k c"
  shows "R (T_PUSH (vt7 dev hk) c) = (R c)(13 := b)" "keeps c (T_PUSH (vt7 dev hk) c)"
    and "j < k \<Longrightarrow> word_at dev (T_PUSH (vt7 dev hk) c) (b + 4 * of_nat j) = R c (pushed (CurInstr c) ! j)"
proof -
  let ?w = "CurInstr c" and ?c = "setR 13 b c"
  let ?n = "length (reg_list ?w)"
  have f': "frame_ok b k ?c" using f keeps_frame [of c ?c] by simp
  have cnt: "(if ibit 8 c then count_regs 8 c + 1 else count_regs 8 c) = k"
    by (simp add: k_def length_pushed count_regs_def reg_list_def)
  have base: "R c 13 - push_bit 2 (of_nat k) = b" by (simp add: b_def push_bit_eq_mult mult.commute)
  obtain d where d: "fold (t_stm_step (vt7 dev hk)) (reg_list ?w) (b, True, ?c) = (b + 4 * of_nat ?n, reg_list ?w = [], d)"
    "keeps ?c d" "R d = R ?c" "\<And>j. j < ?n \<Longrightarrow> word_at dev d (b + 4 * of_nat j) = R ?c (reg_list ?w ! j)"
    by (rule stm_fold [OF f', of "reg_list ?w" dev hk]) (auto simp: k_def length_pushed setR_def)
  have CI: "CurInstr ?c = ?w" "CurInstr d = ?w" using d(2) by (simp_all add: keeps_def setR_def)
  define e where "e = (if bit ?w 8 then block_write (vt7 dev hk) (reg_list ?w = []) (b + 4 * of_nat ?n) (R d 14) d else d)"
  have p: "T_PUSH (vt7 dev hk) c = ARMv4_AddCycles_CD e"
    by (simp only: T_PUSH_def Let_def cnt base fold_block_steps CI d(1) prod.case vt7_calls e_def)
  have fd: "frame_ok b k d" using f' d(2) by (simp add: keeps_frame)
  have ke: "keeps d e" using block_write_keeps [OF frame_okD(3,2) [OF fd]] by (simp add: e_def k_def length_pushed)
  show "R (T_PUSH (vt7 dev hk) c) = (R c)(13 := b)" by (simp add: p e_def d(3)) (simp add: setR_def)
  have "keeps c ?c" by simp
  from keeps_trans [OF keeps_trans [OF this d(2)] ke] show "keeps c (T_PUSH (vt7 dev hk) c)" by (simp add: p)
  have low: "R ?c (reg_list ?w ! j) = R c (reg_list ?w ! j)" if "j < ?n" for j
    using nth_mem [OF that] by (simp add: setR_def)
  assume j: "j < k"
  show "word_at dev (T_PUSH (vt7 dev hk) c) (b + 4 * of_nat j) = R c (pushed ?w ! j)"
  proof (cases "bit ?w 8")
    case False
    then show ?thesis using j d(4) low by (simp add: p e_def pushed_def k_def)
  next
    case True
    then have n: "?n < k" by (simp add: k_def length_pushed)
    have "word_at dev e (b + 4 * of_nat j) = (if j = ?n then R d 14 else word_at dev d (b + 4 * of_nat j))"
      using True block_write_word [OF frame_okD(1,3,2) [OF fd n] frame_okD(3,2) [OF fd j]] frame_okD(4) [OF fd n j]
      by (simp add: e_def)
    then show ?thesis using True j d(3,4) low by (auto simp: p pushed_def k_def nth_append setR_def)
  qed
qed

lemma pop_frame:
  fixes c :: "'b arm7" and dev hk
  defines "k \<equiv> length (pushed (CurInstr c))"
  assumes f: "frame_ok (R c 13) k c" and n: "arm.Num c = 1"
  defines "e \<equiv> T_POP (vt7 dev hk) c"
  shows "j < length (reg_list (CurInstr c)) \<Longrightarrow> R e (reg_list (CurInstr c) ! j) = word_at dev c (R c 13 + 4 * of_nat j)"
    and "i < 13 \<Longrightarrow> i \<notin> set (reg_list (CurInstr c)) \<Longrightarrow> R e i = R c i"
    and "R e 13 = R c 13 + 4 * of_nat k"
    and "bit (CurInstr c) 8 \<Longrightarrow> R e 15 = (word_at dev c (R c 13 + 4 * of_nat (k - 1)) AND NOT 1) + 2 \<and> bit (CPSR e) 5"
proof -
  let ?w = "CurInstr c" and ?b = "R c 13"
  let ?n = "length (reg_list ?w)"
  obtain d where d: "fold (t_ldm_step (vt7 dev hk)) (reg_list ?w) (?b, True, c) = (?b + 4 * of_nat ?n, reg_list ?w = [], d)"
    "keeps c d" "\<And>j. j < ?n \<Longrightarrow> R d (reg_list ?w ! j) = word_at dev c (?b + 4 * of_nat j)"
    "\<And>i. i \<notin> set (reg_list ?w) \<Longrightarrow> R d i = R c i"
    "\<And>j. j < k \<Longrightarrow> word_at dev d (?b + 4 * of_nat j) = word_at dev c (?b + 4 * of_nat j)"
    by (rule ldm_fold [OF f, of "reg_list ?w" dev hk]) (auto simp: k_def length_pushed)
  have CI: "CurInstr d = ?w" "arm.Num d = 1" using d(2) n by (simp_all add: keeps_def)
  note pop = T_POP_def [of "vt7 dev hk" c, unfolded fold_block_steps d(1) Let_def prod.case CI vt7_calls]
  have "\<exists>s. e = ARMv4_AddCycles_CDI (setR 13 (?b + 4 * of_nat k) s) \<and> (\<forall>i<15. R s i = R d i) \<and>
    (bit ?w 8 \<longrightarrow> R s 15 = (word_at dev c (?b + 4 * of_nat (k - 1)) AND NOT 1) + 2 \<and> bit (CPSR s) 5)"
  proof (cases "bit ?w 8")
    case False
    then show ?thesis unfolding e_def pop by (intro exI [of _ d]) (simp add: k_def length_pushed)
  next
    case True
    then have k: "k = ?n + 1" "?n < k" by (simp_all add: k_def length_pushed)
    have "frame_ok ?b k d" using f d(2) by (simp add: keeps_frame)
    note fd = frame_okD(3,2) [OF this k(2)]
    obtain s where s: "block_read (vt7 dev hk) (reg_list ?w = []) (?b + 4 * of_nat ?n) d =
        (Some (word_at dev d (?b + 4 * of_nat ?n)), s)" "keeps d s" "R s = R d"
      using block_read_word [OF fd] by metis
    define t where "t = word_at dev d (?b + 4 * of_nat ?n) OR 1"
    have "arm.Num s = 1" using s(2) CI by (simp add: keeps_def)
    then have "e = ARMv4_AddCycles_CDI (setR 13 (?b + 4 * of_nat k) (ARMv4_JumpTo dev t False s))"
      unfolding e_def pop load_local_def s(1) using True by (simp add: t_def k(1) algebra_simps)
    moreover have "\<forall>i<15. R (ARMv4_JumpTo dev t False s) i = R d i"
      by (simp add: JumpTo_fields jump_base_def s(3))
    moreover have "R (ARMv4_JumpTo dev t False s) 15 = (word_at dev c (?b + 4 * of_nat (k - 1)) AND NOT 1) + 2"
      "bit (CPSR (ARMv4_JumpTo dev t False s)) 5"
      using d(5) [OF k(2)] k(1) by (simp_all add: JumpTo_PC JumpTo_CPSR jump_addr_def t_def and_even bit_simps)
    ultimately show ?thesis by blast
  qed
  then obtain s where s: "e = ARMv4_AddCycles_CDI (setR 13 (?b + 4 * of_nat k) s)" "\<And>i. i < 15 \<Longrightarrow> R s i = R d i"
    "bit ?w 8 \<Longrightarrow> R s 15 = (word_at dev c (?b + 4 * of_nat (k - 1)) AND NOT 1) + 2 \<and> bit (CPSR s) 5"
    by blast
  show "R e 13 = ?b + 4 * of_nat k" by (simp add: s(1) setR_def)
  show "R e i = R c i" if "i < 13" "i \<notin> set (reg_list ?w)" using that s(2) [of i] d(4) [of i] by (simp add: s(1) setR_def)
  show "R e (reg_list ?w ! j) = word_at dev c (?b + 4 * of_nat j)" if "j < ?n"
    using nth_mem [OF that] s(2) d(3) [OF that] by (auto simp: s(1) setR_def)
  show "R e 15 = (word_at dev c (?b + 4 * of_nat (k - 1)) AND NOT 1) + 2 \<and> bit (CPSR e) 5" if "bit ?w 8"
    using s(3) [OF that] by (simp add: s(1) setR_def)
qed

lemma pushed_low_bits:
  assumes "v AND 0x1FF = w AND 0x1FF"
  shows "pushed v = pushed w" "bit v 8 = bit w 8" "reg_list v = reg_list w"
proof -
  have m: "0x1FF = (mask 9 :: u32)" by (simp add: mask_eq_exp_minus_1)
  have b: "bit v i = bit w i" if "i < 9" for i
    using arg_cong [OF assms, of "\<lambda>x. bit x i"] that by (simp add: m bit_simps)
  then show "bit v 8 = bit w 8" by simp
  moreover show "reg_list v = reg_list w" unfolding reg_list_def by (rule filter_cong) (simp_all add: b)
  ultimately show "pushed v = pushed w" by (simp add: pushed_def)
qed

text \<open>
  C13: the THUMB function frame on the ARM7, through the block transfers, the bus and RAM. When the
  frame lies in RAM, a \<^verbatim>\<open>PUSH\<close>, then code that leaves the frame's words, the memory map and the
  stack pointer as they are (and may do what it likes to the other registers and memory), then
  a \<^verbatim>\<open>POP\<close> of the same list brings back the listed registers and the stack pointer, touches
  no other register, and when the link register was pushed continues in THUMB state at the
  caller's address.
\<close>

theorem PUSH_POP_restores:
  fixes c d :: "'b arm7" and dev hk
  defines "k \<equiv> length (pushed (CurInstr c))"
  defines "p \<equiv> T_PUSH (vt7 dev hk) c" and "e \<equiv> T_POP (vt7 dev hk) d"
  assumes f: "frame_ok (R c 13 - 4 * of_nat k) k c"
    and same: "CurInstr d AND 0x1FF = CurInstr c AND 0x1FF" "arm.Num d = 1" "windows_ok (NDS d)" "place_at d = place_at c"
      "R d 13 = R p 13" "\<forall>j<k. word_at dev d (R p 13 + 4 * of_nat j) = word_at dev p (R p 13 + 4 * of_nat j)"
  shows "(i < 13 \<longrightarrow> R e i = (if i < 8 \<and> bit (CurInstr c) i then R c i else R d i)) \<and> R e 13 = R c 13 \<and>
    (bit (CurInstr c) 8 \<longrightarrow> R e 15 = (R c 14 AND NOT 1) + 2 \<and> CPSR e AND 0x20 \<noteq> 0)"
proof -
  let ?w = "CurInstr c" and ?b = "R c 13 - 4 * of_nat k"
  note push = push_frame [OF f [unfolded k_def], where dev = dev and hk = hk, folded k_def p_def]
  have sp: "R d 13 = ?b" using same(5) push(1) by simp
  have word: "word_at dev d (?b + 4 * of_nat j) = R c (pushed ?w ! j)" if "j < k" for j
    using same(6) push(1) push(3) [OF that] that by simp
  note w = pushed_low_bits [OF same(1)]
  have "frame_ok (R d 13) (length (pushed (CurInstr d))) d"
    using f same(3,4) by (simp add: frame_ok_def sp w k_def)
  note pop = pop_frame [OF this same(2), where dev = dev and hk = hk, folded e_def, unfolded w, folded k_def, unfolded sp]
  have listed: "R e i = R c i" if "i < 8" "bit ?w i"
  proof -
    have "i \<in> set (reg_list ?w)" using that by simp
    then obtain j where j: "j < length (reg_list ?w)" "reg_list ?w ! j = i" unfolding in_set_conv_nth by blast
    then have "j < k" "pushed ?w ! j = i" by (simp_all add: k_def pushed_def nth_append)
    then show ?thesis using pop(1) [OF j(1)] word j(2) by simp
  qed
  have other: "R e i = R d i" if "i < 13" "\<not> (i < 8 \<and> bit ?w i)" using pop(2) [of i] that by auto
  have "R e 15 = (R c 14 AND NOT 1) + 2 \<and> CPSR e AND 0x20 \<noteq> 0" if "bit ?w 8"
  proof -
    have "k - 1 < k" "pushed ?w ! (k - 1) = 14" using that by (simp_all add: k_def pushed_def nth_append)
    then show ?thesis using pop(4) [OF that] word [of "k - 1"] by (simp only: and_T simp_thms)
  qed
  moreover have "R e 13 = R c 13" using pop(3) by simp
  ultimately show ?thesis using listed other by simp
qed

text \<open>A frame of three words in the ARM7's work RAM: \<^verbatim>\<open>PUSH {R0, R4, LR}\<close>.\<close>

definition caller7 :: "unit arm7" where
  "caller7 = arm7_zero\<lparr>CurInstr := 0xB511, R := (\<lambda>_. 0)(0 := 5, 4 := 7, 13 := 0x0380FFDC, 14 := 0x02000101)\<rparr>"

lemma caller7_fields:
  "CurInstr caller7 = 0xB511" "R caller7 = (\<lambda>_. 0)(0 := 5, 4 := 7, 13 := 0x0380FFDC, 14 := 0x02000101)"
  "arm.Num caller7 = 1" "NDS caller7 = dma_init"
  by (simp_all add: caller7_def)

lemma dma_init_windows: "windows_ok dma_init" "ram_window 1 0x0380FFD0 dma_init = Some (WRAM7, 0xFFFF)"
    "ram_window 1 0x0380FFD4 dma_init = Some (WRAM7, 0xFFFF)" "ram_window 1 0x0380FFD8 dma_init = Some (WRAM7, 0xFFFF)"
  by (simp_all add: dma_init_def windows_ok_def ram_window_def bus_nds.defs swram_maps_def)

lemma pushed_example: "pushed 0xB511 = [0, 4, 14]"
proof -
  have "[0..<8] = [0, 1, 2, 3, 4, 5, 6, 7 :: nat]" by code_simp
  then show ?thesis by (simp add: pushed_def reg_list_def)
qed

lemma caller7_frame: "frame_ok 0x0380FFD0 3 caller7"
proof -
  have "[0..<3] = [0, 1, 2 :: nat]" by code_simp
  then show ?thesis
    by (simp add: frame_ok_def place_at_def ram_place_def caller7_fields dma_init_windows place_of_def del: One_nat_def)
qed

text \<open>The callee changes the two registers.\<close>

definition callee7 :: "unit arm7" where
  "callee7 = (let p = T_PUSH (vt7 no_devices hooks_idle) caller7 in setR 4 98 (setR 0 99 p))"

theorem PUSH_POP_restores_witness:
  "R callee7 0 = 99 \<and> R (T_POP (vt7 no_devices hooks_idle) callee7) 0 = 5 \<and>
   R (T_POP (vt7 no_devices hooks_idle) callee7) 4 = 7 \<and>
   R (T_POP (vt7 no_devices hooks_idle) callee7) 13 = 0x0380FFDC \<and>
   R (T_POP (vt7 no_devices hooks_idle) callee7) 15 = 0x02000102"
proof -
  let ?p = "T_PUSH (vt7 no_devices hooks_idle) caller7"
  have f: "frame_ok (R caller7 13 - 4 * of_nat (length (pushed (CurInstr caller7)))) (length (pushed (CurInstr caller7))) caller7"
    using caller7_frame by (simp add: caller7_fields pushed_example numeral_3_eq_3)
  have "keeps caller7 callee7" using push_frame(2) [OF f] by (simp add: callee7_def Let_def)
  then have k: "CurInstr callee7 = CurInstr caller7" "arm.Num callee7 = 1" "windows_ok (NDS callee7)" "place_at callee7 = place_at caller7"
    by (simp_all add: keeps_def caller7_fields dma_init_windows)
  have s: "R callee7 13 = R ?p 13" "word_at no_devices callee7 = word_at no_devices ?p"
    by (simp_all add: callee7_def Let_def) (simp add: setR_def)
  note t = PUSH_POP_restores [OF f arg_cong [OF k(1)] k(2-4) s(1), unfolded s(2)]
  have "R callee7 0 = 99" by (simp add: callee7_def Let_def setR_def)
  then show ?thesis
    using t [of 0] t [of 4] by (simp add: caller7_fields)
qed

end
