(* ===== verification/Arm_Cp15.thy ===== *)
theory Arm_Cp15
  imports Arm_V4
begin

text \<open>
  The system coprocessor of the ARM9, the part of class \<^verbatim>\<open>ARMv5\<close> in \<^verbatim>\<open>src/src/CP15.cpp\<close> that
  keeps its registers: control, tightly coupled memories, protection unit, access times and
  instruction cache.

  Arrays are functions. A loop that writes one entry after the other of a table, each from
  data the loop does not change, is the table with these entries replaced.
\<close>

section \<open>State\<close>

text \<open>
  The record extends the one of a processor on its console. \<^verbatim>\<open>CurICacheLine\<close> is the offset of the
  line in \<^verbatim>\<open>ICache\<close>; \<^verbatim>\<open>CodeMem\<close> is the memory that its pointer shows, with the mask. \<^verbatim>\<open>PU_Map\<close>, a
  pointer to one of the two maps, is a field of \<open>arm\<close>.
\<close>

record 'b armv5 = "'b armv4" +
  CodeMem :: "(memory \<times> u32) option"
  CP15Control :: u32
  RNGSeed :: u32
  TraceProcessID :: u32
  DTCMSetting :: u32
  ITCMSetting :: u32
  ITCMSize :: u32
  DTCMBase :: u32
  DTCMMask :: u32
  RegionCodeCycles :: int
  ITCM :: "nat \<Rightarrow> u8"
  DTCM :: "nat \<Rightarrow> u8"
  ICache :: "nat \<Rightarrow> u8"
  ICacheTags :: "nat \<Rightarrow> u32"
  ICacheCount :: "nat \<Rightarrow> u8"
  PU_CodeCacheable :: u32
  PU_DataCacheable :: u32
  PU_DataCacheWrite :: u32
  PU_CodeRW :: u32
  PU_DataRW :: u32
  PU_Region :: "nat \<Rightarrow> u32"
  PU_PrivTable :: "nat \<Rightarrow> u8"
  PU_UserTable :: "nat \<Rightarrow> u8"
  MemTimings :: "nat \<Rightarrow> nat \<Rightarrow> u8"
  CurICacheLine :: "nat option"

type_synonym 'b arm9 = "'b armv5"

definition kDataCacheTiming :: u8 where "kDataCacheTiming = 3"
definition kCodeCacheTiming :: int where "kCodeCacheTiming = 3"

definition ITCMPhysicalSize :: u32 where "ITCMPhysicalSize = 0x8000"
definition DTCMPhysicalSize :: u32 where "DTCMPhysicalSize = 0x4000"

text \<open>\<^verbatim>\<open>PU_Map[i]\<close>: the map of the current mode.\<close>

definition pu_at :: "nat \<Rightarrow> 'b arm9 \<Rightarrow> u8" where
  "pu_at i cpu = (case PU_Map cpu of PU_PrivMap \<Rightarrow> PU_PrivTable cpu i | PU_UserMap \<Rightarrow> PU_UserTable cpu i)"

section \<open>Tightly coupled memory\<close>

text \<open>\<^verbatim>\<open>0x200 << n\<close> leaves nothing of 32 bits for \<open>n\<close> above 22.\<close>

definition tcm_size :: "u32 \<Rightarrow> u32" where
  "tcm_size setting = push_bit (unat (drop_bit 1 setting AND 0x1F)) 0x200"

definition UpdateDTCMSetting :: "'b arm9 \<Rightarrow> 'b arm9" where
  "UpdateDTCMSetting cpu =
     (if bit (CP15Control cpu) 16 then
        let newDTCMSize = tcm_size (DTCMSetting cpu);
            newDTCMSize = (if newDTCMSize < 0x1000 then 0x1000 else newDTCMSize);
            newDTCMMask = 0xFFFFF000 AND NOT (newDTCMSize - 1);
            newDTCMBase = DTCMSetting cpu AND newDTCMMask
        in cpu\<lparr>DTCMBase := newDTCMBase, DTCMMask := newDTCMMask\<rparr>
      else cpu\<lparr>DTCMBase := 0xFFFFFFFF, DTCMMask := 0\<rparr>)"

definition UpdateITCMSetting :: "'b arm9 \<Rightarrow> 'b arm9" where
  "UpdateITCMSetting cpu =
     (if bit (CP15Control cpu) 18 then cpu\<lparr>ITCMSize := tcm_size (ITCMSetting cpu)\<rparr> else cpu\<lparr>ITCMSize := 0\<rparr>)"

section \<open>Access times\<close>

text \<open>The four times of a page: code, data of 16 and 32 bits, sequential data of 32 bits.\<close>

definition region_timing :: "u8 \<Rightarrow> (nat \<Rightarrow> u8) \<Rightarrow> nat \<Rightarrow> nat \<Rightarrow> u8" where
  "region_timing pu bustimings shift k =
     (if k = 0 then if pu AND 0x40 \<noteq> 0 then 0xFF else push_bit shift (bustimings 2)
      else if pu AND 0x10 \<noteq> 0 then
        if k = 1 then kDataCacheTiming else if k = 2 then kDataCacheTiming else 1
      else
        if k = 1 then push_bit shift (bustimings 0) else if k = 2 then push_bit shift (bustimings 2)
        else push_bit shift (bustimings 3))"

definition UpdateRegionTimings :: "nat \<Rightarrow> nat \<Rightarrow> 'b arm9 \<Rightarrow> 'b arm9" where
  "UpdateRegionTimings addrstart addrend cpu =
     cpu\<lparr>MemTimings := (\<lambda>i k.
       if addrstart \<le> i \<and> i < addrend \<and> k < 4
       then region_timing (pu_at i cpu) (ARM9MemTimings (NDS cpu) (i div 4)) (unat (ARM9ClockShift (NDS cpu))) k
       else MemTimings cpu i k)\<rparr>"

section \<open>Protection unit\<close>

text \<open>The pages of a region, and whether it is in use.\<close>

definition region_size :: "u32 \<Rightarrow> nat" where
  "region_size rgn = nat (max (uint (drop_bit 1 rgn AND 0x1F) - 11) 0)"

definition region_start :: "u32 \<Rightarrow> u32" where
  "region_start rgn = push_bit (region_size rgn) (drop_bit (region_size rgn) (drop_bit 12 rgn))"

definition region_end :: "u32 \<Rightarrow> u32" where
  "region_end rgn = region_start rgn + push_bit (region_size rgn) 1"

definition in_pages :: "u32 \<Rightarrow> nat \<Rightarrow> bool" where
  "in_pages rgn i \<longleftrightarrow> unat (region_start rgn) \<le> i \<and> i < unat (region_end rgn)"

definition datarw_masks :: "u32 \<Rightarrow> u8 \<times> u8" where
  "datarw_masks datarw =
     (if datarw = 1 then (0x00, 0x03)
      else if datarw = 2 then (0x01, 0x03)
      else if datarw = 3 then (0x03, 0x03)
      else if datarw = 5 then (0x00, 0x01)
      else if datarw = 6 then (0x01, 0x01)
      else (0x00, 0x00))"

definition coderw_masks :: "u32 \<Rightarrow> u8 \<times> u8" where
  "coderw_masks coderw =
     (if coderw = 1 then (0x00, 0x04)
      else if coderw = 2 then (0x04, 0x04)
      else if coderw = 3 then (0x04, 0x04)
      else if coderw = 5 then (0x00, 0x04)
      else if coderw = 6 then (0x04, 0x04)
      else (0x00, 0x00))"

text \<open>\<^verbatim>\<open>usermask\<close> and \<^verbatim>\<open>privmask\<close> of region \<open>n\<close>.\<close>

definition region_masks :: "nat \<Rightarrow> 'b arm9 \<Rightarrow> u8 \<times> u8" where
  "region_masks n cpu =
     (let coderw = drop_bit (4 * n) (PU_CodeRW cpu) AND 0xF;
          datarw = drop_bit (4 * n) (PU_DataRW cpu) AND 0xF;
          codecache = bit (CP15Control cpu) 12 \<and> bit (PU_CodeCacheable cpu) n;
          datacache = bit (CP15Control cpu) 2 \<and> bit (PU_DataCacheable cpu) n;
          datawrite = bit (CP15Control cpu) 2 \<and> bit (PU_DataCacheWrite cpu) n;
          (usermask, privmask) = datarw_masks datarw;
          (u, p) = coderw_masks coderw;
          (usermask, privmask) = (usermask OR u, privmask OR p);
          (usermask, privmask) =
            (if datacache then
               let (usermask, privmask) = (usermask OR 0x10, privmask OR 0x10)
               in if datawrite then (usermask OR 0x20, privmask OR 0x20) else (usermask, privmask)
             else (usermask, privmask))
      in if codecache then (usermask OR 0x40, privmask OR 0x40) else (usermask, privmask))"

definition UpdatePURegion :: "nat \<Rightarrow> 'b arm9 \<Rightarrow> 'b arm9" where
  "UpdatePURegion n cpu =
     (if \<not> bit (CP15Control cpu) 0 then cpu
      else
        let rgn = PU_Region cpu n; (usermask, privmask) = region_masks n cpu
        in if \<not> bit rgn 0 then cpu
           else
             let cpu = cpu\<lparr>PU_UserTable := (\<lambda>i. if in_pages rgn i then usermask else PU_UserTable cpu i),
                           PU_PrivTable := (\<lambda>i. if in_pages rgn i then privmask else PU_PrivTable cpu i)\<rparr>
             in UpdateRegionTimings (unat (region_start rgn)) (unat (region_end rgn)) cpu)"

definition memset_pu :: "u8 \<Rightarrow> 'b arm9 \<Rightarrow> 'b arm9" where
  "memset_pu m cpu =
     cpu\<lparr>PU_UserTable := (\<lambda>i. if i < 0x100000 then m else PU_UserTable cpu i),
         PU_PrivTable := (\<lambda>i. if i < 0x100000 then m else PU_PrivTable cpu i)\<rparr>"

definition pu_off_mask :: "'b arm9 \<Rightarrow> u8" where
  "pu_off_mask cpu =
     (let m = 0x07;
          m = (if bit (CP15Control cpu) 2 then m OR 0x30 else m)
      in if bit (CP15Control cpu) 12 then m OR 0x40 else m)"

definition UpdatePURegions :: "bool \<Rightarrow> 'b arm9 \<Rightarrow> 'b arm9" where
  "UpdatePURegions update_all cpu =
     (if \<not> bit (CP15Control cpu) 0 then UpdateRegionTimings 0 0x100000 (memset_pu (pu_off_mask cpu) cpu)
      else
        let cpu = (if update_all then memset_pu 0 cpu else cpu);
            cpu = fold UpdatePURegion [0..<8] cpu
        in if update_all then UpdateRegionTimings 0 0x100000 cpu else cpu)"

section \<open>Instruction cache\<close>

definition RandomLineIndex :: "'b arm9 \<Rightarrow> u32 \<times> 'b arm9" where
  "RandomLineIndex cpu =
     (let s = RNGSeed cpu;
          seed = s XOR (s * 17);
          seed = seed XOR (s * 7)
      in (drop_bit 17 seed AND 0x3, cpu\<lparr>RNGSeed := seed\<rparr>))"

text \<open>The first of the four lines of a set that has the tag.\<close>

definition icache_way :: "nat \<Rightarrow> u32 \<Rightarrow> 'b arm9 \<Rightarrow> nat option" where
  "icache_way ix tag cpu =
     (if ICacheTags cpu (ix + 0) = tag then Some (ix + 0)
      else if ICacheTags cpu (ix + 1) = tag then Some (ix + 1)
      else if ICacheTags cpu (ix + 2) = tag then Some (ix + 2)
      else if ICacheTags cpu (ix + 3) = tag then Some (ix + 3)
      else None)"

definition icache_set :: "u32 \<Rightarrow> nat" where
  "icache_set addr = 4 * unat (drop_bit 5 addr AND 0x3F)"

text \<open>The loop that reads the eight words of a line from the bus.\<close>

definition fill_word :: "'b dma_nds_scheme devices \<Rightarrow> u32 \<Rightarrow> nat \<Rightarrow> nat \<Rightarrow> 'b arm9 \<Rightarrow> 'b arm9" where
  "fill_word dev addr p k cpu =
     (let (v, n) = ARM9Read32 dev (addr + of_nat (4 * k)) (NDS cpu)
      in cpu\<lparr>NDS := n, ICache := st (ICache cpu) (p + 4 * k) v\<rparr>)"

definition ICacheLookup :: "'b dma_nds_scheme devices \<Rightarrow> u32 \<Rightarrow> 'b arm9 \<Rightarrow> 'b arm9" where
  "ICacheLookup dev addr cpu =
     (let tag = addr AND 0xFFFFF800; ix = icache_set addr
      in case icache_way ix tag cpu of
           Some l \<Rightarrow> cpu\<lparr>CodeCycles := 1, CurICacheLine := Some (32 * l)\<rparr>
         | None \<Rightarrow>
             let (line, cpu) =
                   (if bit (CP15Control cpu) 14 then
                      let line = ICacheCount cpu (ix div 4)
                      in (ucast line, cpu\<lparr>ICacheCount := (ICacheCount cpu)(ix div 4 := (line + 1) AND 0x3)\<rparr>)
                    else RandomLineIndex cpu);
                 line = unat line + ix;
                 addr = addr AND NOT 0x1F;
                 p = 32 * line;
                 cpu =
                   (case CodeMem cpu of
                      Some (m, k) \<Rightarrow>
                        cpu\<lparr>ICache := (\<lambda>i. if p \<le> i \<and> i < p + 32 then contents m (NDS cpu) (unat (addr AND k) + (i - p))
                                             else ICache cpu i)\<rparr>
                    | None \<Rightarrow> fold (fill_word dev addr p) [0..<8] cpu);
                 t = ARM9MemTimings (NDS cpu) (unat (drop_bit 14 addr))
             in cpu\<lparr>ICacheTags := (ICacheTags cpu)(line := tag),
                    CodeCycles := (uint (t 2) + uint (t 3) * 7) * 2 ^ unat (ARM9ClockShift (NDS cpu)),
                    CurICacheLine := Some p\<rparr>)"

definition ICacheInvalidateByAddr :: "u32 \<Rightarrow> 'b arm9 \<Rightarrow> 'b arm9" where
  "ICacheInvalidateByAddr addr cpu =
     (case icache_way (icache_set addr) (addr AND 0xFFFFF800) cpu of
        Some l \<Rightarrow> cpu\<lparr>ICacheTags := (ICacheTags cpu)(l := 1)\<rparr>
      | None \<Rightarrow> cpu)"

definition ICacheInvalidateAll :: "'b arm9 \<Rightarrow> 'b arm9" where
  "ICacheInvalidateAll cpu = cpu\<lparr>ICacheTags := (\<lambda>i. if i < 64 * 4 then 1 else ICacheTags cpu i)\<rparr>"

section \<open>Coprocessor registers\<close>

definition CP15Reset :: "'b arm9 \<Rightarrow> 'b arm9" where
  "CP15Reset cpu =
     (let cpu = cpu\<lparr>CP15Control := 0x2078, RNGSeed := 44203, TraceProcessID := 0,
                     DTCMSetting := 0, ITCMSetting := 0,
                     ITCM := (\<lambda>i. if i < unat ITCMPhysicalSize then 0 else ITCM cpu i),
                     DTCM := (\<lambda>i. if i < unat DTCMPhysicalSize then 0 else DTCM cpu i),
                     ITCMSize := 0, DTCMBase := 0xFFFFFFFF, DTCMMask := 0,
                     ICache := (\<lambda>i. if i < 0x2000 then 0 else ICache cpu i)\<rparr>;
          cpu = ICacheInvalidateAll cpu;
          cpu = cpu\<lparr>ICacheCount := (\<lambda>i. if i < 64 then 0 else ICacheCount cpu i),
                     PU_CodeCacheable := 0, PU_DataCacheable := 0, PU_DataCacheWrite := 0,
                     PU_CodeRW := 0, PU_DataRW := 0,
                     PU_Region := (\<lambda>i. if i < 8 then 0 else PU_Region cpu i)\<rparr>;
          cpu = UpdatePURegions True cpu
      in cpu\<lparr>CurICacheLine := None\<rparr>)"

text \<open>The update of the regions whose settings differ.\<close>

definition update_changed :: "(nat \<Rightarrow> bool) \<Rightarrow> 'b arm9 \<Rightarrow> 'b arm9" where
  "update_changed changed cpu = fold (\<lambda>i cpu. if changed i then UpdatePURegion i cpu else cpu) [0..<8] cpu"

definition nibble_diff :: "u32 \<Rightarrow> nat \<Rightarrow> bool" where
  "nibble_diff diff i \<longleftrightarrow> diff AND push_bit (i * 4) 0xF \<noteq> 0"

definition legacy_expand :: "u32 \<Rightarrow> u32" where
  "legacy_expand val =
     (val AND 0x0003) OR push_bit 2 (val AND 0x000C) OR push_bit 4 (val AND 0x0030) OR push_bit 6 (val AND 0x00C0)
     OR push_bit 8 (val AND 0x0300) OR push_bit 10 (val AND 0x0C00) OR push_bit 12 (val AND 0x3000)
     OR push_bit 14 (val AND 0xC000)"

definition legacy_compress :: "u32 \<Rightarrow> u32" where
  "legacy_compress rw =
     (rw AND 0x00000003) OR drop_bit 2 (rw AND 0x00000030) OR drop_bit 4 (rw AND 0x00000300)
     OR drop_bit 6 (rw AND 0x00003000) OR drop_bit 8 (rw AND 0x00030000) OR drop_bit 10 (rw AND 0x00300000)
     OR drop_bit 12 (rw AND 0x03000000) OR drop_bit 14 (rw AND 0x30000000)"

definition region_ids :: "u32 list" where
  "region_ids = [0x600, 0x601, 0x610, 0x611, 0x620, 0x621, 0x630, 0x631, 0x640, 0x641, 0x650, 0x651,
                 0x660, 0x661, 0x670, 0x671]"

definition write_control :: "u32 \<Rightarrow> 'b arm9 \<Rightarrow> 'b arm9" where
  "write_control val cpu =
     (let old = CP15Control cpu;
          val = val AND 0x000FF085;
          cpu = cpu\<lparr>CP15Control := (CP15Control cpu AND NOT 0x000FF085) OR val\<rparr>;
          cpu = UpdateITCMSetting (UpdateDTCMSetting cpu);
          cpu = (if old AND 0x1005 \<noteq> val AND 0x1005 then UpdatePURegions (old AND 0x1 \<noteq> val AND 0x1) cpu else cpu)
      in cpu\<lparr>ExceptionBase := (if bit val 13 then 0xFFFF0000 else 0x00000000)\<rparr>)"

definition ARMv5_CP15Write :: "u32 \<Rightarrow> u32 \<Rightarrow> 'b arm9 \<Rightarrow> 'b arm9" where
  "ARMv5_CP15Write i val cpu =
     (if i = 0x100 then write_control val cpu
      else if i = 0x200 then
        update_changed (bit (PU_DataCacheable cpu XOR val)) (cpu\<lparr>PU_DataCacheable := val\<rparr>)
      else if i = 0x201 then
        update_changed (bit (PU_CodeCacheable cpu XOR val)) (cpu\<lparr>PU_CodeCacheable := val\<rparr>)
      else if i = 0x300 then
        update_changed (bit (PU_DataCacheWrite cpu XOR val)) (cpu\<lparr>PU_DataCacheWrite := val\<rparr>)
      else if i = 0x500 then
        update_changed (nibble_diff (PU_DataRW cpu XOR legacy_expand val)) (cpu\<lparr>PU_DataRW := legacy_expand val\<rparr>)
      else if i = 0x501 then
        update_changed (nibble_diff (PU_CodeRW cpu XOR legacy_expand val)) (cpu\<lparr>PU_CodeRW := legacy_expand val\<rparr>)
      else if i = 0x502 then
        update_changed (nibble_diff (PU_DataRW cpu XOR val)) (cpu\<lparr>PU_DataRW := val\<rparr>)
      else if i = 0x503 then
        update_changed (nibble_diff (PU_CodeRW cpu XOR val)) (cpu\<lparr>PU_CodeRW := val\<rparr>)
      else if i \<in> set region_ids then
        UpdatePURegions True (cpu\<lparr>PU_Region := (PU_Region cpu)(unat (drop_bit 4 i AND 0xF) := val)\<rparr>)
      else if i = 0x704 \<or> i = 0x782 then cpu\<lparr>NDS := Halt 0 1 (NDS cpu)\<rparr>
      else if i = 0x750 then ICacheInvalidateAll cpu
      else if i = 0x751 then ICacheInvalidateByAddr val cpu
      else if i = 0x910 then UpdateDTCMSetting (cpu\<lparr>DTCMSetting := val AND 0xFFFFF03E\<rparr>)
      else if i = 0x911 then UpdateITCMSetting (cpu\<lparr>ITCMSetting := val AND 0x0000003E\<rparr>)
      else if i = 0xD01 then cpu\<lparr>TraceProcessID := val\<rparr>
      else cpu)"

definition ARMv5_CP15Read :: "u32 \<Rightarrow> 'b arm9 \<Rightarrow> u32" where
  "ARMv5_CP15Read i cpu =
     (if i \<in> {0x000, 0x003, 0x004, 0x005, 0x006, 0x007} then 0x41059461
      else if i = 0x001 then 0x0F0D2112
      else if i = 0x002 then push_bit 6 6 OR push_bit 18 5
      else if i = 0x100 then CP15Control cpu
      else if i = 0x200 then PU_DataCacheable cpu
      else if i = 0x201 then PU_CodeCacheable cpu
      else if i = 0x300 then PU_DataCacheWrite cpu
      else if i = 0x500 then legacy_compress (PU_DataRW cpu)
      else if i = 0x501 then legacy_compress (PU_CodeRW cpu)
      else if i = 0x502 then PU_DataRW cpu
      else if i = 0x503 then PU_CodeRW cpu
      else if i \<in> set region_ids then PU_Region cpu (unat (drop_bit 4 i AND 0xF))
      else if i = 0x910 then DTCMSetting cpu
      else if i = 0x911 then ITCMSetting cpu
      else if i = 0xD01 then TraceProcessID cpu
      else 0)"

section \<open>An example\<close>

text \<open>An ARM9 with clear registers on a console after reset.\<close>

definition arm9_zero :: "unit arm9" where
  "arm9_zero = armv4.extend (arm.extend (arm_zero 0) \<lparr>NDS = dma_init\<rparr>)
     \<lparr>CodeMem = None, CP15Control = 0, RNGSeed = 0, TraceProcessID = 0, DTCMSetting = 0, ITCMSetting = 0,
      ITCMSize = 0, DTCMBase = 0, DTCMMask = 0, RegionCodeCycles = 0, ITCM = (\<lambda>_. 0), DTCM = (\<lambda>_. 0),
      ICache = (\<lambda>_. 0), ICacheTags = (\<lambda>_. 0), ICacheCount = (\<lambda>_. 0), PU_CodeCacheable = 0,
      PU_DataCacheable = 0, PU_DataCacheWrite = 0, PU_CodeRW = 0, PU_DataRW = 0, PU_Region = (\<lambda>_. 0),
      PU_PrivTable = (\<lambda>_. 0), PU_UserTable = (\<lambda>_. 0), MemTimings = (\<lambda>_ _. 0), CurICacheLine = None\<rparr>"

end
