(* ===== verification/Arm_Pu.thy ===== *)
theory Arm_Pu
  imports Arm_Cp15
begin

text \<open>
  The protection unit. The maps of permissions that every access of the ARM9 consults are
  compared with what the registers say: of the regions that contain a page and are in use,
  the one with the highest number decides.
\<close>

section \<open>Specification\<close>

definition in_region :: "'b arm9 \<Rightarrow> nat \<Rightarrow> nat \<Rightarrow> bool" where
  "in_region cpu i n \<longleftrightarrow> bit (PU_Region cpu n) 0 \<and> in_pages (PU_Region cpu n) i"

text \<open>The user and the privileged permissions of page \<open>i\<close>.\<close>

definition pu_spec :: "nat \<Rightarrow> 'b arm9 \<Rightarrow> u8 \<times> u8" where
  "pu_spec i cpu =
     (if \<not> bit (CP15Control cpu) 0 then (pu_off_mask cpu, pu_off_mask cpu)
      else case find (in_region cpu i) (rev [0..<8]) of None \<Rightarrow> (0, 0) | Some n \<Rightarrow> region_masks n cpu)"

definition pu_tables :: "nat \<Rightarrow> 'b arm9 \<Rightarrow> u8 \<times> u8" where
  "pu_tables i cpu = (PU_UserTable cpu i, PU_PrivTable cpu i)"

definition pu_ok :: "'b arm9 \<Rightarrow> bool" where
  "pu_ok cpu \<longleftrightarrow> (\<forall>i<0x100000. pu_tables i cpu = pu_spec i cpu)"

text \<open>The access times are those of the permissions and of the bus.\<close>

definition page_times :: "u8 \<Rightarrow> nat \<Rightarrow> 'b arm9 \<Rightarrow> nat \<Rightarrow> u8" where
  "page_times pu i cpu = region_timing pu (ARM9MemTimings (NDS cpu) (i div 4)) (unat (ARM9ClockShift (NDS cpu)))"

definition times_ok9 :: "'b arm9 \<Rightarrow> bool" where
  "times_ok9 cpu \<longleftrightarrow> (\<forall>i<0x100000. \<forall>k<4. MemTimings cpu i k = page_times (PU_PrivTable cpu i) i cpu k)"

text \<open>The regions that a write of a register with settings of regions updates.\<close>

definition changed_regions :: "u32 \<Rightarrow> u32 \<Rightarrow> 'b arm9 \<Rightarrow> nat \<Rightarrow> bool" where
  "changed_regions i val cpu =
     (if i = 0x200 then bit (PU_DataCacheable cpu XOR val)
      else if i = 0x201 then bit (PU_CodeCacheable cpu XOR val)
      else if i = 0x300 then bit (PU_DataCacheWrite cpu XOR val)
      else if i = 0x500 then nibble_diff (PU_DataRW cpu XOR legacy_expand val)
      else if i = 0x501 then nibble_diff (PU_CodeRW cpu XOR legacy_expand val)
      else if i = 0x502 then nibble_diff (PU_DataRW cpu XOR val)
      else if i = 0x503 then nibble_diff (PU_CodeRW cpu XOR val)
      else (\<lambda>_. False))"

text \<open>No region of \<open>D\<close> in use overlaps one with a higher number outside of \<open>D\<close>.\<close>

definition no_shadow :: "(nat \<Rightarrow> bool) \<Rightarrow> 'b arm9 \<Rightarrow> bool" where
  "no_shadow D cpu \<longleftrightarrow>
     list_all (\<lambda>(n, m). D n \<and> n < m \<and> \<not> D m \<and> bit (PU_Region cpu n) 0 \<and> bit (PU_Region cpu m) 0 \<longrightarrow>
         region_end (PU_Region cpu n) \<le> region_start (PU_Region cpu m) \<or>
         region_end (PU_Region cpu m) \<le> region_start (PU_Region cpu n))
       (List.product [0..<8] [0..<8])"

section \<open>Regions\<close>

lemma aligned_block_bound:
  assumes "p < 2 ^ 20" "s \<le> 20"
  shows "(p div 2 ^ s) * 2 ^ s + 2 ^ s \<le> (2 ^ 20 :: nat)"
proof -
  have e: "2 ^ 20 = 2 ^ (20 - s) * (2 ^ s :: nat)" using assms(2) by (simp flip: power_add)
  have "p div 2 ^ s < 2 ^ (20 - s)" using assms(1) unfolding e by (rule less_mult_imp_div_less)
  then have "(p div 2 ^ s + 1) * 2 ^ s \<le> 2 ^ (20 - s) * (2 ^ s :: nat)" by (intro mult_right_mono) simp_all
  then show ?thesis unfolding e by (simp only: distrib_right mult_1)
qed

lemma region_end_bound: "unat (region_end rgn) \<le> 0x100000" "unat (region_start rgn) < unat (region_end rgn)"
proof -
  define s p where "s = region_size rgn" and "p = unat (drop_bit 12 rgn)"
  have "drop_bit 1 rgn AND 0x1F \<le> (0x1F :: u32)" by (rule word_and_le1)
  then have "uint (drop_bit 1 rgn AND 0x1F) \<le> 31" by (simp add: word_le_def)
  then have s: "s \<le> 20" by (simp add: region_size_def s_def)
  have p: "p < 2 ^ 20" using unat_u32_less [of rgn] by (simp add: p_def unat_shr less_mult_imp_div_less)
  define a w where "a = (p div 2 ^ s) * 2 ^ s" and "w = (2 ^ s :: nat)"
  have b: "a + w \<le> 0x100000" "0 < w" using aligned_block_bound [OF p s] by (simp_all add: a_def w_def)
  have "unat (drop_bit s (drop_bit 12 rgn)) * 2 ^ s = a" by (simp only: unat_shr [of s] p_def [symmetric] a_def)
  then have st: "unat (region_start rgn) = a"
    using b unat_push_small [of "drop_bit s (drop_bit 12 rgn)" s] by (simp add: region_start_def s_def [symmetric])
  have "unat (push_bit s 1 :: u32) = w" using b unat_push_small [of "1 :: u32" s] by (simp add: w_def [symmetric])
  then have "unat (region_end rgn) = a + w"
    using st b unat_plus_small [of "region_start rgn" "push_bit s 1"] by (simp add: region_end_def s_def [symmetric])
  with st b show "unat (region_end rgn) \<le> 0x100000" "unat (region_start rgn) < unat (region_end rgn)" by simp_all
qed

lemma in_pages_bound: "in_pages rgn i \<Longrightarrow> i < 0x100000"
  using region_end_bound(1) [of rgn] by (simp add: in_pages_def)

lemma no_shadowD:
  assumes "no_shadow D cpu" "D n" "n < m" "m < 8" "\<not> D m" "in_region cpu i n"
  shows "\<not> in_region cpu i m"
proof
  assume m: "in_region cpu i m"
  have "(n, m) \<in> set (List.product [0..<8] [0..<8])" using assms(3,4) by simp
  then have "region_end (PU_Region cpu n) \<le> region_start (PU_Region cpu m) \<or>
      region_end (PU_Region cpu m) \<le> region_start (PU_Region cpu n)"
    using assms m unfolding no_shadow_def list_all_iff in_region_def by fastforce
  with assms(6) m show False by (auto simp: in_region_def in_pages_def word_le_nat_alt)
qed

text \<open>A change of region \<open>n\<close> leaves the registers alone.\<close>

definition same_regs :: "'b arm9 \<Rightarrow> 'b arm9 \<Rightarrow> bool" where
  "same_regs c d \<longleftrightarrow>
     CP15Control d = CP15Control c \<and> PU_Region d = PU_Region c \<and> NDS d = NDS c \<and> PU_Map d = PU_Map c \<and>
     PU_CodeRW d = PU_CodeRW c \<and> PU_DataRW d = PU_DataRW c \<and> PU_CodeCacheable d = PU_CodeCacheable c \<and>
     PU_DataCacheable d = PU_DataCacheable c \<and> PU_DataCacheWrite d = PU_DataCacheWrite c"

lemma same_regsD:
  assumes "same_regs c d"
  shows "in_region d = in_region c" "region_masks n d = region_masks n c" "pu_off_mask d = pu_off_mask c" "pu_spec i d = pu_spec i c"
    and "CP15Control d = CP15Control c" "page_times u i d = page_times u i c"
proof -
  show a: "in_region d = in_region c" "region_masks n d = region_masks n c" "pu_off_mask d = pu_off_mask c" for n
    using assms by (simp_all add: same_regs_def in_region_def fun_eq_iff region_masks_def pu_off_mask_def)
  show "CP15Control d = CP15Control c" "page_times u i d = page_times u i c"
    using assms by (simp_all add: same_regs_def page_times_def)
  then show "pu_spec i d = pu_spec i c" by (simp add: pu_spec_def a cong: option.case_cong)
qed

lemma same_regs_refl [simp]: "same_regs c c" by (simp add: same_regs_def)

lemma same_regs_trans: "same_regs c d \<Longrightarrow> same_regs d e \<Longrightarrow> same_regs c e" by (simp add: same_regs_def)

lemma same_regs_ops [simp]:
  "same_regs c (UpdateRegionTimings a b c)" "same_regs c (memset_pu m c)" "same_regs c (UpdatePURegion n c)"
  by (simp_all add: same_regs_def UpdateRegionTimings_def memset_pu_def UpdatePURegion_def Let_def split: prod.split)

lemma same_regs_fold: "same_regs c (fold UpdatePURegion ns c)"
proof (induction ns arbitrary: c)
  case (Cons n ns)
  from same_regs_trans [OF same_regs_ops(3) Cons] show ?case by simp
qed simp

lemma tables_UpdateRegionTimings [simp]: "pu_tables i (UpdateRegionTimings a b c) = pu_tables i c"
  by (simp add: pu_tables_def UpdateRegionTimings_def)

lemma tables_UpdatePURegion:
  assumes "bit (CP15Control c) 0"
  shows "pu_tables i (UpdatePURegion n c) = (if in_region c i n then region_masks n c else pu_tables i c)"
  using assms by (auto simp: UpdatePURegion_def in_region_def Let_def split: prod.split) (simp_all add: pu_tables_def)

lemma tables_fold:
  assumes "bit (CP15Control c) 0"
  shows "pu_tables i (fold UpdatePURegion ns c) =
    (case find (in_region c i) (rev ns) of None \<Rightarrow> pu_tables i c | Some n \<Rightarrow> region_masks n c)"
proof (induction ns rule: rev_induct)
  case (snoc n ns)
  note s = same_regsD [OF same_regs_fold [of c ns]]
  show ?case using snoc assms tables_UpdatePURegion [of "fold UpdatePURegion ns c" i n] by (simp add: s)
qed simp

text \<open>The last region of a list that covers a page.\<close>

lemma find_last:
  "find P (rev [0..<k]) = Some m \<Longrightarrow> m < k \<and> P m \<and> (\<forall>n. m < n \<and> n < k \<longrightarrow> \<not> P n)"
proof (induction k)
  case (Suc k)
  then show ?case
    by (cases "P k") (auto simp: less_Suc_eq)
qed simp

lemma find_none: "find P (rev [0..<k]) = None \<longleftrightarrow> (\<forall>n<k. \<not> P n)"
  by (auto simp: find_None_iff)

lemma find_filter_rev: "find P (rev (filter D xs)) = find (\<lambda>n. D n \<and> P n) (rev xs)"
proof -
  have "find P (filter D ys) = find (\<lambda>n. D n \<and> P n) ys" for ys by (induction ys) simp_all
  then show ?thesis by (simp only: rev_filter)
qed

lemma find_restrict:
  assumes f: "find P (rev [0..<k]) = Some m"
  shows "D m \<Longrightarrow> find (\<lambda>n. D n \<and> P n) (rev [0..<k]) = Some m"
    and "(\<And>n. n < m \<Longrightarrow> D n \<Longrightarrow> \<not> P n) \<Longrightarrow> \<not> D m \<Longrightarrow> find (\<lambda>n. D n \<and> P n) (rev [0..<k]) = None"
proof -
  have "find P ys = Some m \<Longrightarrow> D m \<Longrightarrow> find (\<lambda>n. D n \<and> P n) ys = Some m" for ys
    by (induction ys) (auto split: if_splits)
  with f show "D m \<Longrightarrow> find (\<lambda>n. D n \<and> P n) (rev [0..<k]) = Some m" by simp
  show "find (\<lambda>n. D n \<and> P n) (rev [0..<k]) = None" if "\<And>n. n < m \<Longrightarrow> D n \<Longrightarrow> \<not> P n" "\<not> D m"
    unfolding find_none using find_last [OF f] that by (metis linorder_neqE_nat)
qed

section \<open>Updates\<close>

text \<open>All regions anew.\<close>

lemma tables_memset: "i < 0x100000 \<Longrightarrow> pu_tables i (memset_pu m c) = (m, m)"
  by (simp add: memset_pu_def pu_tables_def)

lemma UpdatePURegions_spec:
  assumes "\<not> update_all \<Longrightarrow> bit (CP15Control c) 0 \<Longrightarrow> \<forall>n<8. \<not> in_region c i n \<Longrightarrow> pu_tables i c = (0, 0)"
    and "i < 0x100000"
  shows "pu_tables i (UpdatePURegions update_all c) = pu_spec i c"
proof (cases "bit (CP15Control c) 0")
  case False
  then show ?thesis using assms(2) by (simp add: UpdatePURegions_def pu_spec_def tables_memset)
next
  case True
  define d where "d = (if update_all then memset_pu 0 c else c)"
  have s: "same_regs c d" by (simp add: d_def)
  note r = same_regsD [OF s]
  have "pu_tables i (UpdatePURegions update_all c) = pu_tables i (fold UpdatePURegion [0..<8] d)"
    using True by (simp add: UpdatePURegions_def d_def Let_def)
  also have "\<dots> = (case find (in_region c i) (rev [0..<8]) of None \<Rightarrow> pu_tables i d | Some n \<Rightarrow> region_masks n c)"
    using True by (subst tables_fold) (simp_all add: r split: option.split)
  also have "\<dots> = pu_spec i c"
  proof (cases "find (in_region c i) (rev [0..<8])")
    case None
    then have "\<forall>n<8. \<not> in_region c i n" unfolding find_none .
    then have "pu_tables i d = (0, 0)"
      using True assms by (cases update_all) (simp_all add: d_def tables_memset)
    then show ?thesis using True None by (simp add: pu_spec_def)
  next
    case (Some n)
    then show ?thesis using True by (simp add: pu_spec_def)
  qed
  finally show ?thesis .
qed

lemma pu_ok_UpdatePURegions: "pu_ok (UpdatePURegions True c)"
  and pu_ok_refresh:
    "(\<And>i. i < 0x100000 \<Longrightarrow> \<forall>n<8. \<not> in_region c i n \<Longrightarrow> bit (CP15Control c) 0 \<Longrightarrow> pu_tables i c = (0, 0)) \<Longrightarrow>
     pu_ok (UpdatePURegions False c)"
  and same_regs_UpdatePURegions: "same_regs c (UpdatePURegions a c)"
proof -
  have s: "same_regs c (UpdatePURegions a c)" for a and c :: "'b arm9"
  proof -
    have "same_regs c (UpdateRegionTimings 0 0x100000 (memset_pu m c))" for m
      using same_regs_trans [OF same_regs_ops(2) same_regs_ops(1)] .
    moreover have "same_regs c (UpdateRegionTimings 0 0x100000 (fold UpdatePURegion [0..<8] (memset_pu 0 c)))"
      using same_regs_trans [OF same_regs_trans [OF same_regs_ops(2) same_regs_fold] same_regs_ops(1)] .
    ultimately show ?thesis using same_regs_fold [of c "[0..<8]"] by (simp add: UpdatePURegions_def Let_def)
  qed
  then show "same_regs c (UpdatePURegions a c)" .
  show "pu_ok (UpdatePURegions True c)"
    unfolding pu_ok_def same_regsD(4) [OF s] by (auto intro!: UpdatePURegions_spec)
  show "pu_ok (UpdatePURegions False c)"
    if "\<And>i. i < 0x100000 \<Longrightarrow> \<forall>n<8. \<not> in_region c i n \<Longrightarrow> bit (CP15Control c) 0 \<Longrightarrow> pu_tables i c = (0, 0)"
    unfolding pu_ok_def same_regsD(4) [OF s] using that by (auto intro!: UpdatePURegions_spec)
qed

text \<open>Only the regions whose settings changed: \<open>c\<close> is the state before, \<open>d\<close> has the new settings.\<close>

lemma update_changed_fold: "update_changed D c = fold UpdatePURegion (filter D [0..<8]) c"
proof -
  have "fold (\<lambda>i c. if D i then UpdatePURegion i c else c) ns c = fold UpdatePURegion (filter D ns) c" for ns
    by (induction ns arbitrary: c) simp_all
  then show ?thesis by (simp add: update_changed_def)
qed

lemma pu_ok_update_changed:
  assumes ok: "pu_ok c" and ns: "no_shadow D c"
    and d: "CP15Control d = CP15Control c" "in_region d = in_region c" "\<And>i. pu_tables i d = pu_tables i c"
      "\<And>n. n < 8 \<Longrightarrow> \<not> D n \<Longrightarrow> region_masks n d = region_masks n c"
  shows "pu_ok (update_changed D d)"
proof -
  have s: "same_regs d (update_changed D d)" unfolding update_changed_fold by (rule same_regs_fold)
  have "pu_tables i (update_changed D d) = pu_spec i d" if i: "i < 0x100000" for i
  proof (cases "bit (CP15Control c) 0")
    case False
    then have "UpdatePURegion n d = d" for n by (simp add: UpdatePURegion_def d(1))
    then have "fold UpdatePURegion ns d = d" for ns by (induction ns) simp_all
    then show ?thesis using ok i False by (simp add: update_changed_fold d pu_ok_def pu_spec_def pu_off_mask_def)
  next
    case True
    have t: "pu_tables i (update_changed D d) =
        (case find (\<lambda>n. D n \<and> in_region c i n) (rev [0..<8]) of None \<Rightarrow> pu_tables i c | Some n \<Rightarrow> region_masks n d)"
      using True tables_fold [of d i "filter D [0..<8]"] by (simp add: update_changed_fold d find_filter_rev split: option.split)
    have o: "pu_tables i c = (case find (in_region c i) (rev [0..<8]) of None \<Rightarrow> (0, 0) | Some n \<Rightarrow> region_masks n c)"
      using ok i True by (simp add: pu_ok_def pu_spec_def)
    have p: "pu_spec i d = (case find (in_region c i) (rev [0..<8]) of None \<Rightarrow> (0, 0) | Some n \<Rightarrow> region_masks n d)"
      using True by (simp add: pu_spec_def d)
    show ?thesis
    proof (cases "find (in_region c i) (rev [0..<8])")
      case None
      then have "find (\<lambda>n. D n \<and> in_region c i n) (rev [0..<8]) = None" unfolding find_none by blast
      then show ?thesis using None t o p by simp
    next
      case (Some m)
      note m = find_last [OF Some]
      show ?thesis
      proof (cases "D m")
        case True
        then show ?thesis using find_restrict(1) [OF Some, of D] t p Some by simp
      next
        case False
        have "\<not> in_region c i n" if "n < m" "D n" for n using no_shadowD [OF ns that(2,1) _ False, of i] m by blast
        then show ?thesis using find_restrict(2) [OF Some, of D] False t o p Some d(4) [OF _ False] m by simp
      qed
    qed
  qed
  then show ?thesis unfolding pu_ok_def same_regsD(4) [OF s] by blast
qed

section \<open>Access times\<close>

text \<open>The two maps agree in the bits that decide the times, so the current mode does not matter.\<close>

definition cache_agree :: "u8 \<times> u8 \<Rightarrow> bool" where
  "cache_agree up \<longleftrightarrow> bit (fst up) 4 = bit (snd up) 4 \<and> bit (fst up) 6 = bit (snd up) 6"

lemma cache_agree_masks: "cache_agree (region_masks n c)"
proof -
  have d: "\<not> bit (fst (datarw_masks x)) 4" "\<not> bit (snd (datarw_masks x)) 4" "\<not> bit (fst (datarw_masks x)) 6"
    "\<not> bit (snd (datarw_masks x)) 6" "\<not> bit (fst (coderw_masks x)) 4" "\<not> bit (snd (coderw_masks x)) 4"
    "\<not> bit (fst (coderw_masks x)) 6" "\<not> bit (snd (coderw_masks x)) 6" for x
    by (simp_all add: datarw_masks_def coderw_masks_def)
  show ?thesis unfolding region_masks_def Let_def case_prod_beta cache_agree_def
    by (simp add: bit_or_iff d)
qed

lemma pu_ok_agree:
  assumes "pu_ok c" "i < 0x100000"
  shows "cache_agree (pu_tables i c)"
proof -
  have "cache_agree (pu_spec i c)" unfolding pu_spec_def
    by (simp add: cache_agree_masks split: option.split) (simp add: cache_agree_def)
  then show ?thesis using assms by (simp add: pu_ok_def)
qed

lemma region_timing_agree:
  "bit u 4 = bit p 4 \<Longrightarrow> bit u 6 = bit p 6 \<Longrightarrow> region_timing u b s = region_timing p b s"
  using and_exp_eq_0_iff_not_bit [of u 4] and_exp_eq_0_iff_not_bit [of p 4] and_exp_eq_0_iff_not_bit [of u 6]
    and_exp_eq_0_iff_not_bit [of p 6]
  by (simp add: fun_eq_iff region_timing_def)

lemma pu_at_times: "cache_agree (pu_tables i c) \<Longrightarrow> page_times (pu_at i c) i d = page_times (PU_PrivTable c i) i d"
  by (cases "PU_Map c") (auto simp: pu_at_def page_times_def cache_agree_def pu_tables_def intro: region_timing_agree)

lemma MemTimings_update:
  "MemTimings (UpdateRegionTimings a b c) i k =
     (if a \<le> i \<and> i < b \<and> k < 4 then page_times (pu_at i c) i c k else MemTimings c i k)"
  by (simp add: UpdateRegionTimings_def page_times_def)

lemma PrivTable_update [simp]: "PU_PrivTable (UpdateRegionTimings a b c) = PU_PrivTable c"
  by (simp add: UpdateRegionTimings_def)

lemma times_ok_all: "pu_ok (UpdateRegionTimings 0 0x100000 c) \<Longrightarrow> times_ok9 (UpdateRegionTimings 0 0x100000 c)"
proof -
  assume ok: "pu_ok (UpdateRegionTimings 0 0x100000 c)"
  have "page_times (pu_at i c) i c = page_times (PU_PrivTable c i) i c" if "i < 0x100000" for i
    using pu_ok_agree [OF ok that] by (simp add: pu_at_times)
  then show ?thesis
    by (simp add: times_ok9_def MemTimings_update same_regsD(6) [OF same_regs_ops(1)])
qed

lemma times_ok_UpdatePURegion:
  assumes "times_ok9 c"
  shows "times_ok9 (UpdatePURegion n c)"
proof (cases "bit (CP15Control c) 0 \<and> bit (PU_Region c n) 0")
  case False
  then show ?thesis using assms by (auto simp: UpdatePURegion_def Let_def split: prod.split)
next
  case True
  let ?r = "PU_Region c n"
  define d where "d = c\<lparr>PU_UserTable := (\<lambda>i. if in_pages ?r i then fst (region_masks n c) else PU_UserTable c i),
    PU_PrivTable := (\<lambda>i. if in_pages ?r i then snd (region_masks n c) else PU_PrivTable c i)\<rparr>"
  have u: "UpdatePURegion n c = UpdateRegionTimings (unat (region_start ?r)) (unat (region_end ?r)) d"
    using True by (simp add: UpdatePURegion_def d_def case_prod_beta Let_def)
  have t: "page_times q i (UpdateRegionTimings a b d) = page_times q i d" for q i a b
    by (rule same_regsD(6)) simp
  have e: "page_times q i d = page_times q i c" for q i by (simp add: d_def page_times_def)
  have md: "MemTimings d = MemTimings c" by (simp add: d_def)
  have g: "cache_agree (pu_tables i d)" if "in_pages ?r i" for i
    using that cache_agree_masks [of n c] by (simp add: pu_tables_def d_def)
  have "MemTimings (UpdatePURegion n c) i k = page_times (PU_PrivTable d i) i d k" if "i < 0x100000" "k < 4" for i k
  proof (cases "in_pages ?r i")
    case True
    then show ?thesis using pu_at_times [OF g [OF True], of d] that by (simp add: u MemTimings_update in_pages_def)
  next
    case False
    then have "MemTimings (UpdatePURegion n c) i k = MemTimings c i k"
      by (auto simp: u MemTimings_update in_pages_def md)
    then show ?thesis using False assms that by (simp add: times_ok9_def e) (simp add: d_def)
  qed
  then show ?thesis by (simp add: times_ok9_def u t)
qed

lemma times_ok_fold: "times_ok9 c \<Longrightarrow> times_ok9 (fold UpdatePURegion ns c)"
  by (induction ns arbitrary: c) (simp_all add: times_ok_UpdatePURegion)

lemma times_ok_UpdatePURegions:
  assumes "a \<or> times_ok9 c" "pu_ok (UpdatePURegions a c)"
  shows "times_ok9 (UpdatePURegions a c)"
proof (cases "bit (CP15Control c) 0 \<and> \<not> a")
  case True
  then show ?thesis using assms(1) by (simp add: UpdatePURegions_def times_ok_fold)
next
  case False
  then show ?thesis using assms(2) by (auto simp: UpdatePURegions_def Let_def intro!: times_ok_all)
qed

section \<open>Writes of the registers\<close>

lemma nibble_eq:
  assumes "\<not> nibble_diff (a XOR b) n" "n < 8"
  shows "drop_bit (4 * n) a AND 0xF = drop_bit (4 * n) b AND 0xF"
proof -
  have f: "(0xF :: u32) = mask 4" by (simp add: mask_eq_exp_minus_1)
  have z: "(a XOR b) AND push_bit (n * 4) (mask 4) = 0" using assms(1) by (simp add: nibble_diff_def f)
  have "bit a (4 * n + k) = bit b (4 * n + k)" if "k < 4" for k
    using arg_cong [OF z, of "\<lambda>x. bit x (4 * n + k)"] that assms(2) by (simp add: bit_simps mult.commute)
  then show ?thesis unfolding f by (intro bit_word_eqI) (auto simp: bit_simps add.commute)
qed

text \<open>A write of settings: \<open>d\<close> differs from \<open>c\<close> in the settings of the regions \<open>D\<close>.\<close>

lemma settings_write:
  assumes "pu_ok c" "times_ok9 c" "no_shadow D c"
    and d: "CP15Control d = CP15Control c" "PU_Region d = PU_Region c" "PU_UserTable d = PU_UserTable c"
      "PU_PrivTable d = PU_PrivTable c" "MemTimings d = MemTimings c" "NDS d = NDS c"
      "\<And>n. n < 8 \<Longrightarrow> \<not> D n \<Longrightarrow> region_masks n d = region_masks n c"
  shows "pu_ok (update_changed D d) \<and> times_ok9 (update_changed D d)"
proof
  have "in_region d = in_region c" by (simp add: fun_eq_iff in_region_def d)
  moreover have "pu_tables i d = pu_tables i c" for i by (simp add: pu_tables_def d)
  ultimately show "pu_ok (update_changed D d)" using assms(1,3) d(1,7) by (intro pu_ok_update_changed) auto
  have "times_ok9 d" using assms(2) by (simp add: times_ok9_def page_times_def d)
  then show "times_ok9 (update_changed D d)" unfolding update_changed_fold by (rule times_ok_fold)
qed

lemma update_all_write: "pu_ok (UpdatePURegions True c) \<and> times_ok9 (UpdatePURegions True c)"
  using pu_ok_UpdatePURegions times_ok_UpdatePURegions by blast

lemma ok_cong:
  assumes "same_regs c d" "PU_UserTable d = PU_UserTable c" "PU_PrivTable d = PU_PrivTable c" "MemTimings d = MemTimings c"
  shows "pu_ok d = pu_ok c" "times_ok9 d = times_ok9 c"
  using assms by (simp_all add: pu_ok_def times_ok9_def pu_tables_def same_regsD [OF assms(1)])

text \<open>Two control registers that agree in the bits the maps depend on.\<close>

lemma bit_1005: "bit (0x1005 :: u32) n \<longleftrightarrow> n = 0 \<or> n = 2 \<or> n = 12"
proof -
  have e: "0x1005 = (2 ^ 0 OR (2 ^ 2 OR 2 ^ 12) :: u32)" by simp
  show ?thesis by (subst e, simp only: bit_or_iff bit_exp_iff possible_bit_word) auto
qed

lemma control_bits: "a AND 0x1005 = b AND 0x1005 \<longleftrightarrow> bit a 0 = bit b 0 \<and> bit a 2 = bit b 2 \<and> bit a 12 = bit b 12"
  for a b :: u32
proof
  assume "a AND 0x1005 = b AND 0x1005"
  then have "(bit a n \<and> bit (0x1005 :: u32) n) = (bit b n \<and> bit (0x1005 :: u32) n)" for n by (metis bit_and_iff)
  then show "bit a 0 = bit b 0 \<and> bit a 2 = bit b 2 \<and> bit a 12 = bit b 12" unfolding bit_1005 by blast
next
  assume "bit a 0 = bit b 0 \<and> bit a 2 = bit b 2 \<and> bit a 12 = bit b 12"
  then have "bit (a AND 0x1005) n = bit (b AND 0x1005) n" for n unfolding bit_and_iff bit_1005 by blast
  then show "a AND 0x1005 = b AND 0x1005" by (intro bit_word_eqI)
qed

lemma control_bit0: "a AND 0x1 = b AND 0x1 \<longleftrightarrow> bit a 0 = bit b 0" for a b :: u32
  using and_exp_cases [of a 0] and_exp_cases [of b 0] and_exp_eq_0_iff_not_bit [of a 0] and_exp_eq_0_iff_not_bit [of b 0]
  by auto

lemma control_spec:
  assumes "bit p 0 = bit (CP15Control c) 0" "bit p 2 = bit (CP15Control c) 2" "bit p 12 = bit (CP15Control c) 12"
  shows "pu_ok (c\<lparr>CP15Control := p\<rparr>) = pu_ok c"
proof -
  let ?d = "c\<lparr>CP15Control := p\<rparr>"
  have m: "region_masks n ?d = region_masks n c" for n using assms by (simp add: region_masks_def)
  have r: "in_region ?d = in_region c" by (simp add: fun_eq_iff in_region_def)
  have f: "pu_off_mask ?d = pu_off_mask c" using assms by (simp add: pu_off_mask_def)
  have "pu_spec i ?d = pu_spec i c" for i using assms(1) by (simp add: pu_spec_def m r f split: option.split)
  then show ?thesis by (simp add: pu_ok_def pu_tables_def)
qed

lemma write_control_ok:
  assumes "pu_ok c" "times_ok9 c"
  shows "pu_ok (write_control val c) \<and> times_ok9 (write_control val c)"
proof -
  let ?v = "val AND 0x000FF085"
  define p where "p = (CP15Control c AND NOT 0x000FF085) OR ?v"
  define d where "d = UpdateITCMSetting (UpdateDTCMSetting (c\<lparr>CP15Control := p\<rparr>))"
  have b: "bit p k = bit ?v k" if "k \<in> {0, 2, 12}" for k using that by (auto simp: p_def bit_simps)
  have s: "same_regs (c\<lparr>CP15Control := p\<rparr>) d" "PU_UserTable d = PU_UserTable c" "PU_PrivTable d = PU_PrivTable c"
    "MemTimings d = MemTimings c" "CP15Control d = p" "PU_Region d = PU_Region c"
    by (simp_all add: d_def UpdateITCMSetting_def UpdateDTCMSetting_def same_regs_def Let_def)
  have td: "times_ok9 d" using assms(2) ok_cong(2) [OF s(1)] s by (simp add: times_ok9_def page_times_def)
  define e where "e = (if CP15Control c AND 0x1005 \<noteq> ?v AND 0x1005
    then UpdatePURegions (CP15Control c AND 0x1 \<noteq> ?v AND 0x1) d else d)"
  have "pu_ok e \<and> times_ok9 e"
  proof (cases "CP15Control c AND 0x1005 = ?v AND 0x1005")
    case True
    then have "pu_ok (c\<lparr>CP15Control := p\<rparr>)" using assms(1) control_spec [of p c] b unfolding control_bits by auto
    then have "pu_ok d" using ok_cong(1) [OF s(1)] s by simp
    with True td show ?thesis by (simp add: e_def)
  next
    case changed: False
    show ?thesis
    proof (cases "CP15Control c AND 0x1 = ?v AND 0x1")
      case False
      then show ?thesis using changed update_all_write [of d] by (simp add: e_def)
    next
      case True
      then have on: "bit (CP15Control d) 0 = bit (CP15Control c) 0" using b [of 0] s(5) unfolding control_bit0 by simp
      have "in_region d = in_region c" by (simp add: fun_eq_iff in_region_def s)
      then have "pu_tables i d = (0, 0)" if "i < 0x100000" "\<forall>n<8. \<not> in_region d i n" "bit (CP15Control d) 0" for i
      proof -
        have "pu_tables i c = pu_spec i c" using assms(1) that(1) by (simp add: pu_ok_def)
        moreover have "find (in_region c i) (rev [0..<8]) = None" unfolding find_none using that \<open>in_region d = in_region c\<close> by simp
        ultimately show ?thesis using that(3) on s by (simp add: pu_spec_def pu_tables_def)
      qed
      then have "pu_ok (UpdatePURegions False d)" by (intro pu_ok_refresh) blast
      moreover from this td have "times_ok9 (UpdatePURegions False d)" by (intro times_ok_UpdatePURegions) simp_all
      ultimately show ?thesis using True changed by (simp add: e_def)
    qed
  qed
  moreover have w: "write_control val c = e\<lparr>ExceptionBase := (if bit ?v 13 then 0xFFFF0000 else 0x00000000)\<rparr>"
    by (simp only: write_control_def Let_def e_def d_def p_def)
  moreover have "same_regs e (e\<lparr>ExceptionBase := x\<rparr>)" for x by (simp add: same_regs_def)
  ultimately show ?thesis using ok_cong [of e "e\<lparr>ExceptionBase := (if bit ?v 13 then 0xFFFF0000 else 0x00000000)\<rparr>"] by simp
qed


lemma ok_NDS:
  "ARM9MemTimings n = ARM9MemTimings (NDS c) \<Longrightarrow> ARM9ClockShift n = ARM9ClockShift (NDS c) \<Longrightarrow> times_ok9 (c\<lparr>NDS := n\<rparr>) = times_ok9 c"
  "pu_ok (c\<lparr>NDS := n\<rparr>) = pu_ok c"
proof -
  show "times_ok9 (c\<lparr>NDS := n\<rparr>) = times_ok9 c"
    if "ARM9MemTimings n = ARM9MemTimings (NDS c)" "ARM9ClockShift n = ARM9ClockShift (NDS c)"
    using that by (simp add: times_ok9_def page_times_def)
  have "in_region (c\<lparr>NDS := n\<rparr>) = in_region c" "region_masks k (c\<lparr>NDS := n\<rparr>) = region_masks k c" for k
    by (simp_all add: fun_eq_iff in_region_def region_masks_def)
  then show "pu_ok (c\<lparr>NDS := n\<rparr>) = pu_ok c"
    by (simp add: pu_ok_def pu_tables_def pu_spec_def pu_off_mask_def split: option.split)
qed

lemma Halt_times: "ARM9MemTimings (Halt k h n) = ARM9MemTimings n" "ARM9ClockShift (Halt k h n) = ARM9ClockShift n"
  by (simp_all add: Halt_def)

text \<open>The writes that change neither settings nor maps.\<close>

lemma ok_others:
  assumes "pu_ok c" "times_ok9 c"
  shows "pu_ok (ICacheInvalidateAll c) \<and> times_ok9 (ICacheInvalidateAll c)"
    "pu_ok (ICacheInvalidateByAddr val c) \<and> times_ok9 (ICacheInvalidateByAddr val c)"
    "pu_ok (UpdateDTCMSetting (c\<lparr>DTCMSetting := val\<rparr>)) \<and> times_ok9 (UpdateDTCMSetting (c\<lparr>DTCMSetting := val\<rparr>))"
    "pu_ok (UpdateITCMSetting (c\<lparr>ITCMSetting := val\<rparr>)) \<and> times_ok9 (UpdateITCMSetting (c\<lparr>ITCMSetting := val\<rparr>))"
    "pu_ok (c\<lparr>TraceProcessID := val\<rparr>) \<and> times_ok9 (c\<lparr>TraceProcessID := val\<rparr>)"
    "pu_ok (c\<lparr>CurICacheLine := l\<rparr>) \<and> times_ok9 (c\<lparr>CurICacheLine := l\<rparr>)"
proof -
  have k: "pu_ok d \<and> times_ok9 d"
    if "same_regs c d" "PU_UserTable d = PU_UserTable c" "PU_PrivTable d = PU_PrivTable c" "MemTimings d = MemTimings c" for d
    using ok_cong [OF that] assms by simp
  show "pu_ok (ICacheInvalidateAll c) \<and> times_ok9 (ICacheInvalidateAll c)"
    by (rule k) (simp_all add: ICacheInvalidateAll_def same_regs_def)
  show "pu_ok (ICacheInvalidateByAddr val c) \<and> times_ok9 (ICacheInvalidateByAddr val c)"
    by (rule k) (simp_all add: ICacheInvalidateByAddr_def same_regs_def split: option.split)
  show "pu_ok (UpdateDTCMSetting (c\<lparr>DTCMSetting := val\<rparr>)) \<and> times_ok9 (UpdateDTCMSetting (c\<lparr>DTCMSetting := val\<rparr>))"
    by (rule k) (simp_all add: UpdateDTCMSetting_def same_regs_def Let_def)
  show "pu_ok (UpdateITCMSetting (c\<lparr>ITCMSetting := val\<rparr>)) \<and> times_ok9 (UpdateITCMSetting (c\<lparr>ITCMSetting := val\<rparr>))"
    by (rule k) (simp_all add: UpdateITCMSetting_def same_regs_def)
  show "pu_ok (c\<lparr>TraceProcessID := val\<rparr>) \<and> times_ok9 (c\<lparr>TraceProcessID := val\<rparr>)" by (rule k) (simp_all add: same_regs_def)
  show "pu_ok (c\<lparr>CurICacheLine := l\<rparr>) \<and> times_ok9 (c\<lparr>CurICacheLine := l\<rparr>)" by (rule k) (simp_all add: same_regs_def)
qed

lemma masks_write:
  "\<not> bit (PU_DataCacheable c XOR v) n \<Longrightarrow> region_masks n (c\<lparr>PU_DataCacheable := v\<rparr>) = region_masks n c"
  "\<not> bit (PU_CodeCacheable c XOR v) n \<Longrightarrow> region_masks n (c\<lparr>PU_CodeCacheable := v\<rparr>) = region_masks n c"
  "\<not> bit (PU_DataCacheWrite c XOR v) n \<Longrightarrow> region_masks n (c\<lparr>PU_DataCacheWrite := v\<rparr>) = region_masks n c"
  "n < 8 \<Longrightarrow> \<not> nibble_diff (PU_DataRW c XOR v) n \<Longrightarrow> region_masks n (c\<lparr>PU_DataRW := v\<rparr>) = region_masks n c"
  "n < 8 \<Longrightarrow> \<not> nibble_diff (PU_CodeRW c XOR v) n \<Longrightarrow> region_masks n (c\<lparr>PU_CodeRW := v\<rparr>) = region_masks n c"
  by (simp_all add: region_masks_def bit_xor_iff nibble_eq [of "PU_DataRW c" v] nibble_eq [of "PU_CodeRW c" v])

lemma settings_writes:
  assumes ok: "pu_ok c" "times_ok9 c"
  shows "no_shadow (bit (PU_DataCacheable c XOR v)) c \<Longrightarrow>
      pu_ok (update_changed (bit (PU_DataCacheable c XOR v)) (c\<lparr>PU_DataCacheable := v\<rparr>)) \<and>
      times_ok9 (update_changed (bit (PU_DataCacheable c XOR v)) (c\<lparr>PU_DataCacheable := v\<rparr>))"
    "no_shadow (bit (PU_CodeCacheable c XOR v)) c \<Longrightarrow>
      pu_ok (update_changed (bit (PU_CodeCacheable c XOR v)) (c\<lparr>PU_CodeCacheable := v\<rparr>)) \<and>
      times_ok9 (update_changed (bit (PU_CodeCacheable c XOR v)) (c\<lparr>PU_CodeCacheable := v\<rparr>))"
    "no_shadow (bit (PU_DataCacheWrite c XOR v)) c \<Longrightarrow>
      pu_ok (update_changed (bit (PU_DataCacheWrite c XOR v)) (c\<lparr>PU_DataCacheWrite := v\<rparr>)) \<and>
      times_ok9 (update_changed (bit (PU_DataCacheWrite c XOR v)) (c\<lparr>PU_DataCacheWrite := v\<rparr>))"
    "no_shadow (nibble_diff (PU_DataRW c XOR v)) c \<Longrightarrow>
      pu_ok (update_changed (nibble_diff (PU_DataRW c XOR v)) (c\<lparr>PU_DataRW := v\<rparr>)) \<and>
      times_ok9 (update_changed (nibble_diff (PU_DataRW c XOR v)) (c\<lparr>PU_DataRW := v\<rparr>))"
    "no_shadow (nibble_diff (PU_CodeRW c XOR v)) c \<Longrightarrow>
      pu_ok (update_changed (nibble_diff (PU_CodeRW c XOR v)) (c\<lparr>PU_CodeRW := v\<rparr>)) \<and>
      times_ok9 (update_changed (nibble_diff (PU_CodeRW c XOR v)) (c\<lparr>PU_CodeRW := v\<rparr>))"
  by (rule settings_write [OF ok]; simp add: masks_write)+

lemma CP15Write_ok:
  assumes ok: "pu_ok c" "times_ok9 c" and ns: "no_shadow (changed_regions i val c) c"
  shows "pu_ok (ARMv5_CP15Write i val c) \<and> times_ok9 (ARMv5_CP15Write i val c)"
proof (cases "i \<in> {0x200, 0x201, 0x300, 0x500, 0x501, 0x502, 0x503}")
  case True
  then consider "i = 0x200" | "i = 0x201" | "i = 0x300" | "i = 0x500" | "i = 0x501" | "i = 0x502" | "i = 0x503" by blast
  then show ?thesis
    by cases (use ns settings_writes [OF ok] in \<open>simp_all add: ARMv5_CP15Write_def changed_regions_def\<close>)
next
  case False
  have "pu_ok (c\<lparr>NDS := Halt 0 1 (NDS c)\<rparr>) \<and> times_ok9 (c\<lparr>NDS := Halt 0 1 (NDS c)\<rparr>)"
    using ok by (simp add: ok_NDS Halt_times)
  then show ?thesis
    using False write_control_ok [OF ok, of val] ok_others [OF ok] ok
    unfolding ARMv5_CP15Write_def by (simp add: update_all_write)
qed

lemma CP15Reset_ok: "pu_ok (CP15Reset c) \<and> times_ok9 (CP15Reset c)"
  unfolding CP15Reset_def Let_def
  by (rule ok_others(6) [OF conjunct1 [OF update_all_write] conjunct2 [OF update_all_write]])

section \<open>Registers read back\<close>

text \<open>Two registers are one when they show the same setting.\<close>

definition cp15_alias :: "u32 \<Rightarrow> u32" where
  "cp15_alias i =
     (if i = 0x500 then 0x502 else if i = 0x501 then 0x503 else if i \<in> set region_ids then i AND NOT 1 else i)"

lemma read_ops [simp]:
  "ARMv5_CP15Read j (UpdateRegionTimings a b c) = ARMv5_CP15Read j c"
  "ARMv5_CP15Read j (memset_pu m c) = ARMv5_CP15Read j c"
  "ARMv5_CP15Read j (UpdateDTCMSetting c) = ARMv5_CP15Read j c"
  "ARMv5_CP15Read j (UpdateITCMSetting c) = ARMv5_CP15Read j c"
  "ARMv5_CP15Read j (ICacheInvalidateAll c) = ARMv5_CP15Read j c"
  "ARMv5_CP15Read j (c\<lparr>NDS := n\<rparr>) = ARMv5_CP15Read j c"
  "ARMv5_CP15Read j (c\<lparr>ExceptionBase := e\<rparr>) = ARMv5_CP15Read j c"
  "ARMv5_CP15Read j (c\<lparr>PU_UserTable := tu, PU_PrivTable := tp\<rparr>) = ARMv5_CP15Read j c"
  "ARMv5_CP15Read j (c\<lparr>ICacheTags := tg\<rparr>) = ARMv5_CP15Read j c"
  by (simp_all add: ARMv5_CP15Read_def UpdateRegionTimings_def memset_pu_def UpdateDTCMSetting_def UpdateITCMSetting_def
    ICacheInvalidateAll_def Let_def)

lemma read_UpdatePURegion [simp]: "ARMv5_CP15Read j (UpdatePURegion n c) = ARMv5_CP15Read j c"
  unfolding UpdatePURegion_def Let_def case_prod_beta by simp

lemma read_fold [simp]: "ARMv5_CP15Read j (fold UpdatePURegion ns c) = ARMv5_CP15Read j c"
  by (induction ns arbitrary: c) simp_all

lemma read_updates [simp]:
  "ARMv5_CP15Read j (update_changed D c) = ARMv5_CP15Read j c"
  "ARMv5_CP15Read j (UpdatePURegions u c) = ARMv5_CP15Read j c"
  "ARMv5_CP15Read j (ICacheInvalidateByAddr val c) = ARMv5_CP15Read j c"
  by (simp_all add: update_changed_fold UpdatePURegions_def ICacheInvalidateByAddr_def Let_def split: option.split)

lemma legacy_roundtrip: "legacy_compress (legacy_expand val) = val AND 0xFFFF"
proof (rule bit_word_eqI)
  have "list_all (\<lambda>n. bit (legacy_compress (legacy_expand val)) n = bit (val AND 0xFFFF) n) [0..<32]"
    by (simp add: upt_rec legacy_compress_def legacy_expand_def bit_simps)
  then show "bit (legacy_compress (legacy_expand val)) n = bit (val AND 0xFFFF) n" if "n < LENGTH(32)" for n
    using that by (simp add: list_all_iff)
qed

lemma region_ids_cases: "i \<in> set region_ids \<Longrightarrow> i \<noteq> 0x100 \<and> i \<noteq> 0x200 \<and> i \<noteq> 0x201 \<and> i \<noteq> 0x300 \<and> i \<noteq> 0x500 \<and>
    i \<noteq> 0x501 \<and> i \<noteq> 0x502 \<and> i \<noteq> 0x503 \<and> i \<notin> {0x000, 0x003, 0x004, 0x005, 0x006, 0x007} \<and> i \<noteq> 0x001 \<and> i \<noteq> 0x002"
  by (auto simp: region_ids_def)

lemma region_write:
  "i \<in> set region_ids \<Longrightarrow> ARMv5_CP15Write i val c =
     UpdatePURegions True (c\<lparr>PU_Region := (PU_Region c)(unat (drop_bit 4 i AND 0xF) := val)\<rparr>)"
  using region_ids_cases [of i] by (simp add: ARMv5_CP15Write_def)

lemma region_read: "i \<in> set region_ids \<Longrightarrow> ARMv5_CP15Read i c = PU_Region c (unat (drop_bit 4 i AND 0xF))"
  using region_ids_cases [of i] by (simp add: ARMv5_CP15Read_def)

lemma region_alias: "i \<in> set region_ids \<Longrightarrow> cp15_alias i = 0x600 OR push_bit 4 (drop_bit 4 i AND 0xF)"
  by (auto simp: region_ids_def cp15_alias_def)

lemma region_frame:
  "i \<in> set region_ids \<Longrightarrow> cp15_alias i \<noteq> cp15_alias j \<Longrightarrow> ARMv5_CP15Read j (ARMv5_CP15Write i val c) = ARMv5_CP15Read j c"
proof (cases "j \<in> set region_ids")
  case True
  assume "i \<in> set region_ids" "cp15_alias i \<noteq> cp15_alias j"
  then have "drop_bit 4 i AND 0xF \<noteq> drop_bit 4 j AND 0xF" using region_alias [of i] region_alias [OF True] by metis
  then have "unat (drop_bit 4 j AND 0xF) \<noteq> unat (drop_bit 4 i AND 0xF)" by (metis word_unat_eq_iff)
  with \<open>i \<in> set region_ids\<close> True show ?thesis by (simp add: region_write region_read)
next
  case False
  assume "i \<in> set region_ids"
  with False show ?thesis by (simp add: region_write) (simp add: ARMv5_CP15Read_def)
qed

lemma read_control [simp]:
  "ARMv5_CP15Read j (write_control val c) =
     ARMv5_CP15Read j (c\<lparr>CP15Control := (CP15Control c AND NOT 0x000FF085) OR (val AND 0x000FF085)\<rparr>)"
  unfolding write_control_def Let_def by (simp only: read_ops read_updates if_distrib [of "ARMv5_CP15Read j"] if_cancel)

lemma read_fields:
  "j \<noteq> 0x100 \<Longrightarrow> ARMv5_CP15Read j (c\<lparr>CP15Control := v\<rparr>) = ARMv5_CP15Read j c"
  "j \<noteq> 0x200 \<Longrightarrow> ARMv5_CP15Read j (c\<lparr>PU_DataCacheable := v\<rparr>) = ARMv5_CP15Read j c"
  "j \<noteq> 0x201 \<Longrightarrow> ARMv5_CP15Read j (c\<lparr>PU_CodeCacheable := v\<rparr>) = ARMv5_CP15Read j c"
  "j \<noteq> 0x300 \<Longrightarrow> ARMv5_CP15Read j (c\<lparr>PU_DataCacheWrite := v\<rparr>) = ARMv5_CP15Read j c"
  "j \<notin> {0x500, 0x502} \<Longrightarrow> ARMv5_CP15Read j (c\<lparr>PU_DataRW := v\<rparr>) = ARMv5_CP15Read j c"
  "j \<notin> {0x501, 0x503} \<Longrightarrow> ARMv5_CP15Read j (c\<lparr>PU_CodeRW := v\<rparr>) = ARMv5_CP15Read j c"
  "j \<noteq> 0x910 \<Longrightarrow> ARMv5_CP15Read j (c\<lparr>DTCMSetting := v\<rparr>) = ARMv5_CP15Read j c"
  "j \<noteq> 0x911 \<Longrightarrow> ARMv5_CP15Read j (c\<lparr>ITCMSetting := v\<rparr>) = ARMv5_CP15Read j c"
  "j \<noteq> 0xD01 \<Longrightarrow> ARMv5_CP15Read j (c\<lparr>TraceProcessID := v\<rparr>) = ARMv5_CP15Read j c"
  by (simp_all add: ARMv5_CP15Read_def)

lemma settings_frame:
  assumes "i \<notin> set region_ids" "cp15_alias i \<noteq> cp15_alias j"
  shows "ARMv5_CP15Read j (ARMv5_CP15Write i val c) = ARMv5_CP15Read j c"
proof -
  have j: "j \<noteq> i" "i \<in> {0x500, 0x502} \<Longrightarrow> j \<notin> {0x500, 0x502}" "i \<in> {0x501, 0x503} \<Longrightarrow> j \<notin> {0x501, 0x503}"
    using assms by (auto simp: cp15_alias_def region_ids_def)
  show ?thesis
    unfolding ARMv5_CP15Write_def using assms(1) j by (auto simp: read_fields)
qed

lemma read_same:
  "ARMv5_CP15Read 0x200 (ARMv5_CP15Write 0x200 val c) = val"
  "ARMv5_CP15Read 0x201 (ARMv5_CP15Write 0x201 val c) = val"
  "ARMv5_CP15Read 0x300 (ARMv5_CP15Write 0x300 val c) = val"
  "ARMv5_CP15Read 0x502 (ARMv5_CP15Write 0x502 val c) = val"
  "ARMv5_CP15Read 0x503 (ARMv5_CP15Write 0x503 val c) = val"
  "ARMv5_CP15Read 0xD01 (ARMv5_CP15Write 0xD01 val c) = val"
  "ARMv5_CP15Read 0x500 (ARMv5_CP15Write 0x500 val c) = val AND 0xFFFF"
  "ARMv5_CP15Read 0x501 (ARMv5_CP15Write 0x501 val c) = val AND 0xFFFF"
  "ARMv5_CP15Read 0x910 (ARMv5_CP15Write 0x910 val c) = val AND 0xFFFFF03E"
  "ARMv5_CP15Read 0x911 (ARMv5_CP15Write 0x911 val c) = val AND 0x3E"
  "ARMv5_CP15Read 0x100 (ARMv5_CP15Write 0x100 val c) = (ARMv5_CP15Read 0x100 c AND NOT 0x000FF085) OR (val AND 0x000FF085)"
proof -
  have r: "i \<notin> set region_ids" if "i \<in> {0xD01, 0x910, 0x911}" for i using that by (auto simp: region_ids_def)
  show "ARMv5_CP15Read 0x200 (ARMv5_CP15Write 0x200 val c) = val"
    "ARMv5_CP15Read 0x201 (ARMv5_CP15Write 0x201 val c) = val"
    "ARMv5_CP15Read 0x300 (ARMv5_CP15Write 0x300 val c) = val"
    "ARMv5_CP15Read 0x502 (ARMv5_CP15Write 0x502 val c) = val"
    "ARMv5_CP15Read 0x503 (ARMv5_CP15Write 0x503 val c) = val"
    "ARMv5_CP15Read 0xD01 (ARMv5_CP15Write 0xD01 val c) = val"
    "ARMv5_CP15Read 0x500 (ARMv5_CP15Write 0x500 val c) = val AND 0xFFFF"
    "ARMv5_CP15Read 0x501 (ARMv5_CP15Write 0x501 val c) = val AND 0xFFFF"
    "ARMv5_CP15Read 0x910 (ARMv5_CP15Write 0x910 val c) = val AND 0xFFFFF03E"
    "ARMv5_CP15Read 0x911 (ARMv5_CP15Write 0x911 val c) = val AND 0x3E"
    "ARMv5_CP15Read 0x100 (ARMv5_CP15Write 0x100 val c) = (ARMv5_CP15Read 0x100 c AND NOT 0x000FF085) OR (val AND 0x000FF085)"
    by ((simp add: ARMv5_CP15Write_def r, simp add: ARMv5_CP15Read_def r legacy_roundtrip)+)
qed

section \<open>Properties\<close>

text \<open>
  C4: the maps of permissions and the access times of all pages follow the registers: after a reset
  and after every write of a register the map of each page has what the region with the highest
  number says, and its access times are those of these permissions. For a write that updates
  single regions this needs that no updated region overlaps one with a higher number that is not
  updated. A region never reaches past the last page.
\<close>

theorem PU_follows_registers:
  assumes "pu_ok cpu" "times_ok9 cpu" "no_shadow (changed_regions i val cpu) cpu"
  shows "pu_ok (ARMv5_CP15Write i val cpu) \<and> times_ok9 (ARMv5_CP15Write i val cpu) \<and>
    pu_ok (CP15Reset cpu) \<and> times_ok9 (CP15Reset cpu) \<and>
    unat (region_start rgn) < unat (region_end rgn) \<and> unat (region_end rgn) \<le> 0x100000"
  using CP15Write_ok [OF assms] CP15Reset_ok region_end_bound by blast

text \<open>
  C28: a register of the coprocessor reads back as it was written, in its bits, and a write leaves
  the other registers alone.
\<close>

theorem CP15_reads_back:
  "ARMv5_CP15Read 0x100 (ARMv5_CP15Write 0x100 val cpu) = (ARMv5_CP15Read 0x100 cpu AND NOT 0x000FF085) OR (val AND 0x000FF085) \<and>
   (i \<in> {0x200, 0x201, 0x300, 0x502, 0x503, 0xD01} \<union> set region_ids \<longrightarrow> ARMv5_CP15Read i (ARMv5_CP15Write i val cpu) = val) \<and>
   (i \<in> {0x500, 0x501} \<longrightarrow> ARMv5_CP15Read i (ARMv5_CP15Write i val cpu) = val AND 0xFFFF) \<and>
   ARMv5_CP15Read 0x910 (ARMv5_CP15Write 0x910 val cpu) = val AND 0xFFFFF03E \<and>
   ARMv5_CP15Read 0x911 (ARMv5_CP15Write 0x911 val cpu) = val AND 0x3E \<and>
   (cp15_alias i \<noteq> cp15_alias j \<longrightarrow> ARMv5_CP15Read j (ARMv5_CP15Write i val cpu) = ARMv5_CP15Read j cpu)"
proof (intro conjI impI)
  show "ARMv5_CP15Read i (ARMv5_CP15Write i val cpu) = val"
    if "i \<in> {0x200, 0x201, 0x300, 0x502, 0x503, 0xD01} \<union> set region_ids"
  proof (cases "i \<in> set region_ids")
    case True
    then show ?thesis by (simp add: region_write) (simp add: region_read)
  next
    case False
    then have "i \<in> {0x200, 0x201, 0x300, 0x502, 0x503, 0xD01}" using that by blast
    then show ?thesis by (elim insertE emptyE) (simp_all only: read_same)
  qed
  show "ARMv5_CP15Read i (ARMv5_CP15Write i val cpu) = val AND 0xFFFF" if "i \<in> {0x500, 0x501}"
    using that by (elim insertE emptyE) (simp_all only: read_same)
  show "ARMv5_CP15Read j (ARMv5_CP15Write i val cpu) = ARMv5_CP15Read j cpu" if "cp15_alias i \<noteq> cp15_alias j"
    using region_frame [OF _ that] settings_frame [OF _ that] by blast
qed (rule read_same)+

section \<open>An example\<close>

text \<open>
  Region 0 is all memory, with access from privileged modes only; region 1 is the first page,
  which these modes may only read. The unit is on.
\<close>

definition pu_demo :: "unit arm9" where
  "pu_demo = fold (\<lambda>(i, val). ARMv5_CP15Write i val) [(0x502, 0x51), (0x100, 1), (0x610, 0x17), (0x600, 0x3F)]
     (CP15Reset arm9_zero)"

lemma regs_updates:
  "CP15Control (UpdatePURegions u c) = CP15Control c" "PU_Region (UpdatePURegions u c) = PU_Region c"
  "PU_DataRW (UpdatePURegions u c) = PU_DataRW c" "PU_CodeRW (UpdatePURegions u c) = PU_CodeRW c"
  "CP15Control (update_changed D c) = CP15Control c" "PU_Region (update_changed D c) = PU_Region c"
  "PU_DataRW (update_changed D c) = PU_DataRW c" "PU_CodeRW (update_changed D c) = PU_CodeRW c"
  using same_regs_UpdatePURegions [of c u] same_regs_fold [of c "filter D [0..<8]"]
  by (simp_all add: same_regs_def update_changed_fold)

lemma write_control_regs:
  "CP15Control (write_control v c) = (CP15Control c AND NOT 0x000FF085) OR (v AND 0x000FF085)"
  "PU_Region (write_control v c) = PU_Region c"
  "PU_DataRW (write_control v c) = PU_DataRW c" "PU_CodeRW (write_control v c) = PU_CodeRW c"
  by (simp_all add: write_control_def Let_def regs_updates UpdateITCMSetting_def UpdateDTCMSetting_def)

lemma CP15Reset_regs:
  "CP15Control (CP15Reset c) = 0x2078" "n < 8 \<Longrightarrow> PU_Region (CP15Reset c) n = 0"
  "PU_DataRW (CP15Reset c) = 0" "PU_CodeRW (CP15Reset c) = 0"
  by (simp_all add: CP15Reset_def regs_updates ICacheInvalidateAll_def Let_def)

lemma pu_demo_regs:
  "CP15Control pu_demo = 0x0079" "PU_Region pu_demo 0 = 0x3F" "PU_Region pu_demo 1 = 0x17"
  "1 < n \<Longrightarrow> n < 8 \<Longrightarrow> PU_Region pu_demo n = 0" "PU_DataRW pu_demo = 0x51" "PU_CodeRW pu_demo = 0"
  by (simp_all add: pu_demo_def ARMv5_CP15Write_def region_ids_def regs_updates write_control_regs CP15Reset_regs)

lemma pu_demo_ok: "pu_ok pu_demo" "times_ok9 pu_demo"
  unfolding pu_demo_def by (simp_all add: region_write region_ids_def update_all_write)

lemma pu_demo_pages: "in_pages 0x3F 0" "in_pages 0x17 0"
  by (simp_all add: in_pages_def region_size_def region_start_def region_end_def)

lemma pu_demo_region: "n < 8 \<Longrightarrow> in_region pu_demo 0 n \<longleftrightarrow> n < 2" "in_region (pu_demo\<lparr>PU_DataRW := v\<rparr>) = in_region pu_demo"
proof -
  have "n = 0 \<or> n = 1 \<or> 1 < n" by arith
  then show "in_region pu_demo 0 n \<longleftrightarrow> n < 2" if "n < 8"
    using that by (auto simp: in_region_def pu_demo_pages pu_demo_regs simp del: One_nat_def)
qed (simp add: fun_eq_iff in_region_def)

text \<open>
  C29: a write that updates a region overrides the overlapping regions with higher numbers: here the
  permissions of region 0 change, and the first page, which region 1 keeps from user code and
  read-only, can be written by user code.
\<close>

theorem PU_update_loses_priority:
  "pu_ok pu_demo \<and> pu_tables 0 pu_demo = (0x00, 0x01) \<and>
   pu_spec 0 (ARMv5_CP15Write 0x502 0x53 pu_demo) = (0x00, 0x01) \<and>
   pu_tables 0 (ARMv5_CP15Write 0x502 0x53 pu_demo) = (0x03, 0x03)"
proof (intro conjI)
  have f: "[0..<8] = [0, 1, 2, 3, 4, 5, 6, 7 :: nat]" by (simp add: upt_rec)
  let ?d = "pu_demo\<lparr>PU_DataRW := 0x53\<rparr>"
  have w: "ARMv5_CP15Write 0x502 0x53 pu_demo = fold UpdatePURegion [0] ?d"
    by (simp add: ARMv5_CP15Write_def pu_demo_regs update_changed_fold f nibble_diff_def)
  have m: "region_masks 0 ?d = (3, 3)" "region_masks 1 ?d = (0, 1)" "region_masks 1 pu_demo = (0, 1)"
    by (simp_all add: region_masks_def pu_demo_regs datarw_masks_def coderw_masks_def)
  have s: "pu_spec 0 (pu_demo\<lparr>PU_DataRW := v\<rparr>) = region_masks 1 (pu_demo\<lparr>PU_DataRW := v\<rparr>)" for v
    by (simp add: pu_spec_def f pu_demo_region pu_demo_regs del: One_nat_def)
  show "pu_spec 0 (ARMv5_CP15Write 0x502 0x53 pu_demo) = (0x00, 0x01)"
    unfolding w same_regsD(4) [OF same_regs_fold] using s m by simp
  show "pu_tables 0 (ARMv5_CP15Write 0x502 0x53 pu_demo) = (0x03, 0x03)"
    unfolding w using tables_fold [of ?d 0 "[0]"] by (simp add: pu_demo_regs pu_demo_region m)
  show "pu_tables 0 pu_demo = (0x00, 0x01)"
    using pu_demo_ok(1) m(3) by (simp add: pu_ok_def pu_spec_def f pu_demo_region pu_demo_regs del: One_nat_def)
qed (rule pu_demo_ok)

section \<open>Witnesses\<close>

theorem PU_follows_registers_witness:
  "pu_ok (ARMv5_CP15Write 0x502 0x61 pu_demo) \<and> times_ok9 (ARMv5_CP15Write 0x502 0x61 pu_demo) \<and>
   unat (region_end 0x3F) \<le> 0x100000"
proof -
  have "no_shadow (changed_regions 0x502 0x61 pu_demo) pu_demo"
    by (simp add: no_shadow_def changed_regions_def nibble_diff_def pu_demo_regs upt_rec)
  then show ?thesis using PU_follows_registers [OF pu_demo_ok, of "0x502" "0x61" "0x3F"] by blast
qed

theorem CP15_reads_back_witness:
  "ARMv5_CP15Read 0x500 (ARMv5_CP15Write 0x500 0x12345 pu_demo) = 0x2345 \<and>
   ARMv5_CP15Read 0x501 (ARMv5_CP15Write 0x500 0x12345 pu_demo) = 0 \<and>
   ARMv5_CP15Read 0x611 (ARMv5_CP15Write 0x611 0x42 pu_demo) = 0x42"
proof -
  have "ARMv5_CP15Read 0x501 pu_demo = 0" by (simp add: ARMv5_CP15Read_def pu_demo_regs legacy_compress_def)
  then show ?thesis
    using CP15_reads_back [where i = "0x500" and j = "0x501" and val = "0x12345" and cpu = pu_demo]
      CP15_reads_back [where i = "0x611" and val = "0x42" and cpu = pu_demo]
    by (simp add: cp15_alias_def region_ids_def)
qed

end
