(* ===== verification/Arm_V5.thy ===== *)
theory Arm_V5
  imports Arm_Pu Arm_Step
begin

text \<open>
  The ARM9, class \<^verbatim>\<open>ARMv5\<close> of \<^verbatim>\<open>src/src/ARM.h\<close>, \<^verbatim>\<open>src/src/ARM.cpp\<close> and \<^verbatim>\<open>src/src/CP15.cpp\<close>: its
  implementation of the virtual methods with tightly coupled memory, protection and aborts, and
  its interpreter loop.
\<close>

section \<open>Bus accesses\<close>

text \<open>
  \<open>hooks9\<close> are the calls that leave the modelled part. \<open>Retimed n n'\<close> are the calls of
  \<^verbatim>\<open>UpdateRegionTimings\<close> that the devices make during an access that takes the console from
  \<open>n\<close> to \<open>n'\<close>: they happen when the access writes a register with wait states.
\<close>

record 'b hooks9 =
  NDS_NocashPrint9 :: "nat \<Rightarrow> u32 \<Rightarrow> 'b dma_nds_scheme \<Rightarrow> 'b dma_nds_scheme"
  NDS_MonitorARM9Jump :: "u32 \<Rightarrow> 'b dma_nds_scheme \<Rightarrow> 'b dma_nds_scheme"
  NDS_Stop_BadExceptionRegion :: "'b dma_nds_scheme \<Rightarrow> 'b dma_nds_scheme"
  Retimed :: "'b dma_nds_scheme \<Rightarrow> 'b dma_nds_scheme \<Rightarrow> (nat \<times> nat) list"
  Unassigned9 :: u32

definition bus9 :: "'b hooks9 \<Rightarrow> 'b dma_nds_scheme \<Rightarrow> 'b arm9 \<Rightarrow> 'b arm9" where
  "bus9 hk n cpu = fold (\<lambda>(a, b). UpdateRegionTimings a b) (Retimed hk (NDS cpu) n) (cpu\<lparr>NDS := n\<rparr>)"

definition ARMv5_BusRead8 :: "'b dma_nds_scheme devices \<Rightarrow> 'b hooks9 \<Rightarrow> u32 \<Rightarrow> 'b arm9 \<Rightarrow> u8 \<times> 'b arm9" where
  "ARMv5_BusRead8 dev hk addr cpu = (let (v, n) = ARM9Read8 dev addr (NDS cpu) in (v, bus9 hk n cpu))"

definition ARMv5_BusRead16 :: "'b dma_nds_scheme devices \<Rightarrow> 'b hooks9 \<Rightarrow> u32 \<Rightarrow> 'b arm9 \<Rightarrow> u16 \<times> 'b arm9" where
  "ARMv5_BusRead16 dev hk addr cpu = (let (v, n) = ARM9Read16 dev addr (NDS cpu) in (v, bus9 hk n cpu))"

definition ARMv5_BusRead32 :: "'b dma_nds_scheme devices \<Rightarrow> 'b hooks9 \<Rightarrow> u32 \<Rightarrow> 'b arm9 \<Rightarrow> u32 \<times> 'b arm9" where
  "ARMv5_BusRead32 dev hk addr cpu = (let (v, n) = ARM9Read32 dev addr (NDS cpu) in (v, bus9 hk n cpu))"

definition ARMv5_BusWrite8 :: "'b dma_nds_scheme devices \<Rightarrow> 'b hooks9 \<Rightarrow> u32 \<Rightarrow> u8 \<Rightarrow> 'b arm9 \<Rightarrow> 'b arm9" where
  "ARMv5_BusWrite8 dev hk addr val cpu = bus9 hk (ARM9Write8 dev addr val (NDS cpu)) cpu"

definition ARMv5_BusWrite16 :: "'b dma_nds_scheme devices \<Rightarrow> 'b hooks9 \<Rightarrow> u32 \<Rightarrow> u16 \<Rightarrow> 'b arm9 \<Rightarrow> 'b arm9" where
  "ARMv5_BusWrite16 dev hk addr val cpu = bus9 hk (ARM9Write16 dev addr val (NDS cpu)) cpu"

definition ARMv5_BusWrite32 :: "'b dma_nds_scheme devices \<Rightarrow> 'b hooks9 \<Rightarrow> u32 \<Rightarrow> u32 \<Rightarrow> 'b arm9 \<Rightarrow> 'b arm9" where
  "ARMv5_BusWrite32 dev hk addr val cpu = bus9 hk (ARM9Write32 dev addr val (NDS cpu)) cpu"

section \<open>Code\<close>

definition itcm_ix :: "u32 \<Rightarrow> nat" where "itcm_ix addr = unat (addr AND (ITCMPhysicalSize - 1))"
definition dtcm_ix :: "u32 \<Rightarrow> nat" where "dtcm_ix addr = unat (addr AND (DTCMPhysicalSize - 1))"

definition CodeRead32 ::
  "'b dma_nds_scheme devices \<Rightarrow> 'b hooks9 \<Rightarrow> u32 \<Rightarrow> bool \<Rightarrow> 'b arm9 \<Rightarrow> u32 \<times> 'b arm9" where
  "CodeRead32 dev hk addr branch cpu =
     (if addr < ITCMSize cpu then (ld (ITCM cpu) (itcm_ix addr), cpu\<lparr>CodeCycles := 1\<rparr>)
      else
        let cpu = cpu\<lparr>CodeCycles := RegionCodeCycles cpu\<rparr>;
            cpu = (if CodeCycles cpu = 0xFF
                   then cpu\<lparr>CodeCycles := (if branch \<or> addr AND 0x1F = 0 then kCodeCacheTiming else 1)\<rparr>
                   else cpu)
        in case CodeMem cpu of
             Some (m, k) \<Rightarrow> (ld (contents m (NDS cpu)) (unat (addr AND k)), cpu)
           | None \<Rightarrow> ARMv5_BusRead32 dev hk addr cpu)"

definition GetCodeMemRegion :: "u32 \<Rightarrow> 'b arm9 \<Rightarrow> 'b arm9" where
  "GetCodeMemRegion addr cpu = cpu\<lparr>CodeMem := ARM9GetMemRegion addr False (NDS cpu)\<rparr>"

text \<open>\<^verbatim>\<open>ARM::SetupCodeMem\<close>, which does nothing on the ARM7.\<close>

definition SetupCodeMem :: "u32 \<Rightarrow> 'b arm9 \<Rightarrow> 'b arm9" where
  "SetupCodeMem addr cpu = (if arm.Num cpu = 0 then GetCodeMemRegion addr cpu else cpu)"

definition ARMv5_FillPipeline :: "'b dma_nds_scheme devices \<Rightarrow> 'b hooks9 \<Rightarrow> 'b arm9 \<Rightarrow> 'b arm9" where
  "ARMv5_FillPipeline dev hk cpu =
     (let cpu = SetupCodeMem (R cpu 15) cpu
      in if CPSR cpu AND 0x20 \<noteq> 0 then
           if (R cpu 15 - 2) AND 0x2 \<noteq> 0 then
             let (v, cpu) = CodeRead32 dev hk (R cpu 15 - 4) False cpu; cpu = setNext 0 (drop_bit 16 v) cpu;
                 (v, cpu) = CodeRead32 dev hk (R cpu 15) False cpu
             in setNext 1 v cpu
           else
             let (v, cpu) = CodeRead32 dev hk (R cpu 15 - 2) False cpu; cpu = setNext 0 v cpu
             in setNext 1 (drop_bit 16 (NextInstr cpu 0)) cpu
         else
           let (v, cpu) = CodeRead32 dev hk (R cpu 15 - 4) False cpu; cpu = setNext 0 v cpu;
               (v, cpu) = CodeRead32 dev hk (R cpu 15) False cpu
           in setNext 1 v cpu)"

section \<open>Jumps and aborts\<close>

definition add_code_cycles :: "'w arm_scheme \<Rightarrow> 'w arm_scheme" where
  "add_code_cycles cpu = cpu\<lparr>Cycles := Cycles cpu + CodeCycles cpu\<rparr>"

text \<open>The part of \<^verbatim>\<open>JumpTo\<close> before the check of the permission: the address as aligned there, and the state.\<close>

definition jump_fetch ::
  "'b dma_nds_scheme devices \<Rightarrow> 'b hooks9 \<Rightarrow> u32 \<Rightarrow> bool \<Rightarrow> 'b arm9 \<Rightarrow> u32 \<times> 'b arm9" where
  "jump_fetch dev hk addr restorecpsr cpu =
     (let cpu = (if restorecpsr then RestoreCPSR cpu else cpu);
          addr = (if restorecpsr then if CPSR cpu AND 0x20 \<noteq> 0 then addr OR 0x1 else addr AND NOT 0x1 else addr);
          oldregion = drop_bit 24 (R cpu 15);
          newregion = drop_bit 24 addr;
          cpu = cpu\<lparr>RegionCodeCycles := uint (MemTimings cpu (unat (drop_bit 12 addr)) 0)\<rparr>
      in if addr AND 0x1 \<noteq> 0 then
           let addr = addr AND NOT 0x1;
               cpu = setR 15 (addr + 2) cpu;
               cpu = (if newregion \<noteq> oldregion then SetupCodeMem addr cpu else cpu);
               cpu =
                 (if addr AND 0x2 \<noteq> 0 then
                    let (v, cpu) = CodeRead32 dev hk (addr - 2) True cpu;
                        cpu = add_code_cycles (setNext 0 (drop_bit 16 v) cpu);
                        (v, cpu) = CodeRead32 dev hk (addr + 2) False cpu
                    in add_code_cycles (setNext 1 v cpu)
                  else
                    let (v, cpu) = CodeRead32 dev hk addr True cpu;
                        cpu = setNext 0 v cpu
                    in add_code_cycles (setNext 1 (drop_bit 16 (NextInstr cpu 0)) cpu))
           in (addr, cpu\<lparr>CPSR := CPSR cpu OR 0x20\<rparr>)
         else
           let addr = addr AND NOT 0x3;
               cpu = setR 15 (addr + 4) cpu;
               cpu = (if newregion \<noteq> oldregion then SetupCodeMem addr cpu else cpu);
               (v, cpu) = CodeRead32 dev hk addr True cpu;
               cpu = add_code_cycles (setNext 0 v cpu);
               (v, cpu) = CodeRead32 dev hk (addr + 4) False cpu;
               cpu = add_code_cycles (setNext 1 v cpu)
           in (addr, cpu\<lparr>CPSR := CPSR cpu AND NOT 0x20\<rparr>))"

definition pu_allows :: "u8 \<Rightarrow> u32 \<Rightarrow> 'b arm9 \<Rightarrow> bool" where
  "pu_allows m addr cpu \<longleftrightarrow> pu_at (unat (drop_bit 12 addr)) cpu AND m \<noteq> 0"

text \<open>The entry to abort mode of \<^verbatim>\<open>PrefetchAbort\<close> and \<^verbatim>\<open>DataAbort\<close>.\<close>

definition abort_mode :: "'b arm9 \<Rightarrow> 'b arm9" where
  "abort_mode cpu =
     (let oldcpsr = CPSR cpu; p = (CPSR cpu AND NOT 0xBF) OR 0x97
      in UpdateMode oldcpsr p False (cpu\<lparr>CPSR := p\<rparr>))"

definition abort_return :: "u32 \<Rightarrow> u32 \<Rightarrow> 'b arm9 \<Rightarrow> 'b arm9" where
  "abort_return oldcpsr d cpu =
     (let cpu = cpu\<lparr>R_ABT := (R_ABT cpu)(2 := oldcpsr)\<rparr>
      in setR 14 (R cpu 15 + (if oldcpsr AND 0x20 \<noteq> 0 then d else 0)) cpu)"

text \<open>\<^verbatim>\<open>PrefetchAbort\<close> up to its jump: \<open>Inl\<close> when it returns without one.\<close>

definition prefetch_abort_entry :: "'b hooks9 \<Rightarrow> 'b arm9 \<Rightarrow> 'b arm9 + 'b arm9" where
  "prefetch_abort_entry hk cpu =
     (let oldcpsr = CPSR cpu; cpu = abort_mode cpu
      in if \<not> pu_allows 0x04 (ExceptionBase cpu) cpu
         then Inl (cpu\<lparr>NDS := NDS_Stop_BadExceptionRegion hk (NDS cpu)\<rparr>)
         else Inr (abort_return oldcpsr 2 cpu))"

text \<open>
  A jump to a page without permission is an abort, which jumps itself: not returning is
  \<open>None\<close>.
\<close>

partial_function (option) ARMv5_JumpTo ::
  "'b dma_nds_scheme devices \<Rightarrow> 'b hooks9 \<Rightarrow> u32 \<Rightarrow> bool \<Rightarrow> 'b arm9 \<Rightarrow> 'b arm9 option" where
  "ARMv5_JumpTo dev hk addr restorecpsr cpu =
     (let addr_cpu = jump_fetch dev hk addr restorecpsr cpu; addr = fst addr_cpu; cpu = snd addr_cpu
      in if \<not> pu_allows 0x04 addr cpu then
           (case prefetch_abort_entry hk cpu of
              Inl cpu \<Rightarrow> Some cpu
            | Inr cpu \<Rightarrow> ARMv5_JumpTo dev hk (ExceptionBase cpu + 0x0C) False cpu)
         else Some (cpu\<lparr>NDS := NDS_MonitorARM9Jump hk addr (NDS cpu)\<rparr>))"

definition ARMv5_PrefetchAbort ::
  "'b dma_nds_scheme devices \<Rightarrow> 'b hooks9 \<Rightarrow> 'b arm9 \<Rightarrow> 'b arm9 option" where
  "ARMv5_PrefetchAbort dev hk cpu =
     (case prefetch_abort_entry hk cpu of
        Inl cpu \<Rightarrow> Some cpu
      | Inr cpu \<Rightarrow> ARMv5_JumpTo dev hk (ExceptionBase cpu + 0x0C) False cpu)"

text \<open>
  The methods of the instructions are total: a jump that does not return, which
  \<open>JumpTo_returns\<close> excludes, is no jump there.
\<close>

definition jump9 :: "'b dma_nds_scheme devices \<Rightarrow> 'b hooks9 \<Rightarrow> u32 \<Rightarrow> bool \<Rightarrow> 'b arm9 \<Rightarrow> 'b arm9" where
  "jump9 dev hk addr restorecpsr cpu =
     (case ARMv5_JumpTo dev hk addr restorecpsr cpu of Some c \<Rightarrow> c | None \<Rightarrow> cpu)"

definition ARMv5_DataAbort :: "'b dma_nds_scheme devices \<Rightarrow> 'b hooks9 \<Rightarrow> 'b arm9 \<Rightarrow> 'b arm9" where
  "ARMv5_DataAbort dev hk cpu =
     (let oldcpsr = CPSR cpu; cpu = abort_return oldcpsr 4 (abort_mode cpu)
      in jump9 dev hk (ExceptionBase cpu + 0x10) False cpu)"

section \<open>Data\<close>

definition in_dtcm :: "u32 \<Rightarrow> 'b arm9 \<Rightarrow> bool" where
  "in_dtcm addr cpu \<longleftrightarrow> addr AND DTCMMask cpu = DTCMBase cpu"

definition data_timing9 :: "u32 \<Rightarrow> nat \<Rightarrow> 'b arm9 \<Rightarrow> int" where
  "data_timing9 addr k cpu = uint (MemTimings cpu (unat (drop_bit 12 addr)) k)"

definition ARMv5_DataRead8 ::
  "'b dma_nds_scheme devices \<Rightarrow> 'b hooks9 \<Rightarrow> u32 \<Rightarrow> 'b arm9 \<Rightarrow> u32 option \<times> 'b arm9" where
  "ARMv5_DataRead8 dev hk addr cpu =
     (if \<not> pu_allows 0x01 addr cpu then (None, ARMv5_DataAbort dev hk cpu)
      else
        let cpu = cpu\<lparr>DataRegion := addr\<rparr>
        in if addr < ITCMSize cpu then (Some (ucast (ITCM cpu (itcm_ix addr))), cpu\<lparr>DataCycles := 1\<rparr>)
           else if in_dtcm addr cpu then (Some (ucast (DTCM cpu (dtcm_ix addr))), cpu\<lparr>DataCycles := 1\<rparr>)
           else
             let (v, cpu) = ARMv5_BusRead8 dev hk addr cpu
             in (Some (ucast v), cpu\<lparr>DataCycles := data_timing9 addr 1 cpu\<rparr>))"

definition ARMv5_DataRead16 ::
  "'b dma_nds_scheme devices \<Rightarrow> 'b hooks9 \<Rightarrow> u32 \<Rightarrow> 'b arm9 \<Rightarrow> u32 option \<times> 'b arm9" where
  "ARMv5_DataRead16 dev hk addr cpu =
     (if \<not> pu_allows 0x01 addr cpu then (None, ARMv5_DataAbort dev hk cpu)
      else
        let cpu = cpu\<lparr>DataRegion := addr\<rparr>; addr = addr AND NOT 1
        in if addr < ITCMSize cpu then (Some (ucast (ld (ITCM cpu) (itcm_ix addr) :: u16)), cpu\<lparr>DataCycles := 1\<rparr>)
           else if in_dtcm addr cpu then (Some (ucast (ld (DTCM cpu) (dtcm_ix addr) :: u16)), cpu\<lparr>DataCycles := 1\<rparr>)
           else
             let (v, cpu) = ARMv5_BusRead16 dev hk addr cpu
             in (Some (ucast v), cpu\<lparr>DataCycles := data_timing9 addr 1 cpu\<rparr>))"

definition ARMv5_DataRead32 ::
  "'b dma_nds_scheme devices \<Rightarrow> 'b hooks9 \<Rightarrow> u32 \<Rightarrow> 'b arm9 \<Rightarrow> u32 option \<times> 'b arm9" where
  "ARMv5_DataRead32 dev hk addr cpu =
     (if \<not> pu_allows 0x01 addr cpu then (None, ARMv5_DataAbort dev hk cpu)
      else
        let cpu = cpu\<lparr>DataRegion := addr\<rparr>; addr = addr AND NOT 3
        in if addr < ITCMSize cpu then (Some (ld (ITCM cpu) (itcm_ix addr)), cpu\<lparr>DataCycles := 1\<rparr>)
           else if in_dtcm addr cpu then (Some (ld (DTCM cpu) (dtcm_ix addr)), cpu\<lparr>DataCycles := 1\<rparr>)
           else
             let (v, cpu) = ARMv5_BusRead32 dev hk addr cpu
             in (Some v, cpu\<lparr>DataCycles := data_timing9 addr 2 cpu\<rparr>))"

definition ARMv5_DataRead32S ::
  "'b dma_nds_scheme devices \<Rightarrow> 'b hooks9 \<Rightarrow> u32 \<Rightarrow> 'b arm9 \<Rightarrow> u32 option \<times> 'b arm9" where
  "ARMv5_DataRead32S dev hk addr cpu =
     (let addr = addr AND NOT 3
      in if addr < ITCMSize cpu then (Some (ld (ITCM cpu) (itcm_ix addr)), cpu\<lparr>DataCycles := DataCycles cpu + 1\<rparr>)
         else if in_dtcm addr cpu then (Some (ld (DTCM cpu) (dtcm_ix addr)), cpu\<lparr>DataCycles := DataCycles cpu + 1\<rparr>)
         else
           let (v, cpu) = ARMv5_BusRead32 dev hk addr cpu
           in (Some v, cpu\<lparr>DataCycles := DataCycles cpu + data_timing9 addr 3 cpu\<rparr>))"

text \<open>A store into one of the tightly coupled memories; code in the ITCM may have been recompiled.\<close>

definition itcm_store :: "u32 \<Rightarrow> 'w::len word \<Rightarrow> 'b arm9 \<Rightarrow> 'b arm9" where
  "itcm_store addr val cpu =
     cpu\<lparr>ITCM := st (ITCM cpu) (itcm_ix addr) val, NDS := JIT_CheckAndInvalidate 0 memregion_ITCM addr (NDS cpu)\<rparr>"

definition dtcm_store :: "u32 \<Rightarrow> 'w::len word \<Rightarrow> 'b arm9 \<Rightarrow> 'b arm9" where
  "dtcm_store addr val cpu = cpu\<lparr>DTCM := st (DTCM cpu) (dtcm_ix addr) val\<rparr>"

definition ARMv5_DataWrite8 ::
  "'b dma_nds_scheme devices \<Rightarrow> 'b hooks9 \<Rightarrow> u32 \<Rightarrow> u8 \<Rightarrow> 'b arm9 \<Rightarrow> 'b arm9" where
  "ARMv5_DataWrite8 dev hk addr val cpu =
     (if \<not> pu_allows 0x02 addr cpu then ARMv5_DataAbort dev hk cpu
      else
        let cpu = cpu\<lparr>DataRegion := addr\<rparr>
        in if addr < ITCMSize cpu then (itcm_store addr val cpu)\<lparr>DataCycles := 1\<rparr>
           else if in_dtcm addr cpu then (dtcm_store addr val cpu)\<lparr>DataCycles := 1\<rparr>
           else
             let cpu = ARMv5_BusWrite8 dev hk addr val cpu
             in cpu\<lparr>DataCycles := data_timing9 addr 1 cpu\<rparr>)"

definition ARMv5_DataWrite16 ::
  "'b dma_nds_scheme devices \<Rightarrow> 'b hooks9 \<Rightarrow> u32 \<Rightarrow> u16 \<Rightarrow> 'b arm9 \<Rightarrow> 'b arm9" where
  "ARMv5_DataWrite16 dev hk addr val cpu =
     (if \<not> pu_allows 0x02 addr cpu then ARMv5_DataAbort dev hk cpu
      else
        let cpu = cpu\<lparr>DataRegion := addr\<rparr>; addr = addr AND NOT 1
        in if addr < ITCMSize cpu then (itcm_store addr val cpu)\<lparr>DataCycles := 1\<rparr>
           else if in_dtcm addr cpu then (dtcm_store addr val cpu)\<lparr>DataCycles := 1\<rparr>
           else
             let cpu = ARMv5_BusWrite16 dev hk addr val cpu
             in cpu\<lparr>DataCycles := data_timing9 addr 1 cpu\<rparr>)"

definition ARMv5_DataWrite32 ::
  "'b dma_nds_scheme devices \<Rightarrow> 'b hooks9 \<Rightarrow> u32 \<Rightarrow> u32 \<Rightarrow> 'b arm9 \<Rightarrow> 'b arm9" where
  "ARMv5_DataWrite32 dev hk addr val cpu =
     (if \<not> pu_allows 0x02 addr cpu then ARMv5_DataAbort dev hk cpu
      else
        let cpu = cpu\<lparr>DataRegion := addr\<rparr>; addr = addr AND NOT 3
        in if addr < ITCMSize cpu then (itcm_store addr val cpu)\<lparr>DataCycles := 1\<rparr>
           else if in_dtcm addr cpu then (dtcm_store addr val cpu)\<lparr>DataCycles := 1\<rparr>
           else
             let cpu = ARMv5_BusWrite32 dev hk addr val cpu
             in cpu\<lparr>DataCycles := data_timing9 addr 2 cpu\<rparr>)"

definition ARMv5_DataWrite32S ::
  "'b dma_nds_scheme devices \<Rightarrow> 'b hooks9 \<Rightarrow> u32 \<Rightarrow> u32 \<Rightarrow> 'b arm9 \<Rightarrow> 'b arm9" where
  "ARMv5_DataWrite32S dev hk addr val cpu =
     (let addr = addr AND NOT 3
      in if addr < ITCMSize cpu then
           let cpu = itcm_store addr val cpu in cpu\<lparr>DataCycles := DataCycles cpu + 1\<rparr>
         else if in_dtcm addr cpu then
           let cpu = dtcm_store addr val cpu in cpu\<lparr>DataCycles := DataCycles cpu + 1\<rparr>
         else
           let cpu = ARMv5_BusWrite32 dev hk addr val cpu
           in cpu\<lparr>DataCycles := DataCycles cpu + data_timing9 addr 3 cpu\<rparr>)"

section \<open>Cycles\<close>

definition code_cycles9 :: "'b arm9 \<Rightarrow> int" where
  "code_cycles9 cpu = (if R cpu 15 AND 0x2 \<noteq> 0 then 0 else CodeCycles cpu)"

definition ARMv5_AddCycles_C :: "'b arm9 \<Rightarrow> 'b arm9" where
  "ARMv5_AddCycles_C cpu = cpu\<lparr>Cycles := Cycles cpu + code_cycles9 cpu\<rparr>"

definition ARMv5_AddCycles_CI :: "int \<Rightarrow> 'b arm9 \<Rightarrow> 'b arm9" where
  "ARMv5_AddCycles_CI numI cpu = cpu\<lparr>Cycles := Cycles cpu + (code_cycles9 cpu + numI)\<rparr>"

definition ARMv5_AddCycles_CDI :: "'b arm9 \<Rightarrow> 'b arm9" where
  "ARMv5_AddCycles_CDI cpu =
     (let numC = code_cycles9 cpu; numD = DataCycles cpu
      in cpu\<lparr>Cycles := Cycles cpu + max (numC + numD - 6) (max numC numD)\<rparr>)"

definition ARMv5_AddCycles_CD :: "'b arm9 \<Rightarrow> 'b arm9" where
  "ARMv5_AddCycles_CD cpu =
     (let numC = code_cycles9 cpu; numD = DataCycles cpu
      in cpu\<lparr>Cycles := Cycles cpu + max (numC + numD - 6) (max numC numD)\<rparr>)"

section \<open>The interpreter\<close>

definition ARMv5_ClearStops :: "'b arm9 \<Rightarrow> 'b arm9" where
  "ARMv5_ClearStops cpu =
     cpu\<lparr>NDS := (NDS cpu)\<lparr>Halted := (Halted (NDS cpu))(0 := 0), IRQ_line := (IRQ_line (NDS cpu))(0 := False)\<rparr>\<rparr>"

text \<open>The cheat engine runs with \<^verbatim>\<open>Num\<close> 1 only.\<close>

definition vt9 :: "'b dma_nds_scheme devices \<Rightarrow> 'b hooks9 \<Rightarrow> 'b arm9 vtable" where
  "vt9 dev hk =
     \<lparr>JumpTo = jump9 dev hk,
      DataRead8 = ARMv5_DataRead8 dev hk, DataRead16 = ARMv5_DataRead16 dev hk,
      DataRead32 = ARMv5_DataRead32 dev hk, DataRead32S = ARMv5_DataRead32S dev hk,
      DataWrite8 = ARMv5_DataWrite8 dev hk, DataWrite16 = ARMv5_DataWrite16 dev hk,
      DataWrite32 = ARMv5_DataWrite32 dev hk, DataWrite32S = ARMv5_DataWrite32S dev hk,
      AddCycles_C = ARMv5_AddCycles_C, AddCycles_CI = ARMv5_AddCycles_CI,
      AddCycles_CDI = ARMv5_AddCycles_CDI, AddCycles_CD = ARMv5_AddCycles_CD,
      CP15Write = ARMv5_CP15Write, CP15Read = ARMv5_CP15Read,
      ClearStops = ARMv5_ClearStops,
      NDS_IF_IE7 = (\<lambda>cpu. IF (NDS cpu) 1 AND IE (NDS cpu) 1),
      RunCheats = (\<lambda>cpu. cpu),
      NocashPrint = (\<lambda>ncpu addr cpu. cpu\<lparr>NDS := NDS_NocashPrint9 hk ncpu addr (NDS cpu)\<rparr>),
      Undef = Unassigned9 hk\<rparr>"

definition ARMv5_Reset :: "'b dma_nds_scheme devices \<Rightarrow> 'b hooks9 \<Rightarrow> 'b arm9 \<Rightarrow> 'b arm9" where
  "ARMv5_Reset dev hk cpu = Reset (vt9 dev hk) (cpu\<lparr>PU_Map := PU_PrivMap\<rparr>)"

text \<open>Prefetch and execution of one instruction.\<close>

definition ARMv5_step :: "'b dma_nds_scheme devices \<Rightarrow> 'b hooks9 \<Rightarrow> 'b arm9 \<Rightarrow> 'b arm9" where
  "ARMv5_step dev hk cpu =
     (if CPSR cpu AND 0x20 \<noteq> 0 then
        let cpu = setR 15 (R cpu 15 + 2) cpu;
            cpu = cpu\<lparr>CurInstr := NextInstr cpu 0\<rparr>;
            cpu = setNext 0 (NextInstr cpu 1) cpu;
            cpu = (if R cpu 15 AND 0x2 \<noteq> 0 then (setNext 1 (drop_bit 16 (NextInstr cpu 1)) cpu)\<lparr>CodeCycles := 0\<rparr>
                   else let (v, cpu) = CodeRead32 dev hk (R cpu 15) False cpu in setNext 1 v cpu);
            icode = unat (drop_bit 6 (CurInstr cpu) AND 0x3FF)
        in exec_thumb (THUMBInstrTable ! icode) (vt9 dev hk) cpu
      else
        let cpu = setR 15 (R cpu 15 + 4) cpu;
            cpu = cpu\<lparr>CurInstr := NextInstr cpu 0\<rparr>;
            cpu = setNext 0 (NextInstr cpu 1) cpu;
            (v, cpu) = CodeRead32 dev hk (R cpu 15) False cpu;
            cpu = setNext 1 v cpu
        in if CheckCondition (ifield 28 0xF cpu) cpu then
             let icode = unat ((drop_bit 4 (CurInstr cpu) AND 0xF) OR (drop_bit 16 (CurInstr cpu) AND 0xFF0))
             in exec_arm (ARMInstrTable ! icode) (vt9 dev hk) cpu
           else if CurInstr cpu AND 0xFE000000 = 0xFA000000 then A_BLX_IMM (vt9 dev hk) cpu
           else ARMv5_AddCycles_C cpu)"

text \<open>The loop of \<^verbatim>\<open>ARMv5::Execute<Interpreter>\<close>: not returning is \<open>None\<close>.\<close>

definition at_target9 :: "'b arm9 \<Rightarrow> 'b arm9" where
  "at_target9 cpu = cpu\<lparr>NDS := (NDS cpu)\<lparr>ARM9Timestamp := ARM9Target (NDS cpu)\<rparr>\<rparr>"

definition setHalted9 :: "u32 \<Rightarrow> 'b arm9 \<Rightarrow> 'b arm9" where
  "setHalted9 h cpu = cpu\<lparr>NDS := (NDS cpu)\<lparr>Halted := (Halted (NDS cpu))(0 := h)\<rparr>\<rparr>"

definition spend_cycles9 :: "'b arm9 \<Rightarrow> 'b arm9" where
  "spend_cycles9 cpu =
     cpu\<lparr>NDS := (NDS cpu)\<lparr>ARM9Timestamp := ARM9Timestamp (NDS cpu) + word_of_int (Cycles cpu)\<rparr>, Cycles := 0\<rparr>"

partial_function (option) ARMv5_loop ::
  "'b dma_nds_scheme devices \<Rightarrow> 'b hooks9 \<Rightarrow> 'b arm9 \<Rightarrow> 'b arm9 option" where
  "ARMv5_loop dev hk cpu =
     (if ARM9Timestamp (NDS cpu) < ARM9Target (NDS cpu) then
        let cpu = ARMv5_step dev hk cpu
        in if Halted (NDS cpu) 0 \<noteq> 0 then
             Some (if Halted (NDS cpu) 0 = 1 \<and> ARM9Timestamp (NDS cpu) < ARM9Target (NDS cpu)
                   then at_target9 cpu else cpu)
           else
             let cpu = (if IRQ_line (NDS cpu) 0 then TriggerIRQ (vt9 dev hk) cpu else cpu)
             in ARMv5_loop dev hk (spend_cycles9 cpu)
      else Some cpu)"

definition ARMv5_Execute ::
  "'b dma_nds_scheme devices \<Rightarrow> 'b hooks9 \<Rightarrow> 'b arm9 \<Rightarrow> 'b arm9 option" where
  "ARMv5_Execute dev hk cpu =
     (let h = Halted (NDS cpu) 0;
          start =
            (if h = 0 then Some cpu
             else if h = 2 then Some (setHalted9 0 cpu)
             else if HaltInterrupted 0 (NDS cpu) then
               let cpu = setHalted9 0 cpu
               in Some (if bit (IME (NDS cpu) 0) 0 then TriggerIRQ (vt9 dev hk) cpu else cpu)
             else None)
      in case start of
           None \<Rightarrow> Some (at_target9 cpu)
         | Some cpu \<Rightarrow>
             (case ARMv5_loop dev hk cpu of
                None \<Rightarrow> None
              | Some cpu \<Rightarrow> Some (if Halted (NDS cpu) 0 = 2 then setHalted9 0 cpu else cpu)))"

end
