(* ===== verification/Arm_V5_Step.thy ===== *)
theory Arm_V5_Step
  imports Arm_V5
begin

text \<open>
  The ARM9: jumps return, protected accesses abort, memory is coherent through the tightly
  coupled memories, and every instruction keeps the state well-formed.
\<close>

section \<open>Accesses\<close>

lemma retime_fold:
  obtains t where "fold (\<lambda>(a, b). UpdateRegionTimings a b) xs c = c\<lparr>MemTimings := t\<rparr>"
proof -
  have "\<exists>t. fold (\<lambda>(a, b). UpdateRegionTimings a b) xs c = c\<lparr>MemTimings := t\<rparr>"
  proof (induction xs arbitrary: c)
    case Nil
    show ?case by (rule exI [of _ "MemTimings c"]) simp
  next
    case (Cons x xs)
    obtain u where u: "UpdateRegionTimings (fst x) (snd x) c = c\<lparr>MemTimings := u\<rparr>" by (simp add: UpdateRegionTimings_def)
    show ?case using Cons [of "c\<lparr>MemTimings := u\<rparr>"] by (simp add: case_prod_beta u)
  qed
  with that show ?thesis by blast
qed

lemma bus9_form: obtains t where "bus9 hk n c = c\<lparr>NDS := n, MemTimings := t\<rparr>"
  using retime_fold [of "Retimed hk (NDS c) n" "c\<lparr>NDS := n\<rparr>"] unfolding bus9_def by blast

text \<open>A code fetch changes the console, the access times and the cycle count of the fetch only.\<close>

lemma code_read_form:
  obtains k n t where "snd (CodeRead32 dev hk a br c) = c\<lparr>CodeCycles := k, NDS := n, MemTimings := t\<rparr>"
proof (cases "a < ITCMSize c")
  case True
  then have "snd (CodeRead32 dev hk a br c) = c\<lparr>CodeCycles := 1, NDS := NDS c, MemTimings := MemTimings c\<rparr>"
    by (simp add: CodeRead32_def)
  then show ?thesis using that by blast
next
  case False
  define d where "d = c\<lparr>CodeCycles := (if RegionCodeCycles c = 0xFF
    then if br \<or> a AND 0x1F = 0 then kCodeCacheTiming else 1 else RegionCodeCycles c)\<rparr>"
  have e: "CodeRead32 dev hk a br c = (case CodeMem c of Some (m, k) \<Rightarrow> (ld (contents m (NDS c)) (unat (a AND k)), d)
      | None \<Rightarrow> ARMv5_BusRead32 dev hk a d)"
    using False by (simp add: CodeRead32_def d_def Let_def cong: option.case_cong)
  show ?thesis
  proof (cases "CodeMem c")
    case (Some mk)
    then have "snd (CodeRead32 dev hk a br c) = c\<lparr>CodeCycles := CodeCycles d, NDS := NDS c, MemTimings := MemTimings c\<rparr>"
      by (simp add: e case_prod_beta) (simp add: d_def)
    then show ?thesis using that by blast
  next
    case None
    obtain t where "bus9 hk (snd (ARM9Read32 dev a (NDS d))) d = d\<lparr>NDS := snd (ARM9Read32 dev a (NDS d)), MemTimings := t\<rparr>"
      by (rule bus9_form)
    then have "snd (CodeRead32 dev hk a br c) =
        c\<lparr>CodeCycles := CodeCycles d, NDS := snd (ARM9Read32 dev a (NDS d)), MemTimings := t\<rparr>"
      by (simp add: e None ARMv5_BusRead32_def case_prod_beta) (simp add: d_def)
    then show ?thesis using that by blast
  qed
qed

text \<open>What accesses and jumps leave alone.\<close>

definition stays9 :: "'b arm9 \<Rightarrow> 'b arm9 \<Rightarrow> bool" where
  "stays9 c d \<longleftrightarrow>
     ExceptionBase d = ExceptionBase c \<and> arm.Num d = arm.Num c \<and> PU_Map d = PU_Map c \<and>
     PU_PrivTable d = PU_PrivTable c \<and> PU_UserTable d = PU_UserTable c \<and> ITCMSize d = ITCMSize c \<and>
     R_FIQ d = R_FIQ c \<and> R_SVC d = R_SVC c \<and> R_ABT d = R_ABT c \<and> R_IRQ d = R_IRQ c \<and> R_UND d = R_UND c \<and>
     ITCM d = ITCM c \<and> DTCM d = DTCM c \<and> CPSR d = CPSR c \<and> R d = R c"

lemma stays9_refl [simp]: "stays9 c c" by (simp add: stays9_def)

lemma stays9_trans [trans]: "stays9 c d \<Longrightarrow> stays9 d e \<Longrightarrow> stays9 c e" by (simp add: stays9_def)

lemma stays9_code [simp]: "stays9 c (snd (CodeRead32 dev hk a br c))"
proof -
  obtain k n t where "snd (CodeRead32 dev hk a br c) = c\<lparr>CodeCycles := k, NDS := n, MemTimings := t\<rparr>" by (rule code_read_form)
  then show ?thesis by (simp add: stays9_def)
qed

lemma stays9_ops [simp]:
  "stays9 c (setNext k v c)" "stays9 c (add_code_cycles c)" "stays9 c (SetupCodeMem a c)"
  "stays9 c (c\<lparr>RegionCodeCycles := t\<rparr>)" "stays9 c (c\<lparr>CodeCycles := x\<rparr>)"
  by (simp_all add: stays9_def setNext_def add_code_cycles_def SetupCodeMem_def GetCodeMemRegion_def)

lemma stays9_if: "stays9 c d \<Longrightarrow> stays9 c e \<Longrightarrow> stays9 c (if P then d else e)" by simp

text \<open>The fetch of a jump, by the state of the target.\<close>

definition base9 :: "bool \<Rightarrow> 'b arm9 \<Rightarrow> 'b arm9" where
  "base9 r c = (if r then RestoreCPSR c else c)"

definition target9 :: "u32 \<Rightarrow> bool \<Rightarrow> 'b arm9 \<Rightarrow> u32" where
  "target9 a r c = (if r then if CPSR (base9 r c) AND 0x20 \<noteq> 0 then a OR 0x1 else a AND NOT 0x1 else a)"

definition aligned9 :: "u32 \<Rightarrow> u32" where
  "aligned9 a = (if a AND 0x1 \<noteq> 0 then a AND NOT 0x1 else a AND NOT 0x3)"

lemma jump_fetch_form:
  fixes dev hk a r c
  defines "t \<equiv> target9 a r c" and "b \<equiv> base9 r c" and "d \<equiv> snd (jump_fetch dev hk a r c)"
  shows "fst (jump_fetch dev hk a r c) = aligned9 t"
    "stays9 (b\<lparr>R := (R b)(15 := aligned9 t + (if t AND 1 \<noteq> 0 then 2 else 4)),
        CPSR := (if t AND 1 \<noteq> 0 then CPSR b OR 0x20 else CPSR b AND NOT 0x20)\<rparr>) d"
proof -
  define b' where "b' = b\<lparr>RegionCodeCycles := uint (MemTimings b (unat (drop_bit 12 t)) 0)\<rparr>"
  define s where "s = (drop_bit 24 t \<noteq> drop_bit 24 (R b 15))"
  have t: "(if r then if CPSR b AND 0x20 \<noteq> 0 then a OR 0x1 else a AND NOT 0x1 else a) = t"
    by (simp add: t_def target9_def b_def)
  note f = jump_fetch_def [of dev hk a r c, unfolded Let_def, folded base9_def, folded b_def, unfolded t, folded b'_def, folded s_def]
  show "fst (jump_fetch dev hk a r c) = aligned9 t" unfolding f aligned9_def case_prod_beta by simp
  define x where "x = setR 15 (aligned9 t + (if t AND 1 \<noteq> 0 then 2 else 4)) b'"
  define y where "y = (if s then SetupCodeMem (aligned9 t) x else x)"
  have y: "stays9 x y" by (simp add: y_def)
  have fetch: "stays9 z (add_code_cycles (setNext k v (snd (CodeRead32 dev hk a' br z))))"
    for z k v a' br
    using stays9_trans [OF stays9_code stays9_trans [OF stays9_ops(1) stays9_ops(2)]] .
  have fetch2: "stays9 z (add_code_cycles (setNext 1 v (setNext 0 w (snd (CodeRead32 dev hk a' br z)))))" for z v w a' br
    using stays9_trans [OF stays9_code stays9_trans [OF stays9_ops(1) stays9_trans [OF stays9_ops(1) stays9_ops(2)]]] .
  have fin: "stays9 (x\<lparr>CPSR := g (CPSR x)\<rparr>) (z\<lparr>CPSR := g (CPSR z)\<rparr>)" if "stays9 x z" for z g using that by (simp add: stays9_def)
  have "\<exists>z. stays9 y z \<and> d = z\<lparr>CPSR := (if t AND 1 \<noteq> 0 then CPSR z OR 0x20 else CPSR z AND NOT 0x20)\<rparr>"
  proof (cases "t AND 1 \<noteq> 0")
    case True
    then have a: "aligned9 t = t AND NOT 1" by (simp add: aligned9_def)
    have "setR 15 ((t AND NOT 1) + 2) b' = x" using True by (simp add: x_def a)
    note f = f [unfolded if_P [OF True] this, folded a, folded y_def, unfolded case_prod_beta]
    show ?thesis
    proof (cases "aligned9 t AND 0x2 \<noteq> 0")
      case True
      show ?thesis unfolding d_def f [unfolded if_P [OF True]] snd_conv if_P [OF \<open>t AND 1 \<noteq> 0\<close>]
        by (rule exI, rule conjI [rotated], rule refl, rule stays9_trans [OF fetch fetch])
    next
      case False
      show ?thesis unfolding d_def f [unfolded if_not_P [OF False]] snd_conv if_P [OF \<open>t AND 1 \<noteq> 0\<close>]
        by (rule exI, rule conjI [rotated], rule refl, rule fetch2)
    qed
  next
    case False
    then have a: "aligned9 t = t AND NOT 3" by (simp add: aligned9_def)
    have "setR 15 ((t AND NOT 3) + 4) b' = x" using False by (simp add: x_def a)
    note f = f [unfolded if_not_P [OF False] this, folded a, folded y_def, unfolded case_prod_beta]
    show ?thesis unfolding d_def f snd_conv if_not_P [OF False]
      by (rule exI, rule conjI [rotated], rule refl, rule stays9_trans [OF fetch fetch])
  qed
  then obtain z where z: "stays9 y z" "d = z\<lparr>CPSR := (if t AND 1 \<noteq> 0 then CPSR z OR 0x20 else CPSR z AND NOT 0x20)\<rparr>" by blast
  have "stays9 (x\<lparr>CPSR := (if t AND 1 \<noteq> 0 then CPSR x OR 0x20 else CPSR x AND NOT 0x20)\<rparr>) d"
    unfolding z(2) using stays9_trans [OF y z(1)]
    by (rule fin [where g = "\<lambda>p. if t AND 1 \<noteq> 0 then p OR 0x20 else p AND NOT 0x20"])
  then show "stays9 (b\<lparr>R := (R b)(15 := aligned9 t + (if t AND 1 \<noteq> 0 then 2 else 4)),
        CPSR := (if t AND 1 \<noteq> 0 then CPSR b OR 0x20 else CPSR b AND NOT 0x20)\<rparr>) d"
    by (simp add: stays9_def x_def b'_def setR_def)
qed

section \<open>Jumps\<close>

definition base_ok :: "'b arm9 \<Rightarrow> bool" where
  "base_ok c \<longleftrightarrow> ExceptionBase c = 0 \<or> ExceptionBase c = 0xFFFF0000"

lemma stays9_pu: "stays9 c d \<Longrightarrow> pu_allows m a d = pu_allows m a c"
  by (simp add: stays9_def pu_allows_def pu_at_def split: pu_map.split)

lemma pu_allows_updates [simp]:
  "pu_allows m a (c\<lparr>R := x\<rparr>) = pu_allows m a c" "pu_allows m a (c\<lparr>CPSR := p\<rparr>) = pu_allows m a c"
  "pu_allows m a (c\<lparr>R_ABT := y\<rparr>) = pu_allows m a c" "pu_allows m a (c\<lparr>NDS := n\<rparr>) = pu_allows m a c"
  "pu_allows m a (abort_return p x4 c) = pu_allows m a c"
  by (simp_all add: pu_allows_def pu_at_def abort_return_def setR_def Let_def split: pu_map.split)

lemma swap_bank_keeps [simp]:
  "ExceptionBase (swap_bank m c) = ExceptionBase c" "arm.Num (swap_bank m c) = arm.Num c" "CPSR (swap_bank m c) = CPSR c"
  "PU_Map (swap_bank m c) = PU_Map c" "R (swap_bank m c) 15 = R c 15"
  by (simp_all add: swap_bank_def swap_regs_eq Let_def)

lemma swap_bank9 [simp]:
  "NDS (swap_bank m (c :: 'b arm9)) = NDS c" "ITCM (swap_bank m c) = ITCM c" "DTCM (swap_bank m c) = DTCM c"
  "PU_PrivTable (swap_bank m c) = PU_PrivTable c" "PU_UserTable (swap_bank m c) = PU_UserTable c" 
  "ITCMSize (swap_bank m c) = ITCMSize c" "CodeMem (swap_bank m c) = CodeMem c"
  by (simp_all add: swap_bank_def swap_regs_eq Let_def)

lemma UpdateMode9 [simp]:
  "ExceptionBase (UpdateMode p q ph c) = ExceptionBase c" "arm.Num (UpdateMode p q ph c) = arm.Num c"
  "CPSR (UpdateMode p q ph c) = CPSR c" "R (UpdateMode p q ph c) 15 = R c 15"
  "NDS (UpdateMode p q ph (c :: 'b arm9)) = NDS c" "ITCM (UpdateMode p q ph c) = ITCM c" "DTCM (UpdateMode p q ph c) = DTCM c"
  "PU_PrivTable (UpdateMode p q ph c) = PU_PrivTable c" "PU_UserTable (UpdateMode p q ph c) = PU_UserTable c"
  "ITCMSize (UpdateMode p q ph c) = ITCMSize c" "CodeMem (UpdateMode p q ph c) = CodeMem c"
  by (simp_all add: UpdateMode_def Let_def)

lemma RestoreCPSR_base [simp]: "ExceptionBase (RestoreCPSR (c :: 'b arm9)) = ExceptionBase c" "arm.Num (RestoreCPSR c) = arm.Num c"
  by (simp_all add: RestoreCPSR_def Let_def)

lemma abort_mode_keeps [simp]:
  "ExceptionBase (abort_mode c) = ExceptionBase c" "arm.Num (abort_mode c) = arm.Num c" "NDS (abort_mode c) = NDS c"
  "ITCM (abort_mode c) = ITCM c" "DTCM (abort_mode c) = DTCM c" "R (abort_mode c) 15 = R c 15"
  "CPSR (abort_mode c) = (CPSR c AND NOT 0xBF) OR 0x97" "PU_PrivTable (abort_mode c) = PU_PrivTable c"
  by (simp_all add: abort_mode_def Let_def)

lemma abort_return_keeps [simp]:
  "ExceptionBase (abort_return p x c) = ExceptionBase c" "arm.Num (abort_return p x c) = arm.Num c"
  "NDS (abort_return p x c) = NDS c" "ITCM (abort_return p x c) = ITCM c" "DTCM (abort_return p x c) = DTCM c"
  "CPSR (abort_return p x c) = CPSR c" "R (abort_return p x c) 15 = R c 15" "R_ABT (abort_return p x c) 2 = p"
  "R (abort_return p x c) 14 = R c 15 + (if p AND 0x20 \<noteq> 0 then x else 0)"
  by (simp_all add: abort_return_def setR_def Let_def)

text \<open>The jumps to the vectors of aborts.\<close>

lemma vectors:
  assumes "base_ok c" "k \<in> {0x0C, 0x10}"
  shows "target9 (ExceptionBase c + k) False c = ExceptionBase c + k" "(ExceptionBase c + k) AND 1 = 0"
    "aligned9 (ExceptionBase c + k) = ExceptionBase c + k" "drop_bit 12 (ExceptionBase c + k) = drop_bit 12 (ExceptionBase c)"
  using assms by (auto simp: base_ok_def target9_def aligned9_def)

lemma JumpTo_allowed:
  assumes "pu_allows 0x04 (aligned9 (target9 a r c)) (base9 r c)"
  shows "ARMv5_JumpTo dev hk a r c =
    Some ((snd (jump_fetch dev hk a r c))\<lparr>NDS := NDS_MonitorARM9Jump hk (aligned9 (target9 a r c)) (NDS (snd (jump_fetch dev hk a r c)))\<rparr>)"
  using assms stays9_pu [OF jump_fetch_form(2) [where a = a and r = r and c = c and dev = dev and hk = hk]]
  by (subst ARMv5_JumpTo.simps) (simp add: jump_fetch_form(1) Let_def)

lemma JumpTo_vector:
  assumes "base_ok c" "k \<in> {0x0C, 0x10}" "pu_allows 0x04 (ExceptionBase c) c"
  shows "ARMv5_JumpTo dev hk (ExceptionBase c + k) False c =
    Some ((snd (jump_fetch dev hk (ExceptionBase c + k) False c))
      \<lparr>NDS := NDS_MonitorARM9Jump hk (ExceptionBase c + k) (NDS (snd (jump_fetch dev hk (ExceptionBase c + k) False c)))\<rparr>)"
proof -
  have "pu_allows 0x04 (aligned9 (target9 (ExceptionBase c + k) False c)) (base9 False c)"
    using assms(3) vectors [OF assms(1,2)] by (simp add: base9_def pu_allows_def)
  from JumpTo_allowed [OF this] show ?thesis by (simp add: vectors [OF assms(1,2)])
qed

lemma JumpTo_denied:
  assumes "\<not> pu_allows 0x04 (aligned9 (target9 a r c)) (base9 r c)"
  shows "ARMv5_JumpTo dev hk a r c = ARMv5_PrefetchAbort dev hk (snd (jump_fetch dev hk a r c))"
  using assms stays9_pu [OF jump_fetch_form(2) [where a = a and r = r and c = c and dev = dev and hk = hk]]
  by (subst ARMv5_JumpTo.simps) (simp add: jump_fetch_form(1) ARMv5_PrefetchAbort_def Let_def)

lemma PrefetchAbort_returns:
  assumes "base_ok c"
  shows "ARMv5_PrefetchAbort dev hk c =
    Some (if pu_allows 0x04 (ExceptionBase c) (abort_mode c) then
        let d = snd (jump_fetch dev hk (ExceptionBase c + 0x0C) False (abort_return (CPSR c) 2 (abort_mode c)))
        in d\<lparr>NDS := NDS_MonitorARM9Jump hk (ExceptionBase c + 0x0C) (NDS d)\<rparr>
      else (abort_mode c)\<lparr>NDS := NDS_Stop_BadExceptionRegion hk (NDS c)\<rparr>)"
proof -
  let ?e = "abort_return (CPSR c) 2 (abort_mode c)"
  have "base_ok ?e" using assms by (simp add: base_ok_def)
  note j = JumpTo_vector [OF this, of "0x0C" dev hk]
  show ?thesis using j by (simp add: ARMv5_PrefetchAbort_def prefetch_abort_entry_def Let_def)
qed

lemma base_ok_fetch: "base_ok (snd (jump_fetch dev hk a r c)) = base_ok c"
  using jump_fetch_form(2) [where a = a and r = r and c = c and dev = dev and hk = hk] by (simp add: stays9_def base_ok_def base9_def split: if_splits)

lemma JumpTo_returns: "base_ok c \<Longrightarrow> ARMv5_JumpTo dev hk a r c \<noteq> None"
  using JumpTo_allowed [of a r c dev hk] JumpTo_denied [of a r c dev hk] PrefetchAbort_returns [of "snd (jump_fetch dev hk a r c)" dev hk]
  by (cases "pu_allows 0x04 (aligned9 (target9 a r c)) (base9 r c)") (simp_all add: base_ok_fetch)

lemma bus9_NDS [simp]: "NDS (bus9 hk n c) = n"
proof -
  obtain t where "bus9 hk n c = c\<lparr>NDS := n, MemTimings := t\<rparr>" by (rule bus9_form)
  then show ?thesis by simp
qed

text \<open>A fetch that reads nothing from devices leaves the console.\<close>

lemma code_NDS: "snd (ARM9Read32 dev a (NDS c)) = NDS c \<Longrightarrow> NDS (snd (CodeRead32 dev hk a br c)) = NDS c"
  by (simp add: CodeRead32_def Let_def ARMv5_BusRead32_def case_prod_beta split: option.split)

lemma vector_read:
  "j \<in> {0x0C, 0x10, 0x14} \<Longrightarrow> snd (ARM9Read32 dev (0xFFFF0000 + j) n) = n" "j \<in> {0x0C, 0x10, 0x14} \<Longrightarrow> snd (ARM9Read32 dev j n) = n"
  by (auto simp: ARM9Read32_def)

lemma NDS_ops [simp]:
  "NDS (setNext k v (c :: 'b arm9)) = NDS c" "NDS (add_code_cycles c) = NDS c" "NDS (SetupCodeMem a c) = NDS c"
  "NDS (setR i v c) = NDS c"
  by (simp_all add: setNext_def add_code_cycles_def SetupCodeMem_def GetCodeMemRegion_def setR_def)

lemma vector_fetch:
  assumes "base_ok c" "k \<in> {0x0C, 0x10}"
  shows "NDS (snd (jump_fetch dev hk (ExceptionBase c + k) False c)) = NDS c"
proof -
  have r: "snd (ARM9Read32 dev (ExceptionBase c + k) n) = n" "snd (ARM9Read32 dev (ExceptionBase c + k + 4) n) = n" for n
    using assms vector_read [of k dev n] vector_read [of "k + 4" dev n] by (auto simp: base_ok_def)
  have a: "(ExceptionBase c + k) AND 1 = 0" "(ExceptionBase c + k) AND - 4 = ExceptionBase c + k"
    using vectors(2,3) [OF assms] by (simp_all add: aligned9_def)
  show ?thesis unfolding jump_fetch_def Let_def case_prod_beta by (simp add: a code_NDS r)
qed

text \<open>The state after the jump of an abort.\<close>

lemma vector_jump:
  fixes dev hk
  assumes b: "base_ok c" and k: "k \<in> {0x0C, 0x10}"
  defines "d \<equiv> snd (jump_fetch dev hk (ExceptionBase c + k) False c)"
  shows "R d = (R c)(15 := ExceptionBase c + k + 4)" "CPSR d = CPSR c AND NOT 0x20" "R_ABT d = R_ABT c"
    "ITCM d = ITCM c" "DTCM d = DTCM c" "NDS d = NDS c"
proof -
  note v = vectors [OF b k]
  have "stays9 (c\<lparr>R := (R c)(15 := ExceptionBase c + k + 4), CPSR := CPSR c AND NOT 0x20\<rparr>) d"
    using jump_fetch_form(2) [where a = "ExceptionBase c + k" and r = False and c = c and dev = dev and hk = hk]
    by (simp add: v base9_def d_def)
  then show "R d = (R c)(15 := ExceptionBase c + k + 4)" "CPSR d = CPSR c AND NOT 0x20" "R_ABT d = R_ABT c"
    "ITCM d = ITCM c" "DTCM d = DTCM c"
    by (simp_all add: stays9_def)
  show "NDS d = NDS c" unfolding d_def using b k by (rule vector_fetch)
qed

definition abort_status :: "u32 \<Rightarrow> u32" where
  "abort_status p = ((p AND NOT 0xBF) OR 0x97) AND NOT 0x20"

lemma DataAbort_state:
  fixes dev hk
  assumes b: "base_ok c" and v: "pu_allows 0x04 (ExceptionBase c) (abort_mode c)"
  defines "d \<equiv> ARMv5_DataAbort dev hk c"
  shows "R d 15 = ExceptionBase c + 0x14 \<and> CPSR d = abort_status (CPSR c) \<and> R_ABT d 2 = CPSR c \<and>
    R d 14 = R c 15 + (if CPSR c AND 0x20 \<noteq> 0 then 4 else 0) \<and> ITCM d = ITCM c \<and> DTCM d = DTCM c \<and>
    NDS d = NDS_MonitorARM9Jump hk (ExceptionBase c + 0x10) (NDS c)"
proof -
  let ?e = "abort_return (CPSR c) 4 (abort_mode c)"
  have e: "base_ok ?e" "pu_allows 0x04 (ExceptionBase ?e) ?e" using b v by (simp_all add: base_ok_def)
  have k: "0x10 \<in> {0x0C, 0x10 :: u32}" by simp
  note j = JumpTo_vector [OF e(1) k e(2), of dev hk]
  note s = vector_jump [OF e(1) k, where dev = dev and hk = hk, unfolded abort_return_keeps(1) abort_mode_keeps(1)]
  show ?thesis unfolding d_def ARMv5_DataAbort_def jump9_def Let_def j option.case
    by (simp add: s abort_status_def)
qed

lemma abort_bits: "(((p :: u32) AND NOT 0xBF) OR 0x97) AND 0x1F = 0x17"
  by (simp add: bit.conj_disj_distrib2 and.assoc)

lemma pu_abort:
  "pu_allows m a (abort_mode c) =
     (if CPSR c AND 0x1F = 0x17 \<or> arm.Num c \<noteq> 0 then pu_allows m a c else PU_PrivTable c (unat (drop_bit 12 a)) AND m \<noteq> 0)"
proof -
  define p where "p = (CPSR c AND NOT 0xBF) OR 0x97"
  have p: "p AND 0x1F = 0x17" unfolding p_def by (rule abort_bits)
  have "abort_mode c = UpdateMode (CPSR c) p False (c\<lparr>CPSR := p\<rparr>)" by (simp add: abort_mode_def p_def Let_def)
  then show ?thesis by (simp add: UpdateMode_def p pu_allows_def pu_at_def Let_def split: pu_map.split)
qed

text \<open>The status register of the state a jump enters.\<close>

definition set_T :: "u32 \<Rightarrow> u32 \<Rightarrow> u32" where
  "set_T t p = (if t AND 1 \<noteq> 0 then p OR 0x20 else p AND NOT 0x20)"

lemma set_T_bits: "set_T t p AND 0x1F = p AND 0x1F" "abort_status (set_T t p) = abort_status p"
  by (auto simp: set_T_def abort_status_def bit.conj_disj_distrib2 and.assoc)

lemma set_T_thumb: "set_T t p AND 0x20 \<noteq> 0 \<longleftrightarrow> t AND 1 \<noteq> 0"
  by (auto simp: set_T_def bit.conj_disj_distrib2 and.assoc)

lemma fetch_abort:
  assumes "stays9 (b\<lparr>R := x, CPSR := set_T t (CPSR b)\<rparr>) d"
  shows "pu_allows m a (abort_mode d) = pu_allows m a (abort_mode b)"
proof -
  have "CPSR d AND 0x1F = CPSR b AND 0x1F" using assms by (simp add: stays9_def set_T_bits)
  moreover have "pu_allows m a d = pu_allows m a b" using stays9_pu [OF assms] by simp
  ultimately show ?thesis using assms unfolding pu_abort by (simp add: stays9_def)
qed

lemma PrefetchAbort_state:
  fixes dev hk
  assumes b: "base_ok c" and v: "pu_allows 0x04 (ExceptionBase c) (abort_mode c)"
  obtains d where "ARMv5_PrefetchAbort dev hk c = Some d" "R d 15 = ExceptionBase c + 0x10"
    "CPSR d = abort_status (CPSR c)" "R_ABT d 2 = CPSR c" "R d 14 = R c 15 + (if CPSR c AND 0x20 \<noteq> 0 then 2 else 0)"
proof -
  let ?e = "abort_return (CPSR c) 2 (abort_mode c)"
  have e: "base_ok ?e" using b by (simp add: base_ok_def)
  have k: "0x0C \<in> {0x0C, 0x10 :: u32}" by simp
  note s = vector_jump [OF e k, where dev = dev and hk = hk, unfolded abort_return_keeps(1) abort_mode_keeps(1)]
  let ?f = "snd (jump_fetch dev hk (ExceptionBase c + 0x0C) False ?e)"
  let ?d = "?f\<lparr>NDS := NDS_MonitorARM9Jump hk (ExceptionBase c + 0x0C) (NDS ?f)\<rparr>"
  have "ARMv5_PrefetchAbort dev hk c = Some ?d"
    using v by (simp only: PrefetchAbort_returns [OF b] Let_def if_True)
  then show ?thesis by (rule that) (simp_all add: s abort_status_def)
qed

lemma PrefetchAbort_stops:
  assumes b: "base_ok c" and v: "\<not> pu_allows 0x04 (ExceptionBase c) (abort_mode c)"
  obtains d where "ARMv5_PrefetchAbort dev hk c = Some d" "NDS d = NDS_Stop_BadExceptionRegion hk (NDS c)" "R d 15 = R c 15"
  using v PrefetchAbort_returns [OF b, of dev hk] by simp

text \<open>
  C15: every jump of the ARM9 returns, although an abort in it jumps again. To a page with
  permission it goes to its target, in the state that bit 0 or the restored status register
  asks for. To another it enters the vector of prefetch aborts in abort mode with interrupts
  off, saved status and the address of the instruction plus 4 in LR; and when the page of the
  vectors has no permission either, it stops the console.
\<close>

theorem ARM9_jump_returns:
  fixes dev hk a r c
  assumes "base_ok c"
  defines "t \<equiv> target9 a r c" and "b \<equiv> base9 r c"
  shows "\<exists>d. ARMv5_JumpTo dev hk a r c = Some d \<and>
    (if pu_allows 0x04 (aligned9 t) b
     then R d = (R b)(15 := aligned9 t + (if t AND 1 \<noteq> 0 then 2 else 4)) \<and> CPSR d = set_T t (CPSR b)
     else if pu_allows 0x04 (ExceptionBase c) (abort_mode b)
     then R d 15 = ExceptionBase c + 0x10 \<and> R d 14 = aligned9 t + 4 \<and>
       CPSR d = abort_status (CPSR b) \<and> R_ABT d 2 = set_T t (CPSR b)
     else R d 15 = aligned9 t + (if t AND 1 \<noteq> 0 then 2 else 4) \<and> (\<exists>n. NDS d = NDS_Stop_BadExceptionRegion hk n))"
proof -
  define f where "f = snd (jump_fetch dev hk a r c)"
  define x where "x = (R b)(15 := aligned9 t + (if t AND 1 \<noteq> 0 then 2 else 4))"
  have f: "stays9 (b\<lparr>R := x, CPSR := set_T t (CPSR b)\<rparr>) f"
    using jump_fetch_form(2) [where a = a and r = r and c = c and dev = dev and hk = hk]
    unfolding f_def x_def set_T_def t_def b_def .
  have fb: "base_ok f" using assms(1) by (simp add: f_def base_ok_fetch)
  have fe: "ExceptionBase f = ExceptionBase c" using f by (simp add: stays9_def b_def base9_def)
  have fr: "R f = x" "CPSR f = set_T t (CPSR b)" using f by (simp_all add: stays9_def)
  show ?thesis
  proof (cases "pu_allows 0x04 (aligned9 t) b")
    case True
    with JumpTo_allowed [of a r c dev hk] fr show ?thesis by (simp add: t_def b_def f_def [symmetric] x_def)
  next
    case False
    then have j: "ARMv5_JumpTo dev hk a r c = ARMv5_PrefetchAbort dev hk f"
      unfolding f_def t_def b_def by (rule JumpTo_denied)
    show ?thesis
    proof (cases "pu_allows 0x04 (ExceptionBase c) (abort_mode b)")
      case True
      then have "pu_allows 0x04 (ExceptionBase f) (abort_mode f)" by (simp add: fetch_abort [OF f] fe)
      from PrefetchAbort_state [OF fb this, of dev hk] obtain d where
        "ARMv5_PrefetchAbort dev hk f = Some d" "R d 15 = ExceptionBase f + 0x10" "CPSR d = abort_status (CPSR f)"
        "R_ABT d 2 = CPSR f" "R d 14 = R f 15 + (if CPSR f AND 0x20 \<noteq> 0 then 2 else 0)" .
      with True False show ?thesis by (auto simp: j fr fe x_def set_T_bits set_T_thumb)
    next
      case False
      then have "\<not> pu_allows 0x04 (ExceptionBase f) (abort_mode f)" by (simp add: fetch_abort [OF f] fe)
      from PrefetchAbort_stops [OF fb this, of dev hk] obtain d where
        "ARMv5_PrefetchAbort dev hk f = Some d" "NDS d = NDS_Stop_BadExceptionRegion hk (NDS f)" "R d 15 = R f 15" .
      with False \<open>\<not> pu_allows 0x04 (aligned9 t) b\<close> show ?thesis by (auto simp: j fr x_def)
    qed
  qed
qed

text \<open>The state \<open>d\<close> is \<open>c\<close> after a data abort: no memory has changed.\<close>

definition aborted9 :: "'b hooks9 \<Rightarrow> 'b arm9 \<Rightarrow> 'b arm9 \<Rightarrow> bool" where
  "aborted9 hk c d \<longleftrightarrow>
     ITCM d = ITCM c \<and> DTCM d = DTCM c \<and> NDS d = NDS_MonitorARM9Jump hk (ExceptionBase c + 0x10) (NDS c) \<and>
     R d 15 = ExceptionBase c + 0x14 \<and> R d 14 = R c 15 + (if CPSR c AND 0x20 \<noteq> 0 then 4 else 0) \<and>
     CPSR d = abort_status (CPSR c) \<and> R_ABT d 2 = CPSR c"


section \<open>Memory\<close>

text \<open>Where the ARM9 reaches an address: in one of its tightly coupled memories, or in RAM on the bus.\<close>

datatype place9 = In_ITCM nat | In_DTCM nat | On_Bus "memory \<times> nat"

definition place9_of :: "u32 \<Rightarrow> 'b arm9 \<Rightarrow> place9 option" where
  "place9_of a c =
     (if a < ITCMSize c then Some (In_ITCM (itcm_ix a))
      else if in_dtcm a c then Some (In_DTCM (dtcm_ix a))
      else map_option On_Bus (ram_place 0 a (NDS c)))"

definition load9 :: "'b dma_nds_scheme devices \<Rightarrow> u32 \<Rightarrow> 'b arm9 \<Rightarrow> u32" where
  "load9 dev a c =
     (if a < ITCMSize c then ld (ITCM c) (itcm_ix a)
      else if in_dtcm a c then ld (DTCM c) (dtcm_ix a)
      else fst (Read32 dev 0 a (NDS c)))"

lemma read32_load:
  assumes "a AND 3 = 0"
  shows "pu_allows 0x01 a c \<Longrightarrow> fst (ARMv5_DataRead32 dev hk a c) = Some (load9 dev a c)"
    "fst (ARMv5_DataRead32S dev hk a c) = Some (load9 dev a c)"
  by (simp_all add: ARMv5_DataRead32_def ARMv5_DataRead32S_def load9_def in_dtcm_def ARMv5_BusRead32_def Read32_def
    align32 [OF assms] Let_def case_prod_beta)

lemma tcm_aligned: "a AND 3 = 0 \<Longrightarrow> 4 dvd itcm_ix a" "a AND 3 = 0 \<Longrightarrow> 4 dvd dtcm_ix a"
  using aligned_dvd [of a "ITCMPhysicalSize - 1"] aligned_dvd [of a "DTCMPhysicalSize - 1"]
  by (simp_all add: itcm_ix_def dtcm_ix_def ITCMPhysicalSize_def DTCMPhysicalSize_def)

lemma ld_st_aligned: "4 dvd i \<Longrightarrow> 4 dvd j \<Longrightarrow> ld (st f i v) j = (if i = j then v else ld f j)" for v :: u32
  using aligned_gap [of 4 i j] by (auto simp: ld_st ld_st_disjoint)

text \<open>A store, by its place.\<close>

definition stored9 :: "'b dma_nds_scheme devices \<Rightarrow> u32 \<Rightarrow> u32 \<Rightarrow> 'b arm9 \<Rightarrow> 'b arm9 \<Rightarrow> bool" where
  "stored9 dev a v c d \<longleftrightarrow>
     ITCM d = (if a < ITCMSize c then st (ITCM c) (itcm_ix a) v else ITCM c) \<and>
     DTCM d = (if \<not> a < ITCMSize c \<and> in_dtcm a c then st (DTCM c) (dtcm_ix a) v else DTCM c) \<and>
     NDS d = (if a < ITCMSize c then JIT_CheckAndInvalidate 0 memregion_ITCM a (NDS c)
              else if in_dtcm a c then NDS c else Write32 dev 0 a v (NDS c)) \<and>
     ITCMSize d = ITCMSize c \<and> DTCMMask d = DTCMMask c \<and> DTCMBase d = DTCMBase c \<and>
     (\<forall>m b. pu_allows m b d = pu_allows m b c)"

lemma write32_store:
  assumes "a AND 3 = 0"
  shows "pu_allows 0x02 a c \<Longrightarrow> stored9 dev a v c (ARMv5_DataWrite32 dev hk a v c)" "stored9 dev a v c (ARMv5_DataWrite32S dev hk a v c)"
proof -
  have w: "stored9 dev a v c ((if a < ITCMSize c then itcm_store a v d else if in_dtcm a c then dtcm_store a v d
      else ARMv5_BusWrite32 dev hk a v d)\<lparr>DataCycles := k\<rparr>)" if d: "d = c\<lparr>DataRegion := x\<rparr>" for d x k
  proof -
    obtain t where t: "bus9 hk (ARM9Write32 dev a v (NDS d)) d = d\<lparr>NDS := ARM9Write32 dev a v (NDS d), MemTimings := t\<rparr>"
      by (rule bus9_form)
    show ?thesis unfolding ARMv5_BusWrite32_def t
      by (simp add: stored9_def itcm_store_def dtcm_store_def d Write32_def pu_allows_def pu_at_def split: pu_map.split)
  qed
  have cases: "a < ITCMSize c \<Longrightarrow> stored9 dev a v c ((itcm_store a v (c\<lparr>DataRegion := x\<rparr>))\<lparr>DataCycles := k\<rparr>)"
    "\<not> a < ITCMSize c \<Longrightarrow> in_dtcm a c \<Longrightarrow> stored9 dev a v c ((dtcm_store a v (c\<lparr>DataRegion := x\<rparr>))\<lparr>DataCycles := k\<rparr>)"
    "\<not> a < ITCMSize c \<Longrightarrow> \<not> in_dtcm a c \<Longrightarrow> stored9 dev a v c ((ARMv5_BusWrite32 dev hk a v (c\<lparr>DataRegion := x\<rparr>))\<lparr>DataCycles := k\<rparr>)"
    for x k using w [OF HOL.refl, where x = x and k = k] by simp_all
  have i: "in_dtcm a (c\<lparr>DataRegion := x\<rparr>) = in_dtcm a c" for x by (simp add: in_dtcm_def)
  show "stored9 dev a v c (ARMv5_DataWrite32 dev hk a v c)" if "pu_allows 0x02 a c"
    using that by (simp add: ARMv5_DataWrite32_def Let_def align32 [OF assms] i cases)
  show "stored9 dev a v c (ARMv5_DataWrite32S dev hk a v c)"
    using cases [where x = "DataRegion c"] by (simp add: ARMv5_DataWrite32S_def Let_def align32 [OF assms])
qed

text \<open>The words of a block transfer after the first are not checked: they are stored and loaded without permission.\<close>

lemma block_transfers_unprotected:
  assumes "a AND 3 = 0" "\<not> pu_allows 0x02 a c" "\<not> pu_allows 0x01 a c"
  shows "stored9 dev a v c (ARMv5_DataWrite32S dev hk a v c) \<and> fst (ARMv5_DataRead32S dev hk a c) = Some (load9 dev a c)"
  using write32_store(2) [OF assms(1)] read32_load(2) [OF assms(1)] by blast

lemma load9_stored:
  assumes ok: "windows_ok (NDS c)" and al: "a AND 3 = 0" "b AND 3 = 0"
    and a: "place9_of a c \<noteq> None" and b: "place9_of b c \<noteq> None" and s: "stored9 dev a v c d"
  shows "load9 dev b d = (if place9_of b c = place9_of a c then v else load9 dev b c)"
proof -
  have i: "in_dtcm x d = in_dtcm x c" "ITCMSize d = ITCMSize c" for x using s by (simp_all add: in_dtcm_def stored9_def)
  have r: "fst (Read32 dev 0 b (JIT_CheckAndInvalidate 0 memregion_ITCM a (NDS c))) = fst (Read32 dev 0 b (NDS c))"
    if "ram_place 0 b (NDS c) \<noteq> None"
  proof -
    obtain m k where w: "ram_window 0 b (NDS c) = Some (m, k)" using \<open>ram_place 0 b (NDS c) \<noteq> None\<close> by (auto simp: ram_place_def)
    show ?thesis using w bus_ram(2) [OF w _ al(2), of dev] bus_ram(2) [of 0 b "JIT_CheckAndInvalidate 0 memregion_ITCM a (NDS c)" m k dev] al(2)
      by simp
  qed
  have w: "fst (Read32 dev 0 b (Write32 dev 0 a v (NDS c))) =
      (if ram_place 0 b (NDS c) = ram_place 0 a (NDS c) then v else fst (Read32 dev 0 b (NDS c)))"
    if "ram_place 0 a (NDS c) \<noteq> None" "ram_place 0 b (NDS c) \<noteq> None"
    using bus_coherent_helper [OF ok _ _ al that, of dev v] by simp
  show ?thesis
    using a b s tcm_aligned [OF al(1)] tcm_aligned [OF al(2)]
    by (auto simp: load9_def place9_of_def i stored9_def ld_st_aligned r w)
qed

text \<open>
  C14: the memory of the ARM9 is coherent: after a store of a word, single or in a block, a load of
  a word by it returns the stored value exactly when both addresses reach the same place, be it
  through mirrors, and otherwise what it returned before; its tightly coupled memories hide
  the memory behind them, the ITCM the DTCM as well. The ARM7 sees the stores that reach RAM
  on the bus, and no others.
\<close>

theorem ARM9_memory_coherent:
  assumes "windows_ok (NDS c)" "a AND 3 = 0" "b AND 3 = 0" "place9_of a c \<noteq> None" "place9_of b c \<noteq> None"
    and "pu_allows 0x02 a c" "pu_allows 0x01 b c"
    and "d \<in> {ARMv5_DataWrite32 dev hk a v c, ARMv5_DataWrite32S dev hk a v c}"
  shows "fst (ARMv5_DataRead32 dev hk b d) =
      (if place9_of b c = place9_of a c then Some v else fst (ARMv5_DataRead32 dev hk b c)) \<and>
    fst (ARMv5_DataRead32S dev hk b d) = fst (ARMv5_DataRead32 dev hk b d) \<and>
    (ram_place 1 e (NDS c) \<noteq> None \<and> e AND 3 = 0 \<longrightarrow>
      fst (Read32 dev 1 e (NDS d)) =
        (if place9_of a c = map_option On_Bus (ram_place 1 e (NDS c)) then v else fst (Read32 dev 1 e (NDS c))))"
proof -
  have s: "stored9 dev a v c d" using assms(8) write32_store [OF assms(2)] assms(6) by blast
  have p: "pu_allows 0x01 b d" using s assms(7) by (simp add: stored9_def)
  have "fst (Read32 dev 1 e (NDS d)) =
      (if place9_of a c = map_option On_Bus (ram_place 1 e (NDS c)) then v else fst (Read32 dev 1 e (NDS c)))"
    if e: "ram_place 1 e (NDS c) \<noteq> None" "e AND 3 = 0"
  proof -
    obtain m k where w: "ram_window 1 e (NDS c) = Some (m, k)" using e(1) by (auto simp: ram_place_def)
    have j: "fst (Read32 dev 1 e (JIT_CheckAndInvalidate 0 memregion_ITCM a (NDS c))) = fst (Read32 dev 1 e (NDS c))"
      using w bus_ram(2) [OF w _ e(2), of dev] bus_ram(2) [of 1 e "JIT_CheckAndInvalidate 0 memregion_ITCM a (NDS c)" m k dev] e(2)
      by simp
    have "fst (Read32 dev 1 e (Write32 dev 0 a v (NDS c))) =
        (if ram_place 1 e (NDS c) = ram_place 0 a (NDS c) then v else fst (Read32 dev 1 e (NDS c)))"
      if "ram_place 0 a (NDS c) \<noteq> None"
      using bus_coherent_helper [OF assms(1) _ _ assms(2) e(2) that e(1), of dev v] by simp
    then show ?thesis using s assms(4) e(1) j by (auto simp: stored9_def place9_of_def)
  qed
  then show ?thesis
    using p assms(7) load9_stored [OF assms(1-5) s] by (simp add: read32_load [OF assms(3)] del: not_None_eq)
qed

section \<open>The type of the state\<close>

text \<open>The status registers name 32-bit modes, and the exception vectors are at one of their two places.\<close>

definition arm9_ok :: "'b arm9 \<Rightarrow> bool" where
  "arm9_ok c \<longleftrightarrow> psr_ok c \<and> base_ok c"

lemma ok_stays9: "stays9 c d \<Longrightarrow> arm9_ok d = arm9_ok c"
  by (simp add: stays9_def arm9_ok_def psr_ok_iff base_ok_def)

lemma ok_updates [simp]:
  "arm9_ok (c\<lparr>R := r\<rparr>) = arm9_ok c" "arm9_ok (c\<lparr>PU_Map := x\<rparr>) = arm9_ok c" "arm9_ok (c\<lparr>NDS := n\<rparr>) = arm9_ok c"
  "arm9_ok (c\<lparr>DataCycles := k\<rparr>) = arm9_ok c" "arm9_ok (c\<lparr>DataRegion := a\<rparr>) = arm9_ok c"
  "arm9_ok (c\<lparr>Cycles := k\<rparr>) = arm9_ok c" "arm9_ok (c\<lparr>CurInstr := w\<rparr>) = arm9_ok c" "arm9_ok (c\<lparr>CodeCycles := k\<rparr>) = arm9_ok c"
  "arm9_ok (c\<lparr>MemTimings := t\<rparr>) = arm9_ok c" "arm9_ok (c\<lparr>ITCM := m\<rparr>) = arm9_ok c" "arm9_ok (c\<lparr>DTCM := m\<rparr>) = arm9_ok c"
  "arm9_ok (setR i v c) = arm9_ok c" "arm9_ok (setNext i v c) = arm9_ok c"
  by (simp_all add: arm9_ok_def psr_ok_iff base_ok_def setR_def setNext_def)

lemma ok_bus9 [simp]: "arm9_ok (bus9 hk n c) = arm9_ok c"
proof -
  obtain t where "bus9 hk n c = c\<lparr>NDS := n, MemTimings := t\<rparr>" by (rule bus9_form)
  then show ?thesis by simp
qed

lemma ok_swap [simp]: "arm9_ok (swap_bank m c) = arm9_ok c"
  by (simp add: arm9_ok_def psr_ok_def psr_swap base_ok_def)

lemma ok_CPSR: "arm9_ok c \<Longrightarrow> bit p 4 \<Longrightarrow> arm9_ok (c\<lparr>CPSR := p\<rparr>)"
  by (simp add: arm9_ok_def psr_ok_iff base_ok_def)

lemma ok_psr_set: "arm9_ok c \<Longrightarrow> bit v 4 \<Longrightarrow> q \<noteq> PSR_CPSR \<Longrightarrow> arm9_ok (psr_set q v c)"
  by (cases q) (simp_all add: arm9_ok_def psr_ok_iff base_ok_def)

lemma ok_mode: "arm9_ok c \<Longrightarrow> bit (CPSR c) 4"
  by (simp add: arm9_ok_def psr_ok_iff)

lemma ok_fetch: "arm9_ok c \<Longrightarrow> arm9_ok (snd (jump_fetch dev hk a r c))"
proof -
  assume c: "arm9_ok c"
  then have b: "arm9_ok (base9 r c)" by (simp add: base9_def arm9_ok_def psr_ok_RestoreCPSR base_ok_def)
  have "arm9_ok ((base9 r c)\<lparr>R := x, CPSR := (if P then CPSR (base9 r c) OR 0x20 else CPSR (base9 r c) AND NOT 0x20)\<rparr>)" for x P
    using ok_CPSR [OF b] ok_mode [OF b] by (simp add: arm9_ok_def psr_ok_iff base_ok_def bit_simps)
  then show ?thesis unfolding ok_stays9 [OF jump_fetch_form(2)] .
qed

lemma ok_abort_mode: "arm9_ok c \<Longrightarrow> arm9_ok (abort_mode c)"
  unfolding arm9_ok_def psr_ok_def abort_mode_def Let_def psr_UpdateMode
proof (intro conjI allI)
  fix q
  assume c: "(\<forall>q. bit (psr_get q c) 4) \<and> base_ok c"
  show "bit (psr_get q (c\<lparr>CPSR := (CPSR c AND NOT 0xBF) OR 0x97\<rparr>)) 4"
    using conjunct1 [OF c, rule_format, of q] by (cases q) (simp_all add: bit_simps)
qed (simp add: base_ok_def)

lemma ok_abort_return: "arm9_ok c \<Longrightarrow> bit p 4 \<Longrightarrow> arm9_ok (abort_return p x c)"
  by (simp add: abort_return_def Let_def) (simp add: arm9_ok_def psr_ok_iff base_ok_def)

lemma ok_PrefetchAbort:
  assumes "arm9_ok c" "ARMv5_PrefetchAbort dev hk c = Some d"
  shows "arm9_ok d"
proof -
  have b: "base_ok c" using assms(1) by (simp add: arm9_ok_def)
  let ?e = "abort_return (CPSR c) 2 (abort_mode c)"
  have e: "arm9_ok ?e" by (intro ok_abort_return ok_abort_mode ok_mode assms(1))
  show ?thesis
    using assms(2) ok_fetch [OF e, of dev hk "ExceptionBase c + 0x0C" False] ok_abort_mode [OF assms(1)]
    unfolding PrefetchAbort_returns [OF b] Let_def by (auto split: if_splits)
qed

lemma ok_jump9: "arm9_ok c \<Longrightarrow> arm9_ok (jump9 dev hk a r c)"
proof -
  assume c: "arm9_ok c"
  note f = ok_fetch [OF c, of dev hk a r]
  have "\<And>d. ARMv5_JumpTo dev hk a r c = Some d \<Longrightarrow> arm9_ok d"
    using JumpTo_allowed [of a r c dev hk] JumpTo_denied [of a r c dev hk] ok_PrefetchAbort [OF f, of dev hk] f
    by (cases "pu_allows 0x04 (aligned9 (target9 a r c)) (base9 r c)") auto
  then show ?thesis using c by (simp add: jump9_def split: option.split)
qed

lemma ok_DataAbort: "arm9_ok c \<Longrightarrow> arm9_ok (ARMv5_DataAbort dev hk c)"
  unfolding ARMv5_DataAbort_def Let_def by (intro ok_jump9 ok_abort_return ok_abort_mode ok_mode)

text \<open>The coprocessor keeps the status registers; a write of the control register chooses the vectors.\<close>

lemma psr_cp15 [simp]:
  "psr_ok (UpdateRegionTimings x y c) = psr_ok c" "psr_ok (memset_pu m c) = psr_ok c" "psr_ok (UpdatePURegion n c) = psr_ok c"
  "psr_ok (UpdateDTCMSetting c) = psr_ok c" "psr_ok (UpdateITCMSetting c) = psr_ok c" "psr_ok (ICacheInvalidateAll c) = psr_ok c"
  "psr_ok (ICacheInvalidateByAddr val c) = psr_ok c"
  by (simp_all add: psr_ok_iff UpdateRegionTimings_def memset_pu_def UpdatePURegion_def UpdateDTCMSetting_def
    UpdateITCMSetting_def ICacheInvalidateAll_def ICacheInvalidateByAddr_def Let_def case_prod_beta split: option.split)

lemma base_cp15 [simp]:
  "ExceptionBase (UpdateRegionTimings x y c) = ExceptionBase c" "ExceptionBase (memset_pu m c) = ExceptionBase c"
  "ExceptionBase (UpdatePURegion n c) = ExceptionBase c" "ExceptionBase (UpdateDTCMSetting c) = ExceptionBase c"
  "ExceptionBase (UpdateITCMSetting c) = ExceptionBase c" "ExceptionBase (ICacheInvalidateAll c) = ExceptionBase c"
  "ExceptionBase (ICacheInvalidateByAddr val c) = ExceptionBase c"
  by (simp_all add: UpdateRegionTimings_def memset_pu_def UpdatePURegion_def UpdateDTCMSetting_def
    UpdateITCMSetting_def ICacheInvalidateAll_def ICacheInvalidateByAddr_def Let_def case_prod_beta split: option.split)

lemma ok_fold [simp]: "psr_ok (fold UpdatePURegion ns c) = psr_ok c" "ExceptionBase (fold UpdatePURegion ns c) = ExceptionBase c"
  by (induction ns arbitrary: c) simp_all

lemma ok_regions [simp]:
  "psr_ok (UpdatePURegions u c) = psr_ok c" "ExceptionBase (UpdatePURegions u c) = ExceptionBase c"
  "psr_ok (update_changed D c) = psr_ok c" "ExceptionBase (update_changed D c) = ExceptionBase c"
  by (simp_all add: UpdatePURegions_def update_changed_fold Let_def)

lemma psr_fields [simp]:
  "psr_ok (c\<lparr>CP15Control := v\<rparr>) = psr_ok c" "psr_ok (c\<lparr>PU_DataCacheable := v\<rparr>) = psr_ok c"
  "psr_ok (c\<lparr>PU_CodeCacheable := v\<rparr>) = psr_ok c" "psr_ok (c\<lparr>PU_DataCacheWrite := v\<rparr>) = psr_ok c"
  "psr_ok (c\<lparr>PU_DataRW := v\<rparr>) = psr_ok c" "psr_ok (c\<lparr>PU_CodeRW := v\<rparr>) = psr_ok c" "psr_ok (c\<lparr>PU_Region := r\<rparr>) = psr_ok c"
  "psr_ok (c\<lparr>DTCMSetting := v\<rparr>) = psr_ok c" "psr_ok (c\<lparr>ITCMSetting := v\<rparr>) = psr_ok c"
  "psr_ok (c\<lparr>TraceProcessID := v\<rparr>) = psr_ok c" "psr_ok (c\<lparr>NDS := n\<rparr>) = psr_ok c" "psr_ok (c\<lparr>ExceptionBase := v\<rparr>) = psr_ok c"
  by (simp_all add: psr_ok_iff)

lemma ok_control: "arm9_ok c \<Longrightarrow> arm9_ok (write_control val c)"
  by (simp add: arm9_ok_def write_control_def Let_def) (simp add: base_ok_def)

lemma ok_CP15Write: "arm9_ok c \<Longrightarrow> arm9_ok (ARMv5_CP15Write i val c)"
  using ok_control [of c val] by (simp add: ARMv5_CP15Write_def) (simp add: arm9_ok_def base_ok_def)

lemmas v5_data_defs = ARMv5_DataRead8_def ARMv5_DataRead16_def ARMv5_DataRead32_def ARMv5_DataRead32S_def
  ARMv5_DataWrite8_def ARMv5_DataWrite16_def ARMv5_DataWrite32_def ARMv5_DataWrite32S_def
  ARMv5_BusRead8_def ARMv5_BusRead16_def ARMv5_BusRead32_def ARMv5_BusWrite8_def ARMv5_BusWrite16_def ARMv5_BusWrite32_def
  itcm_store_def dtcm_store_def

lemmas v5_cycle_defs = ARMv5_AddCycles_C_def ARMv5_AddCycles_CI_def ARMv5_AddCycles_CDI_def ARMv5_AddCycles_CD_def

interpretation arm9: cpu_invariant "vt9 dev hk" arm9_ok
proof unfold_locales
  fix c :: "'b arm9" and q p
  assume c: "arm9_ok c"
  show "bit (psr_get q c) 4" using c by (simp add: arm9_ok_def psr_ok_def)
  show "arm9_ok (c\<lparr>CPSR := p\<rparr>)" if "bit p 4" "bit p 5 \<longrightarrow> bit (CPSR c) 5"
    using c that(1) by (rule ok_CPSR)
qed (simp_all add: vt9_def v5_data_defs v5_cycle_defs Let_def case_prod_beta ok_psr_set ok_jump9 ok_DataAbort ok_CP15Write)

lemma ok_Reset: "arm9_ok (ARMv5_Reset dev hk c)"
proof -
  have j: "JumpTo (vt9 dev hk) = jump9 dev hk" by (simp add: vt9_def)
  show ?thesis unfolding ARMv5_Reset_def Reset_def Let_def j
    by (rule ok_jump9) (simp add: arm9_ok_def psr_ok_iff base_ok_def)
qed

lemma ok_code_read [simp]: "arm9_ok (snd (CodeRead32 dev hk a br c)) = arm9_ok c"
  by (rule ok_stays9) simp

lemma ok_step: "arm9_ok c \<Longrightarrow> arm9_ok (ARMv5_step dev hk c)"
  unfolding ARMv5_step_def Let_def case_prod_beta
  by (simp add: arm9.inv_thumb arm9.inv_arm arm9.inv_branches ARMv5_AddCycles_C_def)

lemma ok_turn: "arm9_ok c \<Longrightarrow> arm9_ok (spend_cycles9 (if P then TriggerIRQ (vt9 dev hk) c else c))"
  by (simp add: spend_cycles9_def arm9.inv_exceptions)

lemma ok_at_target [simp]: "arm9_ok (at_target9 c) = arm9_ok c" "arm9_ok (setHalted9 h c) = arm9_ok c"
  by (simp_all add: at_target9_def setHalted9_def)

lemma ok_loop: "ARMv5_loop dev hk c = Some c' \<Longrightarrow> arm9_ok c \<longrightarrow> arm9_ok c'"
proof (erule ARMv5_loop.raw_induct [where P = "\<lambda>dev hk c c'. arm9_ok c \<longrightarrow> arm9_ok c'", rotated], intro impI)
  fix self :: "'a dma_nds_scheme devices \<Rightarrow> 'a hooks9 \<Rightarrow> 'a arm9 \<Rightarrow> 'a arm9 option" and dev hk c c'
  assume IH: "\<And>dev hk c c'. self dev hk c = Some c' \<Longrightarrow> arm9_ok c \<longrightarrow> arm9_ok c'" and ok: "arm9_ok c"
    and r: "(if ARM9Timestamp (NDS c) < ARM9Target (NDS c) then
        let cpu = ARMv5_step dev hk c
        in if Halted (NDS cpu) 0 \<noteq> 0 then
             Some (if Halted (NDS cpu) 0 = 1 \<and> ARM9Timestamp (NDS cpu) < ARM9Target (NDS cpu)
                   then at_target9 cpu else cpu)
           else
             let cpu = (if IRQ_line (NDS cpu) 0 then TriggerIRQ (vt9 dev hk) cpu else cpu)
             in self dev hk (spend_cycles9 cpu)
      else Some c) = Some c'"
  define d where "d = ARMv5_step dev hk c"
  define P where "P = IRQ_line (NDS d) 0"
  have d: "arm9_ok d" unfolding d_def using ok by (rule ok_step)
  note r = r [unfolded Let_def, folded d_def, folded P_def]
  have t: "arm9_ok (spend_cycles9 (if P then TriggerIRQ (vt9 dev hk) d else d))" using d by (rule ok_turn)
  show "arm9_ok c'"
  proof (cases "ARM9Timestamp (NDS c) < ARM9Target (NDS c)")
    case False
    then show ?thesis using r ok by (simp only: if_False option.inject)
  next
    case True
    note r = r [unfolded if_P [OF True]]
    show ?thesis
    proof (cases "Halted (NDS d) 0 \<noteq> 0")
      case True
      then have "c' = at_target9 d \<or> c' = d" using r by (simp only: if_True simp_thms option.inject split: if_split_asm)
      then show ?thesis using d by auto
    next
      case False
      note r [unfolded if_not_P [OF False]]
      then show ?thesis using IH t by blast
    qed
  qed
qed

lemma ok_Execute:
  assumes "ARMv5_Execute dev hk c = Some c'" "arm9_ok c"
  shows "arm9_ok c'"
proof -
  have h: "arm9_ok (setHalted9 0 c)" "arm9_ok (TriggerIRQ (vt9 dev hk) (setHalted9 0 c))"
    using assms(2) by (simp_all add: arm9.inv_exceptions)
  have l: "arm9_ok e" if "arm9_ok d" "ARMv5_loop dev hk d = Some e" for d e using ok_loop [OF that(2)] that(1) by blast
  show ?thesis
    using assms unfolding ARMv5_Execute_def Let_def
    by (auto split: if_splits option.splits dest: l [OF h(1)] l [OF h(2)] l [OF assms(2)])
qed

text \<open>
  C6: the type of the ARM9's state. A reset establishes it; every instruction and the whole
  interpreter loop with its interrupts and aborts keep it, and so does a call of \<^verbatim>\<open>Execute\<close>.
  In a state of the type every jump returns, whatever its target, and the instruction tables
  are indexed in range.
\<close>

theorem ARM9_state_type:
  assumes "arm9_ok c"
  shows "arm9_ok (ARMv5_Reset dev hk c0) \<and>
    arm9_ok (ARMv5_step dev hk c) \<and>
    (ARMv5_loop dev hk c = Some c' \<longrightarrow> arm9_ok c') \<and>
    (ARMv5_Execute dev hk c = Some c' \<longrightarrow> arm9_ok c') \<and>
    ARMv5_JumpTo dev hk a r c = Some (jump9 dev hk a r c) \<and>
    unat (drop_bit 6 (NextInstr c 0) AND 0x3FF) < length THUMBInstrTable \<and>
    unat ((drop_bit 4 (NextInstr c 0) AND 0xF) OR (drop_bit 16 (NextInstr c 0) AND 0xFF0)) < length ARMInstrTable"
proof (intro conjI impI)
  show "arm9_ok (ARMv5_Reset dev hk c0)" by (rule ok_Reset)
  show "arm9_ok (ARMv5_step dev hk c)" using assms by (rule ok_step)
  show "arm9_ok c'" if "ARMv5_loop dev hk c = Some c'" using ok_loop [OF that] assms by simp
  show "arm9_ok c'" if "ARMv5_Execute dev hk c = Some c'" using that assms by (rule ok_Execute)
  show "ARMv5_JumpTo dev hk a r c = Some (jump9 dev hk a r c)"
    using assms JumpTo_returns [of c dev hk a r] by (auto simp: arm9_ok_def jump9_def)
  have "drop_bit 6 (NextInstr c 0) AND 0x3FF \<le> (0x3FF :: u32)" by (rule word_and_le1)
  then show "unat (drop_bit 6 (NextInstr c 0) AND 0x3FF) < length THUMBInstrTable"
    using THUMBInstrTable_agrees by (simp add: word_le_nat_alt)
  show "unat ((drop_bit 4 (NextInstr c 0) AND 0xF) OR (drop_bit 16 (NextInstr c 0) AND 0xFF0)) < length ARMInstrTable"
    using ARMInstrTable_agrees icode_bound by simp
qed

section \<open>Witnesses\<close>

text \<open>An ARM9 after a reset of its coprocessor, with idle hooks.\<close>

definition hooks9_idle :: "'b hooks9" where
  "hooks9_idle = \<lparr>NDS_NocashPrint9 = (\<lambda>_ _ n. n), NDS_MonitorARM9Jump = (\<lambda>_ n. n), NDS_Stop_BadExceptionRegion = (\<lambda>n. n),
     Retimed = (\<lambda>_ _. []), Unassigned9 = 0\<rparr>"

definition arm9_on :: "unit arm9" where
  "arm9_on = (ARMv5_CP15Write 0x911 0x20 (ARMv5_CP15Write 0x910 0x0300000A (ARMv5_CP15Write 0x100 0x00052000 (CP15Reset arm9_zero))))
     \<lparr>CPSR := 0xD3\<rparr>"

lemma arm9_zero_fields [simp]:
  "arm.Num arm9_zero = 0" "CPSR arm9_zero = 0x1F" "NDS arm9_zero = dma_init" "PU_Map arm9_zero = PU_PrivMap"
  "R_SVC arm9_zero = (\<lambda>_. 0x10)" "R_FIQ arm9_zero = (\<lambda>_. 0x10)" "R_IRQ arm9_zero = (\<lambda>_. 0x10)"
  "R_ABT arm9_zero = (\<lambda>_. 0x10)" "R_UND arm9_zero = (\<lambda>_. 0x10)"
  by (simp_all add: arm9_zero_def arm_zero_def arm.defs armv4.defs)

lemmas cp15_unfold = ARMv5_CP15Write_def write_control_def CP15Reset_def UpdatePURegions_def UpdateRegionTimings_def memset_pu_def
  UpdateDTCMSetting_def UpdateITCMSetting_def ICacheInvalidateAll_def region_ids_def tcm_size_def Let_def

lemma arm9_on_fields:
  "ITCMSize arm9_on = 0x2000000" "DTCMBase arm9_on = 0x03000000" "DTCMMask arm9_on = 0xFFFFC000" "NDS arm9_on = dma_init"
  "ExceptionBase arm9_on = 0xFFFF0000" "CPSR arm9_on = 0xD3" "CP15Control arm9_on = 0x52078"
  by (simp_all add: arm9_on_def cp15_unfold)

lemma arm9_on_psr: "psr_ok arm9_on"
  by (simp add: arm9_on_def psr_ok_iff cp15_unfold)

lemma arm9_on_pu: "PU_PrivTable arm9_on i = 7" "PU_UserTable arm9_on i = 7" if "i < 0x100000"
  using that by (simp_all add: arm9_on_def cp15_unfold pu_off_mask_def)

lemma arm9_on_allows: "pu_allows m a arm9_on \<longleftrightarrow> 7 AND m \<noteq> 0"
proof -
  have "unat (drop_bit 12 a) < 0x100000" using unat_u32_less [of a] by (simp add: unat_shr less_mult_imp_div_less)
  then show ?thesis by (simp add: pu_allows_def pu_at_def arm9_on_pu split: pu_map.split)
qed

lemma arm9_on_ok: "arm9_ok arm9_on"
  by (simp add: arm9_ok_def arm9_on_psr base_ok_def arm9_on_fields)

theorem ARM9_jump_returns_witness:
  "\<exists>d. ARMv5_JumpTo no_devices hooks9_idle 0x01000001 False arm9_on = Some d \<and> R d 15 = 0x01000002 \<and> CPSR d = 0xF3"
proof -
  have "base_ok arm9_on" using arm9_on_ok by (simp add: arm9_ok_def)
  from ARM9_jump_returns [OF this, where a = "0x01000001" and r = False and dev = no_devices and hk = hooks9_idle]
  show ?thesis by (simp add: target9_def base9_def aligned9_def arm9_on_allows set_T_def arm9_on_fields) auto
qed

text \<open>The first page, read-only for privileged modes, which may execute code everywhere.\<close>

definition pu_prot :: "unit arm9" where
  "pu_prot = ARMv5_CP15Write 0x503 0x11 pu_demo"

lemma fold_arm [simp]:
  "arm.Num (fold UpdatePURegion ns c) = arm.Num c" "CPSR (fold UpdatePURegion ns c) = CPSR c"
  "PU_Map (fold UpdatePURegion ns c) = PU_Map c"
  by (induction ns arbitrary: c) (simp_all add: UpdatePURegion_def UpdateRegionTimings_def Let_def case_prod_beta)

lemma updates_arm [simp]:
  "arm.Num (update_changed D c) = arm.Num c" "CPSR (update_changed D c) = CPSR c" "PU_Map (update_changed D c) = PU_Map c"
  "arm.Num (UpdatePURegions u c) = arm.Num c" "CPSR (UpdatePURegions u c) = CPSR c" "PU_Map (UpdatePURegions u c) = PU_Map c"
  by (simp_all add: update_changed_fold UpdatePURegions_def UpdateRegionTimings_def memset_pu_def Let_def)

lemma pu_prot_fields:
  "arm.Num pu_prot = 0" "CPSR pu_prot = 0x1F" "PU_Map pu_prot = PU_PrivMap" "ExceptionBase pu_prot = 0"
  by (simp_all add: pu_prot_def pu_demo_def ARMv5_CP15Write_def region_ids_def write_control_def CP15Reset_def
    UpdateDTCMSetting_def UpdateITCMSetting_def ICacheInvalidateAll_def Let_def)

lemma pu_prot_page: "pu_tables 0 pu_prot = (0, 5)"
proof -
  have ns: "no_shadow (changed_regions 0x503 0x11 pu_demo) pu_demo"
    by (simp add: no_shadow_def changed_regions_def nibble_diff_def pu_demo_regs upt_rec)
  have "pu_tables 0 pu_prot = pu_spec 0 pu_prot"
    using CP15Write_ok [OF pu_demo_ok ns] by (simp add: pu_prot_def pu_ok_def)
  also have "\<dots> = pu_spec 0 (pu_demo\<lparr>PU_CodeRW := 0x11\<rparr>)"
    unfolding pu_prot_def using same_regsD(4) [OF same_regs_fold]
    by (simp add: ARMv5_CP15Write_def update_changed_fold)
  also have "\<dots> = (0, 5)"
  proof -
    have r: "in_region (pu_demo\<lparr>PU_CodeRW := 0x11\<rparr>) = in_region pu_demo" by (simp add: fun_eq_iff in_region_def)
    have m: "region_masks 1 (pu_demo\<lparr>PU_CodeRW := 0x11\<rparr>) = (0, 5)"
      by (simp add: region_masks_def pu_demo_regs datarw_masks_def coderw_masks_def)
    have f: "[0..<8] = [0, 1, 2, 3, 4, 5, 6, 7 :: nat]" by (simp add: upt_rec)
    show ?thesis by (simp add: pu_spec_def f r m pu_demo_region pu_demo_regs del: One_nat_def)
  qed
  finally show ?thesis .
qed


theorem ARM9_memory_coherent_witness:
  "fst (ARMv5_DataRead32 no_devices hooks9_idle 0x01008000
     (ARMv5_DataWrite32 no_devices hooks9_idle 0x01000000 0x12345678 arm9_on)) = Some 0x12345678 \<and>
   fst (Read32 no_devices 1 0x02400000 (NDS (ARMv5_DataWrite32S no_devices hooks9_idle 0x02000000 0x12345678 arm9_on))) = 0x12345678"
proof -
  have n: "windows_ok dma_init" "MainRAMMask dma_init = 0x3FFFFF"
    using bus_reset_windows_ok by (simp_all add: dma_init_def windows_ok_def bus_nds.defs swram_maps_def)
  have p: "place9_of 0x01000000 arm9_on = Some (In_ITCM 0)" "place9_of 0x01008000 arm9_on = Some (In_ITCM 0)"
    "place9_of 0x02000000 arm9_on = Some (On_Bus (MRAM, 0))" "ram_place 1 0x02400000 dma_init = Some (MRAM, 0)"
    by (simp_all add: place9_of_def arm9_on_fields itcm_ix_def ITCMPhysicalSize_def in_dtcm_def ram_place_def ram_window_def
      place_of_def n)
  have w: "windows_ok (NDS arm9_on)" by (simp add: arm9_on_fields n)
  let ?dev = "no_devices :: unit dma_nds_scheme devices" and ?hk = "hooks9_idle :: unit hooks9"
  show ?thesis
    using ARM9_memory_coherent [OF w, where a = "0x01000000" and b = "0x01008000" and v = "0x12345678" and
        dev = ?dev and hk = ?hk and e = 0 and d = "ARMv5_DataWrite32 ?dev ?hk 0x01000000 0x12345678 arm9_on"]
      ARM9_memory_coherent [OF w, where a = "0x02000000" and b = "0x02000000" and e = "0x02400000" and v = "0x12345678" and
        dev = ?dev and hk = ?hk and d = "ARMv5_DataWrite32S ?dev ?hk 0x02000000 0x12345678 arm9_on"]
    by (simp add: p arm9_on_allows arm9_on_fields del: One_nat_def)
qed

theorem ARM9_state_type_witness:
  "arm9_ok (ARMv5_step no_devices hooks9_idle arm9_on) \<and>
   ARMv5_JumpTo no_devices hooks9_idle 0xFFFF0000 False arm9_on = Some (jump9 no_devices hooks9_idle 0xFFFF0000 False arm9_on)"
  using ARM9_state_type [OF arm9_on_ok, where dev = no_devices and hk = hooks9_idle and a = "0xFFFF0000" and r = False] by blast

end
