(* ===== verification/Spec2Isabelle.thy ===== *)
theory Spec2Isabelle
  imports Fifo Ring_Buffer Packet_Dispatcher Bit_Field Crc32 Tiny_Vector Rtc_Serial Vram_Access Nds_Invariant Dma_Transfer Arm_Flags Arm_Stack Arm_V5_Step
begin

text \<open>
  A verification library for melonDS HD, an emulator of the Nintendo DS and DSi.

  \<^bold>\<open>The program.\<close> The core, \<^verbatim>\<open>src/src\<close>, is a set of hardware components around one console
  object, \<^verbatim>\<open>NDS\<close> (\<^verbatim>\<open>NDS.cpp\<close>). The console holds the interrupt controllers of its two
  processors (ARM9 and ARM7), the timers, the divider and square root units, the message
  queues between the processors, the shared work RAM switch and the scheduler. Each step of
  the main loop asks the scheduler for the time of the next event, runs the processors (or the
  DMA channels that have stopped them) up to it, and runs the events that are due; an event
  function belongs to a component (clock, graphics, sound, cartridge) and may schedule itself
  again, raise interrupts and start DMA channels. The processors reach the components through
  two buses, whose functions select memory or a device by the address. Video memory is nine
  banks that control registers map into the address spaces of the graphics engines.

  \<^bold>\<open>How the theories correspond to the code.\<close> Machine integers are words of their width, arrays
  are lists, or functions where the index is a plain number; a function that changes an object
  returns it updated; a null pointer is \<open>None\<close>. Definitions keep the names of the code.

  \<^item> \<open>Mds_Prelude\<close>: types and lemmas on words and lists that the components share.
  \<^item> \<open>Fifo\<close>, \<open>Ring_Buffer\<close>: the queues of \<^verbatim>\<open>FIFO.h\<close> with the list each one represents.
  \<^item> \<open>Packet_Dispatcher\<close>: \<^verbatim>\<open>net/PacketDispatcher.cpp\<close>, packets between the instances of a local
    multiplayer game, over ring buffers; refined to lists of packets that drop their oldest.
  \<^item> \<open>Bit_Field\<close>, \<open>Crc32\<close>, \<open>Tiny_Vector\<close>: \<^verbatim>\<open>NonStupidBitfield.h\<close>, \<^verbatim>\<open>CRC32.cpp\<close>, \<^verbatim>\<open>TinyVector.h\<close>, each
    against the set, bit sequence or multiset it stands for.
  \<^item> \<open>Rtc\<close>, \<open>Rtc_Bcd\<close>, \<open>Rtc_Calendar\<close>, \<open>Rtc_Count\<close>, \<open>Rtc_State\<close>, \<open>Rtc_Serial\<close>: the real-time clock,
    \<^verbatim>\<open>RTC.cpp\<close>: its registers, its counting against a calendar of days and seconds, the invariant
    of its date, and the serial protocol bit by bit.
  \<^item> \<open>Vram\<close>, \<open>Vram_Map\<close>, \<open>Vram_Access\<close>: the video memory of \<^verbatim>\<open>GPU.cpp\<close> and \<^verbatim>\<open>GPU.h\<close>: the mapping tables
    are a function of the control registers, and reads and writes are those of the mapped banks.
  \<^item> \<open>Nds_Calls\<close>, \<open>Nds_Core\<close>: the state of the console and its interrupts, processor stops, scheduler,
    keys and shared work RAM. \<open>Nds_Sched\<close> states their properties over a locale of event functions.
  \<^item> \<open>Nds_Math\<close>, \<open>Nds_Timer\<close>, \<open>Nds_Timer_Count\<close>, \<open>Nds_Ipc\<close>: divider and root, timers with a closed form
    of their count, message queues with their abstract specification.
  \<^item> \<open>Nds_System\<close>, \<open>Nds_Invariant\<close>: the console composed with the clock and the modelled event
    functions; the reachable states and their invariant.
  \<^item> \<open>Nds_Bus\<close>, \<open>Nds_Memory\<close>: both buses, with the video memory behind them, and the memory the
    two processors share.
  \<^item> \<open>Dma_Timings\<close>, \<open>Dma\<close>, \<open>Dma_Transfer\<close>: \<^verbatim>\<open>DMA.cpp\<close> and \<^verbatim>\<open>DMA_Timings.cpp\<close>. A locale states what a
    channel needs of a bus; both buses are interpretations of it, and a transfer is shown to be
    the copies of its units however the scheduler cuts it into slices.
  \<^item> \<open>Arm_Core\<close>, \<open>Arm_Alu\<close>, \<open>Arm_LoadStore\<close>, \<open>Arm_Table\<close>: the instructions of both processors,
    \<^verbatim>\<open>ARM.h\<close>, \<^verbatim>\<open>ARMInterpreter.cpp\<close> with its \<^verbatim>\<open>_ALU\<close>, \<^verbatim>\<open>_Branch\<close> and \<^verbatim>\<open>_LoadStore\<close> parts and
    \<^verbatim>\<open>ARM_InstrTable.h\<close>, over a record of the virtual methods of the class \<^verbatim>\<open>ARM\<close>.
  \<^item> \<open>Arm_Decode\<close>, \<open>Arm_Flags\<close>: the two instruction tables against a decoder, and the shifter, the
    flags, the conditions and the multiplications against the definitions of the architecture.
  \<^item> \<open>Arm_V4\<close>, \<open>Arm_Modes\<close>, \<open>Arm_Step\<close>, \<open>Arm_Stack\<close>: the ARM7 (class \<^verbatim>\<open>ARMv4\<close>) on its bus with its
    interpreter loop; modes and banked registers, exceptions and their return; an invariant of
    the state that every instruction keeps, stated over a locale of what an invariant needs; and
    the function frame on the stack through the bus.
  \<^item> \<open>Arm_Cp15\<close>, \<open>Arm_Pu\<close>: the system coprocessor of the ARM9, \<^verbatim>\<open>CP15.cpp\<close>: control, tightly coupled
    memories, protection unit, access times, instruction cache; the permission maps follow the
    registers, but for one kind of write, which is shown to lose the priority of regions.
  \<^item> \<open>Arm_V5\<close>, \<open>Arm_V5_Step\<close>: the ARM9 (class \<^verbatim>\<open>ARMv5\<close>) with aborts and its interpreter loop. A jump
    and the abort it may raise call each other: the model is a partial function, and its
    return is proved for the two places of the exception vectors, which the invariant keeps
    (a second instance of the locale of the ARM7); protection and memory as seen by its
    loads and stores.

  \<^bold>\<open>Interfaces.\<close> Where a component relies on another the laws are a locale that the provider's
  theory interprets: queues (\<open>Fifo\<close>, \<open>Ring_Buffer\<close>), event functions (\<open>Nds_Sched\<close>, interpreted in
  \<open>Nds_System\<close>), the bus and the DMA channel (\<open>Dma_Transfer\<close>), invariants of a processor
  (\<open>Arm_Step\<close>).

  \<^bold>\<open>Loops and bounds.\<close> Loops are structural or carry a measure. Three are partial functions with
  result \<open>None\<close> when they do not return: making room in a packet queue and running a DMA
  channel, which are shown to return, and the interpreter loop, which an instruction of no cost
  may keep from its target. There is no fuel. Devices that are not modelled are parameters: the register space, the GBA slot and
  the wireless interface behind the buses, the event functions of other components, and the
  host's clock.

  \<^bold>\<open>Not modelled.\<close> The recompilers and the OpenGL and compute renderers generate code or drive
  the host's graphics interface; the table of games is data; file formats, sockets, audio output and the
  user interface are input and output; \<^verbatim>\<open>teakra\<close>, \<^verbatim>\<open>fatfs\<close>, \<^verbatim>\<open>xxhash\<close>, \<^verbatim>\<open>sha1\<close>, \<^verbatim>\<open>tiny-AES-c\<close>, \<^verbatim>\<open>dolphin\<close>,
  \<^verbatim>\<open>blip-buf\<close> and \<^verbatim>\<open>toml11\<close> are libraries of others. Saved states copy fields and are left out except
  where a field is recomputed. The pixel pipelines, the sound unit, the wireless unit, the
  cartridge protocols and the DSi devices are parts of the core still without a model.
\<close>

end
